(* ===== verification/QPM_Prelude.thy ===== *)
theory QPM_Prelude
  imports Main "HOL-Library.AList" "HOL-Library.Char_ord" "HOL-Library.List_Lexorder"
begin

text \<open>
  The vocabulary the component theories share.

  \<^item> \<open>exc\<close>: the exceptions the services raise, one constructor per exception class, with
    the text that \<^verbatim>\<open>str(error)\<close> gives. \<open>NoReturn\<close> is not an exception: it is the outcome of a
    call whose loop does not end, and no handler stands around such a call.
  \<^item> \<open>pyval\<close>: the Python values that travel in requests, metadata and status dictionaries.
    A dictionary is an association list in insertion order, which is what Python keeps; its
    keys are strings, as every dictionary of the modelled modules that is not typed
    explicitly has. \<open>PObj\<close> stands for any other object (a float, a handle), given by what the
    code asks of it: its truth value, its text and the result of \<^verbatim>\<open>int(x)\<close>.
  \<^item> the string, integer and dictionary functions of the language that the code calls;
  \<^item> the state-and-exception monad: a statement maps a state to a result (an exception or a
    value) and the state it leaves behind. The state survives an exception, as the attributes
    of a Python object do. \<open>keeps I m\<close> says that \<open>m\<close> preserves \<open>I\<close> on every way out;
    its composition rules are the collection \<open>keeps_rules\<close>.
\<close>

named_theorems keeps_rules \<open>composition rules for the preservation of an invariant\<close>
named_theorems py_simps \<open>evaluation of Python values\<close>

section \<open>Exceptions\<close>

datatype exc =
    ValueError string
  | TypeError string
  | KeyError string
  | IndexError string
  | ZeroDivisionError string
  | AttributeError string
  | OSError string
  | QPMAdmissionUnavailable string
  | QPMAdmissionValidationError string
  | QPMAdmissionPendingCapacity string
  | QPMSchedulerError string
  | QPMSchedulerUnavailable string
  | QPMSchedulerQueueEmpty string
  | QPMTaskNotActive string
  | QTaskNotActive string
  | QPMCredentialError string
  | DEFwError string
  | DEFwExecutionError string
  | DEFwNotReady string
  | DEFwOutOfResources string
  | ProviderError string
  | QPMBindingError string
  | QPMBindingUnavailable string
  | QPMRuntimeChanged string
  | RuntimeError string
  | ServicePlaneError string
  | SystemExit string
  | NoReturn

fun exc_text :: "exc \<Rightarrow> string" where
  "exc_text (ValueError m) = m"
| "exc_text (TypeError m) = m"
| "exc_text (KeyError m) = m"
| "exc_text (IndexError m) = m"
| "exc_text (ZeroDivisionError m) = m"
| "exc_text (AttributeError m) = m"
| "exc_text (OSError m) = m"
| "exc_text (QPMAdmissionUnavailable m) = m"
| "exc_text (QPMAdmissionValidationError m) = m"
| "exc_text (QPMAdmissionPendingCapacity m) = m"
| "exc_text (QPMSchedulerError m) = m"
| "exc_text (QPMSchedulerUnavailable m) = m"
| "exc_text (QPMSchedulerQueueEmpty m) = m"
| "exc_text (QPMTaskNotActive m) = m"
| "exc_text (QTaskNotActive m) = m"
| "exc_text (QPMCredentialError m) = m"
| "exc_text (DEFwError m) = m"
| "exc_text (DEFwExecutionError m) = m"
| "exc_text (DEFwNotReady m) = m"
| "exc_text (DEFwOutOfResources m) = m"
| "exc_text (ProviderError m) = m"
| "exc_text (QPMBindingError m) = m"
| "exc_text (QPMBindingUnavailable m) = m"
| "exc_text (QPMRuntimeChanged m) = m"
| "exc_text (RuntimeError m) = m"
| "exc_text (ServicePlaneError m) = m"
| "exc_text (SystemExit m) = m"
| "exc_text NoReturn = []"

fun exc_type_name :: "exc \<Rightarrow> string" where
  "exc_type_name (ValueError m) = ''ValueError''"
| "exc_type_name (TypeError m) = ''TypeError''"
| "exc_type_name (KeyError m) = ''KeyError''"
| "exc_type_name (IndexError m) = ''IndexError''"
| "exc_type_name (ZeroDivisionError m) = ''ZeroDivisionError''"
| "exc_type_name (AttributeError m) = ''AttributeError''"
| "exc_type_name (OSError m) = ''OSError''"
| "exc_type_name (QPMAdmissionUnavailable m) = ''QPMAdmissionUnavailable''"
| "exc_type_name (QPMAdmissionValidationError m) = ''QPMAdmissionValidationError''"
| "exc_type_name (QPMAdmissionPendingCapacity m) = ''QPMAdmissionPendingCapacity''"
| "exc_type_name (QPMSchedulerError m) = ''QPMSchedulerError''"
| "exc_type_name (QPMSchedulerUnavailable m) = ''QPMSchedulerUnavailable''"
| "exc_type_name (QPMSchedulerQueueEmpty m) = ''QPMSchedulerQueueEmpty''"
| "exc_type_name (QPMTaskNotActive m) = ''QPMTaskNotActive''"
| "exc_type_name (QTaskNotActive m) = ''QTaskNotActive''"
| "exc_type_name (QPMCredentialError m) = ''QPMCredentialError''"
| "exc_type_name (DEFwError m) = ''DEFwError''"
| "exc_type_name (DEFwExecutionError m) = ''DEFwExecutionError''"
| "exc_type_name (DEFwNotReady m) = ''DEFwNotReady''"
| "exc_type_name (DEFwOutOfResources m) = ''DEFwOutOfResources''"
| "exc_type_name (QPMBindingError m) = ''QPMBindingError''"
| "exc_type_name (QPMBindingUnavailable m) = ''QPMBindingUnavailable''"
| "exc_type_name (QPMRuntimeChanged m) = ''QPMRuntimeChanged''"
| "exc_type_name (RuntimeError m) = ''RuntimeError''"
| "exc_type_name (ServicePlaneError m) = ''ServicePlaneError''"
| "exc_type_name (SystemExit m) = ''SystemExit''"
| "exc_type_name (ProviderError m) = ''ProviderError''"
| "exc_type_name NoReturn = []"

section \<open>Strings\<close>

definition is_digit :: "char \<Rightarrow> bool" where
  "is_digit c \<longleftrightarrow> 48 \<le> (of_char c :: nat) \<and> (of_char c :: nat) \<le> 57"

definition is_space :: "char \<Rightarrow> bool" where
  "is_space c \<longleftrightarrow> (let n = (of_char c :: nat) in n = 32 \<or> (9 \<le> n \<and> n \<le> 13) \<or> (28 \<le> n \<and> n \<le> 31))"

definition py_strip :: "string \<Rightarrow> string" where
  "py_strip s = rev (dropWhile is_space (rev (dropWhile is_space s)))"

definition lower_char :: "char \<Rightarrow> char" where
  "lower_char c = (let n = (of_char c :: nat) in if 65 \<le> n \<and> n \<le> 90 then char_of (n + 32) else c)"

definition upper_char :: "char \<Rightarrow> char" where
  "upper_char c = (let n = (of_char c :: nat) in if 97 \<le> n \<and> n \<le> 122 then char_of (n - 32) else c)"

definition py_lower :: "string \<Rightarrow> string" where
  "py_lower s = map lower_char s"

definition py_upper :: "string \<Rightarrow> string" where
  "py_upper s = map upper_char s"

definition replace_char :: "char \<Rightarrow> char \<Rightarrow> string \<Rightarrow> string" where
  "replace_char a b s = map (\<lambda>c. if c = a then b else c) s"

fun starts_with :: "string \<Rightarrow> string \<Rightarrow> bool" where
  "starts_with [] s = True"
| "starts_with (p # ps) [] = False"
| "starts_with (p # ps) (c # cs) = (p = c \<and> starts_with ps cs)"

fun contains_text :: "string \<Rightarrow> string \<Rightarrow> bool" where
  "contains_text p [] = (p = [])"
| "contains_text p (c # cs) = (starts_with p (c # cs) \<or> contains_text p cs)"

fun join_with :: "string \<Rightarrow> string list \<Rightarrow> string" where
  "join_with sep [] = []"
| "join_with sep [x] = x"
| "join_with sep (x # y # ys) = x @ sep @ join_with sep (y # ys)"

fun split_on :: "char \<Rightarrow> string \<Rightarrow> string list" where
  "split_on d [] = [[]]"
| "split_on d (c # cs) =
     (if c = d then [] # split_on d cs
      else (case split_on d cs of [] \<Rightarrow> [[c]] | w # ws \<Rightarrow> (c # w) # ws))"

definition digit_char :: "nat \<Rightarrow> char" where
  "digit_char n = char_of (48 + n)"

fun nat_text :: "nat \<Rightarrow> string" where
  "nat_text n = (if n < 10 then [digit_char n] else nat_text (n div 10) @ [digit_char (n mod 10)])"

declare nat_text.simps [simp del]

definition int_text :: "int \<Rightarrow> string" where
  "int_text i = (if i < 0 then CHR ''-'' # nat_text (nat (- i)) else nat_text (nat i))"

definition isdecimal :: "string \<Rightarrow> bool" where
  "isdecimal s \<longleftrightarrow> s \<noteq> [] \<and> list_all is_digit s"

definition digit_value :: "char \<Rightarrow> nat" where
  "digit_value c = of_char c - 48"

definition decimal_value :: "string \<Rightarrow> nat" where
  "decimal_value s = foldl (\<lambda>acc c. 10 * acc + digit_value c) 0 s"

text \<open>\<^verbatim>\<open>int(text)\<close>: an optional sign and decimal digits, with single underscores between digits.\<close>

fun digits_value :: "bool \<Rightarrow> nat \<Rightarrow> string \<Rightarrow> nat option" where
  "digits_value after_digit acc [] = (if after_digit then Some acc else None)"
| "digits_value after_digit acc (c # cs) =
     (if is_digit c then digits_value True (10 * acc + digit_value c) cs
      else if c = CHR ''_'' \<and> after_digit then digits_value False acc cs
      else None)"

definition int_of_text :: "string \<Rightarrow> int option" where
  "int_of_text s =
     (case py_strip s of
        [] \<Rightarrow> None
      | c # cs \<Rightarrow>
          if c = CHR ''-'' then map_option (\<lambda>n. - int n) (digits_value False 0 cs)
          else if c = CHR ''+'' then map_option int (digits_value False 0 cs)
          else map_option int (digits_value False 0 (c # cs)))"

section \<open>Values\<close>

datatype pyval =
    PNone
  | PBool bool
  | PInt int
  | PStr string
  | PList "pyval list"
  | PTuple "pyval list"
  | PDict "(string \<times> pyval) list"
  | PObj bool string "int option"

type_synonym pydict = "(string \<times> pyval) list"

fun py_truth :: "pyval \<Rightarrow> bool" where
  "py_truth PNone = False"
| "py_truth (PBool b) = b"
| "py_truth (PInt i) = (i \<noteq> 0)"
| "py_truth (PStr s) = (s \<noteq> [])"
| "py_truth (PList xs) = (xs \<noteq> [])"
| "py_truth (PTuple xs) = (xs \<noteq> [])"
| "py_truth (PDict d) = (d \<noteq> [])"
| "py_truth (PObj t s i) = t"

definition py_or :: "pyval \<Rightarrow> pyval \<Rightarrow> pyval" where
  "py_or a b = (if py_truth a then a else b)"

definition is_dict :: "pyval \<Rightarrow> bool" where
  "is_dict v = (case v of PDict d \<Rightarrow> True | _ \<Rightarrow> False)"

definition is_str :: "pyval \<Rightarrow> bool" where
  "is_str v = (case v of PStr s \<Rightarrow> True | _ \<Rightarrow> False)"

text \<open>\<^verbatim>\<open>isinstance(v, int) and not isinstance(v, bool)\<close>\<close>

definition is_int :: "pyval \<Rightarrow> bool" where
  "is_int v = (case v of PInt i \<Rightarrow> True | _ \<Rightarrow> False)"

text \<open>
  Equality of Python values: \<^verbatim>\<open>True == 1\<close>, and two dictionaries are equal when they hold the
  same entries in any order. \<open>py_canon\<close> maps equal values to one representative, so
  \<open>py_eq\<close> is an equivalence by construction.
\<close>

fun py_canon :: "pyval \<Rightarrow> pyval" where
  "py_canon PNone = PNone"
| "py_canon (PBool b) = PInt (of_bool b)"
| "py_canon (PInt i) = PInt i"
| "py_canon (PStr s) = PStr s"
| "py_canon (PList xs) = PList (map py_canon xs)"
| "py_canon (PTuple xs) = PTuple (map py_canon xs)"
| "py_canon (PDict d) = PDict (sort_key fst (map (\<lambda>kv. (fst kv, py_canon (snd kv))) d))"
| "py_canon (PObj t s i) = PObj t s i"

definition py_eq :: "pyval \<Rightarrow> pyval \<Rightarrow> bool" where
  "py_eq a b \<longleftrightarrow> py_canon a = py_canon b"

text \<open>\<^verbatim>\<open>repr(v)\<close> and \<^verbatim>\<open>str(v)\<close>, on the ASCII strings the model has.\<close>

definition hex_char :: "nat \<Rightarrow> char" where
  "hex_char n = (if n < 10 then char_of (48 + n) else char_of (87 + n))"

definition repr_char :: "char \<Rightarrow> char \<Rightarrow> string" where
  "repr_char q c =
     (let n = (of_char c :: nat) in
      if c = q \<or> c = CHR 0x5C then [CHR 0x5C, c]
      else if n = 10 then [CHR 0x5C, CHR ''n'']
      else if n = 13 then [CHR 0x5C, CHR ''r'']
      else if n = 9 then [CHR 0x5C, CHR ''t'']
      else if n < 32 \<or> n = 127 then [CHR 0x5C, CHR ''x'', hex_char (n div 16), hex_char (n mod 16)]
      else [c])"

definition repr_text :: "string \<Rightarrow> string" where
  "repr_text s =
     (let q = (if CHR 0x27 \<in> set s \<and> CHR 0x22 \<notin> set s then CHR 0x22 else CHR 0x27)
      in [q] @ concat (map (repr_char q) s) @ [q])"

fun py_repr :: "pyval \<Rightarrow> string" where
  "py_repr PNone = ''None''"
| "py_repr (PBool b) = (if b then ''True'' else ''False'')"
| "py_repr (PInt i) = int_text i"
| "py_repr (PStr s) = repr_text s"
| "py_repr (PList xs) = ''['' @ join_with '', '' (map py_repr xs) @ '']''"
| "py_repr (PTuple xs) =
     ''('' @ join_with '', '' (map py_repr xs) @ (if length xs = 1 then '','' else []) @ '')''"
| "py_repr (PDict d) =
     [CHR 0x7B] @ join_with '', '' (map (\<lambda>kv. repr_text (fst kv) @ '': '' @ py_repr (snd kv)) d)
       @ [CHR 0x7D]"
| "py_repr (PObj t s i) = s"

definition py_str :: "pyval \<Rightarrow> string" where
  "py_str v = (case v of PStr s \<Rightarrow> s | _ \<Rightarrow> py_repr v)"

text \<open>\<^verbatim>\<open>int(v)\<close>\<close>

definition py_int :: "pyval \<Rightarrow> exc + int" where
  "py_int v =
     (case v of
        PInt i \<Rightarrow> Inr i
      | PBool b \<Rightarrow> Inr (of_bool b)
      | PStr s \<Rightarrow> (case int_of_text s of
                    Some i \<Rightarrow> Inr i
                  | None \<Rightarrow> Inl (ValueError ''invalid literal for int()''))
      | PObj t s (Some i) \<Rightarrow> Inr i
      | _ \<Rightarrow> Inl (TypeError ''int() argument must be a string or a number''))"

text \<open>A number in arithmetic or in a comparison; anything else raises TypeError.\<close>

definition py_number :: "pyval \<Rightarrow> exc + int" where
  "py_number v =
     (case v of
        PInt i \<Rightarrow> Inr i
      | PBool b \<Rightarrow> Inr (of_bool b)
      | _ \<Rightarrow> Inl (TypeError ''unsupported operand type''))"

definition opt_int :: "int option \<Rightarrow> pyval" where
  "opt_int x = (case x of None \<Rightarrow> PNone | Some i \<Rightarrow> PInt i)"

definition opt_str :: "string option \<Rightarrow> pyval" where
  "opt_str x = (case x of None \<Rightarrow> PNone | Some s \<Rightarrow> PStr s)"

lemma opt_int_simps [simp]: "opt_int None = PNone" "opt_int (Some i) = PInt i"
  by (simp_all add: opt_int_def)

lemma opt_str_simps [simp]: "opt_str None = PNone" "opt_str (Some s) = PStr s"
  by (simp_all add: opt_str_def)


section \<open>Dictionaries\<close>

text \<open>
  \<^verbatim>\<open>d[k] = v\<close> writes in place or appends, \<^verbatim>\<open>d.pop(k, None)\<close> removes, \<open>map_of d k\<close> looks up.
\<close>

abbreviation dset :: "'k \<Rightarrow> 'v \<Rightarrow> ('k \<times> 'v) list \<Rightarrow> ('k \<times> 'v) list" where
  "dset \<equiv> AList.update"

abbreviation dpop :: "'k \<Rightarrow> ('k \<times> 'v) list \<Rightarrow> ('k \<times> 'v) list" where
  "dpop \<equiv> AList.delete"

abbreviation dkeys :: "('k \<times> 'v) list \<Rightarrow> 'k list" where
  "dkeys d \<equiv> map fst d"

abbreviation has_key :: "('k \<times> 'v) list \<Rightarrow> 'k \<Rightarrow> bool" where
  "has_key d k \<equiv> map_of d k \<noteq> None"

definition dict_ok :: "('k \<times> 'v) list \<Rightarrow> bool" where
  "dict_ok d \<longleftrightarrow> distinct (dkeys d)"

definition dsetdefault :: "'k \<Rightarrow> 'v \<Rightarrow> ('k \<times> 'v) list \<Rightarrow> ('k \<times> 'v) list" where
  "dsetdefault k v d = (if has_key d k then d else d @ [(k, v)])"

definition dupdate :: "('k \<times> 'v) list \<Rightarrow> ('k \<times> 'v) list \<Rightarrow> ('k \<times> 'v) list" where
  "dupdate d new = foldl (\<lambda>acc kv. dset (fst kv) (snd kv) acc) d new"

text \<open>\<^verbatim>\<open>d.get(k)\<close> and \<^verbatim>\<open>d.get(k, v)\<close> on dictionaries of values.\<close>

definition pget :: "pydict \<Rightarrow> string \<Rightarrow> pyval" where
  "pget d k = (case map_of d k of None \<Rightarrow> PNone | Some v \<Rightarrow> v)"

definition pgetd :: "pydict \<Rightarrow> string \<Rightarrow> pyval \<Rightarrow> pyval" where
  "pgetd d k v = (case map_of d k of None \<Rightarrow> v | Some w \<Rightarrow> w)"

text \<open>
  \<^verbatim>\<open>dict(v or {})\<close>: the entries of a mapping, of nothing when \<open>v\<close> is false; anything else raises.
\<close>

definition py_dict :: "pyval \<Rightarrow> exc + pydict" where
  "py_dict v = (case v of PDict d \<Rightarrow> Inr d | _ \<Rightarrow> Inl (TypeError ''object is not a mapping''))"

definition py_dict_or_empty :: "pyval \<Rightarrow> exc + pydict" where
  "py_dict_or_empty v = (if py_truth v then py_dict v else Inr [])"

text \<open>Statements that only compute and may raise, one after the other.\<close>

definition bindE :: "exc + 'a \<Rightarrow> ('a \<Rightarrow> exc + 'b) \<Rightarrow> exc + 'b" where
  "bindE r f = (case r of Inl e \<Rightarrow> Inl e | Inr x \<Rightarrow> f x)"

lemma bindE_simps [simp]: "bindE (Inr x) f = f x" "bindE (Inl e) f = Inl e"
  by (simp_all add: bindE_def)

lemma bindE_Inr: "bindE r f = Inr y \<longleftrightarrow> (\<exists>x. r = Inr x \<and> f x = Inr y)"
  by (cases r) auto

lemma map_of_dset [simp]: "map_of (dset k v d) = (map_of d)(k \<mapsto> v)"
  by (rule AList.update_conv')

lemma map_of_dpop [simp]: "map_of (dpop k d) = (map_of d)(k := None)"
  by (rule AList.delete_conv')

lemma pget_dset: "pget (dset k v d) k' = (if k = k' then v else pget d k')"
  by (simp add: pget_def)

lemma dict_ok_Nil [simp]: "dict_ok []"
  by (simp add: dict_ok_def)

lemma dict_ok_dset [simp, intro]: "dict_ok d \<Longrightarrow> dict_ok (dset k v d)"
  by (simp add: dict_ok_def AList.distinct_update)

lemma dict_ok_dpop [simp, intro]: "dict_ok d \<Longrightarrow> dict_ok (dpop k d)"
  by (simp add: dict_ok_def AList.distinct_delete)

lemma dict_ok_setdefault [simp, intro]: "dict_ok d \<Longrightarrow> dict_ok (dsetdefault k v d)"
  by (auto simp: dict_ok_def dsetdefault_def map_of_eq_None_iff)

lemma map_of_setdefault:
  "map_of (dsetdefault k v d) = (if has_key d k then map_of d else (map_of d)(k \<mapsto> v))"
  by (auto simp: dsetdefault_def fun_eq_iff map_add_def split: option.splits)

lemma dict_ok_in_set: "dict_ok d \<Longrightarrow> (k, v) \<in> set d \<longleftrightarrow> map_of d k = Some v"
  by (simp add: dict_ok_def)

lemma set_dkeys: "k \<in> set (dkeys d) \<longleftrightarrow> has_key d k"
  by (simp add: map_of_eq_None_iff)

lemma dkeys_dpop: "set (dkeys (dpop k d)) = set (dkeys d) - {k}"
  by (simp add: AList.delete_keys)

lemma dpop_absent: "map_of d k = None \<Longrightarrow> dpop k d = d"
  by (simp add: map_of_eq_None_iff)

section \<open>Statements that change a state and may raise\<close>

type_synonym ('s, 'a) pm = "'s \<Rightarrow> (exc + 'a) \<times> 's"

definition retM :: "'a \<Rightarrow> ('s, 'a) pm" where
  "retM x = (\<lambda>s. (Inr x, s))"

definition raiseM :: "exc \<Rightarrow> ('s, 'a) pm" where
  "raiseM e = (\<lambda>s. (Inl e, s))"

definition liftM :: "exc + 'a \<Rightarrow> ('s, 'a) pm" where
  "liftM r = (\<lambda>s. (r, s))"

definition getM :: "('s \<Rightarrow> 'a) \<Rightarrow> ('s, 'a) pm" where
  "getM f = (\<lambda>s. (Inr (f s), s))"

definition modM :: "('s \<Rightarrow> 's) \<Rightarrow> ('s, unit) pm" where
  "modM f = (\<lambda>s. (Inr (), f s))"

definition bindM :: "('s, 'a) pm \<Rightarrow> ('a \<Rightarrow> ('s, 'b) pm) \<Rightarrow> ('s, 'b) pm" where
  "bindM m f = (\<lambda>s. case m s of (Inl e, t) \<Rightarrow> (Inl e, t) | (Inr x, t) \<Rightarrow> f x t)"

definition seqM :: "('s, 'a) pm \<Rightarrow> ('s, 'b) pm \<Rightarrow> ('s, 'b) pm" where
  "seqM m n = bindM m (\<lambda>_. n)"

text \<open>\<^verbatim>\<open>try: m except Exception as e: h(e)\<close> and \<^verbatim>\<open>try: m finally: f\<close>\<close>

definition tryM :: "('s, 'a) pm \<Rightarrow> (exc \<Rightarrow> ('s, 'a) pm) \<Rightarrow> ('s, 'a) pm" where
  "tryM m h = (\<lambda>s. case m s of (Inl e, t) \<Rightarrow> h e t | (Inr x, t) \<Rightarrow> (Inr x, t))"

text \<open>\<^verbatim>\<open>except Exception\<close>: fuel that is used up is no exception.\<close>

definition catchM :: "('s, 'a) pm \<Rightarrow> (exc \<Rightarrow> ('s, 'a) pm) \<Rightarrow> ('s, 'a) pm" where
  "catchM m h = tryM m (\<lambda>e. if e = NoReturn then raiseM e else h e)"

definition finallyM :: "('s, 'a) pm \<Rightarrow> ('s, 'b) pm \<Rightarrow> ('s, 'a) pm" where
  "finallyM m f =
     (\<lambda>s. case m s of (r, t) \<Rightarrow> (case f t of (Inl e, u) \<Rightarrow> (Inl e, u) | (Inr _, u) \<Rightarrow> (r, u)))"

primrec forM :: "'x list \<Rightarrow> ('x \<Rightarrow> ('s, 'a) pm) \<Rightarrow> ('s, unit) pm" where
  "forM [] f = retM ()"
| "forM (x # xs) f = seqM (f x) (forM xs f)"

text \<open>A loop that appends to a list of results.\<close>

primrec collectM :: "'x list \<Rightarrow> ('x \<Rightarrow> ('s, 'a list) pm) \<Rightarrow> ('s, 'a list) pm" where
  "collectM [] f = retM []"
| "collectM (x # xs) f = bindM (f x) (\<lambda>r. bindM (collectM xs f) (\<lambda>rs. retM (r @ rs)))"

lemmas monad_defs = retM_def raiseM_def liftM_def getM_def modM_def bindM_def seqM_def tryM_def finallyM_def

lemma bindM_ret [simp]: "bindM (retM x) f = f x"
  by (simp add: monad_defs)

lemma bindM_raise [simp]: "bindM (raiseM e) f = raiseM e"
  by (simp add: monad_defs)

lemma bindM_assoc: "bindM (bindM m f) g = bindM m (\<lambda>x. bindM (f x) g)"
  by (auto simp: monad_defs fun_eq_iff split: prod.splits sum.splits)

text \<open>Preservation of a state predicate on normal and exceptional exits alike.\<close>

definition keeps :: "('s \<Rightarrow> bool) \<Rightarrow> ('s, 'a) pm \<Rightarrow> bool" where
  "keeps I m \<longleftrightarrow> (\<forall>s. I s \<longrightarrow> I (snd (m s)))"

lemma keepsI: "(\<And>s. I s \<Longrightarrow> I (snd (m s))) \<Longrightarrow> keeps I m"
  by (simp add: keeps_def)

lemma keepsD: "keeps I m \<Longrightarrow> I s \<Longrightarrow> I (snd (m s))"
  by (simp add: keeps_def)

lemma keeps_ret [keeps_rules]: "keeps I (retM x)"
  by (simp add: keeps_def monad_defs)

lemma keeps_raise [keeps_rules]: "keeps I (raiseM e)"
  by (simp add: keeps_def monad_defs)

lemma keeps_lift [keeps_rules]: "keeps I (liftM r)"
  by (simp add: keeps_def monad_defs)

lemma keeps_get [keeps_rules]: "keeps I (getM f)"
  by (simp add: keeps_def monad_defs)

lemma keeps_mod: "(\<And>s. I s \<Longrightarrow> I (f s)) \<Longrightarrow> keeps I (modM f)"
  by (simp add: keeps_def monad_defs)

lemma keeps_bind [keeps_rules]:
  "keeps I m \<Longrightarrow> (\<And>x. keeps I (f x)) \<Longrightarrow> keeps I (bindM m f)"
  by (auto simp: keeps_def monad_defs split: prod.splits sum.splits)

lemma keeps_seq [keeps_rules]: "keeps I m \<Longrightarrow> keeps I n \<Longrightarrow> keeps I (seqM m n)"
  unfolding seqM_def by (rule keeps_bind)

lemma keeps_try [keeps_rules]:
  "keeps I m \<Longrightarrow> (\<And>e. keeps I (h e)) \<Longrightarrow> keeps I (tryM m h)"
  by (auto simp: keeps_def monad_defs split: prod.splits sum.splits)

lemma keeps_finally [keeps_rules]: "keeps I m \<Longrightarrow> keeps I f \<Longrightarrow> keeps I (finallyM m f)"
  by (auto simp: keeps_def monad_defs split: prod.splits sum.splits)

lemma keeps_if [keeps_rules]: "(b \<Longrightarrow> keeps I m) \<Longrightarrow> (\<not> b \<Longrightarrow> keeps I n) \<Longrightarrow> keeps I (if b then m else n)"
  by simp

lemma keeps_catch [keeps_rules]: "keeps I m \<Longrightarrow> (\<And>e. keeps I (h e)) \<Longrightarrow> keeps I (catchM m h)"
  unfolding catchM_def by (intro keeps_rules)

lemma keeps_case_option [keeps_rules]:
  "(x = None \<Longrightarrow> keeps I m) \<Longrightarrow> (\<And>y. x = Some y \<Longrightarrow> keeps I (f y)) \<Longrightarrow>
   keeps I (case x of None \<Rightarrow> m | Some y \<Rightarrow> f y)"
  by (cases x) auto

lemma keeps_case_prod: "(\<And>a b. x = (a, b) \<Longrightarrow> keeps I (f a b)) \<Longrightarrow> keeps I (case x of (a, b) \<Rightarrow> f a b)"
  by (cases x) simp

lemma keeps_case_sum:
  "(\<And>a. x = Inl a \<Longrightarrow> keeps I (f a)) \<Longrightarrow> (\<And>b. x = Inr b \<Longrightarrow> keeps I (g b)) \<Longrightarrow>
   keeps I (case x of Inl a \<Rightarrow> f a | Inr b \<Rightarrow> g b)"
  by (cases x) simp_all

lemma keeps_for [keeps_rules]: "(\<And>x. keeps I (f x)) \<Longrightarrow> keeps I (forM xs f)"
  by (induction xs) (auto intro: keeps_rules)

lemma keeps_collect [keeps_rules]: "(\<And>x. keeps I (f x)) \<Longrightarrow> keeps I (collectM xs f)"
  by (induction xs) (auto intro: keeps_rules)

lemma keeps_let [keeps_rules]: "(\<And>x. x = e \<Longrightarrow> keeps I (f x)) \<Longrightarrow> keeps I (Let e f)"
  by simp

text \<open>Reading the state and acting on what was read: the reading is a fact about the state.\<close>

lemma keeps_bind_get: "(\<And>s. I s \<Longrightarrow> I (snd (f (g s) s))) \<Longrightarrow> keeps I (bindM (getM g) f)"
  by (simp add: keeps_def monad_defs)

lemma keeps_conj: "keeps I m \<Longrightarrow> keeps J m \<Longrightarrow> keeps (\<lambda>s. I s \<and> J s) m"
  by (simp add: keeps_def)

text \<open>A statement that changes nothing but one component leaves a function of the rest alone.\<close>

definition frames :: "('s \<Rightarrow> 'b) \<Rightarrow> ('s, 'a) pm \<Rightarrow> bool" where
  "frames f m \<longleftrightarrow> (\<forall>s. f (snd (m s)) = f s)"

lemma frames_iff_keeps: "frames f m \<longleftrightarrow> (\<forall>x. keeps (\<lambda>s. f s = x) m)"
  by (auto simp: frames_def keeps_def)

lemma framesD: "frames f m \<Longrightarrow> f (snd (m s)) = f s"
  by (simp add: frames_def)

section \<open>Specifications of statements\<close>

text \<open>
  \<open>valid P m Q E\<close>: from a state with \<open>P\<close>, a normal exit of \<open>m\<close> establishes \<open>Q\<close> of the
  result and the new state, and an exception establishes \<open>E\<close>.
\<close>

named_theorems valid_rules \<open>composition rules for specifications\<close>

definition valid ::
  "('s \<Rightarrow> bool) \<Rightarrow> ('s, 'a) pm \<Rightarrow> ('a \<Rightarrow> 's \<Rightarrow> bool) \<Rightarrow> (exc \<Rightarrow> 's \<Rightarrow> bool) \<Rightarrow> bool" where
  "valid P m Q E \<longleftrightarrow> (\<forall>s. P s \<longrightarrow> (case m s of (Inl e, t) \<Rightarrow> E e t | (Inr x, t) \<Rightarrow> Q x t))"

lemma validI: "(\<And>s. P s \<Longrightarrow> case m s of (Inl e, t) \<Rightarrow> E e t | (Inr x, t) \<Rightarrow> Q x t) \<Longrightarrow> valid P m Q E"
  by (simp add: valid_def)

lemma validD: "valid P m Q E \<Longrightarrow> P s \<Longrightarrow> m s = (Inr x, t) \<Longrightarrow> Q x t"
  by (fastforce simp: valid_def)

lemma validD_raise: "valid P m Q E \<Longrightarrow> P s \<Longrightarrow> m s = (Inl e, t) \<Longrightarrow> E e t"
  by (fastforce simp: valid_def)

text \<open>A specification that admits no exception gives a result.\<close>

lemma valid_returns: "valid P m Q (\<lambda>_ _. False) \<Longrightarrow> P s \<Longrightarrow> \<exists>x t. m s = (Inr x, t) \<and> Q x t"
  by (cases "m s"; cases "fst (m s)") (auto simp: valid_def)

lemma valid_ret: "(\<And>s. P s \<Longrightarrow> Q x s) \<Longrightarrow> valid P (retM x) Q E"
  by (simp add: valid_def monad_defs)

lemma valid_raise: "(\<And>s. P s \<Longrightarrow> E e s) \<Longrightarrow> valid P (raiseM e) Q E"
  by (simp add: valid_def monad_defs)

lemma valid_mod: "(\<And>s. P s \<Longrightarrow> Q () (f s)) \<Longrightarrow> valid P (modM f) Q E"
  by (simp add: valid_def monad_defs)

lemma valid_get: "(\<And>s. P s \<Longrightarrow> Q (f s) s) \<Longrightarrow> valid P (getM f) Q E"
  by (simp add: valid_def monad_defs)

lemma valid_bind: "valid P m R E \<Longrightarrow> (\<And>x. valid (R x) (f x) Q E) \<Longrightarrow> valid P (bindM m f) Q E"
  unfolding valid_def bindM_def by (fastforce split: prod.splits sum.splits)

lemma valid_seq: "valid P m (\<lambda>_. R) E \<Longrightarrow> valid R n Q E \<Longrightarrow> valid P (seqM m n) Q E"
  unfolding seqM_def by (rule valid_bind)

lemma valid_try: "valid P m Q E' \<Longrightarrow> (\<And>e. valid (E' e) (h e) Q E) \<Longrightarrow> valid P (tryM m h) Q E"
  unfolding valid_def tryM_def by (fastforce split: prod.splits sum.splits)

lemma valid_bind_get:
  "(\<And>s0. P s0 \<Longrightarrow> valid (\<lambda>s. s = s0) (f (g s0)) Q E) \<Longrightarrow> valid P (bindM (getM g) f) Q E"
  by (simp add: valid_def monad_defs)

lemma valid_weaken:
  "valid P' m Q' E' \<Longrightarrow> (\<And>s. P s \<Longrightarrow> P' s) \<Longrightarrow> (\<And>x s. Q' x s \<Longrightarrow> Q x s) \<Longrightarrow> (\<And>e s. E' e s \<Longrightarrow> E e s) \<Longrightarrow>
   valid P m Q E"
  unfolding valid_def by (fastforce split: prod.splits sum.splits)

lemma valid_pre: "valid P' m Q E \<Longrightarrow> (\<And>s. P s \<Longrightarrow> P' s) \<Longrightarrow> valid P m Q E"
  by (rule valid_weaken)

lemma keeps_valid: "keeps I m \<Longrightarrow> valid I m (\<lambda>_. I) (\<lambda>_. I)"
  unfolding keeps_def valid_def by (metis (mono_tags, lifting) case_prod_conv old.sum.simps(5,6) prod.collapse sum.exhaust)

lemma valid_keeps: "valid I m (\<lambda>_. I) (\<lambda>_. I) \<Longrightarrow> keeps I m"
  unfolding keeps_def valid_def by (fastforce split: prod.splits sum.splits)

lemma keeps_bind_valid: "valid I m R (\<lambda>_. I) \<Longrightarrow> (\<And>x. valid (R x) (f x) (\<lambda>_. I) (\<lambda>_. I)) \<Longrightarrow> keeps I (bindM m f)"
  by (rule valid_keeps) (rule valid_bind)

lemma valid_case_option:
  "(x = None \<Longrightarrow> valid P m Q E) \<Longrightarrow> (\<And>y. x = Some y \<Longrightarrow> valid P (f y) Q E) \<Longrightarrow>
   valid P (case x of None \<Rightarrow> m | Some y \<Rightarrow> f y) Q E"
  by (cases x) auto

lemma valid_if: "(b \<Longrightarrow> valid P m Q E) \<Longrightarrow> (\<not> b \<Longrightarrow> valid P n Q E) \<Longrightarrow> valid P (if b then m else n) Q E"
  by simp

lemma valid_mod_then:
  "(\<And>s. P s \<Longrightarrow> I (f s)) \<Longrightarrow> keeps I n \<Longrightarrow> valid P (seqM (modM f) n) (\<lambda>_. I) (\<lambda>_. I)"
  by (rule valid_seq [OF valid_mod keeps_valid])

lemma valid_snd: "valid P m (\<lambda>_. I) (\<lambda>_. I) \<Longrightarrow> P s \<Longrightarrow> I (snd (m s))"
  unfolding valid_def by (fastforce split: prod.splits sum.splits)

lemma bindM_get: "bindM (getM g) f s = f (g s) s"
  by (simp add: monad_defs)

lemma bindM_Inr: "m s = (Inr x, t) \<Longrightarrow> bindM m f s = f x t"
  by (simp add: monad_defs)

lemma seqM_mod: "seqM (modM f) n s = n (f s)"
  by (simp add: monad_defs)

text \<open>A sequence returns when its parts do.\<close>

lemma bindM_returns: "bindM m f s = (Inr y, t) \<longleftrightarrow> (\<exists>x u. m s = (Inr x, u) \<and> f x u = (Inr y, t))"
  by (auto simp: bindM_def split: prod.splits sum.splits)

lemma seqM_returns: "seqM m n s = (Inr y, t) \<longleftrightarrow> (\<exists>x u. m s = (Inr x, u) \<and> n u = (Inr y, t))"
  unfolding seqM_def bindM_returns ..

lemma retM_returns: "retM x s = (Inr y, t) \<longleftrightarrow> x = y \<and> s = t"
  by (simp add: retM_def)

lemma liftM_returns: "liftM r s = (Inr x, t) \<longleftrightarrow> r = Inr x \<and> t = s"
  by (auto simp: liftM_def)

lemma tryM_returns: "tryM m h s = (Inr y, t) \<longleftrightarrow> m s = (Inr y, t) \<or> (\<exists>e u. m s = (Inl e, u) \<and> h e u = (Inr y, t))"
  by (auto simp: tryM_def split: prod.splits sum.splits)

lemma catchM_returns:
  "catchM m h s = (Inr x, t) \<longleftrightarrow> m s = (Inr x, t) \<or> (\<exists>e u. m s = (Inl e, u) \<and> e \<noteq> NoReturn \<and> h e u = (Inr x, t))"
  by (auto simp: catchM_def tryM_def raiseM_def split: prod.splits sum.splits)

lemma finallyM_returns: "finallyM m f s = (Inr x, t) \<longleftrightarrow> (\<exists>u y. m s = (Inr x, u) \<and> f u = (Inr y, t))"
  by (auto simp: finallyM_def split: prod.splits sum.splits)

lemma valid_keeps_then: "keeps I m \<Longrightarrow> keeps I n \<Longrightarrow> valid I (seqM m n) (\<lambda>_. I) (\<lambda>_. I)"
  by (rule keeps_valid [OF keeps_seq])

lemma valid_keeps_any: "keeps I m \<Longrightarrow> valid I m (\<lambda>_. I) (\<lambda>_ _. True)"
  by (rule valid_weaken [OF keeps_valid]) auto

lemma valid_collect:
  "(\<And>x xs. valid (R (x # xs)) (f x) (\<lambda>_. R xs) E) \<Longrightarrow> valid (R xs) (collectM xs f) (\<lambda>_. R []) E"
proof (induction xs)
  case Nil
  then show ?case by (simp add: valid_ret)
next
  case (Cons x xs)
  then show ?case by (auto intro!: valid_bind valid_ret)
qed

lemma keeps_collect_in: "(\<And>x. x \<in> set xs \<Longrightarrow> keeps I (f x)) \<Longrightarrow> keeps I (collectM xs f)"
  by (induction xs) (auto intro: keeps_rules)

section \<open>Decimal text\<close>

lemma of_char_digit_char: "n < 10 \<Longrightarrow> (of_char (digit_char n) :: nat) = 48 + n"
  by (simp add: digit_char_def)

lemma is_digit_digit_char: "n < 10 \<Longrightarrow> is_digit (digit_char n)"
  by (simp add: is_digit_def of_char_digit_char)

lemma digit_value_digit_char: "n < 10 \<Longrightarrow> digit_value (digit_char n) = n"
  by (simp add: digit_value_def of_char_digit_char)

lemma nat_text_digits: "list_all is_digit (nat_text n)"
proof (induction n rule: nat_text.induct)
  case (1 n)
  then show ?case
    by (subst nat_text.simps) (auto simp: is_digit_digit_char)
qed

lemma nat_text_not_empty: "nat_text n \<noteq> []"
  by (subst nat_text.simps) auto

lemma decimal_value_append: "decimal_value (s @ [c]) = 10 * decimal_value s + digit_value c"
  by (simp add: decimal_value_def)

lemma decimal_value_nat_text: "decimal_value (nat_text n) = n"
proof (induction n rule: nat_text.induct)
  case (1 n)
  show ?case
  proof (cases "n < 10")
    case True
    then show ?thesis
      by (subst nat_text.simps) (simp add: decimal_value_def digit_value_digit_char)
  next
    case False
    with "1.IH" have "decimal_value (nat_text (n div 10)) = n div 10" by simp
    with False show ?thesis
      by (subst nat_text.simps) (simp add: decimal_value_append digit_value_digit_char)
  qed
qed

lemma isdecimal_nat_text: "isdecimal (nat_text n)"
  by (simp add: isdecimal_def nat_text_digits nat_text_not_empty)

lemma nat_text_inj: "nat_text m = nat_text n \<Longrightarrow> m = n"
  by (metis decimal_value_nat_text)

lemma digit_not_space: "is_digit c \<Longrightarrow> \<not> is_space c"
  by (auto simp: is_digit_def is_space_def Let_def)

lemma dropWhile_digits: "list_all is_digit s \<Longrightarrow> dropWhile is_space s = s"
  by (cases s) (auto simp: digit_not_space)

lemma strip_digits: "list_all is_digit s \<Longrightarrow> py_strip s = s"
  unfolding py_strip_def by (simp add: dropWhile_digits list_all_rev)

lemma strip_digits_newline: "list_all is_digit s \<Longrightarrow> py_strip (s @ [CHR 0x0A]) = s"
proof (cases s)
  case Nil
  then show ?thesis by (simp add: py_strip_def is_space_def)
next
  case (Cons c cs)
  assume "list_all is_digit s"
  moreover have "is_space (CHR 0x0A)" by (simp add: is_space_def)
  ultimately show ?thesis
    using Cons dropWhile_digits [of "rev s"] by (auto simp: py_strip_def digit_not_space)
qed

lemma digits_value_foldl:
  "list_all is_digit s \<Longrightarrow> s \<noteq> [] \<or> b \<Longrightarrow>
   digits_value b acc s = Some (foldl (\<lambda>a c. 10 * a + digit_value c) acc s)"
  by (induction s arbitrary: b acc) auto

lemma int_of_text_nat_text: "int_of_text (nat_text n) = Some (int n)"
proof -
  obtain c cs where nt: "nat_text n = c # cs"
    using nat_text_not_empty by (meson neq_Nil_conv)
  have dig: "list_all is_digit (c # cs)" using nat_text_digits [of n] nt by simp
  then have "c \<noteq> CHR ''-''" "c \<noteq> CHR ''+''" by (auto simp: is_digit_def)
  moreover have "digits_value False 0 (c # cs) = Some (decimal_value (c # cs))"
    unfolding decimal_value_def by (rule digits_value_foldl [OF dig]) simp
  ultimately show ?thesis
    using decimal_value_nat_text [of n] strip_digits [OF dig]
    by (simp add: int_of_text_def nt)
qed

end
