(* ===== verification/QPM_Interfaces.thy ===== *)
theory QPM_Interfaces
  imports QPM_Prelude
begin

text \<open>
  The interfaces the components rely on, as locales with the lemmas their clients need: machines
  whose steps keep an invariant or never lower a rank, sources of identifiers that never issue
  one twice, dictionaries, and pools whose content is only moved. Each locale is interpreted on
  the model's own operations in the theory that defines them.
\<close>

section \<open>Machines\<close>

text \<open>The states a machine reaches from a state.\<close>

inductive reaches :: "('e \<Rightarrow> 's \<Rightarrow> 's) \<Rightarrow> 's \<Rightarrow> 's \<Rightarrow> bool" for step where
  reaches_refl: "reaches step s s"
| reaches_step: "reaches step s t \<Longrightarrow> reaches step s (step e t)"

inductive_cases reachesE: "reaches step s t"

lemma reaches_run: "reaches step s t \<longleftrightarrow> (\<exists>es. t = fold step es s)"
proof
  assume "reaches step s t"
  then show "\<exists>es. t = fold step es s"
  proof induction
    case (reaches_step s t e)
    then obtain es where "t = fold step es s" by blast
    then have "step e t = fold step (es @ [e]) s" by simp
    then show ?case by blast
  qed (metis fold_simps(1))
next
  have "reaches step s (fold step es s)" for es
    by (induction es rule: rev_induct) (auto intro: reaches.intros)
  then show "\<exists>es. t = fold step es s \<Longrightarrow> reaches step s t" by blast
qed

locale invariant_machine =
  fixes step :: "'e \<Rightarrow> 's \<Rightarrow> 's" and inv :: "'s \<Rightarrow> bool"
  assumes step_inv: "inv s \<Longrightarrow> inv (step e s)"
begin

lemma run_inv: "inv s \<Longrightarrow> inv (fold step es s)"
  by (induction es arbitrary: s) (auto intro: step_inv)

lemma reached_inv: "reaches step s t \<Longrightarrow> inv s \<Longrightarrow> inv t"
  using reaches_run run_inv by metis

end

locale started_machine = invariant_machine +
  fixes start :: 's
  assumes start_inv: "inv start"
begin

lemma always: "inv (fold step es start)"
  by (rule run_inv [OF start_inv])

end

locale monotone_machine =
  fixes step :: "'e \<Rightarrow> 's \<Rightarrow> 's" and rank :: "'s \<Rightarrow> nat"
  assumes step_rank: "rank s \<le> rank (step e s)"

sublocale monotone_machine < above: invariant_machine step "\<lambda>s. n \<le> rank s" for n
  by unfold_locales (metis le_trans step_rank)

context monotone_machine
begin

lemma run_rank: "rank s \<le> rank (fold step es s)"
  by (rule above.run_inv) simp

lemma never_below: "rank t < rank s \<Longrightarrow> \<not> reaches step s t"
  using above.reached_inv [where n = "rank s" and s = s and t = t] by auto

end

section \<open>Identifiers\<close>

primrec take_many :: "nat \<Rightarrow> ('s, 'i) pm \<Rightarrow> ('s, 'i list) pm" where
  "take_many 0 m = retM []"
| "take_many (Suc n) m = bindM m (\<lambda>i. bindM (take_many n m) (\<lambda>is. retM (i # is)))"

locale id_source =
  fixes take_id :: "('s, 'i) pm" and issued :: "'s \<Rightarrow> 'i set" and good :: "'s \<Rightarrow> bool"
  assumes take_fresh: "good s \<Longrightarrow> take_id s = (Inr i, t) \<Longrightarrow> i \<notin> issued s"
    and take_issued: "good s \<Longrightarrow> take_id s = (Inr i, t) \<Longrightarrow> issued t = insert i (issued s)"
    and take_good: "good s \<Longrightarrow> take_id s = (Inr i, t) \<Longrightarrow> good t"
begin

lemma take_many_fresh:
  "good s \<Longrightarrow> take_many n take_id s = (Inr is, t) \<Longrightarrow> distinct is \<and> set is \<inter> issued s = {} \<and> length is = n"
proof (induction n arbitrary: s "is")
  case (Suc n)
  then obtain i u js where i: "take_id s = (Inr i, u)" "take_many n take_id u = (Inr js, t)" "is = i # js"
    by (auto simp: monad_defs split: prod.splits sum.splits)
  with Suc.IH [OF take_good [OF Suc.prems(1) i(1)] i(2)] take_fresh [OF Suc.prems(1) i(1)]
    take_issued [OF Suc.prems(1) i(1)]
  show ?case by auto
qed (simp add: monad_defs)

end

section \<open>Dictionaries\<close>

locale dictionary =
  fixes lookup :: "'d \<Rightarrow> 'k \<Rightarrow> 'v option" and put :: "'k \<Rightarrow> 'v \<Rightarrow> 'd \<Rightarrow> 'd" and remove :: "'k \<Rightarrow> 'd \<Rightarrow> 'd"
  assumes lookup_put: "lookup (put k v d) = (lookup d)(k \<mapsto> v)"
    and lookup_remove: "lookup (remove k d) = (lookup d)(k := None)"
begin

lemma lookup_put_all: "lookup (foldl (\<lambda>d kv. put (fst kv) (snd kv) d) d kvs) = lookup d ++ map_of (rev kvs)"
  by (induction kvs arbitrary: d) (auto simp: lookup_put map_add_def fun_eq_iff split: option.splits)

lemma lookup_remove_all: "lookup (foldl (\<lambda>d k. remove k d) d ks) = (lookup d) |` (- set ks)"
  by (induction ks arbitrary: d) (auto simp: lookup_remove restrict_map_def fun_eq_iff)

lemma put_put: "lookup (put k v (put k w d)) = lookup (put k v d)"
  by (simp add: lookup_put)

end

interpretation pydict: dictionary map_of dset dpop
  by unfold_locales simp_all

lemma map_of_dupdate: "map_of (dupdate d new) = map_of d ++ map_of (rev new)"
  unfolding dupdate_def by (rule pydict.lookup_put_all)

section \<open>Pools\<close>

text \<open>A pool of units from which an operation takes a part and to which another returns it.\<close>

locale pool =
  fixes amount :: "'s \<Rightarrow> 'r \<Rightarrow> int" and part :: "'p \<Rightarrow> 'r \<Rightarrow> int"
    and take_part :: "'q \<Rightarrow> 's \<Rightarrow> (exc + 'p) \<times> 's" and give_back :: "'p \<Rightarrow> 's \<Rightarrow> (exc + unit) \<times> 's"
  assumes taken: "take_part q s = (Inr p, t) \<Longrightarrow> amount s r = amount t r + part p r"
    and refused: "take_part q s = (Inl e, t) \<Longrightarrow> amount t = amount s"
    and given: "give_back p s = (Inr u, t) \<Longrightarrow> amount t r = amount s r + part p r"
begin

lemma borrow_return:
  "take_part q s = (Inr p, t) \<Longrightarrow> give_back p t = (Inr u, v) \<Longrightarrow> amount v = amount s"
  by (rule ext) (metis taken given)

text \<open>What is in the pool and what has been lent add up to the same amount after a loan and a return.\<close>

definition lent :: "'p list \<Rightarrow> 'r \<Rightarrow> int" where
  "lent ps r = (\<Sum>p\<leftarrow>ps. part p r)"

lemma lent_take: "take_part q s = (Inr p, t) \<Longrightarrow> amount t r + lent (p # ps) r = amount s r + lent ps r"
  using taken [of q s p t r] by (simp add: lent_def)

lemma lent_give: "give_back p s = (Inr u, t) \<Longrightarrow> amount t r + lent (remove1 p ps) r = amount s r + lent ps r" if "p \<in> set ps"
  using that given [of p s u t r] by (simp add: lent_def sum_list_map_remove1)

end

end
