(* ===== verification/QPM_Metadata.thy ===== *)
theory QPM_Metadata
  imports QPM_Interfaces
begin

text \<open>
  The module-level helpers of \<^verbatim>\<open>services/util/qpm/controller.py\<close> that work on metadata, and
  \<open>normalize_reservation_id\<close> of \<^verbatim>\<open>admission.py\<close>: redaction of sensitive keys, removal of
  None, operation names, reservation identifiers, completion selectors and retention values,
  provider cancel statuses, event filters and configuration integers. A leading underscore of a
  source name is dropped. The lemmas show that redaction leaves no sensitive value at any depth,
  that the clean-up functions are idempotent, and which values each check accepts.
\<close>

section \<open>Reservation identifiers\<close>

definition UINT64_MAX :: int where
  "UINT64_MAX = 18446744073709551615"

definition normalize_reservation_id :: "pyval \<Rightarrow> bool \<Rightarrow> exc + int" where
  "normalize_reservation_id value allow_zero =
     (let bad = QPMAdmissionValidationError ''reservation_id must be a decimal uint64_t value'';
          minimum = (if allow_zero then 0 else 1 :: int);
          check = (\<lambda>n. if n < minimum \<or> n > UINT64_MAX
                        then Inl (QPMAdmissionValidationError
                          (''reservation_id must be between '' @ int_text minimum @ '' and UINT64_MAX''))
                        else Inr n)
      in case value of
           PStr s \<Rightarrow> if \<not> isdecimal s then Inl bad else check (int (decimal_value s))
         | PInt n \<Rightarrow> check n
         | _ \<Rightarrow> Inl bad)"

definition normalize_optional_reservation_id :: "pyval \<Rightarrow> exc + int option" where
  "normalize_optional_reservation_id value =
     (if value = PNone then Inr None
      else case normalize_reservation_id value False of Inl e \<Rightarrow> Inl e | Inr n \<Rightarrow> Inr (Some n))"

section \<open>Redaction\<close>

definition SENSITIVE_METADATA_KEY_PARTS :: "string list" where
  "SENSITIVE_METADATA_KEY_PARTS =
     [''api_key'', ''apikey'', ''authorization'', ''bearer'', ''client_secret'', ''password'',
      ''private_key'', ''secret'', ''token'']"

definition is_sensitive_metadata_key :: "string \<Rightarrow> bool" where
  "is_sensitive_metadata_key key =
     (let name = replace_char (CHR ''-'') (CHR ''_'') (py_lower (py_strip key))
      in if name = ''secret_material'' then False
         else \<exists>part \<in> set SENSITIVE_METADATA_KEY_PARTS. contains_text part name)"

fun redacted_metadata :: "pyval \<Rightarrow> pyval" where
  "redacted_metadata (PDict d) =
     PDict (map (\<lambda>kv. (fst kv, if is_sensitive_metadata_key (fst kv) then PStr ''<redacted>''
                               else redacted_metadata (snd kv))) d)"
| "redacted_metadata (PList xs) = PList (map redacted_metadata xs)"
| "redacted_metadata (PTuple xs) = PList (map redacted_metadata xs)"
| "redacted_metadata v = v"

fun drop_none :: "pyval \<Rightarrow> pyval" where
  "drop_none (PDict d) =
     PDict (map (\<lambda>kv. (fst kv, drop_none (snd kv))) (filter (\<lambda>kv. snd kv \<noteq> PNone) d))"
| "drop_none (PList xs) = PList (map drop_none (filter (\<lambda>v. v \<noteq> PNone) xs))"
| "drop_none (PTuple xs) = PList (map drop_none (filter (\<lambda>v. v \<noteq> PNone) xs))"
| "drop_none v = v"

text \<open>The two functions on a dictionary, as the callers use them.\<close>

definition redacted_dict :: "pydict \<Rightarrow> pydict" where
  "redacted_dict d = (case redacted_metadata (PDict d) of PDict r \<Rightarrow> r | _ \<Rightarrow> [])"

definition drop_none_dict :: "pydict \<Rightarrow> pydict" where
  "drop_none_dict d = (case drop_none (PDict d) of PDict r \<Rightarrow> r | _ \<Rightarrow> [])"

section \<open>Operations and identifiers\<close>

definition DEFAULT_RESERVATION_OPERATIONS :: "string list" where
  "DEFAULT_RESERVATION_OPERATIONS = [''execution'', ''status'', ''result'', ''cancel'']"

definition normalized_operation_name :: "pyval \<Rightarrow> string" where
  "normalized_operation_name value =
     replace_char (CHR ''-'') (CHR ''_'') (py_lower (py_strip (py_str value)))"

definition operation_names_compatible :: "pyval \<Rightarrow> pyval \<Rightarrow> bool" where
  "operation_names_compatible expected requested =
     (let e = normalized_operation_name expected; r = normalized_operation_name requested
      in if e = r then True
         else e = ''execution'' \<and> r \<in> set [''execution'', ''async_run'', ''sync_run''])"

fun add_unseen :: "string list \<Rightarrow> pyval list \<Rightarrow> string list" where
  "add_unseen normalized [] = normalized"
| "add_unseen normalized (item # items) =
     (if item = PNone then add_unseen normalized items
      else let value = normalized_operation_name item
           in if value \<in> set normalized then add_unseen normalized items
              else add_unseen (normalized @ [value]) items)"

definition allowed_reservation_operations :: "pydict \<Rightarrow> pyval \<Rightarrow> string list" where
  "allowed_reservation_operations request operation =
     (let raw_operations = py_or (pget request ''allowed_operations'') (pget request ''operations'');
          operations = (case raw_operations of
                          PStr s \<Rightarrow> [PStr s]
                        | PList xs \<Rightarrow> xs
                        | PTuple xs \<Rightarrow> xs
                        | _ \<Rightarrow> map PStr DEFAULT_RESERVATION_OPERATIONS);
          operations = (if operation \<noteq> PNone then operations @ [operation] else operations)
      in add_unseen [] operations)"

fun first_present :: "pydict \<Rightarrow> string list \<Rightarrow> pyval" where
  "first_present metadata [] = PNone"
| "first_present metadata (key # keys) =
     (if pget metadata key \<noteq> PNone then pget metadata key else first_present metadata keys)"

definition owner_identifier :: "pydict \<Rightarrow> pyval" where
  "owner_identifier owner = first_present owner [''user_id'', ''user'', ''username'', ''account'']"

definition metadata_identifier :: "pydict \<Rightarrow> string \<Rightarrow> string \<Rightarrow> pyval" where
  "metadata_identifier metadata direct_key external_key =
     (let value = pget metadata direct_key
      in if value \<noteq> PNone then value else pget metadata external_key)"

definition metadata_identifier_any :: "pydict \<Rightarrow> string list \<Rightarrow> pyval" where
  "metadata_identifier_any metadata keys = first_present metadata keys"

fun operation_from_sources :: "pyval list \<Rightarrow> pyval" where
  "operation_from_sources [] = PNone"
| "operation_from_sources (source # sources) =
     (case source of
        PDict d \<Rightarrow>
          (let value = pget d ''operation'';
               value = (if value = PNone then pget d ''operation_type'' else value)
           in if value \<noteq> PNone then value else operation_from_sources sources)
      | _ \<Rightarrow> operation_from_sources sources)"

definition operation_from_metadata :: "pydict \<Rightarrow> pyval" where
  "operation_from_metadata metadata =
     operation_from_sources
       [PDict metadata, pgetd metadata ''run_context'' (PDict []), pgetd metadata ''workload'' (PDict [])]"

text \<open>The name of a value's type; objects the model does not look into are called object.\<close>

definition py_type_name :: "pyval \<Rightarrow> string" where
  "py_type_name v =
     (case v of PNone \<Rightarrow> ''NoneType'' | PBool b \<Rightarrow> ''bool'' | PInt i \<Rightarrow> ''int'' | PStr s \<Rightarrow> ''str''
      | PList xs \<Rightarrow> ''list'' | PTuple xs \<Rightarrow> ''tuple'' | PDict d \<Rightarrow> ''dict'' | PObj t s i \<Rightarrow> ''object'')"

definition token_metadata :: "pyval \<Rightarrow> pydict" where
  "token_metadata token =
     (if token = PNone then [] else [(''present'', PBool True), (''type'', PStr (py_type_name token))])"

definition request_metadata :: "pydict \<Rightarrow> pydict \<Rightarrow> pydict" where
  "request_metadata reservation_metadata context_metadata =
     (let metadata = foldl (\<lambda>m kv. dsetdefault (fst kv) (snd kv) m) reservation_metadata context_metadata
      in if context_metadata \<noteq> [] then dset ''execution_context'' (PDict context_metadata) metadata
         else metadata)"

section \<open>Configuration integers\<close>

definition int_or_none :: "pyval \<Rightarrow> int option" where
  "int_or_none value = (case py_int value of Inr i \<Rightarrow> Some i | Inl e \<Rightarrow> None)"

definition int_or_zero :: "pyval \<Rightarrow> int" where
  "int_or_zero value = (case py_int value of Inr i \<Rightarrow> i | Inl e \<Rightarrow> 0)"

definition estimate_total_ns :: "pydict \<Rightarrow> int" where
  "estimate_total_ns estimate =
     int_or_zero (pgetd estimate ''total_ns'' (pgetd estimate ''estimated_total_ns'' (PInt 0)))"

definition estimate_baseline_units :: "pydict \<Rightarrow> int" where
  "estimate_baseline_units estimate = int_or_zero (pgetd estimate ''baseline_units'' (PInt 0))"

definition nonnegative_config_int :: "pyval \<Rightarrow> string \<Rightarrow> exc + int" where
  "nonnegative_config_int value field =
     (case value of
        PBool b \<Rightarrow> Inl (QPMAdmissionValidationError (field @ '' must be an integer''))
      | _ \<Rightarrow> (case py_int value of
               Inl e \<Rightarrow> Inl (QPMAdmissionValidationError (field @ '' must be an integer''))
             | Inr n \<Rightarrow> if n < 0 then Inl (QPMAdmissionValidationError (field @ '' must not be negative''))
                        else Inr n))"

definition positive_config_int :: "pyval \<Rightarrow> string \<Rightarrow> exc + int" where
  "positive_config_int value field =
     (case nonnegative_config_int value field of
        Inl e \<Rightarrow> Inl e
      | Inr n \<Rightarrow> if n = 0 then Inl (QPMAdmissionValidationError (field @ '' must be greater than zero''))
                 else Inr n)"

definition completion_retention_int :: "pyval \<Rightarrow> string \<Rightarrow> exc + int" where
  "completion_retention_int value source =
     (let bad = Inl (ValueError (''invalid QPM completion retention value for '' @ source @ '': '' @ py_repr value));
          positive = (\<lambda>parsed. if parsed \<le> 0
                        then Inl (ValueError (''QPM completion retention value for '' @ source @ '' must be positive''))
                        else Inr parsed)
      in case value of
           PInt i \<Rightarrow> positive i
         | PStr s \<Rightarrow> (case int_of_text (py_strip s) of None \<Rightarrow> bad | Some i \<Rightarrow> positive i)
         | _ \<Rightarrow> bad)"

section \<open>Completions, providers and event filters\<close>

definition completion_payload_failed :: "pydict \<Rightarrow> bool" where
  "completion_payload_failed payload =
     (let rc = pget payload ''rc''
      in if \<not> (rc = PNone \<or> py_eq rc (PInt 0)) then True
         else let outcome = pget payload ''outcome''
              in outcome \<noteq> PNone \<and> py_upper (py_str outcome) = ''FAILED'')"

definition public_fields :: "pydict \<Rightarrow> pydict" where
  "public_fields record = filter (\<lambda>kv. \<not> starts_with ''_qpm_'' (fst kv)) record"

definition completion_record_size_bytes :: "pydict \<Rightarrow> int" where
  "completion_record_size_bytes record = int (length (py_repr (PDict (public_fields record))))"

type_synonym selector = "string \<times> pyval"

definition completion_selectors :: "int option \<Rightarrow> pyval \<Rightarrow> pyval \<Rightarrow> selector list" where
  "completion_selectors reservation_id cid qtask_id =
     (let selectors = (if cid \<noteq> PNone then [(''cid'', cid)] else []) @
                      (if qtask_id \<noteq> PNone then [(''qtask_id'', qtask_id)] else [])
      in case reservation_id of
           None \<Rightarrow> selectors
         | Some r \<Rightarrow> if selectors = [] then [(''reservation'', PInt r)] else selectors)"

definition provider_cancel_is_terminal :: "pyval \<Rightarrow> bool" where
  "provider_cancel_is_terminal status =
     (let terminal_text = (\<lambda>v. py_lower (py_strip (py_str v)) \<notin>
             set ['''', ''pending'', ''unsupported'', ''not-supported'', ''deferred''])
      in if status = PBool True then True
         else if status = PNone \<or> py_eq status (PBool False) then False
         else case status of
                PDict d \<Rightarrow> (let inner = py_or (pget d ''status'') (pget d ''outcome'')
                            in if inner = PNone then False else terminal_text inner)
              | _ \<Rightarrow> terminal_text status)"

definition filter_value_matches :: "pyval \<Rightarrow> pyval \<Rightarrow> bool" where
  "filter_value_matches expected actual =
     (case expected of
        PList xs \<Rightarrow> list_ex (py_eq actual) xs
      | PTuple xs \<Rightarrow> list_ex (py_eq actual) xs
      | _ \<Rightarrow> py_eq expected actual)"

definition normalize_directory_event_type :: "pyval \<Rightarrow> string" where
  "normalize_directory_event_type event_type =
     (if event_type = PNone then ''''
      else replace_char (CHR ''_'') (CHR ''-'') (py_lower (py_strip (py_str event_type))))"

section \<open>Scheduler allocation filters\<close>

definition scheduler_allocation_filters :: "pydict \<Rightarrow> exc + (string \<times> string) list" where
  "scheduler_allocation_filters filters =
     (let allowed = [''scheduler'', ''cluster_name'', ''allocation_id'', ''job_id'', ''user'', ''state''];
          unknown = sort (filter (\<lambda>k. k \<notin> set allowed) (dkeys filters))
      in if unknown \<noteq> []
         then Inl (ValueError (''unsupported scheduler allocation filters: '' @ join_with '', '' unknown))
         else Inr (map (\<lambda>kv. (fst kv, py_str (snd kv))) (filter (\<lambda>kv. snd kv \<noteq> PNone) filters)))"

definition scheduler_allocation_matches :: "pydict \<Rightarrow> (string \<times> string) list \<Rightarrow> bool" where
  "scheduler_allocation_matches summary filters =
     list_all (\<lambda>kv. py_str (pgetd summary (fst kv) (PStr '''')) = snd kv) filters"

definition scheduler_allocation_sort_key :: "pydict \<Rightarrow> string list" where
  "scheduler_allocation_sort_key summary =
     map (\<lambda>k. py_str (pgetd summary k (PStr ''''))) [''scheduler'', ''cluster_name'', ''allocation_id'', ''job_id'']"

definition scheduler_allocation_state :: "string \<Rightarrow> string" where
  "scheduler_allocation_state state =
     (case map_of [(''active'', ''ACTIVE''), (''accepted'', ''ACTIVE''), (''released'', ''RELEASED''),
                   (''cancelled'', ''CANCELLED''), (''expired'', ''EXPIRED''), (''rejected'', ''REJECTED'')] state of
        Some name \<Rightarrow> name | None \<Rightarrow> ''UNKNOWN'')"

section \<open>Lemmas\<close>

text \<open>No sensitive key carries anything but the redaction mark, at any depth.\<close>

fun secret_free :: "pyval \<Rightarrow> bool" where
  "secret_free (PDict d) =
     list_all (\<lambda>kv. if is_sensitive_metadata_key (fst kv) then snd kv = PStr ''<redacted>''
                    else secret_free (snd kv)) d"
| "secret_free (PList xs) = list_all secret_free xs"
| "secret_free (PTuple xs) = list_all secret_free xs"
| "secret_free v = True"

lemma secret_free_redacted: "secret_free (redacted_metadata v)"
  by (induction v rule: redacted_metadata.induct) (auto simp: list_all_iff)

lemma redacted_idem: "redacted_metadata (redacted_metadata v) = redacted_metadata v"
  by (induction v rule: redacted_metadata.induct) auto

text \<open>No container holds None, at any depth.\<close>

fun none_free :: "pyval \<Rightarrow> bool" where
  "none_free (PDict d) = list_all (\<lambda>kv. snd kv \<noteq> PNone \<and> none_free (snd kv)) d"
| "none_free (PList xs) = list_all (\<lambda>v. v \<noteq> PNone \<and> none_free v) xs"
| "none_free (PTuple xs) = list_all (\<lambda>v. v \<noteq> PNone \<and> none_free v) xs"
| "none_free v = True"

lemma drop_none_eq_None: "drop_none v = PNone \<longleftrightarrow> v = PNone"
  by (cases v) auto

lemma none_free_drop_none: "none_free (drop_none v)"
  by (induction v rule: drop_none.induct) (auto simp: list_all_iff drop_none_eq_None)

lemma secret_free_drop_none: "secret_free v \<Longrightarrow> secret_free (drop_none v)"
  by (induction v rule: drop_none.induct) (auto simp: list_all_iff)

lemma redacted_dict_PDict: "PDict (redacted_dict d) = redacted_metadata (PDict d)"
  by (simp add: redacted_dict_def)

lemma drop_none_dict_PDict: "PDict (drop_none_dict d) = drop_none (PDict d)"
  by (simp add: drop_none_dict_def)

lemma add_unseen_distinct: "distinct acc \<Longrightarrow> distinct (add_unseen acc items)"
  by (induction acc items rule: add_unseen.induct) (auto simp: Let_def)

lemma add_unseen_set:
  "set (add_unseen acc items) = set acc \<union> normalized_operation_name ` (set items - {PNone})"
  by (induction acc items rule: add_unseen.induct) (auto simp: Let_def)

lemma normalize_reservation_id_bounds:
  "normalize_reservation_id v z = Inr n \<Longrightarrow> (if z then 0 else 1) \<le> n \<and> n \<le> UINT64_MAX"
  by (auto simp: normalize_reservation_id_def Let_def split: pyval.splits if_splits)

lemma normalize_reservation_id_int [simp]:
  "1 \<le> n \<Longrightarrow> n \<le> UINT64_MAX \<Longrightarrow> normalize_reservation_id (PInt n) False = Inr n"
  by (simp add: normalize_reservation_id_def)

lemma first_present_Some:
  "first_present d ks = v \<Longrightarrow> v \<noteq> PNone \<Longrightarrow> \<exists>k \<in> set ks. pget d k = v"
  by (induction ks) (auto split: if_splits)

lemma positive_config_int_pos: "positive_config_int v f = Inr n \<Longrightarrow> 0 < n"
  by (auto simp: positive_config_int_def nonnegative_config_int_def split: sum.splits pyval.splits if_splits)

lemma nonnegative_config_int_nonneg: "nonnegative_config_int v f = Inr n \<Longrightarrow> 0 \<le> n"
  by (auto simp: nonnegative_config_int_def split: sum.splits pyval.splits if_splits)

text \<open>A reservation identifier that is accepted is inside its range, and an identifier in range is accepted as it is.\<close>

lemma reservation_ids_in_range:
  assumes "normalize_reservation_id v allow_zero = Inr n"
  shows "(if allow_zero then 0 else 1) \<le> n \<and> n \<le> UINT64_MAX \<and> normalize_reservation_id (PInt n) allow_zero = Inr n"
  using normalize_reservation_id_bounds [OF assms] by (auto simp: normalize_reservation_id_def Let_def split: if_splits)

end
