(* ===== verification/QPM_Access.thy ===== *)
theory QPM_Access
  imports QPM_Interfaces
begin

text \<open>
  \<^verbatim>\<open>services/util/device_access.py\<close>: which device a request means, where its credential database is,
  and which entry of it a user may use. The process environment, the working directory and the
  files are arguments, gathered in \<open>access_env\<close>. The lemmas show that a record is selected only
  when the user and the device entry are both enabled, that every value taken from a record comes
  from such an entry, and how the explanation of a refusal relates to the refusal itself.
\<close>

section \<open>The environment\<close>

text \<open>\<open>float_ns v\<close> is \<^verbatim>\<open>int(float(v) * 1_000_000_000)\<close>, floating-point numbers being opaque objects.\<close>

datatype config_file = No_file | Bad_file string | Closed_file string | File pyval

record access_env =
  device_variable :: "string option"
  config_path :: string
  absolute :: "string \<Rightarrow> string"
  files :: "string \<Rightarrow> config_file"
  user_variables :: "string \<Rightarrow> string option"
  whoami :: "string option"
  mode_variable :: "string option"
  float_ns :: "pyval \<Rightarrow> exc + int"

definition QPU_DEVICE_ENV :: string where "QPU_DEVICE_ENV = ''QFW_QPU_DEVICE_ID''"

definition REMOVED_TOP_LEVEL_KEYS :: "(string \<times> string) list" where
  "REMOVED_TOP_LEVEL_KEYS = [(''devices'', ''qpus''), (''credential_providers'', ''credential-providers'')]"

definition REMOVED_DEVICE_KEYS :: "(string \<times> string) list" where
  "REMOVED_DEVICE_KEYS =
     [(''provider_device_id'', ''provider-device-id''), (''quantum-computer'', ''provider-device-id''),
      (''quantum_computer'', ''provider-device-id''), (''credential_db'', ''credential-db''),
      (''credential_provider'', ''credential-provider''), (''execution_owner'', ''execution-owner'')]"

definition REMOVED_CREDENTIAL_PROVIDER_KEYS :: "(string \<times> string) list" where
  "REMOVED_CREDENTIAL_PROVIDER_KEYS =
     [(''credential_db'', ''credential-db''), (''refresh_policy'', ''refresh-policy''), (''ttl_ns'', ''ttl-ns''),
      (''ttl_seconds'', ''ttl-seconds''), (''plugin_module'', ''module''), (''class_name'', ''class'')]"

definition FILE_PROVIDER_TYPES :: "string list" where
  "FILE_PROVIDER_TYPES = [''file'', ''json'', ''file-backed'', ''development-file'']"

definition NO_SECRET_PROVIDER :: string where "NO_SECRET_PROVIDER = ''no-secret''"

definition NO_SECRET_PROVIDER_TYPES :: "string list" where
  "NO_SECRET_PROVIDER_TYPES = [NO_SECRET_PROVIDER, ''none'']"

definition PLUGIN_PROVIDER_TYPES :: "string list" where
  "PLUGIN_PROVIDER_TYPES = [''python'', ''plugin'', ''module'']"

definition ENTITLEMENT_PROVIDER_TYPES :: "string list" where
  "ENTITLEMENT_PROVIDER_TYPES = [''entitlement'']"

section \<open>Files and paths\<close>

definition load_yaml_config :: "access_env \<Rightarrow> string \<Rightarrow> exc + pyval" where
  "load_yaml_config ae path =
     (case files ae path of
        No_file \<Rightarrow> Inl (DEFwExecutionError (''QFw device access config file was not found: '' @ path))
      | Bad_file e \<Rightarrow> Inl (DEFwExecutionError (''failed to parse QFw device access config '' @ path @ '': '' @ e))
      | Closed_file e \<Rightarrow> Inl (OSError e)
      | File v \<Rightarrow> Inr (py_or v (PDict [])))"

definition load_json_config :: "access_env \<Rightarrow> string \<Rightarrow> exc + pyval" where
  "load_json_config ae path =
     (case files ae path of
        No_file \<Rightarrow> Inl (DEFwExecutionError (''QPU credential DB was not found: '' @ path))
      | Bad_file e \<Rightarrow> Inl (DEFwExecutionError (''failed to parse QPU credential DB '' @ path @ '': '' @ e))
      | Closed_file e \<Rightarrow> Inl (OSError e)
      | File v \<Rightarrow> Inr v)"

text \<open>\<^verbatim>\<open>os.path.dirname\<close>, \<^verbatim>\<open>os.path.join\<close> and \<^verbatim>\<open>os.path.isabs\<close> on POSIX paths.\<close>

definition dirname :: "string \<Rightarrow> string" where
  "dirname path =
     (let head = rev (dropWhile (\<lambda>c. c \<noteq> CHR ''/'') (rev path))
      in if list_all (\<lambda>c. c = CHR ''/'') head then head
         else rev (dropWhile (\<lambda>c. c = CHR ''/'') (rev head)))"

definition join_path :: "string \<Rightarrow> string \<Rightarrow> string" where
  "join_path a b =
     (if starts_with ''/'' b then b
      else if a = [] \<or> last a = CHR ''/'' then a @ b else a @ ''/'' @ b)"

definition resolve_relative_path :: "access_env \<Rightarrow> string \<Rightarrow> string \<Rightarrow> string" where
  "resolve_relative_path ae path base_path =
     (if starts_with ''/'' path then path else join_path (dirname (absolute ae base_path)) path)"

definition resolve_qpu_user :: "access_env \<Rightarrow> exc + string" where
  "resolve_qpu_user ae =
     (let failure = DEFwExecutionError ''failed to resolve QPU user. Set QFW_USER for device access.'';
          found = filter (\<lambda>v. case v of Some s \<Rightarrow> s \<noteq> [] | None \<Rightarrow> False)
            (map (user_variables ae) [''QFW_USER'', ''SLURM_JOB_USER'', ''SLURM_USER'', ''USER'', ''LOGNAME''])
      in case found of
           Some s # _ \<Rightarrow> Inr (py_strip s)
         | _ \<Rightarrow> (case whoami ae of
                   None \<Rightarrow> Inl failure
                 | Some out \<Rightarrow> if py_strip out \<noteq> [] then Inr (py_strip out) else Inl failure))"

section \<open>Selecting a device\<close>

text \<open>\<^verbatim>\<open>key in v\<close> for a text.\<close>

definition py_in :: "string \<Rightarrow> pyval \<Rightarrow> exc + bool" where
  "py_in key v =
     (case v of
        PDict d \<Rightarrow> Inr (has_key d key)
      | PList xs \<Rightarrow> Inr (PStr key \<in> set xs)
      | PTuple xs \<Rightarrow> Inr (PStr key \<in> set xs)
      | PStr s \<Rightarrow> Inr (contains_text key s)
      | _ \<Rightarrow> Inl (TypeError ''argument is not iterable''))"

fun reject_removed_keys :: "pyval \<Rightarrow> (string \<times> string) list \<Rightarrow> string \<Rightarrow> exc + unit" where
  "reject_removed_keys mapping [] context = Inr ()"
| "reject_removed_keys mapping ((key, replacement) # rest) context =
     bindE (py_in key mapping) (\<lambda>present.
       if present
       then Inl (DEFwExecutionError (''unsupported '' @ context @ '' key '' @ repr_text key @ ''; use '' @ repr_text replacement))
       else reject_removed_keys mapping rest context)"

fun reject_in_entries :: "pydict \<Rightarrow> (string \<times> string) list \<Rightarrow> string \<Rightarrow> exc + unit" where
  "reject_in_entries [] removed context = Inr ()"
| "reject_in_entries ((name, entry) # rest) removed context =
     bindE (if is_dict entry then reject_removed_keys entry removed (context @ '' '' @ repr_text name) else Inr ())
       (\<lambda>_. reject_in_entries rest removed context)"

text \<open>\<^verbatim>\<open>provider.lower() if provider else None\<close>\<close>

definition lower_or_none :: "pyval \<Rightarrow> exc + string option" where
  "lower_or_none provider =
     (if \<not> py_truth provider then Inr None
      else case provider of
             PStr s \<Rightarrow> Inr (Some (py_lower s))
           | _ \<Rightarrow> Inl (AttributeError ''object has no attribute lower''))"

definition named :: "string option \<Rightarrow> bool" where
  "named t = (case t of Some s \<Rightarrow> s \<noteq> [] | None \<Rightarrow> False)"

text \<open>The device to use when neither the caller nor the environment names one.\<close>

definition default_device :: "string \<Rightarrow> string option \<Rightarrow> pydict \<Rightarrow> exc + pyval" where
  "default_device path provider qpus =
     bindE (if named provider
            then (case filter (\<lambda>(k, c). case c of
                           PDict d \<Rightarrow> py_lower (py_str (pgetd d ''provider'' (PStr []))) = the provider | _ \<Rightarrow> False) qpus of
                    [] \<Rightarrow> Inl (DEFwExecutionError (''QFw device access config '' @ path @
                            '' does not define a QPU for provider '' @ repr_text (the provider)))
                  | [(k, c)] \<Rightarrow> Inr k
                  | _ \<Rightarrow> Inl (DEFwExecutionError (QPU_DEVICE_ENV @
                            '' must be set when multiple QPUs are configured for provider '' @ repr_text (the provider))))
            else Inr [])
       (\<lambda>matched.
          if matched \<noteq> [] then Inr (PStr matched)
          else if length qpus \<noteq> 1
          then Inl (DEFwExecutionError (QPU_DEVICE_ENV @ '' must be set when multiple QPUs are configured''))
          else Inr (PStr (fst (hd qpus))))"

definition alias_names :: "pyval \<Rightarrow> exc + string list" where
  "alias_names aliases =
     (case aliases of
        PStr s \<Rightarrow> Inr [s]
      | PList xs \<Rightarrow> Inr (map py_str xs)
      | PTuple xs \<Rightarrow> Inr (map py_str xs)
      | PDict d \<Rightarrow> Inr (dkeys d)
      | _ \<Rightarrow> Inl (TypeError ''object is not iterable''))"

fun device_by_alias :: "string \<Rightarrow> pydict \<Rightarrow> exc + (string \<times> pydict) option" where
  "device_by_alias wanted [] = Inr None"
| "device_by_alias wanted ((candidate_id, PDict candidate) # rest) =
     bindE (alias_names (pgetd candidate ''aliases'' (PList []))) (\<lambda>aliases.
       let other = pget candidate ''provider-device-id'';
           names = candidate_id # (if py_truth other then py_str other else []) # aliases
       in if wanted \<in> set names then Inr (Some (candidate_id, candidate)) else device_by_alias wanted rest)"
| "device_by_alias wanted (_ # rest) = device_by_alias wanted rest"

text \<open>\<^verbatim>\<open>d.get(key)\<close> for a key of any type: the keys are texts, and a container cannot be a key.\<close>

definition get_key :: "pydict \<Rightarrow> pyval \<Rightarrow> exc + pyval" where
  "get_key d key =
     (case key of
        PStr k \<Rightarrow> Inr (pget d k)
      | PList xs \<Rightarrow> Inl (TypeError ''unhashable type: list'')
      | PDict xs \<Rightarrow> Inl (TypeError ''unhashable type: dict'')
      | _ \<Rightarrow> Inr PNone)"

definition credential_provider_config :: "pydict \<Rightarrow> pyval \<Rightarrow> exc + pydict \<times> bool" where
  "credential_provider_config device_config provider_ref =
     bindE (case provider_ref of
              PDict d \<Rightarrow> Inr (d, True)
            | _ \<Rightarrow>
                (case py_or (pget device_config ''credential-providers'') (PDict []) of
                   PDict providers \<Rightarrow>
                     bindE (get_key providers provider_ref) (\<lambda>entry.
                     bindE (py_dict_or_empty entry) (\<lambda>config.
                       Inr (dsetdefault ''name'' provider_ref config,
                            (case provider_ref of PStr k \<Rightarrow> has_key providers k | _ \<Rightarrow> False))))
                 | _ \<Rightarrow> Inl (DEFwExecutionError ''credential-providers must be a mapping of provider names'')))
       (\<lambda>(config, defined). Inr (dsetdefault ''type'' (PStr ''file'') config, defined))"

definition PASSED_KEYS :: "string list" where
  "PASSED_KEYS =
     [''libraries'', ''preference'', ''caps'', ''resource-type'', ''resource_type'', ''service-crn'', ''iam-endpoint'',
      ''s3-endpoint'', ''s3-endpoint-for-qsapi'', ''s3-bucket'', ''s3-region'', ''job-timeout-seconds'',
      ''poll-interval-seconds'', ''qdmi-device-id'', ''aws-region'', ''s3-results-uri'', ''reservation-arn'',
      ''num-qubits'', ''max-shots'', ''max-concurrent-jobs'', ''project-id'']"

text \<open>The device the caller means, with the key it has in the configuration.\<close>

definition find_device :: "access_env \<Rightarrow> string \<Rightarrow> string option \<Rightarrow> pyval \<Rightarrow> pydict \<Rightarrow> exc + pyval \<times> pydict" where
  "find_device ae path provider device_id qpus =
     bindE (if py_truth device_id then Inr device_id
            else if named (device_variable ae) then Inr (PStr (the (device_variable ae)))
            else default_device path provider qpus) (\<lambda>wanted.
     bindE (get_key qpus wanted) (\<lambda>direct.
       case direct of
         PDict device \<Rightarrow> Inr (wanted, device)
       | _ \<Rightarrow> bindE (device_by_alias (py_str wanted) qpus) (\<lambda>found.
                case found of
                  Some (candidate_id, candidate) \<Rightarrow> Inr (PStr candidate_id, candidate)
                | None \<Rightarrow> Inl (DEFwExecutionError (''QPU device '' @ py_repr wanted @ '' was not found in '' @ path)))))"

definition device_description ::
  "access_env \<Rightarrow> string \<Rightarrow> string option \<Rightarrow> pydict \<Rightarrow> pyval \<Rightarrow> pydict \<Rightarrow> exc + pydict" where
  "device_description ae path provider device_config device_id device =
     (let device_provider = py_lower (py_str (pgetd device ''provider'' (PStr [])));
          url = pget device ''url'';
          credential_db = pget device ''credential-db'';
          credential_provider = pget device ''credential-provider'';
          provider_device_id = py_or (pget device ''provider-device-id'') device_id;
          selected = [(''device_id'', device_id), (''provider_device_id'', PStr (py_strip (py_str provider_device_id))),
            (''provider'', PStr (if device_provider \<noteq> [] then device_provider
                                 else case provider of Some p \<Rightarrow> py_lower p | None \<Rightarrow> [])),
            (''url'', PStr (py_strip (py_str url))),
            (''quantum_computer'', PStr (py_strip (py_str provider_device_id))),
            (''credential_provider'', credential_provider)];
          selected = (if py_truth credential_db
                      then selected @ [(''credential_db'', PStr (resolve_relative_path ae (py_str credential_db) path))]
                      else selected);
          passed = (\<lambda>selected. dupdate selected
             ((map (\<lambda>k. (k, pget device k)) (filter (has_key device) PASSED_KEYS)) @
              (if has_key device ''execution-owner'' then [(''execution_owner'', pget device ''execution-owner'')] else [])))
      in if named provider \<and> device_provider \<noteq> [] \<and> device_provider \<noteq> py_lower (the provider)
         then Inl (DEFwExecutionError (''QPU service cannot use device '' @ py_repr device_id @ '' with provider '' @
                repr_text device_provider @ ''; expected '' @ repr_text (the provider)))
         else if \<not> py_truth url
         then Inl (DEFwExecutionError (''QPU device '' @ py_repr device_id @ '' in '' @ path @ '' does not define url''))
         else if \<not> py_truth credential_db \<and> \<not> py_truth credential_provider
         then Inl (DEFwExecutionError (''QPU device '' @ py_repr device_id @ '' in '' @ path @
                '' does not define credential-db or credential-provider''))
         else if \<not> py_truth credential_provider then Inr (passed selected)
         else bindE (credential_provider_config device_config credential_provider) (\<lambda>(provider_config, defined).
                let selected = dset ''credential_provider_type''
                      (PStr (py_lower (py_strip (py_str (pgetd provider_config ''type'' (PStr ''file'')))))) selected;
                    selected = dset ''credential_provider_defined'' (PBool defined) selected;
                    provider_db = py_or (pget provider_config ''credential-db'')
                      (py_or (pget provider_config ''credential_db'') (pget provider_config ''path''));
                    selected = (if py_truth provider_db \<and> \<not> has_key selected ''credential_db''
                                then dset ''credential_db'' (PStr (resolve_relative_path ae (py_str provider_db) path)) selected
                                else selected)
                in Inr (passed selected)))"

definition select_qpu :: "access_env \<Rightarrow> pyval \<Rightarrow> string \<Rightarrow> pyval \<Rightarrow> pyval \<Rightarrow> exc + pydict" where
  "select_qpu ae config path provider device_id =
     bindE (reject_removed_keys config REMOVED_TOP_LEVEL_KEYS (''QFw device access config '' @ path)) (\<lambda>_.
       case config of
         PDict device_config \<Rightarrow>
           (case pget device_config ''qpus'' of
              PDict qpus \<Rightarrow>
                if qpus = []
                then Inl (DEFwExecutionError (''QFw device access config '' @ path @ '' does not define any qpus''))
                else bindE (reject_in_entries qpus REMOVED_DEVICE_KEYS ''QPU device'') (\<lambda>_.
                  case py_or (pget device_config ''credential-providers'') (PDict []) of
                    PDict providers \<Rightarrow>
                      bindE (reject_in_entries providers REMOVED_CREDENTIAL_PROVIDER_KEYS ''credential provider'') (\<lambda>_.
                      bindE (lower_or_none provider) (\<lambda>provider.
                      bindE (find_device ae path provider device_id qpus) (\<lambda>(device_id, device).
                        device_description ae path provider device_config device_id device)))
                  | _ \<Rightarrow> Inl (DEFwExecutionError (''QFw device access config '' @ path @
                                '' credential-providers must be a mapping'')))
            | _ \<Rightarrow> Inl (DEFwExecutionError (''QFw device access config '' @ path @ '' does not define any qpus'')))
       | _ \<Rightarrow> Inl (AttributeError ''object has no attribute get''))"

definition validate_credential_configuration :: "access_env \<Rightarrow> string \<Rightarrow> pyval \<Rightarrow> exc + pydict" where
  "validate_credential_configuration ae path device_id =
     bindE (load_yaml_config ae path) (\<lambda>config.
     bindE (select_qpu ae config path PNone device_id) (\<lambda>device.
       let name = pget device ''credential_provider''
       in if \<not> py_truth name then Inr device
          else bindE (case config of PDict c \<Rightarrow> py_dict (py_or (pget c ''credential-providers'') (PDict []))
                                   | _ \<Rightarrow> Inl (AttributeError ''object has no attribute get'')) (\<lambda>providers.
               bindE (get_key providers name) (\<lambda>entry.
                 case entry of
                   PDict provider \<Rightarrow>
                     if provider = []
                     then Inl (DEFwExecutionError (''credential provider '' @ py_repr name @ '' for QPU '' @ py_repr device_id @
                            '' is not configured''))
                     else if py_lower (py_strip (py_str (py_or (pget provider ''type'') (PStr [])))) \<in> set [''none'', ''no-secret'']
                     then Inl (DEFwExecutionError (''QPU '' @ py_repr device_id @ '' requires a credential provider''))
                     else Inr device
                 | _ \<Rightarrow> Inl (DEFwExecutionError (''credential provider '' @ py_repr name @ '' for QPU '' @ py_repr device_id @
                            '' is not configured''))))))"

section \<open>Selecting a user's record\<close>

definition get_user_records :: "pyval \<Rightarrow> exc + pydict" where
  "get_user_records credential_db =
     (case credential_db of
        PDict d \<Rightarrow>
          (case pgetd d ''users'' (PDict d) of
             PDict users \<Rightarrow> Inr users
           | _ \<Rightarrow> Inl (DEFwExecutionError ''QPU credential DB users entry is invalid''))
      | _ \<Rightarrow> Inl (AttributeError ''object has no attribute get''))"

definition credential_handle_user :: "pydict \<Rightarrow> pyval \<Rightarrow> pyval" where
  "credential_handle_user users credential_handle =
     (if \<not> py_truth credential_handle then PNone
      else case pget users ''handles'' of
             PDict handles \<Rightarrow>
               (case pget handles (py_str credential_handle) of
                  PStr s \<Rightarrow> PStr s
                | PDict entry \<Rightarrow> py_or (pget entry ''user'') (py_or (pget entry ''user_record'') (pget entry ''credential_user''))
                | _ \<Rightarrow> PNone)
           | _ \<Rightarrow> PNone)"

definition credential_hint_user :: "pyval \<Rightarrow> pyval" where
  "credential_hint_user credential_hint =
     (case credential_hint of
        PDict d \<Rightarrow> py_or (pget d ''user'') (py_or (pget d ''user_record'') (py_or (pget d ''credential_user'') (pget d ''record'')))
      | _ \<Rightarrow> PNone)"

fun add_candidates :: "string list \<Rightarrow> pyval list \<Rightarrow> string list" where
  "add_candidates candidates [] = candidates"
| "add_candidates candidates (v # vs) =
     (let name = py_strip (py_str v)
      in add_candidates (if v = PNone \<or> name = [] \<or> name \<in> set candidates then candidates else candidates @ [name]) vs)"

definition credential_record_candidates :: "pydict \<Rightarrow> pyval \<Rightarrow> pyval \<Rightarrow> pyval \<Rightarrow> string list" where
  "credential_record_candidates users user credential_hint credential_handle =
     add_candidates []
       [credential_handle_user users credential_handle, credential_hint_user credential_hint,
        if is_str credential_handle then credential_handle else PNone,
        if is_str credential_hint then credential_hint else PNone, user]"

text \<open>The entry of the first key that has a mapping; \<open>None\<close> when it is not enabled.\<close>

fun enabled_entry :: "pydict \<Rightarrow> pyval list \<Rightarrow> pydict option" where
  "enabled_entry devices [] = None"
| "enabled_entry devices (key # keys) =
     (case key of
        PStr k \<Rightarrow>
          (if k = [] then enabled_entry devices keys
           else case pget devices k of
                  PDict entry \<Rightarrow> if pget entry ''enabled'' = PBool True then Some entry else None
                | _ \<Rightarrow> enabled_entry devices keys)
      | _ \<Rightarrow> enabled_entry devices keys)"

definition entitled_device_record :: "pyval \<Rightarrow> pyval \<Rightarrow> pyval \<Rightarrow> pydict option" where
  "entitled_device_record record device_id provider_device_id =
     (case record of
        PDict d \<Rightarrow>
          if pget d ''enabled'' \<noteq> PBool True then None
          else (case pget d ''devices'' of
                  PDict devices \<Rightarrow> enabled_entry devices [device_id, provider_device_id]
                | _ \<Rightarrow> None)
      | _ \<Rightarrow> None)"

definition user_device_value :: "pyval \<Rightarrow> pyval \<Rightarrow> pyval \<Rightarrow> string \<Rightarrow> string option" where
  "user_device_value record device_id provider_device_id key =
     (case entitled_device_record record device_id provider_device_id of
        None \<Rightarrow> None
      | Some entry \<Rightarrow> if py_truth (pget entry key) then Some (py_strip (py_str (pget entry key))) else None)"

definition get_api_key_from_user_record :: "pyval \<Rightarrow> pyval \<Rightarrow> pyval \<Rightarrow> string option" where
  "get_api_key_from_user_record record device_id provider_device_id =
     user_device_value record device_id provider_device_id ''api_key''"

definition get_service_crn_from_user_record :: "pyval \<Rightarrow> pyval \<Rightarrow> pyval \<Rightarrow> string option" where
  "get_service_crn_from_user_record record device_id provider_device_id =
     user_device_value record device_id provider_device_id ''service_crn''"

definition get_project_id_from_user_record :: "pyval \<Rightarrow> pyval \<Rightarrow> pyval \<Rightarrow> string option" where
  "get_project_id_from_user_record record device_id provider_device_id =
     user_device_value record device_id provider_device_id ''project_id''"

definition OBJECT_STORAGE_SECRET_KEYS :: "string list" where
  "OBJECT_STORAGE_SECRET_KEYS = [''aws_access_key_id'', ''aws_secret_access_key'']"

definition get_object_storage_from_user_record :: "pyval \<Rightarrow> pyval \<Rightarrow> pyval \<Rightarrow> pydict" where
  "get_object_storage_from_user_record record device_id provider_device_id =
     (let entry = (case entitled_device_record record device_id provider_device_id of Some e \<Rightarrow> e | None \<Rightarrow> [])
      in map (\<lambda>k. (k, PStr (py_strip (py_str (pget entry k)))))
           (filter (\<lambda>k. py_truth (pget entry k)) OBJECT_STORAGE_SECRET_KEYS))"

section \<open>Explaining a refusal\<close>

fun entry_problem :: "pydict \<Rightarrow> bool \<Rightarrow> pyval list \<Rightarrow> string option option" where
  "entry_problem devices need_api_key [] = None"
| "entry_problem devices need_api_key (key # keys) =
     (case key of
        PStr k \<Rightarrow>
          (if k = [] \<or> \<not> has_key devices k then entry_problem devices need_api_key keys
           else case pget devices k of
                  PDict entry \<Rightarrow>
                    if pget entry ''enabled'' \<noteq> PBool True
                    then Some (Some (''the entry for '' @ repr_text k @ '' is not enabled; enabled must be the JSON boolean true''))
                    else if need_api_key \<and> py_strip (py_str (py_or (pget entry ''api_key'') (PStr []))) = []
                    then Some (Some (''the entry for '' @ repr_text k @ '' has no usable api_key; an empty string counts as '' @
                           ''missing, and the packaged file ships empty placeholders to fill in''))
                    else Some None
                | _ \<Rightarrow> Some (Some (''the entry for '' @ repr_text k @ '' is not a mapping'')))
      | _ \<Rightarrow> entry_problem devices need_api_key keys)"

definition entitlement_problem :: "pyval \<Rightarrow> pyval \<Rightarrow> pyval \<Rightarrow> bool \<Rightarrow> string option" where
  "entitlement_problem record device_id provider_device_id need_api_key =
     (case record of
        PDict d \<Rightarrow>
          if pget d ''enabled'' \<noteq> PBool True
          then Some ''the user entry is not enabled; enabled must be the JSON boolean true''
          else (case pget d ''devices'' of
                  PDict devices \<Rightarrow>
                    (case entry_problem devices need_api_key [device_id, provider_device_id] of
                       Some problem \<Rightarrow> problem
                     | None \<Rightarrow>
                         (let wanted = filter py_truth [device_id, provider_device_id]
                          in if wanted = [] then Some ''the lookup named no device''
                             else Some (''the user entry has no device named '' @ join_with '' or '' (map py_repr wanted))))
                | _ \<Rightarrow> Some ''the user entry has no devices mapping'')
      | _ \<Rightarrow> Some ''its entry is not a mapping'')"

definition entitlement_detail :: "pydict \<Rightarrow> string list \<Rightarrow> pyval \<Rightarrow> pyval \<Rightarrow> bool \<Rightarrow> string" where
  "entitlement_detail users candidates device_id provider_device_id need_api_key =
     (let reasons = concat (map (\<lambda>key.
            if pget users key = PNone then [repr_text key @ '' has no entry'']
            else case entitlement_problem (pget users key) device_id provider_device_id need_api_key of
                   Some problem \<Rightarrow> [repr_text key @ '': '' @ problem] | None \<Rightarrow> []) candidates)
      in if reasons = [] then [] else '': '' @ join_with ''; '' reasons)"

section \<open>Looking up credentials\<close>

text \<open>The first candidate whose record passes the test.\<close>

fun first_record :: "pydict \<Rightarrow> (pyval \<Rightarrow> bool) \<Rightarrow> string list \<Rightarrow> (string \<times> pyval) option" where
  "first_record users ok [] = None"
| "first_record users ok (key # keys) =
     (if pget users key \<noteq> PNone \<and> ok (pget users key) then Some (key, pget users key)
      else first_record users ok keys)"

definition select_user_record ::
  "pyval \<Rightarrow> pyval \<Rightarrow> pyval \<Rightarrow> pyval \<Rightarrow> pyval \<Rightarrow> pyval \<Rightarrow> exc + string \<times> pyval" where
  "select_user_record credential_db user device_id provider_device_id credential_hint credential_handle =
     bindE (get_user_records credential_db) (\<lambda>users.
       let candidates = credential_record_candidates users user credential_hint credential_handle
       in case first_record users (\<lambda>r. named (get_api_key_from_user_record r device_id provider_device_id)) candidates of
            Some found \<Rightarrow> Inr found
          | None \<Rightarrow> Inl (DEFwExecutionError (''QPU credential DB does not contain an enabled entitlement and API key for user '' @
              py_repr user @ '' and device '' @ py_repr device_id @
              entitlement_detail users candidates device_id provider_device_id True)))"

definition select_entitled_record ::
  "pyval \<Rightarrow> pyval \<Rightarrow> pyval \<Rightarrow> pyval \<Rightarrow> pyval \<Rightarrow> pyval \<Rightarrow> exc + string \<times> pyval" where
  "select_entitled_record credential_db user device_id provider_device_id credential_hint credential_handle =
     bindE (get_user_records credential_db) (\<lambda>users.
       let candidates = credential_record_candidates users user credential_hint credential_handle
       in case first_record users (\<lambda>r. entitled_device_record r device_id provider_device_id \<noteq> None) candidates of
            Some found \<Rightarrow> Inr found
          | None \<Rightarrow> Inl (DEFwExecutionError (''QPU credential DB does not contain an enabled entitlement for user '' @
              py_repr user @ '' and device '' @ py_repr device_id @
              entitlement_detail users candidates device_id provider_device_id False)))"

definition entitlement_credentials :: "access_env \<Rightarrow> pydict \<Rightarrow> pyval \<Rightarrow> pyval \<Rightarrow> pyval \<Rightarrow> pyval \<Rightarrow> exc + pydict" where
  "entitlement_credentials ae device user credential_db_path credential_hint credential_handle =
     (if \<not> py_truth credential_db_path
      then Inl (DEFwExecutionError (''QPU device '' @ py_repr (pget device ''device_id'') @ '' names entitlement credential provider '' @
             py_repr (pget device ''credential_provider'') @ '', which needs a credential-db to read entitlements from''))
      else bindE (load_json_config ae (py_str credential_db_path)) (\<lambda>db.
           bindE (select_entitled_record db user (pget device ''device_id'') (pget device ''provider_device_id'')
                    credential_hint credential_handle) (\<lambda>(key, record).
             Inr [(''user'', PStr key), (''api_key'', PNone), (''service_crn'', PNone),
                  (''project_id'', opt_str (get_project_id_from_user_record record (pget device ''device_id'')
                     (pget device ''provider_device_id'')))])))"

definition credentials_without_a_database :: "pydict \<Rightarrow> pyval \<Rightarrow> exc + pydict" where
  "credentials_without_a_database device user =
     (let provider_type = py_or (pget device ''credential_provider_type'') (PStr ''file'');
          name = py_repr (pget device ''credential_provider'');
          lead = ''QPU device '' @ py_repr (pget device ''device_id'')
      in if provider_type \<in> PStr ` set NO_SECRET_PROVIDER_TYPES
         then Inr [(''user'', user), (''api_key'', PNone), (''service_crn'', PNone)]
         else if pget device ''credential_provider_defined'' = PBool False
         then Inl (DEFwExecutionError (lead @ '' names credential provider '' @ name @
                '', which is not defined under credential-providers, so there is no credential-db to read an API key from''))
         else if provider_type \<in> PStr ` set PLUGIN_PROVIDER_TYPES
         then Inl (DEFwExecutionError (lead @ '' uses the plugin credential provider '' @ name @
                '', which only the QPM reservation path can resolve. Set QFW_QC_URL and QFW_API_KEY to use this device '' @
                ''outside a reservation''))
         else Inl (DEFwExecutionError (lead @ '' names credential provider '' @ name @ '' of type '' @ py_repr provider_type @
                '', which defines no credential-db to read an API key from'')))"

definition resolve_qpu_credentials :: "access_env \<Rightarrow> pydict \<Rightarrow> pyval \<Rightarrow> pyval \<Rightarrow> pyval \<Rightarrow> exc + pydict" where
  "resolve_qpu_credentials ae device user credential_hint credential_handle =
     bindE (if py_truth user then Inr user else map_sum id PStr (resolve_qpu_user ae)) (\<lambda>user.
       let path = pget device ''credential_db'';
           device_id = pget device ''device_id'';
           provider_device_id = pget device ''provider_device_id''
       in if pget device ''credential_provider_type'' \<in> PStr ` set ENTITLEMENT_PROVIDER_TYPES
          then entitlement_credentials ae device user path credential_hint credential_handle
          else if \<not> py_truth path then credentials_without_a_database device user
          else bindE (load_json_config ae (py_str path)) (\<lambda>db.
               bindE (select_user_record db user device_id provider_device_id credential_hint credential_handle)
                 (\<lambda>(key, record).
               let api_key = get_api_key_from_user_record record device_id provider_device_id
               in if \<not> named api_key
                  then Inl (DEFwExecutionError (''QPU credential DB does not contain an API key for user '' @ repr_text key @
                         '' and device '' @ py_repr device_id))
                  else Inr (dupdate
                    [(''user'', PStr key), (''api_key'', opt_str api_key),
                     (''service_crn'', opt_str (get_service_crn_from_user_record record device_id provider_device_id)),
                     (''project_id'', opt_str (get_project_id_from_user_record record device_id provider_device_id))]
                    (get_object_storage_from_user_record record device_id provider_device_id)))))"

definition resolve_device_access :: "access_env \<Rightarrow> pyval \<Rightarrow> pyval \<Rightarrow> pyval \<Rightarrow> pyval \<Rightarrow> pyval \<Rightarrow> exc + pydict" where
  "resolve_device_access ae provider device_id user credential_hint credential_handle =
     bindE (load_yaml_config ae (config_path ae)) (\<lambda>config.
     bindE (select_qpu ae config (config_path ae) provider device_id) (\<lambda>device.
     bindE (resolve_qpu_credentials ae device user credential_hint credential_handle) (\<lambda>credentials.
       Inr (dupdate
         [(''device_id'', pget device ''device_id''), (''provider_device_id'', pget device ''provider_device_id''),
          (''provider'', pget device ''provider''), (''url'', pget device ''url''), (''api_key'', pget credentials ''api_key''),
          (''user'', pget credentials ''user''), (''quantum_computer'', pget device ''provider_device_id''),
          (''service_crn'', pget credentials ''service_crn''), (''project_id'', pget credentials ''project_id'')]
         (map (\<lambda>k. (k, pget credentials k)) (filter (\<lambda>k. py_truth (pget credentials k)) OBJECT_STORAGE_SECRET_KEYS))))))"

section \<open>Lemmas\<close>

text \<open>What makes a record usable for a device: the user and the device entry are both enabled.\<close>

definition entitled :: "pyval \<Rightarrow> pyval \<Rightarrow> pyval \<Rightarrow> pydict \<Rightarrow> bool" where
  "entitled record device_id provider_device_id entry \<longleftrightarrow>
     (\<exists>d devices k. record = PDict d \<and> pget d ''enabled'' = PBool True \<and> pget d ''devices'' = PDict devices \<and>
        PStr k \<in> {device_id, provider_device_id} \<and> k \<noteq> [] \<and> pget devices k = PDict entry \<and>
        pget entry ''enabled'' = PBool True)"

lemma enabled_entry_Some:
  "enabled_entry devices keys = Some entry \<Longrightarrow>
   \<exists>k. PStr k \<in> set keys \<and> k \<noteq> [] \<and> pget devices k = PDict entry \<and> pget entry ''enabled'' = PBool True"
  by (induction keys) (auto split: pyval.splits if_splits)

lemma entitled_record:
  "entitled_device_record record device_id provider_device_id = Some entry \<Longrightarrow> entitled record device_id provider_device_id entry"
  by (auto simp: entitled_device_record_def entitled_def split: pyval.splits if_splits dest!: enabled_entry_Some)

lemma first_record_Some:
  "first_record users ok keys = Some (key, record) \<Longrightarrow> key \<in> set keys \<and> pget users key = record \<and> ok record"
  by (induction keys) (auto split: if_splits)

lemma api_key_entitled:
  assumes "get_api_key_from_user_record record device_id provider_device_id = Some api_key"
  shows "\<exists>entry. entitled record device_id provider_device_id entry \<and> py_truth (pget entry ''api_key'') \<and>
    api_key = py_strip (py_str (pget entry ''api_key''))"
proof -
  from assms obtain entry where entry: "entitled_device_record record device_id provider_device_id = Some entry"
    "py_truth (pget entry ''api_key'')" "api_key = py_strip (py_str (pget entry ''api_key''))"
    by (auto simp: get_api_key_from_user_record_def user_device_value_def split: option.splits if_splits)
  then show ?thesis using entitled_record by blast
qed

lemma named_Some: "named t \<longleftrightarrow> (\<exists>s. t = Some s \<and> s \<noteq> [])"
  by (auto simp: named_def split: option.splits)

text \<open>A record is handed out only to a candidate whose entry for the device is enabled and has a key.\<close>

lemma selected_user_record:
  assumes "select_user_record db user device_id provider_device_id hint hdl = Inr (key, record)"
  shows "\<exists>users entry. get_user_records db = Inr users \<and> key \<in> set (credential_record_candidates users user hint hdl) \<and>
    pget users key = record \<and> entitled record device_id provider_device_id entry \<and>
    get_api_key_from_user_record record device_id provider_device_id = Some (py_strip (py_str (pget entry ''api_key''))) \<and>
    py_strip (py_str (pget entry ''api_key'')) \<noteq> []"
proof -
  from assms obtain users where users: "get_user_records db = Inr users"
    "first_record users (\<lambda>r. named (get_api_key_from_user_record r device_id provider_device_id))
       (credential_record_candidates users user hint hdl) = Some (key, record)"
    by (auto simp: select_user_record_def bindE_Inr Let_def split: option.splits)
  from first_record_Some [OF users(2)] obtain api_key where
    rec: "key \<in> set (credential_record_candidates users user hint hdl)" "pget users key = record"
      "get_api_key_from_user_record record device_id provider_device_id = Some api_key" "api_key \<noteq> []"
    by (auto simp: named_Some)
  from api_key_entitled [OF rec(3)] rec users(1) show ?thesis by blast
qed

lemma selected_entitled_record:
  assumes "select_entitled_record db user device_id provider_device_id hint hdl = Inr (key, record)"
  shows "\<exists>users entry. get_user_records db = Inr users \<and> key \<in> set (credential_record_candidates users user hint hdl) \<and>
    pget users key = record \<and> entitled record device_id provider_device_id entry"
proof -
  from assms obtain users where users: "get_user_records db = Inr users"
    "first_record users (\<lambda>r. entitled_device_record r device_id provider_device_id \<noteq> None)
       (credential_record_candidates users user hint hdl) = Some (key, record)"
    by (auto simp: select_entitled_record_def bindE_Inr Let_def split: option.splits)
  from first_record_Some [OF users(2)] users(1) entitled_record show ?thesis by fastforce
qed

text \<open>A candidate without an entry of that kind is refused, whatever the rest of the database holds.\<close>

lemma first_record_None: "first_record users ok keys = None \<longleftrightarrow> (\<forall>key \<in> set keys. pget users key = PNone \<or> \<not> ok (pget users key))"
  by (induction keys) auto

text \<open>Only the names a request gives are candidates.\<close>

lemma add_candidates_set:
  "set (add_candidates cs vs) = set cs \<union> {py_strip (py_str v) |v. v \<in> set vs \<and> v \<noteq> PNone \<and> py_strip (py_str v) \<noteq> []}"
  by (induction cs vs rule: add_candidates.induct) (auto simp: Let_def)

lemma add_candidates_distinct: "distinct cs \<Longrightarrow> distinct (add_candidates cs vs)"
  by (induction cs vs rule: add_candidates.induct) (auto simp: Let_def)

lemma plain_user_candidate:
  "set (credential_record_candidates users (PStr user) PNone PNone) = (if py_strip user = [] then {} else {py_strip user})"
  by (auto simp: credential_record_candidates_def add_candidates_set credential_handle_user_def credential_hint_user_def
      py_str_def is_str_def)

text \<open>
  The explanation against the refusal. No problem means the record is usable; the converse
  needs that no entry named for the device is something else than a mapping, since the lookup
  skips such an entry and the explanation stops at it.
\<close>

lemma entry_problem_None:
  "entry_problem devices need keys = Some None \<Longrightarrow>
   \<exists>entry. enabled_entry devices keys = Some entry \<and> (need \<longrightarrow> py_strip (py_str (py_or (pget entry ''api_key'') (PStr []))) \<noteq> [])"
  by (induction keys) (auto simp: pget_def split: pyval.splits if_splits option.splits)

lemma no_problem_usable:
  assumes "entitlement_problem record device_id provider_device_id need = None"
  shows "\<exists>entry. entitled_device_record record device_id provider_device_id = Some entry \<and>
    (need \<longrightarrow> named (get_api_key_from_user_record record device_id provider_device_id))"
proof -
  from assms obtain d devices where rec: "record = PDict d" "pget d ''enabled'' = PBool True" "pget d ''devices'' = PDict devices"
    "entry_problem devices need [device_id, provider_device_id] = Some None"
    by (auto simp: entitlement_problem_def Let_def simp del: entry_problem.simps
        split: pyval.splits if_splits option.splits)
  from entry_problem_None [OF rec(4)] obtain entry where
    entry: "enabled_entry devices [device_id, provider_device_id] = Some entry"
      "need \<Longrightarrow> py_strip (py_str (py_or (pget entry ''api_key'') (PStr []))) \<noteq> []" by blast
  then have "entitled_device_record record device_id provider_device_id = Some entry"
    using rec by (simp add: entitled_device_record_def)
  moreover from this have "named (get_api_key_from_user_record record device_id provider_device_id)" if need
  proof (cases "py_truth (pget entry ''api_key'')")
    case True
    then show ?thesis using entry(2) [OF that] \<open>entitled_device_record record device_id provider_device_id = Some entry\<close>
      by (simp add: get_api_key_from_user_record_def user_device_value_def named_def py_or_def)
  next
    case False
    then show ?thesis using entry(2) [OF that] by (simp add: py_or_def py_str_def py_strip_def)
  qed
  ultimately show ?thesis by blast
qed

lemma explanation_contradicts_lookup:
  "let record = PDict [(''enabled'', PBool True),
         (''devices'', PDict [(''d'', PStr ''x''), (''p'', PDict [(''enabled'', PBool True), (''api_key'', PStr ''k'')])])]
   in get_api_key_from_user_record record (PStr ''d'') (PStr ''p'') = Some ''k'' \<and>
      entitlement_problem record (PStr ''d'') (PStr ''p'') True \<noteq> None"
  by code_simp

section \<open>A process without configuration\<close>

text \<open>No device variable, no user variable and no files.\<close>

definition empty_access :: access_env where
  "empty_access = \<lparr>device_variable = None, config_path = [], absolute = (\<lambda>p. p), files = (\<lambda>_. No_file),
     user_variables = (\<lambda>_. None), whoami = None, mode_variable = None, float_ns = (\<lambda>_. Inr 0)\<rparr>"

end
