(* ===== verification/QPM_World.thy ===== *)
theory QPM_World
  imports QPM_Metadata QPM_Access
begin

text \<open>
  The world outside the QPM process: the qhw-admission and qhw-scheduler contexts, the provider,
  the credential providers and the clock. None of them is part of the repository. What they
  answer is an argument, \<open>respond\<close>: a function of the whole history of calls made so far and
  of the call at hand, so any deterministic stateful service is an instance of it and nothing is
  assumed about it. The state keeps the history, which makes the calls a component issues and
  their order part of every statement about it.
\<close>

section \<open>Calls and answers\<close>

datatype ext_call =
    AdmRegisterDevice pydict
  | AdmAddPolicyPath string
  | AdmAddEstimatorPath string
  | AdmSetPolicy pyval pydict
  | AdmSetEstimator pyval pydict
  | AdmGetDevice pyval
  | AdmLoadConfig string
  | AdmEvaluate pydict
  | AdmReserve pydict
  | AdmRenew int pydict
  | AdmRelease int pyval
  | AdmCancel int pyval
  | AdmExpire int
  | AdmGet int
  | AdmList pydict
  | AdmEstimate pyval pydict
  | AdmAuthorize int pydict
  | AdmConsume int pydict
  | AdmReturn int pydict
  | AdmRecordActual int pydict
  | SchedSetPolicy string pydict
  | SchedLoadPlugin string
  | SchedSubmit pydict
  | SchedSelect
  | SchedStarted pyval
  | SchedCompleted pyval
  | SchedFailed pyval
  | SchedCancelled pyval
  | SchedState pyval
  | SchedCount
  | ProviderCancel string
  | LoadPlugin string string
  | CredentialValidate pydict
  | CredentialBind pydict
  | CredentialRelease int
  | EvictClient int
  | PutEvent string string pydict
  | ProviderSync string pydict
  | ProviderAsync string pydict
  | ProviderDetails string string
  | ProviderShutdown
  | ProviderRegister string

text \<open>An answer: a plain value, a native object given by its attributes, or a list of answers.\<close>

datatype ext_value = EVal pyval | EObj pydict | EVals "ext_value list"

datatype context_kind = Unavailable string | Handlers | Native

record qpm_env =
  respond :: "ext_call list \<Rightarrow> ext_call \<Rightarrow> exc + ext_value"
  clock :: "nat \<Rightarrow> int"
  seconds_of :: "int \<Rightarrow> pyval"
  admission_context :: context_kind
  setter_accepts_options :: bool
  has_config_loader :: bool
  default_policy_paths :: "string list"
  scheduler_context :: context_kind
  scheduler_state_names :: "(int \<times> string) list"
  is_empty_selection_error :: "exc \<Rightarrow> bool"
  gunzip :: "string \<Rightarrow> string option"
  access :: "ext_call list \<Rightarrow> access_env"

record world =
  history :: "ext_call list"
  clock_reads :: nat

definition ext :: "qpm_env \<Rightarrow> ext_call \<Rightarrow> ('a world_scheme, ext_value) pm" where
  "ext env c = (\<lambda>s. (respond env (history s) c, s\<lparr>history := history s @ [c]\<rparr>))"

text \<open>The files and variables of the process, which others may change at any time.\<close>

definition access_now :: "qpm_env \<Rightarrow> ('a world_scheme, access_env) pm" where
  "access_now env = getM (\<lambda>s. access env (history s))"

definition time_ns :: "qpm_env \<Rightarrow> ('a world_scheme, int) pm" where
  "time_ns env = (\<lambda>s. (Inr (clock env (clock_reads s)), s\<lparr>clock_reads := Suc (clock_reads s)\<rparr>))"

text \<open>\<^verbatim>\<open>time.time()\<close>: a reading of the clock as the floating-point object \<open>seconds_of\<close> makes of it.\<close>

definition time_s :: "qpm_env \<Rightarrow> ('a world_scheme, pyval) pm" where
  "time_s env = bindM (time_ns env) (\<lambda>now. retM (seconds_of env now))"

section \<open>Lemmas\<close>

text \<open>A predicate that ignores the two components of the world.\<close>

definition world_blind :: "('a world_scheme \<Rightarrow> 'b) \<Rightarrow> bool" where
  "world_blind f \<longleftrightarrow> (\<forall>s h n. f (s\<lparr>history := h\<rparr>) = f s \<and> f (s\<lparr>clock_reads := n\<rparr>) = f s)"

lemma keeps_ext: "world_blind I \<Longrightarrow> keeps I (ext env c)"
  by (simp add: keeps_def ext_def world_blind_def)

lemma keeps_time: "world_blind I \<Longrightarrow> keeps I (time_ns env)"
  by (simp add: keeps_def time_ns_def world_blind_def)

lemma keeps_time_s: "world_blind I \<Longrightarrow> keeps I (time_s env)"
  by (simp add: time_s_def keeps_bind keeps_time keeps_ret)

lemma valid_time: "world_blind I \<Longrightarrow> valid I (time_ns env) (\<lambda>_. I) E"
  by (simp add: valid_def time_ns_def world_blind_def)

lemma valid_time_s: "world_blind I \<Longrightarrow> valid I (time_s env) (\<lambda>_. I) E"
  by (simp add: valid_def time_s_def time_ns_def bindM_def retM_def world_blind_def)

text \<open>A call is appended to the history; reading the clock leaves it alone.\<close>

lemma ext_history: "history (snd (ext env c s)) = history s @ [c]"
  by (simp add: ext_def)

lemma time_history: "history (snd (time_ns env s)) = history s"
  by (simp add: time_ns_def)

definition answer_dict :: "ext_value \<Rightarrow> pydict" where
  "answer_dict v = (case v of EVal (PDict d) \<Rightarrow> d | EObj d \<Rightarrow> d | _ \<Rightarrow> [])"

end
