(* ===== verification/QPM_Admission.thy ===== *)
theory QPM_Admission
  imports QPM_World
begin

text \<open>
  \<^verbatim>\<open>services/util/qpm/admission.py\<close>: the adapter between the controller and the qhw-admission
  context. A context is unavailable, offers Python handlers, or is the native one, for which the
  adapter builds native arguments and reads native results. The reflective test for the arity of
  a setter and the presence of a configuration loader are fields of the environment. Native
  constants of qhw-admission appear as \<open>PObj\<close> values that carry their name. The lemmas show
  that the text built for the configuration loader has one line per field, whatever the values, as
  long as no option has a line break in its key.
\<close>

section \<open>Options and paths\<close>

definition path_values :: "pyval \<Rightarrow> string list" where
  "path_values value =
     (case value of
        PNone \<Rightarrow> []
      | PList xs \<Rightarrow> map py_str (filter py_truth xs)
      | PTuple xs \<Rightarrow> map py_str (filter py_truth xs)
      | v \<Rightarrow> filter (\<lambda>item. item \<noteq> []) (split_on (CHR '':'') (py_str v)))"

definition plain_option_items :: "pyval list \<Rightarrow> pydict" where
  "plain_option_items items =
     foldl (\<lambda>result item.
        case item of
          PDict d \<Rightarrow> if has_key d ''key'' \<and> has_key d ''value''
                     then dset (py_str (pget d ''key'')) (pget d ''value'') result else result
        | PList [k, v] \<Rightarrow> dset (py_str k) v result
        | PTuple [k, v] \<Rightarrow> dset (py_str k) v result
        | _ \<Rightarrow> result) [] items"

text \<open>Option keys are kept as text.\<close>

definition plain_options :: "pyval \<Rightarrow> exc + pydict" where
  "plain_options options =
     (if \<not> py_truth options then Inr []
      else case options of
             PDict d \<Rightarrow> Inr d
           | PList items \<Rightarrow> Inr (plain_option_items items)
           | PTuple items \<Rightarrow> Inr (plain_option_items items)
           | PStr s \<Rightarrow> Inr []
           | _ \<Rightarrow> Inl (TypeError ''object is not iterable''))"

definition policy_options :: "pydict \<Rightarrow> exc + pydict" where
  "policy_options policy =
     plain_options (py_or (py_or (pget policy ''options'') (pget policy ''policy_options'')) (PDict []))"

definition estimator_options :: "pydict \<Rightarrow> exc + pydict" where
  "estimator_options estimator =
     plain_options (py_or (py_or (pget estimator ''options'') (pget estimator ''estimator_options'')) (PDict []))"

definition policy_name :: "pydict \<Rightarrow> pyval" where
  "policy_name policy = py_or (py_or (pget policy ''name'') (pget policy ''policy'')) (pget policy ''policy_name'')"

definition estimator_name :: "pydict \<Rightarrow> pyval" where
  "estimator_name estimator =
     py_or (py_or (pget estimator ''name'') (pget estimator ''estimator'')) (pget estimator ''estimator_name'')"

fun add_paths :: "qpm_env \<Rightarrow> string list \<Rightarrow> string list \<Rightarrow> ('a world_scheme, unit) pm" where
  "add_paths env seen [] = retM ()"
| "add_paths env seen (path # paths) =
     (if path \<in> set seen then add_paths env seen paths
      else seqM (ext env (AdmAddPolicyPath path)) (add_paths env (path # seen) paths))"

definition add_policy_paths :: "qpm_env \<Rightarrow> pydict \<Rightarrow> ('a world_scheme, unit) pm" where
  "add_policy_paths env policy =
     add_paths env []
       (path_values (pget policy ''path'') @ path_values (pget policy ''paths'') @ default_policy_paths env)"

section \<open>The configuration text\<close>

definition yaml_scalar :: "pyval \<Rightarrow> exc + string" where
  "yaml_scalar value =
     (case value of
        PNone \<Rightarrow> Inr ''0''
      | PBool b \<Rightarrow> Inr (if b then ''true'' else ''false'')
      | v \<Rightarrow> (let text = py_str v
              in if CHR 0x0A \<in> set text \<or> CHR 0x0D \<in> set text
                 then Inl (QPMAdmissionValidationError ''admission policy options cannot contain newlines'')
                 else Inr text))"

definition yaml_key :: "string \<Rightarrow> string" where
  "yaml_key key = replace_char (CHR '' '') (CHR ''_'') key"

definition profile_value :: "pydict \<Rightarrow> string \<Rightarrow> pyval" where
  "profile_value profile key = pgetd profile key (PInt 0)"

definition yaml_line :: "string \<Rightarrow> pyval \<Rightarrow> exc + string" where
  "yaml_line lead value = (case yaml_scalar value of Inl e \<Rightarrow> Inl e | Inr text \<Rightarrow> Inr (lead @ text))"

fun yaml_lines :: "(exc + string) list \<Rightarrow> exc + string list" where
  "yaml_lines [] = Inr []"
| "yaml_lines (Inl e # rest) = Inl e"
| "yaml_lines (Inr line # rest) = (case yaml_lines rest of Inl e \<Rightarrow> Inl e | Inr ls \<Rightarrow> Inr (line # ls))"

definition option_config :: "pydict \<Rightarrow> string \<Rightarrow> (exc + string) list" where
  "option_config options indent =
     (if options = [] then []
      else Inr (indent @ ''options:'') #
           map (\<lambda>kv. yaml_line (indent @ ''  '' @ yaml_key (fst kv) @ '': '') (snd kv)) (sort_key fst options))"

definition estimator_config :: "pydict \<Rightarrow> (exc + string) list" where
  "estimator_config estimator =
     (let name = estimator_name estimator
      in if \<not> py_truth name then []
         else [Inr ''    estimator:'', yaml_line ''      name: '' name] @
              (case estimator_options estimator of
                 Inl e \<Rightarrow> [Inl e] | Inr options \<Rightarrow> option_config options ''      ''))"

definition policy_config :: "pydict \<Rightarrow> (exc + string) list" where
  "policy_config policy =
     (let name = policy_name policy
      in if \<not> py_truth name then []
         else [Inr ''    policy:'', yaml_line ''      name: '' name] @
              (case policy_options policy of
                 Inl e \<Rightarrow> [Inl e] | Inr options \<Rightarrow> option_config options ''      ''))"

definition profile_baseline :: "pydict \<Rightarrow> pydict" where
  "profile_baseline profile = (case pgetd profile ''baseline'' (PDict []) of PDict b \<Rightarrow> b | _ \<Rightarrow> [])"

definition device_policy_config_yaml :: "pydict \<Rightarrow> pydict \<Rightarrow> pydict \<Rightarrow> exc + string" where
  "device_policy_config_yaml profile policy estimator =
     (let line = (\<lambda>lead key. yaml_line (lead @ key @ '': '') (profile_value profile key));
          head = [Inr ''devices:'',
                  (case map_of profile ''device_id'' of
                     None \<Rightarrow> Inl (KeyError ''device_id'')
                   | Some v \<Rightarrow> yaml_line ''  - device_id: '' v)] @
                 map (line ''    '') [''max_qubits'', ''max_shots'', ''max_provider_queue_depth'',
                    ''time_span_ns'', ''default_ttl_ns''] @ [Inr ''    baseline:''];
          base = map (\<lambda>key. yaml_line (''      '' @ key @ '': '') (profile_value (profile_baseline profile) key))
                   [''qubit_count'', ''depth'', ''one_q_gate_count'', ''two_q_gate_count'',
                    ''measurement_count'', ''shots''];
          timing = Inr ''    timing:'' # map (line ''      '')
                   [''one_q_gate_ns'', ''two_q_gate_ns'', ''measurement_ns'', ''one_q_gate_transfer_ns'',
                    ''two_q_gate_transfer_ns'', ''measurement_transfer_ns'', ''compile_ns'',
                    ''control_overhead_ns'', ''provider_overhead_ns''];
          credit = [Inr ''    credit:'', line ''      '' ''total_credits''];
          rate = [Inr ''    rate:'', line ''      '' ''device_rate'', line ''      '' ''concurrent_jobs'']
      in case yaml_lines (head @ base @ timing @ credit @ rate @ estimator_config estimator @ policy_config policy) of
           Inl e \<Rightarrow> Inl e
         | Inr ls \<Rightarrow> Inr (join_with [CHR 0x0A] ls @ [CHR 0x0A]))"

section \<open>Native arguments and results\<close>

definition native_fields :: "pydict \<Rightarrow> (string \<times> int) list \<Rightarrow> pydict" where
  "native_fields values defaults = map (\<lambda>kd. (fst kd, pgetd values (fst kd) (PInt (snd kd)))) defaults"

definition native_baseline :: "pydict \<Rightarrow> pydict" where
  "native_baseline info =
     native_fields info [(''qubit_count'', 1), (''depth'', 1), (''one_q_gate_count'', 0),
       (''two_q_gate_count'', 0), (''shots'', 1), (''measurement_count'', 1)]"

definition native_device_profile :: "pydict \<Rightarrow> exc + pydict" where
  "native_device_profile profile =
     (case map_of profile ''device_id'' of
        None \<Rightarrow> Inl (KeyError ''device_id'')
      | Some device_id \<Rightarrow> Inr
          ([(''device_id'', device_id), (''baseline'', PDict (native_baseline (profile_baseline profile)))] @
           native_fields profile (map (\<lambda>k. (k, 0))
             [''max_qubits'', ''one_q_gate_ns'', ''two_q_gate_ns'', ''measurement_ns'', ''time_span_ns'',
              ''max_shots'', ''one_q_gate_transfer_ns'', ''two_q_gate_transfer_ns'',
              ''measurement_transfer_ns'', ''compile_ns'', ''control_overhead_ns'',
              ''provider_overhead_ns'', ''total_credits'', ''device_rate'', ''concurrent_jobs'',
              ''default_ttl_ns'', ''max_provider_queue_depth''])))"

definition native_qtask_class :: "pydict \<Rightarrow> pydict" where
  "native_qtask_class task_info =
     native_fields task_info [(''class_id'', 1), (''count'', 1), (''qubit_count'', 1), (''depth'', 1),
       (''one_q_gate_count'', 0), (''two_q_gate_count'', 0), (''shots'', 1), (''measurement_count'', 1)]"

definition native_usage :: "int \<Rightarrow> pydict \<Rightarrow> pydict" where
  "native_usage reservation_id usage =
     (''reservation_id'', PInt reservation_id) #
     native_fields usage (map (\<lambda>k. (k, 0)) [''task_id'', ''class_id'', ''event_time_ns'', ''estimated_ns'',
       ''actual_ns'', ''baseline_units'', ''credits'', ''rate_units''])"

definition native_actual :: "int \<Rightarrow> pydict \<Rightarrow> pydict" where
  "native_actual reservation_id actual =
     (''reservation_id'', PInt reservation_id) #
     native_fields actual (map (\<lambda>k. (k, 0)) [''task_id'', ''observed_device_ns'', ''observed_compile_ns'',
       ''observed_transfer_ns'', ''observed_control_overhead_ns''])"

definition workload_kind :: "pyval \<Rightarrow> pyval" where
  "workload_kind kind =
     (case kind of
        PInt i \<Rightarrow> PInt i
      | PBool b \<Rightarrow> PBool b
      | _ \<Rightarrow> if kind = PStr ''hybrid'' then PObj True ''WORKLOAD_HYBRID_JOB'' None
             else PObj True ''WORKLOAD_QUANTUM_JOB'' None)"

definition require_keys :: "pydict \<Rightarrow> string list \<Rightarrow> exc + pydict" where
  "require_keys d keys =
     (case filter (\<lambda>k. \<not> has_key d k) keys of
        [] \<Rightarrow> Inr (map (\<lambda>k. (k, pget d k)) keys)
      | k # ks \<Rightarrow> Inl (KeyError k))"

definition native_admission_request :: "pydict \<Rightarrow> exc + pydict" where
  "native_admission_request request =
     (case py_dict (pgetd request ''task_class'' (PDict [])) of
        Inl e \<Rightarrow> Inl e
      | Inr task_info \<Rightarrow>
          (case require_keys request [''request_id'', ''device_id'', ''user_id'', ''job_id'', ''scope_id''] of
             Inl e \<Rightarrow> Inl e
           | Inr ids \<Rightarrow> Inr
               (ids @ [(''workload_kind'', workload_kind (pget request ''workload_kind'')),
                       (''task_class'', PDict (native_qtask_class task_info))] @
                native_fields request (map (\<lambda>k. (k, 0)) [''walltime_ns'', ''reservation_id'', ''ttl_ns'',
                  ''classical_runtime_ns'', ''overhead_ns'', ''priority'']))))"

definition decision_status :: "pyval \<Rightarrow> string" where
  "decision_status decision =
     (if py_eq decision (PInt 1) then ''accepted''
      else if py_eq decision (PInt 2) then ''delayed''
      else if py_eq decision (PInt 3) then ''rejected''
      else ''unknown'')"

definition reservation_state :: "pyval \<Rightarrow> string" where
  "reservation_state state =
     (if py_eq state (PInt 1) then ''pending''
      else if py_eq state (PInt 2) then ''active''
      else if py_eq state (PInt 3) then ''released''
      else if py_eq state (PInt 4) then ''expired''
      else if py_eq state (PInt 5) then ''cancelled''
      else ''unknown'')"

definition reason_label :: "pyval \<Rightarrow> string" where
  "reason_label reason_code =
     (if reason_code = PNone \<or> py_eq reason_code (PInt 0) \<or> py_eq reason_code (PInt 1) then ''accepted''
      else ''reason-'' @ py_str reason_code)"

definition attributes :: "pydict \<Rightarrow> string list \<Rightarrow> pydict" where
  "attributes attrs names = map (\<lambda>k. (k, pget attrs k)) names"

definition decision_dict :: "ext_value \<Rightarrow> pydict" where
  "decision_dict decision =
     (case decision of
        EVal (PDict d) \<Rightarrow> d
      | _ \<Rightarrow>
          (let attrs = answer_dict decision
           in [(''status'', PStr (decision_status (pget attrs ''decision'')))] @
              attributes attrs [''decision'', ''request_id'', ''device_id'', ''scope_id'', ''reservation_id''] @
              [(''reason'', PStr (reason_label (pget attrs ''reason_code'')))] @
              attributes attrs [''reason_code'', ''credits_required'', ''rate_required'', ''capacity_available'',
                ''estimated_total_ns'', ''estimated_start_ns'', ''estimated_finish_ns'', ''retry_after_ns'', ''message'']))"

definition estimate_dict :: "ext_value \<Rightarrow> pydict option" where
  "estimate_dict estimate =
     (case estimate of
        EVal PNone \<Rightarrow> None
      | EVal (PDict d) \<Rightarrow> Some d
      | _ \<Rightarrow> Some (attributes (answer_dict estimate)
               [''execution_ns'', ''measurement_ns'', ''compile_ns'', ''transfer_ns'', ''control_overhead_ns'',
                ''total_ns'', ''baseline_units'', ''confidence_ppm'']))"

definition reservation_dict :: "ext_value \<Rightarrow> pydict" where
  "reservation_dict reservation =
     (case reservation of
        EVal (PDict d) \<Rightarrow> d
      | _ \<Rightarrow>
          (let attrs = answer_dict reservation
           in attributes attrs [''reservation_id'', ''request_id'', ''device_id'', ''scope_id'', ''user_id'',
                ''job_id'', ''workload_kind''] @
              [(''state'', PStr (reservation_state (pget attrs ''state''))), (''state_code'', pget attrs ''state'')] @
              attributes attrs [''credits_reserved'', ''credits_consumed'', ''rate_reserved'', ''rate_consumed'',
                ''quantum_budget_ns'', ''estimated_total_ns'', ''actual_total_ns'', ''created_at_ns'', ''expires_at_ns'']))"

section \<open>Calls\<close>

definition unavailable :: "string \<Rightarrow> ('s, 'b) pm" where
  "unavailable error = raiseM (QPMAdmissionUnavailable (''qhw-admission context is unavailable: '' @ error))"

text \<open>The three kinds of context: raise, pass the dictionary to a handler, or build native arguments.\<close>

definition on_context ::
  "qpm_env \<Rightarrow> ext_call \<Rightarrow> exc + ext_call \<Rightarrow> ('a world_scheme, ext_value) pm" where
  "on_context env handler_call native_call =
     (case admission_context env of
        Unavailable error \<Rightarrow> unavailable error
      | Handlers \<Rightarrow> ext env handler_call
      | Native \<Rightarrow> bindM (liftM native_call) (\<lambda>c. ext env c))"

definition with_reservation ::
  "int \<Rightarrow> (int \<Rightarrow> ('a world_scheme, 'b) pm) \<Rightarrow> ('a world_scheme, 'b) pm" where
  "with_reservation reservation_id body =
     bindM (liftM (normalize_reservation_id (PInt reservation_id) False)) body"

definition evaluate_request :: "qpm_env \<Rightarrow> pydict \<Rightarrow> ('a world_scheme, pydict) pm" where
  "evaluate_request env request =
     bindM (on_context env (AdmEvaluate request)
              (map_sum id AdmEvaluate (native_admission_request request)))
       (\<lambda>v. retM (decision_dict v))"

definition reserve_request :: "qpm_env \<Rightarrow> pydict \<Rightarrow> ('a world_scheme, pydict) pm" where
  "reserve_request env request =
     bindM (on_context env (AdmReserve request)
              (map_sum id AdmReserve (native_admission_request request)))
       (\<lambda>v. retM (decision_dict v))"

definition accepted_for :: "int \<Rightarrow> pydict" where
  "accepted_for reservation_id = [(''status'', PStr ''accepted''), (''reservation_id'', PInt reservation_id)]"

definition simple_close ::
  "qpm_env \<Rightarrow> (int \<Rightarrow> ext_call) \<Rightarrow> int \<Rightarrow> ('a world_scheme, pydict) pm" where
  "simple_close env call reservation_id =
     with_reservation reservation_id (\<lambda>rid.
       bindM (on_context env (call rid) (Inr (call rid))) (\<lambda>v.
         retM (if admission_context env = Handlers then decision_dict v else accepted_for rid)))"

definition renew_reservation :: "qpm_env \<Rightarrow> int \<Rightarrow> pydict \<Rightarrow> ('a world_scheme, pydict) pm" where
  "renew_reservation env reservation_id request =
     (if admission_context env = Handlers then simple_close env (\<lambda>r. AdmRenew r request) reservation_id
      else simple_close env (\<lambda>r. AdmRenew r
        [(''now_ns'', pgetd request ''now_ns'' (PInt 0)), (''ttl_ns'', pgetd request ''ttl_ns'' (PInt 0))])
        reservation_id)"

definition release_reservation :: "qpm_env \<Rightarrow> int \<Rightarrow> pyval \<Rightarrow> ('a world_scheme, pydict) pm" where
  "release_reservation env reservation_id reason_code =
     simple_close env (\<lambda>r. AdmRelease r reason_code) reservation_id"

definition cancel_reservation :: "qpm_env \<Rightarrow> int \<Rightarrow> pyval \<Rightarrow> ('a world_scheme, pydict) pm" where
  "cancel_reservation env reservation_id reason_code =
     simple_close env (\<lambda>r. AdmCancel r reason_code) reservation_id"

definition expire_reservations :: "qpm_env \<Rightarrow> int \<Rightarrow> ('a world_scheme, ext_value) pm" where
  "expire_reservations env now_ns = on_context env (AdmExpire now_ns) (Inr (AdmExpire now_ns))"

definition get_reservation :: "qpm_env \<Rightarrow> int \<Rightarrow> ('a world_scheme, pydict) pm" where
  "get_reservation env reservation_id =
     with_reservation reservation_id (\<lambda>rid.
       bindM (on_context env (AdmGet rid) (Inr (AdmGet rid))) (\<lambda>v. retM (reservation_dict v)))"

definition list_reservations :: "qpm_env \<Rightarrow> pydict \<Rightarrow> ('a world_scheme, pydict list) pm" where
  "list_reservations env filters =
     bindM (on_context env (AdmList filters) (Inr (AdmList filters))) (\<lambda>v.
       case v of EVals items \<Rightarrow> retM (map reservation_dict items)
       | _ \<Rightarrow> raiseM (TypeError ''object is not iterable''))"

definition estimate_qtask_class :: "qpm_env \<Rightarrow> pyval \<Rightarrow> pydict \<Rightarrow> ('a world_scheme, pydict option) pm" where
  "estimate_qtask_class env device_id task_class =
     (case admission_context env of
        Unavailable error \<Rightarrow> retM None
      | Handlers \<Rightarrow> bindM (ext env (AdmEstimate device_id task_class)) (\<lambda>v. retM (estimate_dict v))
      | Native \<Rightarrow> bindM (ext env (AdmEstimate device_id (native_qtask_class task_class)))
                    (\<lambda>v. retM (estimate_dict v)))"

definition authorize_usage :: "qpm_env \<Rightarrow> int \<Rightarrow> pydict \<Rightarrow> ('a world_scheme, pydict) pm" where
  "authorize_usage env reservation_id usage =
     with_reservation reservation_id (\<lambda>rid.
       bindM (on_context env (AdmAuthorize rid usage) (Inr (AdmAuthorize rid (native_usage rid usage))))
         (\<lambda>v. retM (decision_dict v)))"

definition consume_usage :: "qpm_env \<Rightarrow> int \<Rightarrow> pydict \<Rightarrow> ('a world_scheme, pydict) pm" where
  "consume_usage env reservation_id usage =
     with_reservation reservation_id (\<lambda>rid.
       bindM (on_context env (AdmConsume rid usage) (Inr (AdmConsume rid (native_usage rid usage))))
         (\<lambda>v. retM (decision_dict v)))"

definition return_usage :: "qpm_env \<Rightarrow> int \<Rightarrow> pydict \<Rightarrow> ('a world_scheme, ext_value) pm" where
  "return_usage env reservation_id usage =
     with_reservation reservation_id (\<lambda>rid.
       on_context env (AdmReturn rid usage) (Inr (AdmReturn rid (native_usage rid usage))))"

definition record_actual :: "qpm_env \<Rightarrow> int \<Rightarrow> pydict \<Rightarrow> ('a world_scheme, ext_value) pm" where
  "record_actual env reservation_id actual =
     with_reservation reservation_id (\<lambda>rid.
       on_context env (AdmRecordActual rid actual) (Inr (AdmRecordActual rid (native_actual rid actual))))"

definition register_device_profile :: "qpm_env \<Rightarrow> pydict \<Rightarrow> ('a world_scheme, unit) pm" where
  "register_device_profile env profile =
     (case admission_context env of
        Unavailable error \<Rightarrow> retM ()
      | Handlers \<Rightarrow> seqM (ext env (AdmRegisterDevice profile)) (retM ())
      | Native \<Rightarrow> bindM (liftM (native_device_profile profile)) (\<lambda>p.
                    seqM (ext env (AdmRegisterDevice p)) (retM ())))"

definition load_device_policy_config ::
  "qpm_env \<Rightarrow> pyval \<Rightarrow> pydict \<Rightarrow> pydict \<Rightarrow> pydict option \<Rightarrow> ('a world_scheme, unit) pm" where
  "load_device_policy_config env device_id policy estimator device_profile =
     (if \<not> has_config_loader env
      then raiseM (QPMAdmissionValidationError ''qhw-admission context cannot apply policy options'')
      else bindM (case device_profile of
                    Some profile \<Rightarrow> retM (Some profile)
                  | None \<Rightarrow> bindM (ext env (AdmGetDevice device_id)) (\<lambda>v.
                              case v of EVal PNone \<Rightarrow> retM None | _ \<Rightarrow> retM (Some (answer_dict v))))
        (\<lambda>profile. case profile of
             None \<Rightarrow> raiseM (QPMAdmissionValidationError ''admission policy options require a device profile'')
           | Some profile \<Rightarrow>
               (let profile = (if device_id \<noteq> PNone then dset ''device_id'' device_id profile else profile)
                in bindM (liftM (device_policy_config_yaml profile policy estimator)) (\<lambda>text.
                     seqM (ext env (AdmLoadConfig text)) (retM ())))))"

definition set_policy ::
  "qpm_env \<Rightarrow> pyval \<Rightarrow> pydict \<Rightarrow> pydict \<Rightarrow> pydict option \<Rightarrow> ('a world_scheme, unit) pm" where
  "set_policy env device_id policy estimator device_profile =
     (case admission_context env of
        Unavailable error \<Rightarrow> retM ()
      | Handlers \<Rightarrow> seqM (ext env (AdmSetPolicy device_id policy)) (retM ())
      | Native \<Rightarrow>
          seqM (add_policy_paths env policy)
            (let name = policy_name policy
             in if \<not> py_truth name then retM ()
                else bindM (liftM (policy_options policy)) (\<lambda>options.
                  if options \<noteq> [] \<and> \<not> setter_accepts_options env
                  then load_device_policy_config env device_id policy estimator device_profile
                  else seqM (ext env (AdmSetPolicy device_id [(''name'', name), (''options'', PDict options)])) (retM ()))))"

definition set_estimator ::
  "qpm_env \<Rightarrow> pyval \<Rightarrow> pydict \<Rightarrow> pydict \<Rightarrow> pydict option \<Rightarrow> ('a world_scheme, unit) pm" where
  "set_estimator env device_id estimator policy device_profile =
     (case admission_context env of
        Unavailable error \<Rightarrow> retM ()
      | Handlers \<Rightarrow> seqM (ext env (AdmSetEstimator device_id estimator)) (retM ())
      | Native \<Rightarrow>
          seqM (if py_truth (pget estimator ''path'')
                then seqM (ext env (AdmAddEstimatorPath (py_str (pget estimator ''path'')))) (retM ())
                else retM ())
            (let name = estimator_name estimator
             in if \<not> py_truth name then retM ()
                else bindM (liftM (estimator_options estimator)) (\<lambda>options.
                  if options \<noteq> [] \<and> \<not> setter_accepts_options env
                  then load_device_policy_config env device_id policy estimator device_profile
                  else seqM (ext env (AdmSetEstimator device_id [(''name'', name), (''options'', PDict options)])) (retM ()))))"

section \<open>Lemmas\<close>

lemmas admission_calls = evaluate_request_def reserve_request_def renew_reservation_def
  release_reservation_def cancel_reservation_def expire_reservations_def get_reservation_def
  list_reservations_def estimate_qtask_class_def authorize_usage_def consume_usage_def
  return_usage_def record_actual_def register_device_profile_def set_policy_def set_estimator_def
  load_device_policy_config_def add_policy_paths_def

lemma keeps_unavailable [keeps_rules]: "keeps I (unavailable e)"
  by (simp add: unavailable_def keeps_raise)

lemma keeps_on_context: "world_blind I \<Longrightarrow> keeps I (on_context env h n)"
  by (auto simp: on_context_def intro!: keeps_rules keeps_ext split: context_kind.splits)

lemma keeps_with_reservation: "(\<And>rid. keeps I (body rid)) \<Longrightarrow> keeps I (with_reservation r body)"
  by (simp add: with_reservation_def keeps_bind keeps_lift)

lemma keeps_add_paths: "world_blind I \<Longrightarrow> keeps I (add_paths env seen paths)"
  by (induction env seen paths rule: add_paths.induct) (auto intro!: keeps_rules keeps_ext)

lemma keeps_admission [keeps_rules]:
  assumes "world_blind I"
  shows "keeps I (evaluate_request env req)" "keeps I (reserve_request env req)"
    "keeps I (renew_reservation env r req)" "keeps I (release_reservation env r c)"
    "keeps I (cancel_reservation env r c)" "keeps I (expire_reservations env now)"
    "keeps I (get_reservation env r)" "keeps I (list_reservations env f)"
    "keeps I (estimate_qtask_class env d t)" "keeps I (authorize_usage env r u)"
    "keeps I (consume_usage env r u)" "keeps I (return_usage env r u)"
    "keeps I (record_actual env r u)" "keeps I (register_device_profile env p)"
    "keeps I (set_policy env d pol est prof)" "keeps I (set_estimator env d est pol prof)"
  unfolding admission_calls simple_close_def
  by (auto intro!: keeps_rules keeps_ext keeps_on_context keeps_with_reservation keeps_add_paths assms
      split: context_kind.splits ext_value.splits pyval.splits simp: Let_def)

section \<open>The configuration text has one line per field\<close>

abbreviation newline :: char where "newline \<equiv> CHR 0x0A"

definition no_break :: "string \<Rightarrow> bool" where "no_break text \<longleftrightarrow> newline \<notin> set text"

lemma no_break_simps [simp]:
  "no_break []" "no_break (c # t) \<longleftrightarrow> c \<noteq> newline \<and> no_break t" "no_break (t @ u) \<longleftrightarrow> no_break t \<and> no_break u"
  by (auto simp: no_break_def)

definition plain_keys :: "exc + pydict \<Rightarrow> bool" where
  "plain_keys options = (case options of Inl e \<Rightarrow> True | Inr d \<Rightarrow> \<forall>k \<in> set (dkeys d). no_break k)"

text \<open>The lines the section of a policy or an estimator has.\<close>

definition section_lines :: "pyval \<Rightarrow> exc + pydict \<Rightarrow> nat" where
  "section_lines name options =
     (if \<not> py_truth name then 0
      else case options of Inl e \<Rightarrow> 3 | Inr d \<Rightarrow> if d = [] then 2 else 3 + length d)"

lemma yaml_scalar_no_break: "yaml_scalar v = Inr text \<Longrightarrow> no_break text"
  by (cases v) (auto simp: yaml_scalar_def no_break_def Let_def split: if_splits)

lemma yaml_line_no_break: "yaml_line lead v = Inr line \<Longrightarrow> no_break lead \<Longrightarrow> no_break line"
  using yaml_scalar_no_break by (auto simp: yaml_line_def no_break_def split: sum.splits)

lemma yaml_key_no_break: "no_break key \<Longrightarrow> no_break (yaml_key key)"
  by (auto simp: yaml_key_def no_break_def replace_char_def split: if_splits)

definition plain_line :: "exc + string \<Rightarrow> bool" where
  "plain_line x \<longleftrightarrow> (\<forall>l. x = Inr l \<longrightarrow> no_break l)"

lemma plain_line_simps [simp]: "plain_line (Inl e)" "plain_line (Inr l) \<longleftrightarrow> no_break l"
  by (simp_all add: plain_line_def)

lemma plain_yaml_line [simp]: "no_break lead \<Longrightarrow> plain_line (yaml_line lead v)"
  using yaml_line_no_break by (auto simp: plain_line_def)

lemma plain_option_config:
  assumes "\<forall>k \<in> set (dkeys options). no_break k" "no_break indent"
  shows "\<forall>x \<in> set (option_config options indent). plain_line x"
proof -
  have "plain_line (yaml_line (indent @ ''  '' @ yaml_key (fst kv) @ '': '') (snd kv))" if "kv \<in> set options" for kv
  proof (rule plain_yaml_line)
    have "no_break (yaml_key (fst kv))" using assms(1) that by (intro yaml_key_no_break) auto
    with assms(2) show "no_break (indent @ ''  '' @ yaml_key (fst kv) @ '': '')" by simp
  qed
  moreover have "plain_line (Inr (indent @ ''options:''))" using assms(2) by simp
  ultimately show ?thesis by (auto simp: option_config_def)
qed

lemma yaml_lines_Inr: "yaml_lines xs = Inr ls \<Longrightarrow> xs = map Inr ls"
  by (induction xs arbitrary: ls rule: yaml_lines.induct) (auto split: sum.splits)

lemma section_plain:
  "plain_keys (estimator_options e) \<Longrightarrow> \<forall>x \<in> set (estimator_config e). plain_line x"
  "plain_keys (policy_options p) \<Longrightarrow> \<forall>x \<in> set (policy_config p). plain_line x"
  using plain_option_config [of _ "''      ''"]
  by (auto simp: estimator_config_def policy_config_def plain_keys_def Let_def split: sum.splits)

lemma section_length:
  "length (estimator_config e) = section_lines (estimator_name e) (estimator_options e)"
  "length (policy_config p) = section_lines (policy_name p) (policy_options p)"
  by (auto simp: estimator_config_def policy_config_def section_lines_def option_config_def Let_def split: sum.splits)

lemma joined_breaks: "\<forall>l \<in> set ls. no_break l \<Longrightarrow> count_list (join_with [newline] ls @ [newline]) newline = max 1 (length ls)"
  by (induction ls rule: induct_list012) (auto simp: no_break_def count_list_append count_notin)

text \<open>The text has 29 lines of its own and those of the two sections: no value can add one.\<close>

lemma config_text_lines:
  assumes run: "device_policy_config_yaml profile policy estimator = Inr yaml"
    and keys: "plain_keys (policy_options policy)" "plain_keys (estimator_options estimator)"
  shows "count_list yaml newline = 29 + section_lines (estimator_name estimator) (estimator_options estimator) +
    section_lines (policy_name policy) (policy_options policy)"
proof -
  from run obtain own ls where lines: "yaml_lines (own @ estimator_config estimator @ policy_config policy) = Inr ls"
    and own: "length own = 29" "\<forall>x \<in> set own. plain_line x" and yaml: "yaml = join_with [newline] ls @ [newline]"
  proof -
    let ?line = "\<lambda>lead key. yaml_line (lead @ key @ '': '') (profile_value profile key)"
    let ?own = "[Inr ''devices:'', (case map_of profile ''device_id'' of
          None \<Rightarrow> Inl (KeyError ''device_id'') | Some v \<Rightarrow> yaml_line ''  - device_id: '' v)] @
        map (?line ''    '') [''max_qubits'', ''max_shots'', ''max_provider_queue_depth'', ''time_span_ns'', ''default_ttl_ns''] @
        [Inr ''    baseline:''] @
        map (\<lambda>key. yaml_line (''      '' @ key @ '': '') (profile_value (profile_baseline profile) key))
          [''qubit_count'', ''depth'', ''one_q_gate_count'', ''two_q_gate_count'', ''measurement_count'', ''shots''] @
        Inr ''    timing:'' # map (?line ''      '')
          [''one_q_gate_ns'', ''two_q_gate_ns'', ''measurement_ns'', ''one_q_gate_transfer_ns'',
           ''two_q_gate_transfer_ns'', ''measurement_transfer_ns'', ''compile_ns'', ''control_overhead_ns'',
           ''provider_overhead_ns''] @
        [Inr ''    credit:'', ?line ''      '' ''total_credits''] @
        [Inr ''    rate:'', ?line ''      '' ''device_rate'', ?line ''      '' ''concurrent_jobs'']"
    assume that: "\<And>own ls. yaml_lines (own @ estimator_config estimator @ policy_config policy) = Inr ls \<Longrightarrow>
      length own = 29 \<Longrightarrow> \<forall>x \<in> set own. plain_line x \<Longrightarrow> yaml = join_with [newline] ls @ [newline] \<Longrightarrow> thesis"
    have "\<forall>x \<in> set ?own. plain_line x"
      by (simp split: option.splits)
    moreover from run obtain ls where "yaml_lines (?own @ estimator_config estimator @ policy_config policy) = Inr ls"
      "yaml = join_with [newline] ls @ [newline]"
      by (auto simp: device_policy_config_yaml_def Let_def simp del: yaml_lines.simps split: sum.split_asm)
    ultimately show thesis by (intro that [of ?own]) simp_all
  qed
  from lines have eq: "own @ estimator_config estimator @ policy_config policy = map Inr ls" by (rule yaml_lines_Inr)
  from arg_cong [OF eq, of length] have len: "length ls = 29 + section_lines (estimator_name estimator) (estimator_options estimator) +
    section_lines (policy_name policy) (policy_options policy)" by (simp add: own section_length)
  have "\<forall>x \<in> set (map Inr ls). plain_line x"
    using own section_plain keys unfolding eq [symmetric] by auto
  then have "\<forall>l \<in> set ls. no_break l" by auto
  from joined_breaks [OF this] show ?thesis by (simp add: yaml len)
qed

text \<open>A key can: only the values of options are searched for line breaks.\<close>

lemma option_key_adds_line:
  "option_config [(''a'' @ [newline] @ ''    policy: credit'', PInt 1)] ''      '' =
     [Inr ''      options:'', Inr (''        a'' @ [newline] @ ''____policy:_credit: 1'')]"
  by code_simp

end
