(* ===== verification/QPM_Circuit.thy ===== *)
theory QPM_Circuit
  imports QPM_Metadata
begin

text \<open>
  \<^verbatim>\<open>services/util/qpm/util_circuit.py\<close>: the circuit record and its state, which only grows. The
  two rounding functions come from DEFw and are arguments. A reading of \<^verbatim>\<open>time.time()\<close> is an
  integer number of nanoseconds; a negative value means that the event has not happened. The
  lemmas show that the state is monotone and that the states numbered below READY are never
  entered once a circuit is ready.
\<close>

section \<open>Definitions\<close>

definition UNDEF :: nat where "UNDEF = 0"
definition MARKED_FOR_DELETION :: nat where "MARKED_FOR_DELETION = 1"
definition EXEC_DONE :: nat where "EXEC_DONE = 2"
definition DONE :: nat where "DONE = 3"
definition READY :: nat where "READY = 4"
definition RUNNING :: nat where "RUNNING = 5"
definition LAUNCHING :: nat where "LAUNCHING = 6"
definition RESOURCES_CONSUMED :: nat where "RESOURCES_CONSUMED = 7"
definition FAIL :: nat where "FAIL = 8"

lemmas circuit_states = UNDEF_def MARKED_FOR_DELETION_def EXEC_DONE_def DONE_def READY_def
  RUNNING_def LAUNCHING_def RESOURCES_CONSUMED_def FAIL_def

record circuit =
  c_state :: nat
  c_cid :: string
  c_info :: pydict
  launch_time :: int
  creation_time :: int
  exec_time :: int
  completion_time :: int
  resources_consumed_time :: int
  provider_credential :: pydict
  provider_credential_metadata :: pydict

text \<open>
  \<open>round_half_up q m\<close> is DEFw's rounding of the quotient of \<open>q\<close> and \<open>m\<close>.
\<close>

definition setup_circuit_run_details ::
  "(int \<Rightarrow> int \<Rightarrow> int) \<Rightarrow> (int \<Rightarrow> int) \<Rightarrow> int \<Rightarrow> pydict \<Rightarrow> exc + pydict" where
  "setup_circuit_run_details round_half_up round_to_nearest_power_of_two max_qubits info =
     (case map_of info ''num_qubits'' of
        None \<Rightarrow> Inl (KeyError ''num_qubits'')
      | Some v \<Rightarrow>
          (case py_number v of
             Inl e \<Rightarrow> Inl e
           | Inr num_qubits \<Rightarrow>
               (let np = round_half_up num_qubits max_qubits;
                    np = (if np < 1 then 1 else round_to_nearest_power_of_two np)
                in Inr (dset ''np'' (PInt np) info))))"

definition new_circuit ::
  "(int \<Rightarrow> int \<Rightarrow> int) \<Rightarrow> (int \<Rightarrow> int) \<Rightarrow> int \<Rightarrow> string \<Rightarrow> pydict \<Rightarrow> exc + circuit" where
  "new_circuit round_half_up round_to_nearest_power_of_two max_qubits_pp cid info =
     (case setup_circuit_run_details round_half_up round_to_nearest_power_of_two max_qubits_pp info of
        Inl e \<Rightarrow> Inl e
      | Inr info' \<Rightarrow> Inr
          \<lparr>c_state = UNDEF, c_cid = cid, c_info = info', launch_time = -1, creation_time = -1,
           exec_time = -1, completion_time = -1, resources_consumed_time = -1,
           provider_credential = [], provider_credential_metadata = []\<rparr>)"

definition set_state :: "nat \<Rightarrow> circuit \<Rightarrow> bool \<times> circuit" where
  "set_state state c = (if c_state c > state then (False, c) else (True, c\<lparr>c_state := state\<rparr>))"

definition set_launching :: "int \<Rightarrow> circuit \<Rightarrow> bool \<times> circuit" where
  "set_launching now c = set_state LAUNCHING (c\<lparr>launch_time := now\<rparr>)"

definition set_ready :: "int \<Rightarrow> circuit \<Rightarrow> bool \<times> circuit" where
  "set_ready now c = set_state READY (c\<lparr>creation_time := now\<rparr>)"

definition set_running :: "int \<Rightarrow> circuit \<Rightarrow> bool \<times> circuit" where
  "set_running now c = set_state RUNNING (c\<lparr>exec_time := now\<rparr>)"

definition set_deletion :: "circuit \<Rightarrow> bool \<times> circuit" where
  "set_deletion c = set_state MARKED_FOR_DELETION c"

definition set_exec_done :: "int \<Rightarrow> circuit \<Rightarrow> bool \<times> circuit" where
  "set_exec_done now c = set_state EXEC_DONE (c\<lparr>completion_time := now\<rparr>)"

definition set_done :: "circuit \<Rightarrow> bool \<times> circuit" where
  "set_done c = set_state DONE c"

definition set_resources_consumed :: "int \<Rightarrow> circuit \<Rightarrow> bool \<times> circuit" where
  "set_resources_consumed now c = set_state RESOURCES_CONSUMED (c\<lparr>resources_consumed_time := now\<rparr>)"

definition set_fail :: "int \<Rightarrow> circuit \<Rightarrow> bool \<times> circuit" where
  "set_fail now c = set_state FAIL (c\<lparr>completion_time := now\<rparr>)"

definition can_delete :: "circuit \<Rightarrow> bool" where
  "can_delete c \<longleftrightarrow> c_state c \<le> READY"

definition circuit_status :: "circuit \<Rightarrow> string" where
  "circuit_status c =
     (if c_state c = READY then ''READY''
      else if c_state c = RUNNING then ''RUNNING''
      else if c_state c = MARKED_FOR_DELETION then ''DELETING''
      else if c_state c = DONE then ''DONE''
      else ''BUG'')"

section \<open>The circuit's states as a transition system\<close>

datatype circuit_event =
    EvLaunching int | EvReady int | EvRunning int | EvDeletion | EvExecDone int | EvDone
  | EvResourcesConsumed int | EvFail int

fun circuit_apply :: "circuit_event \<Rightarrow> circuit \<Rightarrow> bool \<times> circuit" where
  "circuit_apply (EvLaunching now) c = set_launching now c"
| "circuit_apply (EvReady now) c = set_ready now c"
| "circuit_apply (EvRunning now) c = set_running now c"
| "circuit_apply EvDeletion c = set_deletion c"
| "circuit_apply (EvExecDone now) c = set_exec_done now c"
| "circuit_apply EvDone c = set_done c"
| "circuit_apply (EvResourcesConsumed now) c = set_resources_consumed now c"
| "circuit_apply (EvFail now) c = set_fail now c"

definition circuit_run :: "circuit_event list \<Rightarrow> circuit \<Rightarrow> circuit" where
  "circuit_run evs c = fold (\<lambda>e c. snd (circuit_apply e c)) evs c"

lemmas circuit_setters = set_launching_def set_ready_def set_running_def set_deletion_def
  set_exec_done_def set_done_def set_resources_consumed_def set_fail_def

lemma circuit_apply_mono: "c_state c \<le> c_state (snd (circuit_apply e c))"
  by (cases e) (auto simp: circuit_setters set_state_def)

lemma circuit_apply_cid: "c_cid (snd (circuit_apply e c)) = c_cid c"
  by (cases e) (auto simp: circuit_setters set_state_def)

lemma circuit_apply_info: "c_info (snd (circuit_apply e c)) = c_info c"
  by (cases e) (auto simp: circuit_setters set_state_def)

lemma circuit_run_Cons: "circuit_run (e # evs) c = circuit_run evs (snd (circuit_apply e c))"
  by (simp add: circuit_run_def)

lemma circuit_run_Nil [simp]: "circuit_run [] c = c"
  by (simp add: circuit_run_def)

interpretation circuit_life: monotone_machine "\<lambda>e c. snd (circuit_apply e c)" c_state
  by unfold_locales (rule circuit_apply_mono)

lemma circuit_run_mono: "c_state c \<le> c_state (circuit_run evs c)"
  unfolding circuit_run_def by (rule circuit_life.run_rank)

lemma circuit_apply_reached: "c_state (snd (circuit_apply e c)) \<in> {c_state c, LAUNCHING, READY, RUNNING,
    MARKED_FOR_DELETION, EXEC_DONE, DONE, RESOURCES_CONSUMED, FAIL}"
  by (cases e) (auto simp: circuit_setters set_state_def)

text \<open>The states a circuit can be in once it has been made ready.\<close>

definition started_state :: "circuit \<Rightarrow> bool" where
  "started_state c \<longleftrightarrow> c_state c \<in> {READY, RUNNING, LAUNCHING, RESOURCES_CONSUMED, FAIL}"

interpretation circuit_started: invariant_machine "\<lambda>e c. snd (circuit_apply e c)" started_state
proof
  fix c e assume "started_state c"
  then show "started_state (snd (circuit_apply e c))"
    using circuit_apply_reached [of e c] circuit_apply_mono [of c e] by (auto simp: circuit_states started_state_def)
qed

lemma circuit_run_from_ready:
  assumes "c_state c = READY"
  shows "c_state (circuit_run evs c) \<in> {READY, RUNNING, LAUNCHING, RESOURCES_CONSUMED, FAIL}"
  using circuit_started.run_inv [of c evs] assms by (simp add: circuit_run_def started_state_def)

text \<open>The state number of a circuit never decreases, and its identifier and its information stay.\<close>

lemma circuit_never_goes_back:
  "c_state c \<le> c_state (circuit_run evs c) \<and>
   c_cid (circuit_run evs c) = c_cid c \<and> c_info (circuit_run evs c) = c_info c"
proof (induction evs arbitrary: c)
  case (Cons e evs)
  from Cons.IH [of "snd (circuit_apply e c)"] circuit_apply_mono [of c e] show ?case
    by (simp add: circuit_run_Cons circuit_apply_cid circuit_apply_info)
qed simp

end
