(* ===== verification/QPM_Request.thy ===== *)
theory QPM_Request
  imports QPM_Metadata
begin

text \<open>
  \<^verbatim>\<open>services/util/qpm/request.py\<close>: splitting an execution request into the circuit payload and the
  request context. The environment variable the module reads is an argument. The lemmas show
  that a parsed payload carries neither the caller's token nor scoped metadata nor private keys,
  and that explicit arguments win over fields of the request.
\<close>

section \<open>Definitions\<close>

definition REQUEST_CONTEXT_KEYS :: "string list" where
  "REQUEST_CONTEXT_KEYS = [''reservation_id'', ''token'', ''timeout'', ''cancel_on_timeout'']"

definition SCOPED_METADATA_KEYS :: "string list" where
  "SCOPED_METADATA_KEYS =
     [''owner'', ''job_id'', ''allocation_id'', ''project_id'', ''session_id'', ''target_device_id'',
      ''scope_id'', ''workload'', ''policy'', ''run_context'']"

record request_context =
  rc_reservation_id :: "int option"
  rc_token :: pyval
  rc_timeout :: pyval
  rc_cancel_on_timeout :: bool
  rc_metadata :: pydict
  rc_auth_disabled :: bool

record execution_request =
  er_payload :: pydict
  er_context :: request_context

text \<open>\<open>as_payload_fields\<close>: the loop over \<^verbatim>\<open>REQUEST_CONTEXT_KEYS\<close> with its two skipped keys.\<close>

definition as_payload_fields :: "request_context \<Rightarrow> pydict" where
  "as_payload_fields ctx =
     (let value_of = (\<lambda>key. if key = ''reservation_id'' then opt_int (rc_reservation_id ctx) else rc_timeout ctx);
          fields = concat (map (\<lambda>key.
             if key \<in> set [''cancel_on_timeout'', ''token''] then []
             else let value = value_of key
                  in if value = PNone \<or> value = PDict [] then [] else [(key, value)]) REQUEST_CONTEXT_KEYS)
      in if rc_cancel_on_timeout ctx then dset ''cancel_on_timeout'' (PBool True) fields else fields)"

definition auth_disabled :: "string \<Rightarrow> bool" where
  "auth_disabled env_value \<longleftrightarrow>
     py_lower (py_strip env_value) \<in> set [''1'', ''true'', ''yes'', ''on'', ''y'']"

definition request_value :: "string \<Rightarrow> pydict \<Rightarrow> pydict \<Rightarrow> pyval" where
  "request_value key payload overrides =
     (let value = pget overrides key in if value \<noteq> PNone then value else pget payload key)"

definition scoped_metadata :: "pydict \<Rightarrow> pydict \<Rightarrow> pydict" where
  "scoped_metadata payload overrides =
     concat (map (\<lambda>key. let value = request_value key payload overrides
                        in if value = PNone \<or> value = PDict [] then [] else [(key, value)])
               SCOPED_METADATA_KEYS)"

definition context_from_payload :: "string \<Rightarrow> pydict \<Rightarrow> pydict \<Rightarrow> exc + request_context" where
  "context_from_payload auth_env payload overrides =
     (case normalize_optional_reservation_id (request_value ''reservation_id'' payload overrides) of
        Inl e \<Rightarrow> Inl e
      | Inr reservation_id \<Rightarrow> Inr
          \<lparr>rc_reservation_id = reservation_id,
           rc_token = request_value ''token'' payload overrides,
           rc_timeout = request_value ''timeout'' payload overrides,
           rc_cancel_on_timeout = py_truth (request_value ''cancel_on_timeout'' payload overrides),
           rc_metadata = scoped_metadata payload overrides,
           rc_auth_disabled = auth_disabled auth_env\<rparr>)"

definition parse_execution_request ::
  "string \<Rightarrow> pydict \<Rightarrow> pydict \<Rightarrow> exc + execution_request" where
  "parse_execution_request auth_env info overrides =
     (case context_from_payload auth_env info overrides of
        Inl e \<Rightarrow> Inl e
      | Inr ctx \<Rightarrow>
          (let payload = filter (\<lambda>kv. fst kv \<notin> set (REQUEST_CONTEXT_KEYS @ SCOPED_METADATA_KEYS)) info;
               payload = filter (\<lambda>kv. \<not> starts_with ''_qfw_'' (fst kv)) payload
           in Inr \<lparr>er_payload = dupdate payload (as_payload_fields ctx), er_context = ctx\<rparr>))"

section \<open>Lemmas\<close>

lemma keys_dset: "set (dkeys (dset k v d)) = insert k (set (dkeys d))"
  by (simp add: AList.dom_update)

lemma keys_dupdate: "set (dkeys (dupdate d new)) = set (dkeys d) \<union> set (dkeys new)"
  unfolding dupdate_def by (induction new arbitrary: d) (auto simp: keys_dset simp del: set_map)

lemma keys_as_payload_fields:
  "set (dkeys (as_payload_fields ctx)) \<subseteq> {''reservation_id'', ''timeout'', ''cancel_on_timeout''}"
  by (auto simp: as_payload_fields_def REQUEST_CONTEXT_KEYS_def Let_def keys_dset simp del: set_map)

lemma parsed_payload_keys:
  assumes "parse_execution_request auth_env info overrides = Inr req"
  shows "set (dkeys (er_payload req)) \<subseteq>
           {k \<in> set (dkeys info). \<not> starts_with ''_qfw_'' k \<and> k \<notin> set (REQUEST_CONTEXT_KEYS @ SCOPED_METADATA_KEYS)}
           \<union> {''reservation_id'', ''timeout'', ''cancel_on_timeout''}"
proof -
  obtain ctx where ctx: "context_from_payload auth_env info overrides = Inr ctx"
    using assms by (auto simp: parse_execution_request_def split: sum.splits)
  let ?p = "filter (\<lambda>kv. \<not> starts_with ''_qfw_'' (fst kv))
              (filter (\<lambda>kv. fst kv \<notin> set (REQUEST_CONTEXT_KEYS @ SCOPED_METADATA_KEYS)) info)"
  have "er_payload req = dupdate ?p (as_payload_fields ctx)"
    using assms ctx by (auto simp: parse_execution_request_def)
  then have "set (dkeys (er_payload req)) = set (dkeys ?p) \<union> set (dkeys (as_payload_fields ctx))"
    by (simp only: keys_dupdate)
  moreover have "set (dkeys ?p) \<subseteq> {k \<in> set (dkeys info). \<not> starts_with ''_qfw_'' k \<and>
      k \<notin> set (REQUEST_CONTEXT_KEYS @ SCOPED_METADATA_KEYS)}" by auto
  ultimately show ?thesis using keys_as_payload_fields [of ctx] by blast
qed

lemma request_value_override: "pget overrides k \<noteq> PNone \<Longrightarrow> request_value k payload overrides = pget overrides k"
  by (simp add: request_value_def)

end
