(* ===== verification/QPM_Sequence.thy ===== *)
theory QPM_Sequence
  imports QPM_Metadata
begin

text \<open>
  \<^verbatim>\<open>services/util/qpm/reservation_sequence.py\<close>: the persistent reservation identifier sequence.
  The sequence file is a value of \<open>seq_file\<close>; \<open>allocate\<close> reads it under the file lock, walks
  the identifiers 1..UINT64\_MAX cyclically from the last used one, skips active ones and writes
  the result back. The walk is \<open>partial_function (option)\<close>: None means that the Python loop does
  not end. The lemmas characterise the walk completely: it returns an inactive identifier
  whenever there is one, reports exhaustion when there is none and an identifier was used
  before, and does not end when the sequence is fresh and every identifier is active.
\<close>

section \<open>Definitions\<close>

datatype seq_file = Missing | Unreadable string | Text string

definition seq_read :: "seq_file \<Rightarrow> exc + int" where
  "seq_read f =
     (case f of
        Missing \<Rightarrow> Inr 0
      | Unreadable e \<Rightarrow> Inl (QPMAdmissionValidationError (''cannot read reservation sequence: '' @ e))
      | Text content \<Rightarrow>
          (let value = py_strip content
           in if value = [] \<or> \<not> isdecimal value
              then Inl (QPMAdmissionValidationError ''invalid reservation sequence'')
              else let number = int (decimal_value value)
                   in if number < 0 \<or> number > UINT64_MAX
                      then Inl (QPMAdmissionValidationError ''reservation sequence is outside uint64_t'')
                      else Inr number))"

definition seq_write :: "int \<Rightarrow> seq_file" where
  "seq_write value = Text (int_text value @ [CHR 0x0A])"

definition next_candidate :: "int \<Rightarrow> int" where
  "next_candidate candidate = (if candidate = UINT64_MAX then 1 else candidate + 1)"

partial_function (option) seq_search :: "int list \<Rightarrow> int \<Rightarrow> int \<Rightarrow> (exc + int) option" where
  "seq_search active_ids last_used candidate =
     (let c = next_candidate candidate
      in if c \<notin> set active_ids then Some (Inr c)
         else if c = last_used
              then Some (Inl (QPMAdmissionValidationError ''reservation identifier space is exhausted''))
              else seq_search active_ids last_used c)"

text \<open>
  \<open>allocate\<close> returns None when the loop does not end, else the outcome and the file it leaves.
\<close>

definition seq_allocate :: "int list \<Rightarrow> seq_file \<Rightarrow> ((exc + int) \<times> seq_file) option" where
  "seq_allocate active_ids f =
     (case seq_read f of
        Inl e \<Rightarrow> Some (Inl e, f)
      | Inr last_used \<Rightarrow>
          (case seq_search active_ids last_used last_used of
             None \<Rightarrow> None
           | Some (Inl e) \<Rightarrow> Some (Inl e, f)
           | Some (Inr c) \<Rightarrow> Some (Inr c, seq_write c)))"

definition seq_init :: "seq_file \<Rightarrow> exc + unit" where
  "seq_init f = (case seq_read f of Inl e \<Rightarrow> Inl e | Inr n \<Rightarrow> Inr ())"

section \<open>The file\<close>

lemma UINT64_MAX_pos: "0 < UINT64_MAX"
  by (simp add: UINT64_MAX_def)

lemma seq_read_write: "0 \<le> n \<Longrightarrow> n \<le> UINT64_MAX \<Longrightarrow> seq_read (seq_write n) = Inr n"
  by (simp add: seq_read_def seq_write_def int_text_def nat_text_digits strip_digits_newline
      isdecimal_nat_text nat_text_not_empty decimal_value_nat_text)

lemma seq_read_range: "seq_read f = Inr n \<Longrightarrow> 0 \<le> n \<and> n \<le> UINT64_MAX"
  using UINT64_MAX_pos by (auto simp: seq_read_def Let_def split: seq_file.splits if_splits)

section \<open>The walk\<close>

text \<open>The number of steps from \<open>c\<close> to \<open>t\<close>, between 1 and UINT64\_MAX.\<close>

definition steps_to :: "int \<Rightarrow> int \<Rightarrow> nat" where
  "steps_to c t = nat (if c < t then t - c else UINT64_MAX - c + t)"

lemma next_candidate_range:
  "0 \<le> c \<Longrightarrow> c \<le> UINT64_MAX \<Longrightarrow> 1 \<le> next_candidate c \<and> next_candidate c \<le> UINT64_MAX"
  using UINT64_MAX_pos by (auto simp: next_candidate_def)

lemma steps_to_pos: "c \<le> UINT64_MAX \<Longrightarrow> 1 \<le> t \<Longrightarrow> 0 < steps_to c t"
  by (auto simp: steps_to_def)

lemma steps_to_step:
  "0 \<le> c \<Longrightarrow> c \<le> UINT64_MAX \<Longrightarrow> 1 \<le> t \<Longrightarrow> t \<le> UINT64_MAX \<Longrightarrow> next_candidate c \<noteq> t \<Longrightarrow>
   steps_to c t = Suc (steps_to (next_candidate c) t)"
  by (auto simp: steps_to_def next_candidate_def nat_eq_iff split: if_splits)

lemma steps_to_next: "0 \<le> c \<Longrightarrow> c \<le> UINT64_MAX \<Longrightarrow> steps_to c (next_candidate c) = 1"
  by (auto simp: steps_to_def next_candidate_def)

lemma seq_search_free:
  assumes "0 \<le> c" "c \<le> UINT64_MAX" "1 \<le> t" "t \<le> UINT64_MAX" "t \<notin> set active"
    and "used = 0 \<or> (1 \<le> used \<and> used \<le> UINT64_MAX \<and> steps_to c t \<le> steps_to c used)"
  shows "\<exists>r. seq_search active used c = Some (Inr r) \<and> r \<notin> set active \<and> 1 \<le> r \<and> r \<le> UINT64_MAX"
  using assms
proof (induction "steps_to c t" arbitrary: c rule: less_induct)
  case less
  let ?n = "next_candidate c"
  have range: "1 \<le> ?n" "?n \<le> UINT64_MAX"
    using next_candidate_range less.prems by blast+
  show ?case
  proof (cases "?n \<in> set active")
    case False
    then show ?thesis using range by (subst seq_search.simps) (simp add: Let_def)
  next
    case True
    then have "?n \<noteq> t" using less.prems by auto
    then have step: "steps_to c t = Suc (steps_to ?n t)" using less.prems by (simp add: steps_to_step)
    have not_last: "?n \<noteq> used"
    proof
      assume "?n = used"
      then have "steps_to c used = 1" using less.prems by (metis steps_to_next)
      moreover have "used \<noteq> 0" using \<open>?n = used\<close> range by simp
      ultimately show False using less.prems(6) step steps_to_pos [of ?n t] range less.prems by linarith
    qed
    have "used = 0 \<or> (1 \<le> used \<and> used \<le> UINT64_MAX \<and> steps_to ?n t \<le> steps_to ?n used)"
      using less.prems step not_last steps_to_step [of c used] by auto
    then have "\<exists>r. seq_search active used ?n = Some (Inr r) \<and> r \<notin> set active \<and> 1 \<le> r \<and> r \<le> UINT64_MAX"
      using less.hyps [of ?n] step less.prems range by simp
    then show ?thesis using True not_last by (subst seq_search.simps) (simp add: Let_def)
  qed
qed

lemma steps_to_le_self:
  "1 \<le> c \<Longrightarrow> c \<le> UINT64_MAX \<Longrightarrow> 1 \<le> t \<Longrightarrow> t \<le> UINT64_MAX \<Longrightarrow> steps_to c t \<le> steps_to c c"
  by (auto simp: steps_to_def)

lemma seq_search_exhausted:
  assumes "0 \<le> c" "c \<le> UINT64_MAX" "1 \<le> used" "used \<le> UINT64_MAX"
    and "\<forall>t. 1 \<le> t \<and> t \<le> UINT64_MAX \<longrightarrow> t \<in> set active"
  shows "\<exists>e. seq_search active used c = Some (Inl e)"
  using assms
proof (induction "steps_to c used" arbitrary: c rule: less_induct)
  case less
  let ?n = "next_candidate c"
  have range: "1 \<le> ?n" "?n \<le> UINT64_MAX"
    using next_candidate_range less.prems by blast+
  then have act: "?n \<in> set active" using less.prems by blast
  show ?case
  proof (cases "?n = used")
    case True
    then show ?thesis using act by (subst seq_search.simps) (simp add: Let_def)
  next
    case False
    then have "steps_to ?n used < steps_to c used" using less.prems by (simp add: steps_to_step)
    then have "\<exists>e. seq_search active used ?n = Some (Inl e)"
      using less.hyps [of ?n] less.prems range by simp
    then show ?thesis using act False by (subst seq_search.simps) (simp add: Let_def)
  qed
qed

lemma seq_search_diverges:
  assumes full: "\<forall>t. 1 \<le> t \<and> t \<le> UINT64_MAX \<longrightarrow> t \<in> set active"
    and range: "0 \<le> c" "c \<le> UINT64_MAX"
  shows "seq_search active 0 c = None"
proof (rule ccontr)
  assume "seq_search active 0 c \<noteq> None"
  then obtain r where ret: "seq_search active 0 c = Some r" by blast
  have "active = active \<and> (0::int) = 0 \<longrightarrow> 0 \<le> c \<and> c \<le> UINT64_MAX \<longrightarrow> False"
  proof (rule seq_search.raw_induct
      [where P = "\<lambda>a l c r. a = active \<and> l = 0 \<longrightarrow> 0 \<le> c \<and> c \<le> UINT64_MAX \<longrightarrow> False", OF _ ret])
    fix f a l c' r'
    assume IH: "\<And>a l c r. f a l c = Some r \<Longrightarrow> a = active \<and> l = 0 \<longrightarrow> 0 \<le> c \<and> c \<le> UINT64_MAX \<longrightarrow> False"
      and eq: "(let c = next_candidate c' in if c \<notin> set a then Some (Inr c)
         else if c = l then Some (Inl (QPMAdmissionValidationError ''reservation identifier space is exhausted''))
         else f a l c) = Some r'"
    show "a = active \<and> l = 0 \<longrightarrow> 0 \<le> c' \<and> c' \<le> UINT64_MAX \<longrightarrow> False"
    proof (intro impI)
      assume al: "a = active \<and> l = 0" and cr: "0 \<le> c' \<and> c' \<le> UINT64_MAX"
      then have n: "1 \<le> next_candidate c'" "next_candidate c' \<le> UINT64_MAX"
        using next_candidate_range by blast+
      then have "next_candidate c' \<in> set active" using full by blast
      then have "f a l (next_candidate c') = Some r'" using eq al n by (simp add: Let_def)
      then show False using IH al n by fastforce
    qed
  qed
  then show False using range by simp
qed

text \<open>
  With every identifier active the sequence reports exhaustion when one was used before, and
  never returns when the file is new.
\<close>

lemma sequence_without_free_identifier:
  assumes "\<forall>t. 1 \<le> t \<and> t \<le> UINT64_MAX \<longrightarrow> t \<in> set active" "1 \<le> used" "used \<le> UINT64_MAX"
  shows "(\<exists>e. seq_allocate active (seq_write used) = Some (Inl e, seq_write used)) \<and> seq_allocate active Missing = None"
proof
  from seq_search_exhausted [of used used active] assms
  obtain e where "seq_search active used used = Some (Inl e)" by auto
  then show "\<exists>e. seq_allocate active (seq_write used) = Some (Inl e, seq_write used)"
    using assms seq_read_write [of used] by (auto simp: seq_allocate_def)
  have "seq_search active 0 0 = None" using seq_search_diverges [OF assms(1), of 0] by (simp add: UINT64_MAX_def)
  then show "seq_allocate active Missing = None" by (simp add: seq_allocate_def seq_read_def)
qed

end
