(* ===== verification/QPM_Credentials.thy ===== *)
theory QPM_Credentials
  imports QPM_World
begin

text \<open>
  \<^verbatim>\<open>services/util/qpm/credentials.py\<close>: the providers that bind a credential to a reservation. A
  provider class is a constructor of \<open>credential_provider\<close>; a provider loaded as a plugin is code
  outside the repository, reached through calls. The lemmas show that a key is bound only to a
  user whose entry for the device is enabled, that an entitlement carries nothing to authenticate
  with, and that a mode other than the two known ones binds nothing.
\<close>

section \<open>Definitions\<close>

datatype credential_provider =
    NoSecretCredentialProvider
  | FileCredentialProvider string pydict pydict
  | EntitlementCredentialProvider string pydict pydict
  | PluginProvider string string

record credential_response =
  resp_secret :: pyval
  resp_metadata :: pyval

definition CREDENTIAL_BINDING_SCHEMA :: string where
  "CREDENTIAL_BINDING_SCHEMA = ''qfw-provider-credential-binding-v1''"

definition sensitive_key :: "string \<Rightarrow> bool" where
  "sensitive_key key =
     (let name = replace_char (CHR ''-'') (CHR ''_'') (py_lower (py_strip key))
      in list_ex (\<lambda>part. contains_text part name) [''api_key'', ''apikey'', ''password'', ''secret'', ''token''])"

fun redacted_hint :: "pyval \<Rightarrow> pyval" where
  "redacted_hint (PDict d) =
     PDict (map (\<lambda>kv. (fst kv, if sensitive_key (fst kv) then PStr ''<redacted>'' else redacted_hint (snd kv))) d)"
| "redacted_hint v = v"

fun credential_drop_none :: "pyval \<Rightarrow> pyval" where
  "credential_drop_none (PDict d) =
     PDict (map (\<lambda>kv. (fst kv, credential_drop_none (snd kv))) (filter (\<lambda>kv. snd kv \<noteq> PNone) d))"
| "credential_drop_none (PList xs) = PList (map credential_drop_none (filter (\<lambda>v. v \<noteq> PNone) xs))"
| "credential_drop_none v = v"

definition credential_request_from_binding :: "pydict \<Rightarrow> exc + pydict" where
  "credential_request_from_binding binding =
     bindE (py_dict_or_empty (pget binding ''resource'')) (\<lambda>resource.
     bindE (py_dict_or_empty (pget binding ''launcher'')) (\<lambda>launcher.
     bindE (py_dict_or_empty (pget binding ''provider_credential_binding'')) (\<lambda>credential.
     bindE (py_dict_or_empty (pget binding ''owner'')) (\<lambda>owner.
       Inr [(''binding'', PDict binding),
            (''user'', py_or (pget launcher ''external_user_id'') (py_or (pget owner ''user'')
               (py_or (pget owner ''user_id'') (pget credential ''user_id'')))),
            (''job_id'', pget launcher ''external_job_id''),
            (''allocation_id'', pget launcher ''allocation_id''),
            (''scope_id'', py_or (pget launcher ''external_scope_id'') (pget resource ''scope_id'')),
            (''target_device_id'', py_or (pget resource ''target_device_id'') (pget credential ''target_device_id'')),
            (''provider_device_id'', pget credential ''provider_device_id''),
            (''provider'', pget credential ''provider''),
            (''credential_scope'', pget credential ''credential_scope''),
            (''credential_hint'', pget credential ''credential_hint''),
            (''credential_handle'', pget credential ''credential_handle'')]))))"

text \<open>\<open>kind\<close> is the word the error message has for the provider.\<close>

definition credential_db_path :: "access_env \<Rightarrow> string \<Rightarrow> string \<Rightarrow> pydict \<Rightarrow> pydict \<Rightarrow> exc + string" where
  "credential_db_path ae kind path device provider_config =
     (let v = py_or (pget provider_config ''credential-db'') (py_or (pget provider_config ''path'') (pget device ''credential_db''))
      in if \<not> py_truth v then Inl (QPMCredentialError (kind @ '' credential provider requires credential-db''))
         else case v of
                PStr s \<Rightarrow> Inr (resolve_relative_path ae s path)
              | _ \<Rightarrow> Inl (TypeError ''expected str, bytes or os.PathLike object''))"

record selected_credential =
  sel_user :: string
  sel_api_key :: string
  sel_service_crn :: "string option"
  sel_project_id :: "string option"
  sel_object_storage :: pydict
  sel_db_path :: string

definition select_credential :: "access_env \<Rightarrow> string \<Rightarrow> pydict \<Rightarrow> pydict \<Rightarrow> pydict \<Rightarrow> exc + selected_credential" where
  "select_credential ae path device provider_config request =
     (let device_id = pget device ''device_id''; provider_device_id = pget device ''provider_device_id''
      in bindE (credential_db_path ae ''file'' path device provider_config) (\<lambda>db_path.
         bindE (load_json_config ae db_path) (\<lambda>db.
         bindE (select_user_record db (pget request ''user'') device_id provider_device_id
                  (pget request ''credential_hint'') (pget request ''credential_handle'')) (\<lambda>(key, record).
           case get_api_key_from_user_record record device_id provider_device_id of
             Some (c # cs) \<Rightarrow> Inr
               \<lparr>sel_user = key, sel_api_key = c # cs,
                sel_service_crn = get_service_crn_from_user_record record device_id provider_device_id,
                sel_project_id = get_project_id_from_user_record record device_id provider_device_id,
                sel_object_storage = get_object_storage_from_user_record record device_id provider_device_id,
                sel_db_path = db_path\<rparr>
           | _ \<Rightarrow> Inl (QPMCredentialError (''file credential provider did not return an API key for user='' @ repr_text key @
                  '' device='' @ py_repr device_id))))))"

definition expires_at_ns :: "access_env \<Rightarrow> pydict \<Rightarrow> int \<Rightarrow> exc + int" where
  "expires_at_ns ae provider_config now =
     bindE (if pget provider_config ''ttl-ns'' \<noteq> PNone then map_sum id Some (py_int (pget provider_config ''ttl-ns''))
            else if pget provider_config ''ttl-seconds'' = PNone then Inr None
            else map_sum id Some (float_ns ae (pget provider_config ''ttl-seconds''))) (\<lambda>ttl.
       case ttl of
         None \<Rightarrow> Inr 0
       | Some t \<Rightarrow> Inr (if t \<le> 0 then 0 else now + t))"

definition nonempty_values :: "pydict \<Rightarrow> pydict" where
  "nonempty_values d = filter (\<lambda>kv. snd kv \<noteq> PNone \<and> snd kv \<noteq> PStr []) d"

definition binding_metadata ::
  "string \<Rightarrow> string \<Rightarrow> pydict \<Rightarrow> pydict \<Rightarrow> pydict \<Rightarrow> string \<Rightarrow> string \<Rightarrow> int \<Rightarrow> int \<Rightarrow> pyval \<Rightarrow> string \<Rightarrow> pyval" where
  "binding_metadata name path device provider_config request user db_path now expires refresh material =
     credential_drop_none (PDict
       [(''schema'', PStr CREDENTIAL_BINDING_SCHEMA), (''provider'', pgetd provider_config ''name'' (PStr name)),
        (''provider_type'', PStr name),
        (''credential_scope'', py_or (pget request ''credential_scope'') (pget provider_config ''scope'')),
        (''credential_handle'', pget request ''credential_handle''),
        (''credential_hint'', redacted_hint (pget request ''credential_hint'')),
        (''target_device_id'', pget device ''device_id''), (''provider_device_id'', pget device ''provider_device_id''),
        (''user'', PStr user), (''bound_at_ns'', PInt now), (''expires_at_ns'', PInt expires), (''refresh_policy'', refresh),
        (''source'', PDict [(''type'', PStr name), (''config'', PStr path), (''credential_db'', PStr db_path)]),
        (''secret_material'', PStr material)])"

definition file_secret :: "pydict \<Rightarrow> selected_credential \<Rightarrow> pydict" where
  "file_secret device sel =
     nonempty_values (dupdate
       [(''api_key'', PStr (sel_api_key sel)), (''token'', PStr (sel_api_key sel)),
        (''service_crn'', opt_str (sel_service_crn sel)), (''project_id'', opt_str (sel_project_id sel)),
        (''url'', pget device ''url''), (''device_id'', pget device ''device_id''), (''provider'', pget device ''provider''),
        (''provider_device_id'', pget device ''provider_device_id''),
        (''quantum_computer'', pget device ''provider_device_id''), (''user'', PStr (sel_user sel))]
       (sel_object_storage sel))"

definition select_entitlement :: "access_env \<Rightarrow> string \<Rightarrow> pydict \<Rightarrow> pydict \<Rightarrow> pydict \<Rightarrow> exc + (string \<times> pyval) \<times> string" where
  "select_entitlement ae path device provider_config request =
     bindE (credential_db_path ae ''entitlement'' path device provider_config) (\<lambda>db_path.
     bindE (load_json_config ae db_path) (\<lambda>db.
       case select_entitled_record db (pget request ''user'') (pget device ''device_id'') (pget device ''provider_device_id'')
              (pget request ''credential_hint'') (pget request ''credential_handle'') of
         Inr found \<Rightarrow> Inr (found, db_path)
       | Inl (DEFwExecutionError m) \<Rightarrow> Inl (QPMCredentialError m)
       | Inl e \<Rightarrow> Inl e))"

definition entitlement_secret :: "pydict \<Rightarrow> string \<Rightarrow> pyval \<Rightarrow> pydict" where
  "entitlement_secret device user record =
     nonempty_values
       [(''url'', pget device ''url''), (''device_id'', pget device ''device_id''), (''provider'', pget device ''provider''),
        (''provider_device_id'', pget device ''provider_device_id''),
        (''quantum_computer'', pget device ''provider_device_id''), (''user'', PStr user),
        (''project_id'', opt_str (get_project_id_from_user_record record (pget device ''device_id'')
           (pget device ''provider_device_id'')))]"

section \<open>Choosing a provider\<close>

definition selected_device :: "access_env \<Rightarrow> pyval \<Rightarrow> string \<Rightarrow> pydict \<Rightarrow> exc + pydict option" where
  "selected_device ae config path request =
     (case select_qpu ae config path (pget request ''provider'') (pget request ''target_device_id'') of
        Inr device \<Rightarrow> Inr (Some device)
      | Inl (DEFwExecutionError m) \<Rightarrow>
          if \<not> py_truth (pget request ''target_device_id'') then Inr None
          else (case select_qpu ae config path PNone (pget request ''target_device_id'') of
                  Inr device \<Rightarrow> Inr (Some device)
                | Inl (DEFwExecutionError m) \<Rightarrow> Inr None
                | Inl e \<Rightarrow> Inl e)
      | Inl e \<Rightarrow> Inl e)"

definition provider_config_for_device :: "pyval \<Rightarrow> pydict \<Rightarrow> exc + pydict" where
  "provider_config_for_device config device =
     bindE (case config of PDict c \<Rightarrow> Inr (py_or (pget c ''credential-providers'') (PDict []))
                         | _ \<Rightarrow> Inl (AttributeError ''object has no attribute get'')) (\<lambda>providers.
       let ref = pget device ''credential_provider''
       in bindE (case ref of
                   PDict d \<Rightarrow> Inr d
                 | _ \<Rightarrow> if \<not> py_truth ref then Inr []
                        else bindE (py_dict providers) (\<lambda>providers.
                             bindE (get_key providers ref) (\<lambda>entry.
                             bindE (case ref of
                                      PStr k \<Rightarrow> if has_key providers k then py_dict entry else Inr []
                                    | _ \<Rightarrow> Inr []) (\<lambda>found. Inr (dsetdefault ''name'' ref found)))))
            (\<lambda>found.
               let found = (if found = [] then [(''type'', PStr ''file''), (''credential_db'', pget device ''credential_db'')]
                            else found)
               in Inr (dsetdefault ''type'' (PStr ''file'') found)))"

definition load_plugin_provider :: "qpm_env \<Rightarrow> pydict \<Rightarrow> ('a world_scheme, credential_provider) pm" where
  "load_plugin_provider env provider_config =
     (let module = pget provider_config ''module'';
          class_name = py_or (pget provider_config ''class'') (PStr ''CredentialProvider'')
      in if \<not> py_truth module then raiseM (QPMCredentialError ''python credential provider requires module'')
         else tryM (seqM (ext env (LoadPlugin (py_str module) (py_str class_name)))
                     (retM (PluginProvider (py_str module) (py_str class_name))))
                (\<lambda>error. raiseM (QPMCredentialError (''failed to load credential provider '' @ py_str module @ ''.'' @
                   py_str class_name @ '': '' @ exc_text error))))"

definition provider_for_device ::
  "qpm_env \<Rightarrow> string \<Rightarrow> pydict \<Rightarrow> pydict \<Rightarrow> ('a world_scheme, credential_provider) pm" where
  "provider_for_device env path device provider_config =
     (let provider_type = py_lower (py_strip (py_str (pgetd provider_config ''type'' (PStr ''file''))))
      in if provider_type \<in> set FILE_PROVIDER_TYPES then retM (FileCredentialProvider path device provider_config)
         else if provider_type \<in> set ENTITLEMENT_PROVIDER_TYPES
         then retM (EntitlementCredentialProvider path device provider_config)
         else if provider_type \<in> set [''none'', ''no-secret'']
         then raiseM (QPMCredentialError ''hardware QPM cannot use a no-secret credential provider'')
         else if provider_type \<in> set PLUGIN_PROVIDER_TYPES then load_plugin_provider env provider_config
         else raiseM (QPMCredentialError (''unsupported credential provider type '' @ repr_text provider_type)))"

definition mode_text :: "access_env \<Rightarrow> string \<Rightarrow> string" where
  "mode_text ae mode =
     py_lower (py_strip (if mode \<noteq> [] then mode else case mode_variable ae of Some s \<Rightarrow> s | None \<Rightarrow> []))"

definition provider_for_request :: "qpm_env \<Rightarrow> pydict \<Rightarrow> string \<Rightarrow> ('a world_scheme, credential_provider) pm" where
  "provider_for_request env request credential_mode =
     bindM (access_now env) (\<lambda>ae.
       if mode_text ae credential_mode = NO_SECRET_PROVIDER then retM NoSecretCredentialProvider
       else if mode_text ae credential_mode \<noteq> ''required''
       then raiseM (QPMCredentialError ''QPM credential mode must be explicitly configured'')
       else bindM (liftM (case load_yaml_config ae (config_path ae) of
                            Inl (DEFwExecutionError m) \<Rightarrow>
                              Inl (QPMCredentialError (''credential provider configuration is required but could not be loaded: '' @ m))
                          | r \<Rightarrow> r)) (\<lambda>config.
            bindM (liftM (selected_device ae config (config_path ae) request)) (\<lambda>found.
              case found of
                None \<Rightarrow> raiseM (QPMCredentialError (''no matching QPU device was found for target '' @
                          py_repr (pget request ''target_device_id'')))
              | Some device \<Rightarrow>
                  bindM (liftM (provider_config_for_device config device)) (\<lambda>provider_config.
                    provider_for_device env (config_path ae) device provider_config))))"

section \<open>Validating and binding\<close>

definition validate_with :: "qpm_env \<Rightarrow> credential_provider \<Rightarrow> pydict \<Rightarrow> ('a world_scheme, unit) pm" where
  "validate_with env provider request =
     bindM (access_now env) (\<lambda>ae.
       case provider of
         NoSecretCredentialProvider \<Rightarrow> retM ()
       | FileCredentialProvider path device config \<Rightarrow>
           bindM (liftM (select_credential ae path device config request)) (\<lambda>_. retM ())
       | EntitlementCredentialProvider path device config \<Rightarrow>
           bindM (liftM (select_entitlement ae path device config request)) (\<lambda>_. retM ())
       | PluginProvider module class_name \<Rightarrow> seqM (ext env (CredentialValidate request)) (retM ()))"

definition no_secret_metadata :: "pydict \<Rightarrow> int \<Rightarrow> pyval" where
  "no_secret_metadata request now =
     PDict [(''schema'', PStr CREDENTIAL_BINDING_SCHEMA), (''provider'', PStr NO_SECRET_PROVIDER),
       (''provider_type'', PStr NO_SECRET_PROVIDER), (''credential_scope'', pget request ''credential_scope''),
       (''credential_handle'', pget request ''credential_handle''), (''target_device_id'', pget request ''target_device_id''),
       (''provider_device_id'', pget request ''provider_device_id''), (''user'', pget request ''user''),
       (''bound_at_ns'', PInt now), (''expires_at_ns'', PInt 0), (''refresh_policy'', PStr ''none''),
       (''secret_material'', PStr ''none'')]"

definition bind_with :: "qpm_env \<Rightarrow> credential_provider \<Rightarrow> pydict \<Rightarrow> ('a world_scheme, credential_response) pm" where
  "bind_with env provider request =
     bindM (access_now env) (\<lambda>ae.
       case provider of
         NoSecretCredentialProvider \<Rightarrow>
           bindM (time_ns env) (\<lambda>now. retM \<lparr>resp_secret = PDict [], resp_metadata = no_secret_metadata request now\<rparr>)
       | FileCredentialProvider path device config \<Rightarrow>
           bindM (liftM (select_credential ae path device config request)) (\<lambda>sel.
           bindM (time_ns env) (\<lambda>now.
           bindM (liftM (expires_at_ns ae config now)) (\<lambda>expires.
             retM \<lparr>resp_secret = PDict (file_secret device sel),
                   resp_metadata = binding_metadata ''file'' path device config request (sel_user sel) (sel_db_path sel)
                     now expires (pgetd config ''refresh-policy'' (PStr ''none'')) ''cached-in-qpm''\<rparr>)))
       | EntitlementCredentialProvider path device config \<Rightarrow>
           bindM (liftM (select_entitlement ae path device config request)) (\<lambda>((key, record), db_path).
           bindM (time_ns env) (\<lambda>now.
             retM \<lparr>resp_secret = PDict (entitlement_secret device key record),
                   resp_metadata = binding_metadata ''entitlement'' path device config request key db_path
                     now 0 (PStr ''none'') ''none''\<rparr>))
       | PluginProvider module class_name \<Rightarrow>
           bindM (ext env (CredentialBind request)) (\<lambda>v.
             case v of
               EObj d \<Rightarrow> retM \<lparr>resp_secret = pget d ''secret'', resp_metadata = pget d ''metadata''\<rparr>
             | _ \<Rightarrow> raiseM (AttributeError ''object has no attribute secret'')))"

definition bind_reservation_credential ::
  "qpm_env \<Rightarrow> pydict \<Rightarrow> string \<Rightarrow> ('a world_scheme, credential_provider \<times> credential_response) pm" where
  "bind_reservation_credential env binding credential_mode =
     bindM (liftM (credential_request_from_binding binding)) (\<lambda>request.
     bindM (provider_for_request env request credential_mode) (\<lambda>provider.
     bindM (bind_with env provider request) (\<lambda>response. retM (provider, response))))"

definition validate_reservation_credential :: "qpm_env \<Rightarrow> pydict \<Rightarrow> string \<Rightarrow> ('a world_scheme, unit) pm" where
  "validate_reservation_credential env binding credential_mode =
     bindM (liftM (credential_request_from_binding binding)) (\<lambda>request.
     bindM (provider_for_request env request credential_mode) (\<lambda>provider. validate_with env provider request))"

definition is_plugin :: "credential_provider \<Rightarrow> bool" where
  "is_plugin provider = (case provider of PluginProvider module class_name \<Rightarrow> True | _ \<Rightarrow> False)"

section \<open>Lemmas\<close>

lemma keeps_access [keeps_rules]: "keeps I (access_now env)"
  by (simp add: access_now_def keeps_get)

lemma keeps_plugin: "world_blind I \<Longrightarrow> keeps I (load_plugin_provider env config)"
  unfolding load_plugin_provider_def Let_def by (intro keeps_rules keeps_ext)

lemma keeps_provider_for_request: "world_blind I \<Longrightarrow> keeps I (provider_for_request env request mode)"
  unfolding provider_for_request_def provider_for_device_def Let_def by (intro keeps_rules keeps_plugin)

lemma keeps_validate_credential: "world_blind I \<Longrightarrow> keeps I (validate_reservation_credential env binding mode)"
  unfolding validate_reservation_credential_def validate_with_def
  by (intro keeps_rules keeps_provider_for_request)
    (auto intro!: keeps_rules keeps_ext split: credential_provider.splits)

lemma keeps_bind_credential: "world_blind I \<Longrightarrow> keeps I (bind_reservation_credential env binding mode)"
  unfolding bind_reservation_credential_def bind_with_def
  by (intro keeps_rules keeps_provider_for_request)
    (auto intro!: keeps_rules keeps_ext keeps_time split: credential_provider.splits prod.splits ext_value.splits)

text \<open>Somebody the request names has an enabled entry for the device in the database at some path.\<close>

definition entitled_by :: "access_env \<Rightarrow> pydict \<Rightarrow> pydict \<Rightarrow> string \<Rightarrow> pydict \<Rightarrow> bool" where
  "entitled_by ae device request user entry \<longleftrightarrow>
     (\<exists>path db users. load_json_config ae path = Inr db \<and> get_user_records db = Inr users \<and>
        user \<in> set (credential_record_candidates users (pget request ''user'') (pget request ''credential_hint'')
          (pget request ''credential_handle'')) \<and>
        entitled (pget users user) (pget device ''device_id'') (pget device ''provider_device_id'') entry)"

lemma selected_credential_entitled:
  assumes "select_credential ae path device config request = Inr sel"
  shows "\<exists>entry. entitled_by ae device request (sel_user sel) entry \<and>
    sel_api_key sel = py_strip (py_str (pget entry ''api_key'')) \<and> sel_api_key sel \<noteq> [] \<and>
    set (dkeys (sel_object_storage sel)) \<subseteq> set OBJECT_STORAGE_SECRET_KEYS"
proof -
  from assms obtain db_path db key rec api_key where
    found: "load_json_config ae db_path = Inr db"
      "select_user_record db (pget request ''user'') (pget device ''device_id'') (pget device ''provider_device_id'')
         (pget request ''credential_hint'') (pget request ''credential_handle'') = Inr (key, rec)"
      "get_api_key_from_user_record rec (pget device ''device_id'') (pget device ''provider_device_id'') = Some api_key"
      "sel_user sel = key" "sel_api_key sel = api_key" "api_key \<noteq> []"
      "sel_object_storage sel = get_object_storage_from_user_record rec (pget device ''device_id'') (pget device ''provider_device_id'')"
  proof -
    from assms obtain db_path db key rec where
      "load_json_config ae db_path = Inr db"
      "select_user_record db (pget request ''user'') (pget device ''device_id'') (pget device ''provider_device_id'')
         (pget request ''credential_hint'') (pget request ''credential_handle'') = Inr (key, rec)"
      "(case get_api_key_from_user_record rec (pget device ''device_id'') (pget device ''provider_device_id'') of
          Some (c # cs) \<Rightarrow> Inr
            \<lparr>sel_user = key, sel_api_key = c # cs,
             sel_service_crn = get_service_crn_from_user_record rec (pget device ''device_id'') (pget device ''provider_device_id''),
             sel_project_id = get_project_id_from_user_record rec (pget device ''device_id'') (pget device ''provider_device_id''),
             sel_object_storage = get_object_storage_from_user_record rec (pget device ''device_id'') (pget device ''provider_device_id''),
             sel_db_path = db_path\<rparr>
        | _ \<Rightarrow> Inl (QPMCredentialError (''file credential provider did not return an API key for user='' @ repr_text key @
               '' device='' @ py_repr (pget device ''device_id'')))) = Inr sel"
      unfolding select_credential_def Let_def bindE_Inr by auto
    then show thesis using that by (auto split: option.splits list.splits)
  qed
  from selected_user_record [OF found(2)] obtain users entry where
    "get_user_records db = Inr users"
    "key \<in> set (credential_record_candidates users (pget request ''user'') (pget request ''credential_hint'')
       (pget request ''credential_handle''))"
    "pget users key = rec" "entitled rec (pget device ''device_id'') (pget device ''provider_device_id'') entry"
    "api_key = py_strip (py_str (pget entry ''api_key''))"
    using found(3) by auto
  moreover have "set (dkeys (sel_object_storage sel)) \<subseteq> set OBJECT_STORAGE_SECRET_KEYS"
    unfolding found(7) get_object_storage_from_user_record_def by (auto simp: Let_def)
  ultimately show ?thesis using found(1,4,5,6) unfolding entitled_by_def by metis
qed

lemma entitlement_found:
  "(case r of Inr found \<Rightarrow> Inr (found, path) | Inl (DEFwExecutionError m) \<Rightarrow> Inl (QPMCredentialError m) | Inl e \<Rightarrow> Inl e) =
     Inr (found, db_path) \<longleftrightarrow> r = Inr found \<and> path = db_path"
  by (cases r) (simp_all split: exc.split)

lemma selected_entitlement_entitled:
  assumes "select_entitlement ae path device config request = Inr ((key, rec), db_path)"
  shows "\<exists>entry. entitled_by ae device request key entry"
proof -
  from assms obtain db where
    "load_json_config ae db_path = Inr db"
    "select_entitled_record db (pget request ''user'') (pget device ''device_id'') (pget device ''provider_device_id'')
       (pget request ''credential_hint'') (pget request ''credential_handle'') = Inr (key, rec)"
    unfolding select_entitlement_def bindE_Inr entitlement_found by blast
  with selected_entitled_record show ?thesis unfolding entitled_by_def by blast
qed

lemma map_of_nonempty_values:
  "dict_ok d \<Longrightarrow> map_of (nonempty_values d) k =
     (case map_of d k of Some v \<Rightarrow> if v \<noteq> PNone \<and> v \<noteq> PStr [] then Some v else None | None \<Rightarrow> None)"
  unfolding nonempty_values_def
  by (induction d) (force simp: dict_ok_def split: option.splits dest: map_of_SomeD)+

lemma dict_ok_dupdate: "dict_ok d \<Longrightarrow> dict_ok (dupdate d new)"
  unfolding dupdate_def by (induction new arbitrary: d) auto

lemma map_of_dupdate_other: "k \<notin> set (dkeys new) \<Longrightarrow> map_of (dupdate d new) k = map_of d k"
  by (simp add: map_of_dupdate map_add_def map_of_eq_None_iff [THEN iffD2] split: option.splits)

lemma file_secret_key:
  assumes "sel_api_key sel \<noteq> []" "set (dkeys (sel_object_storage sel)) \<subseteq> set OBJECT_STORAGE_SECRET_KEYS"
  shows "pget (file_secret device sel) ''api_key'' = PStr (sel_api_key sel)"
proof -
  have "''api_key'' \<notin> set (dkeys (sel_object_storage sel))" using assms(2) by (auto simp: OBJECT_STORAGE_SECRET_KEYS_def)
  then show ?thesis
    using assms(1)
    by (simp add: file_secret_def pget_def map_of_nonempty_values [OF dict_ok_dupdate] map_of_dupdate_other dict_ok_def)
qed

text \<open>An entitlement carries nothing whose name marks it as a credential.\<close>

lemma entitlement_secret_plain:
  assumes "k \<in> set (dkeys (entitlement_secret device user rec))"
  shows "\<not> sensitive_key k"
proof -
  have "list_all (\<lambda>k. \<not> sensitive_key k) [''url'', ''device_id'', ''provider'', ''provider_device_id'',
      ''quantum_computer'', ''user'', ''project_id'']" by code_simp
  moreover have "set (dkeys (nonempty_values d)) \<subseteq> set (dkeys d)" for d
    by (auto simp: nonempty_values_def)
  then have "k \<in> set [''url'', ''device_id'', ''provider'', ''provider_device_id'', ''quantum_computer'', ''user'', ''project_id'']"
    using assms unfolding entitlement_secret_def by fastforce
  ultimately show ?thesis unfolding list_all_iff by blast
qed

text \<open>A provider is chosen in the two known modes only, and the one without secrets only when the mode says so.\<close>

lemma provider_mode:
  assumes "provider_for_request env request mode s = (Inr provider, t)"
  shows "mode_text (access env (history s)) mode = NO_SECRET_PROVIDER \<and> provider = NoSecretCredentialProvider \<or>
    mode_text (access env (history s)) mode = ''required'' \<and> provider \<noteq> NoSecretCredentialProvider \<and>
    (is_plugin provider \<or> t = s)"
  using assms
  by (auto simp: provider_for_request_def provider_for_device_def load_plugin_provider_def access_now_def is_plugin_def
      monad_defs Let_def split: if_splits sum.splits option.splits prod.splits exc.splits)

end
