(* ===== verification/QPM_State.thy ===== *)
theory QPM_State
  imports QPM_Admission QPM_Scheduler QPM_Circuit QPM_Request QPM_Payload QPM_Sequence QPM_Credentials
begin

text \<open>
  The state of \<^verbatim>\<open>QPMTargetController\<close> (\<^verbatim>\<open>services/util/qpm/controller.py\<close>), built as a chain of
  record extensions: the world, the task tables, the completion queues, the reservations and the
  service's own configuration and records.

  Objects the code shares are represented once. A runtime task lives in
  \<open>runtime_by_qtask_id\<close>, and \<open>runtime_by_cid\<close>, which in the code holds a second reference to
  the same object, holds its \<open>qtask_id\<close>. A circuit lives in \<open>circuit_heap\<close> under its
  \<open>cid\<close>; \<open>circuits\<close> is the table of the circuits the service still lists. Snapshots of
  retired tasks are copies in the code and values here. A method that runs under the
  controller's lock is one function of the state.
\<close>

section \<open>Task states\<close>

datatype task_state =
    QPM_TASK_CREATED
  | QPM_TASK_RESOURCES_CONSUMED
  | QPM_TASK_CAPACITY_HELD
  | QPM_TASK_PENDING_CAPACITY
  | QPM_TASK_QUEUED
  | QPM_TASK_SELECTED
  | QPM_TASK_SUBMITTED
  | QPM_TASK_COMPLETED
  | QPM_TASK_FAILED
  | QPM_TASK_CANCELLED
  | QPM_TASK_TIMED_OUT

fun task_state_text :: "task_state \<Rightarrow> string" where
  "task_state_text QPM_TASK_CREATED = ''created''"
| "task_state_text QPM_TASK_RESOURCES_CONSUMED = ''resources-consumed''"
| "task_state_text QPM_TASK_CAPACITY_HELD = ''capacity-held''"
| "task_state_text QPM_TASK_PENDING_CAPACITY = ''pending-capacity''"
| "task_state_text QPM_TASK_QUEUED = ''queued''"
| "task_state_text QPM_TASK_SELECTED = ''selected''"
| "task_state_text QPM_TASK_SUBMITTED = ''submitted''"
| "task_state_text QPM_TASK_COMPLETED = ''completed''"
| "task_state_text QPM_TASK_FAILED = ''failed''"
| "task_state_text QPM_TASK_CANCELLED = ''cancelled''"
| "task_state_text QPM_TASK_TIMED_OUT = ''timed-out''"

definition QPM_TASK_TERMINAL_STATES :: "task_state list" where
  "QPM_TASK_TERMINAL_STATES = [QPM_TASK_COMPLETED, QPM_TASK_FAILED, QPM_TASK_CANCELLED]"

definition SCHEDULER_TASK_ENDED_STATES :: "pyval list" where
  "SCHEDULER_TASK_ENDED_STATES = [PStr ''completed'', PStr ''failed'', PStr ''cancelled'']"

abbreviation terminal_state :: "task_state \<Rightarrow> bool" where
  "terminal_state st \<equiv> st \<in> set QPM_TASK_TERMINAL_STATES"

section \<open>Records\<close>

record qpm_controller_config =
  target_id :: string
  credential_mode :: string
  admission_threading_mode :: string
  scheduler_threading_mode :: string
  serialization_mode :: string

record runtime_task =
  rt_cid :: string
  rt_qtask_id :: int
  rt_reservation_id :: "int option"
  rt_scheduler_task_id :: pyval
  rt_provider_handle :: "string option"
  rt_usage_event_id :: "int option"
  rt_token_metadata :: pydict
  rt_owner_metadata :: pydict
  rt_request_metadata :: pydict
  rt_external_ids :: pydict
  rt_canonical_ids :: pydict
  rt_state :: task_state
  rt_trace_context :: pyval

record pending_entry =
  pe_reservation_id :: "int option"
  pe_cid :: string
  pe_usage :: pydict
  pe_decision :: pydict

record capacity_hold =
  ch_reservation_id :: int
  ch_usage :: pydict
  ch_decision :: pydict

record completion_queue =
  cq_reservation_id :: int
  cq_records :: "pydict list"
  records_by_cid :: "(pyval \<times> pydict list) list"
  records_by_qtask_id :: "(pyval \<times> pydict list) list"
  dequeued_records :: "pydict list"
  evicted_selectors :: "(selector \<times> pydict) list"
  retained_bytes :: int
  terminal_at_ns :: "int option"
  last_purge_ns :: int

record completion_retention_config =
  completion_ttl_seconds :: int
  terminal_reservation_retention_seconds :: int
  max_records_per_reservation :: int
  max_bytes_per_reservation :: int
  purge_interval_seconds :: int

record event_registration =
  reg_class_id :: string
  reg_evtype :: string
  reg_filters :: pydict
  reg_reservation_id :: "int option"
  registration_id :: string

record credential_record =
  cr_secret :: pydict
  cr_metadata :: pydict
  cr_binding :: pydict
  cr_provider :: "credential_provider option"

record close_record =
  cl_reason :: string
  cl_started_at_ns :: int
  pending_removed :: "int list"
  held_reconciled :: "int list"
  scheduler_cancelled :: "int list"
  provider_cancelled :: "(int \<times> string \<times> pyval) list"
  provider_cancel_pending :: "int list"
  provider_cancel_resolved :: "int list"
  cl_status :: "string option"
  completed_at_ns :: "int option"

record scheduler_control_state =
  paused :: bool
  draining :: bool
  drain_mode :: pyval
  drain_timeout_s :: pyval
  drain_started_at_ns :: "int option"
  pause_reason :: pyval
  dispatch_depth :: int

section \<open>The controller\<close>

record task_tables = world +
  circuit_heap :: "(string \<times> circuit) list"
  circuits :: "string list"
  qtask_id_next :: int
  runtime_by_cid :: "(string \<times> int) list"
  runtime_by_qtask_id :: "(int \<times> runtime_task) list"
  qtask_ids_by_reservation :: "(int \<times> int list) list"
  qtask_id_by_scheduler_task_id :: "(pyval \<times> int) list"
  qtask_id_by_provider_handle :: "(string \<times> int) list"
  usage_events_by_qtask_id :: "(int \<times> int) list"
  pending_capacity :: "(int \<times> pending_entry) list"
  capacity_holds :: "(int \<times> capacity_hold) list"
  selected_qtask_ids :: "int list"
  dispatching_qtask_ids :: "(int \<times> int) list"
  provider_inflight :: "int list"
  timeout_state :: "(int \<times> pydict) list"
  result_state :: "(int \<times> pyval) list"
  terminal_tasks_by_cid :: "(string \<times> runtime_task) list"
  terminal_tasks_by_qtask_id :: "(int \<times> runtime_task) list"

record completion_tables = task_tables +
  completion_retention :: completion_retention_config
  completion_queues :: "(int \<times> completion_queue) list"
  completion_evictions :: "(int \<times> (selector \<times> pydict) list) list"
  completion_last_purge_ns :: int
  event_endpoints :: "(string \<times> event_registration list) list"
  push_evtype :: "string option"

record reservation_tables = completion_tables +
  external_id_maps :: "(string \<times> (string \<times> int) list) list"
  external_id_next :: int
  admission_request_id_next :: int
  reservation_metadata_by_id :: "(int \<times> pydict) list"
  reservation_credentials_by_id :: "(int \<times> credential_record) list"
  credential_cleanup_queue :: "(int \<times> credential_record option) list"
  reservation_close_state :: "(int \<times> close_record) list"
  reservation_sequence :: "seq_file option"

record controller = reservation_tables +
  config :: qpm_controller_config
  binding_count :: nat
  max_ppn :: pyval
  resources_initialized :: bool
  provider_canceller :: bool
  provider_credential_evictor :: bool
  audit_records :: "pydict list"
  lifecycle_events :: "pydict list"
  reconciliation_faults :: "pydict list"
  service_state :: string
  shutdown_request :: "pydict option"
  device_profile :: "pydict option"
  admission_configuration :: pydict
  scheduler_policy_state :: scheduler_policy
  scheduler_control :: scheduler_control_state
  device_profile_version :: nat
  admission_policy_version :: nat
  scheduler_policy_version :: nat
  scheduler_control_version :: nat

type_synonym 'a ctl = "(controller, 'a) pm"

definition COMPLETION_RETENTION_DEFAULTS :: completion_retention_config where
  "COMPLETION_RETENTION_DEFAULTS =
     \<lparr>completion_ttl_seconds = 3600, terminal_reservation_retention_seconds = 3600,
      max_records_per_reservation = 1024, max_bytes_per_reservation = 67108864,
      purge_interval_seconds = 60\<rparr>"

definition new_controller ::
  "qpm_controller_config \<Rightarrow> completion_retention_config \<Rightarrow> seq_file option \<Rightarrow> controller" where
  "new_controller conf retention sequence =
     \<lparr>history = [], clock_reads = 0,
      circuit_heap = [], circuits = [], qtask_id_next = 1, runtime_by_cid = [], runtime_by_qtask_id = [],
      qtask_ids_by_reservation = [], qtask_id_by_scheduler_task_id = [], qtask_id_by_provider_handle = [],
      usage_events_by_qtask_id = [], pending_capacity = [], capacity_holds = [], selected_qtask_ids = [],
      dispatching_qtask_ids = [], provider_inflight = [], timeout_state = [], result_state = [],
      terminal_tasks_by_cid = [], terminal_tasks_by_qtask_id = [],
      completion_retention = retention, completion_queues = [], completion_evictions = [],
      completion_last_purge_ns = 0, event_endpoints = [], push_evtype = None,
      external_id_maps = [], external_id_next = 1, admission_request_id_next = 1,
      reservation_metadata_by_id = [], reservation_credentials_by_id = [], credential_cleanup_queue = [],
      reservation_close_state = [], reservation_sequence = sequence,
      config = conf, binding_count = 0, max_ppn = PNone, resources_initialized = False,
      provider_canceller = False, provider_credential_evictor = False, audit_records = [],
      lifecycle_events = [], reconciliation_faults = [], service_state = ''running'',
      shutdown_request = None, device_profile = None, admission_configuration = [],
      scheduler_policy_state = normalize_scheduler_policy PNone,
      scheduler_control = \<lparr>paused = False, draining = False, drain_mode = PNone, drain_timeout_s = PNone,
        drain_started_at_ns = None, pause_reason = PNone, dispatch_depth = 1\<rparr>,
      device_profile_version = 0, admission_policy_version = 0, scheduler_policy_version = 0,
      scheduler_control_version = 0\<rparr>"

section \<open>Reading and writing objects\<close>

definition new_runtime :: "string \<Rightarrow> int \<Rightarrow> int option \<Rightarrow> runtime_task" where
  "new_runtime cid qtask_id reservation_id =
     \<lparr>rt_cid = cid, rt_qtask_id = qtask_id, rt_reservation_id = reservation_id,
      rt_scheduler_task_id = PNone, rt_provider_handle = None, rt_usage_event_id = None,
      rt_token_metadata = [], rt_owner_metadata = [], rt_request_metadata = [], rt_external_ids = [],
      rt_canonical_ids = [], rt_state = QPM_TASK_CREATED, rt_trace_context = PNone\<rparr>"

definition task_ended :: "runtime_task option \<Rightarrow> bool" where
  "task_ended runtime = (case runtime of None \<Rightarrow> True | Some r \<Rightarrow> terminal_state (rt_state r))"

text \<open>An assignment to an attribute of the runtime task of a \<open>qtask_id\<close>.\<close>

definition upd_runtime :: "int \<Rightarrow> (runtime_task \<Rightarrow> runtime_task) \<Rightarrow> controller \<Rightarrow> controller" where
  "upd_runtime qtask_id f s =
     (case map_of (runtime_by_qtask_id s) qtask_id of
        None \<Rightarrow> s
      | Some r \<Rightarrow> s\<lparr>runtime_by_qtask_id := dset qtask_id (f r) (runtime_by_qtask_id s)\<rparr>)"

definition set_runtime_state :: "int \<Rightarrow> task_state \<Rightarrow> controller \<Rightarrow> controller" where
  "set_runtime_state qtask_id st = upd_runtime qtask_id (\<lambda>r. r\<lparr>rt_state := st\<rparr>)"

definition task_for_qtask_id :: "int \<Rightarrow> controller \<Rightarrow> runtime_task option" where
  "task_for_qtask_id qtask_id s = map_of (runtime_by_qtask_id s) qtask_id"

definition task_for_cid :: "string \<Rightarrow> controller \<Rightarrow> runtime_task option" where
  "task_for_cid cid s =
     (case map_of (runtime_by_cid s) cid of
        None \<Rightarrow> None | Some qtask_id \<Rightarrow> map_of (runtime_by_qtask_id s) qtask_id)"

definition task_for_scheduler_task_id :: "pyval \<Rightarrow> controller \<Rightarrow> runtime_task option" where
  "task_for_scheduler_task_id scheduler_task_id s =
     (case map_of (qtask_id_by_scheduler_task_id s) scheduler_task_id of
        None \<Rightarrow> None | Some qtask_id \<Rightarrow> map_of (runtime_by_qtask_id s) qtask_id)"

definition task_for_provider_handle :: "string \<Rightarrow> controller \<Rightarrow> runtime_task option" where
  "task_for_provider_handle provider_handle s =
     (case map_of (qtask_id_by_provider_handle s) provider_handle of
        None \<Rightarrow> None | Some qtask_id \<Rightarrow> map_of (runtime_by_qtask_id s) qtask_id)"

text \<open>
  The circuit object a caller holds, by its \<open>cid\<close>. An object always exists; a name the heap
  does not know stands for an object without information.
\<close>

definition circuit_object :: "string \<Rightarrow> controller \<Rightarrow> circuit" where
  "circuit_object cid s =
     (case map_of (circuit_heap s) cid of
        Some c \<Rightarrow> c
      | None \<Rightarrow> \<lparr>c_state = UNDEF, c_cid = cid, c_info = [], launch_time = -1, creation_time = -1,
                 exec_time = -1, completion_time = -1, resources_consumed_time = -1,
                 provider_credential = [], provider_credential_metadata = []\<rparr>)"

definition set_circuit_info :: "string \<Rightarrow> (pydict \<Rightarrow> pydict) \<Rightarrow> controller \<Rightarrow> controller" where
  "set_circuit_info cid f s =
     (let c = circuit_object cid s in s\<lparr>circuit_heap := dset cid (c\<lparr>c_info := f (c_info c)\<rparr>) (circuit_heap s)\<rparr>)"

text \<open>\<^verbatim>\<open>self.circuits.get(cid)\<close>\<close>

definition listed_circuit :: "string \<Rightarrow> controller \<Rightarrow> circuit option" where
  "listed_circuit cid s = (if cid \<in> set (circuits s) then Some (circuit_object cid s) else None)"

text \<open>
  \<^verbatim>\<open>circuit.info["qtask_id"]\<close>. A value that is no integer is the key of no task; 0 stands for
  it, since the identifiers start at 1.
\<close>

definition info_qtask_id :: "string \<Rightarrow> controller \<Rightarrow> exc + int" where
  "info_qtask_id cid s =
     (case map_of (c_info (circuit_object cid s)) ''qtask_id'' of
        None \<Rightarrow> Inl (KeyError ''qtask_id'')
      | Some (PInt q) \<Rightarrow> Inr q
      | Some (PBool b) \<Rightarrow> Inr (of_bool b)
      | Some _ \<Rightarrow> Inr 0)"

definition circuit_qtask_id :: "string \<Rightarrow> int ctl" where
  "circuit_qtask_id cid = bindM (getM (info_qtask_id cid)) liftM"

section \<open>Lemmas\<close>

lemma terminal_states [simp]:
  "terminal_state st \<longleftrightarrow> st = QPM_TASK_COMPLETED \<or> st = QPM_TASK_FAILED \<or> st = QPM_TASK_CANCELLED"
  by (auto simp: QPM_TASK_TERMINAL_STATES_def)

lemma keeps_qtask_id [keeps_rules]: "keeps I (circuit_qtask_id cid)"
  unfolding circuit_qtask_id_def by (intro keeps_rules)

end
