(* ===== verification/QPM_Status.thy ===== *)
theory QPM_Status
  imports QPM_State
begin

text \<open>
  What the controller tells about a task, and the records it keeps of its own life:
  \<^verbatim>\<open>_task_status_locked\<close> and the functions around it, the check that a task belongs to the
  reservation a caller names, the matching of event registrations, lifecycle events and
  reconciliation faults, and the canonical numbers given to external identifiers. The lemmas
  show that a status never carries None, that a task is shown only to its own reservation, and
  that canonical numbers are handed out injectively.
\<close>

section \<open>Records of the service\<close>

definition record_lifecycle_event :: "qpm_env \<Rightarrow> string \<Rightarrow> pyval \<Rightarrow> pydict option \<Rightarrow> pydict ctl" where
  "record_lifecycle_event env event reason details =
     bindM (time_ns env) (\<lambda>now. bindM (getM (\<lambda>s. target_id (config s))) (\<lambda>tid.
       let record = [(''event'', PStr event), (''target_id'', PStr tid), (''timestamp_ns'', PInt now)] @
             (if reason \<noteq> PNone then [(''reason'', reason)] else []) @
             (case details of None \<Rightarrow> [] | Some d \<Rightarrow> [(''details'', PDict d)])
       in seqM (modM (\<lambda>s. s\<lparr>lifecycle_events := lifecycle_events s @ [record],
                             audit_records := audit_records s @ [record]\<rparr>)) (retM record)))"

definition record_reconciliation_fault :: "qpm_env \<Rightarrow> pydict \<Rightarrow> pydict ctl" where
  "record_reconciliation_fault env fault =
     bindM (getM (\<lambda>s. target_id (config s))) (\<lambda>tid. bindM (time_ns env) (\<lambda>now.
       let record = dsetdefault ''timestamp_ns'' (PInt now) (dsetdefault ''target_id'' (PStr tid)
             (dsetdefault ''event'' (PStr ''reconciliation-fault'') fault))
       in seqM (modM (\<lambda>s. s\<lparr>reconciliation_faults := reconciliation_faults s @ [record],
                             audit_records := audit_records s @ [record]\<rparr>)) (retM record)))"

section \<open>Canonical identifiers\<close>

definition canonicalize_external_id :: "string \<Rightarrow> pyval \<Rightarrow> int ctl" where
  "canonicalize_external_id kind v =
     (case v of
        PInt i \<Rightarrow> retM i
      | _ \<Rightarrow> (\<lambda>s.
          let key = py_str v;
              maps = dsetdefault kind [] (external_id_maps s);
              ids_by_value = (case map_of maps kind of Some d \<Rightarrow> d | None \<Rightarrow> [])
          in case map_of ids_by_value key of
               Some n \<Rightarrow> (Inr n, s\<lparr>external_id_maps := maps\<rparr>)
             | None \<Rightarrow> (Inr (external_id_next s),
                 s\<lparr>external_id_maps := dset kind (dset key (external_id_next s) ids_by_value) maps,
                   external_id_next := external_id_next s + 1\<rparr>)))"

definition device_id :: "pyval ctl" where
  "device_id = bindM (getM device_profile) (\<lambda>profile.
     case profile of
       Some p \<Rightarrow> (case map_of p ''device_id'' of Some v \<Rightarrow> retM v | None \<Rightarrow> raiseM (KeyError ''device_id''))
     | None \<Rightarrow> bindM (getM (\<lambda>s. target_id (config s))) (\<lambda>tid.
         bindM (canonicalize_external_id ''device_id'' (PStr tid)) (\<lambda>n. retM (PInt n))))"

definition numeric_or_canonical :: "string \<Rightarrow> pyval \<Rightarrow> pyval \<Rightarrow> int ctl" where
  "numeric_or_canonical kind numeric_value external_value =
     (if numeric_value \<noteq> PNone then liftM (py_int numeric_value)
      else case external_value of PInt i \<Rightarrow> retM i | v \<Rightarrow> canonicalize_external_id kind v)"

text \<open>The five identifiers of a task's metadata, in the order of the loop.\<close>

definition reservation_identifiers :: "pydict \<Rightarrow> (string \<times> pyval) list" where
  "reservation_identifiers metadata =
     (let owner = (case pgetd metadata ''owner'' (PDict []) of PDict d \<Rightarrow> d | _ \<Rightarrow> []);
          owner_id = py_or (metadata_identifier metadata ''user_id'' ''external_user_id'') (owner_identifier owner)
      in [(''owner_id'', owner_id),
          (''job_id'', metadata_identifier metadata ''job_id'' ''external_job_id''),
          (''allocation_id'', metadata_identifier metadata ''allocation_id'' ''external_allocation_id''),
          (''project_id'', metadata_identifier metadata ''project_id'' ''external_project_id''),
          (''session_id'', metadata_identifier metadata ''session_id'' ''external_session_id'')])"

fun canonicalize_identifiers :: "(string \<times> pyval) list \<Rightarrow> (pydict \<times> pydict) ctl" where
  "canonicalize_identifiers [] = retM ([], [])"
| "canonicalize_identifiers ((kind, v) # rest) =
     (if v = PNone then canonicalize_identifiers rest
      else bindM (canonicalize_external_id kind v) (\<lambda>n.
             bindM (canonicalize_identifiers rest) (\<lambda>ids.
               retM ((kind, v) # fst ids, (kind, PInt n) # snd ids))))"

definition canonicalize_reservation_metadata :: "pydict \<Rightarrow> (pydict \<times> pydict) ctl" where
  "canonicalize_reservation_metadata metadata = canonicalize_identifiers (reservation_identifiers metadata)"

section \<open>Selecting a task\<close>

text \<open>A key of another type than the table's finds nothing.\<close>

definition qtask_key :: "pyval \<Rightarrow> int option" where
  "qtask_key v = (case v of PInt q \<Rightarrow> Some q | PBool b \<Rightarrow> Some (of_bool b) | _ \<Rightarrow> None)"

definition runtime_for_task_selector :: "pyval \<Rightarrow> pyval \<Rightarrow> controller \<Rightarrow> runtime_task option" where
  "runtime_for_task_selector cid qtask_id s =
     (if qtask_id \<noteq> PNone
      then (case qtask_key qtask_id of Some q \<Rightarrow> map_of (runtime_by_qtask_id s) q | None \<Rightarrow> None)
      else case cid of PStr c \<Rightarrow> task_for_cid c s | _ \<Rightarrow> None)"

definition terminal_task_for_selector :: "pyval \<Rightarrow> pyval \<Rightarrow> controller \<Rightarrow> runtime_task option" where
  "terminal_task_for_selector cid qtask_id s =
     (if qtask_id \<noteq> PNone
      then (case qtask_key qtask_id of Some q \<Rightarrow> map_of (terminal_tasks_by_qtask_id s) q | None \<Rightarrow> None)
      else case cid of PStr c \<Rightarrow> map_of (terminal_tasks_by_cid s) c | _ \<Rightarrow> None)"

text \<open>The lookup every caller makes: the active task, else the snapshot of a retired one.\<close>

definition known_task :: "pyval \<Rightarrow> pyval \<Rightarrow> controller \<Rightarrow> runtime_task option" where
  "known_task cid qtask_id s =
     (case runtime_for_task_selector cid qtask_id s of
        Some r \<Rightarrow> Some r | None \<Rightarrow> terminal_task_for_selector cid qtask_id s)"

definition invalid_task_reservation :: "runtime_task \<Rightarrow> int option \<Rightarrow> string \<Rightarrow> string \<Rightarrow> pydict" where
  "invalid_task_reservation runtime reservation_id reason message =
     [(''outcome'', PStr ''INVALID_RESERVATION''), (''lifecycle_state'', PStr ''invalid-reservation''),
      (''cid'', PStr (rt_cid runtime)), (''qtask_id'', PInt (rt_qtask_id runtime)),
      (''reservation_id'', opt_int reservation_id), (''reason'', PStr reason), (''message'', PStr message)]"

definition task_reservation_error :: "runtime_task \<Rightarrow> int option \<Rightarrow> bool \<Rightarrow> pydict option" where
  "task_reservation_error runtime reservation_id require_reservation =
     (if reservation_id = None \<and> require_reservation \<and> rt_reservation_id runtime \<noteq> None
      then Some (invalid_task_reservation runtime reservation_id ''reservation-required''
                   ''reservation_id is required for task operation'')
      else if rt_reservation_id runtime = reservation_id then None
      else Some (invalid_task_reservation runtime reservation_id ''reservation-mismatch''
                   ''task does not belong to the supplied reservation''))"

section \<open>Status\<close>

definition task_outcome :: "runtime_task \<Rightarrow> string" where
  "task_outcome runtime =
     (case rt_state runtime of
        QPM_TASK_COMPLETED \<Rightarrow> ''COMPLETED''
      | QPM_TASK_FAILED \<Rightarrow> ''FAILED''
      | QPM_TASK_CANCELLED \<Rightarrow> ''CANCELLED''
      | QPM_TASK_PENDING_CAPACITY \<Rightarrow> ''DELAYED''
      | _ \<Rightarrow> ''ACCEPTED'')"

fun position :: "'a \<Rightarrow> 'a list \<Rightarrow> int" where
  "position x [] = 0"
| "position x (y # ys) = (if x = y then 0 else 1 + position x ys)"

definition queue_observation :: "runtime_task \<Rightarrow> controller \<Rightarrow> pydict" where
  "queue_observation runtime s =
     (let observation = [(''wait_estimate'',
            PDict [(''available'', PBool False), (''reason'', PStr ''telemetry-unavailable'')])]
      in if has_key (pending_capacity s) (rt_qtask_id runtime)
         then observation @ [(''pending_queue_position'',
                PInt (position (rt_qtask_id runtime) (dkeys (pending_capacity s)) + 1))]
         else if rt_state runtime \<in> set [QPM_TASK_QUEUED, QPM_TASK_SELECTED]
         then observation @ [(''scheduler_queue_position'', PNone), (''scheduling_order'', PNone)]
         else observation)"

definition scheduler_state :: "qpm_env \<Rightarrow> runtime_task \<Rightarrow> pyval ctl" where
  "scheduler_state env runtime =
     (if rt_scheduler_task_id runtime = PNone then retM PNone
      else tryM (scheduler_task_state_name env (rt_scheduler_task_id runtime)) (\<lambda>_. retM PNone))"

definition task_status_field_visibility :: pydict where
  "task_status_field_visibility =
     [(''cid'', PStr ''caller-owned''), (''qtask_id'', PStr ''caller-owned''),
      (''reservation_id'', PStr ''caller-owned''), (''scheduler_task_id'', PStr ''caller-owned''),
      (''provider_handle'', PStr ''operator''), (''scheduler_state'', PStr ''manager-aggregate''),
      (''wait_estimate'', PStr ''manager-aggregate''), (''timeout'', PStr ''caller-owned'')]"

definition without_none :: "pydict \<Rightarrow> pydict" where
  "without_none d = filter (\<lambda>kv. snd kv \<noteq> PNone) d"

definition task_status ::
  "qpm_env \<Rightarrow> runtime_task \<Rightarrow> pyval \<Rightarrow> pyval \<Rightarrow> pyval \<Rightarrow> pyval \<Rightarrow> pydict ctl" where
  "task_status env runtime outcome reason message result =
     bindM (getM id) (\<lambda>s. bindM (scheduler_state env runtime) (\<lambda>scheduler_state.
       let timeout = map_of (timeout_state s) (rt_qtask_id runtime);
           stored_result = (case map_of (result_state s) (rt_qtask_id runtime) of Some v \<Rightarrow> v | None \<Rightarrow> PNone);
           failed = (rt_state runtime = QPM_TASK_FAILED);
           reason = (case stored_result of
                       PDict d \<Rightarrow> if reason = PNone \<and> failed then pget d ''reason'' else reason
                     | _ \<Rightarrow> reason);
           state = PStr (task_state_text (rt_state runtime));
           response = [(''outcome'', py_or outcome (PStr (task_outcome runtime))), (''lifecycle_state'', state),
             (''cid'', PStr (rt_cid runtime)), (''qtask_id'', PInt (rt_qtask_id runtime)),
             (''reservation_id'', opt_int (rt_reservation_id runtime)),
             (''scheduler_task_id'', rt_scheduler_task_id runtime),
             (''provider_handle'', opt_str (rt_provider_handle runtime)), (''state'', state)] @
             [(''scheduler_state'', scheduler_state)] @ queue_observation runtime s @
             [(''reason'', reason), (''message'', message)] @
             (if result \<noteq> PNone then [(if failed then ''error'' else ''result'', result)]
              else if failed then [(''error'', stored_result)] else []) @
             (case timeout of Some t \<Rightarrow> [(''timeout'', PDict t)] | None \<Rightarrow> []) @
             [(''telemetry'', PDict [(''access_class'', PStr ''caller-owned''), (''object'', PStr ''managed-qtask''),
                (''field_visibility'', PDict task_status_field_visibility)])]
       in retM (without_none response)))"

definition unknown_task_status :: "pyval \<Rightarrow> string \<Rightarrow> pyval \<Rightarrow> pyval \<Rightarrow> pyval \<Rightarrow> pydict" where
  "unknown_task_status outcome key v reason message =
     [(''outcome'', py_or outcome (PStr ''UNKNOWN'')), (''lifecycle_state'', PStr ''unknown''), (key, v),
      (''reason'', reason), (''message'', message)]"

text \<open>The two methods, from the point where the reservation identifier is normalised.\<close>

definition report_task_status ::
  "qpm_env \<Rightarrow> runtime_task option \<Rightarrow> string \<Rightarrow> pyval \<Rightarrow> pyval \<Rightarrow> pyval \<Rightarrow> pyval \<Rightarrow> pyval \<Rightarrow> int option \<Rightarrow> bool
    \<Rightarrow> pydict ctl" where
  "report_task_status env found key v outcome reason message result reservation_id require_reservation =
     (case found of
        None \<Rightarrow> retM (unknown_task_status outcome key v reason message)
      | Some runtime \<Rightarrow>
          (case task_reservation_error runtime reservation_id require_reservation of
             Some error \<Rightarrow> retM error
           | None \<Rightarrow> task_status env runtime outcome reason message result))"

definition task_status_for_cid ::
  "qpm_env \<Rightarrow> string \<Rightarrow> pyval \<Rightarrow> pyval \<Rightarrow> pyval \<Rightarrow> pyval \<Rightarrow> pyval \<Rightarrow> bool \<Rightarrow> pydict ctl" where
  "task_status_for_cid env cid outcome reason message result reservation_id require_reservation =
     bindM (liftM (normalize_optional_reservation_id reservation_id)) (\<lambda>rid.
       bindM (getM (known_task (PStr cid) PNone)) (\<lambda>found.
         report_task_status env found ''cid'' (PStr cid) outcome reason message result rid require_reservation))"

definition task_status_for_qtask_id ::
  "qpm_env \<Rightarrow> int \<Rightarrow> pyval \<Rightarrow> pyval \<Rightarrow> pyval \<Rightarrow> pyval \<Rightarrow> pyval \<Rightarrow> bool \<Rightarrow> pydict ctl" where
  "task_status_for_qtask_id env qtask_id outcome reason message result reservation_id require_reservation =
     bindM (liftM (normalize_optional_reservation_id reservation_id)) (\<lambda>rid.
       bindM (getM (known_task PNone (PInt qtask_id))) (\<lambda>found.
         report_task_status env found ''qtask_id'' (PInt qtask_id) outcome reason message result rid
           require_reservation))"

section \<open>Event registrations\<close>

definition event_filter_value :: "pydict \<Rightarrow> runtime_task option \<Rightarrow> string \<Rightarrow> pyval" where
  "event_filter_value payload runtime key =
     (case map_of payload key of
        Some v \<Rightarrow> v
      | None \<Rightarrow> (case runtime of
                   None \<Rightarrow> PNone
                 | Some r \<Rightarrow> if key = ''cid'' then PStr (rt_cid r)
                             else if key = ''qtask_id'' then PInt (rt_qtask_id r)
                             else if key = ''reservation_id'' then opt_int (rt_reservation_id r)
                             else PNone))"

definition event_filters_match :: "pydict \<Rightarrow> pydict \<Rightarrow> runtime_task option \<Rightarrow> bool" where
  "event_filters_match filters payload runtime =
     list_all (\<lambda>kv. filter_value_matches (snd kv) (event_filter_value payload runtime (fst kv))) filters"

definition event_registration_matches :: "event_registration \<Rightarrow> string \<Rightarrow> pydict \<Rightarrow> controller \<Rightarrow> bool" where
  "event_registration_matches registration evtype payload s =
     (if reg_evtype registration \<noteq> evtype then False
      else let runtime = known_task (pget payload ''cid'') (pget payload ''qtask_id'') s
           in (case reg_reservation_id registration of
                 None \<Rightarrow> True
               | Some rid \<Rightarrow> (case runtime of None \<Rightarrow> False | Some r \<Rightarrow> rt_reservation_id r = Some rid)) \<and>
              event_filters_match (reg_filters registration) payload runtime)"

section \<open>Lemmas\<close>

lemma without_none_pget: "(k, v) \<in> set (without_none d) \<Longrightarrow> v \<noteq> PNone"
  by (simp add: without_none_def)

lemma reservation_error_None:
  "task_reservation_error r rid True = None \<longleftrightarrow> rt_reservation_id r = rid"
  by (auto simp: task_reservation_error_def)

lemma reservation_error_Some:
  "task_reservation_error r rid req = Some e \<Longrightarrow> pget e ''outcome'' = PStr ''INVALID_RESERVATION''"
  by (auto simp: task_reservation_error_def invalid_task_reservation_def pget_def split: if_splits)

text \<open>A numbering of external names: within one kind and across kinds no number is used twice.\<close>

definition canonical_id :: "controller \<Rightarrow> string \<Rightarrow> string \<Rightarrow> int option" where
  "canonical_id s kind name = (case map_of (external_id_maps s) kind of None \<Rightarrow> None | Some d \<Rightarrow> map_of d name)"

definition ids_ok :: "controller \<Rightarrow> bool" where
  "ids_ok s \<longleftrightarrow>
     1 \<le> external_id_next s \<and>
     (\<forall>k x n. canonical_id s k x = Some n \<longrightarrow> 1 \<le> n \<and> n < external_id_next s) \<and>
     (\<forall>k x k' x' n. canonical_id s k x = Some n \<longrightarrow> canonical_id s k' x' = Some n \<longrightarrow> k = k' \<and> x = x')"

text \<open>A name that has a number keeps it; a new name gets the next one, and no other name changes.\<close>

lemma canonicalize_known:
  assumes "\<not> is_int v" "canonical_id s kind (py_str v) = Some n"
  shows "fst (canonicalize_external_id kind v s) = Inr n"
    and "canonical_id (snd (canonicalize_external_id kind v s)) = canonical_id s"
    and "external_id_next (snd (canonicalize_external_id kind v s)) = external_id_next s"
  using assms
  by (auto simp: canonicalize_external_id_def canonical_id_def is_int_def map_of_setdefault fun_eq_iff Let_def
      split: pyval.splits option.splits)

lemma canonicalize_fresh:
  assumes "\<not> is_int v" "canonical_id s kind (py_str v) = None"
  shows "fst (canonicalize_external_id kind v s) = Inr (external_id_next s)"
    and "canonical_id (snd (canonicalize_external_id kind v s)) k x =
           (if k = kind \<and> x = py_str v then Some (external_id_next s) else canonical_id s k x)"
    and "external_id_next (snd (canonicalize_external_id kind v s)) = external_id_next s + 1"
  using assms
  by (auto simp: canonicalize_external_id_def canonical_id_def is_int_def map_of_setdefault fun_eq_iff Let_def
      split: pyval.splits option.splits if_splits)

lemma canonicalize_int: "is_int v \<Longrightarrow> snd (canonicalize_external_id kind v s) = s"
  by (auto simp: canonicalize_external_id_def is_int_def retM_def split: pyval.splits)

lemma keeps_canonicalize [keeps_rules]: "keeps ids_ok (canonicalize_external_id kind v)"
proof (rule keepsI)
  fix s assume ok: "ids_ok s"
  let ?t = "snd (canonicalize_external_id kind v s)"
  consider "is_int v" | n where "\<not> is_int v" "canonical_id s kind (py_str v) = Some n"
    | "\<not> is_int v" "canonical_id s kind (py_str v) = None" by blast
  then show "ids_ok ?t"
  proof cases
    case 1 then show ?thesis using ok by (simp add: canonicalize_int)
  next
    case 2 then show ?thesis using ok canonicalize_known [OF 2] by (simp add: ids_ok_def)
  next
    case 3
    from ok have "canonical_id s k x = Some n \<Longrightarrow> n \<noteq> external_id_next s \<and> n \<le> external_id_next s" for k x n
      unfolding ids_ok_def by (metis less_imp_le less_irrefl)
    moreover note canonicalize_fresh [OF 3]
    ultimately show ?thesis using ok unfolding ids_ok_def by (auto split: if_splits)
  qed
qed

lemma keeps_identifiers [keeps_rules]: "keeps ids_ok (canonicalize_identifiers ids)"
  by (induction ids rule: canonicalize_identifiers.induct) (auto intro!: keeps_rules)

text \<open>A known name keeps its number and a new name gets the next one.\<close>

lemma canonical_ids_stable:
  "keeps ids_ok (canonicalize_external_id kind v) \<and>
   valid (\<lambda>s. canonical_id s kind name = Some n) (canonicalize_external_id kind (PStr name))
     (\<lambda>m s. m = n \<and> canonical_id s kind name = Some n) (\<lambda>_ _. False) \<and>
   valid (\<lambda>s. canonical_id s kind name = None \<and> external_id_next s = n) (canonicalize_external_id kind (PStr name))
     (\<lambda>m s. m = n \<and> canonical_id s kind name = Some n \<and> external_id_next s = n + 1) (\<lambda>_ _. False)"
proof (intro conjI)
  have is_name: "\<not> is_int (PStr name)" "py_str (PStr name) = name" by (simp_all add: is_int_def py_str_def)
  have run: "case m s of (Inl e, t) \<Rightarrow> False | (Inr x, t) \<Rightarrow> Q x t" if "fst (m s) = Inr y" "Q y (snd (m s))"
    for m :: "int ctl" and s y Q using that by (cases "m s") auto
  show "keeps ids_ok (canonicalize_external_id kind v)" by (rule keeps_canonicalize)
  show "valid (\<lambda>s. canonical_id s kind name = Some n) (canonicalize_external_id kind (PStr name))
     (\<lambda>m s. m = n \<and> canonical_id s kind name = Some n) (\<lambda>_ _. False)"
  proof (rule validI)
    fix s assume "canonical_id s kind name = Some n"
    with canonicalize_known [OF is_name(1), of s kind n] is_name(2)
    show "case canonicalize_external_id kind (PStr name) s of
        (Inl e, t) \<Rightarrow> False | (Inr m, t) \<Rightarrow> m = n \<and> canonical_id t kind name = Some n"
      by (intro run [where y = n]) simp_all
  qed
  show "valid (\<lambda>s. canonical_id s kind name = None \<and> external_id_next s = n) (canonicalize_external_id kind (PStr name))
     (\<lambda>m s. m = n \<and> canonical_id s kind name = Some n \<and> external_id_next s = n + 1) (\<lambda>_ _. False)"
  proof (rule validI)
    fix s assume "canonical_id s kind name = None \<and> external_id_next s = n"
    with canonicalize_fresh [OF is_name(1), of s kind] is_name(2)
    show "case canonicalize_external_id kind (PStr name) s of
        (Inl e, t) \<Rightarrow> False | (Inr m, t) \<Rightarrow> m = n \<and> canonical_id t kind name = Some n \<and> external_id_next t = n + 1"
      by (intro run [where y = n]) simp_all
  qed
qed

end
