(* ===== verification/QPM_Completion_Lemmas.thy ===== *)
theory QPM_Completion_Lemmas
  imports QPM_Completion
begin

text \<open>
  The invariant of a completion queue and its preservation. \<open>queue_ok\<close>: every record names its
  task and the queue's reservation, both indexes are the records filtered by key, and
  \<open>retained_bytes\<close> is the sum of the record sizes.
\<close>

section \<open>Equal records\<close>

lemma map_of_filter_fst:
  "map_of xs k = (case filter (\<lambda>p. fst p = k) xs of [] \<Rightarrow> None | p # _ \<Rightarrow> Some (snd p))"
  by (induction xs) auto

lemma map_of_sort_key [simp]: "map_of (sort_key fst xs) = map_of xs"
  by (rule ext) (simp add: map_of_filter_fst sort_key_stable)

lemma map_of_map_snd [simp]: "map_of (map (\<lambda>kv. (fst kv, f (snd kv))) d) k = map_option f (map_of d k)"
  by (induction d) auto

lemma pget_canon: "py_canon (pget d k) = (case map_of (sort_key fst (map (\<lambda>kv. (fst kv, py_canon (snd kv))) d)) k of
    None \<Rightarrow> PNone | Some v \<Rightarrow> v)"
  by (simp add: pget_def split: option.splits)

lemma py_eq_pget: "py_eq (PDict x) (PDict y) \<Longrightarrow> py_canon (pget x k) = py_canon (pget y k)"
  by (simp add: py_eq_def pget_canon)

lemma py_eq_refl [simp]: "py_eq a a"
  by (simp add: py_eq_def)

lemma py_eq_sym: "py_eq a b \<Longrightarrow> py_eq b a"
  by (simp add: py_eq_def)

lemma is_int_iff: "is_int v \<longleftrightarrow> (\<exists>i. v = PInt i)"
  by (simp add: is_int_def split: pyval.splits)

lemma is_str_iff: "is_str v \<longleftrightarrow> (\<exists>t. v = PStr t)"
  by (simp add: is_str_def split: pyval.splits)

text \<open>What every record of a queue has.\<close>

definition record_ok :: "int \<Rightarrow> pydict \<Rightarrow> bool" where
  "record_ok rid r \<longleftrightarrow>
     is_str (pget r ''cid'') \<and> is_int (pget r ''qtask_id'') \<and> pget r ''reservation_id'' = PInt rid \<and>
     is_int (pget r ''_qpm_record_size_bytes'') \<and> 0 \<le> record_size r \<and>
     is_int (pget r ''qpm_cq_enqueue_time_ns'')"

lemma record_ok_eq:
  assumes "record_ok rid x" "record_ok rid y" "py_eq (PDict x) (PDict y)"
  shows "pget x ''cid'' = pget y ''cid''" "pget x ''qtask_id'' = pget y ''qtask_id''"
    "record_size x = record_size y" "completion_record_expired cfg x now = completion_record_expired cfg y now"
  using assms py_eq_pget [OF assms(3), of "''cid''"] py_eq_pget [OF assms(3), of "''qtask_id''"]
    py_eq_pget [OF assms(3), of "''_qpm_record_size_bytes''"] py_eq_pget [OF assms(3), of "''qpm_cq_enqueue_time_ns''"]
  by (auto simp: record_ok_def is_str_iff is_int_iff record_size_def completion_record_expired_def)

lemma remove_record_absent: "\<not> record_in r xs \<Longrightarrow> remove_record r xs = xs"
  by (induction xs) (auto simp: record_in_def)

lemma record_in_self: "r \<in> set xs \<Longrightarrow> record_in r xs"
  by (auto simp: record_in_def list_ex_iff py_eq_def)

lemma set_remove_record: "set (remove_record r xs) \<subseteq> set xs"
  by (induction xs) auto

lemma filter_remove_record:
  assumes "\<And>x. x \<in> set xs \<Longrightarrow> py_eq (PDict x) (PDict r) \<Longrightarrow> P x = P r"
  shows "filter P (remove_record r xs) = (if P r then remove_record r (filter P xs) else filter P xs)"
  using assms by (induction xs) (auto simp: remove_record_absent record_in_def)

lemma sum_remove_record:
  assumes "record_in r xs" "\<And>x. x \<in> set xs \<Longrightarrow> py_eq (PDict x) (PDict r) \<Longrightarrow> f x = (f r :: int)"
  shows "sum_list (map f (remove_record r xs)) = sum_list (map f xs) - f r"
  using assms by (induction xs) (auto simp: record_in_def)

lemma remove_record_middle:
  assumes "\<not> record_in r kept"
  shows "remove_record r (kept @ r # rest) = kept @ rest"
  using assms by (induction kept) (auto simp: record_in_def py_eq_def)

section \<open>The invariant\<close>

definition index_ok :: "string \<Rightarrow> pydict list \<Rightarrow> (pyval \<times> pydict list) list \<Rightarrow> bool" where
  "index_ok field records mapping \<longleftrightarrow>
     (\<forall>k. map_of mapping k =
        (let found = filter (\<lambda>r. pget r field = k) records
         in if k = PNone \<or> found = [] then None else Some found))"

definition queue_ok :: "completion_queue \<Rightarrow> bool" where
  "queue_ok q \<longleftrightarrow>
     list_all (record_ok (cq_reservation_id q)) (cq_records q) \<and>
     index_ok ''cid'' (cq_records q) (records_by_cid q) \<and>
     index_ok ''qtask_id'' (cq_records q) (records_by_qtask_id q) \<and>
     retained_bytes q = sum_list (map record_size (cq_records q))"

lemma queue_ok_new [simp]: "queue_ok (new_completion_queue rid)"
  by (simp add: queue_ok_def new_completion_queue_def index_ok_def)

lemma index_ok_add:
  assumes "index_ok field records mapping"
  shows "index_ok field (records @ [r]) (index_add (pget r field) r mapping)"
  using assms by (auto simp: index_ok_def index_add_def Let_def split: option.splits)

lemma index_ok_remove:
  assumes ok: "index_ok field records mapping" and mem: "r \<in> set records"
    and eq: "\<And>x. x \<in> set records \<Longrightarrow> py_eq (PDict x) (PDict r) \<Longrightarrow> pget x field = pget r field"
  shows "index_ok field (remove_record r records) (index_remove (pget r field) r mapping)"
proof (cases "pget r field = PNone")
  case True
  have "filter (\<lambda>x. pget x field = k) (remove_record r records) =
      filter (\<lambda>x. pget x field = k) records" if "k \<noteq> PNone" for k
    using filter_remove_record [of records r "\<lambda>x. pget x field = k"] eq that True by simp
  with True ok show ?thesis by (auto simp: index_ok_def index_remove_def Let_def)
next
  case False
  let ?found = "filter (\<lambda>x. pget x field = pget r field) records"
  have ne: "?found \<noteq> []" using mem by (auto simp: filter_empty_conv)
  then have hit: "map_of mapping (pget r field) = Some ?found"
    using ok False by (simp add: index_ok_def Let_def)
  have inr: "record_in r ?found" using mem by (intro record_in_self) simp
  have f: "filter (\<lambda>x. pget x field = k) (remove_record r records) =
      (if pget r field = k then remove_record r (filter (\<lambda>x. pget x field = k) records)
       else filter (\<lambda>x. pget x field = k) records)" for k
    by (rule filter_remove_record) (use eq in auto)
  from False hit inr ok show ?thesis
    by (auto simp: index_ok_def index_remove_def Let_def f)
qed

lemma queue_ok_add:
  assumes "queue_ok q" "record_ok (cq_reservation_id q) r"
  shows "queue_ok (add_record r q)"
  using assms by (simp add: queue_ok_def add_record_def completion_index_add_def Let_def index_ok_add)

lemma retained_nonneg: "queue_ok q \<Longrightarrow> 0 \<le> retained_bytes q"
  by (auto simp: queue_ok_def list_all_iff record_ok_def intro!: sum_list_nonneg)

lemma queue_ok_remove:
  assumes ok: "queue_ok (fst qe)" and mem: "r \<in> set (cq_records (fst qe))"
  shows "queue_ok (fst (remove_completion_record r reason now qe))"
proof -
  obtain q ev where qe: "qe = (q, ev)" by (cases qe)
  let ?rs = "cq_records q"
  from ok mem have rok: "list_all (record_ok (cq_reservation_id q)) ?rs" "record_ok (cq_reservation_id q) r"
    by (auto simp: queue_ok_def list_all_iff qe)
  have xok: "record_ok (cq_reservation_id q) x" if "x \<in> set ?rs" for x
    using that rok(1) by (auto simp: list_all_iff)
  have eq: "pget x ''cid'' = pget r ''cid''" "pget x ''qtask_id'' = pget r ''qtask_id''" "record_size x = record_size r"
    if "x \<in> set ?rs" "py_eq (PDict x) (PDict r)" for x
    using record_ok_eq(1-3) [OF xok [OF that(1)] rok(2) that(2)] by simp_all
  have sum: "sum_list (map record_size (remove_record r ?rs)) = sum_list (map record_size ?rs) - record_size r"
  proof (rule sum_remove_record [OF record_in_self])
    show "r \<in> set ?rs" using mem by (simp add: qe)
  qed (rule eq(3))
  have "0 \<le> sum_list (map record_size (remove_record r ?rs))"
    using rok(1) set_remove_record [of r ?rs] by (intro sum_list_nonneg) (auto simp: list_all_iff record_ok_def)
  with sum have "max 0 (sum_list (map record_size ?rs) - record_size r) =
      sum_list (map record_size (remove_record r ?rs))" by simp
  moreover have "list_all (record_ok (cq_reservation_id q)) (remove_record r ?rs)"
    using rok(1) set_remove_record [of r ?rs] by (auto simp: list_all_iff)
  moreover have "index_ok ''cid'' (remove_record r ?rs) (index_remove (pget r ''cid'') r (records_by_cid q))"
    by (rule index_ok_remove [OF _ _ eq(1)]) (use ok mem in \<open>simp_all add: queue_ok_def qe\<close>)
  moreover have "index_ok ''qtask_id'' (remove_record r ?rs)
      (index_remove (pget r ''qtask_id'') r (records_by_qtask_id q))"
    by (rule index_ok_remove [OF _ _ eq(2)]) (use ok mem in \<open>simp_all add: queue_ok_def qe\<close>)
  ultimately show ?thesis
    using ok by (simp add: qe queue_ok_def remove_completion_record_def remember_completion_eviction_def
        completion_index_remove_def Let_def)
qed

lemma remove_frame:
  "cq_reservation_id (fst (remove_completion_record r reason now qe)) = cq_reservation_id (fst qe)"
  "terminal_at_ns (fst (remove_completion_record r reason now qe)) = terminal_at_ns (fst qe)"
  "dequeued_records (fst (remove_completion_record r reason now qe)) = dequeued_records (fst qe)"
  by (simp_all add: remove_completion_record_def remember_completion_eviction_def completion_index_remove_def
      Let_def split: prod.splits)

section \<open>Retention\<close>

lemma expire_fold:
  assumes "queue_ok (fst qe)" "cq_records (fst qe) = kept @ todo"
    "\<forall>r \<in> set kept. \<not> completion_record_expired cfg r now"
  shows "queue_ok (fst (foldl (\<lambda>qe record. if completion_record_expired cfg record now
             then remove_completion_record record ''completion-ttl-expired'' now qe else qe) qe todo)) \<and>
         cq_records (fst (foldl (\<lambda>qe record. if completion_record_expired cfg record now
             then remove_completion_record record ''completion-ttl-expired'' now qe else qe) qe todo)) =
           kept @ filter (\<lambda>r. \<not> completion_record_expired cfg r now) todo"
  using assms
proof (induction todo arbitrary: qe kept)
  case (Cons r todo)
  show ?case
  proof (cases "completion_record_expired cfg r now")
    case True
    have mem: "r \<in> set (cq_records (fst qe))" using Cons.prems(2) by simp
    have rok: "\<forall>x \<in> set (kept @ r # todo). record_ok (cq_reservation_id (fst qe)) x"
      using Cons.prems(1,2) by (auto simp: queue_ok_def list_all_iff)
    have "\<not> py_eq (PDict x) (PDict r)" if "x \<in> set kept" for x
      using record_ok_eq(4) [of "cq_reservation_id (fst qe)" x r cfg now] rok that True Cons.prems(3) by auto
    then have "\<not> record_in r kept" by (auto simp: record_in_def list_ex_iff)
    then have recs: "cq_records (fst (remove_completion_record r ''completion-ttl-expired'' now qe)) = kept @ todo"
      using Cons.prems(2) by (simp add: cq_records_remove remove_record_middle)
    from Cons.IH [OF queue_ok_remove [OF Cons.prems(1) mem] recs Cons.prems(3)] True show ?thesis by simp
  next
    case False
    with Cons.IH [of qe "kept @ [r]"] Cons.prems show ?thesis by simp
  qed
qed simp

lemma expire_records_ok:
  assumes "queue_ok (fst qe)"
  shows "queue_ok (fst (expire_records cfg now qe))"
    "cq_records (fst (expire_records cfg now qe)) =
       filter (\<lambda>r. \<not> completion_record_expired cfg r now) (cq_records (fst qe))"
  using expire_fold [OF assms, of "[]" "cq_records (fst qe)"] unfolding expire_records_def by auto

lemma drop_all_fold:
  assumes "queue_ok (fst qe)" "cq_records (fst qe) = todo"
  shows "queue_ok (fst (foldl (\<lambda>qe record. remove_completion_record record reason now qe) qe todo)) \<and>
         cq_records (fst (foldl (\<lambda>qe record. remove_completion_record record reason now qe) qe todo)) = []"
  using assms
proof (induction todo arbitrary: qe)
  case (Cons r todo)
  then have "cq_records (fst (remove_completion_record r reason now qe)) = todo"
    "queue_ok (fst (remove_completion_record r reason now qe))"
    by (simp_all add: cq_records_remove queue_ok_remove)
  with Cons.IH show ?case by simp
qed simp

lemma drop_all_records_ok:
  assumes "queue_ok (fst qe)"
  shows "queue_ok (fst (drop_all_records reason now qe))" "cq_records (fst (drop_all_records reason now qe)) = []"
  using drop_all_fold [OF assms refl] unfolding drop_all_records_def by auto

lemma trim_records_ok:
  "queue_ok (fst qe) \<Longrightarrow> queue_ok (fst (trim_records m now qe)) \<and>
   cq_records (fst (trim_records m now qe)) =
     (if 0 \<le> m then drop (length (cq_records (fst qe)) - nat m) (cq_records (fst qe)) else cq_records (fst qe))"
proof (induction m now qe rule: trim_records.induct)
  case (1 m now qe)
  show ?case
  proof (cases "0 \<le> m \<and> int (length (cq_records (fst qe))) > m")
    case True
    then obtain r rs where rs: "cq_records (fst qe) = r # rs" by (cases "cq_records (fst qe)") auto
    let ?qe' = "remove_completion_record (hd (cq_records (fst qe))) ''max-records-exceeded'' now qe"
    have ok: "queue_ok (fst ?qe')" using "1.prems" rs by (intro queue_ok_remove) auto
    have "cq_records (fst ?qe') = rs" by (simp add: cq_records_remove rs)
    moreover have "length (r # rs) - nat m = Suc (length rs - nat m)" using True rs by auto
    ultimately show ?thesis
      using "1.IH" [OF True ok] True rs by (subst trim_records.simps, subst (2) trim_records.simps) simp
  next
    case False
    then have "0 \<le> m \<Longrightarrow> length (cq_records (fst qe)) - nat m = 0" by auto
    moreover have "trim_records m now qe = qe" using False by (subst trim_records.simps) auto
    ultimately show ?thesis using "1.prems" by simp
  qed
qed

lemma trim_bytes_ok:
  "queue_ok (fst qe) \<Longrightarrow> \<exists>qe' n. trim_bytes m now qe = (Inr (), qe') \<and> queue_ok (fst qe') \<and>
     cq_records (fst qe') = drop n (cq_records (fst qe)) \<and> (0 \<le> m \<longrightarrow> retained_bytes (fst qe') \<le> m) \<and>
     (retained_bytes (fst qe) \<le> m \<longrightarrow> n = 0)"
proof (induction m now qe rule: trim_bytes.induct)
  case (1 m now qe)
  show ?case
  proof (cases "0 \<le> m \<and> retained_bytes (fst qe) > m")
    case True
    then have ne: "cq_records (fst qe) \<noteq> []" using "1.prems" by (auto simp: queue_ok_def)
    then obtain r rs where rs: "cq_records (fst qe) = r # rs" by (cases "cq_records (fst qe)") auto
    let ?qe' = "remove_completion_record (hd (cq_records (fst qe))) ''max-bytes-exceeded'' now qe"
    have ok: "queue_ok (fst ?qe')" using "1.prems" rs by (intro queue_ok_remove) auto
    have recs: "cq_records (fst ?qe') = rs" by (simp add: cq_records_remove rs)
    obtain qe'' n where *: "trim_bytes m now ?qe' = (Inr (), qe'')"
      "queue_ok (fst qe'')" "cq_records (fst qe'') = drop n rs" "0 \<le> m \<longrightarrow> retained_bytes (fst qe'') \<le> m"
      using "1.IH" [OF True ne ok, unfolded recs] by blast
    have "trim_bytes m now qe = (Inr (), qe'')" using True ne *(1) by (subst trim_bytes.simps) simp
    moreover have "cq_records (fst qe'') = drop (Suc n) (cq_records (fst qe))" using *(3) rs by simp
    ultimately show ?thesis using *(2,4) True by (metis not_le)
  next
    case False
    then have "trim_bytes m now qe = (Inr (), qe)" by (subst trim_bytes.simps) auto
    then show ?thesis using "1.prems" False by (intro exI [of _ qe] exI [of _ 0]) auto
  qed
qed

lemma fold_frame:
  assumes "\<And>qe r. f (fst (step qe r)) = f (fst qe)"
  shows "f (fst (foldl step qe rs)) = f (fst qe)"
  by (induction rs arbitrary: qe) (simp_all add: assms)

lemma expire_frame:
  "cq_reservation_id (fst (expire_records cfg now qe)) = cq_reservation_id (fst qe)"
  unfolding expire_records_def by (rule fold_frame) (simp add: remove_frame)

lemma drop_all_frame:
  "cq_reservation_id (fst (drop_all_records reason now qe)) = cq_reservation_id (fst qe)"
  unfolding drop_all_records_def by (rule fold_frame) (simp add: remove_frame)

lemma trim_records_frame: "cq_reservation_id (fst (trim_records m now qe)) = cq_reservation_id (fst qe)"
  by (induction m now qe rule: trim_records.induct) (subst trim_records.simps, simp add: remove_frame)

lemma trim_bytes_frame: "cq_reservation_id (fst (snd (trim_bytes m now qe))) = cq_reservation_id (fst qe)"
  by (induction m now qe rule: trim_bytes.induct) (subst trim_bytes.simps, simp add: remove_frame)

lemma enforce_frame:
  "cq_reservation_id (fst (snd (enforce_completion_retention cfg now qe))) = cq_reservation_id (fst qe)"
  by (simp add: enforce_completion_retention_def trim_bytes_frame trim_records_frame expire_frame)

text \<open>What the retention loops leave: a suffix of the records that have not expired, within both limits.\<close>

definition within_limits :: "completion_retention_config \<Rightarrow> completion_queue \<Rightarrow> bool" where
  "within_limits cfg q \<longleftrightarrow>
     (0 \<le> max_records_per_reservation cfg \<longrightarrow> int (length (cq_records q)) \<le> max_records_per_reservation cfg) \<and>
     (0 \<le> max_bytes_per_reservation cfg \<longrightarrow> retained_bytes q \<le> max_bytes_per_reservation cfg)"

definition live_records :: "completion_retention_config \<Rightarrow> int \<Rightarrow> pydict list \<Rightarrow> pydict list" where
  "live_records cfg now rs = filter (\<lambda>r. \<not> completion_record_expired cfg r now) rs"

lemma enforce_ok:
  assumes ok: "queue_ok (fst qe)"
  shows "\<exists>qe' n. enforce_completion_retention cfg now qe = (Inr (), qe') \<and> queue_ok (fst qe') \<and>
     cq_records (fst qe') = drop n (live_records cfg now (cq_records (fst qe))) \<and> within_limits cfg (fst qe')"
proof -
  let ?e = "expire_records cfg now qe"
  let ?t = "trim_records (max_records_per_reservation cfg) now ?e"
  note e = expire_records_ok [OF ok, of cfg now]
  note t = trim_records_ok [OF e(1), of "max_records_per_reservation cfg" now]
  obtain qe' n where b: "trim_bytes (max_bytes_per_reservation cfg) now ?t = (Inr (), qe')" "queue_ok (fst qe')"
    "cq_records (fst qe') = drop n (cq_records (fst ?t))"
    "0 \<le> max_bytes_per_reservation cfg \<longrightarrow> retained_bytes (fst qe') \<le> max_bytes_per_reservation cfg"
    using trim_bytes_ok [OF conjunct1 [OF t]] by blast
  have live: "cq_records (fst ?e) = live_records cfg now (cq_records (fst qe))"
    using e(2) by (simp add: live_records_def)
  obtain m where m: "cq_records (fst ?t) = drop m (cq_records (fst ?e))"
    using t by (metis drop0)
  have "0 \<le> max_records_per_reservation cfg \<Longrightarrow>
      int (length (cq_records (fst ?t))) \<le> max_records_per_reservation cfg"
    using t by auto
  then have "within_limits cfg (fst qe')" using b(3,4) by (auto simp: within_limits_def)
  moreover have "cq_records (fst qe') = drop (n + m) (live_records cfg now (cq_records (fst qe)))"
    using b(3) m live by (simp add: add.commute)
  ultimately show ?thesis using b(1,2) by (auto simp: enforce_completion_retention_def)
qed

end
