(* ===== verification/QPM_Completion_Inv.thy ===== *)
theory QPM_Completion_Inv
  imports QPM_Completion_Lemmas "HOL-Library.Sublist"
begin

text \<open>
  The invariant of the controller's completion queues, kept by every operation on them: each
  queue is well formed and stored under its own reservation. On top of it: an insertion never
  raises and leaves the newest unexpired records within both limits, a purge never raises, and
  what a read returns is what a peek showed.
\<close>

definition cq_ok :: "controller \<Rightarrow> bool" where
  "cq_ok s \<longleftrightarrow> (\<forall>rid q. map_of (completion_queues s) rid = Some q \<longrightarrow> queue_ok q \<and> cq_reservation_id q = rid)"

lemma cq_ok_blind: "world_blind cq_ok"
  by (simp add: world_blind_def cq_ok_def)

lemmas cq_world = keeps_ext [OF cq_ok_blind] keeps_time [OF cq_ok_blind] keeps_time_s [OF cq_ok_blind]
  keeps_admission [OF cq_ok_blind] keeps_scheduler [OF cq_ok_blind]

lemma cq_okD: "cq_ok s \<Longrightarrow> map_of (completion_queues s) rid = Some q \<Longrightarrow> queue_ok q \<and> cq_reservation_id q = rid"
  by (simp add: cq_ok_def)

text \<open>A statement that leaves the queues alone keeps the invariant.\<close>

lemma cq_ok_cong: "completion_queues t = completion_queues s \<Longrightarrow> cq_ok t = cq_ok s"
  by (simp add: cq_ok_def)

lemma cq_ok_ensure [simp]: "cq_ok s \<Longrightarrow> cq_ok (ensure_completion_queue rid s)"
  by (auto simp: ensure_completion_queue_def cq_ok_def new_completion_queue_def [of rid, THEN arg_cong [of _ _ cq_reservation_id]]
      split: option.splits)

lemma cq_ok_mark [simp]: "cq_ok s \<Longrightarrow> cq_ok (mark_completion_queue_terminal rid now s)"
proof -
  assume "cq_ok s"
  then have "cq_ok (ensure_completion_queue rid s)" by simp
  then show ?thesis
    by (auto simp: mark_completion_queue_terminal_def Let_def cq_ok_def queue_ok_def split: option.splits)
qed

lemma on_queue_spec:
  assumes "cq_ok s" "map_of (completion_queues s) rid = Some q"
    "f (q, completion_evictions s) = (r, q', ev')" "queue_ok q'" "cq_reservation_id q' = cq_reservation_id q"
  shows "on_queue rid f a s =
           (r, s\<lparr>completion_queues := dset rid q' (completion_queues s), completion_evictions := ev'\<rparr>)"
    and "cq_ok (s\<lparr>completion_queues := dset rid q' (completion_queues s), completion_evictions := ev'\<rparr>)"
  using assms by (auto simp: on_queue_def cq_ok_def)

lemma keeps_on_queue:
  assumes "\<And>qe. queue_ok (fst qe) \<Longrightarrow> queue_ok (fst (snd (f qe))) \<and>
      cq_reservation_id (fst (snd (f qe))) = cq_reservation_id (fst qe)"
  shows "keeps cq_ok (on_queue rid f a)"
proof (rule keepsI)
  fix s assume ok: "cq_ok s"
  show "cq_ok (snd (on_queue rid f a s))"
  proof (cases "map_of (completion_queues s) rid")
    case (Some q)
    obtain r q' ev' where f: "f (q, completion_evictions s) = (r, q', ev')" by (metis prod.exhaust)
    with assms [of "(q, completion_evictions s)"] cq_okD [OF ok Some]
    have "queue_ok q'" "cq_reservation_id q' = cq_reservation_id q" by auto
    from on_queue_spec [where f = f, OF ok Some f this] show ?thesis by simp
  qed (simp add: on_queue_def ok)
qed

lemma enforce_keeps:
  assumes "queue_ok (fst qe)"
  shows "queue_ok (fst (snd (enforce_completion_retention cfg now qe))) \<and>
    cq_reservation_id (fst (snd (enforce_completion_retention cfg now qe))) = cq_reservation_id (fst qe)"
  using enforce_ok [OF assms, of cfg now] enforce_frame [of cfg now qe] by auto

lemma keeps_enforce [keeps_rules]: "keeps cq_ok (enforce_retention_at rid now)"
  unfolding enforce_retention_at_def by (intro keeps_rules keeps_on_queue enforce_keeps)

lemma enforce_returns: "cq_ok s \<Longrightarrow> \<exists>t. enforce_retention_at rid now s = (Inr (), t) \<and> cq_ok t \<and>
    completion_retention t = completion_retention s \<and> (\<forall>r. r \<noteq> rid \<longrightarrow> map_of (completion_queues t) r = map_of (completion_queues s) r) \<and>
    (case map_of (completion_queues s) rid of
       None \<Rightarrow> map_of (completion_queues t) rid = None
     | Some q \<Rightarrow> \<exists>q' n. map_of (completion_queues t) rid = Some q' \<and> within_limits (completion_retention s) q' \<and>
         cq_records q' = drop n (live_records (completion_retention s) now (cq_records q)))"
proof (cases "map_of (completion_queues s) rid")
  case None
  assume "cq_ok s"
  with None show ?thesis
    by (intro exI [of _ s]) (simp add: enforce_retention_at_def on_queue_def monad_defs)
next
  case (Some q)
  assume ok: "cq_ok s"
  let ?cfg = "completion_retention s"
  from enforce_ok [of "(q, completion_evictions s)" ?cfg now] cq_okD [OF ok Some] obtain q' ev' n where
    e: "enforce_completion_retention ?cfg now (q, completion_evictions s) = (Inr (), q', ev')" "queue_ok q'"
    "cq_records q' = drop n (live_records ?cfg now (cq_records q))" "within_limits ?cfg q'" by auto
  have "cq_reservation_id q' = cq_reservation_id q"
    using enforce_frame [of ?cfg now "(q, completion_evictions s)"] e(1) by simp
  from on_queue_spec [where f = "enforce_completion_retention ?cfg now", OF ok Some e(1) e(2) this] e Some show ?thesis
    by (auto simp: enforce_retention_at_def monad_defs)
qed

section \<open>Records\<close>

declare pget_dset [simp]

lemma pget_setdefault: "pget (dsetdefault k v d) k' = (if k = k' \<and> \<not> has_key d k then v else pget d k')"
  by (auto simp: pget_def map_of_setdefault)

lemma completion_record_ok:
  assumes "rt_reservation_id runtime = Some rid"
  shows "valid P (completion_record env payload runtime now) (\<lambda>x _. record_ok rid (fst x)) (\<lambda>_ _. False)"
  using assms
  by (simp add: valid_def completion_record_def time_s_def time_ns_def monad_defs Let_def record_ok_def
      record_size_def is_str_iff is_int_iff pget_setdefault completion_record_size_bytes_def)

lemma keeps_record: "world_blind I \<Longrightarrow> keeps I (completion_record env payload runtime now)"
  unfolding completion_record_def by (intro keeps_rules keeps_time_s)

lemma add_record_frame [simp]:
  "cq_reservation_id (add_record r q) = cq_reservation_id q" "cq_records (add_record r q) = cq_records q @ [r]"
  by (simp_all add: add_record_def completion_index_add_def Let_def)

lemma keeps_enqueue: "record_ok rid r \<Longrightarrow> keeps cq_ok (enqueue_completion_record env rid r)"
proof -
  assume r: "record_ok rid r"
  have "keeps cq_ok (on_queue rid (\<lambda>(queue, ev). (Inr (), add_record r queue, ev)) ())"
  proof (rule keepsI)
    fix s assume ok: "cq_ok s"
    show "cq_ok (snd (on_queue rid (\<lambda>(queue, ev). (Inr (), add_record r queue, ev)) () s))"
    proof (cases "map_of (completion_queues s) rid")
      case (Some q)
      with ok r have "queue_ok (add_record r q)" "cq_reservation_id (add_record r q) = rid"
        by (auto intro!: queue_ok_add dest: cq_okD)
      with ok Some show ?thesis by (auto simp: on_queue_def cq_ok_def)
    qed (simp add: on_queue_def ok)
  qed
  then show ?thesis unfolding enqueue_completion_record_def by (intro keeps_rules cq_world)
qed

text \<open>The effect of an insertion: it returns, and the queue keeps the newest unexpired records.\<close>

lemma enqueue_returns:
  assumes ok: "cq_ok s" and q: "map_of (completion_queues s) rid = Some q" and r: "record_ok rid r"
  shows "\<exists>t q' n. enqueue_completion_record env rid r s = (Inr (), t) \<and> cq_ok t \<and>
     map_of (completion_queues t) rid = Some q' \<and> within_limits (completion_retention s) q' \<and>
     cq_records q' = drop n (live_records (completion_retention s) (clock env (clock_reads s)) (cq_records q @ [r])) \<and>
     (\<forall>r'. r' \<noteq> rid \<longrightarrow> map_of (completion_queues t) r' = map_of (completion_queues s) r')"
proof -
  let ?q = "add_record r q" and ?now = "clock env (clock_reads s)"
  let ?u = "s\<lparr>completion_queues := dset rid ?q (completion_queues s)\<rparr>"
  let ?v = "?u\<lparr>clock_reads := Suc (clock_reads s)\<rparr>"
  have "queue_ok ?q" using cq_okD [OF ok q] r by (auto intro: queue_ok_add)
  then have v: "cq_ok ?v" "map_of (completion_queues ?v) rid = Some ?q" using ok cq_okD [OF ok q] by (auto simp: cq_ok_def)
  have step: "enqueue_completion_record env rid r s = enforce_retention_at rid ?now ?v"
    using q by (simp add: enqueue_completion_record_def on_queue_def monad_defs time_ns_def)
  from enforce_returns [OF v(1), of rid ?now] v(2) show ?thesis
    unfolding step by fastforce
qed

section \<open>Purge and polls\<close>

lemma collectable_keeps:
  assumes "queue_ok (fst qe)"
  shows "queue_ok (fst (if b then drop_all_records reason now qe else qe)) \<and>
    cq_reservation_id (fst (if b then drop_all_records reason now qe else qe)) = cq_reservation_id (fst qe)"
  using drop_all_records_ok [OF assms] by (simp add: drop_all_frame assms)

lemma keeps_collectable [keeps_rules]: "keeps cq_ok (completion_queue_collectable rid now)"
  unfolding completion_queue_collectable_def
  by (intro keeps_rules keeps_on_queue) (auto simp: Let_def collectable_keeps drop_all_records_ok drop_all_frame)

lemma collectable_returns: "\<exists>b t. completion_queue_collectable rid now s = (Inr b, t)"
  by (auto simp: completion_queue_collectable_def monad_defs on_queue_def Let_def split: option.splits prod.splits)

lemma cq_ok_gc [simp]: "cq_ok s \<Longrightarrow> cq_ok (remember_completion_queue_gc rid now s
    \<lparr>completion_queues := dpop rid' (completion_queues (remember_completion_queue_gc rid now s))\<rparr>)"
  by (auto simp: remember_completion_queue_gc_def Let_def cq_ok_def)

lemma keeps_purge_loop [keeps_rules]: "keeps cq_ok (purge_loop now rids summary)"
  by (induction now rids summary rule: purge_loop.induct) (auto intro!: keeps_rules keeps_mod simp: Let_def)

lemma keeps_purge [keeps_rules]: "keeps cq_ok (purge_completion_queues_locked now force)"
  unfolding purge_completion_queues_locked_def
  by (intro keeps_rules keeps_mod) (simp add: cq_ok_def)

lemma purge_loop_returns: "cq_ok s \<Longrightarrow> \<exists>x t. purge_loop now rids summary s = (Inr x, t)"
proof (induction rids arbitrary: s summary)
  case (Cons rid rids)
  obtain t where t: "enforce_retention_at rid now s = (Inr (), t)" "cq_ok t"
    using enforce_returns [OF Cons.prems, of rid now] by blast
  obtain b u where u: "completion_queue_collectable rid now t = (Inr b, u)" using collectable_returns by blast
  have "cq_ok u" using keepsD [OF keeps_collectable t(2), of rid now] u by simp
  then show ?case using Cons.IH u t by (cases b) (simp_all add: monad_defs Let_def)
qed (simp add: monad_defs)

lemma purge_returns: "cq_ok s \<Longrightarrow> \<exists>x t. purge_completion_queues_locked now force s = (Inr x, t)"
proof -
  assume "cq_ok s"
  then have "cq_ok (s\<lparr>completion_last_purge_ns := now\<rparr>)" by (simp add: cq_ok_def)
  from purge_loop_returns [OF this] show ?thesis
    by (auto simp: purge_completion_queues_locked_def monad_defs Let_def)
qed

lemma keeps_status: "world_blind I \<Longrightarrow> keeps I (task_status env runtime outcome reason message result)"
  unfolding task_status_def scheduler_state_def by (intro keeps_rules) auto

lemma keeps_queue_for_poll [keeps_rules]: "keeps cq_ok (completion_queue_for_poll env rid op cid q)"
  unfolding completion_queue_for_poll_def by (intro keeps_rules keeps_mod cq_world) simp

lemma keeps_not_ready [keeps_rules]: "keeps cq_ok (completion_not_ready_response env rid cid q op)"
  unfolding completion_not_ready_response_def by (intro keeps_rules keeps_status cq_ok_blind)

lemma record_for_selector_mem:
  assumes ok: "queue_ok q" and sel: "completion_record_for_selector q cid qid = Some r"
  shows "r \<in> set (cq_records q)" "cid \<noteq> PNone \<Longrightarrow> pget r ''cid'' = cid" "qid \<noteq> PNone \<Longrightarrow> pget r ''qtask_id'' = qid"
proof -
  have c: "map_of (records_by_cid q) cid = Some xs \<Longrightarrow> x \<in> set xs \<Longrightarrow> x \<in> set (cq_records q) \<and> pget x ''cid'' = cid" for xs x
    using ok by (auto simp: queue_ok_def index_ok_def Let_def split: if_splits)
  have i: "map_of (records_by_qtask_id q) qid = Some xs \<Longrightarrow> x \<in> set xs \<Longrightarrow>
      x \<in> set (cq_records q) \<and> pget x ''qtask_id'' = qid" for xs x
    using ok by (auto simp: queue_ok_def index_ok_def Let_def split: if_splits)
  have e: "record_in x xs \<Longrightarrow> x \<in> set (cq_records q) \<Longrightarrow> map_of (records_by_qtask_id q) qid = Some xs \<Longrightarrow>
      pget x ''qtask_id'' = qid" for x xs
  proof -
    assume "record_in x xs" "x \<in> set (cq_records q)" and m: "map_of (records_by_qtask_id q) qid = Some xs"
    then obtain y where y: "y \<in> set xs" "py_eq (PDict y) (PDict x)" by (auto simp: record_in_def list_ex_iff)
    moreover have "record_ok (cq_reservation_id q) x" "record_ok (cq_reservation_id q) y"
      using \<open>x \<in> set (cq_records q)\<close> i [OF m y(1)] ok by (auto simp: queue_ok_def list_all_iff)
    ultimately show ?thesis using record_ok_eq(2) i [OF m] by metis
  qed
  have filt: "filter P xs = x # ys \<Longrightarrow> x \<in> set xs \<and> P x" for P xs x and ys :: "pydict list"
    by (metis (mono_tags, lifting) list.set_intros(1) mem_Collect_eq set_filter)
  from sel c i e show "r \<in> set (cq_records q)" "cid \<noteq> PNone \<Longrightarrow> pget r ''cid'' = cid"
    "qid \<noteq> PNone \<Longrightarrow> pget r ''qtask_id'' = qid"
    by (auto simp: completion_record_for_selector_def Let_def record_in_def split: if_splits list.splits option.splits
        dest!: filt)
qed

lemma keeps_finish_read [keeps_rules]: "keeps cq_ok (finish_read env rid record op)"
proof -
  have "keeps cq_ok (on_queue rid (\<lambda>(queue, ev). (Inr (), queue\<lparr>dequeued_records := f queue\<rparr>, ev)) ())" for f
    by (rule keeps_on_queue) (auto simp: queue_ok_def split: prod.splits)
  moreover have "keeps cq_ok (modM (forget_terminal_task_for_cid c))" for c
    by (rule keeps_mod) (auto simp: forget_terminal_task_for_cid_def cq_ok_def split: option.splits)
  ultimately show ?thesis
    unfolding finish_read_def by (auto intro!: keeps_rules cq_world simp: Let_def split: pyval.splits)
qed

lemma consume_ok:
  assumes "cq_ok s" "map_of (completion_queues s) rid = Some q" "r \<in> set (cq_records q)"
  shows "cq_ok (snd (consume_completion env rid r op s))"
proof -
  let ?now = "clock env (clock_reads s)" and ?s = "s\<lparr>clock_reads := Suc (clock_reads s)\<rparr>"
  have ok: "cq_ok ?s" "map_of (completion_queues ?s) rid = Some q" using assms by (auto simp: cq_ok_def)
  obtain q' ev' where q': "remove_completion_record r ''read'' ?now (q, completion_evictions ?s) = (q', ev')"
    by (metis prod.exhaust)
  have "queue_ok q'" "cq_reservation_id q' = cq_reservation_id q"
    using queue_ok_remove [of "(q, completion_evictions ?s)" r "''read''" ?now] assms(3) cq_okD [OF assms(1,2)] q'
      remove_frame(1) [of r "''read''" ?now "(q, completion_evictions ?s)"] by auto
  note step = on_queue_spec [where f = "\<lambda>qe. (Inr (), remove_completion_record r ''read'' ?now qe)", OF ok _ this]
  have "consume_completion env rid r op s = finish_read env rid r op
      (?s\<lparr>completion_queues := dset rid q' (completion_queues ?s), completion_evictions := ev'\<rparr>)"
    using q' assms(2) by (simp add: consume_completion_def time_ns_def bindM_def seqM_def on_queue_def)
  with keepsD [OF keeps_finish_read step(2)] q' show ?thesis by simp
qed

lemma keeps_poll [keeps_rules]: "keeps cq_ok (poll_completion env rid cid q consume op)"
proof (cases rid)
  case None
  then show ?thesis by (simp add: poll_completion_def keeps_ret)
next
  case (Some i)
  have "keeps cq_ok (bindM (getM id) (\<lambda>s.
      let record = (case map_of (completion_queues s) i of
                      Some queue \<Rightarrow> completion_record_for_selector queue cid q | None \<Rightarrow> None);
          selector_error = (case known_task cid q s of
                      Some runtime \<Rightarrow> task_reservation_error runtime (Some i) True | None \<Rightarrow> None)
      in case selector_error of
           Some response \<Rightarrow> retM (dset ''completion_ready'' (PBool False) (dset ''poll_operation'' (PStr op) response))
         | None \<Rightarrow> (case record of
              None \<Rightarrow> (case completion_eviction_for_selector i cid q s of
                         Some eviction \<Rightarrow> retM (completion_no_longer_retained i cid q op eviction)
                       | None \<Rightarrow> completion_not_ready_response env i cid q op)
            | Some r \<Rightarrow> if \<not> consume then retM (completion_public_record r op)
                        else consume_completion env i r op)))"
    by (rule keeps_bind_get)
      (auto simp: Let_def monad_defs keepsD [OF keeps_not_ready] record_for_selector_mem(1) cq_okD
        intro!: consume_ok split: option.splits)
  then show ?thesis unfolding poll_completion_def Some by (auto intro!: keeps_rules)
qed

section \<open>What a poll answers\<close>

text \<open>Queues only lose records.\<close>

definition shrinks :: "controller \<Rightarrow> controller \<Rightarrow> bool" where
  "shrinks s t \<longleftrightarrow> (\<forall>rid q'. map_of (completion_queues t) rid = Some q' \<longrightarrow>
     (\<exists>q. map_of (completion_queues s) rid = Some q \<and> subseq (cq_records q') (cq_records q)))"

lemma shrinks_refl: "completion_queues t = completion_queues s \<Longrightarrow> shrinks s t"
  by (auto simp: shrinks_def)

lemma shrinks_trans: "shrinks s t \<Longrightarrow> shrinks t u \<Longrightarrow> shrinks s u"
  unfolding shrinks_def by (meson subseq_order.trans)

lemma subseq_drop_live: "subseq (drop n (live_records cfg now rs)) rs"
  unfolding live_records_def by (meson suffix_drop suffix_imp_subseq subseq_filter_left subseq_order.trans)

lemma subseq_remove_record [simp]: "subseq (remove_record r rs) rs"
  by (induction rs) auto

lemma enforce_shrinks:
  assumes ok: "cq_ok s" and run: "enforce_retention_at rid now s = (r, t)"
  shows "shrinks s t"
  unfolding shrinks_def
proof (intro allI impI)
  fix rid' q' assume q': "map_of (completion_queues t) rid' = Some q'"
  note e = enforce_returns [OF ok, of rid now]
  show "\<exists>q. map_of (completion_queues s) rid' = Some q \<and> subseq (cq_records q') (cq_records q)"
  proof (cases "rid' = rid")
    case True
    with e run q' show ?thesis by (auto simp: subseq_drop_live split: option.splits)
  next
    case False
    with e run q' show ?thesis by auto
  qed
qed

lemma collectable_shrinks:
  assumes ok: "cq_ok s" and run: "completion_queue_collectable rid now s = (r, t)"
  shows "shrinks s t"
proof (cases "map_of (completion_queues s) rid")
  case None
  with run show ?thesis
    by (auto simp: completion_queue_collectable_def on_queue_def monad_defs intro: shrinks_refl)
next
  case (Some q)
  have "cq_records (fst (drop_all_records reason now (q, ev))) = []" for reason now ev
    using drop_all_records_ok(2) [of "(q, ev)"] cq_okD [OF ok Some] by simp
  with run Some show ?thesis
    by (auto simp: completion_queue_collectable_def on_queue_def monad_defs shrinks_def Let_def
        split: prod.splits if_splits)
       (metis fst_conv list_emb_Nil)+
qed

lemma purge_loop_shrinks: "cq_ok s \<Longrightarrow> purge_loop now rids summary s = (r, u) \<Longrightarrow> shrinks s u"
proof (induction rids arbitrary: s summary)
  case (Cons rid rids)
  obtain t where t: "enforce_retention_at rid now s = (Inr (), t)" "cq_ok t"
    using enforce_returns [OF Cons.prems(1), of rid now] by blast
  obtain b v where v: "completion_queue_collectable rid now t = (Inr b, v)" using collectable_returns by blast
  let ?w = "remember_completion_queue_gc rid now v
    \<lparr>completion_queues := dpop rid (completion_queues (remember_completion_queue_gc rid now v))\<rparr>"
  have okv: "cq_ok v" using keepsD [OF keeps_collectable t(2), of rid now] v by simp
  have sv: "shrinks s v"
    using enforce_shrinks [OF Cons.prems(1) t(1)] collectable_shrinks [OF t(2) v] by (rule shrinks_trans)
  have "shrinks v ?w" by (auto simp: shrinks_def remember_completion_queue_gc_def Let_def)
  then have sw: "shrinks s ?w" using sv by (rule shrinks_trans [rotated])
  have "shrinks v u \<or> shrinks ?w u"
    using Cons.prems(2) Cons.IH [OF okv] Cons.IH [OF cq_ok_gc [OF okv]] t v
    by (cases b) (auto simp: monad_defs Let_def)
  then show ?case using sv sw shrinks_trans by blast
qed (auto simp: monad_defs intro: shrinks_refl)

lemma purge_shrinks:
  assumes "cq_ok s" "purge_completion_queues_locked now force s = (r, t)"
  shows "shrinks s t"
proof -
  have "cq_ok (s\<lparr>completion_last_purge_ns := now\<rparr>)" using assms(1) by (simp add: cq_ok_def)
  from purge_loop_shrinks [OF this] assms(2) show ?thesis
    by (auto simp: purge_completion_queues_locked_def monad_defs Let_def shrinks_def split: if_splits)
qed

lemma finish_read_spec:
  "valid (\<lambda>u. cq_ok u \<and> shrinks s u) (finish_read env rid record op)
     (\<lambda>x u. (cq_ok u \<and> shrinks s u) \<and> (\<exists>now seconds. x = completion_public_record
        (dset ''qpm_cq_dequeue_time_ns'' (PInt now) (dset ''cq_dequeue_time'' seconds record)) op))
     (\<lambda>_ _. False)"
proof -
  let ?J = "\<lambda>u. cq_ok u \<and> shrinks s u"
  have blind: "world_blind ?J" by (simp add: world_blind_def cq_ok_def shrinks_def)
  have note1: "valid ?J (on_queue rid (\<lambda>(queue, ev). (Inr (), queue\<lparr>dequeued_records := f queue\<rparr>, ev)) ()) (\<lambda>_. ?J) E" for f E
    by (rule validI) (auto simp: on_queue_def cq_ok_def shrinks_def queue_ok_def split: option.splits)
  have forget: "valid ?J (modM (forget_terminal_task_for_cid c)) (\<lambda>_. ?J) E" for c E
    by (rule valid_mod) (auto simp: forget_terminal_task_for_cid_def cq_ok_def shrinks_def split: option.splits)
  have cid: "valid ?J (case v of PStr c \<Rightarrow> modM (forget_terminal_task_for_cid c) | _ \<Rightarrow> retM ()) (\<lambda>_. ?J) E" for v E
    using forget by (cases v) (auto intro: valid_ret)
  have purge: "valid ?J (purge_completion_queues_locked now False) (\<lambda>_. ?J) (\<lambda>_ _. False)" for now
  proof (rule validI)
    fix u assume J: "?J u"
    then obtain x t where t: "purge_completion_queues_locked now False u = (Inr x, t)" using purge_returns by blast
    moreover have "cq_ok t" using keepsD [OF keeps_purge, of u now False] J t by simp
    moreover have "shrinks s t" using purge_shrinks J t shrinks_trans by blast
    ultimately show "case purge_completion_queues_locked now False u of (Inl e, t) \<Rightarrow> False | (Inr x, t) \<Rightarrow> ?J t"
      by simp
  qed
  show ?thesis
    unfolding finish_read_def Let_def
    by (rule valid_bind valid_seq valid_time_s valid_time blind note1 cid purge valid_ret)+ blast
qed

text \<open>Consuming the record \<open>r\<close> of a queue: the answer is that record, and it is gone.\<close>

lemma consume_spec:
  assumes ok: "cq_ok s" and q: "map_of (completion_queues s) rid = Some q" and r: "r \<in> set (cq_records q)"
  shows "\<exists>t now seconds. consume_completion env rid r op s = (Inr (completion_public_record
        (dset ''qpm_cq_dequeue_time_ns'' (PInt now) (dset ''cq_dequeue_time'' seconds r)) op), t) \<and> cq_ok t \<and>
      shrinks s t \<and> (\<forall>q'. map_of (completion_queues t) rid = Some q' \<longrightarrow>
        subseq (cq_records q') (remove_record r (cq_records q)))"
proof -
  let ?now = "clock env (clock_reads s)"
  obtain q1 ev1 where q1: "remove_completion_record r ''read'' ?now (q, completion_evictions s) = (q1, ev1)"
    by (metis prod.exhaust)
  let ?u = "s\<lparr>clock_reads := Suc (clock_reads s), completion_queues := dset rid q1 (completion_queues s),
    completion_evictions := ev1\<rparr>"
  have run: "consume_completion env rid r op s = finish_read env rid r op ?u"
    using q1 q by (simp add: consume_completion_def time_ns_def bindM_def seqM_def on_queue_def)
  have recs: "cq_records q1 = remove_record r (cq_records q)"
    using cq_records_remove [of r "''read''" ?now "(q, completion_evictions s)"] q1 by simp
  have "queue_ok q1" "cq_reservation_id q1 = rid"
    using queue_ok_remove [of "(q, completion_evictions s)" r "''read''" ?now] r cq_okD [OF ok q] q1
      remove_frame(1) [of r "''read''" ?now "(q, completion_evictions s)"] by auto
  then have u: "cq_ok ?u" using ok by (auto simp: cq_ok_def)
  have su: "shrinks s ?u" using q recs by (auto simp: shrinks_def subseq_remove_record)
  obtain t x where t: "finish_read env rid r op ?u = (Inr x, t)" "cq_ok t" "shrinks ?u t"
    "\<exists>now seconds. x = completion_public_record
        (dset ''qpm_cq_dequeue_time_ns'' (PInt now) (dset ''cq_dequeue_time'' seconds r)) op"
    using valid_returns [OF finish_read_spec [of ?u env rid r op], of ?u] u shrinks_refl by blast
  have "subseq (cq_records q') (remove_record r (cq_records q))" if "map_of (completion_queues t) rid = Some q'" for q'
    using t(3) that recs unfolding shrinks_def by fastforce
  then show ?thesis using t run shrinks_trans [OF su t(3)] by auto
qed

section \<open>Isolation of reservations\<close>

lemma map_of_filter_key: "map_of (filter (\<lambda>kv. P (fst kv)) d) k = (if P k then map_of d k else None)"
  by (induction d) auto

lemma pget_public: "\<not> starts_with ''_qpm_'' k \<Longrightarrow> pget (public_fields d) k = pget d k"
  by (simp add: pget_def public_fields_def map_of_filter_key [where P = "\<lambda>k. \<not> starts_with ''_qpm_'' k"])

lemma public_record_keys:
  "k \<in> set (dkeys (completion_public_record r op)) \<Longrightarrow> \<not> starts_with ''_qpm_'' k"
proof -
  have "set (dkeys (completion_public_record r op)) \<subseteq> insert ''poll_operation'' (insert ''completion_ready''
      (set (dkeys (public_fields r))))"
    unfolding completion_public_record_def by (auto simp only: keys_dset)
  moreover have "\<forall>k \<in> set (dkeys (public_fields r)). \<not> starts_with ''_qpm_'' k" by (auto simp: public_fields_def)
  moreover assume "k \<in> set (dkeys (completion_public_record r op))"
  ultimately have "k = ''poll_operation'' \<or> k = ''completion_ready'' \<or> \<not> starts_with ''_qpm_'' k" by blast
  then show ?thesis by auto
qed

text \<open>An answer that is ready comes from the reservation's own queue and shows no private field.\<close>

definition answer_ok :: "int \<Rightarrow> pydict \<Rightarrow> bool" where
  "answer_ok rid x \<longleftrightarrow> pget x ''completion_ready'' = PBool True \<longrightarrow>
     pget x ''reservation_id'' = PInt rid \<and> (\<forall>k \<in> set (dkeys x). \<not> starts_with ''_qpm_'' k)"

lemma answer_ok_public: "pget r ''reservation_id'' = PInt rid \<Longrightarrow> answer_ok rid (completion_public_record r op)"
  using public_record_keys [of _ r op] by (auto simp: answer_ok_def completion_public_record_def pget_public)

lemma map_of_without_none: "map_of d k = Some v \<Longrightarrow> v \<noteq> PNone \<Longrightarrow> map_of (without_none d) k = Some v"
  by (induction d) (auto simp: without_none_def split: if_splits)

lemma answer_ok_not_ready: "map_of d ''completion_ready'' = Some (PBool False) \<Longrightarrow> answer_ok rid (without_none d)"
  using map_of_without_none [of d "''completion_ready''" "PBool False"] by (simp add: answer_ok_def pget_def)

lemma answer_ok_no_longer: "answer_ok rid (completion_no_longer_retained i cid q op ev)"
  unfolding completion_no_longer_retained_def
  by (rule answer_ok_not_ready) (simp split: option.splits)

lemma answer_ok_missing: "answer_ok rid (missing_reservation_response i m op)"
  by (simp add: answer_ok_def missing_reservation_response_def pget_def)

lemma not_ready_answer: "valid P (completion_not_ready_response env i cid q op) (\<lambda>x _. answer_ok rid x) (\<lambda>_ _. True)"
  unfolding completion_not_ready_response_def
  by (rule valid_bind [where R = "\<lambda>_ _. True"], simp add: valid_def getM_def,
      rule valid_bind [where R = "\<lambda>_ _. True"], simp add: valid_def split: prod.splits sum.splits,
      rule valid_ret, rule answer_ok_not_ready) simp

lemma consume_answer:
  assumes "cq_ok s" "map_of (completion_queues s) rid = Some q" "r \<in> set (cq_records q)"
  shows "\<exists>x t. consume_completion env rid r op s = (Inr x, t) \<and> answer_ok rid x"
proof -
  have "pget r ''reservation_id'' = PInt rid"
    using cq_okD [OF assms(1,2)] assms(3) by (auto simp: queue_ok_def list_all_iff record_ok_def)
  then show ?thesis using consume_spec [OF assms, of env op] by (fastforce intro: answer_ok_public)
qed

lemma poll_answer:
  assumes ok: "cq_ok s" and run: "poll_completion env (Some rid) cid q consume op s = (Inr x, t)"
  shows "answer_ok rid x"
proof -
  obtain e u where e: "completion_queue_for_poll env rid op cid q s = (e, u)" by fastforce
  have ok': "cq_ok u" using keepsD [OF keeps_queue_for_poll ok, of env rid op cid q] e by simp
  show ?thesis
  proof (cases e)
    case (Inr err)
    show ?thesis
    proof (cases err)
      case (Some response)
      then have "x = response" using run e Inr by (simp add: poll_completion_def monad_defs)
      moreover have "answer_ok rid response"
        using e Inr Some
        by (auto simp: completion_queue_for_poll_def monad_defs answer_ok_no_longer answer_ok_missing split: if_splits option.splits prod.splits sum.splits)
      ultimately show ?thesis by simp
    next
      case None
      let ?rec = "case map_of (completion_queues u) rid of
          Some queue \<Rightarrow> completion_record_for_selector queue cid q | None \<Rightarrow> None"
      let ?err = "case known_task cid q u of
          Some runtime \<Rightarrow> task_reservation_error runtime (Some rid) True | None \<Rightarrow> None"
      show ?thesis
      proof (cases ?err)
        case (Some response)
        then show ?thesis using run e Inr None
          by (auto simp: poll_completion_def monad_defs answer_ok_def Let_def)
      next
        case noerr: None
        show ?thesis
        proof (cases ?rec)
          case norec: None
          show ?thesis
          proof (cases "completion_eviction_for_selector rid cid q u")
            case (Some ev)
            then show ?thesis using run e Inr None noerr norec
              by (auto simp: poll_completion_def monad_defs Let_def answer_ok_no_longer)
          next
            case noev: None
            then have "completion_not_ready_response env rid cid q op u = (Inr x, t)"
              using run e Inr None noerr norec by (simp add: poll_completion_def monad_defs Let_def)
            with not_ready_answer [of "\<lambda>_. True" env rid cid q op rid] show ?thesis by (auto dest: validD)
          qed
        next
          case (Some r)
          then obtain queue where queue: "map_of (completion_queues u) rid = Some queue"
            "completion_record_for_selector queue cid q = Some r" by (auto split: option.splits)
          then have mem: "r \<in> set (cq_records queue)" using cq_okD [OF ok'] record_for_selector_mem(1) by blast
          then have "pget r ''reservation_id'' = PInt rid"
            using cq_okD [OF ok' queue(1)] by (auto simp: queue_ok_def list_all_iff record_ok_def)
          then show ?thesis
            using run e Inr None noerr Some consume_answer [OF ok' queue(1) mem, of env op]
            by (cases consume) (auto simp: poll_completion_def monad_defs Let_def intro: answer_ok_public)
        qed
      qed
    qed
  qed (use run e in \<open>simp add: poll_completion_def monad_defs\<close>)
qed

end
