(* ===== verification/QPM_Usage.thy ===== *)
theory QPM_Usage
  imports QPM_Completion_Inv
begin

text \<open>
  The accounting of device usage: the estimate made before a task is admitted, the description
  handed to the scheduler, and the settlement of a capacity hold, which returns what the task
  did not use and records what it did. The limits on concurrent dispatch are here too. The
  lemmas bound what is returned and show that a hold is settled at most once.
\<close>

section \<open>Estimates\<close>

definition first_truthy :: "pyval list \<Rightarrow> pyval \<Rightarrow> pyval" where
  "first_truthy vs fallback = foldr py_or vs fallback"

definition admission_task_class :: "pydict \<Rightarrow> exc + pydict" where
  "admission_task_class request =
     (case py_dict (pgetd request ''task_class'' (PDict [])) of
        Inl e \<Rightarrow> Inl e
      | Inr task_class \<Rightarrow> Inr
          [(''class_id'', pgetd task_class ''class_id'' (PInt 1)),
           (''count'', pgetd task_class ''count'' (PInt 1)),
           (''qubit_count'', first_truthy [pget task_class ''qubit_count'', pget request ''qubit_count'',
              pget request ''num_qubits''] (PInt 1)),
           (''depth'', pgetd task_class ''depth'' (pgetd request ''depth'' (PInt 1))),
           (''one_q_gate_count'', pgetd task_class ''one_q_gate_count'' (pgetd request ''one_q_gate_count'' (PInt 0))),
           (''two_q_gate_count'', pgetd task_class ''two_q_gate_count'' (pgetd request ''two_q_gate_count'' (PInt 0))),
           (''shots'', first_truthy [pget task_class ''shots'', pget request ''shots'', pget request ''num_shots'']
              (PInt 1)),
           (''measurement_count'', pgetd task_class ''measurement_count''
              (pgetd request ''measurement_count'' (PInt 1)))])"

definition record_estimate :: "pydict \<Rightarrow> pydict \<Rightarrow> pydict" where
  "record_estimate estimate info =
     (let info = dset ''admission_estimate'' (PDict estimate) info;
          estimated_ns = estimate_total_ns estimate;
          baseline_units = estimate_baseline_units estimate;
          info = (if estimated_ns \<noteq> 0
                  then dset ''estimated_device_ns'' (PInt estimated_ns) (dset ''estimated_ns'' (PInt estimated_ns) info)
                  else info)
      in if baseline_units \<noteq> 0
         then dsetdefault ''estimated_cost'' (PInt baseline_units) (dset ''baseline_units'' (PInt baseline_units) info)
         else info)"

definition declared_ns :: "pydict \<Rightarrow> pyval" where
  "declared_ns info =
     pgetd info ''estimated_ns'' (pgetd info ''walltime_ns'' (pgetd info ''estimated_device_ns'' (PInt 0)))"

definition estimated_usage :: "qpm_env \<Rightarrow> string \<Rightarrow> runtime_task \<Rightarrow> pydict ctl" where
  "estimated_usage env cid runtime =
     bindM (getM (\<lambda>s. c_info (circuit_object cid s))) (\<lambda>info.
     let shots = pgetd info ''num_shots'' (pgetd info ''shots'' (PInt 1))
     in bindM (liftM (admission_task_class info)) (\<lambda>task_class.
        bindM device_id (\<lambda>device.
        bindM (estimate_qtask_class env device task_class) (\<lambda>estimate.
        bindM (case estimate of
                 Some e \<Rightarrow> seqM (modM (set_circuit_info cid (record_estimate e)))
                             (retM (PInt (estimate_total_ns e), PInt (estimate_baseline_units e)))
               | None \<Rightarrow> bindM (liftM (py_number shots)) (\<lambda>n.
                   retM (declared_ns info, pgetd info ''baseline_units'' (PInt (max 1 n)))))
          (\<lambda>(estimated_ns, baseline_units).
        bindM (getM (\<lambda>s. c_info (circuit_object cid s))) (\<lambda>info.
        bindM (time_ns env) (\<lambda>now.
          retM [(''reservation_id'', opt_int (rt_reservation_id runtime)),
                (''task_id'', PInt (rt_qtask_id runtime)),
                (''class_id'', pgetd task_class ''class_id'' (PInt 1)),
                (''event_time_ns'', PInt now),
                (''estimated_ns'', estimated_ns),
                (''baseline_units'', baseline_units),
                (''credits'', pgetd info ''credits'' (pgetd info ''estimated_credits'' baseline_units)),
                (''rate_units'', pgetd info ''rate_units'' (pgetd info ''estimated_rate_units'' baseline_units))])))))))"

text \<open>The keys of the description's metadata are the integers 100 to 103, here as text.\<close>

definition scheduler_task_desc :: "qpm_env \<Rightarrow> string \<Rightarrow> runtime_task \<Rightarrow> pydict ctl" where
  "scheduler_task_desc env cid runtime =
     bindM (getM (\<lambda>s. c_info (circuit_object cid s))) (\<lambda>info.
     bindM (liftM (payload_bytes (gunzip env) info)) (\<lambda>payload.
     bindM (canonicalize_external_id ''reservation_id'' (opt_int (rt_reservation_id runtime))) (\<lambda>rid.
       let ids = rt_canonical_ids runtime
       in retM
         [(''task_id'', PInt (rt_qtask_id runtime)),
          (''owner_id'', pgetd ids ''owner_id'' (PInt 0)),
          (''job_id'', pgetd ids ''job_id'' (pgetd ids ''allocation_id'' (PInt 0))),
          (''reservation_id'', PInt rid),
          (''priority'', pgetd info ''priority'' (PInt 0)),
          (''deadline_ns'', pgetd info ''deadline_ns'' (PInt 0)),
          (''estimated_runtime_ns'', declared_ns info),
          (''estimated_cost'', pgetd info ''estimated_cost'' (pgetd info ''credits'' (PInt 0))),
          (''payload'', opt_str payload),
          (''metadata'', PDict
             [(''100'', pgetd info ''num_shots'' (pgetd info ''shots'' (PInt 1))),
              (''101'', pgetd info ''num_qubits'' (PInt 1)),
              (''102'', pgetd info ''depth'' (PInt 1)),
              (''103'', pgetd info ''two_q_gate_count'' (PInt 0))])])))"

section \<open>Settlement\<close>

text \<open>The first key present wins within a source; a source whose value is None is passed over.\<close>

definition observed_in :: "pydict \<Rightarrow> pyval" where
  "observed_in source =
     (case map_of source ''actual_ns'' of
        Some v \<Rightarrow> v
      | None \<Rightarrow> (case map_of source ''observed_device_ns'' of Some v \<Rightarrow> v | None \<Rightarrow> PNone))"

definition observed_device_ns :: "circuit option \<Rightarrow> pydict \<Rightarrow> pyval" where
  "observed_device_ns circuit usage =
     (let info = (case circuit of Some c \<Rightarrow> c_info c | None \<Rightarrow> [])
      in if observed_in info \<noteq> PNone then observed_in info
         else if observed_in usage \<noteq> PNone then observed_in usage
         else case circuit of
                None \<Rightarrow> PInt 0
              | Some c \<Rightarrow> if exec_time c \<ge> 0 \<and> completion_time c \<ge> 0 then PInt (completion_time c - exec_time c)
                          else if completion_time c \<ge> 0 then pgetd usage ''estimated_ns'' (PInt 0)
                          else PInt 0)"

definition actual_capacity_value :: "circuit option \<Rightarrow> pydict \<Rightarrow> string \<Rightarrow> pyval" where
  "actual_capacity_value circuit usage field =
     (let info = (case circuit of Some c \<Rightarrow> c_info c | None \<Rightarrow> []);
          found = filter (\<lambda>x. x \<noteq> None)
            [map_of info (''actual_'' @ field), map_of usage (''actual_'' @ field),
             map_of info (''observed_'' @ field), map_of usage (''observed_'' @ field)]
      in case found of
           Some v # _ \<Rightarrow> v
         | _ \<Rightarrow> (case circuit of
                   Some c \<Rightarrow> if completion_time c \<ge> 0 then pgetd usage field (PInt 0) else PInt 0
                 | None \<Rightarrow> PInt 0))"

definition actual_usage :: "circuit option \<Rightarrow> runtime_task option \<Rightarrow> pydict \<Rightarrow> int \<Rightarrow> pydict" where
  "actual_usage circuit runtime usage qtask_id =
     [(''task_id'', if qtask_id \<noteq> 0 then PInt qtask_id
                    else case runtime of Some r \<Rightarrow> PInt (rt_qtask_id r) | None \<Rightarrow> pgetd usage ''task_id'' (PInt 0)),
      (''observed_device_ns'', observed_device_ns circuit usage)] @
     map (\<lambda>field. (''actual_'' @ field, actual_capacity_value circuit usage field))
       [''baseline_units'', ''credits'', ''rate_units'']"

definition usage_fields :: "(string \<times> string) list" where
  "usage_fields =
     [(''estimated_ns'', ''observed_device_ns''), (''baseline_units'', ''actual_baseline_units''),
      (''credits'', ''actual_credits''), (''rate_units'', ''actual_rate_units'')]"

fun unused_fields :: "pydict \<Rightarrow> pydict \<Rightarrow> (string \<times> string) list \<Rightarrow> pydict \<Rightarrow> exc + pydict" where
  "unused_fields usage actual [] unused = Inr unused"
| "unused_fields usage actual ((field, actual_field) # rest) unused =
     (case py_number (py_or (pgetd usage field (PInt 0)) (PInt 0)) of
        Inl e \<Rightarrow> Inl e
      | Inr estimated \<Rightarrow>
          (case py_number (py_or (pgetd actual actual_field (PInt 0)) (PInt 0)) of
             Inl e \<Rightarrow> Inl e
           | Inr actual_value \<Rightarrow>
               unused_fields usage actual rest (dset field (PInt (max 0 (estimated - actual_value))) unused)))"

definition unused_usage :: "pydict \<Rightarrow> pydict \<Rightarrow> exc + pydict" where
  "unused_usage usage actual =
     (case unused_fields usage actual usage_fields usage of
        Inl e \<Rightarrow> Inl e | Inr unused \<Rightarrow> Inr (dset ''actual_ns'' (PInt 0) unused))"

definition finalize_capacity_hold ::
  "qpm_env \<Rightarrow> int \<Rightarrow> int \<Rightarrow> pydict \<Rightarrow> runtime_task option \<Rightarrow> circuit option \<Rightarrow> unit ctl" where
  "finalize_capacity_hold env qtask_id reservation_id usage runtime circuit =
     (let actual = actual_usage circuit runtime usage qtask_id
      in bindM (liftM (unused_usage usage actual)) (\<lambda>unused.
           seqM (return_usage env reservation_id unused)
             (seqM (record_actual env reservation_id actual) (retM ()))))"

definition pop_usage_event :: "int \<Rightarrow> controller \<Rightarrow> controller" where
  "pop_usage_event qtask_id s = s\<lparr>usage_events_by_qtask_id := dpop qtask_id (usage_events_by_qtask_id s)\<rparr>"

definition pop_hold :: "int \<Rightarrow> controller \<Rightarrow> controller" where
  "pop_hold qtask_id s = s\<lparr>capacity_holds := dpop qtask_id (capacity_holds s)\<rparr>"

definition reconcile_task_hold :: "qpm_env \<Rightarrow> runtime_task \<Rightarrow> circuit option \<Rightarrow> unit ctl" where
  "reconcile_task_hold env runtime circuit =
     bindM (getM (\<lambda>s. map_of (capacity_holds s) (rt_qtask_id runtime))) (\<lambda>hold.
       case hold of
         None \<Rightarrow> retM ()
       | Some h \<Rightarrow>
           seqM (modM (pop_hold (rt_qtask_id runtime)))
             (seqM (finalize_capacity_hold env (rt_qtask_id runtime) (ch_reservation_id h) (ch_usage h)
                      (Some runtime) circuit)
               (modM (pop_usage_event (rt_qtask_id runtime)))))"

section \<open>Dispatch limits\<close>

definition limit_int :: "pyval \<Rightarrow> exc + int" where
  "limit_int v = (case py_int (py_or v (PInt 0)) of Inl e \<Rightarrow> Inl e | Inr n \<Rightarrow> Inr (max 0 n))"

definition device_limit :: "controller \<Rightarrow> exc + int" where
  "device_limit s =
     (case device_profile s of
        None \<Rightarrow> Inr 0
      | Some profile \<Rightarrow> limit_int (pgetd profile ''max_provider_queue_depth'' (PInt 0)))"

definition operator_limit :: "controller \<Rightarrow> int" where
  "operator_limit s = max 0 (dispatch_depth (scheduler_control s))"

definition smallest_limit :: "int list \<Rightarrow> int" where
  "smallest_limit limits =
     (case filter (\<lambda>v. v \<noteq> 0) limits of [] \<Rightarrow> 0 | v # vs \<Rightarrow> foldl min v vs)"

definition effective_dispatch_limit :: "int ctl" where
  "effective_dispatch_limit =
     bindM (getM operator_limit) (\<lambda>op. bindM (getM device_limit) (\<lambda>dev. bindM (liftM dev) (\<lambda>d.
       retM (smallest_limit [op, d]))))"

definition can_select_scheduler_task :: "bool ctl" where
  "can_select_scheduler_task =
     bindM (getM scheduler_control) (\<lambda>control.
       if paused control \<or> draining control then retM False
       else bindM effective_dispatch_limit (\<lambda>limit.
              bindM (getM provider_inflight) (\<lambda>inflight.
                retM (limit = 0 \<or> int (length inflight) < limit))))"

definition dispatch_limits :: "pydict ctl" where
  "dispatch_limits =
     bindM (getM device_limit) (\<lambda>dev. bindM (liftM dev) (\<lambda>d.
     bindM (getM operator_limit) (\<lambda>op. bindM effective_dispatch_limit (\<lambda>eff.
     bindM (getM provider_inflight) (\<lambda>inflight.
       retM [(''max_inflight'', PInt op), (''max_provider_queue_depth'', PInt d),
             (''effective_max_inflight'', PInt eff), (''provider_inflight'', PInt (int (length inflight)))])))))"

section \<open>Lemmas\<close>

text \<open>A usage value as the settlement reads it.\<close>

definition usage_amount :: "pydict \<Rightarrow> string \<Rightarrow> int" where
  "usage_amount usage field = (case py_number (py_or (pgetd usage field (PInt 0)) (PInt 0)) of Inr n \<Rightarrow> n | Inl e \<Rightarrow> 0)"

lemma unused_fields_spec:
  assumes "unused_fields usage actual fs unused = Inr u" "distinct (map fst fs)"
  shows "\<forall>(f, a) \<in> set fs. pget u f = PInt (max 0 (usage_amount usage f - usage_amount actual a))"
    and "\<forall>k. k \<notin> fst ` set fs \<longrightarrow> pget u k = pget unused k"
proof -
  have "(\<forall>(f, a) \<in> set fs. pget u f = PInt (max 0 (usage_amount usage f - usage_amount actual a))) \<and>
      (\<forall>k. k \<notin> fst ` set fs \<longrightarrow> pget u k = pget unused k)"
    using assms
  proof (induction usage actual fs unused rule: unused_fields.induct)
    case (2 usage actual field actual_field rest unused)
    from "2.prems" obtain e a where ea: "py_number (py_or (pgetd usage field (PInt 0)) (PInt 0)) = Inr e"
      "py_number (py_or (pgetd actual actual_field (PInt 0)) (PInt 0)) = Inr a"
      "unused_fields usage actual rest (dset field (PInt (max 0 (e - a))) unused) = Inr u"
      by (auto split: sum.splits)
    have fresh: "field \<notin> fst ` set rest" using "2.prems"(2) by simp
    from "2.IH" [OF ea(1,2,3)] "2.prems"(2)
    have IH: "\<forall>(f, a) \<in> set rest. pget u f = PInt (max 0 (usage_amount usage f - usage_amount actual a))"
      "\<forall>k. k \<notin> fst ` set rest \<longrightarrow> pget u k = pget (dset field (PInt (max 0 (e - a))) unused) k" by auto
    from IH(2) fresh have "pget u field = PInt (max 0 (e - a))" by simp
    with IH ea(1,2) show ?case by (auto simp: usage_amount_def)
  qed simp
  then show "\<forall>(f, a) \<in> set fs. pget u f = PInt (max 0 (usage_amount usage f - usage_amount actual a))"
    "\<forall>k. k \<notin> fst ` set fs \<longrightarrow> pget u k = pget unused k" by blast+
qed

lemma smallest_limit_pos: "smallest_limit [a, b] = 0 \<longleftrightarrow> a = 0 \<and> b = 0" if "0 \<le> a" "0 \<le> b"
  using that by (auto simp: smallest_limit_def min_def)

lemma smallest_limit_le: "a \<noteq> 0 \<Longrightarrow> smallest_limit [a, b] \<le> a" "b \<noteq> 0 \<Longrightarrow> smallest_limit [a, b] \<le> b"
  by (auto simp: smallest_limit_def)

text \<open>
  The usage returned when a hold is settled is, field by field, what was estimated less what
  was used, never negative, and every field outside the four amounts is the estimate's own.
\<close>

lemma unused_usage_amounts:
  assumes "unused_usage usage actual = Inr u"
  shows "pget u ''estimated_ns'' = PInt (max 0 (usage_amount usage ''estimated_ns'' - usage_amount actual ''observed_device_ns'')) \<and>
    pget u ''baseline_units'' = PInt (max 0 (usage_amount usage ''baseline_units'' - usage_amount actual ''actual_baseline_units'')) \<and>
    pget u ''credits'' = PInt (max 0 (usage_amount usage ''credits'' - usage_amount actual ''actual_credits'')) \<and>
    pget u ''rate_units'' = PInt (max 0 (usage_amount usage ''rate_units'' - usage_amount actual ''actual_rate_units'')) \<and>
    pget u ''actual_ns'' = PInt 0 \<and> pget u ''task_id'' = pget usage ''task_id''"
proof -
  from assms obtain v where v: "unused_fields usage actual usage_fields usage = Inr v"
    "u = dset ''actual_ns'' (PInt 0) v" by (auto simp: unused_usage_def split: sum.splits)
  have "distinct (map fst usage_fields)" by (simp add: usage_fields_def)
  note spec = unused_fields_spec [OF v(1) this]
  show ?thesis using spec v(2) by (simp add: usage_fields_def)
qed

end
