(* ===== verification/QPM_Tasks.thy ===== *)
theory QPM_Tasks
  imports QPM_Usage
begin

text \<open>
  The life of a task in the controller: registration, admission of its usage, submission to the
  scheduler, selection by a dispatching thread, start of the provider, and the three ways it
  ends, with the removal of everything the tables hold of it. The methods that take a circuit
  object take its \<open>cid\<close> here. The identity test of \<^verbatim>\<open>authorize_capacity_hold\<close>, which asks whether
  the task looked up before the lock was taken is still the one in the table, is the test that
  the table still holds the identifier: an identifier is given to one task only.
\<close>

section \<open>Registration\<close>

definition reservation_metadata :: "pydict \<Rightarrow> controller \<Rightarrow> pydict" where
  "reservation_metadata reservation s =
     (let stored = (case pget reservation ''reservation_id'' of
                      PInt rid \<Rightarrow> (case map_of (reservation_metadata_by_id s) rid of Some d \<Rightarrow> PDict d | None \<Rightarrow> PNone)
                    | _ \<Rightarrow> PNone)
      in foldl (\<lambda>metadata source. case source of PDict d \<Rightarrow> dupdate metadata d | _ \<Rightarrow> metadata) []
           [pget reservation ''metadata'', pget reservation ''request_metadata'', stored])"

definition reservation_metadata_for_id :: "qpm_env \<Rightarrow> int option \<Rightarrow> pydict ctl" where
  "reservation_metadata_for_id env reservation_id =
     (case reservation_id of
        None \<Rightarrow> retM []
      | Some rid \<Rightarrow> bindM (getM (\<lambda>s. map_of (reservation_metadata_by_id s) rid)) (\<lambda>known.
          case known of
            Some metadata \<Rightarrow> retM metadata
          | None \<Rightarrow> bindM (get_reservation env rid) (\<lambda>reservation. getM (reservation_metadata reservation))))"

definition allocate_qtask_id :: "int ctl" where
  "allocate_qtask_id = (\<lambda>s. (Inr (qtask_id_next s), s\<lparr>qtask_id_next := qtask_id_next s + 1\<rparr>))"

definition add_to_reservation :: "int \<Rightarrow> int \<Rightarrow> (int \<times> int list) list \<Rightarrow> (int \<times> int list) list" where
  "add_to_reservation rid qtask_id table =
     dset rid (List.insert qtask_id (case map_of table rid of Some ids \<Rightarrow> ids | None \<Rightarrow> [])) table"

text \<open>The assignments that put a new task into the tables.\<close>

definition enter_task :: "runtime_task \<Rightarrow> controller \<Rightarrow> controller" where
  "enter_task runtime s =
     (let s = s\<lparr>terminal_tasks_by_cid := dpop (rt_cid runtime) (terminal_tasks_by_cid s),
                runtime_by_cid := dset (rt_cid runtime) (rt_qtask_id runtime) (runtime_by_cid s),
                runtime_by_qtask_id := dset (rt_qtask_id runtime) runtime (runtime_by_qtask_id s)\<rparr>
      in case rt_reservation_id runtime of
           None \<Rightarrow> s
         | Some rid \<Rightarrow> (let s = ensure_completion_queue rid s
                        in s\<lparr>qtask_ids_by_reservation :=
                               add_to_reservation rid (rt_qtask_id runtime) (qtask_ids_by_reservation s)\<rparr>))"

definition runtime_for ::
  "string \<Rightarrow> int \<Rightarrow> request_context \<Rightarrow> pydict \<Rightarrow> pydict \<times> pydict \<Rightarrow> runtime_task" where
  "runtime_for cid qtask_id context metadata ids =
     (new_runtime cid qtask_id (rc_reservation_id context))
       \<lparr>rt_token_metadata := token_metadata (rc_token context),
        rt_owner_metadata := (case pgetd metadata ''owner'' (PDict []) of PDict d \<Rightarrow> d | _ \<Rightarrow> []),
        rt_request_metadata := metadata, rt_external_ids := fst ids, rt_canonical_ids := snd ids\<rparr>"

definition register_circuit ::
  "qpm_env \<Rightarrow> string \<Rightarrow> request_context \<Rightarrow> pydict \<Rightarrow> (runtime_task \<times> pydict) ctl" where
  "register_circuit env cid context payload =
     bindM allocate_qtask_id (\<lambda>qtask_id.
     bindM (reservation_metadata_for_id env (rc_reservation_id context)) (\<lambda>reservation_metadata.
     let metadata = request_metadata reservation_metadata (rc_metadata context)
     in bindM (canonicalize_reservation_metadata metadata) (\<lambda>ids.
        let runtime = runtime_for cid qtask_id context metadata ids
        in seqM (modM (enter_task runtime))
             (retM (runtime, dset ''qtask_id'' (PInt qtask_id) payload)))))"

section \<open>Small updates\<close>

definition set_task_state :: "int \<Rightarrow> task_state \<Rightarrow> runtime_task option ctl" where
  "set_task_state qtask_id state =
     seqM (modM (set_runtime_state qtask_id state)) (getM (task_for_qtask_id qtask_id))"

definition note_provider_handle :: "int \<Rightarrow> string \<Rightarrow> controller \<Rightarrow> controller" where
  "note_provider_handle qtask_id handle s =
     (let s = upd_runtime qtask_id (\<lambda>r. r\<lparr>rt_provider_handle := Some handle\<rparr>) s
      in s\<lparr>qtask_id_by_provider_handle := dset handle qtask_id (qtask_id_by_provider_handle s)\<rparr>)"

definition bind_provider_handle :: "int \<Rightarrow> string \<Rightarrow> runtime_task option ctl" where
  "bind_provider_handle qtask_id handle =
     bindM (getM (task_for_qtask_id qtask_id)) (\<lambda>found.
       case found of
         None \<Rightarrow> retM None
       | Some r \<Rightarrow> seqM (modM (note_provider_handle qtask_id handle)) (getM (task_for_qtask_id qtask_id)))"

definition note_usage_event :: "int \<Rightarrow> int \<Rightarrow> controller \<Rightarrow> controller" where
  "note_usage_event qtask_id event s =
     (let s = upd_runtime qtask_id (\<lambda>r. r\<lparr>rt_usage_event_id := Some event\<rparr>) s
      in s\<lparr>usage_events_by_qtask_id := dset qtask_id event (usage_events_by_qtask_id s)\<rparr>)"

definition record_usage_event :: "int \<Rightarrow> int \<Rightarrow> unit ctl" where
  "record_usage_event qtask_id event =
     bindM (getM (task_for_qtask_id qtask_id)) (\<lambda>found.
       case found of
         None \<Rightarrow> raiseM (KeyError (int_text qtask_id))
       | Some r \<Rightarrow> modM (note_usage_event qtask_id event))"

definition record_timeout :: "qpm_env \<Rightarrow> int \<Rightarrow> pyval \<Rightarrow> pyval \<Rightarrow> runtime_task option ctl" where
  "record_timeout env qtask_id reason message =
     bindM (getM (task_for_qtask_id qtask_id)) (\<lambda>found.
       case found of
         None \<Rightarrow> retM None
       | Some r \<Rightarrow> bindM (time_ns env) (\<lambda>now.
           seqM (modM (\<lambda>s. s\<lparr>timeout_state := dset qtask_id
                  [(''reason'', reason), (''message'', message), (''timestamp_ns'', PInt now)] (timeout_state s)\<rparr>))
             (retM (Some r))))"

section \<open>Admission of usage\<close>

definition not_active :: "int \<Rightarrow> exc" where
  "not_active qtask_id = QPMTaskNotActive (''qtask is no longer active: qtask_id='' @ int_text qtask_id)"

definition hold_capacity :: "int \<Rightarrow> int \<Rightarrow> pydict \<Rightarrow> pydict \<Rightarrow> controller \<Rightarrow> controller" where
  "hold_capacity qtask_id rid usage decision s =
     s\<lparr>capacity_holds := dset qtask_id
         \<lparr>ch_reservation_id = rid, ch_usage = usage, ch_decision = decision\<rparr> (capacity_holds s)\<rparr>"

definition pend_capacity :: "int \<Rightarrow> int \<Rightarrow> string \<Rightarrow> pydict \<Rightarrow> pydict \<Rightarrow> controller \<Rightarrow> controller" where
  "pend_capacity qtask_id rid cid usage decision s =
     s\<lparr>pending_capacity := dset qtask_id
         \<lparr>pe_reservation_id = Some rid, pe_cid = cid, pe_usage = usage, pe_decision = decision\<rparr>
         (pending_capacity s)\<rparr>"

definition decision_text :: "string \<Rightarrow> pydict \<Rightarrow> string" where
  "decision_text lead decision =
     lead @ '': status='' @ py_str (pget decision ''status'') @ '' reason='' @ py_str (pget decision ''reason'')"

text \<open>The part that runs under the lock, for the task \<open>qtask_id\<close> of reservation \<open>rid\<close>.\<close>

definition authorize_locked :: "qpm_env \<Rightarrow> int \<Rightarrow> int \<Rightarrow> string \<Rightarrow> pydict \<Rightarrow> pydict ctl" where
  "authorize_locked env qtask_id rid cid usage =
     bindM (getM (task_for_qtask_id qtask_id)) (\<lambda>current.
       if task_ended current then raiseM (not_active qtask_id)
       else bindM (authorize_usage env rid usage) (\<lambda>authorized.
         if pget authorized ''status'' = PStr ''accepted''
         then bindM (consume_usage env rid usage) (\<lambda>committed.
                if pget committed ''status'' \<noteq> PStr ''accepted''
                then seqM (modM (set_runtime_state qtask_id QPM_TASK_FAILED))
                       (raiseM (QPMAdmissionValidationError (decision_text ''admission commit failure'' committed)))
                else seqM (modM (hold_capacity qtask_id rid usage committed))
                       (seqM (record_usage_event qtask_id qtask_id)
                         (seqM (modM (set_runtime_state qtask_id QPM_TASK_CAPACITY_HELD)) (retM committed))))
         else if pget authorized ''status'' = PStr ''delayed''
         then seqM (modM (pend_capacity qtask_id rid cid usage authorized))
                (seqM (modM (set_runtime_state qtask_id QPM_TASK_PENDING_CAPACITY))
                  (raiseM (QPMAdmissionPendingCapacity (''admission usage delayed: reservation_id='' @ int_text rid @
                     '' qtask_id='' @ int_text qtask_id))))
         else seqM (modM (set_runtime_state qtask_id QPM_TASK_FAILED))
                (raiseM (QPMAdmissionValidationError (decision_text ''admission usage rejected'' authorized)))))"

definition authorize_capacity_hold :: "qpm_env \<Rightarrow> string \<Rightarrow> pydict ctl" where
  "authorize_capacity_hold env cid =
     bindM (circuit_qtask_id cid) (\<lambda>qtask_id.
     bindM (getM (task_for_qtask_id qtask_id)) (\<lambda>found.
       let missing = raiseM (QPMAdmissionValidationError ''reservation-scoped qtask is missing reservation state'')
       in case found of
            None \<Rightarrow> missing
          | Some runtime \<Rightarrow>
              (case rt_reservation_id runtime of
                 None \<Rightarrow> missing
               | Some rid \<Rightarrow> bindM (estimated_usage env cid runtime)
                                (authorize_locked env qtask_id rid (rt_cid runtime)))))"

section \<open>Ending a task\<close>

definition end_scheduler_task :: "qpm_env \<Rightarrow> pyval \<Rightarrow> (pyval \<Rightarrow> unit ctl) \<Rightarrow> unit ctl" where
  "end_scheduler_task env scheduler_task_id mark =
     tryM (mark scheduler_task_id) (\<lambda>error.
       bindM (tryM (scheduler_task_state_name env scheduler_task_id) (\<lambda>_. retM PNone)) (\<lambda>state.
         if state \<in> set SCHEDULER_TASK_ENDED_STATES then retM () else raiseM error))"

text \<open>The removals common to completion and failure.\<close>

definition clear_dispatch :: "int \<Rightarrow> controller \<Rightarrow> controller" where
  "clear_dispatch qtask_id s =
     s\<lparr>provider_inflight := removeAll qtask_id (provider_inflight s),
       selected_qtask_ids := removeAll qtask_id (selected_qtask_ids s),
       dispatching_qtask_ids := dpop qtask_id (dispatching_qtask_ids s),
       timeout_state := dpop qtask_id (timeout_state s)\<rparr>"

definition store_result :: "int \<Rightarrow> pyval \<Rightarrow> controller \<Rightarrow> controller" where
  "store_result qtask_id result s = s\<lparr>result_state := dset qtask_id result (result_state s)\<rparr>"

definition settle_task ::
  "qpm_env \<Rightarrow> string \<Rightarrow> runtime_task \<Rightarrow> (pyval \<Rightarrow> unit ctl) \<Rightarrow> task_state \<Rightarrow> (controller \<Rightarrow> controller) \<Rightarrow> unit ctl" where
  "settle_task env cid runtime mark final note =
     bindM (getM (circuit_object cid)) (\<lambda>circuit.
     seqM (reconcile_task_hold env runtime (Some circuit))
       (seqM (if rt_scheduler_task_id runtime \<noteq> PNone
              then end_scheduler_task env (rt_scheduler_task_id runtime) mark else retM ())
         (modM (\<lambda>s. note (set_runtime_state (rt_qtask_id runtime) final (clear_dispatch (rt_qtask_id runtime) s))))))"

definition complete_scheduled_task :: "qpm_env \<Rightarrow> string \<Rightarrow> pyval \<Rightarrow> runtime_task option ctl" where
  "complete_scheduled_task env cid result =
     bindM (circuit_qtask_id cid) (\<lambda>qtask_id.
     bindM (getM (task_for_qtask_id qtask_id)) (\<lambda>found.
       case found of
         None \<Rightarrow> retM None
       | Some runtime \<Rightarrow>
           if terminal_state (rt_state runtime) then retM (Some runtime)
           else seqM (settle_task env cid runtime (mark_scheduler_task_completed env) QPM_TASK_COMPLETED
                        (store_result qtask_id result))
                  (getM (task_for_qtask_id qtask_id))))"

text \<open>\<open>error\<close> is the text and the type name of an error object.\<close>

definition fail_scheduled_task_locked ::
  "qpm_env \<Rightarrow> string \<Rightarrow> (string \<times> string) option \<Rightarrow> pyval \<Rightarrow> bool
    \<Rightarrow> (runtime_task option \<times> completion_delivery list) ctl" where
  "fail_scheduled_task_locked env cid error reason deliver =
     bindM (circuit_qtask_id cid) (\<lambda>qtask_id.
     bindM (getM (task_for_qtask_id qtask_id)) (\<lambda>found.
       case found of
         None \<Rightarrow> retM (None, [])
       | Some runtime \<Rightarrow>
           if rt_state runtime \<in> set [QPM_TASK_FAILED, QPM_TASK_CANCELLED, QPM_TASK_COMPLETED]
           then retM (Some runtime, [])
           else seqM (settle_task env cid runtime (mark_scheduler_task_failed env) QPM_TASK_FAILED
                        (\<lambda>s. case error of
                               None \<Rightarrow> s
                             | Some (text, type_name) \<Rightarrow> store_result qtask_id (PDict [(''reason'', reason),
                                 (''error'', PStr text), (''error_type'', PStr type_name)]) s))
                  (bindM (getM (task_for_qtask_id qtask_id)) (\<lambda>now_failed.
                   case now_failed of
                     None \<Rightarrow> retM (None, [])
                   | Some r \<Rightarrow>
                       if \<not> deliver then retM (Some r, [])
                       else bindM (task_status env r (PStr ''FAILED'') reason PNone PNone) (\<lambda>status.
                            bindM (terminal_completion_delivery env r (Some status)) (\<lambda>delivery.
                              retM (Some r, case delivery of Some d \<Rightarrow> [d] | None \<Rightarrow> [])))))))"

definition fail_scheduled_task ::
  "qpm_env \<Rightarrow> string \<Rightarrow> (string \<times> string) option \<Rightarrow> pyval \<Rightarrow> bool \<Rightarrow> runtime_task option ctl" where
  "fail_scheduled_task env cid error reason publish =
     bindM (fail_scheduled_task_locked env cid error reason publish) (\<lambda>(runtime, deliveries).
       seqM (if publish then seqM (dispatch_completion_deliveries env deliveries) (retM ()) else retM ())
         (retM runtime))"

section \<open>Scheduling\<close>

definition note_scheduler_task :: "int \<Rightarrow> pyval \<Rightarrow> controller \<Rightarrow> controller" where
  "note_scheduler_task qtask_id scheduler_task_id s =
     (let s = upd_runtime qtask_id (\<lambda>r. r\<lparr>rt_scheduler_task_id := scheduler_task_id\<rparr>) s;
          s = s\<lparr>qtask_id_by_scheduler_task_id :=
                  dset scheduler_task_id qtask_id (qtask_id_by_scheduler_task_id s)\<rparr>
      in set_runtime_state qtask_id QPM_TASK_QUEUED s)"

text \<open>The submission itself, with the failure of the task when it raises, and what follows the lock.\<close>

definition submit_attempt ::
  "qpm_env \<Rightarrow> string \<Rightarrow> runtime_task \<Rightarrow> ((exc \<times> completion_delivery list) + pyval) ctl" where
  "submit_attempt env cid runtime =
     tryM (bindM (bindM (scheduler_task_desc env cid runtime) (submit_scheduler_task env))
             (\<lambda>scheduler_task_id. retM (Inr scheduler_task_id)))
       (\<lambda>error. bindM (fail_scheduled_task_locked env cid (Some (exc_text error, exc_type_name error))
                        (PStr ''scheduler-submission-failed'') True)
                 (\<lambda>result. retM (Inl (error, snd result))))"

definition submit_finish ::
  "qpm_env \<Rightarrow> int \<Rightarrow> (exc \<times> completion_delivery list) + pyval \<Rightarrow> runtime_task option ctl" where
  "submit_finish env qtask_id outcome =
     (case outcome of
        Inr scheduler_task_id \<Rightarrow>
          seqM (modM (note_scheduler_task qtask_id scheduler_task_id)) (getM (task_for_qtask_id qtask_id))
      | Inl failure \<Rightarrow>
          seqM (dispatch_completion_deliveries env (snd failure))
            (raiseM (QPMSchedulerError (''scheduler task submission failed: qtask_id='' @
               int_text qtask_id @ '' error='' @ exc_text (fst failure)))))"

definition submit_qtask_to_scheduler :: "qpm_env \<Rightarrow> string \<Rightarrow> runtime_task option ctl" where
  "submit_qtask_to_scheduler env cid =
     bindM (circuit_qtask_id cid) (\<lambda>qtask_id.
     bindM (getM id) (\<lambda>s.
       case task_for_qtask_id qtask_id s of
         None \<Rightarrow> raiseM (not_active qtask_id)
       | Some runtime \<Rightarrow>
           if rt_scheduler_task_id runtime \<noteq> PNone then retM (Some runtime)
           else if \<not> has_key (capacity_holds s) qtask_id
           then raiseM (QPMAdmissionValidationError
                  ''scheduler submission requires an active admission capacity hold'')
           else bindM (submit_attempt env cid runtime) (submit_finish env qtask_id)))"

text \<open>
  The scan of the selected tasks by the thread \<open>me\<close>: tasks that have ended are dropped, a task
  another thread dispatches is passed over.
\<close>

fun scan_selected :: "int \<Rightarrow> int list \<Rightarrow> bool \<Rightarrow> controller \<Rightarrow> (int option \<times> bool) \<times> controller" where
  "scan_selected me [] busy s = ((None, busy), s)"
| "scan_selected me (qtask_id # rest) busy s =
     (if task_ended (task_for_qtask_id qtask_id s)
      then scan_selected me rest busy
             (s\<lparr>selected_qtask_ids := removeAll qtask_id (selected_qtask_ids s),
                dispatching_qtask_ids := dpop qtask_id (dispatching_qtask_ids s)\<rparr>)
      else case map_of (dispatching_qtask_ids s) qtask_id of
             Some holder \<Rightarrow> if holder \<noteq> me then scan_selected me rest True s else ((Some qtask_id, busy), s)
           | None \<Rightarrow> ((Some qtask_id, busy), s))"

definition selected_runtime :: "int \<Rightarrow> (int option \<times> bool) ctl" where
  "selected_runtime me = (\<lambda>s. case scan_selected me (sort (selected_qtask_ids s)) False s of (r, t) \<Rightarrow> (Inr r, t))"

definition mark_selected :: "int \<Rightarrow> controller \<Rightarrow> controller" where
  "mark_selected qtask_id s =
     set_runtime_state qtask_id QPM_TASK_SELECTED
       (s\<lparr>selected_qtask_ids := List.insert qtask_id (selected_qtask_ids s)\<rparr>)"

definition select_scheduler_task :: "qpm_env \<Rightarrow> int option ctl" where
  "select_scheduler_task env =
     bindM can_select_scheduler_task (\<lambda>can.
       if \<not> can then retM None
       else bindM (tryM (bindM (select_next_scheduler_task env) (\<lambda>a. retM (Some a)))
                    (\<lambda>error. case error of QPMSchedulerQueueEmpty m \<Rightarrow> retM None | _ \<Rightarrow> raiseM error))
         (\<lambda>assignment. case assignment of
            None \<Rightarrow> retM None
          | Some a \<Rightarrow>
              (case map_of a ''task_id'' of
                 None \<Rightarrow> raiseM (KeyError ''task_id'')
               | Some scheduler_task_id \<Rightarrow>
                   bindM (getM (task_for_scheduler_task_id scheduler_task_id)) (\<lambda>found.
                     case found of
                       None \<Rightarrow> raiseM (QPMAdmissionValidationError
                         (''selected scheduler task is not known to QPM: scheduler_task_id='' @ py_str scheduler_task_id))
                     | Some runtime \<Rightarrow>
                         seqM (modM (mark_selected (rt_qtask_id runtime))) (retM (Some (rt_qtask_id runtime)))))))"

definition claim_dispatch :: "int \<Rightarrow> int \<Rightarrow> controller \<Rightarrow> controller" where
  "claim_dispatch me qtask_id s =
     s\<lparr>dispatching_qtask_ids := dset qtask_id me (dispatching_qtask_ids s)\<rparr>"

definition select_qtask_for_dispatch :: "qpm_env \<Rightarrow> int \<Rightarrow> int option ctl" where
  "select_qtask_for_dispatch env me =
     bindM (selected_runtime me) (\<lambda>(runtime, busy).
     bindM (if runtime = None \<and> \<not> busy then select_scheduler_task env else retM runtime) (\<lambda>runtime.
       case runtime of
         None \<Rightarrow> retM None
       | Some qtask_id \<Rightarrow> seqM (modM (claim_dispatch me qtask_id)) (retM (Some qtask_id))))"

definition release_dispatch_claim :: "int \<Rightarrow> controller \<Rightarrow> controller" where
  "release_dispatch_claim qtask_id s =
     s\<lparr>dispatching_qtask_ids := dpop qtask_id (dispatching_qtask_ids s)\<rparr>"

definition enter_flight :: "int \<Rightarrow> string option \<Rightarrow> controller \<Rightarrow> controller" where
  "enter_flight qtask_id handle s =
     (let s = release_dispatch_claim qtask_id s;
          s = s\<lparr>selected_qtask_ids := removeAll qtask_id (selected_qtask_ids s),
                provider_inflight := List.insert qtask_id (provider_inflight s)\<rparr>;
          s = (case handle of Some h \<Rightarrow> note_provider_handle qtask_id h s | None \<Rightarrow> s)
      in set_runtime_state qtask_id QPM_TASK_SUBMITTED s)"

definition start_provider_submission :: "qpm_env \<Rightarrow> string \<Rightarrow> string option \<Rightarrow> runtime_task option ctl" where
  "start_provider_submission env cid handle =
     bindM (circuit_qtask_id cid) (\<lambda>qtask_id.
     bindM (getM (task_for_qtask_id qtask_id)) (\<lambda>found.
       if task_ended found
       then seqM (modM (release_dispatch_claim qtask_id)) (raiseM (not_active qtask_id))
       else bindM (getM provider_inflight) (\<lambda>inflight.
         if qtask_id \<in> set inflight \<or> rt_state (the found) = QPM_TASK_SUBMITTED
         then seqM (modM (release_dispatch_claim qtask_id)) (retM None)
         else seqM (if rt_scheduler_task_id (the found) \<noteq> PNone
                    then mark_scheduler_task_started env (rt_scheduler_task_id (the found)) else retM ())
                (seqM (modM (enter_flight qtask_id handle)) (getM (task_for_qtask_id qtask_id))))))"

section \<open>Retiring a task\<close>

text \<open>The snapshot copies every field, so it is the task itself.\<close>

definition retain_terminal_task :: "runtime_task \<Rightarrow> controller \<Rightarrow> controller" where
  "retain_terminal_task runtime s =
     s\<lparr>terminal_tasks_by_cid := dset (rt_cid runtime) runtime (terminal_tasks_by_cid s),
       terminal_tasks_by_qtask_id := dset (rt_qtask_id runtime) runtime (terminal_tasks_by_qtask_id s)\<rparr>"

definition remove_from_reservation :: "int option \<Rightarrow> int \<Rightarrow> (int \<times> int list) list \<Rightarrow> (int \<times> int list) list" where
  "remove_from_reservation reservation_id qtask_id table =
     (case reservation_id of
        None \<Rightarrow> table
      | Some rid \<Rightarrow>
          (case map_of table rid of
             None \<Rightarrow> table
           | Some ids \<Rightarrow> (let ids' = removeAll qtask_id ids
                          in if ids' = [] then dpop rid table else dset rid ids' table)))"

definition forget_task :: "int \<Rightarrow> runtime_task \<Rightarrow> controller \<Rightarrow> controller" where
  "forget_task qtask_id runtime s =
     (let s = retain_terminal_task runtime (s\<lparr>runtime_by_qtask_id := dpop qtask_id (runtime_by_qtask_id s)\<rparr>);
          s = s\<lparr>runtime_by_cid := dpop (rt_cid runtime) (runtime_by_cid s),
                qtask_ids_by_reservation :=
                  remove_from_reservation (rt_reservation_id runtime) qtask_id (qtask_ids_by_reservation s),
                qtask_id_by_scheduler_task_id :=
                  (if rt_scheduler_task_id runtime \<noteq> PNone
                   then dpop (rt_scheduler_task_id runtime) (qtask_id_by_scheduler_task_id s)
                   else qtask_id_by_scheduler_task_id s),
                qtask_id_by_provider_handle :=
                  (case rt_provider_handle runtime of
                     Some h \<Rightarrow> dpop h (qtask_id_by_provider_handle s) | None \<Rightarrow> qtask_id_by_provider_handle s)\<rparr>;
          s = clear_dispatch qtask_id (pop_usage_event qtask_id (pop_hold qtask_id s));
          s = s\<lparr>pending_capacity := dpop qtask_id (pending_capacity s)\<rparr>
      in if rt_state runtime \<noteq> QPM_TASK_FAILED then s\<lparr>result_state := dpop qtask_id (result_state s)\<rparr> else s)"

definition cleanup_task :: "int \<Rightarrow> runtime_task option ctl" where
  "cleanup_task qtask_id =
     bindM (getM (task_for_qtask_id qtask_id)) (\<lambda>found.
       case found of
         None \<Rightarrow> retM None
       | Some runtime \<Rightarrow> seqM (modM (forget_task qtask_id runtime)) (retM (Some runtime)))"

definition cleanup_circuit :: "string \<Rightarrow> runtime_task option ctl" where
  "cleanup_circuit cid =
     bindM (getM (task_for_cid cid)) (\<lambda>found.
       case found of None \<Rightarrow> retM None | Some runtime \<Rightarrow> cleanup_task (rt_qtask_id runtime))"

section \<open>Cancelling a task\<close>

record provider_cancel =
  pc_terminal :: bool
  pc_status :: pyval
  pc_reason :: string
  pc_message :: pyval

definition task_fault :: "runtime_task \<Rightarrow> string \<Rightarrow> pydict \<Rightarrow> pydict" where
  "task_fault runtime reason details =
     [(''qtask_id'', PInt (rt_qtask_id runtime)), (''reservation_id'', opt_int (rt_reservation_id runtime)),
      (''reason'', PStr reason)] @ details"

definition state_value :: "runtime_task \<Rightarrow> pyval" where
  "state_value runtime = PStr (task_state_text (rt_state runtime))"

definition pending_cancel :: "pyval \<Rightarrow> pyval \<Rightarrow> provider_cancel" where
  "pending_cancel status message =
     \<lparr>pc_terminal = False, pc_status = status, pc_reason = ''provider-cancel-pending'', pc_message = message\<rparr>"

text \<open>The canceller's answer as a value.\<close>

definition call_provider_canceller :: "qpm_env \<Rightarrow> string \<Rightarrow> pyval ctl" where
  "call_provider_canceller env handle =
     bindM (ext env (ProviderCancel handle)) (\<lambda>v. case v of EVal x \<Rightarrow> retM x | EObj d \<Rightarrow> retM (PDict d) | _ \<Rightarrow> retM PNone)"

definition cancel_provider_for_task :: "qpm_env \<Rightarrow> runtime_task \<Rightarrow> provider_cancel option ctl" where
  "cancel_provider_for_task env runtime =
     bindM (getM id) (\<lambda>s.
       case rt_provider_handle runtime of
         None \<Rightarrow>
           if rt_qtask_id runtime \<notin> set (provider_inflight s) then retM None
           else seqM (record_reconciliation_fault env (task_fault runtime ''provider-handle-missing''
                        [(''lifecycle_state'', state_value runtime)]))
                  (retM (Some (pending_cancel (PStr ''unsupported'') (PStr ''provider work has no cancellable handle''))))
       | Some handle \<Rightarrow>
           if \<not> provider_canceller s
           then seqM (record_reconciliation_fault env (task_fault runtime ''provider-cancel-unsupported''
                        [(''provider_handle'', PStr handle), (''lifecycle_state'', state_value runtime)]))
                  (retM (Some (pending_cancel (PStr ''unsupported'') (PStr ''provider cancellation is unsupported''))))
           else bindM (tryM (bindM (call_provider_canceller env handle) (\<lambda>status. retM (Inr status)))
                        (\<lambda>error. retM (Inl error)))
                  (\<lambda>outcome. case outcome of
                     Inl error \<Rightarrow>
                       seqM (record_reconciliation_fault env (task_fault runtime ''provider-cancel-failed''
                              [(''provider_handle'', PStr handle), (''provider_error'', PStr (exc_text error))]))
                         (retM (Some (pending_cancel (PStr ''failed'') (PStr (exc_text error)))))
                   | Inr status \<Rightarrow>
                       if \<not> provider_cancel_is_terminal status then retM (Some (pending_cancel status PNone))
                       else retM (Some \<lparr>pc_terminal = True, pc_status = status,
                              pc_reason = ''provider-cancelled'', pc_message = PNone\<rparr>)))"

definition cancelled_tables :: "int \<Rightarrow> controller \<Rightarrow> controller" where
  "cancelled_tables qtask_id s =
     (let s = clear_dispatch qtask_id s
      in set_runtime_state qtask_id QPM_TASK_CANCELLED (s\<lparr>result_state := dpop qtask_id (result_state s)\<rparr>))"

definition note_cancel_status :: "provider_cancel option \<Rightarrow> pydict \<Rightarrow> pydict" where
  "note_cancel_status cancel response =
     (case cancel of Some c \<Rightarrow> dset ''provider_cancel_status'' (pc_status c) response | None \<Rightarrow> response)"

definition finish_cancel ::
  "qpm_env \<Rightarrow> runtime_task \<Rightarrow> provider_cancel option \<Rightarrow> pyval \<Rightarrow> (pydict \<times> completion_delivery list) ctl" where
  "finish_cancel env runtime cancel reason =
     seqM (modM (\<lambda>s. s\<lparr>pending_capacity := dpop (rt_qtask_id runtime) (pending_capacity s)\<rparr>))
     (bindM (getM (listed_circuit (rt_cid runtime))) (\<lambda>circuit.
      seqM (reconcile_task_hold env runtime circuit)
      (seqM (if rt_scheduler_task_id runtime \<noteq> PNone
             then mark_scheduler_task_cancelled env (rt_scheduler_task_id runtime) else retM ())
      (seqM (modM (cancelled_tables (rt_qtask_id runtime)))
      (let ended = runtime\<lparr>rt_state := QPM_TASK_CANCELLED\<rparr>
       in bindM (task_status env ended (PStr ''CANCELLED'') (py_or reason (PStr ''cancelled'')) PNone PNone) (\<lambda>status.
          let response = note_cancel_status cancel status
          in bindM (terminal_completion_delivery env ended (Some response)) (\<lambda>delivery.
               retM (response, case delivery of Some d \<Rightarrow> [d] | None \<Rightarrow> []))))))))"

definition cancel_task_locked ::
  "qpm_env \<Rightarrow> pyval \<Rightarrow> pyval \<Rightarrow> pyval \<Rightarrow> int option \<Rightarrow> bool \<Rightarrow> (pydict \<times> completion_delivery list) ctl" where
  "cancel_task_locked env cid qtask_id reason reservation_id require_reservation =
     bindM (getM (runtime_for_task_selector cid qtask_id)) (\<lambda>found.
       case found of
         None \<Rightarrow> retM ([(''outcome'', PStr ''UNKNOWN''), (''lifecycle_state'', PStr ''unknown''), (''cid'', cid),
                        (''qtask_id'', qtask_id), (''reason'', PStr ''not-found'')], [])
       | Some runtime \<Rightarrow>
           (case task_reservation_error runtime reservation_id require_reservation of
              Some error \<Rightarrow> retM (error, [])
            | None \<Rightarrow>
                if rt_state runtime = QPM_TASK_COMPLETED
                then bindM (task_status env runtime (PStr ''COMPLETED'') (PStr ''already-completed'') PNone PNone)
                       (\<lambda>status. retM (status, []))
                else if rt_state runtime = QPM_TASK_CANCELLED
                then bindM (task_status env runtime (PStr ''CANCELLED'') (PStr ''already-cancelled'') PNone PNone)
                       (\<lambda>status. retM (status, []))
                else bindM (cancel_provider_for_task env runtime) (\<lambda>cancel.
                       case cancel of
                         Some c \<Rightarrow>
                           if \<not> pc_terminal c
                           then bindM (task_status env runtime (PStr ''CANCEL_PENDING'') (PStr (pc_reason c))
                                         (pc_message c) PNone)
                                  (\<lambda>status. retM (note_cancel_status cancel status, []))
                           else finish_cancel env runtime cancel reason
                       | None \<Rightarrow> finish_cancel env runtime cancel reason)))"

definition cancel_task ::
  "qpm_env \<Rightarrow> pyval \<Rightarrow> pyval \<Rightarrow> pyval \<Rightarrow> pyval \<Rightarrow> bool \<Rightarrow> pydict ctl" where
  "cancel_task env cid qtask_id reason reservation_id require_reservation =
     bindM (liftM (normalize_optional_reservation_id reservation_id)) (\<lambda>rid.
     bindM (cancel_task_locked env cid qtask_id reason rid require_reservation) (\<lambda>(response, deliveries).
       seqM (dispatch_completion_deliveries env deliveries) (retM response)))"

section \<open>Publishing a completion\<close>

definition completion_runtime :: "pydict \<Rightarrow> controller \<Rightarrow> runtime_task option" where
  "completion_runtime payload s =
     (case known_task (pget payload ''cid'') (pget payload ''qtask_id'') s of
        Some r \<Rightarrow> Some r
      | None \<Rightarrow> (case pget payload ''provider_handle'' of PStr h \<Rightarrow> task_for_provider_handle h s | _ \<Rightarrow> None))"

text \<open>
  The payload dictionary of a completion is shared: what \<open>completion_record\<close> writes into it is
  also seen in the stored result, which is therefore written again.
\<close>

definition publish_completion ::
  "qpm_env \<Rightarrow> pyval \<Rightarrow> string option \<Rightarrow> bool \<Rightarrow> bool ctl" where
  "publish_completion env completion evtype from_event =
     (let payload = (case completion of PDict d \<Rightarrow> d | v \<Rightarrow> [(''result'', v)])
      in bindM (time_ns env) (\<lambda>now.
      seqM (purge_completion_queues_locked now False)
      (bindM (getM (completion_runtime payload)) (\<lambda>found.
        case found of
          None \<Rightarrow> retM False
        | Some runtime \<Rightarrow>
            (case rt_reservation_id runtime of
               None \<Rightarrow> retM False
             | Some rid \<Rightarrow>
                 (let failed = (completion_payload_failed payload \<or> rt_state runtime = QPM_TASK_FAILED);
                      payload = (if failed
                                 then dsetdefault ''reason'' (PStr ''provider-execution-failed'')
                                        (dsetdefault ''outcome'' (PStr ''FAILED'') payload)
                                 else payload);
                      error = (case pget payload ''error'' of PNone \<Rightarrow> None | v \<Rightarrow> Some (py_str v, py_type_name v))
                  in bindM (getM (listed_circuit (rt_cid runtime))) (\<lambda>circuit.
                     let live = (\<not> terminal_state (rt_state runtime) \<and> circuit \<noteq> None)
                     in seqM (if live
                              then (if failed
                                    then seqM (fail_scheduled_task_locked env (rt_cid runtime) error
                                                 (pget payload ''reason'') False) (retM ())
                                    else seqM (complete_scheduled_task env (rt_cid runtime) (PDict payload)) (retM ()))
                              else retM ())
                        (bindM (completion_record env payload runtime now) (\<lambda>(record, shared).
                         seqM (if live \<and> \<not> failed
                               then modM (\<lambda>s. if has_key (result_state s) (rt_qtask_id runtime)
                                              then store_result (rt_qtask_id runtime) (PDict shared) s else s)
                               else retM ())
                         (seqM (modM (ensure_completion_queue rid))
                         (seqM (enqueue_completion_record env rid record)
                         (bindM (getM (completion_delivery_for evtype record
                                    (if from_event then Some (the evtype, shared) else None))) (\<lambda>delivery.
                          seqM (dispatch_completion_deliveries env [delivery]) (retM True))))))))))))))"

end
