(* ===== verification/QPM_Tasks_Inv.thy ===== *)
theory QPM_Tasks_Inv
  imports QPM_Tasks
begin

text \<open>
  The invariant of the task tables. \<open>task_shape\<close> gives, for each task in the table, the four
  fields the other tables refer to; \<open>tasks_ok\<close> says that every other table refers to tasks that
  exist and agrees with their fields. Updates of the remaining fields of a task do not change
  the shape, so they keep the invariant by rewriting alone.
\<close>

section \<open>Shapes\<close>

type_synonym shape = "string \<times> int \<times> int option \<times> pyval"

definition shape_of :: "runtime_task \<Rightarrow> shape" where
  "shape_of r = (rt_cid r, rt_qtask_id r, rt_reservation_id r, rt_scheduler_task_id r)"

definition table_shape :: "(int \<times> runtime_task) list \<Rightarrow> int \<Rightarrow> shape option" where
  "table_shape m q = map_option shape_of (map_of m q)"

definition upd_entry :: "int \<Rightarrow> (runtime_task \<Rightarrow> runtime_task) \<Rightarrow> (int \<times> runtime_task) list \<Rightarrow> (int \<times> runtime_task) list" where
  "upd_entry q f m = (case map_of m q of None \<Rightarrow> m | Some r \<Rightarrow> dset q (f r) m)"

lemma upd_runtime_alt: "upd_runtime q f s = s\<lparr>runtime_by_qtask_id := upd_entry q f (runtime_by_qtask_id s)\<rparr>"
  by (simp add: upd_runtime_def upd_entry_def split: option.splits)

lemma shape_upd_entry:
  assumes "\<And>r. shape_of (f r) = shape_of r"
  shows "table_shape (upd_entry q f m) = table_shape m"
  by (rule ext) (simp add: table_shape_def upd_entry_def assms split: option.splits)

lemma shape_upd_state [simp]:
  "table_shape (upd_entry q (\<lambda>r. r\<lparr>rt_state := st\<rparr>) m) = table_shape m"
  "table_shape (upd_entry q (\<lambda>r. r\<lparr>rt_provider_handle := h\<rparr>) m) = table_shape m"
  "table_shape (upd_entry q (\<lambda>r. r\<lparr>rt_usage_event_id := e\<rparr>) m) = table_shape m"
  by (rule shape_upd_entry; simp add: shape_of_def)+

lemma shape_dset [simp]: "table_shape (dset q r m) = (table_shape m)(q \<mapsto> shape_of r)"
  by (rule ext) (simp add: table_shape_def)

lemma shape_dpop [simp]: "table_shape (dpop q m) = (table_shape m)(q := None)"
  by (rule ext) (simp add: table_shape_def)

lemma shape_some [simp]: "map_of m q = Some r \<Longrightarrow> table_shape m q = Some (shape_of r)"
  by (simp add: table_shape_def)

lemma shape_None: "table_shape m q = None \<longleftrightarrow> map_of m q = None"
  by (simp add: table_shape_def)

section \<open>The invariant\<close>

definition tasks_wf :: "int \<Rightarrow> (int \<Rightarrow> shape option) \<Rightarrow> bool" where
  "tasks_wf next sh \<longleftrightarrow> 1 \<le> next \<and> (\<forall>q c i rid st. sh q = Some (c, i, rid, st) \<longrightarrow> i = q \<and> 1 \<le> q \<and> q < next)"

definition cids_wf :: "(int \<Rightarrow> shape option) \<Rightarrow> (string \<times> int) list \<Rightarrow> bool" where
  "cids_wf sh m \<longleftrightarrow> (\<forall>c q. map_of m c = Some q \<longrightarrow> (\<exists>i rid st. sh q = Some (c, i, rid, st)))"

definition ids_at :: "(int \<times> int list) list \<Rightarrow> int \<Rightarrow> int list" where
  "ids_at m rid = (case map_of m rid of Some ids \<Rightarrow> ids | None \<Rightarrow> [])"

definition in_reservation :: "int \<Rightarrow> shape option \<Rightarrow> bool" where
  "in_reservation rid x \<longleftrightarrow> (\<exists>c i st. x = Some (c, i, Some rid, st))"

definition reservations_wf :: "(int \<Rightarrow> shape option) \<Rightarrow> (int \<times> int list) list \<Rightarrow> bool" where
  "reservations_wf sh m \<longleftrightarrow>
     (\<forall>rid ids. map_of m rid = Some ids \<longrightarrow> ids \<noteq> [] \<and> distinct ids) \<and>
     (\<forall>rid. set (ids_at m rid) = {q. in_reservation rid (sh q)})"

definition scheduler_wf :: "(int \<Rightarrow> shape option) \<Rightarrow> (pyval \<times> int) list \<Rightarrow> bool" where
  "scheduler_wf sh m \<longleftrightarrow> (\<forall>st q. st \<noteq> PNone \<longrightarrow> map_of m st = Some q \<longrightarrow> (\<exists>c i rid. sh q = Some (c, i, rid, st)))"

definition holds_wf :: "(int \<Rightarrow> shape option) \<Rightarrow> (int \<times> capacity_hold) list \<Rightarrow> bool" where
  "holds_wf sh m \<longleftrightarrow> dict_ok m \<and> (\<forall>q h. map_of m q = Some h \<longrightarrow> (\<exists>c i st. sh q = Some (c, i, Some (ch_reservation_id h), st)))"

definition pending_wf :: "(int \<Rightarrow> shape option) \<Rightarrow> (int \<times> pending_entry) list \<Rightarrow> bool" where
  "pending_wf sh m \<longleftrightarrow> dict_ok m \<and>
     (\<forall>q p. map_of m q = Some p \<longrightarrow> (\<exists>i st. sh q = Some (pe_cid p, i, pe_reservation_id p, st)))"

definition owned :: "(int \<Rightarrow> shape option) \<Rightarrow> int list \<Rightarrow> bool" where
  "owned sh ks \<longleftrightarrow> (\<forall>q \<in> set ks. sh q \<noteq> None)"

definition tasks_ok :: "controller \<Rightarrow> bool" where
  "tasks_ok s \<longleftrightarrow>
     (let sh = table_shape (runtime_by_qtask_id s)
      in tasks_wf (qtask_id_next s) sh \<and> cids_wf sh (runtime_by_cid s) \<and>
         reservations_wf sh (qtask_ids_by_reservation s) \<and> scheduler_wf sh (qtask_id_by_scheduler_task_id s) \<and>
         holds_wf sh (capacity_holds s) \<and> pending_wf sh (pending_capacity s) \<and>
         owned sh (dkeys (usage_events_by_qtask_id s)) \<and> owned sh (dkeys (timeout_state s)) \<and>
         owned sh (selected_qtask_ids s) \<and> owned sh (dkeys (dispatching_qtask_ids s)) \<and>
         owned sh (provider_inflight s))"

lemma tasks_ok_blind: "world_blind tasks_ok"
  by (simp add: world_blind_def tasks_ok_def)

lemmas tasks_world = keeps_ext [OF tasks_ok_blind] keeps_time [OF tasks_ok_blind] keeps_time_s [OF tasks_ok_blind]
  keeps_admission [OF tasks_ok_blind] keeps_scheduler [OF tasks_ok_blind]

lemma tasks_ok_new: "tasks_ok (new_controller conf retention sequence)"
  by (simp add: tasks_ok_def new_controller_def tasks_wf_def cids_wf_def reservations_wf_def scheduler_wf_def
      holds_wf_def pending_wf_def owned_def table_shape_def ids_at_def in_reservation_def)

lemma owned_removeAll [simp]: "owned sh ks \<Longrightarrow> owned sh (removeAll q ks)"
  by (simp add: owned_def)

lemma owned_dpop [simp]: "owned sh (dkeys m) \<Longrightarrow> owned sh (dkeys (dpop q m))"
  unfolding owned_def by (simp only: dkeys_dpop) blast

lemma owned_insert [simp]: "owned sh ks \<Longrightarrow> sh q \<noteq> None \<Longrightarrow> owned sh (List.insert q ks)"
  by (simp add: owned_def)

lemma owned_dset [simp]: "owned sh (dkeys m) \<Longrightarrow> sh q \<noteq> None \<Longrightarrow> owned sh (dkeys (dset q v m))"
  unfolding owned_def by (simp only: keys_dset) blast

lemma holds_wf_dpop [simp]: "holds_wf sh m \<Longrightarrow> holds_wf sh (dpop q m)"
  by (simp add: holds_wf_def)

lemma pending_wf_dpop [simp]: "pending_wf sh m \<Longrightarrow> pending_wf sh (dpop q m)"
  by (simp add: pending_wf_def)

text \<open>The reservation of a task, when it is in the table.\<close>

definition belongs :: "int \<Rightarrow> int \<Rightarrow> controller \<Rightarrow> bool" where
  "belongs q rid s \<longleftrightarrow> (\<exists>c i st. table_shape (runtime_by_qtask_id s) q = Some (c, i, Some rid, st))"

section \<open>The table operations\<close>

lemmas table_ops = set_runtime_state_def upd_runtime_alt clear_dispatch_def pop_hold_def pop_usage_event_def
  store_result_def note_usage_event_def note_provider_handle_def hold_capacity_def pend_capacity_def
  claim_dispatch_def release_dispatch_claim_def mark_selected_def enter_flight_def cancelled_tables_def
  set_circuit_info_def

lemma tasks_ok_simple [simp]:
  assumes "tasks_ok s"
  shows "tasks_ok (set_runtime_state q st s)" "tasks_ok (clear_dispatch q s)" "tasks_ok (pop_hold q s)"
    "tasks_ok (pop_usage_event q s)" "tasks_ok (store_result q v s)" "tasks_ok (note_provider_handle q h s)"
    "tasks_ok (release_dispatch_claim q s)" "tasks_ok (cancelled_tables q s)" "tasks_ok (set_circuit_info cid g s)"
    "tasks_ok (s\<lparr>pending_capacity := dpop q (pending_capacity s)\<rparr>)"
  using assms by (simp_all add: tasks_ok_def table_ops Let_def)

lemma tasks_ok_completion [simp]:
  assumes "tasks_ok s"
  shows "tasks_ok (s\<lparr>completion_queues := x\<rparr>)" "tasks_ok (s\<lparr>completion_evictions := ev\<rparr>)"
    "tasks_ok (s\<lparr>completion_last_purge_ns := n\<rparr>)" "tasks_ok (s\<lparr>event_endpoints := ep\<rparr>)"
    "tasks_ok (ensure_completion_queue rid s)" "tasks_ok (forget_terminal_task_for_cid c s)"
  using assms
  by (simp_all add: tasks_ok_def ensure_completion_queue_def forget_terminal_task_for_cid_def split: option.splits)

lemma tasks_ok_owned [simp]:
  assumes "tasks_ok s" "task_for_qtask_id q s \<noteq> None"
  shows "tasks_ok (note_usage_event q e s)" "tasks_ok (claim_dispatch me q s)" "tasks_ok (mark_selected q s)"
    "tasks_ok (enter_flight q h s)"
  using assms by (simp_all add: tasks_ok_def table_ops task_for_qtask_id_def shape_None Let_def split: option.splits)

lemma tasks_ok_hold:
  assumes "tasks_ok s" "belongs q rid s"
  shows "tasks_ok (hold_capacity q rid usage decision s)"
  using assms by (auto simp: tasks_ok_def table_ops belongs_def holds_wf_def Let_def)

lemma tasks_ok_pend:
  assumes "tasks_ok s" "map_of (runtime_by_qtask_id s) q = Some r" "rt_reservation_id r = Some rid"
  shows "tasks_ok (pend_capacity q rid (rt_cid r) usage decision s)"
  using assms by (auto simp: tasks_ok_def table_ops pending_wf_def Let_def shape_of_def)

text \<open>A new task takes an identifier below the counter that no table knows yet.\<close>

lemma ids_at_add: "ids_at (add_to_reservation rid q m) k = (if k = rid then List.insert q (ids_at m rid) else ids_at m k)"
  by (simp add: ids_at_def add_to_reservation_def)

lemma ids_at_remove:
  "ids_at (remove_from_reservation (Some rid) q m) k = (if k = rid then removeAll q (ids_at m rid) else ids_at m k)"
  by (simp add: ids_at_def remove_from_reservation_def Let_def split: option.splits)

lemma reservations_wfI:
  "(\<And>rid ids. map_of m rid = Some ids \<Longrightarrow> ids \<noteq> [] \<and> distinct ids) \<Longrightarrow>
   (\<And>rid. set (ids_at m rid) = {q. in_reservation rid (sh q)}) \<Longrightarrow> reservations_wf sh m"
  unfolding reservations_wf_def by blast

lemma reservations_wfD:
  assumes "reservations_wf sh m"
  shows "map_of m rid = Some ids \<Longrightarrow> ids \<noteq> [] \<and> distinct ids" "set (ids_at m rid) = {q. in_reservation rid (sh q)}"
  using assms unfolding reservations_wf_def by blast+

lemma reservations_wf_distinct: "reservations_wf sh m \<Longrightarrow> distinct (ids_at m rid)"
  unfolding ids_at_def using reservations_wfD(1) [of sh m rid] by (cases "map_of m rid") auto

lemma reservations_wf_shape:
  "reservations_wf sh m \<Longrightarrow> (\<And>rid q. in_reservation rid (sh' q) = in_reservation rid (sh q)) \<Longrightarrow> reservations_wf sh' m"
  by (rule reservations_wfI, rule reservations_wfD(1), assumption+) (simp add: reservations_wfD(2))

lemma reservations_wf_add:
  assumes ok: "reservations_wf sh m" and q: "sh q = None"
  shows "reservations_wf (sh(q \<mapsto> (c, i, Some rid, st))) (add_to_reservation rid q m)"
proof (rule reservations_wfI)
  fix k ids assume k: "map_of (add_to_reservation rid q m) k = Some ids"
  show "ids \<noteq> [] \<and> distinct ids"
  proof (cases "k = rid")
    case True
    then have "ids = List.insert q (ids_at m rid)" using k by (simp add: add_to_reservation_def ids_at_def)
    moreover have "q \<in> set (List.insert q (ids_at m rid))" by simp
    ultimately show ?thesis using reservations_wf_distinct [OF ok, of rid] by (metis distinct_insert empty_iff empty_set)
  next
    case False
    then have "map_of m k = Some ids" using k by (simp add: add_to_reservation_def)
    then show ?thesis by (rule reservations_wfD(1) [OF ok])
  qed
next
  fix k show "set (ids_at (add_to_reservation rid q m) k) = {p. in_reservation k ((sh(q \<mapsto> (c, i, Some rid, st))) p)}"
    using q by (auto simp: ids_at_add reservations_wfD(2) [OF ok] in_reservation_def)
qed

lemma owned_upd: "owned sh ks \<Longrightarrow> owned (sh(q \<mapsto> x)) ks"
  by (cases x) (simp add: owned_def)

lemma shape_fresh:
  assumes "sh q = None"
  shows "1 \<le> q \<Longrightarrow> q < next \<Longrightarrow> tasks_wf next sh \<Longrightarrow> tasks_wf next (sh(q \<mapsto> (c, q, rid, st)))"
    and "cids_wf sh m \<Longrightarrow> cids_wf (sh(q \<mapsto> (c, i, rid, st))) (dset c q m)"
    and "scheduler_wf sh ms \<Longrightarrow> scheduler_wf (sh(q \<mapsto> x)) ms"
    and "holds_wf sh mh \<Longrightarrow> holds_wf (sh(q \<mapsto> x)) mh"
    and "pending_wf sh mp \<Longrightarrow> pending_wf (sh(q \<mapsto> x)) mp"
  using assms
  by (fastforce simp: tasks_wf_def cids_wf_def scheduler_wf_def holds_wf_def pending_wf_def)+

lemma tasks_ok_enter:
  assumes ok: "tasks_ok s" and fresh: "map_of (runtime_by_qtask_id s) (rt_qtask_id r) = None"
    and range: "1 \<le> rt_qtask_id r" "rt_qtask_id r < qtask_id_next s"
  shows "tasks_ok (enter_task r s)"
proof -
  let ?q = "rt_qtask_id r" and ?sh = "table_shape (runtime_by_qtask_id s)"
  let ?sh' = "?sh(?q \<mapsto> shape_of r)"
  have none: "?sh ?q = None" using fresh by (simp add: shape_None)
  have mono: "owned ?sh ks \<Longrightarrow> owned ?sh' ks" for ks by (rule owned_upd)
  have wf: "tasks_wf (qtask_id_next s) ?sh'" "cids_wf ?sh' (dset (rt_cid r) ?q (runtime_by_cid s))"
    "scheduler_wf ?sh' (qtask_id_by_scheduler_task_id s)" "holds_wf ?sh' (capacity_holds s)"
    "pending_wf ?sh' (pending_capacity s)"
    using ok shape_fresh [where sh = ?sh and q = ?q, OF none] range by (auto simp: tasks_ok_def shape_of_def Let_def)
  have res: "case rt_reservation_id r of
      None \<Rightarrow> reservations_wf ?sh' (qtask_ids_by_reservation s)
    | Some rid \<Rightarrow> reservations_wf ?sh' (add_to_reservation rid ?q (qtask_ids_by_reservation s))"
  proof (cases "rt_reservation_id r")
    case None
    have "reservations_wf ?sh' (qtask_ids_by_reservation s)"
      by (rule reservations_wf_shape [of ?sh])
        (use ok none None in \<open>auto simp: tasks_ok_def Let_def in_reservation_def shape_of_def\<close>)
    with None show ?thesis by simp
  next
    case (Some rid)
    have "reservations_wf ?sh (qtask_ids_by_reservation s)" using ok by (simp add: tasks_ok_def Let_def)
    from reservations_wf_add [of ?sh _ ?q, OF this none] Some show ?thesis by (simp add: shape_of_def)
  qed
  show ?thesis
    using ok wf res mono
    by (auto simp: tasks_ok_def enter_task_def ensure_completion_queue_def Let_def split: option.splits)
qed

lemma owned_drop:
  "owned sh ks \<Longrightarrow> owned (sh(q := None)) (removeAll q ks)"
  "owned sh (dkeys m) \<Longrightarrow> owned (sh(q := None)) (dkeys (dpop q m))"
  unfolding owned_def by (simp, simp only: dkeys_dpop) auto

lemma reservations_wf_remove:
  assumes ok: "reservations_wf sh m" and q: "sh q = Some (c, i, rid, st)"
  shows "reservations_wf (sh(q := None)) (remove_from_reservation rid q m)"
proof (cases rid)
  case None
  then have "remove_from_reservation rid q m = m" by (simp add: remove_from_reservation_def)
  moreover have "reservations_wf (sh(q := None)) m"
    by (rule reservations_wf_shape [OF ok]) (use q None in \<open>auto simp: in_reservation_def\<close>)
  ultimately show ?thesis by simp
next
  case (Some r)
  show ?thesis unfolding Some
  proof (rule reservations_wfI)
    fix k ids assume k: "map_of (remove_from_reservation (Some r) q m) k = Some ids"
    show "ids \<noteq> [] \<and> distinct ids"
    proof (cases "k = r")
      case True
      then obtain old where old: "map_of m r = Some old" "ids = removeAll q old" "ids \<noteq> []"
        using k by (auto simp: remove_from_reservation_def Let_def split: option.splits if_splits)
      then show ?thesis using reservations_wfD(1) [OF ok old(1)] by (simp add: distinct_removeAll)
    next
      case False
      then have "map_of m k = Some ids" using k
        by (auto simp: remove_from_reservation_def Let_def split: option.splits if_splits)
      then show ?thesis by (rule reservations_wfD(1) [OF ok])
    qed
  next
    fix k show "set (ids_at (remove_from_reservation (Some r) q m) k) = {p. in_reservation k ((sh(q := None)) p)}"
      using q Some by (auto simp: ids_at_remove reservations_wfD(2) [OF ok] in_reservation_def)
  qed
qed

lemma tasks_ok_forget:
  assumes ok: "tasks_ok s" and q: "map_of (runtime_by_qtask_id s) q = Some r"
  shows "tasks_ok (forget_task q r s)"
proof -
  let ?sh = "table_shape (runtime_by_qtask_id s)" and ?sh' = "(table_shape (runtime_by_qtask_id s))(q := None)"
  have sq: "?sh q = Some (rt_cid r, rt_qtask_id r, rt_reservation_id r, rt_scheduler_task_id r)"
    using q by (simp add: shape_of_def)
  have wf: "tasks_wf (qtask_id_next s) ?sh'" "cids_wf ?sh' (dpop (rt_cid r) (runtime_by_cid s))"
    "holds_wf ?sh' (dpop q (capacity_holds s))" "pending_wf ?sh' (dpop q (pending_capacity s))"
    using ok sq by (auto simp: tasks_ok_def tasks_wf_def cids_wf_def holds_wf_def pending_wf_def Let_def) fastforce
  have sched: "rt_scheduler_task_id r \<noteq> PNone \<Longrightarrow>
        scheduler_wf ?sh' (dpop (rt_scheduler_task_id r) (qtask_id_by_scheduler_task_id s))"
    "rt_scheduler_task_id r = PNone \<Longrightarrow> scheduler_wf ?sh' (qtask_id_by_scheduler_task_id s)"
    using ok sq by (auto simp: tasks_ok_def scheduler_wf_def Let_def)
  have res: "reservations_wf ?sh' (remove_from_reservation (rt_reservation_id r) q (qtask_ids_by_reservation s))"
    using ok sq by (intro reservations_wf_remove) (auto simp: tasks_ok_def Let_def)
  have own: "owned ?sh' (dkeys (dpop q (usage_events_by_qtask_id s)))" "owned ?sh' (dkeys (dpop q (timeout_state s)))"
    "owned ?sh' (removeAll q (selected_qtask_ids s))" "owned ?sh' (dkeys (dpop q (dispatching_qtask_ids s)))"
    "owned ?sh' (removeAll q (provider_inflight s))"
    using ok by (auto simp only: tasks_ok_def Let_def intro: owned_drop)
  show ?thesis
    using wf sched res own by (simp add: tasks_ok_def forget_task_def retain_terminal_task_def table_ops Let_def)
qed

lemma shape_rescheduled:
  assumes "sh q = Some (c, i, rid, st)"
  shows "tasks_wf next sh \<Longrightarrow> tasks_wf next (sh(q \<mapsto> (c, i, rid, st')))"
    and "cids_wf sh m \<Longrightarrow> cids_wf (sh(q \<mapsto> (c, i, rid, st'))) m"
    and "holds_wf sh mh \<Longrightarrow> holds_wf (sh(q \<mapsto> (c, i, rid, st'))) mh"
    and "pending_wf sh mp \<Longrightarrow> pending_wf (sh(q \<mapsto> (c, i, rid, st'))) mp"
  using assms by (fastforce simp: tasks_wf_def cids_wf_def holds_wf_def pending_wf_def)+

lemma tasks_ok_note_scheduler:
  assumes ok: "tasks_ok s" and q: "map_of (runtime_by_qtask_id s) q = Some r" "rt_scheduler_task_id r = PNone"
  shows "tasks_ok (note_scheduler_task q st s)"
proof -
  let ?sh = "table_shape (runtime_by_qtask_id s)"
  let ?r = "r\<lparr>rt_scheduler_task_id := st\<rparr>"
  let ?sh' = "?sh(q \<mapsto> shape_of ?r)"
  have sq: "?sh q = Some (rt_cid r, rt_qtask_id r, rt_reservation_id r, PNone)" using q by (simp add: shape_of_def)
  have sr: "shape_of ?r = (rt_cid r, rt_qtask_id r, rt_reservation_id r, st)" by (simp add: shape_of_def)
  have res: "reservations_wf ?sh' (qtask_ids_by_reservation s)"
    by (rule reservations_wf_shape [of ?sh]) (use ok sq sr in \<open>auto simp: tasks_ok_def Let_def in_reservation_def\<close>)
  have own: "owned ?sh ks \<Longrightarrow> owned ?sh' ks" for ks by (rule owned_upd)
  have wf: "tasks_wf (qtask_id_next s) ?sh'" "cids_wf ?sh' (runtime_by_cid s)"
    "holds_wf ?sh' (capacity_holds s)" "pending_wf ?sh' (pending_capacity s)"
    using ok shape_rescheduled [of ?sh q, OF sq] unfolding sr by (auto simp: tasks_ok_def Let_def)
  have sched: "scheduler_wf ?sh' (dset st q (qtask_id_by_scheduler_task_id s))"
    using ok sq unfolding sr by (auto simp: tasks_ok_def scheduler_wf_def Let_def)
  have "upd_entry q (\<lambda>r. r\<lparr>rt_scheduler_task_id := st\<rparr>) (runtime_by_qtask_id s) = dset q ?r (runtime_by_qtask_id s)"
    using q by (simp add: upd_entry_def)
  then show ?thesis
    using ok wf sched own res by (simp add: tasks_ok_def note_scheduler_task_def table_ops Let_def)
qed

section \<open>Operations on completions\<close>

lemma keeps_on_queue_tasks: "keeps tasks_ok (on_queue rid f a)"
  by (rule keepsI) (auto simp: on_queue_def split: option.splits prod.splits)

lemma tasks_ok_gc [simp]: "tasks_ok s \<Longrightarrow> tasks_ok (remember_completion_queue_gc rid now s)"
  by (simp add: remember_completion_queue_gc_def Let_def)

lemma keeps_purge_tasks [keeps_rules]: "keeps tasks_ok (purge_completion_queues_locked now force)"
proof -
  have "keeps tasks_ok (purge_loop now rids summary)" for rids summary
    by (induction now rids summary rule: purge_loop.induct)
      (auto intro!: keeps_rules keeps_mod keeps_on_queue_tasks tasks_ok_gc
        simp: Let_def enforce_retention_at_def completion_queue_collectable_def)
  then show ?thesis
    unfolding purge_completion_queues_locked_def by (auto intro!: keeps_rules keeps_mod simp: Let_def)
qed

lemma keeps_enqueue_tasks [keeps_rules]: "keeps tasks_ok (enqueue_completion_record env rid r)"
  unfolding enqueue_completion_record_def enforce_retention_at_def
  by (intro keeps_rules keeps_on_queue_tasks tasks_world)

lemma keeps_status_tasks [keeps_rules]: "keeps tasks_ok (task_status env r a b c d)"
  by (rule keeps_status [OF tasks_ok_blind])

lemma keeps_record_tasks [keeps_rules]: "keeps tasks_ok (completion_record env payload runtime now)"
  by (rule keeps_record [OF tasks_ok_blind])

declare keeps_case_prod [keeps_rules]

lemma keeps_terminal_delivery_tasks [keeps_rules]: "keeps tasks_ok (terminal_completion_delivery env r p)"
  unfolding terminal_completion_delivery_def by (intro keeps_rules keeps_mod tasks_world) simp_all

lemma keeps_push_delivery: "world_blind I \<Longrightarrow> keeps I (push_delivery env d regs)"
  by (induction env d regs rule: push_delivery.induct) (auto intro!: keeps_rules keeps_ext)

lemma keeps_push_deliveries: "world_blind I \<Longrightarrow> keeps I (push_deliveries env ds)"
  by (induction env ds rule: push_deliveries.induct) (auto intro!: keeps_rules keeps_push_delivery)

lemma keeps_dispatch_tasks [keeps_rules]: "keeps tasks_ok (dispatch_completion_deliveries env ds)"
  unfolding dispatch_completion_deliveries_def
  by (auto intro!: keeps_rules keeps_mod keeps_push_deliveries tasks_ok_blind simp: prune_event_registrations_def Let_def)

lemma keeps_fault_tasks [keeps_rules]: "keeps tasks_ok (record_reconciliation_fault env f)"
  unfolding record_reconciliation_fault_def
  by (intro keeps_rules keeps_mod tasks_world) (simp add: tasks_ok_def)

lemma keeps_canonicalize_tasks [keeps_rules]: "keeps tasks_ok (canonicalize_external_id kind v)"
  by (rule keepsI) (auto simp: canonicalize_external_id_def retM_def tasks_ok_def Let_def split: pyval.splits option.splits)

lemma keeps_identifiers_tasks [keeps_rules]: "keeps tasks_ok (canonicalize_identifiers ids)"
  by (induction ids rule: canonicalize_identifiers.induct) (auto intro!: keeps_rules)

section \<open>Operations on tasks\<close>

lemma keeps_finalize_tasks [keeps_rules]: "keeps tasks_ok (finalize_capacity_hold env q rid u r c)"
  unfolding finalize_capacity_hold_def by (intro keeps_rules tasks_world)

lemma keeps_reconcile_hold_tasks [keeps_rules]: "keeps tasks_ok (reconcile_task_hold env r c)"
  unfolding reconcile_task_hold_def by (intro keeps_rules keeps_mod) simp_all

lemma keeps_end_scheduler:
  "world_blind I \<Longrightarrow> (\<And>i. keeps I (mark i)) \<Longrightarrow> keeps I (end_scheduler_task env st mark)"
  unfolding end_scheduler_task_def by (intro keeps_rules)

lemma keeps_settle_tasks [keeps_rules]:
  assumes "\<And>s. tasks_ok s \<Longrightarrow> tasks_ok (note s)" "\<And>i. keeps tasks_ok (mark i)"
  shows "keeps tasks_ok (settle_task env cid r mark final note)"
  unfolding settle_task_def by (intro keeps_rules keeps_mod keeps_end_scheduler tasks_ok_blind assms) (simp add: assms)

lemma keeps_complete_tasks [keeps_rules]: "keeps tasks_ok (complete_scheduled_task env cid result)"
  unfolding complete_scheduled_task_def by (intro keeps_rules tasks_world) simp

lemma keeps_fail_tasks [keeps_rules]: "keeps tasks_ok (fail_scheduled_task_locked env cid err reason deliver)"
  unfolding fail_scheduled_task_locked_def
  by (intro keeps_rules tasks_world) (auto split: option.splits)

lemma keeps_fail_task_tasks [keeps_rules]: "keeps tasks_ok (fail_scheduled_task env cid err reason publish)"
  unfolding fail_scheduled_task_def by (intro keeps_rules)

lemma keeps_cancel_provider_tasks [keeps_rules]: "keeps tasks_ok (cancel_provider_for_task env r)"
  unfolding cancel_provider_for_task_def call_provider_canceller_def
  by (auto intro!: keeps_rules tasks_world split: sum.splits ext_value.splits)

lemma keeps_finish_cancel_tasks [keeps_rules]: "keeps tasks_ok (finish_cancel env r c reason)"
  unfolding finish_cancel_def by (intro keeps_rules keeps_mod tasks_world) simp_all

lemma keeps_cancel_locked_tasks [keeps_rules]: "keeps tasks_ok (cancel_task_locked env cid q reason rid req)"
  unfolding cancel_task_locked_def by (intro keeps_rules)

lemma keeps_cancel_tasks [keeps_rules]: "keeps tasks_ok (cancel_task env cid q reason rid req)"
  unfolding cancel_task_def by (intro keeps_rules)

lemma keeps_cleanup_tasks [keeps_rules]: "keeps tasks_ok (cleanup_task q)"
  unfolding cleanup_task_def
  by (rule keeps_bind_get) (auto simp: task_for_qtask_id_def monad_defs tasks_ok_forget split: option.splits)

lemma keeps_cleanup_circuit_tasks [keeps_rules]: "keeps tasks_ok (cleanup_circuit cid)"
  unfolding cleanup_circuit_def by (intro keeps_rules)

lemma keeps_publish_tasks [keeps_rules]: "keeps tasks_ok (publish_completion env completion evtype from_event)"
  unfolding publish_completion_def by (intro keeps_rules keeps_mod tasks_world) (auto simp: Let_def)

section \<open>Operations that read the tables first\<close>

text \<open>A predicate that ignores the world, the numbering of names and the circuit objects.\<close>

definition ledger_blind :: "(controller \<Rightarrow> bool) \<Rightarrow> bool" where
  "ledger_blind I \<longleftrightarrow> world_blind I \<and>
     (\<forall>s x n h. I (s\<lparr>external_id_maps := x\<rparr>) = I s \<and> I (s\<lparr>external_id_next := n\<rparr>) = I s \<and>
        I (s\<lparr>circuit_heap := h\<rparr>) = I s)"

lemma ledger_blindD: "ledger_blind I \<Longrightarrow> world_blind I"
  by (simp add: ledger_blind_def)

lemma keeps_canonicalize_blind: "ledger_blind I \<Longrightarrow> keeps I (canonicalize_external_id kind v)"
  by (rule keepsI)
    (auto simp: canonicalize_external_id_def retM_def ledger_blind_def Let_def split: pyval.splits option.splits)

lemma keeps_identifiers_blind: "ledger_blind I \<Longrightarrow> keeps I (canonicalize_identifiers ids)"
  by (induction ids rule: canonicalize_identifiers.induct) (auto intro!: keeps_rules keeps_canonicalize_blind)

lemma keeps_device_id: "ledger_blind I \<Longrightarrow> keeps I device_id"
  unfolding device_id_def by (auto intro!: keeps_rules keeps_canonicalize_blind split: option.splits)

lemma keeps_estimated_usage: "ledger_blind I \<Longrightarrow> keeps I (estimated_usage env cid r)"
  unfolding estimated_usage_def Let_def
  by (intro keeps_rules keeps_mod keeps_device_id ledger_blindD keeps_time)
    (auto simp: ledger_blind_def set_circuit_info_def Let_def)

lemma keeps_task_desc: "ledger_blind I \<Longrightarrow> keeps I (scheduler_task_desc env cid r)"
  unfolding scheduler_task_desc_def by (intro keeps_rules keeps_canonicalize_blind)

lemma keeps_metadata_for_id: "world_blind I \<Longrightarrow> keeps I (reservation_metadata_for_id env rid)"
  unfolding reservation_metadata_for_id_def by (intro keeps_rules)

text \<open>Registration.\<close>

definition reserved_id :: "int \<Rightarrow> controller \<Rightarrow> bool" where
  "reserved_id q s \<longleftrightarrow> tasks_ok s \<and> 1 \<le> q \<and> q < qtask_id_next s \<and> map_of (runtime_by_qtask_id s) q = None"

lemma reserved_id_blind: "ledger_blind (reserved_id q)"
  by (simp add: ledger_blind_def world_blind_def reserved_id_def tasks_ok_def)

lemma allocate_spec: "valid tasks_ok allocate_qtask_id (\<lambda>q. reserved_id q) (\<lambda>_. tasks_ok)"
proof (rule validI)
  fix s assume ok: "tasks_ok s"
  then have wf: "tasks_wf (qtask_id_next s) (table_shape (runtime_by_qtask_id s))" by (simp add: tasks_ok_def Let_def)
  have "map_of (runtime_by_qtask_id s) (qtask_id_next s) = None"
  proof (rule ccontr)
    assume "map_of (runtime_by_qtask_id s) (qtask_id_next s) \<noteq> None"
    then obtain r where "table_shape (runtime_by_qtask_id s) (qtask_id_next s) = Some (shape_of r)" by auto
    with wf show False unfolding tasks_wf_def shape_of_def by blast
  qed
  moreover have "tasks_wf (qtask_id_next s + 1) (table_shape (runtime_by_qtask_id s))" "1 \<le> qtask_id_next s"
    using wf unfolding tasks_wf_def by (auto simp: less_imp_le order_le_less)
  ultimately show "case allocate_qtask_id s of (Inl e, t) \<Rightarrow> tasks_ok t | (Inr q, t) \<Rightarrow> reserved_id q t"
    using ok by (simp add: allocate_qtask_id_def reserved_id_def tasks_ok_def Let_def)
qed

lemma valid_keeps_post:
  "keeps J m \<Longrightarrow> (\<And>s. J s \<Longrightarrow> I s) \<Longrightarrow> valid J m (\<lambda>_. J) (\<lambda>_. I)"
  by (rule valid_weaken [OF keeps_valid])

lemma reserved_idD: "reserved_id q s \<Longrightarrow> tasks_ok s"
  by (simp add: reserved_id_def)

lemma enter_reserved:
  "reserved_id (rt_qtask_id r) s \<Longrightarrow> tasks_ok (enter_task r s)"
  by (auto simp: reserved_id_def intro: tasks_ok_enter)

lemma runtime_for_fields [simp]:
  "rt_qtask_id (runtime_for cid q ctx m ids) = q" "rt_cid (runtime_for cid q ctx m ids) = cid"
  "rt_reservation_id (runtime_for cid q ctx m ids) = rc_reservation_id ctx"
  by (simp_all add: runtime_for_def new_runtime_def)

lemma keeps_register_tasks [keeps_rules]: "keeps tasks_ok (register_circuit env cid ctx payload)"
  unfolding register_circuit_def canonicalize_reservation_metadata_def Let_def
proof (rule keeps_bind_valid [OF allocate_spec], rule valid_bind)
  fix q :: int and m :: pydict
  have names: "valid (reserved_id q) (canonicalize_identifiers ids) (\<lambda>_. reserved_id q) (\<lambda>_. tasks_ok)" for ids
    by (rule valid_keeps_post [OF keeps_identifiers_blind [OF reserved_id_blind]]) (rule reserved_idD)
  have entered: "valid (reserved_id q) (seqM (modM (enter_task (runtime_for cid q ctx m ids))) (retM x))
      (\<lambda>_. tasks_ok) (\<lambda>_. tasks_ok)" for m ids and x :: "runtime_task \<times> pydict"
    by (rule valid_seq [where R = tasks_ok], rule valid_mod, rule enter_reserved, simp, rule valid_ret)
  show "valid (reserved_id q) (reservation_metadata_for_id env (rc_reservation_id ctx)) (\<lambda>_. reserved_id q) (\<lambda>_. tasks_ok)"
    by (rule valid_keeps_post [OF keeps_metadata_for_id]) (auto intro: ledger_blindD reserved_id_blind reserved_idD)
  show "valid (reserved_id q) (bindM (canonicalize_identifiers (reservation_identifiers (request_metadata m (rc_metadata ctx))))
     (\<lambda>ids. seqM (modM (enter_task (runtime_for cid q ctx (request_metadata m (rc_metadata ctx)) ids)))
        (retM (runtime_for cid q ctx (request_metadata m (rc_metadata ctx)) ids, dset ''qtask_id'' (PInt q) payload))))
     (\<lambda>_. tasks_ok) (\<lambda>_. tasks_ok)"
    by (rule valid_bind [OF names entered])
qed

text \<open>Admission, scheduling and dispatch.\<close>

definition task_here :: "int \<Rightarrow> runtime_task \<Rightarrow> controller \<Rightarrow> bool" where
  "task_here q r s \<longleftrightarrow> tasks_ok s \<and> (\<exists>r'. map_of (runtime_by_qtask_id s) q = Some r' \<and> shape_of r' = shape_of r)"

lemma task_here_blind: "ledger_blind (task_here q r)"
  by (simp add: ledger_blind_def world_blind_def task_here_def tasks_ok_def)

lemma task_hereD: "task_here q r s \<Longrightarrow> tasks_ok s"
  by (simp add: task_here_def)

lemma task_here_ops:
  assumes "task_here q r s"
  shows "task_here q r (set_runtime_state p st s)" "task_here q r (note_usage_event q e s)"
    "rt_reservation_id r = Some rid \<Longrightarrow> task_here q r (hold_capacity q rid u d s)"
    "rt_reservation_id r = Some rid \<Longrightarrow> task_here q r (pend_capacity q rid (rt_cid r) u d s)"
proof -
  from assms obtain r' where r': "tasks_ok s" "map_of (runtime_by_qtask_id s) q = Some r'" "shape_of r' = shape_of r"
    by (auto simp: task_here_def)
  have same: "rt_reservation_id r' = rt_reservation_id r" "rt_cid r' = rt_cid r" using r'(3) by (simp_all add: shape_of_def)
  show "task_here q r (set_runtime_state p st s)"
    using r' by (auto simp: task_here_def set_runtime_state_def upd_runtime_def shape_of_def tasks_ok_simple(1) [unfolded set_runtime_state_def upd_runtime_def]
        split: option.splits)
  show "task_here q r (note_usage_event q e s)"
    using r' tasks_ok_owned(1) [of s q e]
    by (auto simp: task_here_def task_for_qtask_id_def note_usage_event_def upd_runtime_def Let_def shape_of_def)
  assume rid: "rt_reservation_id r = Some rid"
  show "task_here q r (hold_capacity q rid u d s)"
    using r' same rid tasks_ok_hold [of s q rid u d]
    by (auto simp: task_here_def hold_capacity_def belongs_def shape_of_def)
  show "task_here q r (pend_capacity q rid (rt_cid r) u d s)"
    using r' same rid tasks_ok_pend [of s q r' rid u d] by (auto simp: task_here_def pend_capacity_def)
qed

lemma keeps_record_usage: "keeps (task_here q r) (record_usage_event q e)"
  unfolding record_usage_event_def by (intro keeps_rules keeps_mod task_here_ops)

lemma keeps_authorize_locked:
  assumes "rt_reservation_id r = Some rid"
  shows "keeps (task_here q r) (authorize_locked env q rid (rt_cid r) usage)"
  unfolding authorize_locked_def
  by (intro keeps_rules keeps_mod keeps_record_usage ledger_blindD task_here_blind task_here_ops assms)

lemma keeps_authorize_tasks [keeps_rules]: "keeps tasks_ok (authorize_capacity_hold env cid)"
  unfolding authorize_capacity_hold_def Let_def
proof (rule keeps_bind [OF keeps_qtask_id], rule keeps_bind_get)
  fix q s assume ok: "tasks_ok s"
  show "tasks_ok (snd ((case task_for_qtask_id q s of
      None \<Rightarrow> raiseM (QPMAdmissionValidationError ''reservation-scoped qtask is missing reservation state'')
    | Some runtime \<Rightarrow> case rt_reservation_id runtime of
        None \<Rightarrow> raiseM (QPMAdmissionValidationError ''reservation-scoped qtask is missing reservation state'')
      | Some rid \<Rightarrow> bindM (estimated_usage env cid runtime) (authorize_locked env q rid (rt_cid runtime))) s))"
  proof (cases "task_for_qtask_id q s")
    case (Some r)
    then have "task_here q r s" using ok by (auto simp: task_here_def task_for_qtask_id_def)
    moreover have "keeps (task_here q r) (bindM (estimated_usage env cid r) (authorize_locked env q rid (rt_cid r)))"
      if "rt_reservation_id r = Some rid" for rid
      by (intro keeps_bind keeps_estimated_usage task_here_blind keeps_authorize_locked that)
    ultimately show ?thesis using Some ok
      by (auto simp: monad_defs split: option.splits dest: task_hereD dest!: keepsD)
  qed (simp add: ok monad_defs)
qed

end
