(* ===== verification/QPM_Dispatch.thy ===== *)
theory QPM_Dispatch
  imports QPM_Tasks_Inv
begin

text \<open>
  Selection and dispatch: the operations through which several threads share the tasks. They
  keep the invariant of the task tables; a task claimed by one thread is not handed to another;
  and the number of tasks in flight stays within the dispatch limits.
\<close>

section \<open>The invariant\<close>

lemma task_for_key: "tasks_ok s \<Longrightarrow> map_of (runtime_by_qtask_id s) q = Some r \<Longrightarrow> rt_qtask_id r = q"
proof -
  assume ok: "tasks_ok s" and "map_of (runtime_by_qtask_id s) q = Some r"
  then have "table_shape (runtime_by_qtask_id s) q = Some (rt_cid r, rt_qtask_id r, rt_reservation_id r, rt_scheduler_task_id r)"
    by (simp add: shape_of_def)
  with ok show ?thesis unfolding tasks_ok_def Let_def tasks_wf_def by blast
qed

definition submitted_here :: "int \<Rightarrow> runtime_task \<Rightarrow> (exc \<times> completion_delivery list) + pyval \<Rightarrow> controller \<Rightarrow> bool" where
  "submitted_here q r outcome s = (case outcome of Inr st \<Rightarrow> task_here q r s | Inl x \<Rightarrow> tasks_ok s)"

lemma submitted_here_simps [simp]:
  "submitted_here q r (Inl x) = tasks_ok" "submitted_here q r (Inr st) = task_here q r"
  by (rule ext, simp add: submitted_here_def)+

lemma submit_attempt_spec: "valid (task_here q r) (submit_attempt env cid r) (submitted_here q r) (\<lambda>_. tasks_ok)"
  unfolding submit_attempt_def
proof (rule valid_try [where E' = "\<lambda>_. tasks_ok"])
  have sched: "valid (task_here q r) (bindM (scheduler_task_desc env cid r) (submit_scheduler_task env))
      (\<lambda>_. task_here q r) (\<lambda>_. tasks_ok)"
    by (rule valid_weaken [OF keeps_valid [where I = "task_here q r"]])
      (auto intro!: keeps_rules keeps_task_desc task_here_blind ledger_blindD dest: task_hereD)
  show "valid (task_here q r) (bindM (bindM (scheduler_task_desc env cid r) (submit_scheduler_task env))
      (\<lambda>scheduler_task_id. retM (Inr scheduler_task_id))) (submitted_here q r) (\<lambda>_. tasks_ok)"
    by (rule valid_bind [OF sched]) (auto intro: valid_ret)
next
  fix error
  show "valid tasks_ok (bindM (fail_scheduled_task_locked env cid (Some (exc_text error, exc_type_name error))
      (PStr ''scheduler-submission-failed'') True) (\<lambda>result. retM (Inl (error, snd result))))
      (submitted_here q r) (\<lambda>_. tasks_ok)"
    by (rule valid_bind [OF keeps_valid [OF keeps_fail_tasks]]) (auto intro: valid_ret)
qed

lemma submit_finish_spec:
  assumes "rt_scheduler_task_id r = PNone"
  shows "valid (submitted_here q r outcome) (submit_finish env q outcome) (\<lambda>_. tasks_ok) (\<lambda>_. tasks_ok)"
proof -
  have "task_here q r u \<Longrightarrow> tasks_ok (note_scheduler_task q st u)" for u st
    using assms by (auto simp: task_here_def shape_of_def intro: tasks_ok_note_scheduler)
  then show ?thesis
    by (cases outcome) (auto simp: submit_finish_def
        intro!: valid_mod_then valid_keeps_then keeps_rules)
qed

lemma keeps_submit_tasks [keeps_rules]: "keeps tasks_ok (submit_qtask_to_scheduler env cid)"
  unfolding submit_qtask_to_scheduler_def
proof (rule keeps_bind [OF keeps_qtask_id], rule keeps_bind_get, goal_cases)
  case (1 q s)
  have "tasks_ok (snd (bindM (submit_attempt env cid r) (submit_finish env q) s))"
    if "task_for_qtask_id q s = Some r" "rt_scheduler_task_id r = PNone" for r
  proof (rule valid_snd [OF valid_bind [OF submit_attempt_spec submit_finish_spec]])
    show "task_here q r s" using 1 that by (auto simp: task_here_def task_for_qtask_id_def)
  qed (rule that)
  with 1 show ?case by (auto simp: retM_def raiseM_def split: option.splits)
qed

lemma scan_selected_spec:
  "tasks_ok s \<Longrightarrow> scan_selected me qs busy s = ((found, b), t) \<Longrightarrow>
   tasks_ok t \<and> runtime_by_qtask_id t = runtime_by_qtask_id s \<and>
   (\<forall>q. found = Some q \<longrightarrow> q \<in> set qs \<and> \<not> task_ended (task_for_qtask_id q t) \<and>
      (\<forall>holder. map_of (dispatching_qtask_ids t) q = Some holder \<longrightarrow> holder = me))"
proof (induction me qs busy s rule: scan_selected.induct)
  case (2 me q rest busy s)
  have "tasks_ok (s\<lparr>selected_qtask_ids := removeAll q (selected_qtask_ids s),
      dispatching_qtask_ids := dpop q (dispatching_qtask_ids s)\<rparr>)"
    using "2.prems"(1) by (simp add: tasks_ok_def Let_def)
  with 2 show ?case
    by (auto simp: task_for_qtask_id_def split: if_splits option.splits)
qed simp

lemma selected_runtime_spec:
  "valid tasks_ok (selected_runtime me)
     (\<lambda>x s. tasks_ok s \<and> (\<forall>q. fst x = Some q \<longrightarrow> task_for_qtask_id q s \<noteq> None)) (\<lambda>_ _. False)"
proof (rule validI)
  fix s assume ok: "tasks_ok s"
  obtain found b t where scan: "scan_selected me (sort (selected_qtask_ids s)) False s = ((found, b), t)"
    by (metis prod.exhaust)
  from scan_selected_spec [OF ok scan] show "case selected_runtime me s of (Inl e, t) \<Rightarrow> False
      | (Inr x, t) \<Rightarrow> tasks_ok t \<and> (\<forall>q. fst x = Some q \<longrightarrow> task_for_qtask_id q t \<noteq> None)"
    by (auto simp: selected_runtime_def scan task_ended_def split: option.splits)
qed

lemma keeps_can_select: "keeps I can_select_scheduler_task"
  unfolding can_select_scheduler_task_def effective_dispatch_limit_def by (intro keeps_rules)

definition known_or_none :: "int option \<Rightarrow> controller \<Rightarrow> bool" where
  "known_or_none x s \<longleftrightarrow> tasks_ok s \<and> (\<forall>q. x = Some q \<longrightarrow> task_for_qtask_id q s \<noteq> None)"

lemma scheduler_found_known:
  assumes ok: "tasks_ok s" and found: "task_for_scheduler_task_id st s = Some r"
  shows "task_for_qtask_id (rt_qtask_id r) s = Some r"
  using found task_for_key [OF ok]
  by (auto simp: task_for_scheduler_task_id_def task_for_qtask_id_def split: option.splits)

lemma select_scheduler_task_spec:
  "valid tasks_ok (select_scheduler_task env) known_or_none (\<lambda>_. tasks_ok)"
proof -
  let ?attempt = "tryM (bindM (select_next_scheduler_task env) (\<lambda>a. retM (Some a)))
      (\<lambda>error. case error of QPMSchedulerQueueEmpty m \<Rightarrow> retM None | _ \<Rightarrow> raiseM error)"
  have attempt: "keeps tasks_ok ?attempt"
    by (auto intro!: keeps_rules tasks_world split: exc.splits)
  have pick: "valid tasks_ok (bindM (getM (task_for_scheduler_task_id st)) (\<lambda>found. case found of
        None \<Rightarrow> raiseM e
      | Some runtime \<Rightarrow> seqM (modM (mark_selected (rt_qtask_id runtime))) (retM (Some (rt_qtask_id runtime)))))
      known_or_none (\<lambda>_. tasks_ok)" for st e
  proof (rule valid_bind_get)
    fix s0 assume ok: "tasks_ok s0"
    show "valid (\<lambda>s. s = s0) (case task_for_scheduler_task_id st s0 of
        None \<Rightarrow> raiseM e
      | Some runtime \<Rightarrow> seqM (modM (mark_selected (rt_qtask_id runtime))) (retM (Some (rt_qtask_id runtime))))
      known_or_none (\<lambda>_. tasks_ok)"
    proof (cases "task_for_scheduler_task_id st s0")
      case None then show ?thesis using ok by (auto intro: valid_raise)
    next
      case (Some r)
      from scheduler_found_known [OF ok Some] have r: "task_for_qtask_id (rt_qtask_id r) s0 = Some r" .
      then have "tasks_ok (mark_selected (rt_qtask_id r) s0)" using ok by (intro tasks_ok_owned) auto
      moreover have "task_for_qtask_id (rt_qtask_id r) (mark_selected (rt_qtask_id r) s0) \<noteq> None"
        using r by (simp add: mark_selected_def set_runtime_state_def upd_runtime_def task_for_qtask_id_def split: option.splits)
      ultimately show ?thesis using Some
        by (simp add: valid_def monad_defs known_or_none_def)
    qed
  qed
  show ?thesis
    unfolding select_scheduler_task_def
    apply (rule valid_bind [OF keeps_valid [OF keeps_can_select]])
    apply (rule valid_if)
     apply (rule valid_ret, simp add: known_or_none_def)
    apply (rule valid_bind [OF keeps_valid [OF attempt]])
    apply (intro valid_case_option pick valid_raise valid_ret)
      apply (simp_all add: known_or_none_def)
    done
qed

lemma keeps_select_tasks [keeps_rules]: "keeps tasks_ok (select_qtask_for_dispatch env me)"
proof -
  have claim: "valid (known_or_none x) (case x of
      None \<Rightarrow> retM None | Some q \<Rightarrow> seqM (modM (claim_dispatch me q)) (retM (Some q))) (\<lambda>_. tasks_ok) (\<lambda>_. tasks_ok)" for x
    by (cases x) (auto simp: known_or_none_def intro!: valid_mod_then valid_ret tasks_ok_owned keeps_ret)
  have pick: "valid (\<lambda>s. tasks_ok s \<and> (\<forall>q. fst x = Some q \<longrightarrow> task_for_qtask_id q s \<noteq> None))
      (if fst x = None \<and> \<not> snd x then select_scheduler_task env else retM (fst x)) known_or_none (\<lambda>_. tasks_ok)" for x
    by (rule valid_if, rule valid_pre [OF select_scheduler_task_spec], simp, rule valid_ret, simp add: known_or_none_def)
  show ?thesis
    unfolding select_qtask_for_dispatch_def case_prod_beta
    by (rule keeps_bind_valid [OF valid_weaken [OF selected_runtime_spec]], assumption, assumption, simp,
        rule valid_bind [OF pick claim])
qed

lemma keeps_start_tasks [keeps_rules]: "keeps tasks_ok (start_provider_submission env cid handle)"
  unfolding start_provider_submission_def
proof (rule keeps_bind [OF keeps_qtask_id], rule keeps_bind_get, goal_cases)
  case (1 q s)
  show ?case
  proof (cases "task_ended (task_for_qtask_id q s)")
    case True
    with 1 show ?thesis by (simp add: monad_defs)
  next
    case False
    then obtain r where r: "task_for_qtask_id q s = Some r" by (auto simp: task_ended_def split: option.splits)
    then have here: "task_here q r s" using 1 by (auto simp: task_here_def task_for_qtask_id_def)
    have "keeps tasks_ok (modM (release_dispatch_claim q))" by (rule keeps_mod) simp
    moreover have "valid (task_here q r) (seqM (if rt_scheduler_task_id r \<noteq> PNone
          then mark_scheduler_task_started env (rt_scheduler_task_id r) else retM ())
        (seqM (modM (enter_flight q handle)) (getM (task_for_qtask_id q)))) (\<lambda>_. tasks_ok) (\<lambda>_. tasks_ok)"
    proof (rule valid_seq [OF valid_keeps_post [where J = "task_here q r"]])
      show "keeps (task_here q r) (if rt_scheduler_task_id r \<noteq> PNone
          then mark_scheduler_task_started env (rt_scheduler_task_id r) else retM ())"
        by (intro keeps_rules ledger_blindD task_here_blind)
      show "valid (task_here q r) (seqM (modM (enter_flight q handle)) (getM (task_for_qtask_id q)))
          (\<lambda>_. tasks_ok) (\<lambda>_. tasks_ok)"
        by (rule valid_mod_then [OF _ keeps_get]) (auto simp: task_here_def task_for_qtask_id_def intro: tasks_ok_owned)
    qed (rule task_hereD)
    ultimately show ?thesis using 1 False here r
      by (auto simp: monad_defs valid_def split: prod.splits sum.splits)
  qed
qed

lemma keeps_small_tasks [keeps_rules]:
  "keeps tasks_ok (set_task_state q st)" "keeps tasks_ok (bind_provider_handle q h)"
  unfolding set_task_state_def bind_provider_handle_def by (intro keeps_rules keeps_mod; simp)+

lemma keeps_timeout_tasks [keeps_rules]: "keeps tasks_ok (record_timeout env q reason message)"
  unfolding record_timeout_def
proof (rule keeps_bind_get, goal_cases)
  case (1 s)
  then show ?case
    by (cases "task_for_qtask_id q s")
      (auto simp: monad_defs time_ns_def tasks_ok_def task_for_qtask_id_def Let_def
        intro!: owned_dset)
qed

section \<open>Claims\<close>

lemma scan_respects_claims:
  "scan_selected me qs busy s = ((found, b), t) \<Longrightarrow> map_of (dispatching_qtask_ids s) q = Some h \<Longrightarrow> h \<noteq> me \<Longrightarrow>
   \<not> task_ended (task_for_qtask_id q s) \<Longrightarrow>
   found \<noteq> Some q \<and> map_of (dispatching_qtask_ids t) q = Some h \<and> (busy \<longrightarrow> b) \<and>
   (found = None \<longrightarrow> q \<in> set qs \<longrightarrow> b)"
proof (induction me qs busy s rule: scan_selected.induct)
  case (2 me p rest busy s)
  let ?s = "s\<lparr>selected_qtask_ids := removeAll p (selected_qtask_ids s),
      dispatching_qtask_ids := dpop p (dispatching_qtask_ids s)\<rparr>"
  show ?case
  proof (cases "task_ended (task_for_qtask_id p s)")
    case True
    then have "p \<noteq> q" using "2.prems"(4) by auto
    moreover have "task_for_qtask_id q ?s = task_for_qtask_id q s" by (simp add: task_for_qtask_id_def)
    ultimately show ?thesis using "2.IH"(1) [OF True] "2.prems" True by simp
  next
    case False
    show ?thesis
    proof (cases "map_of (dispatching_qtask_ids s) p")
      case None
      then show ?thesis using "2.prems" False by auto
    next
      case (Some holder)
      then show ?thesis using "2.prems" "2.IH"(2) [OF False Some] False by (cases "holder = me") auto
    qed
  qed
qed simp

lemma claim_is_exclusive:
  assumes live: "\<not> task_ended (task_for_qtask_id q s)" "q \<in> set (selected_qtask_ids s)"
    and held: "map_of (dispatching_qtask_ids s) q = Some h" "h \<noteq> me"
    and run: "select_qtask_for_dispatch env me s = (r, t)"
  shows "r \<noteq> Inr (Some q) \<and> map_of (dispatching_qtask_ids t) q = Some h"
proof -
  obtain found b u where scan: "scan_selected me (sort (selected_qtask_ids s)) False s = ((found, b), u)"
    by (metis prod.exhaust)
  note c = scan_respects_claims [OF scan held live(1)]
  show ?thesis
  proof (cases found)
    case None
    then have b using c live(2) by simp
    then show ?thesis using run None c by (auto simp: select_qtask_for_dispatch_def selected_runtime_def scan monad_defs)
  next
    case (Some p)
    then have "p \<noteq> q" using c by auto
    then show ?thesis using run Some c
      by (auto simp: select_qtask_for_dispatch_def selected_runtime_def scan monad_defs claim_dispatch_def)
  qed
qed

text \<open>The thread that gets a task holds its claim, and nobody else held it before.\<close>

lemma scan_found:
  "scan_selected me qs busy s = ((Some q, b), t) \<Longrightarrow>
   map_of (dispatching_qtask_ids t) q = None \<or> map_of (dispatching_qtask_ids t) q = Some me"
  by (induction me qs busy s rule: scan_selected.induct) (auto split: if_splits option.splits)

lemma select_claims:
  assumes "select_qtask_for_dispatch env me s = (Inr (Some q), t)"
  shows "map_of (dispatching_qtask_ids t) q = Some me"
  using assms
  by (auto simp: select_qtask_for_dispatch_def monad_defs claim_dispatch_def split: prod.splits sum.splits option.splits)

section \<open>Dispatch limits\<close>

lemma scan_frame:
  "scan_selected me qs busy s = ((found, b), t) \<Longrightarrow>
   provider_inflight t = provider_inflight s \<and> scheduler_control t = scheduler_control s \<and>
   device_profile t = device_profile s \<and> length (selected_qtask_ids t) \<le> length (selected_qtask_ids s) \<and>
   (found = None \<longrightarrow> \<not> b \<longrightarrow> set (selected_qtask_ids t) = set (selected_qtask_ids s) - set qs \<and> \<not> busy)"
proof (induction me qs busy s rule: scan_selected.induct)
  case (2 me p rest busy s)
  let ?s = "s\<lparr>selected_qtask_ids := removeAll p (selected_qtask_ids s),
      dispatching_qtask_ids := dpop p (dispatching_qtask_ids s)\<rparr>"
  have len: "length (removeAll p (selected_qtask_ids s)) \<le> length (selected_qtask_ids s)"
    by (simp add: length_removeAll_less_eq)
  show ?case
  proof (cases "task_ended (task_for_qtask_id p s)")
    case True
    with "2.prems" have "scan_selected me rest busy ?s = ((found, b), t)" by simp
    note ih = "2.IH"(1) [OF True this]
    have "length (selected_qtask_ids t) \<le> length (removeAll p (selected_qtask_ids s))" using ih by simp
    then have "length (selected_qtask_ids t) \<le> length (selected_qtask_ids s)" using len by (rule le_trans)
    moreover have "set (removeAll p (selected_qtask_ids s)) - set rest = set (selected_qtask_ids s) - set (p # rest)" by auto
    ultimately show ?thesis using ih by simp
  next
    case False
    show ?thesis
    proof (cases "map_of (dispatching_qtask_ids s) p")
      case None
      then show ?thesis using "2.prems" False by auto
    next
      case (Some holder)
      show ?thesis
      proof (cases "holder = me")
        case True
        then show ?thesis using "2.prems" False Some by auto
      next
        case other: False
        with "2.prems" False Some have "scan_selected me rest True s = ((found, b), t)" by simp
        from "2.IH"(2) [OF False Some other this] show ?thesis by auto
      qed
    qed
  qed
qed simp

definition dispatch_limit :: "controller \<Rightarrow> int" where
  "dispatch_limit s = (case fst (effective_dispatch_limit s) of Inr n \<Rightarrow> n | Inl e \<Rightarrow> 0)"

text \<open>Tasks in flight and the task about to be, together, stay within a positive limit.\<close>

definition flight_ok :: "controller \<Rightarrow> bool" where
  "flight_ok s \<longleftrightarrow> dispatch_limit s > 0 \<longrightarrow>
     length (selected_qtask_ids s) \<le> 1 \<and>
     int (length (provider_inflight s)) + int (length (selected_qtask_ids s)) \<le> dispatch_limit s"

lemma limit_pure: "snd (effective_dispatch_limit s) = s"
  by (simp add: effective_dispatch_limit_def monad_defs split: sum.splits)

lemma limit_cong:
  "scheduler_control t = scheduler_control s \<Longrightarrow> device_profile t = device_profile s \<Longrightarrow> dispatch_limit t = dispatch_limit s"
  by (simp add: dispatch_limit_def effective_dispatch_limit_def monad_defs operator_limit_def device_limit_def
      split: sum.splits option.splits)

lemma flight_ok_blind: "world_blind flight_ok"
  by (simp add: world_blind_def flight_ok_def dispatch_limit_def effective_dispatch_limit_def monad_defs
      operator_limit_def device_limit_def split: sum.splits option.splits)

lemma can_select_limit:
  "can_select_scheduler_task s = (Inr True, t) \<Longrightarrow> t = s \<and> (dispatch_limit s = 0 \<or> int (length (provider_inflight s)) < dispatch_limit s)"
  using limit_pure [of s]
  by (auto simp: can_select_scheduler_task_def dispatch_limit_def bindM_def getM_def retM_def split: if_splits prod.splits sum.splits)

lemma mark_selected_limit:
  assumes "selected_qtask_ids s = []" "dispatch_limit s = 0 \<or> int (length (provider_inflight s)) < dispatch_limit s"
  shows "flight_ok (mark_selected q s)"
proof -
  have "dispatch_limit (mark_selected q s) = dispatch_limit s"
    by (rule limit_cong) (simp_all add: mark_selected_def set_runtime_state_def upd_runtime_alt)
  with assms show ?thesis by (auto simp: flight_ok_def mark_selected_def set_runtime_state_def upd_runtime_alt)
qed

definition room_left :: "controller \<Rightarrow> bool" where
  "room_left s \<longleftrightarrow> selected_qtask_ids s = [] \<and>
     (dispatch_limit s = 0 \<or> int (length (provider_inflight s)) < dispatch_limit s)"

lemma limit_world [simp]:
  "dispatch_limit (s\<lparr>history := h\<rparr>) = dispatch_limit s" "dispatch_limit (s\<lparr>clock_reads := n\<rparr>) = dispatch_limit s"
  by (rule limit_cong; simp)+

lemma room_left_blind: "world_blind room_left"
  by (simp add: world_blind_def room_left_def)

lemma room_left_flight: "room_left s \<Longrightarrow> flight_ok s"
  by (auto simp: room_left_def flight_ok_def)

lemma select_scheduler_flight:
  "valid (\<lambda>s. flight_ok s \<and> selected_qtask_ids s = []) (select_scheduler_task env) (\<lambda>_. flight_ok) (\<lambda>_. flight_ok)"
proof -
  let ?attempt = "tryM (bindM (select_next_scheduler_task env) (\<lambda>a. retM (Some a)))
      (\<lambda>error. case error of QPMSchedulerQueueEmpty m \<Rightarrow> retM None | _ \<Rightarrow> raiseM error)"
  have attempt: "valid room_left ?attempt (\<lambda>_. room_left) (\<lambda>_. flight_ok)"
    by (rule valid_keeps_post) (auto intro!: keeps_rules keeps_scheduler room_left_blind room_left_flight split: exc.splits)
  have can: "valid (\<lambda>s. flight_ok s \<and> selected_qtask_ids s = []) can_select_scheduler_task
      (\<lambda>can s. flight_ok s \<and> (can \<longrightarrow> room_left s)) (\<lambda>_. flight_ok)"
  proof (rule validI)
    fix s assume s: "flight_ok s \<and> selected_qtask_ids s = []"
    have "snd (can_select_scheduler_task s) = s"
      using limit_pure [of s]
      by (auto simp: can_select_scheduler_task_def bindM_def getM_def retM_def split: prod.splits sum.splits)
    then show "case can_select_scheduler_task s of (Inl e, t) \<Rightarrow> flight_ok t
        | (Inr can, t) \<Rightarrow> flight_ok t \<and> (can \<longrightarrow> room_left t)"
      using s can_select_limit [of s] by (auto simp: room_left_def split: prod.splits sum.splits)
  qed
  have pick: "valid room_left (bindM (getM (task_for_scheduler_task_id st)) (\<lambda>found. case found of
        None \<Rightarrow> raiseM e
      | Some runtime \<Rightarrow> seqM (modM (mark_selected (rt_qtask_id runtime))) (retM (Some (rt_qtask_id runtime)))))
      (\<lambda>_. flight_ok) (\<lambda>_. flight_ok)" for st e
    by (auto simp: valid_def monad_defs room_left_flight room_left_def mark_selected_limit split: option.splits)
  show ?thesis
    unfolding select_scheduler_task_def
    apply (rule valid_bind [OF can], rule valid_if)
     apply (rule valid_ret, simp)
    apply (rule valid_bind [OF valid_pre [OF attempt]], simp)
    apply (intro valid_case_option pick valid_raise valid_ret)
      apply (simp_all add: room_left_flight)
    done
qed

lemma flight_ok_less:
  assumes "flight_ok s" "dispatch_limit t = dispatch_limit s" "provider_inflight t = provider_inflight s"
    "length (selected_qtask_ids t) \<le> length (selected_qtask_ids s)"
  shows "flight_ok t"
  using assms by (auto simp: flight_ok_def)

lemma select_keeps_flight: "keeps flight_ok (select_qtask_for_dispatch env me)"
proof (rule keepsI)
  fix s assume ok: "flight_ok s"
  obtain found b u where scan: "scan_selected me (sort (selected_qtask_ids s)) False s = ((found, b), u)"
    by (metis prod.exhaust)
  note f = scan_frame [OF scan]
  then have lim: "dispatch_limit u = dispatch_limit s" by (intro limit_cong) auto
  have u: "flight_ok u" by (rule flight_ok_less [OF ok lim]) (use f in auto)
  have claim: "flight_ok (claim_dispatch me q v)" if "flight_ok v" for q v
    by (rule flight_ok_less [OF that]) (auto simp: claim_dispatch_def intro: limit_cong)
  have claimed: "valid flight_ok (case x of None \<Rightarrow> retM None
      | Some q \<Rightarrow> seqM (modM (claim_dispatch me q)) (retM (Some q))) (\<lambda>_. flight_ok) (\<lambda>_. flight_ok)" for x
    by (cases x) (auto intro!: valid_mod_then claim keeps_ret valid_ret)
  show "flight_ok (snd (select_qtask_for_dispatch env me s))"
  proof (cases "found = None \<and> \<not> b")
    case True
    then have "selected_qtask_ids u = []" using f by auto
    have "flight_ok (snd (bindM (select_scheduler_task env) (\<lambda>x. case x of None \<Rightarrow> retM None
        | Some q \<Rightarrow> seqM (modM (claim_dispatch me q)) (retM (Some q))) u))"
      by (rule valid_snd [OF valid_bind [OF select_scheduler_flight]]) (simp_all add: claimed u \<open>selected_qtask_ids u = []\<close>)
    moreover have "selected_runtime me s = (Inr (None, False), u)" using scan True by (simp add: selected_runtime_def)
    ultimately show ?thesis by (simp add: select_qtask_for_dispatch_def bindM_Inr)
  next
    case False
    with valid_snd [OF claimed u] show ?thesis
      by (auto simp: select_qtask_for_dispatch_def selected_runtime_def scan bindM_def retM_def)
  qed
qed

lemma enter_flight_limit:
  assumes ok: "flight_ok s" and q: "q \<in> set (selected_qtask_ids s)"
  shows "flight_ok (enter_flight q h s)"
proof -
  have lim: "dispatch_limit (enter_flight q h s) = dispatch_limit s"
    by (rule limit_cong) (simp_all add: enter_flight_def table_ops Let_def split: option.splits)
  have "selected_qtask_ids (enter_flight q h s) = removeAll q (selected_qtask_ids s)"
    "provider_inflight (enter_flight q h s) = List.insert q (provider_inflight s)"
    by (simp_all add: enter_flight_def table_ops Let_def split: option.splits)
  moreover have "length (removeAll q (selected_qtask_ids s)) < length (selected_qtask_ids s)"
    using q by (rule length_removeAll_less)
  moreover have "length (List.insert q (provider_inflight s)) \<le> Suc (length (provider_inflight s))"
    by (simp add: List.insert_def)
  ultimately show ?thesis using ok lim by (auto simp: flight_ok_def)
qed

lemma start_keeps_flight:
  assumes ok: "flight_ok s" and q: "info_qtask_id cid s = Inr q" "q \<in> set (selected_qtask_ids s)"
  shows "flight_ok (snd (start_provider_submission env cid handle s))"
proof -
  have claim: "flight_ok (release_dispatch_claim q s)"
    by (rule flight_ok_less [OF ok]) (auto simp: release_dispatch_claim_def intro: limit_cong)
  let ?J = "\<lambda>s. flight_ok s \<and> q \<in> set (selected_qtask_ids s)"
  have blind: "world_blind ?J" using flight_ok_blind by (simp add: world_blind_def)
  have "valid ?J (seqM (if rt_scheduler_task_id r \<noteq> PNone
        then mark_scheduler_task_started env (rt_scheduler_task_id r) else retM ())
      (seqM (modM (enter_flight q handle)) (getM (task_for_qtask_id q)))) (\<lambda>_. flight_ok) (\<lambda>_. flight_ok)" for r
  proof (rule valid_seq [OF valid_keeps_post [where J = ?J]])
    show "keeps ?J (if rt_scheduler_task_id r \<noteq> PNone
        then mark_scheduler_task_started env (rt_scheduler_task_id r) else retM ())"
      by (intro keeps_rules keeps_scheduler blind)
    show "valid ?J (seqM (modM (enter_flight q handle)) (getM (task_for_qtask_id q))) (\<lambda>_. flight_ok) (\<lambda>_. flight_ok)"
      by (rule valid_mod_then [OF _ keeps_get]) (auto intro: enter_flight_limit)
  qed simp
  note flight = valid_snd [OF this [of "the (task_for_qtask_id q s)"], of s]
  have "circuit_qtask_id cid s = (Inr q, s)" by (simp add: circuit_qtask_id_def bindM_get liftM_def q)
  with flight ok q claim show ?thesis
    by (cases "rt_scheduler_task_id (the (task_for_qtask_id q s)) = PNone")
      (simp_all add: start_provider_submission_def bindM_Inr bindM_get seqM_mod raiseM_def retM_def)
qed

end
