(* ===== verification/QPM_Close.thy ===== *)
theory QPM_Close
  imports QPM_Dispatch
begin

text \<open>
  Closing a reservation (\<^verbatim>\<open>_close_reservation\<close> and the functions it calls) and the provider
  credentials bound to reservations. Closing removes the tasks that wait for capacity, cancels
  and settles the ones that hold it, and waits for providers that cannot be cancelled; only then
  does it ask qhw-admission to release, cancel or expire the reservation. A reservation record of
  qhw-admission carries an integer identifier; a record without one stands for identifier 0,
  which no reservation has.
\<close>

section \<open>Close records\<close>

definition record_reservation_id :: "pydict \<Rightarrow> int" where
  "record_reservation_id reservation = (case pget reservation ''reservation_id'' of PInt i \<Rightarrow> i | _ \<Rightarrow> 0)"

definition new_close_record :: "string \<Rightarrow> int \<Rightarrow> close_record" where
  "new_close_record kind now =
     \<lparr>cl_reason = kind, cl_started_at_ns = now, pending_removed = [], held_reconciled = [],
      scheduler_cancelled = [], provider_cancelled = [], provider_cancel_pending = [],
      provider_cancel_resolved = [], cl_status = None, completed_at_ns = None\<rparr>"

definition reservation_close_state_locked :: "int \<Rightarrow> string \<Rightarrow> int \<Rightarrow> controller \<Rightarrow> controller" where
  "reservation_close_state_locked rid kind now s =
     (let c = (case map_of (reservation_close_state s) rid of Some c \<Rightarrow> c | None \<Rightarrow> new_close_record kind now)
      in s\<lparr>reservation_close_state := dset rid (c\<lparr>cl_reason := kind\<rparr>) (reservation_close_state s)\<rparr>)"

definition upd_close :: "int \<Rightarrow> (close_record \<Rightarrow> close_record) \<Rightarrow> controller \<Rightarrow> controller" where
  "upd_close rid f s =
     (case map_of (reservation_close_state s) rid of
        None \<Rightarrow> s
      | Some c \<Rightarrow> s\<lparr>reservation_close_state := dset rid (f c) (reservation_close_state s)\<rparr>)"

definition close_reason :: "int \<Rightarrow> controller \<Rightarrow> pyval" where
  "close_reason rid s = (case map_of (reservation_close_state s) rid of Some c \<Rightarrow> PStr (cl_reason c) | None \<Rightarrow> PNone)"

definition cancel_pending_ids :: "int \<Rightarrow> controller \<Rightarrow> int list" where
  "cancel_pending_ids rid s =
     (case map_of (reservation_close_state s) rid of Some c \<Rightarrow> provider_cancel_pending c | None \<Rightarrow> [])"

definition append_item :: "int \<Rightarrow> int list \<Rightarrow> int list" where
  "append_item x xs = (if x \<in> set xs then xs else xs @ [x])"

definition add_cancel_pending :: "int \<Rightarrow> int \<Rightarrow> controller \<Rightarrow> controller" where
  "add_cancel_pending rid qtask_id =
     upd_close rid (\<lambda>c. c\<lparr>provider_cancel_pending := append_item qtask_id (provider_cancel_pending c)\<rparr>)"

section \<open>Cancelling the tasks of a reservation\<close>

definition cancel_scheduler_for_close :: "qpm_env \<Rightarrow> int \<Rightarrow> runtime_task \<Rightarrow> unit ctl" where
  "cancel_scheduler_for_close env rid runtime =
     tryM (seqM (mark_scheduler_task_cancelled env (rt_scheduler_task_id runtime))
             (modM (upd_close rid (\<lambda>c. c\<lparr>scheduler_cancelled := scheduler_cancelled c @ [rt_qtask_id runtime]\<rparr>))))
       (\<lambda>error. seqM (record_reconciliation_fault env (task_fault runtime ''scheduler-cancel-failed''
           [(''scheduler_task_id'', rt_scheduler_task_id runtime), (''scheduler_error'', PStr (exc_text error))]))
         (retM ()))"

definition cancel_provider_for_close :: "qpm_env \<Rightarrow> int \<Rightarrow> runtime_task \<Rightarrow> bool ctl" where
  "cancel_provider_for_close env rid runtime =
     bindM (getM provider_canceller) (\<lambda>canceller.
       case rt_provider_handle runtime of
         None \<Rightarrow> retM False
       | Some handle \<Rightarrow>
           if \<not> canceller then retM False
           else bindM (tryM (bindM (call_provider_canceller env handle) (\<lambda>status. retM (Inr status)))
                        (\<lambda>error. retM (Inl error)))
                  (\<lambda>outcome. case outcome of
                     Inl error \<Rightarrow>
                       seqM (record_reconciliation_fault env (task_fault runtime ''provider-cancel-failed''
                              [(''provider_handle'', PStr handle), (''provider_error'', PStr (exc_text error))]))
                         (seqM (modM (add_cancel_pending rid (rt_qtask_id runtime))) (retM False))
                   | Inr status \<Rightarrow>
                       if \<not> provider_cancel_is_terminal status
                       then seqM (modM (add_cancel_pending rid (rt_qtask_id runtime))) (retM False)
                       else seqM (modM (upd_close rid (\<lambda>c. c\<lparr>provider_cancelled :=
                                    provider_cancelled c @ [(rt_qtask_id runtime, handle, status)]\<rparr>)))
                              (retM True)))"

definition drop_inflight :: "int \<Rightarrow> controller \<Rightarrow> controller" where
  "drop_inflight qtask_id s = s\<lparr>provider_inflight := removeAll qtask_id (provider_inflight s)\<rparr>"

definition drop_selected :: "int \<Rightarrow> controller \<Rightarrow> controller" where
  "drop_selected qtask_id s = s\<lparr>selected_qtask_ids := removeAll qtask_id (selected_qtask_ids s)\<rparr>"

definition provider_active :: "runtime_task \<Rightarrow> controller \<Rightarrow> bool" where
  "provider_active runtime s \<longleftrightarrow>
     rt_provider_handle runtime \<noteq> None \<or> rt_qtask_id runtime \<in> set (provider_inflight s)"

definition cancel_runtime_for_close :: "qpm_env \<Rightarrow> int \<Rightarrow> runtime_task \<Rightarrow> bool ctl" where
  "cancel_runtime_for_close env rid runtime =
     (let q = rt_qtask_id runtime
      in seqM (if rt_scheduler_task_id runtime \<noteq> PNone then cancel_scheduler_for_close env rid runtime else retM ())
         (seqM (modM (drop_selected q))
         (bindM (getM (provider_active runtime)) (\<lambda>active.
            if active
            then bindM (cancel_provider_for_close env rid runtime) (\<lambda>cancelled.
                   if cancelled
                   then seqM (modM (\<lambda>s. set_runtime_state q QPM_TASK_CANCELLED (drop_inflight q s))) (retM True)
                   else bindM (getM (cancel_pending_ids rid)) (\<lambda>pending.
                          if q \<in> set pending then retM False
                          else seqM (record_reconciliation_fault env (task_fault runtime ''provider-cancel-required''
                                 ([(''lifecycle_state'', state_value runtime)] @
                                  (case rt_provider_handle runtime of
                                     Some h \<Rightarrow> [(''provider_handle'', PStr h)] | None \<Rightarrow> []))))
                                 (seqM (modM (add_cancel_pending rid q)) (retM False))))
            else seqM (modM (\<lambda>s. let s = drop_inflight q s
                                 in set_runtime_state q QPM_TASK_CANCELLED
                                      (s\<lparr>circuits := removeAll (rt_cid runtime) (circuits s)\<rparr>)))
                   (retM True)))))"

text \<open>The completion record of a task that closing has cancelled.\<close>

definition close_delivery :: "qpm_env \<Rightarrow> int \<Rightarrow> int \<Rightarrow> completion_delivery list ctl" where
  "close_delivery env rid qtask_id =
     bindM (getM id) (\<lambda>s.
       case task_for_qtask_id qtask_id s of
         None \<Rightarrow> retM []
       | Some runtime \<Rightarrow>
           bindM (task_status env runtime (PStr ''CANCELLED'') (close_reason rid s) PNone PNone) (\<lambda>status.
           bindM (terminal_completion_delivery env runtime (Some status)) (\<lambda>delivery.
             retM (case delivery of Some d \<Rightarrow> [d] | None \<Rightarrow> []))))"

definition remove_pending_task ::
  "qpm_env \<Rightarrow> int \<Rightarrow> bool \<Rightarrow> int \<times> pending_entry \<Rightarrow> completion_delivery list ctl" where
  "remove_pending_task env rid deliver item =
     (if pe_reservation_id (snd item) \<noteq> Some rid then retM []
      else seqM (modM (\<lambda>s. s\<lparr>pending_capacity := dpop (fst item) (pending_capacity s)\<rparr>))
        (bindM (getM (task_for_qtask_id (fst item))) (\<lambda>found.
         bindM (case found of
                  None \<Rightarrow> retM []
                | Some runtime \<Rightarrow>
                    bindM (cancel_runtime_for_close env rid runtime) (\<lambda>cancelled.
                      if cancelled \<and> deliver then close_delivery env rid (fst item) else retM []))
           (\<lambda>deliveries.
            seqM (modM (upd_close rid (\<lambda>c. c\<lparr>pending_removed := pending_removed c @ [fst item]\<rparr>)))
              (retM deliveries)))))"

definition remove_pending_for_reservation :: "qpm_env \<Rightarrow> int \<Rightarrow> bool \<Rightarrow> completion_delivery list ctl" where
  "remove_pending_for_reservation env rid deliver =
     bindM (getM pending_capacity) (\<lambda>items. collectM items (remove_pending_task env rid deliver))"

definition settle_closed_hold ::
  "qpm_env \<Rightarrow> int \<Rightarrow> bool \<Rightarrow> int \<Rightarrow> capacity_hold \<Rightarrow> runtime_task option \<Rightarrow> completion_delivery list ctl" where
  "settle_closed_hold env rid deliver q hold found =
     seqM (modM (pop_hold q))
     (bindM (getM (\<lambda>s. case found of Some r \<Rightarrow> listed_circuit (rt_cid r) s | None \<Rightarrow> None)) (\<lambda>circuit.
      seqM (finalize_capacity_hold env q rid (ch_usage hold) found circuit)
      (seqM (modM (pop_usage_event q))
      (seqM (modM (upd_close rid (\<lambda>c. c\<lparr>held_reconciled := held_reconciled c @ [q]\<rparr>)))
        (if found \<noteq> None \<and> deliver then close_delivery env rid q else retM [])))))"

definition reconcile_closed_hold ::
  "qpm_env \<Rightarrow> int \<Rightarrow> bool \<Rightarrow> int \<times> capacity_hold \<Rightarrow> completion_delivery list ctl" where
  "reconcile_closed_hold env rid deliver item =
     (if ch_reservation_id (snd item) \<noteq> rid then retM []
      else bindM (getM (task_for_qtask_id (fst item))) (\<lambda>found.
        case found of
          None \<Rightarrow> settle_closed_hold env rid deliver (fst item) (snd item) found
        | Some runtime \<Rightarrow>
            bindM (cancel_runtime_for_close env rid runtime) (\<lambda>cancelled.
              if \<not> cancelled then retM []
              else settle_closed_hold env rid deliver (fst item) (snd item) found)))"

definition reconcile_holds_for_reservation :: "qpm_env \<Rightarrow> int \<Rightarrow> bool \<Rightarrow> completion_delivery list ctl" where
  "reconcile_holds_for_reservation env rid deliver =
     bindM (getM capacity_holds) (\<lambda>items. collectM items (reconcile_closed_hold env rid deliver))"

definition provider_cancel_pending_resolved :: "int \<Rightarrow> controller \<Rightarrow> bool" where
  "provider_cancel_pending_resolved q s =
     (if has_key (capacity_holds s) q then False
      else if q \<in> set (provider_inflight s) then False
      else case map_of (runtime_by_qtask_id s) q of
             Some r \<Rightarrow> terminal_state (rt_state r)
           | None \<Rightarrow> (case map_of (terminal_tasks_by_qtask_id s) q of
                        Some r \<Rightarrow> terminal_state (rt_state r) | None \<Rightarrow> True))"

definition refresh_provider_cancel_pending :: "int \<Rightarrow> controller \<Rightarrow> controller" where
  "refresh_provider_cancel_pending rid s =
     upd_close rid (\<lambda>c. c\<lparr>provider_cancel_resolved :=
         foldl (\<lambda>xs q. append_item q xs) (provider_cancel_resolved c)
           (filter (\<lambda>q. provider_cancel_pending_resolved q s) (provider_cancel_pending c)),
       provider_cancel_pending :=
         filter (\<lambda>q. \<not> provider_cancel_pending_resolved q s) (provider_cancel_pending c)\<rparr>) s"

section \<open>Credentials\<close>

definition remove_provider_credential :: "int \<Rightarrow> controller \<Rightarrow> controller" where
  "remove_provider_credential rid s =
     (let record = map_of (reservation_credentials_by_id s) rid;
          s = s\<lparr>reservation_credentials_by_id := dpop rid (reservation_credentials_by_id s)\<rparr>
      in if record \<noteq> None \<or> provider_credential_evictor s
         then s\<lparr>credential_cleanup_queue := credential_cleanup_queue s @ [(rid, record)]\<rparr> else s)"

definition cleanup_error :: "int \<Rightarrow> string \<Rightarrow> exc \<Rightarrow> pydict" where
  "cleanup_error rid stage error =
     [(''reservation_id'', PInt rid), (''stage'', PStr stage), (''error'', PStr (exc_text error))]"

definition attempt_cleanup :: "qpm_env \<Rightarrow> bool \<Rightarrow> ext_call \<Rightarrow> int \<Rightarrow> string \<Rightarrow> pydict list ctl" where
  "attempt_cleanup env wanted call rid stage =
     (if \<not> wanted then retM []
      else tryM (seqM (ext env call) (retM [])) (\<lambda>error. retM [cleanup_error rid stage error]))"

definition cleanup_credential :: "qpm_env \<Rightarrow> int \<times> credential_record option \<Rightarrow> pydict list ctl" where
  "cleanup_credential env item =
     bindM (getM provider_credential_evictor) (\<lambda>evictor.
     bindM (attempt_cleanup env (case snd item of Some r \<Rightarrow> (case cr_provider r of Some p \<Rightarrow> is_plugin p | None \<Rightarrow> False) | None \<Rightarrow> False)
              (CredentialRelease (fst item)) (fst item) ''credential-provider-release'') (\<lambda>released.
     bindM (attempt_cleanup env evictor (EvictClient (fst item)) (fst item) ''provider-client-eviction'') (\<lambda>evicted.
       retM (released @ evicted))))"

definition drain_provider_credential_cleanup :: "qpm_env \<Rightarrow> pydict list ctl" where
  "drain_provider_credential_cleanup env =
     bindM (getM credential_cleanup_queue) (\<lambda>queued.
     seqM (modM (\<lambda>s. s\<lparr>credential_cleanup_queue := []\<rparr>))
     (bindM (collectM queued (cleanup_credential env)) (\<lambda>errors.
      seqM (forM errors (\<lambda>error. record_reconciliation_fault env ((''reason'', PStr ''credential-cleanup-failed'') # error)))
        (retM errors))))"

definition clear_provider_credentials :: "qpm_env \<Rightarrow> pydict list ctl" where
  "clear_provider_credentials env =
     bindM (getM (\<lambda>s. dkeys (reservation_credentials_by_id s))) (\<lambda>rids.
     seqM (forM rids (\<lambda>rid. modM (remove_provider_credential rid)))
       (drain_provider_credential_cleanup env))"

section \<open>Closing\<close>

definition expired_active :: "int \<Rightarrow> pydict \<Rightarrow> exc + bool" where
  "expired_active now reservation =
     (if pget reservation ''state'' \<noteq> PStr ''active'' then Inr False
      else let expires = pget reservation ''expires_at_ns''
           in if \<not> py_truth expires then Inr False
              else case py_number expires of Inl e \<Rightarrow> Inl e | Inr t \<Rightarrow> Inr (t \<le> now))"

fun expired_ids :: "int \<Rightarrow> pydict list \<Rightarrow> int list \<Rightarrow> exc + int list" where
  "expired_ids now [] seen = Inr seen"
| "expired_ids now (r # rs) seen =
     (case expired_active now r of
        Inl e \<Rightarrow> Inl e
      | Inr expired \<Rightarrow> expired_ids now rs (if expired then append_item (record_reservation_id r) seen else seen))"

definition expired_active_reservation_ids :: "qpm_env \<Rightarrow> int \<Rightarrow> int \<Rightarrow> int list ctl" where
  "expired_active_reservation_ids env rid now =
     bindM (tryM (list_reservations env []) (\<lambda>_. retM [])) (\<lambda>reservations.
     bindM (tryM (bindM (get_reservation env rid) (\<lambda>r. retM [r])) (\<lambda>_. retM [])) (\<lambda>requested.
       liftM (expired_ids now (reservations @ requested) [])))"

definition close_tasks_of :: "qpm_env \<Rightarrow> int \<Rightarrow> bool \<Rightarrow> completion_delivery list ctl" where
  "close_tasks_of env rid deliver =
     bindM (remove_pending_for_reservation env rid deliver) (\<lambda>removed.
     bindM (reconcile_holds_for_reservation env rid deliver) (\<lambda>reconciled.
     seqM (modM (refresh_provider_cancel_pending rid)) (retM (removed @ reconciled))))"

definition int_list :: "int list \<Rightarrow> pyval" where
  "int_list xs = PList (map PInt xs)"

definition finish_expired :: "qpm_env \<Rightarrow> int \<Rightarrow> unit ctl" where
  "finish_expired env rid =
     bindM (time_ns env) (\<lambda>t. modM (\<lambda>s.
       let s = upd_close rid (\<lambda>c. c\<lparr>completed_at_ns := Some t, cl_status := Some ''accepted''\<rparr>) s;
           s = s\<lparr>reservation_metadata_by_id := dpop rid (reservation_metadata_by_id s)\<rparr>;
           s = remove_provider_credential rid s
       in mark_completion_queue_terminal rid t s))"

definition note_cancel_waiting :: "int \<Rightarrow> controller \<Rightarrow> controller" where
  "note_cancel_waiting rid = upd_close rid (\<lambda>c. c\<lparr>cl_status := Some ''provider-cancel-pending''\<rparr>)"

definition close_expired_reservations ::
  "qpm_env \<Rightarrow> int \<Rightarrow> int \<Rightarrow> bool \<Rightarrow> (pydict \<times> completion_delivery list) ctl" where
  "close_expired_reservations env rid now deliver =
     bindM (expired_active_reservation_ids env rid now) (\<lambda>found.
     let rids = (if found = [] then [rid] else found)
     in seqM (forM rids (\<lambda>r. modM (reservation_close_state_locked r ''expire'' now)))
        (bindM (collectM rids (\<lambda>r. close_tasks_of env r deliver)) (\<lambda>deliveries.
         bindM (getM (\<lambda>s. filter (\<lambda>r. cancel_pending_ids r s \<noteq> []) rids)) (\<lambda>waiting.
         bindM (getM (\<lambda>s. concat (map (\<lambda>r. cancel_pending_ids r s) waiting))) (\<lambda>pending.
         seqM (forM waiting (\<lambda>r. modM (note_cancel_waiting r)))
           (if pending \<noteq> []
            then retM ([(''status'', PStr ''pending''), (''reservation_id'', PInt rid),
                        (''reason'', PStr ''provider-cancel-pending''),
                        (''pending_reservation_ids'', int_list waiting), (''pending_qtask_ids'', int_list pending)],
                       deliveries)
            else seqM (expire_reservations env now)
                   (seqM (forM rids (finish_expired env))
                     (retM ([(''status'', PStr ''accepted''), (''reservation_id'', PInt rid),
                             (''reason'', PStr ''expired'')], deliveries)))))))))"

datatype close_kind = Release | Cancel | Expire

fun close_kind_text :: "close_kind \<Rightarrow> string" where
  "close_kind_text Release = ''release''"
| "close_kind_text Cancel = ''cancel''"
| "close_kind_text Expire = ''expire''"

text \<open>Of the three kinds the first two take a time reading of their own when none is given.\<close>

definition ask_admission_to_close :: "qpm_env \<Rightarrow> int \<Rightarrow> close_kind \<Rightarrow> pyval \<Rightarrow> pydict ctl" where
  "ask_admission_to_close env rid kind reason_code =
     (case kind of
        Release \<Rightarrow> release_reservation env rid reason_code
      | Cancel \<Rightarrow> cancel_reservation env rid reason_code
      | Expire \<Rightarrow> raiseM (QPMAdmissionValidationError ''unsupported reservation close kind: expire''))"

definition close_reservation ::
  "qpm_env \<Rightarrow> int \<Rightarrow> close_kind \<Rightarrow> pyval \<Rightarrow> int option \<Rightarrow> bool \<Rightarrow> (pydict \<times> completion_delivery list) ctl" where
  "close_reservation env rid kind reason_code now deliver =
     bindM (case now of Some n \<Rightarrow> if n \<noteq> 0 then retM n else time_ns env | None \<Rightarrow> time_ns env) (\<lambda>now.
       if kind = Expire then close_expired_reservations env rid now deliver
       else seqM (modM (reservation_close_state_locked rid (close_kind_text kind) now))
         (bindM (close_tasks_of env rid deliver) (\<lambda>deliveries.
          bindM (getM (cancel_pending_ids rid)) (\<lambda>pending.
            if pending \<noteq> []
            then seqM (modM (note_cancel_waiting rid))
                   (retM ([(''status'', PStr ''pending''), (''reservation_id'', PInt rid),
                           (''reason'', PStr ''provider-cancel-pending''), (''pending_qtask_ids'', int_list pending)],
                          deliveries))
            else bindM (ask_admission_to_close env rid kind reason_code) (\<lambda>result.
                 bindM (time_ns env) (\<lambda>done.
                 let status = py_str (pgetd result ''status'' (PStr ''accepted''))
                 in seqM (modM (\<lambda>s.
                      let s = upd_close rid (\<lambda>c. c\<lparr>completed_at_ns := Some done, cl_status := Some status\<rparr>) s
                      in if status = ''accepted'' then mark_completion_queue_terminal rid done s else s))
                    (retM (result, deliveries))))))))"

text \<open>\<^verbatim>\<open>release_admission\<close> and \<^verbatim>\<open>cancel_admission\<close>, which differ in the kind only.\<close>

definition close_admission :: "qpm_env \<Rightarrow> close_kind \<Rightarrow> pyval \<Rightarrow> pyval \<Rightarrow> pydict ctl" where
  "close_admission env kind reservation_id reason_code =
     bindM (liftM (normalize_reservation_id reservation_id False)) (\<lambda>rid.
     bindM (close_reservation env rid kind reason_code None True) (\<lambda>(result, deliveries).
     seqM (if pget result ''status'' = PStr ''accepted''
           then modM (\<lambda>s. remove_provider_credential rid
                  (s\<lparr>reservation_metadata_by_id := dpop rid (reservation_metadata_by_id s)\<rparr>))
           else retM ())
     (seqM (dispatch_completion_deliveries env deliveries)
     (bindM (drain_provider_credential_cleanup env) (\<lambda>errors.
        retM (if errors \<noteq> [] then dset ''credential_cleanup_errors'' (PList (map PDict errors)) result else result))))))"

definition release_admission :: "qpm_env \<Rightarrow> pyval \<Rightarrow> pyval \<Rightarrow> pydict ctl" where
  "release_admission env = close_admission env Release"

definition cancel_admission :: "qpm_env \<Rightarrow> pyval \<Rightarrow> pyval \<Rightarrow> pydict ctl" where
  "cancel_admission env = close_admission env Cancel"

section \<open>Validity of a reservation\<close>

definition require_reservation_active :: "pydict \<Rightarrow> string \<Rightarrow> unit ctl" where
  "require_reservation_active reservation operation =
     (if pget reservation ''state'' = PStr ''active'' then retM ()
      else raiseM (QPMAdmissionValidationError (''invalid reservation for '' @ operation @ '': state='' @
             py_str (pget reservation ''state''))))"

definition require_reservation_not_expired :: "qpm_env \<Rightarrow> pydict \<Rightarrow> unit ctl" where
  "require_reservation_not_expired env reservation =
     (let expires = pget reservation ''expires_at_ns''
      in if \<not> py_truth expires then retM ()
         else bindM (time_ns env) (\<lambda>now.
              bindM (liftM (py_number expires)) (\<lambda>t.
                if t > now then retM ()
                else seqM (close_reservation env (record_reservation_id reservation) Expire (PInt 0) (Some now) False)
                       (raiseM (QPMAdmissionValidationError (''expired reservation: reservation_id='' @
                          py_str (pget reservation ''reservation_id'')))))))"

definition require_pending_capacity_reservation_valid ::
  "qpm_env \<Rightarrow> int \<Rightarrow> pending_entry \<Rightarrow> runtime_task \<Rightarrow> unit ctl" where
  "require_pending_capacity_reservation_valid env qtask_id pending runtime =
     (case pe_reservation_id pending of
        None \<Rightarrow> raiseM (QPMAdmissionValidationError (''pending capacity is missing reservation_id: qtask_id='' @
                  int_text qtask_id))
      | Some rid \<Rightarrow>
          if rt_reservation_id runtime \<noteq> Some rid
          then raiseM (QPMAdmissionValidationError (''pending capacity reservation mismatch: qtask_id='' @ int_text qtask_id))
          else bindM (getM reservation_close_state) (\<lambda>closing.
            if has_key closing rid
            then raiseM (QPMAdmissionValidationError (''reservation is closing: reservation_id='' @ int_text rid))
            else bindM (tryM (get_reservation env rid) (\<lambda>error.
                   raiseM (QPMAdmissionValidationError (''reservation lookup failed: reservation_id='' @ int_text rid @
                     '' error='' @ exc_text error)))) (\<lambda>reservation.
                 seqM (require_reservation_active reservation ''pending capacity retry'')
                   (require_reservation_not_expired env reservation))))"

section \<open>Retrying tasks that wait for capacity\<close>

definition pop_pending :: "int \<Rightarrow> controller \<Rightarrow> controller" where
  "pop_pending qtask_id s = s\<lparr>pending_capacity := dpop qtask_id (pending_capacity s)\<rparr>"

definition retry_result :: "int \<Rightarrow> string \<Rightarrow> pydict \<Rightarrow> pydict" where
  "retry_result qtask_id status decision =
     [(''qtask_id'', PInt qtask_id), (''status'', PStr status), (''decision'', PDict decision)]"

definition reject_pending_capacity :: "int \<Rightarrow> pending_entry \<Rightarrow> string \<Rightarrow> pydict ctl" where
  "reject_pending_capacity qtask_id pending message =
     seqM (modM (pop_pending qtask_id))
     (seqM (modM (\<lambda>s. if task_ended (task_for_qtask_id qtask_id s) then s
                      else set_runtime_state qtask_id QPM_TASK_FAILED s))
        (retM (retry_result qtask_id ''rejected''
           [(''status'', PStr ''rejected''), (''reason'', PStr ''invalid-reservation''),
            (''reservation_id'', opt_int (pe_reservation_id pending)), (''message'', PStr message)])))"

definition note_decision :: "int \<Rightarrow> pending_entry \<Rightarrow> pydict \<Rightarrow> controller \<Rightarrow> controller" where
  "note_decision qtask_id pending decision s =
     s\<lparr>pending_capacity := dset qtask_id (pending\<lparr>pe_decision := decision\<rparr>) (pending_capacity s)\<rparr>"

definition drop_rejected :: "int \<Rightarrow> string \<Rightarrow> pydict \<Rightarrow> pydict ctl" where
  "drop_rejected qtask_id status decision =
     seqM (modM (\<lambda>s. pop_pending qtask_id (set_runtime_state qtask_id QPM_TASK_FAILED s)))
       (retM (retry_result qtask_id status decision))"

definition retry_usage :: "qpm_env \<Rightarrow> int \<Rightarrow> pending_entry \<Rightarrow> int \<Rightarrow> pydict ctl" where
  "retry_usage env qtask_id pending rid =
     bindM (authorize_usage env rid (pe_usage pending)) (\<lambda>authorized.
       if pget authorized ''status'' = PStr ''delayed''
       then seqM (modM (note_decision qtask_id pending authorized)) (retM (retry_result qtask_id ''delayed'' authorized))
       else if pget authorized ''status'' \<noteq> PStr ''accepted''
       then drop_rejected qtask_id ''rejected'' authorized
       else bindM (consume_usage env rid (pe_usage pending)) (\<lambda>committed.
         if pget committed ''status'' \<noteq> PStr ''accepted''
         then drop_rejected qtask_id ''commit-failed'' committed
         else seqM (modM (pop_pending qtask_id))
              (seqM (modM (hold_capacity qtask_id rid (pe_usage pending) committed))
              (seqM (record_usage_event qtask_id qtask_id)
              (seqM (modM (set_runtime_state qtask_id QPM_TASK_CAPACITY_HELD))
                (retM (retry_result qtask_id ''accepted'' committed)))))))"

text \<open>The validity check as the loop uses it: a validation error rejects the entry, anything else escapes.\<close>

definition pending_rejection ::
  "qpm_env \<Rightarrow> int \<Rightarrow> pending_entry \<Rightarrow> runtime_task \<Rightarrow> pydict option ctl" where
  "pending_rejection env qtask_id pending runtime =
     tryM (seqM (require_pending_capacity_reservation_valid env qtask_id pending runtime) (retM None))
       (\<lambda>error. case error of
          QPMAdmissionValidationError message \<Rightarrow>
            bindM (reject_pending_capacity qtask_id pending message) (\<lambda>r. retM (Some r))
        | _ \<Rightarrow> raiseM error)"

definition retry_pending_task :: "qpm_env \<Rightarrow> int option \<Rightarrow> int \<times> pending_entry \<Rightarrow> pydict list ctl" where
  "retry_pending_task env reservation_id item =
     (case item of (qtask_id, pending) \<Rightarrow>
        if reservation_id \<noteq> None \<and> pe_reservation_id pending \<noteq> reservation_id then retM []
        else bindM (getM (task_for_qtask_id qtask_id)) (\<lambda>found.
          case found of
            None \<Rightarrow> seqM (modM (pop_pending qtask_id)) (retM [])
          | Some runtime \<Rightarrow>
              bindM (pending_rejection env qtask_id pending runtime) (\<lambda>rejected.
                case rejected of
                  Some r \<Rightarrow> retM [r]
                | None \<Rightarrow>
                    (case pe_reservation_id pending of
                       None \<Rightarrow> retM []
                     | Some rid \<Rightarrow> bindM (retry_usage env qtask_id pending rid) (\<lambda>r. retM [r])))))"

definition retry_pending_capacity :: "qpm_env \<Rightarrow> int option \<Rightarrow> pydict list ctl" where
  "retry_pending_capacity env reservation_id =
     bindM (getM pending_capacity) (\<lambda>items.
     bindM (collectM items (retry_pending_task env reservation_id)) (\<lambda>results.
     seqM (drain_provider_credential_cleanup env) (retM results)))"

end
