(* ===== verification/QPM_Reservations.thy ===== *)
theory QPM_Reservations
  imports QPM_Close
begin

text \<open>
  Reservations as clients see them (\<^verbatim>\<open>services/util/qpm/controller.py\<close>): the admission request the
  controller builds from a caller's request, the secret-free binding it records, reserving,
  renewing and listing, binding a provider credential to a reservation and handing it to a
  circuit, and the check that an execution request belongs to the reservation it names.
\<close>

section \<open>The admission request\<close>

definition RESERVATION_BINDING_SCHEMA :: string where
  "RESERVATION_BINDING_SCHEMA = ''qfw-reservation-binding-v1''"

text \<open>The request with the parts that \<^verbatim>\<open>_admission_request\<close> reads from it first.\<close>

record request_parts =
  rq_request :: pydict
  rq_owner :: pydict
  rq_policy :: pydict
  rq_workload :: pydict
  rq_run_context :: pydict
  rq_operation :: pyval
  rq_device_external :: pyval
  rq_scope_external :: pyval
  rq_user_external :: pyval
  rq_job_external :: pyval

record request_ids =
  id_device :: int
  id_scope :: int
  id_user :: int
  id_job :: int

definition request_parts_of :: "pydict \<Rightarrow> string \<Rightarrow> exc + request_parts" where
  "request_parts_of request target =
     bindE (py_dict (pgetd request ''owner'' (PDict []))) (\<lambda>owner.
     bindE (py_dict (pgetd request ''policy'' (PDict []))) (\<lambda>policy.
     bindE (py_dict (pgetd request ''workload'' (PDict []))) (\<lambda>workload.
     bindE (py_dict (pgetd request ''run_context'' (PDict []))) (\<lambda>run_context.
       Inr \<lparr>rq_request = request, rq_owner = owner, rq_policy = policy, rq_workload = workload,
            rq_run_context = run_context,
            rq_operation = py_or (pget request ''operation'') (py_or (pget request ''operation_type'')
              (py_or (pget run_context ''operation'') (pget workload ''operation''))),
            rq_device_external = py_or (pget request ''target_device_id'') (py_or (pget request ''device_id'') (PStr target)),
            rq_scope_external = pgetd request ''scope_id'' (PInt 0),
            rq_user_external = py_or (pget request ''user_id'') (py_or (owner_identifier owner) (PStr ''anonymous'')),
            rq_job_external = py_or (pget request ''job_id'') (py_or (pget request ''allocation_id'') (PInt 0))\<rparr>))))"

definition request_ids_of :: "request_parts \<Rightarrow> request_ids ctl" where
  "request_ids_of p =
     (let request = rq_request p
      in bindM (numeric_or_canonical ''device_id'' (pget request ''device_numeric_id'') (rq_device_external p)) (\<lambda>device.
         bindM (numeric_or_canonical ''scope_id'' (pget request ''scope_numeric_id'') (rq_scope_external p)) (\<lambda>scope.
         bindM (numeric_or_canonical ''user_id'' (pget request ''user_numeric_id'') (rq_user_external p)) (\<lambda>user.
         bindM (numeric_or_canonical ''job_id'' (pget request ''job_numeric_id'') (rq_job_external p)) (\<lambda>job.
           retM \<lparr>id_device = device, id_scope = scope, id_user = user, id_job = job\<rparr>)))))"

definition admission_task_class :: "pydict \<Rightarrow> exc + pydict" where
  "admission_task_class request =
     bindE (py_dict (pgetd request ''task_class'' (PDict []))) (\<lambda>task_class.
       Inr [(''class_id'', pgetd task_class ''class_id'' (PInt 1)), (''count'', pgetd task_class ''count'' (PInt 1)),
            (''qubit_count'', py_or (pget task_class ''qubit_count'') (py_or (pget request ''qubit_count'')
               (py_or (pget request ''num_qubits'') (PInt 1)))),
            (''depth'', pgetd task_class ''depth'' (pgetd request ''depth'' (PInt 1))),
            (''one_q_gate_count'', pgetd task_class ''one_q_gate_count'' (pgetd request ''one_q_gate_count'' (PInt 0))),
            (''two_q_gate_count'', pgetd task_class ''two_q_gate_count'' (pgetd request ''two_q_gate_count'' (PInt 0))),
            (''shots'', py_or (pget task_class ''shots'') (py_or (pget request ''shots'')
               (py_or (pget request ''num_shots'') (PInt 1)))),
            (''measurement_count'', pgetd task_class ''measurement_count'' (pgetd request ''measurement_count'' (PInt 1)))])"

definition request_workload_kind :: "request_parts \<Rightarrow> pyval" where
  "request_workload_kind p =
     py_or (pget (rq_request p) ''workload_kind'') (py_or (pget (rq_request p) ''workload_type'')
       (py_or (pget (rq_workload p) ''kind'') (py_or (pget (rq_workload p) ''type'') (PStr ''quantum''))))"

definition request_walltime :: "request_parts \<Rightarrow> pyval" where
  "request_walltime p = pgetd (rq_request p) ''walltime_ns'' (PInt 0)"

definition request_ttl :: "request_parts \<Rightarrow> pyval" where
  "request_ttl p = pgetd (rq_request p) ''ttl_ns'' (pgetd (rq_request p) ''expiration_ttl_ns'' (PInt 0))"

section \<open>The binding\<close>

definition launcher_metadata :: "request_parts \<Rightarrow> request_ids \<Rightarrow> pydict \<Rightarrow> pydict" where
  "launcher_metadata p ids launcher =
     (let request = rq_request p;
          scheduler = py_or (pget request ''scheduler'') (pget request ''launcher_name'');
          launcher = (if \<not> has_key launcher ''scheduler'' \<and> scheduler \<noteq> PNone
                      then dset ''scheduler'' scheduler launcher else launcher)
      in dupdate launcher
           [(''user_id'', PInt (id_user ids)), (''external_user_id'', rq_user_external p), (''job_id'', PInt (id_job ids)),
            (''external_job_id'', rq_job_external p), (''allocation_id'', pget request ''allocation_id''),
            (''project_id'', pget request ''project_id''), (''session_id'', pget request ''session_id''),
            (''scope_id'', PInt (id_scope ids)), (''external_scope_id'', rq_scope_external p)])"

definition resource_metadata :: "request_parts \<Rightarrow> request_ids \<Rightarrow> pydict \<Rightarrow> pydict" where
  "resource_metadata p ids task_class =
     [(''device_id'', PInt (id_device ids)), (''target_device_id'', rq_device_external p),
      (''scope_id'', PInt (id_scope ids)), (''external_scope_id'', rq_scope_external p),
      (''workload_kind'', request_workload_kind p), (''walltime_ns'', request_walltime p), (''ttl_ns'', request_ttl p),
      (''task_class'', PDict task_class)]"

definition add_absent :: "pydict \<Rightarrow> (string \<times> pyval) list \<Rightarrow> pydict" where
  "add_absent d items =
     foldl (\<lambda>d kv. if snd kv \<noteq> PNone \<and> \<not> has_key d (fst kv) then dset (fst kv) (snd kv) d else d) d items"

definition reservation_analytics_metadata :: "request_parts \<Rightarrow> exc + pydict" where
  "reservation_analytics_metadata p =
     (let request = rq_request p; workload = rq_workload p
      in bindE (py_dict (pgetd request ''analytics'' (PDict []))) (\<lambda>analytics.
         let analytics = foldl (\<lambda>d key. if has_key request key \<and> \<not> has_key d key then dset key (pget request key) d else d)
               analytics [''application'', ''workflow_id'', ''frontend'', ''campaign_id'', ''operation_label'', ''site_tags''];
             analytics = add_absent analytics
               [(''application'', py_or (pget workload ''application'') (pget workload ''example'')),
                (''frontend'', pget workload ''frontend''),
                (''operation'', py_or (rq_operation p) (pget (rq_run_context p) ''operation'')),
                (''workflow_id'', pget workload ''workflow_id'')]
         in Inr (drop_none_dict (redacted_dict analytics))))"

definition provider_credential_binding :: "request_parts \<Rightarrow> pydict" where
  "provider_credential_binding p =
     (let request = rq_request p; workload = rq_workload p;
          binding = foldl (\<lambda>d key. case pget request key of PDict v \<Rightarrow> dupdate d (redacted_dict v) | _ \<Rightarrow> d)
            [] [''provider_credential_binding'', ''credential_binding'', ''credential_context''];
          binding = foldl (\<lambda>d (target, source). if pget request source \<noteq> PNone
                             then dset target (redacted_metadata (pget request source)) d else d)
            binding [(''provider'', ''credential_provider''), (''credential_hint'', ''credential_hint''),
                     (''credential_handle'', ''credential_handle''), (''credential_scope'', ''credential_scope'')];
          provider = py_or (pget request ''provider'') (py_or (pget request ''backend'')
            (py_or (pget workload ''backend'') (pget workload ''provider'')));
          binding = (if \<not> has_key binding ''provider'' \<and> provider \<noteq> PNone then dset ''provider'' provider binding else binding)
      in if binding = [] then []
         else drop_none_dict (dsetdefault ''secret_material'' (PStr ''not-stored'')
                (dsetdefault ''user_id'' (rq_user_external p) (dsetdefault ''scope_id'' (rq_scope_external p)
                (dsetdefault ''target_device_id'' (rq_device_external p) binding)))))"

definition reservation_binding_metadata :: "request_parts \<Rightarrow> request_ids \<Rightarrow> pydict \<Rightarrow> exc + pydict" where
  "reservation_binding_metadata p ids task_class =
     bindE (py_dict (pgetd (rq_request p) ''launcher'' (PDict []))) (\<lambda>launcher.
     bindE (reservation_analytics_metadata p) (\<lambda>analytics.
     let credential_binding = provider_credential_binding p;
         binding = [(''schema'', PStr RESERVATION_BINDING_SCHEMA), (''owner'', redacted_metadata (PDict (rq_owner p))),
           (''launcher'', PDict (drop_none_dict (redacted_dict (launcher_metadata p ids launcher)))),
           (''resource'', PDict (drop_none_dict (redacted_dict (resource_metadata p ids task_class)))),
           (''allowed_operations'', PList (map PStr (allowed_reservation_operations (rq_request p) (rq_operation p)))),
           (''analytics'', PDict analytics)]
     in Inr (if credential_binding \<noteq> [] then dset ''provider_credential_binding'' (PDict credential_binding) binding
             else binding)))"

definition admission_metadata :: "request_parts \<Rightarrow> bool \<Rightarrow> pydict \<Rightarrow> pydict \<Rightarrow> pydict" where
  "admission_metadata p token_present task_class binding =
     (let request = rq_request p;
          metadata = [(''owner'', PDict (rq_owner p)), (''token_present'', PBool token_present),
            (''external_device_id'', rq_device_external p), (''external_scope_id'', rq_scope_external p),
            (''external_user_id'', rq_user_external p), (''external_job_id'', rq_job_external p),
            (''external_allocation_id'', pget request ''allocation_id''),
            (''external_project_id'', pget request ''project_id''), (''external_session_id'', pget request ''session_id''),
            (''operation'', rq_operation p), (''policy'', PDict (rq_policy p)), (''workload'', PDict (rq_workload p)),
            (''workload_kind'', request_workload_kind p), (''run_context'', PDict (rq_run_context p)),
            (''walltime_ns'', request_walltime p), (''ttl_ns'', request_ttl p), (''task_class'', PDict task_class),
            (''reservation_binding'', PDict binding)];
          credential_binding = pget binding ''provider_credential_binding''
      in if py_truth credential_binding then dset ''provider_credential_binding'' credential_binding metadata else metadata)"

definition allocate_admission_request_id :: "int ctl" where
  "allocate_admission_request_id =
     bindM (getM admission_request_id_next) (\<lambda>n.
       seqM (modM (\<lambda>s. s\<lparr>admission_request_id_next := n + 1\<rparr>)) (retM n))"

text \<open>The default of \<^verbatim>\<open>request.get\<close> is evaluated whether or not it is used, so every call takes an identifier.\<close>

definition admission_request :: "pydict option \<Rightarrow> bool \<Rightarrow> pydict ctl" where
  "admission_request request_arg token_present =
     (let request = (case request_arg of None \<Rightarrow> [] | Some d \<Rightarrow> d)
      in bindM (getM (\<lambda>s. target_id (config s))) (\<lambda>target.
         bindM (liftM (request_parts_of request target)) (\<lambda>p.
         bindM (request_ids_of p) (\<lambda>ids.
         bindM (liftM (admission_task_class request)) (\<lambda>task_class.
         bindM (liftM (reservation_binding_metadata p ids task_class)) (\<lambda>binding.
         bindM allocate_admission_request_id (\<lambda>n.
           retM [(''request_id'', pgetd request ''request_id'' (PInt n)), (''device_id'', PInt (id_device ids)),
             (''user_id'', PInt (id_user ids)), (''job_id'', PInt (id_job ids)), (''scope_id'', PInt (id_scope ids)),
             (''reservation_id'', pgetd request ''reservation_id'' (PInt 0)),
             (''workload_kind'', request_workload_kind p), (''walltime_ns'', request_walltime p),
             (''ttl_ns'', request_ttl p), (''classical_runtime_ns'', pgetd request ''classical_runtime_ns'' (PInt 0)),
             (''overhead_ns'', pgetd request ''overhead_ns'' (PInt 0)), (''priority'', pgetd request ''priority'' (PInt 0)),
             (''task_class'', PDict task_class),
             (''metadata'', PDict (admission_metadata p token_present task_class binding))])))))))"

section \<open>Credentials of a reservation\<close>

definition cleaned_metadata :: "pyval \<Rightarrow> exc + pydict" where
  "cleaned_metadata v = bindE (py_dict_or_empty v) (\<lambda>d. Inr (drop_none_dict (redacted_dict d)))"

text \<open>The metadata dictionary is the caller's; its new contents are returned.\<close>

definition bind_provider_credential :: "qpm_env \<Rightarrow> int \<Rightarrow> pydict \<Rightarrow> pydict ctl" where
  "bind_provider_credential env rid metadata =
     bindM (liftM (py_dict_or_empty (pget metadata ''reservation_binding''))) (\<lambda>binding.
     bindM (getM (\<lambda>s. credential_mode (config s))) (\<lambda>mode.
     bindM (bind_reservation_credential env binding mode) (\<lambda>(provider, response).
     bindM (liftM (py_dict_or_empty (resp_secret response))) (\<lambda>secret.
     bindM (liftM (cleaned_metadata (resp_metadata response))) (\<lambda>cleaned.
     seqM (modM (\<lambda>s. s\<lparr>reservation_credentials_by_id := dset rid
            \<lparr>cr_secret = secret, cr_metadata = cleaned, cr_binding = binding, cr_provider = Some provider\<rparr>
            (reservation_credentials_by_id s)\<rparr>))
       (retM (if cleaned \<noteq> [] then dset ''provider_credential_binding'' (PDict cleaned) metadata else metadata)))))))"

definition fallback_provider_credential :: "qpm_env \<Rightarrow> int \<Rightarrow> credential_record ctl" where
  "fallback_provider_credential env rid =
     bindM (getM (\<lambda>s. map_of (reservation_metadata_by_id s) rid)) (\<lambda>known.
     bindM (case known of
              None \<Rightarrow> retM ()
            | Some m \<Rightarrow>
                (case py_or (pget m ''provider_credential_binding'') (PDict []) of
                   PDict d \<Rightarrow>
                     if pget d ''secret_material'' = PStr ''cached-in-qpm''
                     then raiseM (QPMAdmissionValidationError
                       (''provider credential binding is missing for reservation_id='' @ int_text rid))
                     else retM ()
                 | _ \<Rightarrow> raiseM (AttributeError ''object has no attribute get''))) (\<lambda>_.
     bindM (time_ns env) (\<lambda>now.
     let record = \<lparr>cr_secret = [],
           cr_metadata = [(''schema'', PStr ''qfw-provider-credential-binding-v1''), (''provider'', PStr ''no-secret''),
             (''provider_type'', PStr ''no-secret''), (''reservation_id'', PInt rid), (''bound_at_ns'', PInt now),
             (''expires_at_ns'', PInt 0), (''refresh_policy'', PStr ''none''), (''secret_material'', PStr ''none'')],
           cr_binding = [], cr_provider = None\<rparr>
     in seqM (modM (\<lambda>s. s\<lparr>reservation_credentials_by_id := dset rid record (reservation_credentials_by_id s)\<rparr>))
          (retM record))))"

definition forget_reservation :: "int \<Rightarrow> controller \<Rightarrow> controller" where
  "forget_reservation rid s =
     s\<lparr>reservation_metadata_by_id := dpop rid (reservation_metadata_by_id s),
       reservation_credentials_by_id := dpop rid (reservation_credentials_by_id s),
       completion_queues := dpop rid (completion_queues s)\<rparr>"

definition reject_credential_binding_reservation :: "qpm_env \<Rightarrow> int \<Rightarrow> unit ctl" where
  "reject_credential_binding_reservation env rid =
     seqM (modM (forget_reservation rid))
       (tryM (seqM (release_reservation env rid (PInt 1)) (retM ()))
         (\<lambda>_. tryM (seqM (cancel_reservation env rid (PInt 1)) (retM ())) (\<lambda>_. retM ())))"

definition provider_credential_for_reservation :: "qpm_env \<Rightarrow> pyval \<Rightarrow> string \<Rightarrow> (pydict \<times> pydict) ctl" where
  "provider_credential_for_reservation env reservation_id operation =
     bindM (liftM (normalize_reservation_id reservation_id False)) (\<lambda>rid.
       finallyM
         (bindM (get_reservation env rid) (\<lambda>reservation.
          seqM (require_reservation_active reservation operation)
          (seqM (require_reservation_not_expired env reservation)
          (bindM (getM (\<lambda>s. map_of (reservation_credentials_by_id s) rid)) (\<lambda>found.
           bindM (case found of Some r \<Rightarrow> retM r | None \<Rightarrow> fallback_provider_credential env rid) (\<lambda>record.
           let expires = pget (cr_metadata record) ''expires_at_ns''
           in bindM (if \<not> py_truth expires then retM False
                     else bindM (time_ns env) (\<lambda>now. bindM (liftM (py_number expires)) (\<lambda>t. retM (t \<le> now)))) (\<lambda>expired.
              if expired
              then raiseM (QPMAdmissionValidationError
                     (''provider credential binding expired for reservation_id='' @ int_text rid))
              else retM (cr_secret record, cr_metadata record))))))))
         (drain_provider_credential_cleanup env))"

definition attach_provider_credential :: "qpm_env \<Rightarrow> string \<Rightarrow> unit ctl" where
  "attach_provider_credential env cid =
     bindM (getM (\<lambda>s. pget (c_info (circuit_object cid s)) ''reservation_id'')) (\<lambda>reservation_id.
     bindM (provider_credential_for_reservation env reservation_id ''execution'') (\<lambda>(secret, metadata).
     let cleaned = drop_none_dict (redacted_dict metadata)
     in modM (\<lambda>s.
          let c = circuit_object cid s;
              c = c\<lparr>provider_credential := dset ''reservation_id'' reservation_id secret,
                    provider_credential_metadata := cleaned\<rparr>;
              c = (if cleaned \<noteq> [] then c\<lparr>c_info := dset ''provider_credential_binding'' (PDict cleaned) (c_info c)\<rparr> else c)
          in s\<lparr>circuit_heap := dset cid c (circuit_heap s)\<rparr>)))"

section \<open>Reserving\<close>

definition active_id :: "pydict \<Rightarrow> exc + int list" where
  "active_id reservation =
     (if pget reservation ''state'' \<noteq> PStr ''active'' then Inr []
      else case map_of reservation ''reservation_id'' of
             None \<Rightarrow> Inl (KeyError ''reservation_id'')
           | Some v \<Rightarrow> bindE (py_int v) (\<lambda>i. Inr [i]))"

definition active_reservation_ids :: "qpm_env \<Rightarrow> int list ctl" where
  "active_reservation_ids env =
     bindM (tryM (list_reservations env []) (\<lambda>_. retM [])) (\<lambda>reservations.
       collectM reservations (\<lambda>r. liftM (active_id r)))"

text \<open>
  \<^verbatim>\<open>self.reservation_sequence.allocate(...)\<close>: the identifiers are listed first, then the file is read
  and written under its lock.
\<close>

definition allocate_reservation_id :: "qpm_env \<Rightarrow> int option ctl" where
  "allocate_reservation_id env =
     bindM (getM reservation_sequence) (\<lambda>sequence.
       case sequence of
         None \<Rightarrow> retM None
       | Some file \<Rightarrow>
           bindM (active_reservation_ids env) (\<lambda>active.
             case seq_allocate active file of
               None \<Rightarrow> raiseM NoReturn
             | Some (outcome, left) \<Rightarrow>
                 seqM (modM (\<lambda>s. s\<lparr>reservation_sequence := Some left\<rparr>))
                   (bindM (liftM outcome) (\<lambda>rid. retM (Some rid)))))"

definition evaluate_reservation :: "qpm_env \<Rightarrow> pydict option \<Rightarrow> bool \<Rightarrow> pydict ctl" where
  "evaluate_reservation env request token_present =
     bindM (admission_request request token_present) (evaluate_request env)"

definition request_metadata_of :: "pydict \<Rightarrow> pydict" where
  "request_metadata_of request = (case pget request ''metadata'' of PDict d \<Rightarrow> d | _ \<Rightarrow> [])"

definition binding_of :: "pydict \<Rightarrow> pydict" where
  "binding_of request = (case pget (request_metadata_of request) ''reservation_binding'' of PDict d \<Rightarrow> d | _ \<Rightarrow> [])"

definition rejected :: "pydict \<Rightarrow> string \<Rightarrow> pydict \<Rightarrow> pydict" where
  "rejected request reason extra =
     [(''status'', PStr ''rejected''), (''request_id'', pget request ''request_id''), (''reason'', PStr reason)] @ extra"

definition accept_reservation :: "qpm_env \<Rightarrow> pydict \<Rightarrow> pydict \<Rightarrow> pydict ctl" where
  "accept_reservation env request decision =
     (let rid = record_reservation_id decision
      in bindM (tryM (bindM (bind_provider_credential env rid (request_metadata_of request)) (\<lambda>m. retM (Inr m)))
                  (\<lambda>error. seqM (reject_credential_binding_reservation env rid) (retM (Inl error)))) (\<lambda>outcome.
           case outcome of
             Inl error \<Rightarrow> retM
               [(''status'', PStr ''rejected''), (''request_id'', pget decision ''request_id''),
                (''reservation_id'', pget decision ''reservation_id''), (''reason'', PStr ''credential-binding-failed''),
                (''message'', PStr (exc_text error)), (''admission_status'', PDict decision)]
           | Inr metadata \<Rightarrow>
               seqM (modM (\<lambda>s. ensure_completion_queue rid
                       (s\<lparr>reservation_metadata_by_id := dset rid metadata (reservation_metadata_by_id s)\<rparr>)))
                 (retM decision)))"

definition reserve_admission :: "qpm_env \<Rightarrow> pydict option \<Rightarrow> bool \<Rightarrow> pydict ctl" where
  "reserve_admission env request_arg token_present =
     bindM (getM id) (\<lambda>s.
       if service_state s \<noteq> ''running''
       then retM [(''status'', PStr ''rejected''), (''reason'', PStr ''service-quiescing''), (''state'', PStr (service_state s))]
       else bindM (admission_request request_arg token_present) (\<lambda>request.
         bindM (tryM (seqM (validate_reservation_credential env (binding_of request) (credential_mode (config s))) (retM None))
                  (\<lambda>error. retM (Some error))) (\<lambda>refused.
           case refused of
             Some error \<Rightarrow> retM (rejected request ''credential-eligibility-failed'' [(''message'', PStr (exc_text error))])
           | None \<Rightarrow>
               (case request_arg of
                  None \<Rightarrow> raiseM (AttributeError ''NoneType object has no attribute get'')
                | Some d \<Rightarrow>
                    if \<not> (pget d ''reservation_id'' = PNone \<or> py_eq (pget d ''reservation_id'') (PInt 0) \<or>
                          pget d ''reservation_id'' = PStr ''0'')
                    then retM (rejected request ''caller-selected-reservation-id'' [])
                    else bindM (allocate_reservation_id env) (\<lambda>allocated.
                         let request = (case allocated of
                               None \<Rightarrow> request | Some rid \<Rightarrow> dset ''reservation_id'' (PInt rid) request)
                         in bindM (reserve_request env request) (\<lambda>decision.
                              if pget decision ''status'' = PStr ''accepted'' \<and> pget decision ''reservation_id'' \<noteq> PNone
                              then accept_reservation env request decision else retM decision))))))"

definition renew_admission :: "qpm_env \<Rightarrow> pyval \<Rightarrow> pydict \<Rightarrow> pydict ctl" where
  "renew_admission env reservation_id request =
     bindM (liftM (normalize_reservation_id reservation_id False)) (\<lambda>rid. renew_reservation env rid request)"

definition with_request_metadata :: "(int \<times> pydict) list \<Rightarrow> int \<Rightarrow> pydict \<Rightarrow> pydict" where
  "with_request_metadata table rid reservation =
     (case map_of table rid of None \<Rightarrow> reservation | Some m \<Rightarrow> dset ''request_metadata'' (PDict m) reservation)"

definition get_admission_reservation :: "qpm_env \<Rightarrow> pyval \<Rightarrow> pydict ctl" where
  "get_admission_reservation env reservation_id =
     bindM (liftM (normalize_reservation_id reservation_id False)) (\<lambda>rid.
     bindM (get_reservation env rid) (\<lambda>reservation.
     bindM (getM reservation_metadata_by_id) (\<lambda>table. retM (with_request_metadata table rid reservation))))"

fun canonical_filters :: "string list \<Rightarrow> pydict \<Rightarrow> pydict ctl" where
  "canonical_filters [] filters = retM filters"
| "canonical_filters (name # names) filters =
     (if pget filters name = PNone then canonical_filters names filters
      else bindM (canonicalize_external_id name (pget filters name)) (\<lambda>n.
             canonical_filters names (dset name (PInt n) filters)))"

definition admission_filters :: "pydict option \<Rightarrow> pydict ctl" where
  "admission_filters filters =
     canonical_filters [''device_id'', ''scope_id'', ''user_id'', ''job_id''] (case filters of None \<Rightarrow> [] | Some d \<Rightarrow> d)"

definition list_admission_reservations :: "qpm_env \<Rightarrow> pydict option \<Rightarrow> pydict list ctl" where
  "list_admission_reservations env filters =
     bindM (admission_filters filters) (\<lambda>canonical.
     bindM (list_reservations env canonical) (\<lambda>reservations.
     bindM (getM reservation_metadata_by_id) (\<lambda>table.
       retM (map (\<lambda>r. with_request_metadata table (record_reservation_id r) r) reservations))))"

section \<open>Does a request belong to a reservation\<close>

text \<open>A compared field: its name, whether the reservation record has it, the names in the request and in the metadata.\<close>

record matched_field =
  mf_name :: string
  mf_recorded :: bool
  mf_request_keys :: "string list"
  mf_metadata_keys :: "string list"

definition MATCHED_FIELDS :: "matched_field list" where
  "MATCHED_FIELDS =
     [\<lparr>mf_name = ''device_id'', mf_recorded = True,
       mf_request_keys = [''device_id'', ''target_device_id'', ''external_device_id''],
       mf_metadata_keys = [''external_device_id'', ''target_device_id'']\<rparr>,
      \<lparr>mf_name = ''scope_id'', mf_recorded = True, mf_request_keys = [''scope_id'', ''external_scope_id''],
       mf_metadata_keys = [''external_scope_id'', ''scope_id'']\<rparr>,
      \<lparr>mf_name = ''job_id'', mf_recorded = True,
       mf_request_keys = [''job_id'', ''allocation_id'', ''external_job_id'', ''external_allocation_id''],
       mf_metadata_keys = [''external_job_id'', ''job_id'', ''external_allocation_id'', ''allocation_id'']\<rparr>,
      \<lparr>mf_name = ''session_id'', mf_recorded = False, mf_request_keys = [''session_id'', ''external_session_id''],
       mf_metadata_keys = [''external_session_id'', ''session_id'']\<rparr>]"

definition canonical_binding_value :: "string \<Rightarrow> pyval \<Rightarrow> int ctl" where
  "canonical_binding_value field v = (case v of PInt i \<Rightarrow> retM i | _ \<Rightarrow> canonicalize_external_id field v)"

text \<open>What the reservation says of a field, before it is made canonical.\<close>

definition bound_value :: "pydict \<Rightarrow> pydict \<Rightarrow> matched_field \<Rightarrow> pyval" where
  "bound_value reservation metadata f =
     (if mf_recorded f \<and> pget reservation (mf_name f) \<noteq> PNone then pget reservation (mf_name f)
      else metadata_identifier_any metadata (mf_metadata_keys f))"

definition reservation_binding_value :: "pydict \<Rightarrow> pydict \<Rightarrow> matched_field \<Rightarrow> int option ctl" where
  "reservation_binding_value reservation metadata f =
     (let v = bound_value reservation metadata f
      in if v = PNone then retM None
         else bindM (canonical_binding_value (mf_name f) v) (\<lambda>n. retM (Some n)))"

definition match_field :: "pydict \<Rightarrow> pydict \<Rightarrow> pydict \<Rightarrow> matched_field \<Rightarrow> unit ctl" where
  "match_field reservation metadata wanted f =
     (let v = metadata_identifier_any wanted (mf_request_keys f)
      in if v = PNone then retM ()
         else bindM (reservation_binding_value reservation metadata f) (\<lambda>expected.
           case expected of
             None \<Rightarrow> retM ()
           | Some e \<Rightarrow>
               bindM (canonical_binding_value (mf_name f) v) (\<lambda>requested.
                 if requested = e then retM ()
                 else raiseM (QPMAdmissionValidationError (''reservation '' @ mf_name f @ '' mismatch: reservation_id='' @
                        py_str (pget reservation ''reservation_id'') @ '' expected='' @ int_text e @
                        '' requested='' @ int_text requested)))))"

definition require_reservation_operation_matches :: "pyval \<Rightarrow> pydict \<Rightarrow> pydict \<Rightarrow> unit ctl" where
  "require_reservation_operation_matches reservation_id metadata wanted =
     (let expected = operation_from_metadata metadata; requested = operation_from_metadata wanted
      in if expected = PNone \<or> requested = PNone then retM ()
         else if operation_names_compatible expected requested then retM ()
         else raiseM (QPMAdmissionValidationError (''reservation operation mismatch: reservation_id='' @
                py_str reservation_id @ '' expected='' @ py_str expected @ '' requested='' @ py_str requested)))"

definition require_reservation_matches_context :: "pydict \<Rightarrow> request_context \<Rightarrow> unit ctl" where
  "require_reservation_matches_context reservation ctx =
     bindM (getM (reservation_metadata reservation)) (\<lambda>metadata.
     seqM (forM MATCHED_FIELDS (match_field reservation metadata (rc_metadata ctx)))
       (require_reservation_operation_matches (pget reservation ''reservation_id'') metadata (rc_metadata ctx)))"

definition validate_reservation_for_context :: "qpm_env \<Rightarrow> request_context \<Rightarrow> string \<Rightarrow> pydict ctl" where
  "validate_reservation_for_context env ctx operation =
     bindM (liftM (normalize_reservation_id (opt_int (rc_reservation_id ctx)) False)) (\<lambda>rid.
       finallyM
         (bindM (get_reservation env rid) (\<lambda>reservation.
          bindM (getM reservation_close_state) (\<lambda>closing.
            if has_key closing rid
            then raiseM (QPMAdmissionValidationError (''reservation is closing: reservation_id='' @ int_text rid))
            else seqM (require_reservation_active reservation operation)
                (seqM (require_reservation_not_expired env reservation)
                (seqM (require_reservation_matches_context reservation ctx) (retM reservation))))))
         (drain_provider_credential_cleanup env))"

section \<open>The binding carries no secret\<close>

definition entry_free :: "string \<Rightarrow> pyval \<Rightarrow> bool" where
  "entry_free k v = (if is_sensitive_metadata_key k then v = PStr ''<redacted>'' else secret_free v)"

definition dict_free :: "pydict \<Rightarrow> bool" where
  "dict_free d \<longleftrightarrow> (\<forall>(k, v) \<in> set d. entry_free k v)"

lemma secret_free_dict: "secret_free (PDict d) \<longleftrightarrow> dict_free d"
  by (auto simp: list_all_iff entry_free_def dict_free_def)

lemma set_dset_subset: "set (dset k v d) \<subseteq> insert (k, v) (set d)"
  by (induction d) auto

lemma dict_free_Nil [simp]: "dict_free []"
  by (simp add: dict_free_def)

lemma dict_free_Cons [simp]: "dict_free ((k, v) # d) \<longleftrightarrow> entry_free k v \<and> dict_free d"
  by (auto simp: dict_free_def)

lemma dict_free_dset [simp, intro]: "dict_free d \<Longrightarrow> entry_free k v \<Longrightarrow> dict_free (dset k v d)"
  unfolding dict_free_def using set_dset_subset [of k v d] by fastforce

lemma dict_free_setdefault [simp, intro]: "dict_free d \<Longrightarrow> entry_free k v \<Longrightarrow> dict_free (dsetdefault k v d)"
  unfolding dict_free_def dsetdefault_def by auto

lemma dict_free_dupdate [simp, intro]: "dict_free d \<Longrightarrow> dict_free new \<Longrightarrow> dict_free (dupdate d new)"
  unfolding dupdate_def by (induction new arbitrary: d) auto

lemma dict_free_redacted [simp]: "dict_free (redacted_dict d)"
  by (simp only: secret_free_dict [symmetric] redacted_dict_PDict secret_free_redacted)

lemma dict_free_drop_none [simp, intro]: "dict_free d \<Longrightarrow> dict_free (drop_none_dict d)"
  by (simp only: secret_free_dict [symmetric] drop_none_dict_PDict secret_free_drop_none)

lemma dict_free_if: "(b \<Longrightarrow> dict_free x) \<Longrightarrow> (\<not> b \<Longrightarrow> dict_free y) \<Longrightarrow> dict_free (if b then x else y)"
  by simp

lemma binding_keys:
  "list_all (\<lambda>k. \<not> is_sensitive_metadata_key k)
     [''provider'', ''credential_hint'', ''credential_handle'', ''credential_scope'', ''target_device_id'', ''scope_id'',
      ''user_id'', ''secret_material'', ''schema'', ''owner'', ''launcher'', ''resource'', ''allowed_operations'',
      ''analytics'', ''provider_credential_binding'']"
  by code_simp

lemmas plain_key = binding_keys [unfolded list.pred_inject, simplified]

lemma entry_free_plain [simp]: "\<not> is_sensitive_metadata_key k \<Longrightarrow> entry_free k v = secret_free v"
  by (simp add: entry_free_def)

text \<open>
  The identifiers a request gives are copied as they are; when they hold no secret, neither does the
  binding, whatever the rest of the request holds.
\<close>

definition plain_identifiers :: "request_parts \<Rightarrow> bool" where
  "plain_identifiers p \<longleftrightarrow>
     secret_free (rq_device_external p) \<and> secret_free (rq_scope_external p) \<and> secret_free (rq_user_external p) \<and>
     secret_free (pget (rq_request p) ''provider'') \<and> secret_free (pget (rq_request p) ''backend'') \<and>
     secret_free (pget (rq_workload p) ''backend'') \<and> secret_free (pget (rq_workload p) ''provider'')"

lemma context_binding_free:
  "dict_free d \<Longrightarrow> dict_free (foldl (\<lambda>d key. case pget r key of PDict v \<Rightarrow> dupdate d (redacted_dict v) | _ \<Rightarrow> d) d ks)"
  by (induction ks arbitrary: d) (auto split: pyval.split)

lemma named_binding_free:
  "dict_free d \<Longrightarrow> list_all (\<lambda>ts. \<not> is_sensitive_metadata_key (fst ts)) ks \<Longrightarrow>
   dict_free (foldl (\<lambda>d (target, source). if pget r source \<noteq> PNone
     then dset target (redacted_metadata (pget r source)) d else d) d ks)"
  by (induction ks arbitrary: d) (auto simp: secret_free_redacted)

lemma provider_binding_free:
  assumes "plain_identifiers p"
  shows "dict_free (provider_credential_binding p)"
proof -
  have prov: "entry_free ''provider'' (py_or (pget (rq_request p) ''provider'') (py_or (pget (rq_request p) ''backend'')
      (py_or (pget (rq_workload p) ''backend'') (pget (rq_workload p) ''provider''))))"
    using assms by (simp add: plain_key plain_identifiers_def py_or_def)
  have named: "dict_free (foldl (\<lambda>d (target, source). if pget r source \<noteq> PNone
       then dset target (redacted_metadata (pget r source)) d else d) d
       [(''provider'', ''credential_provider''), (''credential_hint'', ''credential_hint''),
        (''credential_handle'', ''credential_handle''), (''credential_scope'', ''credential_scope'')])" if "dict_free d" for r d
    by (rule named_binding_free [OF that]) (simp add: plain_key)
  have rest: "dict_free (drop_none_dict (dsetdefault ''secret_material'' (PStr ''not-stored'')
       (dsetdefault ''user_id'' (rq_user_external p) (dsetdefault ''scope_id'' (rq_scope_external p)
       (dsetdefault ''target_device_id'' (rq_device_external p) b)))))" if "dict_free b" for b
    using that assms by (intro dict_free_drop_none dict_free_setdefault) (simp_all add: plain_key plain_identifiers_def)
  show ?thesis
    unfolding provider_credential_binding_def Let_def
    by (intro dict_free_if dict_free_Nil rest dict_free_dset named context_binding_free prov)
qed

lemma binding_free:
  assumes "plain_identifiers p" "reservation_binding_metadata p ids task_class = Inr binding"
  shows "dict_free binding"
proof -
  have "dict_free analytics" if "reservation_analytics_metadata p = Inr analytics" for analytics
  proof -
    have "\<exists>d. analytics = drop_none_dict (redacted_dict d)"
      using that unfolding reservation_analytics_metadata_def Let_def bindE_Inr sum.inject by blast
    then show ?thesis by auto
  qed
  moreover have "secret_free (PList (map PStr xs))" for xs by (simp add: list_all_iff)
  ultimately show ?thesis
    using assms(2) provider_binding_free [OF assms(1)]
    unfolding reservation_binding_metadata_def Let_def bindE_Inr
    by (auto simp: plain_key secret_free_dict secret_free_redacted
        simp del: secret_free.simps(1,2) redacted_metadata.simps)
qed

end
