(* ===== verification/QPM_Close_Inv.thy ===== *)
theory QPM_Close_Inv
  imports QPM_Close
begin

text \<open>
  What closing a reservation keeps and what it achieves. Closing cancels and settles tasks but
  never adds, removes or renames one, so it keeps the shape of the task table; from that follow
  the two table invariants for closing and for the retries that may trigger it.
\<close>

section \<open>Predicates blind to records\<close>

definition record_blind :: "(controller \<Rightarrow> bool) \<Rightarrow> bool" where
  "record_blind I \<longleftrightarrow> world_blind I \<and>
     (\<forall>s a b. I (s\<lparr>reconciliation_faults := a, audit_records := b\<rparr>) = I s)"

lemma record_blindD: "record_blind I \<Longrightarrow> world_blind I"
  by (simp add: record_blind_def)

lemma keeps_fault: "record_blind I \<Longrightarrow> keeps I (record_reconciliation_fault env f)"
  unfolding record_reconciliation_fault_def
  by (intro keeps_rules keeps_mod keeps_time record_blindD) (auto simp: record_blind_def)

lemma keeps_canceller: "world_blind I \<Longrightarrow> keeps I (call_provider_canceller env h)"
  unfolding call_provider_canceller_def
  by (auto intro!: keeps_rules keeps_ext split: sum.splits ext_value.splits)

text \<open>Predicates that also ignore the records of a close and the completion queues.\<close>

definition close_blind :: "(controller \<Rightarrow> bool) \<Rightarrow> bool" where
  "close_blind I \<longleftrightarrow> record_blind I \<and> (\<forall>s c. I (s\<lparr>reservation_close_state := c\<rparr>) = I s)"

lemma close_blindD: "close_blind I \<Longrightarrow> record_blind I" "close_blind I \<Longrightarrow> world_blind I"
  by (simp_all add: close_blind_def record_blind_def)

lemma close_blind_upd [simp]: "close_blind I \<Longrightarrow> I (upd_close rid f s) = I s"
  by (simp add: upd_close_def close_blind_def split: option.splits)

lemma close_blind_more [simp]:
  "close_blind I \<Longrightarrow> I (add_cancel_pending rid q s) = I s"
  "close_blind I \<Longrightarrow> I (note_cancel_waiting rid s) = I s"
  "close_blind I \<Longrightarrow> I (refresh_provider_cancel_pending rid s) = I s"
  "close_blind I \<Longrightarrow> I (reservation_close_state_locked rid kind now s) = I s"
  by (simp_all add: add_cancel_pending_def note_cancel_waiting_def refresh_provider_cancel_pending_def
      reservation_close_state_locked_def Let_def) (simp add: close_blind_def)

text \<open>What cancelling one task does to the tables.\<close>

lemma keeps_cancel_provider_close: "close_blind I \<Longrightarrow> keeps I (cancel_provider_for_close env rid r)"
  unfolding cancel_provider_for_close_def
  by (auto intro!: keeps_rules keeps_mod keeps_fault keeps_canceller close_blindD split: sum.splits)

lemma keeps_cancel_scheduler_close: "close_blind I \<Longrightarrow> keeps I (cancel_scheduler_for_close env rid r)"
  unfolding cancel_scheduler_for_close_def
  by (auto intro!: keeps_rules keeps_mod keeps_fault keeps_scheduler close_blindD)

lemma keeps_cancel_runtime:
  assumes I: "close_blind I"
    and ops: "\<And>s q. I s \<Longrightarrow> I (drop_selected q s)" "\<And>s q. I s \<Longrightarrow> I (drop_inflight q s)"
      "\<And>s q st. I s \<Longrightarrow> I (set_runtime_state q st s)" "\<And>s c. I s \<Longrightarrow> I (s\<lparr>circuits := c\<rparr>)"
  shows "keeps I (cancel_runtime_for_close env rid r)"
  unfolding cancel_runtime_for_close_def Let_def
  by (auto intro!: keeps_rules keeps_mod keeps_fault keeps_cancel_scheduler_close [OF I]
      keeps_cancel_provider_close [OF I] close_blindD [OF I] ops simp: I)

section \<open>The shape of the task table\<close>

definition shaped :: "(int \<Rightarrow> shape option) \<Rightarrow> controller \<Rightarrow> bool" where
  "shaped sh s \<longleftrightarrow> tasks_ok s \<and> table_shape (runtime_by_qtask_id s) = sh"

lemma shapedI: "(\<And>sh. keeps (shaped sh) m) \<Longrightarrow> keeps tasks_ok m"
  unfolding keeps_def shaped_def by blast

lemma shaped_blind: "close_blind (shaped sh)" "ledger_blind (shaped sh)"
  by (simp_all add: close_blind_def record_blind_def world_blind_def ledger_blind_def shaped_def tasks_ok_def)

lemmas shaped_world = close_blindD(2) [OF shaped_blind(1)]

lemma shaped_ops:
  assumes "shaped sh s"
  shows "shaped sh (drop_selected q s)" "shaped sh (drop_inflight q s)" "shaped sh (set_runtime_state q st s)"
    "shaped sh (s\<lparr>circuits := c\<rparr>)" "shaped sh (pop_hold q s)" "shaped sh (pop_usage_event q s)"
    "shaped sh (pop_pending q s)" "shaped sh (ensure_completion_queue rid s)"
    "shaped sh (mark_completion_queue_terminal rid now s)" "shaped sh (remove_provider_credential rid s)"
    "shaped sh (s\<lparr>reservation_metadata_by_id := m\<rparr>)" "shaped sh (s\<lparr>pending_capacity := dpop q (pending_capacity s)\<rparr>)"
  using assms
  by (auto simp: shaped_def tasks_ok_def table_ops drop_selected_def drop_inflight_def pop_pending_def Let_def
      ensure_completion_queue_def mark_completion_queue_terminal_def remove_provider_credential_def split: option.splits)

lemma keeps_on_queue_shaped: "keeps (shaped sh) (on_queue rid f a)"
  by (rule keepsI) (auto simp: on_queue_def shaped_def split: option.splits prod.splits)

lemma keeps_delivery_shaped [keeps_rules]: "keeps (shaped sh) (terminal_completion_delivery env r p)"
  unfolding terminal_completion_delivery_def enqueue_completion_record_def enforce_retention_at_def
  by (intro keeps_rules keeps_mod keeps_time keeps_status keeps_record keeps_on_queue_shaped shaped_world shaped_ops(8))

lemma keeps_cancel_runtime_shaped [keeps_rules]: "keeps (shaped sh) (cancel_runtime_for_close env rid r)"
  by (rule keeps_cancel_runtime) (simp_all add: shaped_blind shaped_ops)

lemma keeps_close_delivery_shaped [keeps_rules]: "keeps (shaped sh) (close_delivery env rid q)"
  unfolding close_delivery_def by (intro keeps_rules keeps_status shaped_world)

lemma keeps_finalize_shaped [keeps_rules]: "keeps (shaped sh) (finalize_capacity_hold env q rid u r c)"
  unfolding finalize_capacity_hold_def by (intro keeps_rules keeps_admission shaped_world)

lemma keeps_close_tasks_shaped [keeps_rules]: "keeps (shaped sh) (close_tasks_of env rid deliver)"
  unfolding close_tasks_of_def remove_pending_for_reservation_def remove_pending_task_def
    reconcile_holds_for_reservation_def reconcile_closed_hold_def settle_closed_hold_def
  by (intro keeps_rules keeps_mod) (simp_all add: shaped_ops shaped_blind)

lemma keeps_expired_ids: "world_blind I \<Longrightarrow> keeps I (expired_active_reservation_ids env rid now)"
  unfolding expired_active_reservation_ids_def by (intro keeps_rules)

lemma keeps_finish_expired_shaped [keeps_rules]: "keeps (shaped sh) (finish_expired env rid)"
  unfolding finish_expired_def by (intro keeps_rules keeps_mod keeps_time shaped_world) (simp add: shaped_ops shaped_blind Let_def)

lemma keeps_close_shaped [keeps_rules]: "keeps (shaped sh) (close_reservation env rid kind code now deliver)"
  unfolding close_reservation_def close_expired_reservations_def ask_admission_to_close_def
  by (auto intro!: keeps_rules keeps_mod keeps_time keeps_admission keeps_expired_ids shaped_world
      simp: shaped_ops shaped_blind Let_def split: close_kind.splits option.splits)

section \<open>The invariant of the task tables\<close>

definition queue_blind :: "(controller \<Rightarrow> bool) \<Rightarrow> bool" where
  "queue_blind I \<longleftrightarrow> record_blind I \<and> (\<forall>s x. I (s\<lparr>credential_cleanup_queue := x\<rparr>) = I s)"

lemma keeps_drain: "queue_blind I \<Longrightarrow> keeps I (drain_provider_credential_cleanup env)"
  unfolding drain_provider_credential_cleanup_def cleanup_credential_def attempt_cleanup_def
  by (intro keeps_rules keeps_mod keeps_fault keeps_ext) (auto simp: queue_blind_def record_blind_def)

lemma shaped_queue_blind: "queue_blind (shaped sh)"
  by (simp add: queue_blind_def record_blind_def world_blind_def shaped_def tasks_ok_def)

lemma keeps_clear_credentials_shaped: "keeps (shaped sh) (clear_provider_credentials env)"
  unfolding clear_provider_credentials_def
  by (intro keeps_rules keeps_mod keeps_drain shaped_queue_blind) (simp add: shaped_ops)

lemma keeps_dispatch_shaped [keeps_rules]: "keeps (shaped sh) (dispatch_completion_deliveries env ds)"
proof -
  have "shaped sh (s\<lparr>event_endpoints := e\<rparr>)" if "shaped sh s" for s e using that by (simp add: shaped_def)
  then show ?thesis
    unfolding dispatch_completion_deliveries_def
    by (auto intro!: keeps_rules keeps_mod keeps_push_deliveries shaped_world simp: prune_event_registrations_def Let_def)
qed

lemma keeps_close_admission_shaped: "keeps (shaped sh) (close_admission env kind rid code)"
  unfolding close_admission_def
  by (intro keeps_rules keeps_mod keeps_drain shaped_queue_blind) (simp add: shaped_ops)

lemma keeps_not_expired_shaped [keeps_rules]: "keeps (shaped sh) (require_reservation_not_expired env r)"
  unfolding require_reservation_not_expired_def by (intro keeps_rules keeps_time shaped_world)

lemma keeps_pending_valid_shaped [keeps_rules]:
  "keeps (shaped sh) (require_pending_capacity_reservation_valid env q p r)"
  unfolding require_pending_capacity_reservation_valid_def require_reservation_active_def
  by (intro keeps_rules keeps_admission shaped_world)

lemma keeps_rejection_shaped [keeps_rules]: "keeps (shaped sh) (pending_rejection env q p r)"
  unfolding pending_rejection_def reject_pending_capacity_def
  by (auto intro!: keeps_rules keeps_mod simp: shaped_ops split: exc.splits)

text \<open>What holds of a waiting entry whose retry goes on: its reservation is the task's.\<close>

lemma pending_valid_reservation:
  assumes "require_pending_capacity_reservation_valid env q p r s = (Inr x, t)"
  shows "rt_reservation_id r = pe_reservation_id p"
  using assms
  by (auto simp: require_pending_capacity_reservation_valid_def raiseM_def split: option.splits if_splits)

lemma pending_rejection_None:
  assumes "pending_rejection env q p r s = (Inr None, t)"
  shows "rt_reservation_id r = pe_reservation_id p"
  using assms pending_valid_reservation [of env q p r s]
  by (auto simp: pending_rejection_def tryM_def seqM_def bindM_def retM_def raiseM_def
      split: prod.splits sum.splits exc.splits)

definition shaped_at :: "int \<Rightarrow> string \<Rightarrow> int option \<Rightarrow> controller \<Rightarrow> bool" where
  "shaped_at q cid rid s \<longleftrightarrow> tasks_ok s \<and> (\<exists>i st. table_shape (runtime_by_qtask_id s) q = Some (cid, i, rid, st))"

lemma shaped_at_blind: "world_blind (shaped_at q cid rid)"
  by (simp add: world_blind_def shaped_at_def tasks_ok_def)

lemma shaped_at_ops:
  assumes "shaped_at q cid rid s"
  shows "shaped_at q cid rid (set_runtime_state p st s)" "shaped_at q cid rid (pop_pending p s)"
    "shaped_at q cid rid (note_usage_event q e s)"
    "rid = Some i \<Longrightarrow> shaped_at q cid rid (hold_capacity q i u d s)"
    "pe_cid p' = cid \<Longrightarrow> pe_reservation_id p' = rid \<Longrightarrow> shaped_at q cid rid (note_decision q p' d s)"
proof -
  from assms have s: "tasks_ok s" "map_of (runtime_by_qtask_id s) q \<noteq> None"
    by (auto simp: shaped_at_def table_shape_def)
  show "shaped_at q cid rid (set_runtime_state p st s)" "shaped_at q cid rid (pop_pending p s)"
    using assms by (auto simp: shaped_at_def set_runtime_state_def upd_runtime_alt pop_pending_def
        simp flip: upd_runtime_alt set_runtime_state_def)
      (simp_all add: set_runtime_state_def upd_runtime_alt)
  show "shaped_at q cid rid (note_usage_event q e s)"
    using assms s tasks_ok_owned(1) [of s q e]
    by (auto simp: shaped_at_def task_for_qtask_id_def note_usage_event_def upd_runtime_alt Let_def)
  show "rid = Some i \<Longrightarrow> shaped_at q cid rid (hold_capacity q i u d s)"
    using assms tasks_ok_hold [of s q i u d] by (auto simp: shaped_at_def belongs_def hold_capacity_def)
  show "pe_cid p' = cid \<Longrightarrow> pe_reservation_id p' = rid \<Longrightarrow> shaped_at q cid rid (note_decision q p' d s)"
    using assms by (auto simp: shaped_at_def note_decision_def tasks_ok_def pending_wf_def Let_def)
qed

lemma keeps_retry_usage:
  assumes "pe_reservation_id p = Some rid"
  shows "keeps (shaped_at q (pe_cid p) (Some rid)) (retry_usage env q p rid)"
  unfolding retry_usage_def record_usage_event_def drop_rejected_def
  by (intro keeps_rules keeps_mod keeps_admission shaped_at_blind) (simp_all add: shaped_at_ops assms)

lemma shaped_shape:
  assumes "shaped sh s" "sh q = Some (cid, i, rid, st)" shows "shaped_at q cid rid s"
  using assms by (auto simp: shaped_def shaped_at_def)

text \<open>The retry keeps the shape as well, so what the snapshot of the entries says of it stays true.\<close>

lemma shaped_retry_ops:
  assumes "shaped sh s" "sh q = Some (cid, i, Some rid, st)"
  shows "shaped sh (note_usage_event q e s)" "shaped sh (hold_capacity q rid u d s)"
    "pe_cid p = cid \<Longrightarrow> pe_reservation_id p = Some rid \<Longrightarrow> shaped sh (note_decision q p d s)"
  using assms shaped_at_ops(3-5) [OF shaped_shape [OF assms]]
  by (auto simp: shaped_def shaped_at_def note_usage_event_def upd_runtime_alt hold_capacity_def note_decision_def Let_def)

lemma keeps_retry_usage_shaped:
  assumes "sh q = Some (pe_cid p, i, Some rid, st)" "pe_reservation_id p = Some rid"
  shows "keeps (shaped sh) (retry_usage env q p rid)"
  unfolding retry_usage_def record_usage_event_def drop_rejected_def
  by (intro keeps_rules keeps_mod keeps_admission shaped_world)
    (simp_all add: shaped_ops shaped_retry_ops [where sh = sh and q = q, OF _ assms(1)] assms(2))

lemma keeps_retry_task_shaped:
  assumes entry: "\<exists>i st. sh q = Some (pe_cid p, i, pe_reservation_id p, st)"
  shows "keeps (shaped sh) (retry_pending_task env rid (q, p))"
proof -
  obtain i st where sh: "sh q = Some (pe_cid p, i, pe_reservation_id p, st)" using entry by blast
  have "keeps (shaped sh) (retry_usage env q p rid)" if "pe_reservation_id p = Some rid" for rid
    by (rule keeps_retry_usage_shaped) (use sh that in auto)
  then show ?thesis
    unfolding retry_pending_task_def case_prod_conv by (intro keeps_rules keeps_mod) (simp_all add: shaped_ops)
qed

lemma keeps_retry_tasks [keeps_rules]: "keeps tasks_ok (retry_pending_capacity env rid)"
proof (rule keepsI)
  fix s assume ok: "tasks_ok s"
  let ?sh = "table_shape (runtime_by_qtask_id s)"
  have wf: "pending_wf ?sh (pending_capacity s)" and s: "shaped ?sh s" using ok by (auto simp: tasks_ok_def shaped_def Let_def)
  have "keeps (shaped ?sh) (retry_pending_task env rid x)" if "x \<in> set (pending_capacity s)" for x
  proof (cases x)
    case (Pair q p)
    with that wf have "map_of (pending_capacity s) q = Some p" by (simp add: pending_wf_def dict_ok_def)
    with wf show ?thesis unfolding Pair by (intro keeps_retry_task_shaped) (simp add: pending_wf_def)
  qed
  then have "keeps (shaped ?sh) (bindM (collectM (pending_capacity s) (retry_pending_task env rid)) (\<lambda>results.
      seqM (drain_provider_credential_cleanup env) (retM results)))"
    by (intro keeps_rules keeps_collect_in keeps_drain shaped_queue_blind)
  from keepsD [OF this s] show "tasks_ok (snd (retry_pending_capacity env rid s))"
    by (simp add: retry_pending_capacity_def bindM_get shaped_def)
qed

lemma keeps_close_admission_tasks [keeps_rules]: "keeps tasks_ok (close_admission env kind rid code)"
  by (rule shapedI) (rule keeps_close_admission_shaped)

lemma keeps_clear_credentials_tasks [keeps_rules]: "keeps tasks_ok (clear_provider_credentials env)"
  by (rule shapedI) (rule keeps_clear_credentials_shaped)

section \<open>What closing achieves\<close>

text \<open>
  \<open>closing rid ps hs\<close> holds in the middle of the two loops: every waiting entry of the
  reservation is still in \<open>ps\<close>, every hold of it is still in \<open>hs\<close> or waits for its provider.
\<close>

definition closing ::
  "int \<Rightarrow> (int \<times> pending_entry) list \<Rightarrow> (int \<times> capacity_hold) list \<Rightarrow> controller \<Rightarrow> bool" where
  "closing rid ps hs s \<longleftrightarrow> tasks_ok s \<and> map_of (reservation_close_state s) rid \<noteq> None \<and>
     (\<forall>q p. map_of (pending_capacity s) q = Some p \<longrightarrow> pe_reservation_id p = Some rid \<longrightarrow> (q, p) \<in> set ps) \<and>
     (\<forall>q h. map_of (capacity_holds s) q = Some h \<longrightarrow> ch_reservation_id h = rid \<longrightarrow>
        (q, h) \<in> set hs \<or> q \<in> set (cancel_pending_ids rid s))"

lemma closing_records: "record_blind (closing rid ps hs)" "world_blind (closing rid ps hs)"
  by (simp_all add: record_blind_def world_blind_def closing_def tasks_ok_def cancel_pending_ids_def)

lemma tasks_ok_close [simp]: "tasks_ok (s\<lparr>reservation_close_state := c\<rparr>) = tasks_ok s"
  by (simp add: tasks_ok_def)

lemma closing_upd:
  assumes "closing rid ps hs s" "\<And>c. set (provider_cancel_pending c) \<subseteq> set (provider_cancel_pending (f c))"
  shows "closing rid ps hs (upd_close rid f s)"
proof -
  from assms(1) obtain c where c: "map_of (reservation_close_state s) rid = Some c" by (auto simp: closing_def)
  with assms show ?thesis
    by (simp add: closing_def upd_close_def cancel_pending_ids_def) blast
qed

lemma closing_pend: "closing rid ps hs s \<Longrightarrow> closing rid ps hs (add_cancel_pending rid q s)"
  unfolding add_cancel_pending_def by (erule closing_upd) (auto simp: append_item_def)

lemma closing_pended: "closing rid ps hs s \<Longrightarrow> q \<in> set (cancel_pending_ids rid (add_cancel_pending rid q s))"
  by (auto simp: closing_def add_cancel_pending_def upd_close_def cancel_pending_ids_def append_item_def)

lemma closing_ops:
  assumes "closing rid ps hs s"
  shows "closing rid ps hs (drop_selected q s)" "closing rid ps hs (drop_inflight q s)"
    "closing rid ps hs (set_runtime_state q st s)" "closing rid ps hs (s\<lparr>circuits := c\<rparr>)"
    "closing rid ps hs (pop_usage_event q s)" "closing rid ps hs (ensure_completion_queue r s)"
    "closing rid ps hs (s\<lparr>completion_queues := cq\<rparr>)" "closing rid ps hs (s\<lparr>completion_evictions := ev\<rparr>)"
  using assms
  by (auto simp: closing_def cancel_pending_ids_def tasks_ok_def table_ops drop_selected_def drop_inflight_def
      ensure_completion_queue_def Let_def split: option.splits)

lemma keeps_cancel_provider_closing [keeps_rules]: "keeps (closing rid ps hs) (cancel_provider_for_close env rid r)"
  unfolding cancel_provider_for_close_def
  by (auto intro!: keeps_rules keeps_mod keeps_fault keeps_canceller closing_records closing_pend closing_upd
      split: sum.splits)

lemma keeps_cancel_scheduler_closing [keeps_rules]: "keeps (closing rid ps hs) (cancel_scheduler_for_close env rid r)"
  unfolding cancel_scheduler_for_close_def
  by (auto intro!: keeps_rules keeps_mod keeps_fault keeps_scheduler closing_records closing_upd)

lemma valid_fault: "record_blind I \<Longrightarrow> valid I (record_reconciliation_fault env f) (\<lambda>_. I) (\<lambda>_ _. True)"
  by (rule valid_weaken [OF keeps_valid [OF keeps_fault]]) auto

text \<open>A task that could not be cancelled is on the list of those that wait for their provider.\<close>

lemma cancel_runtime_closing:
  "valid (closing rid ps hs) (cancel_runtime_for_close env rid r)
     (\<lambda>done s. closing rid ps hs s \<and> (done \<or> rt_qtask_id r \<in> set (cancel_pending_ids rid s))) (\<lambda>_ _. True)"
proof -
  let ?q = "rt_qtask_id r"
  let ?Q = "\<lambda>done s. closing rid ps hs s \<and> (done \<or> ?q \<in> set (cancel_pending_ids rid s))"
  have ended: "valid (closing rid ps hs) (seqM (modM f) (retM True)) ?Q (\<lambda>_ _. True)"
    if "\<And>s. closing rid ps hs s \<Longrightarrow> closing rid ps hs (f s)" for f
    by (rule valid_seq [where R = "closing rid ps hs"]) (auto intro: valid_mod valid_ret that)
  have refused: "valid (closing rid ps hs) (seqM (record_reconciliation_fault env fault)
      (seqM (modM (add_cancel_pending rid ?q)) (retM False))) ?Q (\<lambda>_ _. True)" for fault
    by (rule valid_seq [OF valid_fault [OF closing_records(1)]],
        rule valid_seq [where R = "\<lambda>s. closing rid ps hs s \<and> ?q \<in> set (cancel_pending_ids rid s)"])
      (auto intro: valid_mod valid_ret closing_pend closing_pended)
  have waits: "valid (closing rid ps hs) (bindM (getM (cancel_pending_ids rid)) (\<lambda>pending.
      if ?q \<in> set pending then retM False
      else seqM (record_reconciliation_fault env fault) (seqM (modM (add_cancel_pending rid ?q)) (retM False))))
      ?Q (\<lambda>_ _. True)" for fault
  proof (rule valid_bind_get, rule valid_if)
    fix s0 assume s0: "closing rid ps hs s0"
    then show "valid (\<lambda>s. s = s0) (seqM (record_reconciliation_fault env fault)
        (seqM (modM (add_cancel_pending rid ?q)) (retM False))) ?Q (\<lambda>_ _. True)"
      by (intro valid_pre [OF refused]) simp
    assume "?q \<in> set (cancel_pending_ids rid s0)"
    with s0 show "valid (\<lambda>s. s = s0) (retM False) ?Q (\<lambda>_ _. True)" by (intro valid_ret) simp
  qed
  show ?thesis
    unfolding cancel_runtime_for_close_def Let_def
    apply (rule valid_seq [where R = "closing rid ps hs"])
     apply (rule valid_keeps_any, intro keeps_rules)
    apply (rule valid_seq [where R = "closing rid ps hs"])
     apply (rule valid_mod, erule closing_ops)
    apply (rule valid_bind [where R = "\<lambda>_. closing rid ps hs"])
     apply (rule valid_get, assumption)
    apply (intro valid_if)
     apply (rule valid_bind [OF valid_keeps_any [OF keeps_cancel_provider_closing]])
     apply (intro valid_if ended waits)
     apply (simp_all add: closing_ops ended Let_def)
    done
qed

lemma keeps_delivery_closing [keeps_rules]: "keeps (closing rid ps hs) (close_delivery env r q)"
proof -
  have "keeps (closing rid ps hs) (on_queue i f a)" for i a and f :: "queue_evictions \<Rightarrow> (exc + 'x) \<times> queue_evictions"
    by (rule keepsI) (auto simp: on_queue_def closing_ops split: option.splits prod.splits)
  then show ?thesis
    unfolding close_delivery_def terminal_completion_delivery_def enqueue_completion_record_def enforce_retention_at_def
    by (intro keeps_rules keeps_mod keeps_time keeps_status keeps_record closing_records closing_ops(6))
qed

lemma closing_pop_pending:
  "closing rid ((q, p) # ps) hs s \<Longrightarrow> closing rid ps hs (s\<lparr>pending_capacity := dpop q (pending_capacity s)\<rparr>)"
  by (auto simp: closing_def cancel_pending_ids_def)

lemma closing_skip_pending:
  "pe_reservation_id p \<noteq> Some rid \<Longrightarrow> closing rid ((q, p) # ps) hs s \<Longrightarrow> closing rid ps hs s"
  by (auto simp: closing_def)

lemma remove_pending_closing:
  "valid (closing rid (x # ps) hs) (remove_pending_task env rid deliver x) (\<lambda>_. closing rid ps hs) (\<lambda>_ _. True)"
proof (cases x)
  case (Pair q p)
  have "valid (closing rid ps hs) (case found of None \<Rightarrow> retM []
      | Some runtime \<Rightarrow> bindM (cancel_runtime_for_close env rid runtime) (\<lambda>cancelled.
          if cancelled \<and> deliver then close_delivery env rid q else retM [])) (\<lambda>_. closing rid ps hs) (\<lambda>_ _. True)" for found
    by (rule valid_case_option, rule valid_ret, assumption, rule valid_bind [OF cancel_runtime_closing],
        rule valid_pre [OF valid_keeps_any [where I = "closing rid ps hs"]]) (intro keeps_rules, simp)
  moreover have "valid (closing rid ps hs) (seqM (modM (upd_close rid (\<lambda>c. c\<lparr>pending_removed := f c\<rparr>))) (retM ds))
      (\<lambda>_. closing rid ps hs) (\<lambda>_ _. True)" for f and ds :: "completion_delivery list"
    by (rule valid_keeps_any) (intro keeps_rules keeps_mod, auto intro: closing_upd)
  ultimately have "valid (closing rid ps hs) (bindM (getM (task_for_qtask_id q)) (\<lambda>found.
      bindM (case found of None \<Rightarrow> retM []
        | Some runtime \<Rightarrow> bindM (cancel_runtime_for_close env rid runtime) (\<lambda>cancelled.
            if cancelled \<and> deliver then close_delivery env rid q else retM []))
        (\<lambda>deliveries. seqM (modM (upd_close rid (\<lambda>c. c\<lparr>pending_removed := pending_removed c @ [q]\<rparr>)))
          (retM deliveries)))) (\<lambda>_. closing rid ps hs) (\<lambda>_ _. True)"
    by (intro valid_bind [OF valid_get [where Q = "\<lambda>_. closing rid ps hs"]] valid_bind)
  then show ?thesis
    unfolding remove_pending_task_def Pair fst_conv snd_conv
    by (intro valid_if valid_seq [where R = "closing rid ps hs"])
      (auto intro: valid_ret valid_mod closing_skip_pending closing_pop_pending)
qed

lemma closing_pop_hold:
  "closing rid ps ((q, h) # hs) s \<Longrightarrow> closing rid ps hs (pop_hold q s)"
  using tasks_ok_simple(3) [of s q] by (auto simp: closing_def cancel_pending_ids_def pop_hold_def)

lemma closing_skip_hold:
  "ch_reservation_id h \<noteq> rid \<or> q \<in> set (cancel_pending_ids rid s) \<Longrightarrow> closing rid ps ((q, h) # hs) s \<Longrightarrow> closing rid ps hs s"
  by (auto simp: closing_def)

lemma settle_closing:
  "valid (closing rid ps ((q, h) # hs)) (settle_closed_hold env rid deliver q h found) (\<lambda>_. closing rid ps hs) (\<lambda>_ _. True)"
  unfolding settle_closed_hold_def
  by (rule valid_seq [where R = "closing rid ps hs"], rule valid_mod, erule closing_pop_hold, rule valid_keeps_any)
    (auto intro!: keeps_rules keeps_mod keeps_admission closing_records closing_ops closing_upd
      simp: finalize_capacity_hold_def Let_def)

lemma reconcile_closing:
  "valid (closing rid ps (x # hs)) (reconcile_closed_hold env rid deliver x) (\<lambda>_. closing rid ps hs) (\<lambda>_ _. True)"
proof (cases x)
  case (Pair q h)
  have "valid (\<lambda>s. s = s0) (case task_for_qtask_id q s0 of
          None \<Rightarrow> settle_closed_hold env rid deliver q h (task_for_qtask_id q s0)
        | Some runtime \<Rightarrow> bindM (cancel_runtime_for_close env rid runtime) (\<lambda>cancelled.
            if \<not> cancelled then retM [] else settle_closed_hold env rid deliver q h (task_for_qtask_id q s0)))
      (\<lambda>_. closing rid ps hs) (\<lambda>_ _. True)" if s0: "closing rid ps ((q, h) # hs) s0" for s0
  proof (rule valid_case_option)
    fix r assume "task_for_qtask_id q s0 = Some r"
    then have "rt_qtask_id r = q" using s0 task_for_key [of s0 q r] by (simp add: closing_def task_for_qtask_id_def)
    then have "valid (closing rid ps ((q, h) # hs)) (bindM (cancel_runtime_for_close env rid r) (\<lambda>cancelled.
            if \<not> cancelled then retM [] else settle_closed_hold env rid deliver q h (task_for_qtask_id q s0)))
      (\<lambda>_. closing rid ps hs) (\<lambda>_ _. True)"
      by (intro valid_bind [OF cancel_runtime_closing] valid_if)
        (auto intro!: valid_ret valid_pre [OF settle_closing] intro: closing_skip_hold)
    then show "valid (\<lambda>s. s = s0) (bindM (cancel_runtime_for_close env rid r) (\<lambda>cancelled.
            if \<not> cancelled then retM [] else settle_closed_hold env rid deliver q h (task_for_qtask_id q s0)))
      (\<lambda>_. closing rid ps hs) (\<lambda>_ _. True)"
      by (rule valid_pre) (simp add: s0)
  qed (rule valid_pre [OF settle_closing], simp add: s0)
  then show ?thesis
    unfolding reconcile_closed_hold_def Pair fst_conv snd_conv
    by (intro valid_if valid_bind_get) (auto intro: valid_ret closing_skip_hold)
qed

text \<open>
  After closing, nothing of the reservation waits for capacity, and every hold of it that is left
  belongs to a task whose provider could not be cancelled.
\<close>

definition settled :: "int \<Rightarrow> controller \<Rightarrow> bool" where
  "settled rid s \<longleftrightarrow>
     (\<forall>q p. map_of (pending_capacity s) q = Some p \<longrightarrow> pe_reservation_id p \<noteq> Some rid) \<and>
     (\<forall>q h. map_of (capacity_holds s) q = Some h \<longrightarrow> ch_reservation_id h = rid \<longrightarrow> q \<in> set (cancel_pending_ids rid s))"

lemma closing_start:
  "tasks_ok s \<Longrightarrow> map_of (reservation_close_state s) rid \<noteq> None \<Longrightarrow>
   closing rid (pending_capacity s) (capacity_holds s) s"
  by (auto simp: closing_def dest: map_of_SomeD)

lemma closing_holds:
  assumes "closing rid [] hs s" shows "closing rid [] (capacity_holds s) s"
  using assms by (auto simp: closing_def dest: map_of_SomeD)

lemma refresh_keeps_holds:
  assumes "map_of (capacity_holds s) q \<noteq> None"
  shows "q \<in> set (cancel_pending_ids rid (refresh_provider_cancel_pending rid s)) \<longleftrightarrow> q \<in> set (cancel_pending_ids rid s)"
  using assms
  by (auto simp: refresh_provider_cancel_pending_def cancel_pending_ids_def upd_close_def
      provider_cancel_pending_resolved_def split: option.splits)

lemma refresh_tables [simp]:
  "capacity_holds (refresh_provider_cancel_pending rid s) = capacity_holds s"
  "pending_capacity (refresh_provider_cancel_pending rid s) = pending_capacity s"
  by (simp_all add: refresh_provider_cancel_pending_def upd_close_def split: option.splits)

lemma closing_settled:
  assumes "closing rid [] [] s" shows "settled rid (refresh_provider_cancel_pending rid s)"
  using assms refresh_keeps_holds [of s] by (auto simp: settled_def closing_def)

text \<open>Every task that is still to be cancelled at its provider is still active there.\<close>

definition waits_for_provider :: "int \<Rightarrow> controller \<Rightarrow> bool" where
  "waits_for_provider rid s \<longleftrightarrow> (\<forall>q\<in>set (cancel_pending_ids rid s). \<not> provider_cancel_pending_resolved q s)"

lemma upd_close_resolved [simp]: "provider_cancel_pending_resolved q (upd_close rid f s) = provider_cancel_pending_resolved q s"
  by (cases "map_of (reservation_close_state s) rid") (simp_all add: provider_cancel_pending_resolved_def upd_close_def cong: option.case_cong)

lemma refresh_waits: "waits_for_provider rid (refresh_provider_cancel_pending rid s)"
proof -
  have "provider_cancel_pending_resolved q (refresh_provider_cancel_pending rid s) = provider_cancel_pending_resolved q s" for q
    by (simp add: refresh_provider_cancel_pending_def)
  then show ?thesis
    by (auto simp: waits_for_provider_def refresh_provider_cancel_pending_def cancel_pending_ids_def upd_close_def split: option.splits)
qed

definition being_closed :: "int \<Rightarrow> controller \<Rightarrow> bool" where
  "being_closed rid s \<longleftrightarrow> tasks_ok s \<and> map_of (reservation_close_state s) rid \<noteq> None"

lemma close_tasks_settle:
  "valid (being_closed rid) (close_tasks_of env rid deliver) (\<lambda>_ s. tasks_ok s \<and> settled rid s \<and> waits_for_provider rid s) (\<lambda>_ _. True)"
proof -
  have removed: "valid (being_closed rid) (remove_pending_for_reservation env rid deliver)
      (\<lambda>_ s. \<exists>hs. closing rid [] hs s) (\<lambda>_ _. True)"
    unfolding remove_pending_for_reservation_def
  proof (rule valid_bind_get)
    fix s0 assume "being_closed rid s0"
    then have start: "closing rid (pending_capacity s0) (capacity_holds s0) s0"
      by (auto simp: being_closed_def intro: closing_start)
    from valid_collect [where R = "\<lambda>ps. closing rid ps (capacity_holds s0)", OF remove_pending_closing]
    show "valid (\<lambda>s. s = s0) (collectM (pending_capacity s0) (remove_pending_task env rid deliver))
        (\<lambda>_ s. \<exists>hs. closing rid [] hs s) (\<lambda>_ _. True)"
      by (rule valid_weaken) (use start in auto)
  qed
  have reconciled: "valid (\<lambda>s. \<exists>hs. closing rid [] hs s) (reconcile_holds_for_reservation env rid deliver)
      (\<lambda>_. closing rid [] []) (\<lambda>_ _. True)"
    unfolding reconcile_holds_for_reservation_def
  proof (rule valid_bind_get)
    fix s0 assume "\<exists>hs. closing rid [] hs s0"
    then have start: "closing rid [] (capacity_holds s0) s0" using closing_holds by blast
    from valid_collect [where R = "\<lambda>hs. closing rid [] hs", OF reconcile_closing]
    show "valid (\<lambda>s. s = s0) (collectM (capacity_holds s0) (reconcile_closed_hold env rid deliver))
        (\<lambda>_. closing rid [] []) (\<lambda>_ _. True)"
      by (rule valid_weaken) (use start in auto)
  qed
  have refreshed: "valid (closing rid [] []) (seqM (modM (refresh_provider_cancel_pending rid)) (retM ds))
      (\<lambda>_ s. tasks_ok s \<and> settled rid s \<and> waits_for_provider rid s) (\<lambda>_ _. True)" for ds :: "completion_delivery list"
    by (rule valid_seq [where R = "\<lambda>s. tasks_ok s \<and> settled rid s \<and> waits_for_provider rid s"])
      (auto intro!: valid_mod valid_ret closing_settled refresh_waits
        simp: closing_def refresh_provider_cancel_pending_def upd_close_def split: option.splits)
  show ?thesis
    unfolding close_tasks_of_def by (rule valid_bind [OF removed], rule valid_bind [OF reconciled], rule refreshed)
qed

text \<open>No hold and no waiting entry of the reservation is left.\<close>

definition drained :: "int \<Rightarrow> controller \<Rightarrow> bool" where
  "drained rid s \<longleftrightarrow>
     (\<forall>q p. map_of (pending_capacity s) q = Some p \<longrightarrow> pe_reservation_id p \<noteq> Some rid) \<and>
     (\<forall>q h. map_of (capacity_holds s) q = Some h \<longrightarrow> ch_reservation_id h \<noteq> rid)"

lemma settled_drained: "settled rid s \<Longrightarrow> cancel_pending_ids rid s = [] \<Longrightarrow> drained rid s"
  by (auto simp: settled_def drained_def)

lemma drained_blind: "world_blind (drained rid)"
  by (simp add: world_blind_def drained_def)

lemma drained_ops [simp]:
  "drained rid (upd_close r f s) = drained rid s" "drained rid (mark_completion_queue_terminal r now s) = drained rid s"
  by (simp_all add: drained_def upd_close_def mark_completion_queue_terminal_def ensure_completion_queue_def Let_def
      split: option.splits)

text \<open>
  What closing answers and leaves: nothing of the reservation, or the answer that it is pending with the tasks that
  keep it so, in the order they are recorded. Each of these is still active at its provider, nothing waits
  for capacity, and no other task has a hold.
\<close>

definition close_answer :: "int \<Rightarrow> pydict \<Rightarrow> controller \<Rightarrow> bool" where
  "close_answer rid result s \<longleftrightarrow> drained rid s \<or>
     (pget result ''status'' = PStr ''pending'' \<and> cancel_pending_ids rid s \<noteq> [] \<and>
      pget result ''pending_qtask_ids'' = int_list (cancel_pending_ids rid s) \<and> settled rid s \<and> waits_for_provider rid s)"

lemma note_waiting_frame:
  "cancel_pending_ids rid (note_cancel_waiting rid s) = cancel_pending_ids rid s" "settled rid (note_cancel_waiting rid s) = settled rid s"
  "waits_for_provider rid (note_cancel_waiting rid s) = waits_for_provider rid s"
proof -
  show ids: "cancel_pending_ids rid (note_cancel_waiting rid s) = cancel_pending_ids rid s"
    by (auto simp: note_cancel_waiting_def upd_close_def cancel_pending_ids_def split: option.splits)
  show "waits_for_provider rid (note_cancel_waiting rid s) = waits_for_provider rid s"
    unfolding waits_for_provider_def ids by (simp add: note_cancel_waiting_def)
  show "settled rid (note_cancel_waiting rid s) = settled rid s"
    unfolding settled_def ids by (simp add: note_cancel_waiting_def upd_close_def split: option.split)
qed

lemma close_reservation_drains:
  assumes "kind \<noteq> Expire"
  shows "valid tasks_ok (close_reservation env rid kind code now deliver)
     (\<lambda>x. close_answer rid (fst x)) (\<lambda>_ _. True)"
proof -
  let ?wait = "\<lambda>pending ds. seqM (modM (note_cancel_waiting rid))
      (retM ([(''status'', PStr ''pending''), (''reservation_id'', PInt rid),
        (''reason'', PStr ''provider-cancel-pending''), (''pending_qtask_ids'', int_list pending)], ds))"
  have wait: "valid (\<lambda>s. settled rid s \<and> waits_for_provider rid s \<and> pending = cancel_pending_ids rid s \<and> pending \<noteq> []) (?wait pending ds)
      (\<lambda>x. close_answer rid (fst x)) (\<lambda>_ _. True)" for pending and ds :: "completion_delivery list"
    by (rule valid_seq [where R = "\<lambda>s. settled rid s \<and> waits_for_provider rid s \<and> pending = cancel_pending_ids rid s \<and> pending \<noteq> []"])
      (auto intro!: valid_mod valid_ret simp: close_answer_def pget_def note_waiting_frame)
  have asks: "valid (drained rid) (bindM (ask_admission_to_close env rid kind code) (\<lambda>result.
      bindM (time_ns env) (\<lambda>done.
        let status = py_str (pgetd result ''status'' (PStr ''accepted''))
        in seqM (modM (\<lambda>s. let s = upd_close rid (\<lambda>c. c\<lparr>completed_at_ns := Some done, cl_status := Some status\<rparr>) s
             in if status = ''accepted'' then mark_completion_queue_terminal rid done s else s))
           (retM (result, ds))))) (\<lambda>x. close_answer rid (fst x)) (\<lambda>_ _. True)" for ds :: "completion_delivery list"
  proof (rule valid_weaken [OF valid_keeps_any [where I = "drained rid"]])
    show "keeps (drained rid) (bindM (ask_admission_to_close env rid kind code) (\<lambda>result.
      bindM (time_ns env) (\<lambda>done.
        let status = py_str (pgetd result ''status'' (PStr ''accepted''))
        in seqM (modM (\<lambda>s. let s = upd_close rid (\<lambda>c. c\<lparr>completed_at_ns := Some done, cl_status := Some status\<rparr>) s
             in if status = ''accepted'' then mark_completion_queue_terminal rid done s else s))
           (retM (result, ds)))))"
      unfolding ask_admission_to_close_def
      by (auto intro!: keeps_rules keeps_mod keeps_time keeps_admission drained_blind simp: Let_def split: close_kind.splits)
  qed (auto simp: close_answer_def)
  have start: "valid tasks_ok (modM (reservation_close_state_locked rid k n)) (\<lambda>_. being_closed rid) (\<lambda>_ _. True)" for k n
    by (rule valid_mod) (auto simp: being_closed_def reservation_close_state_locked_def Let_def split: option.splits)
  have clock: "valid tasks_ok (case now of Some n \<Rightarrow> if n \<noteq> 0 then retM n else time_ns env | None \<Rightarrow> time_ns env)
      (\<lambda>_. tasks_ok) (\<lambda>_ _. True)"
    by (rule valid_keeps_any) (auto intro!: keeps_rules tasks_world split: option.splits)
  show ?thesis
    unfolding close_reservation_def
    apply (rule valid_bind [OF clock])
    apply (simp only: assms if_False)
    apply (rule valid_seq [OF start], rule valid_bind [OF close_tasks_settle], rule valid_bind_get, rule valid_if)
     apply (rule valid_pre [OF wait], simp)
    apply (rule valid_pre [OF asks], simp add: settled_drained)
    done
qed

end
