(* ===== verification/QPM_Reservations_Inv.thy ===== *)
theory QPM_Reservations_Inv
  imports QPM_Reservations QPM_Close_Inv
begin

text \<open>
  What reserving and validating leave alone: a predicate on the tables of tasks and completions
  that ignores the reservation tables is kept by every operation of the intake.
\<close>

text \<open>Predicates that ignore the tables the intake writes.\<close>

definition intake_blind :: "(controller \<Rightarrow> bool) \<Rightarrow> bool" where
  "intake_blind I \<longleftrightarrow> ledger_blind I \<and> queue_blind I \<and>
     (\<forall>s n m c f. I (s\<lparr>admission_request_id_next := n\<rparr>) = I s \<and> I (s\<lparr>reservation_metadata_by_id := m\<rparr>) = I s \<and>
        I (s\<lparr>reservation_credentials_by_id := c\<rparr>) = I s \<and> I (s\<lparr>reservation_sequence := f\<rparr>) = I s)"

lemma intake_blindD:
  assumes "intake_blind I"
  shows "ledger_blind I" "queue_blind I" "world_blind I" "I (s\<lparr>admission_request_id_next := n\<rparr>) = I s"
    "I (s\<lparr>reservation_metadata_by_id := m\<rparr>) = I s" "I (s\<lparr>reservation_credentials_by_id := c\<rparr>) = I s"
    "I (s\<lparr>reservation_sequence := f\<rparr>) = I s" "I (s\<lparr>circuit_heap := h\<rparr>) = I s"
  using assms by (simp_all add: intake_blind_def ledger_blind_def)

lemma tables_intake_blind: "intake_blind tasks_ok" "intake_blind cq_ok"
  by (simp_all add: intake_blind_def ledger_blind_def queue_blind_def record_blind_def world_blind_def tasks_ok_def cq_ok_def)

lemma keeps_binding_value: "ledger_blind I \<Longrightarrow> keeps I (canonical_binding_value f v)"
  by (auto simp: canonical_binding_value_def intro!: keeps_rules keeps_canonicalize_blind split: pyval.splits)

lemma keeps_numeric: "ledger_blind I \<Longrightarrow> keeps I (numeric_or_canonical k n e)"
  by (auto simp: numeric_or_canonical_def intro!: keeps_rules keeps_canonicalize_blind split: pyval.splits)

lemma keeps_admission_request:
  assumes "intake_blind I"
  shows "keeps I (admission_request r t)"
  unfolding admission_request_def request_ids_of_def allocate_admission_request_id_def Let_def
  by (intro keeps_rules keeps_numeric keeps_mod intake_blindD [OF assms]) (simp add: intake_blindD [OF assms])

lemma keeps_match_context:
  assumes "intake_blind I"
  shows "keeps I (require_reservation_matches_context r ctx)"
  unfolding require_reservation_matches_context_def match_field_def reservation_binding_value_def
    require_reservation_operation_matches_def Let_def
  by (intro keeps_rules keeps_binding_value intake_blindD [OF assms])

lemma keeps_filters: "intake_blind I \<Longrightarrow> keeps I (admission_filters f)"
proof -
  assume "intake_blind I"
  then have "keeps I (canonical_filters names d)" for names d
    by (induction names d rule: canonical_filters.induct)
      (auto intro!: keeps_rules keeps_canonicalize_blind dest: intake_blindD(1))
  then show ?thesis unfolding admission_filters_def .
qed

lemma keeps_bind_provider:
  assumes "intake_blind I"
  shows "keeps I (bind_provider_credential env rid m)"
  unfolding bind_provider_credential_def
  by (auto intro!: keeps_rules keeps_bind_credential keeps_mod intake_blindD [OF assms] simp: intake_blindD [OF assms]
      split: prod.splits)

lemma keeps_fallback:
  assumes "intake_blind I"
  shows "keeps I (fallback_provider_credential env rid)"
  unfolding fallback_provider_credential_def Let_def
  by (auto intro!: keeps_rules keeps_time keeps_mod intake_blindD [OF assms] simp: intake_blindD [OF assms]
      split: option.splits pyval.splits)

lemma keeps_allocate_reservation:
  assumes "intake_blind I"
  shows "keeps I (allocate_reservation_id env)"
  unfolding allocate_reservation_id_def active_reservation_ids_def
  by (auto intro!: keeps_rules keeps_mod intake_blindD [OF assms] simp: intake_blindD [OF assms]
      split: option.splits prod.splits)

lemma keeps_reserve:
  assumes I: "intake_blind I" and ensure: "\<And>rid s. I s \<Longrightarrow> I (ensure_completion_queue rid s)"
    and forget: "\<And>rid s. I s \<Longrightarrow> I (s\<lparr>completion_queues := dpop rid (completion_queues s)\<rparr>)"
  shows "keeps I (reserve_admission env request token)"
proof -
  have "I (forget_reservation rid s)" if "I s" for rid s
  proof -
    let ?t = "s\<lparr>reservation_metadata_by_id := dpop rid (reservation_metadata_by_id s),
      reservation_credentials_by_id := dpop rid (reservation_credentials_by_id s)\<rparr>"
    have "I ?t" using that intake_blindD(5,6) [OF I] by simp
    from forget [OF this, of rid] show ?thesis by (simp add: forget_reservation_def)
  qed
  moreover have "I (ensure_completion_queue rid (s\<lparr>reservation_metadata_by_id := m\<rparr>))" if "I s" for rid s m
    using ensure that intake_blindD(5) [OF I] by simp
  ultimately show ?thesis
    unfolding reserve_admission_def accept_reservation_def reject_credential_binding_reservation_def Let_def
    by (auto intro!: keeps_rules keeps_mod keeps_admission_request keeps_bind_provider keeps_allocate_reservation
        keeps_validate_credential I intake_blindD [OF I] split: sum.splits)
qed

end
