(* ===== verification/QPM_Config.thy ===== *)
theory QPM_Config
  imports QPM_Tasks
begin

text \<open>
  Configuration of a target (\<^verbatim>\<open>services/util/qpm/controller.py\<close>): creating and binding the controller of a
  target, the service state, the scheduler policy and its controls, dispatch limits, the device
  profile and the admission policy with their versions. A floating-point number where a count is
  expected raises here, floating-point numbers being opaque objects.
\<close>

section \<open>Creating a controller\<close>

definition COMPLETION_RETENTION_CONFIG_KEYS :: "string list" where
  "COMPLETION_RETENTION_CONFIG_KEYS =
     [''completion-ttl-seconds'', ''terminal-reservation-retention-seconds'', ''max-records-per-reservation'',
      ''max-bytes-per-reservation'', ''purge-interval-seconds'']"

text \<open>\<^verbatim>\<open>v.get(key, {})\<close> on a value that should be a mapping.\<close>

definition sub_mapping :: "pyval \<Rightarrow> string \<Rightarrow> exc + pyval" where
  "sub_mapping v key =
     (case v of PDict d \<Rightarrow> Inr (pgetd d key (PDict [])) | _ \<Rightarrow> Inl (AttributeError ''object has no attribute get''))"

text \<open>The retention block of the site file; a file that is missing or cannot be read counts as empty.\<close>

definition retention_block :: "config_file \<Rightarrow> exc + pydict" where
  "retention_block site =
     (case site of
        File v \<Rightarrow>
          bindE (sub_mapping (py_or v (PDict [])) ''qpm'') (\<lambda>qpm.
          bindE (sub_mapping qpm ''completion-queues'') (\<lambda>queues.
          bindE (sub_mapping queues ''retention'') (\<lambda>block. Inr (case block of PDict d \<Rightarrow> d | _ \<Rightarrow> []))))
      | _ \<Rightarrow> Inr [])"

definition set_retention :: "string \<Rightarrow> int \<Rightarrow> completion_retention_config \<Rightarrow> completion_retention_config" where
  "set_retention key n r =
     (if key = ''completion-ttl-seconds'' then r\<lparr>completion_ttl_seconds := n\<rparr>
      else if key = ''terminal-reservation-retention-seconds'' then r\<lparr>terminal_reservation_retention_seconds := n\<rparr>
      else if key = ''max-records-per-reservation'' then r\<lparr>max_records_per_reservation := n\<rparr>
      else if key = ''max-bytes-per-reservation'' then r\<lparr>max_bytes_per_reservation := n\<rparr>
      else r\<lparr>purge_interval_seconds := n\<rparr>)"

fun read_retention :: "pydict \<Rightarrow> string list \<Rightarrow> completion_retention_config \<Rightarrow> exc + completion_retention_config" where
  "read_retention block [] r = Inr r"
| "read_retention block (key # keys) r =
     (case map_of block key of
        None \<Rightarrow> read_retention block keys r
      | Some v \<Rightarrow> bindE (completion_retention_int v (''qpm.completion-queues.retention.'' @ key)) (\<lambda>n.
                  read_retention block keys (set_retention key n r)))"

definition completion_retention_config :: "config_file \<Rightarrow> exc + completion_retention_config" where
  "completion_retention_config site =
     bindE (retention_block site) (\<lambda>block.
       read_retention block COMPLETION_RETENTION_CONFIG_KEYS COMPLETION_RETENTION_DEFAULTS)"

definition DEFAULT_CONTROLLER_SERIALIZATION_MODE :: string where
  "DEFAULT_CONTROLLER_SERIALIZATION_MODE = ''controller-lock''"

definition QHW_ADM_THREAD_USER :: string where "QHW_ADM_THREAD_USER = ''QHW_ADM_THREAD_USER''"
definition QHW_SCHED_THREAD_USER :: string where "QHW_SCHED_THREAD_USER = ''QHW_SCHED_THREAD_USER''"

definition serialization_error :: "qpm_controller_config \<Rightarrow> exc + unit" where
  "serialization_error conf =
     (if serialization_mode conf = DEFAULT_CONTROLLER_SERIALIZATION_MODE then Inr ()
      else if admission_threading_mode conf = QHW_ADM_THREAD_USER
      then Inl (ValueError ''QHW_ADM_THREAD_USER requires controller-lock serialization'')
      else if scheduler_threading_mode conf = QHW_SCHED_THREAD_USER
      then Inl (ValueError ''QHW_SCHED_THREAD_USER requires controller-lock serialization'')
      else Inr ())"

text \<open>\<^verbatim>\<open>QPMTargetController.__init__\<close>: a site file or a sequence file that does not parse stops it.\<close>

definition create_controller :: "qpm_controller_config \<Rightarrow> config_file \<Rightarrow> seq_file option \<Rightarrow> exc + controller" where
  "create_controller conf site sequence =
     bindE (serialization_error conf) (\<lambda>_.
     bindE (completion_retention_config site) (\<lambda>retention.
     bindE (case sequence of None \<Rightarrow> Inr () | Some file \<Rightarrow> seq_init file) (\<lambda>_.
       Inr (new_controller conf retention sequence))))"

section \<open>Lifecycle records\<close>

definition bind_controller :: "qpm_env \<Rightarrow> pyval \<Rightarrow> unit ctl" where
  "bind_controller env ppn =
     seqM (modM (\<lambda>s. s\<lparr>binding_count := binding_count s + 1, max_ppn := (if max_ppn s = PNone then ppn else max_ppn s)\<rparr>))
     (bindM (getM id) (\<lambda>s.
        seqM (record_lifecycle_event env ''binding-attached'' PNone
          (Some [(''binding_count'', PInt (int (binding_count s))), (''max_ppn'', max_ppn s)])) (retM ())))"

text \<open>\<^verbatim>\<open>_CONTROLLERS\<close>: the controllers of the process, by target.\<close>

type_synonym controllers = "(string \<times> controller) list"

definition get_target_controller ::
  "qpm_env \<Rightarrow> qpm_controller_config \<Rightarrow> config_file \<Rightarrow> seq_file option \<Rightarrow> pyval \<Rightarrow> controllers \<Rightarrow> (exc + unit) \<times> controllers" where
  "get_target_controller env conf site sequence ppn table =
     (let bind = (\<lambda>c. case bind_controller env ppn c of (r, d) \<Rightarrow> (r, dset (target_id conf) d table))
      in case map_of table (target_id conf) of
           Some c \<Rightarrow> bind c
         | None \<Rightarrow> (case create_controller conf site sequence of Inl e \<Rightarrow> (Inl e, table) | Inr c \<Rightarrow> bind c))"

definition find_target_controller :: "string \<Rightarrow> controllers \<Rightarrow> controller option" where
  "find_target_controller target table = map_of table target"

definition set_provider_canceller :: "bool \<Rightarrow> controller \<Rightarrow> controller" where
  "set_provider_canceller given s = s\<lparr>provider_canceller := given\<rparr>"

definition set_provider_credential_evictor :: "bool \<Rightarrow> controller \<Rightarrow> controller" where
  "set_provider_credential_evictor given s = s\<lparr>provider_credential_evictor := given\<rparr>"

section \<open>Service state and scheduler controls\<close>

definition upd_control :: "(scheduler_control_state \<Rightarrow> scheduler_control_state) \<Rightarrow> controller \<Rightarrow> controller" where
  "upd_control f s = s\<lparr>scheduler_control := f (scheduler_control s)\<rparr>"

definition begin_service_shutdown :: "qpm_env \<Rightarrow> pyval \<Rightarrow> pyval \<Rightarrow> pyval \<Rightarrow> pyval \<Rightarrow> pydict ctl" where
  "begin_service_shutdown env mode timeout_s reason token =
     bindM (getM shutdown_request) (\<lambda>before.
       case before of
         Some d \<Rightarrow> retM (dset ''repeated'' (PBool True) d)
       | None \<Rightarrow>
           (let graceful = (mode = PStr ''graceful''); state = (if graceful then ''draining'' else ''quiescing'')
            in seqM (modM (\<lambda>s. upd_control (\<lambda>c. c\<lparr>paused := True, draining := graceful\<rparr>) (s\<lparr>service_state := state\<rparr>)))
               (bindM (time_ns env) (\<lambda>now.
                let request = [(''status'', PStr ''accepted''), (''mode'', mode), (''timeout_s'', timeout_s), (''reason'', reason),
                      (''state'', PStr state), (''requested_at_ns'', PInt now)]
                in seqM (modM (\<lambda>s. s\<lparr>shutdown_request := Some request\<rparr>))
                   (bindM (time_s env) (\<lambda>t.
                    seqM (modM (\<lambda>s. s\<lparr>audit_records := audit_records s @
                       [[(''operation'', PStr ''shutdown''), (''reason'', reason), (''mode'', mode),
                         (''token_metadata'', PDict (token_metadata token)), (''timestamp'', t)]]\<rparr>))
                    (seqM (record_lifecycle_event env ''service-shutdown-requested'' reason
                       (Some [(''mode'', mode), (''timeout_s'', timeout_s)])) (retM request))))))))"

definition record_control_reconciliation :: "qpm_env \<Rightarrow> pyval \<Rightarrow> pydict \<Rightarrow> pyval \<Rightarrow> pydict ctl" where
  "record_control_reconciliation env reason summary token =
     bindM (time_s env) (\<lambda>t.
     seqM (modM (\<lambda>s. s\<lparr>audit_records := audit_records s @
        [[(''operation'', PStr ''reconcile_runtime_state''), (''reason'', reason), (''summary'', PDict summary),
          (''token_metadata'', PDict (token_metadata token)), (''timestamp'', t)]]\<rparr>)) (retM summary))"

definition set_service_state :: "qpm_env \<Rightarrow> string \<Rightarrow> unit ctl" where
  "set_service_state env state =
     seqM (modM (\<lambda>s. s\<lparr>service_state := state\<rparr>))
       (seqM (record_lifecycle_event env ''service-state-change'' PNone (Some [(''state'', PStr state)])) (retM ()))"

definition get_scheduler_policy :: "controller \<Rightarrow> pydict" where
  "get_scheduler_policy s =
     [(''version'', PInt (int (scheduler_policy_version s))), (''scheduler_policy'', PDict (policy_dict (scheduler_policy_state s)))]"

definition configure_scheduler_policy :: "qpm_env \<Rightarrow> pyval \<Rightarrow> pydict ctl" where
  "configure_scheduler_policy env configuration =
     bindM (set_scheduler_policy env configuration) (\<lambda>normalized.
     bindM (getM id) (\<lambda>s.
       if policy_equal (scheduler_policy_state s) normalized
       then retM ((''status'', PStr ''unchanged'') # get_scheduler_policy s)
       else seqM (modM (\<lambda>s. s\<lparr>scheduler_policy_state := normalized, scheduler_policy_version := scheduler_policy_version s + 1\<rparr>))
         (bindM (getM id) (\<lambda>s.
          seqM (record_lifecycle_event env ''scheduler-policy-change'' PNone (Some (get_scheduler_policy s)))
            (retM ((''status'', PStr ''accepted'') # get_scheduler_policy s))))))"

definition control_dict :: "scheduler_control_state \<Rightarrow> pydict" where
  "control_dict c =
     [(''paused'', PBool (paused c)), (''draining'', PBool (draining c)), (''drain_mode'', drain_mode c),
      (''drain_timeout_s'', drain_timeout_s c), (''drain_started_at_ns'', opt_int (drain_started_at_ns c)),
      (''pause_reason'', pause_reason c), (''dispatch_depth'', PInt (dispatch_depth c))]"

definition scheduler_control_result :: "string \<Rightarrow> controller \<Rightarrow> pydict" where
  "scheduler_control_result status s =
     [(''status'', PStr status), (''version'', PInt (int (scheduler_control_version s))), (''target_id'', PStr (target_id (config s))),
      (''control'', PDict (control_dict (scheduler_control s)))]"

text \<open>Every change of the controls takes a version and leaves a lifecycle record.\<close>

definition change_control ::
  "qpm_env \<Rightarrow> (scheduler_control_state \<Rightarrow> scheduler_control_state) \<Rightarrow> string \<Rightarrow> string \<Rightarrow> pyval \<Rightarrow> pydict \<Rightarrow> pydict ctl" where
  "change_control env f status event reason details =
     seqM (modM (\<lambda>s. upd_control f (s\<lparr>scheduler_control_version := scheduler_control_version s + 1\<rparr>)))
     (bindM (getM scheduler_control_version) (\<lambda>version.
      seqM (record_lifecycle_event env event reason (Some ((''version'', PInt (int version)) # details)))
        (getM (scheduler_control_result status))))"

definition pause_scheduler :: "qpm_env \<Rightarrow> pyval \<Rightarrow> pydict ctl" where
  "pause_scheduler env reason =
     change_control env (\<lambda>c. c\<lparr>paused := True, pause_reason := reason\<rparr>) ''paused'' ''scheduler-paused'' reason []"

definition resume_scheduler :: "qpm_env \<Rightarrow> pydict ctl" where
  "resume_scheduler env =
     change_control env
       (\<lambda>c. c\<lparr>paused := False, draining := False, drain_mode := PNone, drain_timeout_s := PNone, drain_started_at_ns := None,
              pause_reason := PNone\<rparr>) ''resumed'' ''scheduler-resumed'' PNone []"

definition drain_scheduler :: "qpm_env \<Rightarrow> pyval \<Rightarrow> pyval \<Rightarrow> pydict ctl" where
  "drain_scheduler env mode timeout_s =
     bindM (time_ns env) (\<lambda>now.
       change_control env
         (\<lambda>c. c\<lparr>paused := True, draining := True, drain_mode := mode, drain_timeout_s := timeout_s, drain_started_at_ns := Some now\<rparr>)
         ''draining'' ''scheduler-draining'' PNone [(''mode'', mode), (''timeout_s'', timeout_s)])"

definition requested_depth :: "pydict \<Rightarrow> exc + int" where
  "requested_depth limits =
     (let unknown = sort (filter (\<lambda>k. k \<noteq> ''max_inflight'') (dkeys limits))
      in if unknown \<noteq> [] then Inl (ValueError (''unsupported dispatch limits: '' @ join_with '', '' unknown))
         else case map_of limits ''max_inflight'' of
                None \<Rightarrow> Inl (ValueError ''dispatch limits require max_inflight'')
              | Some v \<Rightarrow> bindE (py_int v) (\<lambda>depth.
                  if depth < 0 then Inl (ValueError ''max_inflight must not be negative'') else Inr depth))"

definition configure_dispatch_limits :: "qpm_env \<Rightarrow> pydict option \<Rightarrow> pydict ctl" where
  "configure_dispatch_limits env limits =
     bindM (liftM (requested_depth (case limits of None \<Rightarrow> [] | Some d \<Rightarrow> d))) (\<lambda>depth.
     bindM (getM scheduler_control) (\<lambda>control.
       if dispatch_depth control = depth then getM (scheduler_control_result ''unchanged'')
       else change_control env (\<lambda>c. c\<lparr>dispatch_depth := depth\<rparr>) ''dispatch-limits-updated''
              ''scheduler-dispatch-limits-change'' PNone [(''max_inflight'', PInt depth)]))"

section \<open>The device profile\<close>

definition default_baseline :: "int \<Rightarrow> pydict" where
  "default_baseline qubits =
     [(''qubit_count'', PInt (max 1 (min qubits 4))), (''depth'', PInt 1), (''one_q_gate_count'', PInt 0),
      (''two_q_gate_count'', PInt 0), (''shots'', PInt 1), (''measurement_count'', PInt 1)]"

definition with_defaults :: "pydict \<Rightarrow> (string \<times> pyval) list \<Rightarrow> pydict" where
  "with_defaults d defaults = foldl (\<lambda>d kv. dsetdefault (fst kv) (snd kv) d) d defaults"

definition normalize_device_profile :: "pydict \<Rightarrow> pydict ctl" where
  "normalize_device_profile profile =
     bindM device_id (\<lambda>own.
     let max_qubits = pgetd profile ''max_qubits'' (PInt 0)
     in bindM (liftM (py_dict (pgetd profile ''baseline'' (PDict [])))) (\<lambda>given.
        bindM (if given \<noteq> [] then retM given
               else bindM (liftM (py_number (py_or max_qubits (PInt 1)))) (\<lambda>n. retM (default_baseline n))) (\<lambda>baseline.
        bindM (if py_truth max_qubits then retM max_qubits
               else case map_of baseline ''qubit_count'' of
                      Some v \<Rightarrow> retM v | None \<Rightarrow> raiseM (KeyError ''qubit_count'')) (\<lambda>qubits.
        bindM (getM (\<lambda>s. target_id (config s))) (\<lambda>target.
          retM (with_defaults (dset ''device_id'' (pgetd profile ''device_id'' own) profile)
            [(''max_qubits'', qubits), (''external_device_id'', PStr target), (''baseline'', PDict baseline),
             (''max_shots'', PInt 1), (''one_q_gate_ns'', PInt 1), (''two_q_gate_ns'', PInt 1), (''measurement_ns'', PInt 1),
             (''default_ttl_ns'', PInt 60000000000)]))))))"

definition same_dict :: "pydict option \<Rightarrow> pydict \<Rightarrow> bool" where
  "same_dict a b = (case a of None \<Rightarrow> False | Some d \<Rightarrow> py_eq (PDict d) (PDict b))"

definition profile_answer :: "string \<Rightarrow> controller \<Rightarrow> pydict" where
  "profile_answer status s =
     [(''status'', PStr status), (''version'', PInt (int (device_profile_version s))),
      (''device_profile'', PDict (case device_profile s of Some d \<Rightarrow> d | None \<Rightarrow> []))]"

definition configure_device_profile :: "qpm_env \<Rightarrow> pydict option \<Rightarrow> pydict ctl" where
  "configure_device_profile env profile =
     bindM (normalize_device_profile (case profile of None \<Rightarrow> [] | Some d \<Rightarrow> d)) (\<lambda>normalized.
     bindM (getM device_profile) (\<lambda>known.
       if same_dict known normalized then getM (profile_answer ''unchanged'')
       else seqM (register_device_profile env normalized)
         (seqM (modM (\<lambda>s. s\<lparr>device_profile := Some normalized, device_profile_version := device_profile_version s + 1\<rparr>))
           (getM (profile_answer ''accepted'')))))"

definition get_device_profile :: "controller \<Rightarrow> pydict" where
  "get_device_profile s =
     [(''version'', PInt (int (device_profile_version s))),
      (''device_profile'', case device_profile s of Some d \<Rightarrow> PDict d | None \<Rightarrow> PNone)]"

section \<open>The admission policy\<close>

definition validation :: "string \<Rightarrow> exc + 'a" where
  "validation m = Inl (QPMAdmissionValidationError m)"

definition mapping_part :: "pyval \<Rightarrow> string \<Rightarrow> exc + pydict" where
  "mapping_part v name = (case v of PDict d \<Rightarrow> Inr d | _ \<Rightarrow> validation (name @ '' must be a mapping''))"

definition policy_part :: "pydict \<Rightarrow> exc + string \<times> pydict" where
  "policy_part configuration =
     bindE (mapping_part (py_or (pget configuration ''policy'') (PDict [])) ''policy'') (\<lambda>policy.
       case pget policy ''name'' of
         PStr name \<Rightarrow>
           if name \<in> set [''unlimited'', ''credit'', ''rate'']
           then bindE (mapping_part (py_or (pget policy ''options'') (PDict [])) ''policy options'') (\<lambda>options.
                  Inr (name, [(''name'', PStr name), (''options'', PDict options)]))
           else validation (''unsupported admission policy: '' @ repr_text name)
       | v \<Rightarrow> validation (''unsupported admission policy: '' @ py_repr v))"

definition estimator_part :: "pydict \<Rightarrow> exc + pydict" where
  "estimator_part configuration =
     (let plain = [(''name'', PStr ''baseline''), (''options'', PDict [])]
      in bindE (mapping_part (py_or (pget configuration ''estimator'') (PDict plain)) ''estimator'') (\<lambda>estimator.
         if pget estimator ''name'' \<noteq> PStr ''baseline''
         then validation ''only the baseline admission estimator is supported''
         else if py_truth (pget estimator ''options'')
         then validation ''baseline estimator options are not supported; configure the complete baseline circuit instead''
         else Inr plain))"

definition BASELINE_FIELDS :: "string list" where
  "BASELINE_FIELDS = [''qubit_count'', ''depth'', ''one_q_gate_count'', ''two_q_gate_count'', ''shots'', ''measurement_count'']"

definition POSITIVE_BASELINE_FIELDS :: "string list" where
  "POSITIVE_BASELINE_FIELDS = [''qubit_count'', ''depth'', ''shots'', ''measurement_count'']"

fun missing_fields :: "pyval \<Rightarrow> string list \<Rightarrow> exc + string list" where
  "missing_fields v [] = Inr []"
| "missing_fields v (k # ks) =
     bindE (py_in k v) (\<lambda>present. bindE (missing_fields v ks) (\<lambda>rest. Inr (if present then rest else k # rest)))"

fun int_fields :: "pydict \<Rightarrow> string list \<Rightarrow> exc + pydict" where
  "int_fields d [] = Inr []"
| "int_fields d (k # ks) =
     bindE (nonnegative_config_int (pget d k) k) (\<lambda>n. bindE (int_fields d ks) (\<lambda>rest. Inr ((k, PInt n) # rest)))"

definition baseline_part :: "pydict \<Rightarrow> pydict \<Rightarrow> exc + pydict" where
  "baseline_part configuration profile =
     (let given = py_or (pget configuration ''baseline'') (py_or (pget profile ''baseline'') (PDict []))
      in bindE (missing_fields given BASELINE_FIELDS) (\<lambda>missing.
         if missing \<noteq> [] then validation (''baseline circuit is missing fields: '' @ join_with '', '' missing)
         else bindE (py_dict given) (\<lambda>d.
              bindE (int_fields d BASELINE_FIELDS) (\<lambda>baseline.
                case filter (\<lambda>k. pget baseline k = PInt 0) POSITIVE_BASELINE_FIELDS of
                  [] \<Rightarrow> Inr baseline
                | k # _ \<Rightarrow> validation (''baseline '' @ k @ '' must be greater than zero'')))))"

definition unsupported_fields :: "pydict \<Rightarrow> string list \<Rightarrow> string list" where
  "unsupported_fields capacity allowed = sort (filter (\<lambda>k. k \<notin> set allowed) (dkeys capacity))"

definition normalize_policy_capacity :: "string \<Rightarrow> pydict \<Rightarrow> pydict \<Rightarrow> exc + pydict" where
  "normalize_policy_capacity pname capacity profile =
     (if pname = ''unlimited''
      then if capacity \<noteq> [] then validation ''unlimited policy does not accept capacity settings'' else Inr []
      else if pname = ''credit''
      then let unknown = unsupported_fields capacity [''total_credits'']
           in if unknown \<noteq> [] then validation (''credit capacity has unsupported fields: '' @ join_with '', '' unknown)
              else bindE (positive_config_int (pgetd capacity ''total_credits'' (pget profile ''total_credits'')) ''total_credits'') (\<lambda>n.
                     Inr [(''total_credits'', PInt n)])
      else let unknown = unsupported_fields capacity [''device_rate'', ''time_span_ns'']
           in if unknown \<noteq> [] then validation (''rate capacity has unsupported fields: '' @ join_with '', '' unknown)
              else bindE (positive_config_int (pgetd capacity ''device_rate'' (pget profile ''device_rate'')) ''device_rate'') (\<lambda>rate.
                   bindE (positive_config_int (pgetd capacity ''time_span_ns'' (pget profile ''time_span_ns'')) ''time_span_ns'') (\<lambda>window.
                     Inr [(''device_rate'', PInt rate), (''time_span_ns'', PInt window)])))"

record admission_config =
  ac_device_id :: pyval
  ac_policy :: pydict
  ac_estimator :: pydict
  ac_baseline :: pydict
  ac_capacity :: pydict
  ac_expected_version :: "int option"

definition admission_config_dict :: "admission_config \<Rightarrow> pydict" where
  "admission_config_dict c =
     [(''device_id'', ac_device_id c), (''policy'', PDict (ac_policy c)), (''estimator'', PDict (ac_estimator c)),
      (''baseline'', PDict (ac_baseline c)), (''capacity'', PDict (ac_capacity c))]"

text \<open>The configuration the caller asks for, and the profile the device has under it.\<close>

definition admission_config_of :: "pyval \<Rightarrow> pyval \<Rightarrow> pydict option \<Rightarrow> exc + admission_config \<times> pydict" where
  "admission_config_of configuration wanted known =
     bindE (mapping_part (py_or configuration (PDict [])) ''admission configuration'') (\<lambda>conf.
     bindE (case known of Some p \<Rightarrow> Inr p
                        | None \<Rightarrow> validation ''device profile must be configured before admission policy'') (\<lambda>profile.
     let own = pget profile ''device_id''; device = pgetd conf ''device_id'' (if wanted \<noteq> PNone then wanted else own)
     in if wanted \<noteq> PNone \<and> \<not> py_eq device wanted
        then validation ''admission configuration device_id does not match request''
        else if \<not> py_eq device own
        then validation ''admission configuration does not match the device profile''
        else bindE (policy_part conf) (\<lambda>(pname, policy).
             bindE (estimator_part conf) (\<lambda>estimator.
             bindE (baseline_part conf profile) (\<lambda>baseline.
             bindE (mapping_part (py_or (pget conf ''capacity'') (PDict [])) ''capacity'') (\<lambda>given.
             bindE (normalize_policy_capacity pname given profile) (\<lambda>capacity.
             bindE (case map_of conf ''expected_version'' of
                      None \<Rightarrow> Inr None
                    | Some v \<Rightarrow> map_sum id Some (nonnegative_config_int v ''expected_version'')) (\<lambda>expected.
               Inr (\<lparr>ac_device_id = device, ac_policy = policy, ac_estimator = estimator, ac_baseline = baseline,
                     ac_capacity = capacity, ac_expected_version = expected\<rparr>,
                    dupdate (dset ''baseline'' (PDict baseline) profile) capacity)))))))))"

definition normalize_admission_configuration :: "pyval \<Rightarrow> pyval \<Rightarrow> (admission_config \<times> pydict) ctl" where
  "normalize_admission_configuration configuration wanted =
     bindM (getM device_profile) (\<lambda>known.
     bindM (liftM (admission_config_of configuration wanted known)) (\<lambda>(conf, profile).
     bindM (normalize_device_profile profile) (\<lambda>normalized. retM (conf, normalized))))"

definition apply_admission_policy :: "qpm_env \<Rightarrow> pyval \<Rightarrow> pydict \<Rightarrow> pydict \<Rightarrow> pydict \<Rightarrow> unit ctl" where
  "apply_admission_policy env device policy estimator profile =
     seqM (set_estimator env device estimator policy (Some profile)) (set_policy env device policy estimator (Some profile))"

definition conf_part :: "pydict \<Rightarrow> string \<Rightarrow> pydict" where
  "conf_part configuration key = (case pget configuration key of PDict d \<Rightarrow> d | _ \<Rightarrow> [])"

definition restore_admission_configuration :: "qpm_env \<Rightarrow> pydict \<Rightarrow> pydict option \<Rightarrow> unit ctl" where
  "restore_admission_configuration env configuration profile =
     (case profile of
        None \<Rightarrow> retM ()
      | Some p \<Rightarrow>
          if configuration = [] then retM ()
          else tryM (seqM (register_device_profile env p)
                 (apply_admission_policy env (pget configuration ''device_id'') (conf_part configuration ''policy'')
                   (conf_part configuration ''estimator'') p)) (\<lambda>_. retM ()))"

definition policy_answer :: "string \<Rightarrow> controller \<Rightarrow> pydict" where
  "policy_answer status s =
     [(''status'', PStr status), (''version'', PInt (int (admission_policy_version s))),
      (''configuration'', PDict (admission_configuration s))]"

definition set_admission_policy :: "qpm_env \<Rightarrow> pyval \<Rightarrow> pyval \<Rightarrow> pydict ctl" where
  "set_admission_policy env configuration wanted =
     bindM (normalize_admission_configuration configuration wanted) (\<lambda>(conf, profile).
     bindM (getM id) (\<lambda>s.
     let version = int (admission_policy_version s); normalized = admission_config_dict conf;
         profile_changed = \<not> same_dict (device_profile s) profile
     in if ac_expected_version conf \<noteq> None \<and> ac_expected_version conf \<noteq> Some version
        then raiseM (QPMAdmissionValidationError (''admission configuration version mismatch: expected='' @
               int_text (the (ac_expected_version conf)) @ '' actual='' @ int_text version))
        else if py_eq (PDict (admission_configuration s)) (PDict normalized)
        then retM [(''status'', PStr ''unchanged''), (''version'', PInt version), (''configuration'', PDict normalized)]
        else seqM (tryM (seqM (if profile_changed then register_device_profile env profile else retM ())
                          (apply_admission_policy env (ac_device_id conf) (ac_policy conf) (ac_estimator conf) profile))
                    (\<lambda>e. seqM (restore_admission_configuration env (admission_configuration s) (device_profile s)) (raiseM e)))
             (seqM (modM (\<lambda>t. t\<lparr>device_profile := Some profile, admission_configuration := normalized,
                      device_profile_version := device_profile_version t + (if profile_changed then 1 else 0),
                      admission_policy_version := admission_policy_version t + 1\<rparr>))
               (getM (policy_answer ''accepted'')))))"

definition get_admission_policy :: "pyval \<Rightarrow> controller \<Rightarrow> exc + pydict" where
  "get_admission_policy wanted s =
     (let conf = admission_configuration s
      in if wanted \<noteq> PNone \<and> conf \<noteq> [] \<and> \<not> py_eq (pget conf ''device_id'') wanted
         then validation (''admission policy is not configured for device '' @ py_str wanted)
         else Inr [(''version'', PInt (int (admission_policy_version s))),
                   (''configuration'', if conf \<noteq> [] then PDict conf else PNone)])"

section \<open>Lemmas\<close>

text \<open>What a policy change is about.\<close>

definition policy_state :: "controller \<Rightarrow> pydict option \<times> pydict \<times> nat \<times> nat" where
  "policy_state s = (device_profile s, admission_configuration s, device_profile_version s, admission_policy_version s)"

lemma policy_state_blind: "world_blind (\<lambda>s. policy_state s = c)"
  by (simp add: world_blind_def policy_state_def)

lemma keeps_configured_device_id: "(\<And>s x n. I (s\<lparr>external_id_maps := x, external_id_next := n\<rparr>) = I s) \<Longrightarrow>
    (\<And>s x. I (s\<lparr>external_id_maps := x\<rparr>) = I s) \<Longrightarrow> keeps I device_id"
  unfolding device_id_def
  by (intro keeps_rules)
    (auto simp: keeps_def canonicalize_external_id_def retM_def Let_def split: option.splits intro: keeps_rules)

lemma keeps_normalize_profile:
  assumes "\<And>s x n. I (s\<lparr>external_id_maps := x, external_id_next := n\<rparr>) = I s" "\<And>s x. I (s\<lparr>external_id_maps := x\<rparr>) = I s"
  shows "keeps I (normalize_device_profile profile)"
  unfolding normalize_device_profile_def Let_def
  by (intro keeps_rules keeps_configured_device_id) (simp_all add: assms)

lemma keeps_normalize_configuration:
  assumes "\<And>s x n. I (s\<lparr>external_id_maps := x, external_id_next := n\<rparr>) = I s" "\<And>s x. I (s\<lparr>external_id_maps := x\<rparr>) = I s"
  shows "keeps I (normalize_admission_configuration configuration wanted)"
  unfolding normalize_admission_configuration_def
  by (auto intro!: keeps_rules keeps_normalize_profile simp: assms split: prod.splits)

lemma keeps_apply_policy:
  assumes "world_blind I"
  shows "keeps I (apply_admission_policy env device policy estimator profile)" "keeps I (restore_admission_configuration env conf p)"
  unfolding restore_admission_configuration_def apply_admission_policy_def
  by (intro keeps_rules assms)+

text \<open>A refused change leaves profile, configuration and versions as they were.\<close>

lemma failed_policy_change:
  "valid (\<lambda>s. policy_state s = c) (set_admission_policy env configuration wanted) (\<lambda>_ _. True) (\<lambda>_ s. policy_state s = c)"
proof -
  note blind = policy_state_blind [of c]
  have 1: "keeps (\<lambda>s. policy_state s = c) (normalize_admission_configuration configuration wanted)"
    by (rule keeps_normalize_configuration) (simp_all add: policy_state_def)
  note parts = keeps_apply_policy [OF blind] keeps_admission [OF blind]
  show ?thesis
    unfolding set_admission_policy_def Let_def
    apply (rule valid_bind [OF keeps_valid [OF 1]])
    apply (clarsimp split: prod.splits)
    apply (rule valid_bind_get)
    apply (intro valid_if valid_raise valid_ret valid_seq [where R = "\<lambda>_. True"] TrueI)
        apply simp
       apply (rule valid_pre [where P' = "\<lambda>s. policy_state s = c"])
        apply (rule valid_try [where E' = "\<lambda>_ s. policy_state s = c"])
         apply (rule valid_weaken [OF keeps_valid [OF keeps_seq [OF keeps_if parts(1)]]])
              apply (simp_all add: parts keeps_ret)
     apply (rule valid_seq [OF keeps_valid [OF parts(2)]], rule valid_raise, simp)
    apply (auto simp: valid_def monad_defs)
    done
qed

lemma normalized_frame:
  "normalize_admission_configuration configuration wanted s = (r, t) \<Longrightarrow> policy_state t = policy_state s"
  using keepsD [OF keeps_normalize_configuration [of "\<lambda>u. policy_state u = policy_state s" configuration wanted], of s]
  by (simp add: policy_state_def)

text \<open>A change that is taken found the version it expected and counts it up by one.\<close>

lemma policy_change_returns:
  assumes run: "set_admission_policy env configuration wanted s = (Inr d, t)"
  obtains conf profile u where "normalize_admission_configuration configuration wanted s = (Inr (conf, profile), u)"
    "ac_expected_version conf = None \<or> ac_expected_version conf = Some (int (admission_policy_version s))"
    "pget d ''status'' = PStr ''unchanged'' \<and> policy_state t = policy_state s \<or>
     pget d ''status'' = PStr ''accepted'' \<and> admission_policy_version t = Suc (admission_policy_version s) \<and>
     device_profile t = Some profile \<and> admission_configuration t = admission_config_dict conf"
proof -
  from run obtain conf profile u where norm: "normalize_admission_configuration configuration wanted s = (Inr (conf, profile), u)"
    unfolding set_admission_policy_def bindM_returns by auto
  note frame = normalized_frame [OF norm]
  let ?changed = "\<not> same_dict (device_profile u) profile"
  define work where "work = tryM (seqM (if ?changed then register_device_profile env profile else retM ())
        (apply_admission_policy env (ac_device_id conf) (ac_policy conf) (ac_estimator conf) profile))
      (\<lambda>e. seqM (restore_admission_configuration env (admission_configuration u) (device_profile u)) (raiseM e))"
  have work: "policy_state v = policy_state u" if "work u = (Inr x, v)" for x v
  proof -
    note blind = policy_state_blind [of "policy_state u"]
    have "keeps (\<lambda>z. policy_state z = policy_state u) work"
      unfolding work_def by (intro keeps_rules keeps_apply_policy blind)
    from keepsD [OF this, of u] that show ?thesis by simp
  qed
  have "(ac_expected_version conf = None \<or> ac_expected_version conf = Some (int (admission_policy_version u))) \<and>
    (pget d ''status'' = PStr ''unchanged'' \<and> policy_state t = policy_state u \<or>
     pget d ''status'' = PStr ''accepted'' \<and> admission_policy_version t = Suc (admission_policy_version u) \<and>
     device_profile t = Some profile \<and> admission_configuration t = admission_config_dict conf)"
    using run unfolding set_admission_policy_def bindM_Inr [where m = "normalize_admission_configuration configuration wanted", OF norm] prod.case bindM_get Let_def id_apply
      work_def [symmetric]
    by (auto simp: raiseM_def retM_def seqM_returns getM_def modM_def pget_def policy_answer_def policy_state_def
        split: if_splits dest!: work [unfolded policy_state_def])
  with norm frame show thesis using that by (auto simp: policy_state_def)
qed

lemma expected_version_read:
  assumes "normalize_admission_configuration (PDict d) wanted s = (Inr (conf, profile), u)"
    and "map_of d ''expected_version'' = Some (PInt n)"
  shows "ac_expected_version conf = Some n"
proof -
  from assms(2) have "d \<noteq> []" by auto
  then have "py_or (PDict d) (PDict []) = PDict d" by (simp add: py_or_def)
  with assms show ?thesis
    unfolding normalize_admission_configuration_def admission_config_of_def
    by (auto simp: bindM_returns getM_def liftM_def retM_def bindE_Inr mapping_part_def Let_def validation_def
        nonnegative_config_int_def py_int_def split: if_splits prod.splits option.splits)
qed

text \<open>A client that has not seen the last change cannot overwrite it.\<close>

lemma stale_version_refused:
  assumes "map_of d ''expected_version'' = Some (PInt n)" "n \<noteq> int (admission_policy_version s)"
  shows "\<exists>e t. set_admission_policy env (PDict d) wanted s = (Inl e, t) \<and> policy_state t = policy_state s"
proof (cases "set_admission_policy env (PDict d) wanted s")
  case (Pair r t)
  show ?thesis
  proof (cases r)
    case (Inl e)
    with Pair validD_raise [OF failed_policy_change [of "policy_state s"]] show ?thesis by blast
  next
    case (Inr x)
    with Pair have "set_admission_policy env (PDict d) wanted s = (Inr x, t)" by simp
    then show ?thesis
      by (rule policy_change_returns) (use expected_version_read [OF _ assms(1)] assms(2) in auto)
  qed
qed

definition configuration_ok :: "admission_config \<Rightarrow> bool" where
  "configuration_ok c \<longleftrightarrow>
     (\<exists>name options. ac_policy c = [(''name'', PStr name), (''options'', PDict options)] \<and>
        (name = ''unlimited'' \<and> ac_capacity c = [] \<or>
         name = ''credit'' \<and> (\<exists>n > 0. ac_capacity c = [(''total_credits'', PInt n)]) \<or>
         name = ''rate'' \<and> (\<exists>rate > 0. \<exists>window > 0.
           ac_capacity c = [(''device_rate'', PInt rate), (''time_span_ns'', PInt window)]))) \<and>
     ac_estimator c = [(''name'', PStr ''baseline''), (''options'', PDict [])] \<and>
     dkeys (ac_baseline c) = BASELINE_FIELDS \<and>
     (\<forall>k \<in> set BASELINE_FIELDS. \<exists>n \<ge> 0. pget (ac_baseline c) k = PInt n) \<and>
     (\<forall>k \<in> set POSITIVE_BASELINE_FIELDS. pget (ac_baseline c) k \<noteq> PInt 0)"

lemma policy_part_ok:
  assumes "policy_part conf = Inr (name, policy)"
  shows "(\<exists>options. policy = [(''name'', PStr name), (''options'', PDict options)]) \<and> name \<in> {''unlimited'', ''credit'', ''rate''}"
proof -
  from assms obtain given where given: "mapping_part (py_or (pget conf ''policy'') (PDict [])) ''policy'' = Inr given"
    by (auto simp: policy_part_def bindE_Inr)
  with assms show ?thesis
    by (cases "pget given ''name''") (auto simp: policy_part_def bindE_Inr validation_def split: if_splits)
qed

lemma estimator_part_ok: "estimator_part conf = Inr e \<Longrightarrow> e = [(''name'', PStr ''baseline''), (''options'', PDict [])]"
  by (auto simp: estimator_part_def bindE_Inr validation_def Let_def split: if_splits)

lemma nonnegative_ok: "nonnegative_config_int v k = Inr n \<Longrightarrow> 0 \<le> n"
  by (cases v) (auto simp: nonnegative_config_int_def bindE_Inr split: if_splits sum.splits)

lemma positive_ok: "positive_config_int v k = Inr n \<Longrightarrow> 0 < n"
  by (auto simp: positive_config_int_def bindE_Inr dest!: nonnegative_ok split: if_splits sum.splits)

lemma int_fields_ok:
  "int_fields d ks = Inr b \<Longrightarrow> dkeys b = ks \<and> (\<forall>k \<in> set ks. \<exists>n \<ge> 0. pget b k = PInt n)"
proof (induction ks arbitrary: b)
  case (Cons k ks)
  then obtain n rest where n: "nonnegative_config_int (pget d k) k = Inr n" "int_fields d ks = Inr rest" "b = (k, PInt n) # rest"
    by (auto simp: bindE_Inr)
  with Cons.IH [OF n(2)] nonnegative_ok [OF n(1)] show ?case by (auto simp: pget_def)
qed simp

lemma baseline_part_ok:
  assumes "baseline_part conf profile = Inr b"
  shows "dkeys b = BASELINE_FIELDS" "\<forall>k \<in> set BASELINE_FIELDS. \<exists>n \<ge> 0. pget b k = PInt n"
    "\<forall>k \<in> set POSITIVE_BASELINE_FIELDS. pget b k \<noteq> PInt 0"
proof -
  let ?given = "py_or (pget conf ''baseline'') (py_or (pget profile ''baseline'') (PDict []))"
  from assms obtain d fields where d: "py_dict ?given = Inr d" "int_fields d BASELINE_FIELDS = Inr fields"
    by (auto simp: baseline_part_def bindE_Inr Let_def validation_def split: if_splits)
  with assms have "int_fields d BASELINE_FIELDS = Inr b" and none: "filter (\<lambda>k. pget b k = PInt 0) POSITIVE_BASELINE_FIELDS = []"
    by (cases "filter (\<lambda>k. pget fields k = PInt 0) POSITIVE_BASELINE_FIELDS",
        auto simp: baseline_part_def bindE_Inr Let_def validation_def split: if_splits)+
  from int_fields_ok [OF this(1)] show "dkeys b = BASELINE_FIELDS" "\<forall>k \<in> set BASELINE_FIELDS. \<exists>n \<ge> 0. pget b k = PInt n" by auto
  from none show "\<forall>k \<in> set POSITIVE_BASELINE_FIELDS. pget b k \<noteq> PInt 0" by (simp add: filter_empty_conv)
qed

lemma capacity_ok: "normalize_policy_capacity name given profile = Inr c \<Longrightarrow> name \<in> {''unlimited'', ''credit'', ''rate''} \<Longrightarrow>
    name = ''unlimited'' \<and> c = [] \<or> name = ''credit'' \<and> (\<exists>n > 0. c = [(''total_credits'', PInt n)]) \<or>
    name = ''rate'' \<and> (\<exists>rate > 0. \<exists>window > 0. c = [(''device_rate'', PInt rate), (''time_span_ns'', PInt window)])"
  by (auto simp: normalize_policy_capacity_def bindE_Inr validation_def Let_def dest!: positive_ok split: if_splits)

lemma admission_config_of_ok: "admission_config_of conf wanted known = Inr (c, p) \<Longrightarrow> configuration_ok c"
  unfolding admission_config_of_def
  by (auto simp: bindE_Inr Let_def validation_def configuration_ok_def baseline_part_ok split: if_splits option.splits prod.splits
      dest!: policy_part_ok estimator_part_ok capacity_ok)

definition stored_configuration_ok :: "controller \<Rightarrow> bool" where
  "stored_configuration_ok s \<longleftrightarrow>
     admission_configuration s = [] \<or> (\<exists>c. admission_configuration s = admission_config_dict c \<and> configuration_ok c)"

lemma normalized_configuration_ok:
  "normalize_admission_configuration conf wanted s = (Inr (c, p), t) \<Longrightarrow> configuration_ok c"
  unfolding normalize_admission_configuration_def
  by (auto simp: bindM_returns getM_def liftM_def retM_def dest!: admission_config_of_ok split: prod.splits)

lemma keeps_stored_configuration: "keeps stored_configuration_ok (set_admission_policy env conf wanted)"
proof (rule keepsI)
  fix s assume ok: "stored_configuration_ok s"
  obtain r t where run: "set_admission_policy env conf wanted s = (r, t)" by (cases "set_admission_policy env conf wanted s")
  have "stored_configuration_ok t"
  proof (cases r)
    case (Inl e)
    with run validD_raise [OF failed_policy_change [of "policy_state s"]] have "policy_state t = policy_state s" by blast
    with ok show ?thesis by (simp add: stored_configuration_ok_def policy_state_def)
  next
    case (Inr d)
    with run have "set_admission_policy env conf wanted s = (Inr d, t)" by simp
    then show ?thesis
      by (rule policy_change_returns)
        (use ok normalized_configuration_ok in \<open>auto simp: stored_configuration_ok_def policy_state_def\<close>)
  qed
  with run show "stored_configuration_ok (snd (set_admission_policy env conf wanted s))" by simp
qed

end
