(* ===== verification/QPM_Telemetry.thy ===== *)
theory QPM_Telemetry
  imports QPM_Close QPM_Config
begin

text \<open>
  What the controller reports about itself (\<^verbatim>\<open>services/util/qpm/controller.py\<close>): status and
  summaries, capacity and queue metrics, the allocations of the scheduler and the state of its
  queue. The hosts are those of the service that owns the controller.
\<close>

section \<open>Counts\<close>

definition counted :: "'a list \<Rightarrow> pyval" where
  "counted xs = PInt (int (length xs))"

definition active_task_count :: "controller \<Rightarrow> pyval" where
  "active_task_count s = counted (filter (\<lambda>kv. \<not> terminal_state (rt_state (snd kv))) (runtime_by_qtask_id s))"

definition active_reservation_count :: "qpm_env \<Rightarrow> int option ctl" where
  "active_reservation_count env =
     tryM (bindM (list_reservations env []) (\<lambda>rs.
       retM (Some (int (length (filter (\<lambda>r. pget r ''state'' = PStr ''active'') rs)))))) (\<lambda>_. retM None)"

definition active_scheduler_task_count :: "controller \<Rightarrow> pyval" where
  "active_scheduler_task_count s =
     counted (filter (\<lambda>kv. rt_scheduler_task_id (snd kv) \<noteq> PNone \<and> \<not> terminal_state (rt_state (snd kv))) (runtime_by_qtask_id s))"

definition TOTAL_FIELDS :: "string list" where
  "TOTAL_FIELDS = [''estimated_ns'', ''baseline_units'', ''credits'', ''rate_units'']"

fun add_usage :: "string list \<Rightarrow> pydict \<Rightarrow> pydict \<Rightarrow> exc + pydict" where
  "add_usage [] usage totals = Inr totals"
| "add_usage (f # fs) usage totals =
     bindE (py_number (pgetd usage f (PInt 0))) (\<lambda>n.
     bindE (py_number (pget totals f)) (\<lambda>t. add_usage fs usage (dset f (PInt (t + n)) totals)))"

fun add_holds :: "capacity_hold list \<Rightarrow> pydict \<Rightarrow> exc + pydict" where
  "add_holds [] totals = Inr totals"
| "add_holds (h # hs) totals =
     bindE (py_number (pget totals ''qtask_count'')) (\<lambda>n.
     bindE (add_usage TOTAL_FIELDS (ch_usage h) (dset ''qtask_count'' (PInt (n + 1)) totals)) (add_holds hs))"

definition usage_totals :: "capacity_hold list \<Rightarrow> exc + pydict" where
  "usage_totals holds = add_holds holds (map (\<lambda>k. (k, PInt 0)) (''qtask_count'' # TOTAL_FIELDS))"

definition held_capacity :: "controller \<Rightarrow> exc + pydict" where
  "held_capacity s = usage_totals (map snd (capacity_holds s))"

definition in_flight_capacity :: "controller \<Rightarrow> exc + pydict" where
  "in_flight_capacity s = usage_totals (List.map_filter (map_of (capacity_holds s)) (provider_inflight s))"

section \<open>Status and metrics\<close>

definition versions_dict :: "(string \<times> nat) list \<Rightarrow> pyval" where
  "versions_dict vs = PDict (map (\<lambda>(k, n). (k, PInt (int n))) vs)"

definition admission_versions :: "controller \<Rightarrow> pyval" where
  "admission_versions s =
     versions_dict [(''device_profile'', device_profile_version s), (''admission_policy'', admission_policy_version s)]"

definition scheduler_versions :: "controller \<Rightarrow> pyval" where
  "scheduler_versions s =
     versions_dict [(''scheduler_policy'', scheduler_policy_version s), (''scheduler_control'', scheduler_control_version s)]"

definition config_telemetry :: "qpm_controller_config \<Rightarrow> pydict" where
  "config_telemetry c =
     [(''target_id'', PStr (target_id c)), (''credential_mode'', PStr (credential_mode c)),
      (''admission_threading_mode'', PStr (admission_threading_mode c)),
      (''scheduler_threading_mode'', PStr (scheduler_threading_mode c)), (''serialization_mode'', PStr (serialization_mode c))]"

definition retention_dict :: "completion_retention_config \<Rightarrow> pydict" where
  "retention_dict r =
     [(''completion_ttl_seconds'', PInt (completion_ttl_seconds r)),
      (''terminal_reservation_retention_seconds'', PInt (terminal_reservation_retention_seconds r)),
      (''max_records_per_reservation'', PInt (max_records_per_reservation r)),
      (''max_bytes_per_reservation'', PInt (max_bytes_per_reservation r)),
      (''purge_interval_seconds'', PInt (purge_interval_seconds r))]"

definition context_available :: "context_kind \<Rightarrow> pyval" where
  "context_available k = PBool (case k of Unavailable e \<Rightarrow> False | _ \<Rightarrow> True)"

text \<open>\<open>threading\<close> gives the threading attributes of the two contexts, as far as they have any.\<close>

definition telemetry :: "qpm_env \<Rightarrow> string list \<Rightarrow> pyval \<times> pyval \<Rightarrow> pydict ctl" where
  "telemetry env free_hosts threading =
     bindM (getM id) (\<lambda>s. bindM (scheduler_task_count env) (\<lambda>count.
       retM (dupdate (config_telemetry (config s))
         [(''binding_count'', PInt (int (binding_count s))), (''max_ppn'', max_ppn s),
          (''resource_hosts'', PList (map PStr (sort free_hosts))),
          (''runtime_task_count'', counted (runtime_by_qtask_id s)), (''audit_record_count'', counted (audit_records s)),
          (''lifecycle_event_count'', counted (lifecycle_events s)),
          (''reconciliation_fault_count'', counted (reconciliation_faults s)),
          (''completion_queue_count'', counted (completion_queues s)),
          (''completion_retention'', PDict (retention_dict (completion_retention s))),
          (''admission_context_available'', context_available (admission_context env)),
          (''admission_context_threading'', fst threading),
          (''scheduler_context_available'', context_available (scheduler_context env)),
          (''scheduler_context_threading'', snd threading),
          (''admission_config_versions'', admission_versions s), (''scheduler_config_versions'', scheduler_versions s),
          (''reservation_metadata_count'', counted (reservation_metadata_by_id s)),
          (''credential_binding_count'', counted (reservation_credentials_by_id s)),
          (''closing_reservation_count'', counted (reservation_close_state s)), (''scheduler_task_count'', count)])))"

definition get_scheduler_status :: "qpm_env \<Rightarrow> pydict ctl" where
  "get_scheduler_status env =
     bindM (getM id) (\<lambda>s. bindM (scheduler_task_count env) (\<lambda>count. bindM dispatch_limits (\<lambda>limits.
       let control = scheduler_control s
       in retM [(''target_id'', PStr (target_id (config s))),
            (''state'', PStr (if draining control then ''draining'' else if paused control then ''paused'' else ''active'')),
            (''scheduler_available'', context_available (scheduler_context env)),
            (''threading_mode'', PStr (scheduler_threading_mode (config s))),
            (''policy'', PDict (policy_dict (scheduler_policy_state s))), (''control'', PDict (control_dict control)),
            (''versions'', scheduler_versions s), (''task_count'', count),
            (''pending_capacity_count'', counted (pending_capacity s)), (''runtime_task_count'', counted (runtime_by_qtask_id s)),
            (''selected_task_count'', counted (selected_qtask_ids s)),
            (''provider_inflight_count'', counted (provider_inflight s)), (''dispatch_limits'', PDict limits)])))"

definition get_service_status :: "bool \<Rightarrow> bool \<Rightarrow> controller \<Rightarrow> pydict" where
  "get_service_status initialized provider_ready s =
     (let running = (service_state s = ''running'')
      in [(''state'', PStr (service_state s)), (''initialized'', PBool initialized),
          (''ready'', PBool (initialized \<and> provider_ready \<and> running)), (''accepting_requests'', PBool running),
          (''provider_ready'', PBool provider_ready), (''active_task_count'', active_task_count s),
          (''active_reservation_count'', counted (reservation_metadata_by_id s)),
          (''shutdown'', case shutdown_request s of Some d \<Rightarrow> PDict d | None \<Rightarrow> PNone)])"

definition get_service_summary :: "qpm_env \<Rightarrow> string list \<Rightarrow> bool \<Rightarrow> bool \<Rightarrow> pyval \<Rightarrow> pydict ctl" where
  "get_service_summary env free_hosts initialized provider_ready dvm_ready =
     bindM (getM id) (\<lambda>s. bindM (active_reservation_count env) (\<lambda>reservations. bindM (time_ns env) (\<lambda>now.
       let running = (service_state s = ''running'')
       in retM [(''schema'', PStr ''qfw-qpm-service-summary-v1''), (''target_id'', PStr (target_id (config s))),
            (''state'', PStr (if \<not> running then ''MAINT''
                              else if (case reservations of Some n \<Rightarrow> n \<noteq> 0 | None \<Rightarrow> False) then ''BUSY'' else ''IDLE'')),
            (''service_state'', PStr (service_state s)), (''ready'', PBool (initialized \<and> provider_ready \<and> running)),
            (''accepting_requests'', PBool running), (''provider_ready'', PBool provider_ready), (''dvm_ready'', dvm_ready),
            (''maintenance'', PBool (\<not> running)), (''active_reservation_count'', opt_int reservations),
            (''active_task_count'', active_task_count s), (''assigned_hosts'', PList (map PStr (sort free_hosts))),
            (''timestamp_ns'', PInt now)])))"

definition scheduler_allocation_summary :: "int \<Rightarrow> pydict \<Rightarrow> pydict \<Rightarrow> controller \<Rightarrow> exc + pydict" where
  "scheduler_allocation_summary rid reservation metadata s =
     bindE (py_dict_or_empty (pget metadata ''reservation_binding'')) (\<lambda>binding.
     bindE (py_dict_or_empty (pget binding ''launcher'')) (\<lambda>launcher.
     bindE (py_dict_or_empty (py_or (pget binding ''owner'') (pget metadata ''owner''))) (\<lambda>owner.
     bindE (py_dict_or_empty (pget binding ''resource'')) (\<lambda>resource.
       let state = py_lower (py_str (py_or (pget reservation ''state'') (PStr ''unknown'')));
           qtasks = (case map_of (qtask_ids_by_reservation s) rid of Some qs \<Rightarrow> qs | None \<Rightarrow> [])
       in Inr (drop_none_dict
         [(''schema'', PStr ''qfw-scheduler-allocation-summary-v1''), (''scheduler'', pget launcher ''scheduler''),
          (''cluster_name'', pget launcher ''cluster_name''), (''allocation_id'', pget launcher ''allocation_id''),
          (''job_id'', pget launcher ''external_job_id''), (''user'', owner_identifier owner), (''state'', PStr state),
          (''qstate'', PStr (scheduler_allocation_state state)), (''workload_kind'', pget resource ''workload_kind''),
          (''active_task_count'', counted (filter (\<lambda>q. case map_of (runtime_by_qtask_id s) q of
             Some r \<Rightarrow> \<not> terminal_state (rt_state r) | None \<Rightarrow> False) qtasks)),
          (''created_at_ns'', pget reservation ''created_at_ns''), (''expires_at_ns'', pget reservation ''expires_at_ns'')])))))"

text \<open>A reservation that cannot be looked up is left out.\<close>

definition allocation_of :: "qpm_env \<Rightarrow> (string \<times> string) list \<Rightarrow> int \<times> pydict \<Rightarrow> pydict list ctl" where
  "allocation_of env filters item =
     bindM (tryM (bindM (get_reservation env (fst item)) (\<lambda>r. retM (Some r))) (\<lambda>_. retM None)) (\<lambda>found.
       case found of
         None \<Rightarrow> retM []
       | Some reservation \<Rightarrow>
           bindM (getM (scheduler_allocation_summary (fst item) reservation (snd item))) (\<lambda>summary.
           bindM (liftM summary) (\<lambda>summary.
             retM (if scheduler_allocation_matches summary filters then [summary] else []))))"

definition list_scheduler_allocations :: "qpm_env \<Rightarrow> pydict option \<Rightarrow> pydict ctl" where
  "list_scheduler_allocations env filters =
     bindM (liftM (scheduler_allocation_filters (case filters of None \<Rightarrow> [] | Some d \<Rightarrow> d))) (\<lambda>filters.
     bindM (getM id) (\<lambda>s.
     bindM (collectM (reservation_metadata_by_id s) (allocation_of env filters)) (\<lambda>allocations.
     bindM (time_ns env) (\<lambda>now.
       retM [(''schema'', PStr ''qfw-scheduler-allocation-list-v1''), (''target_id'', PStr (target_id (config s))),
         (''timestamp_ns'', PInt now),
         (''allocations'', PList (map PDict (sort_key scheduler_allocation_sort_key allocations)))]))))"

definition unavailable_estimate :: "qpm_env \<Rightarrow> string \<Rightarrow> pyval ctl" where
  "unavailable_estimate env kind =
     bindM (getM scheduler_policy_state) (\<lambda>policy. bindM (time_ns env) (\<lambda>now.
       retM (PDict [(''available'', PBool False), (''kind'', PStr kind), (''reason'', PStr ''telemetry-unavailable''),
         (''timestamp_ns'', PInt now), (''confidence'', PStr ''unavailable''),
         (''policy_context'', PDict [(''scheduler_policy'', PDict (policy_dict policy))])])))"

definition telemetry_object_label :: "string \<Rightarrow> pyval \<Rightarrow> pyval" where
  "telemetry_object_label name access_class =
     PDict [(''object'', PStr name), (''access_class'', access_class), (''enforced'', PBool False)]"

definition capacity_snapshot :: "qpm_env \<Rightarrow> pyval \<Rightarrow> pyval \<Rightarrow> pyval \<Rightarrow> pydict ctl" where
  "capacity_snapshot env device scope access_class =
     bindM (time_ns env) (\<lambda>now.
     bindM (if py_truth device then retM device else device_id) (\<lambda>device.
     bindM (getM id) (\<lambda>s.
     bindM (scheduler_task_count env) (\<lambda>count.
     bindM (active_reservation_count env) (\<lambda>reservations.
     bindM (liftM (held_capacity s)) (\<lambda>held.
     bindM (liftM (in_flight_capacity s)) (\<lambda>flying.
     bindM (unavailable_estimate env ''available-capacity'') (\<lambda>available.
     bindM (unavailable_estimate env ''queued-device-time'') (\<lambda>queued.
       retM [(''target_id'', PStr (target_id (config s))), (''device_id'', device), (''scope_id'', scope),
         (''timestamp_ns'', PInt now), (''access_class'', access_class),
         (''pending_qtask_count'', counted (pending_capacity s)),
         (''scheduler_queue_depth'', active_scheduler_task_count s), (''scheduler_task_count'', count),
         (''active_reservation_count'', opt_int reservations), (''held_capacity'', PDict held),
         (''in_flight_capacity'', PDict flying), (''available_capacity'', available),
         (''estimated_queued_device_time'', queued), (''scheduler_policy'', PDict (policy_dict (scheduler_policy_state s))),
         (''device_available'', PBool (resources_initialized s)), (''confidence'', PStr ''observed-controller-state''),
         (''telemetry'', telemetry_object_label ''capacity-snapshot'' access_class)])))))))))"

definition queue_metrics :: "qpm_env \<Rightarrow> pyval \<Rightarrow> pyval \<Rightarrow> pydict ctl" where
  "queue_metrics env device access_class =
     bindM (if py_truth device then retM device else device_id) (\<lambda>device.
     bindM (time_ns env) (\<lambda>now.
     bindM (getM id) (\<lambda>s.
     bindM (scheduler_task_count env) (\<lambda>count.
     bindM dispatch_limits (\<lambda>limits.
     bindM (liftM (held_capacity s)) (\<lambda>held.
     bindM (liftM (in_flight_capacity s)) (\<lambda>flying.
     bindM (unavailable_estimate env ''wait-estimate'') (\<lambda>wait.
     bindM (unavailable_estimate env ''start-estimate'') (\<lambda>start.
     bindM (unavailable_estimate env ''queued-device-time'') (\<lambda>queued.
       retM [(''target_id'', PStr (target_id (config s))), (''device_id'', device), (''timestamp_ns'', PInt now),
         (''access_class'', access_class), (''pending_qtask_count'', counted (pending_capacity s)),
         (''scheduler_depth'', active_scheduler_task_count s), (''scheduler_task_count'', count),
         (''active_task_count'', counted (runtime_by_qtask_id s)), (''selected_task_count'', counted (selected_qtask_ids s)),
         (''provider_inflight_count'', counted (provider_inflight s)), (''dispatch_limits'', PDict limits),
         (''held_capacity'', PDict held), (''in_flight_capacity'', PDict flying),
         (''policy_state'', PDict [(''scheduler'', PDict (policy_dict (scheduler_policy_state s))),
            (''admission'', PDict (admission_configuration s))]),
         (''wait_estimate'', wait), (''estimated_start'', start), (''estimated_queued_device_time'', queued),
         (''telemetry'', telemetry_object_label ''queue-metrics'' access_class)]))))))))))"

definition pending_dict :: "int \<times> pending_entry \<Rightarrow> pyval" where
  "pending_dict item =
     (let p = snd item
      in PDict [(''reservation_id'', opt_int (pe_reservation_id p)), (''cid'', PStr (pe_cid p)), (''usage'', PDict (pe_usage p)),
           (''decision'', PDict (pe_decision p)), (''qtask_id'', PInt (fst item))])"

definition get_scheduler_queue_state :: "qpm_env \<Rightarrow> bool \<Rightarrow> pydict ctl" where
  "get_scheduler_queue_state env include_restricted =
     bindM (getM id) (\<lambda>s.
     bindM (scheduler_task_count env) (\<lambda>count.
     bindM dispatch_limits (\<lambda>limits.
     bindM (collectM (runtime_by_qtask_id s) (\<lambda>kv.
              bindM (task_status env (snd kv) PNone PNone PNone PNone) (\<lambda>status. retM [status]))) (\<lambda>tasks.
       retM [(''target_id'', PStr (target_id (config s))), (''include_restricted'', PBool include_restricted),
         (''pending_capacity'', PList (map pending_dict (pending_capacity s))), (''scheduler_task_count'', count),
         (''selected_qtask_ids'', int_list (sort (selected_qtask_ids s))),
         (''provider_inflight_qtask_ids'', int_list (sort (provider_inflight s))), (''dispatch_limits'', PDict limits),
         (''runtime_tasks'', PList (map PDict tasks))]))))"

definition service_lifecycle_telemetry :: "qpm_env \<Rightarrow> pyval \<Rightarrow> pydict ctl" where
  "service_lifecycle_telemetry env access_class =
     bindM (getM id) (\<lambda>s. bindM (time_ns env) (\<lambda>now.
       retM [(''target_id'', PStr (target_id (config s))), (''timestamp_ns'', PInt now), (''access_class'', access_class),
         (''lifecycle_events'', PList (map PDict (lifecycle_events s))), (''audit_records'', PList (map PDict (audit_records s))),
         (''reconciliation_faults'', PList (map PDict (reconciliation_faults s))),
         (''telemetry'', telemetry_object_label ''service-lifecycle'' access_class)]))"

end
