(* ===== verification/QPM_Reconcile.thy ===== *)
theory QPM_Reconcile
  imports QPM_Close_Inv QPM_Telemetry
begin

text \<open>
  \<^verbatim>\<open>reconcile_runtime_state\<close> and the records of directory events of
  \<^verbatim>\<open>services/util/qpm/controller.py\<close>, and the labels of its telemetry methods. Reconciliation drops
  pending capacity and ended tasks without a circuit, gives up the holds of reservations that are
  not active and reports what it cannot settle. The lemmas show that it keeps the invariant of the
  task tables, and that the hold of a task whose circuit is listed stays while its reservation is
  active or while its provider does not confirm that the task is over.
\<close>

section \<open>Reconciliation\<close>

definition reconcile_pending :: "qpm_env \<Rightarrow> int \<times> pending_entry \<Rightarrow> pydict list ctl" where
  "reconcile_pending env item =
     bindM (getM id) (\<lambda>s.
       let qtask_id = fst item;
           removed = (\<lambda>reason. [[(''qtask_id'', PInt qtask_id),
             (''reservation_id'', opt_int (pe_reservation_id (snd item))), (''reason'', PStr reason)]])
       in case task_for_qtask_id qtask_id s of
            None \<Rightarrow> seqM (modM (pop_pending qtask_id)) (retM (removed ''missing-runtime''))
          | Some runtime \<Rightarrow>
              if rt_cid runtime \<in> set (circuits s) then retM []
              else seqM (cleanup_task qtask_id) (retM (removed ''missing-circuit'')))"

definition reconcile_pending_capacity :: "qpm_env \<Rightarrow> pydict list ctl" where
  "reconcile_pending_capacity env = bindM (getM pending_capacity) (\<lambda>items. collectM items (reconcile_pending env))"

text \<open>The state of a reservation, or the text of the error of its lookup.\<close>

definition reservation_lifecycle_state :: "qpm_env \<Rightarrow> int \<Rightarrow> (pyval \<times> pyval) ctl" where
  "reservation_lifecycle_state env rid =
     tryM (bindM (get_reservation env rid) (\<lambda>reservation. retM (pget reservation ''state'', PNone)))
       (\<lambda>error. retM (PNone, PStr (exc_text error)))"

definition report_fault :: "qpm_env \<Rightarrow> pydict \<Rightarrow> pydict list ctl" where
  "report_fault env fault = bindM (record_reconciliation_fault env fault) (\<lambda>record. retM [record])"

definition fail_held_task :: "int \<Rightarrow> controller \<Rightarrow> controller" where
  "fail_held_task qtask_id s =
     drop_inflight qtask_id (drop_selected qtask_id (set_runtime_state qtask_id QPM_TASK_FAILED s))"

definition give_up_hold :: "qpm_env \<Rightarrow> int \<Rightarrow> runtime_task option \<Rightarrow> pydict \<Rightarrow> pydict list ctl" where
  "give_up_hold env qtask_id found fault =
     bindM (case found of
              Some runtime \<Rightarrow>
                if rt_scheduler_task_id runtime \<noteq> PNone
                then tryM (seqM (mark_scheduler_task_failed env (rt_scheduler_task_id runtime)) (retM fault))
                       (\<lambda>error. retM (dset ''scheduler_error'' (PStr (exc_text error)) fault))
                else retM fault
            | None \<Rightarrow> retM fault) (\<lambda>fault.
     seqM (modM (\<lambda>s. pop_usage_event qtask_id (pop_hold qtask_id s)))
     (seqM (modM (\<lambda>s. if found = None then s else fail_held_task qtask_id s))
        (report_fault env fault)))"

definition cancel_note :: "runtime_task \<Rightarrow> provider_cancel \<Rightarrow> pydict \<Rightarrow> pydict" where
  "cancel_note runtime cancel fault =
     (let noted = dset ''provider_cancel_reason'' (PStr (pc_reason cancel))
                    (dset ''provider_cancel_status'' (pc_status cancel) fault)
      in case rt_provider_handle runtime of
           Some handle \<Rightarrow> dset ''provider_handle'' (PStr handle) noted | None \<Rightarrow> noted)"

definition reconcile_inactive_hold :: "qpm_env \<Rightarrow> int \<Rightarrow> pydict \<Rightarrow> pydict list ctl" where
  "reconcile_inactive_hold env qtask_id fault =
     bindM (getM id) (\<lambda>s.
       let found = task_for_qtask_id qtask_id s
       in case found of
            None \<Rightarrow> give_up_hold env qtask_id found fault
          | Some runtime \<Rightarrow>
              bindM (if provider_active runtime s then cancel_provider_for_task env runtime else retM None) (\<lambda>cancel.
                case cancel of
                  None \<Rightarrow> give_up_hold env qtask_id found fault
                | Some c \<Rightarrow>
                    if pc_terminal c then give_up_hold env qtask_id found (cancel_note runtime c fault)
                    else report_fault env (dset ''reason'' (PStr ''inactive-reservation-hold-provider-cancel-pending'')
                           (cancel_note runtime c fault))))"

definition hold_fault :: "int \<Rightarrow> int \<Rightarrow> pyval \<Rightarrow> int \<Rightarrow> string \<Rightarrow> pydict" where
  "hold_fault qtask_id rid state now reason =
     [(''qtask_id'', PInt qtask_id), (''reservation_id'', PInt rid), (''reservation_state'', py_or state (PStr ''unknown'')),
      (''timestamp_ns'', PInt now), (''reason'', PStr reason)]"

definition reconcile_hold :: "qpm_env \<Rightarrow> int \<Rightarrow> int \<times> capacity_hold \<Rightarrow> pydict list ctl" where
  "reconcile_hold env now item =
     (let qtask_id = fst item; rid = ch_reservation_id (snd item)
      in bindM (reservation_lifecycle_state env rid) (\<lambda>(state, lookup_error).
           if state = PStr ''active'' then retM []
           else if lookup_error \<noteq> PNone
           then report_fault env (hold_fault qtask_id rid state now ''reservation-lookup-failed'' @
                  [(''lookup_error'', lookup_error)])
           else reconcile_inactive_hold env qtask_id (hold_fault qtask_id rid state now ''inactive-reservation-hold'')))"

definition reconcile_capacity_holds :: "qpm_env \<Rightarrow> int \<Rightarrow> pydict list ctl" where
  "reconcile_capacity_holds env now = bindM (getM capacity_holds) (\<lambda>items. collectM items (reconcile_hold env now))"

record runtime_summary =
  stale_runtime_tasks :: "pydict list"
  unfinished_scheduler_tasks :: "pydict list"
  provider_handle_faults :: "pydict list"

definition reconcile_runtime :: "qpm_env \<Rightarrow> int \<times> runtime_task \<Rightarrow> runtime_summary list ctl" where
  "reconcile_runtime env item =
     (let qtask_id = fst item; runtime = snd item
      in bindM (getM id) (\<lambda>s.
           if rt_cid runtime \<notin> set (circuits s) \<and> terminal_state (rt_state runtime)
           then seqM (cleanup_task qtask_id)
                  (retM [\<lparr>stale_runtime_tasks = [[(''qtask_id'', PInt qtask_id), (''cid'', PStr (rt_cid runtime)),
                            (''state'', state_value runtime)]],
                          unfinished_scheduler_tasks = [], provider_handle_faults = []\<rparr>])
           else bindM (if rt_scheduler_task_id runtime \<noteq> PNone \<and> \<not> terminal_state (rt_state runtime)
                       then bindM (scheduler_state env runtime) (\<lambda>name.
                              retM [[(''qtask_id'', PInt qtask_id), (''scheduler_task_id'', rt_scheduler_task_id runtime),
                                     (''scheduler_state'', name), (''lifecycle_state'', state_value runtime)]])
                       else retM []) (\<lambda>unfinished.
                  retM [\<lparr>stale_runtime_tasks = [], unfinished_scheduler_tasks = unfinished,
                         provider_handle_faults =
                           (case rt_provider_handle runtime of
                              Some handle \<Rightarrow>
                                if qtask_id \<notin> set (provider_inflight s) \<and> \<not> terminal_state (rt_state runtime)
                                then [[(''qtask_id'', PInt qtask_id), (''provider_handle'', PStr handle),
                                       (''lifecycle_state'', state_value runtime)]]
                                else []
                            | None \<Rightarrow> [])\<rparr>])))"

definition reconcile_runtime_maps :: "qpm_env \<Rightarrow> runtime_summary list ctl" where
  "reconcile_runtime_maps env = bindM (getM runtime_by_qtask_id) (\<lambda>items. collectM items (reconcile_runtime env))"

definition dict_list :: "pydict list \<Rightarrow> pyval" where
  "dict_list ds = PList (map PDict ds)"

definition reconcile_runtime_state :: "qpm_env \<Rightarrow> int option \<Rightarrow> pydict ctl" where
  "reconcile_runtime_state env now_ns =
     bindM (case now_ns of Some n \<Rightarrow> if n \<noteq> 0 then retM n else time_ns env | None \<Rightarrow> time_ns env) (\<lambda>now.
     bindM (getM (\<lambda>s. target_id (config s))) (\<lambda>target.
     bindM (reconcile_pending_capacity env) (\<lambda>removed.
     bindM (reconcile_capacity_holds env now) (\<lambda>faults.
     bindM (reconcile_runtime_maps env) (\<lambda>parts.
       let summary = [(''target_id'', PStr target), (''timestamp_ns'', PInt now), (''pending_removed'', dict_list removed),
             (''stale_runtime_tasks'', dict_list (concat (map stale_runtime_tasks parts))),
             (''capacity_hold_faults'', dict_list faults),
             (''unfinished_scheduler_tasks'', dict_list (concat (map unfinished_scheduler_tasks parts))),
             (''provider_handle_faults'', dict_list (concat (map provider_handle_faults parts))),
             (''directory_generation_faults'', PList [])]
       in seqM (record_lifecycle_event env ''reconciliation'' PNone (Some [(''summary'', PDict summary)])) (retM summary))))))"

section \<open>Directory events\<close>

definition SERVICE_RECORD_FIELDS :: "string list" where
  "SERVICE_RECORD_FIELDS =
     [''service_id'', ''service_name'', ''service_type'', ''runtime_id'', ''peer_handle'', ''generation'', ''state'',
      ''down_reason'', ''retention_deadline'']"

definition PEER_EVENT_FIELDS :: "string list" where
  "PEER_EVENT_FIELDS = [''event_type'', ''peer_handle'', ''runtime_id'', ''remote_runtime_id'', ''reason'', ''timestamp'']"

definition present_fields :: "pydict \<Rightarrow> string \<Rightarrow> string list \<Rightarrow> pydict" where
  "present_fields d lead keys = map (\<lambda>k. (lead @ k, pget d k)) (filter (\<lambda>k. pget d k \<noteq> PNone) keys)"

definition defw_directory_event_details :: "pydict \<Rightarrow> pydict \<Rightarrow> pydict \<Rightarrow> pydict" where
  "defw_directory_event_details service_record peer_event details =
     dupdate (dupdate (present_fields service_record '''' SERVICE_RECORD_FIELDS)
       (present_fields peer_event ''peer_'' PEER_EVENT_FIELDS)) details"

definition defw_directory_lifecycle_record :: "qpm_env \<Rightarrow> string \<Rightarrow> pyval \<Rightarrow> pydict \<Rightarrow> pydict ctl" where
  "defw_directory_lifecycle_record env event reason details =
     bindM (getM (\<lambda>s. target_id (config s))) (\<lambda>target. bindM (time_ns env) (\<lambda>now.
       retM ([(''event'', PStr event), (''target_id'', PStr target), (''source'', PStr ''defw-directory''),
              (''timestamp_ns'', PInt now)] @
             (if py_truth reason then [(''reason'', reason)] else []) @
             (if details \<noteq> [] then [(''details'', PDict details)] else []))))"

fun directory_records :: "qpm_env \<Rightarrow> (string \<times> pyval \<times> pydict) list \<Rightarrow> pydict list ctl" where
  "directory_records env [] = retM []"
| "directory_records env ((event, reason, details) # rest) =
     bindM (defw_directory_lifecycle_record env event reason details) (\<lambda>record.
     bindM (directory_records env rest) (\<lambda>records. retM (record # records)))"

text \<open>The records an event leads to: their events, reasons and details.\<close>

definition restart_events :: "pydict \<Rightarrow> pydict \<Rightarrow> (string \<times> pyval \<times> pydict) list" where
  "restart_events service_record base =
     (let restart = (''service-restart'', PStr ''runtime-restart'', base)
      in case (int_or_none (pget base ''previous_generation''), int_or_none (pget service_record ''generation'')) of
           (Some previous, Some generation) \<Rightarrow>
             if previous \<noteq> generation
             then [restart, (''generation-change'', PStr ''generation-change'',
                     dset ''current_generation'' (PInt generation) (dset ''previous_generation'' (PInt previous) base))]
             else if generation > 1
             then [restart, (''generation-change'', PStr ''generation-increment'', dset ''current_generation'' (PInt generation) base)]
             else []
         | (None, Some generation) \<Rightarrow>
             if generation > 1
             then [restart, (''generation-change'', PStr ''generation-increment'', dset ''current_generation'' (PInt generation) base)]
             else []
         | (_, None) \<Rightarrow> [])"

definition directory_events :: "string \<Rightarrow> pydict \<Rightarrow> pyval \<Rightarrow> pydict \<Rightarrow> (string \<times> pyval \<times> pydict) list" where
  "directory_events event_type service_record reason base =
     (if event_type \<in> {''register'', ''registration'', ''service-registration''}
      then (''service-registration'', reason, base) # restart_events service_record base
      else if event_type \<in> {''deregister'', ''deregistration'', ''service-deregistration''}
      then [(''service-deregistration'', reason, base)]
      else if event_type \<in> {''peer-lost'', ''peer-loss''}
      then (''peer-lost'', reason, base) #
           (if reason = PStr ''heartbeat-timeout'' \<or> pget service_record ''state'' = PStr ''TIMED_OUT''
            then [(''service-timeout'', reason, base)] else [])
      else if event_type \<in> {''peer-ready'', ''service-recovered''} then [(''service-recovered'', reason, base)]
      else if event_type \<in> {''purge'', ''retention-purge''} then [(''retention-purge'', reason, base)]
      else if event_type \<in> {''restart'', ''service-restart''} then [(''service-restart'', reason, base)]
      else if event_type = ''generation-change'' then [(''generation-change'', reason, base)]
      else [(if event_type = [] then ''directory-lifecycle'' else event_type, reason, base)])"

definition record_defw_directory_event ::
  "qpm_env \<Rightarrow> pyval \<Rightarrow> pydict \<Rightarrow> pydict \<Rightarrow> pyval \<Rightarrow> pydict \<Rightarrow> pydict list ctl" where
  "record_defw_directory_event env event_type service_record peer_event reason details =
     (let reason = py_or (py_or (py_or reason (pget peer_event ''reason'')) (pget service_record ''down_reason'')) PNone;
          base = defw_directory_event_details service_record peer_event details
      in bindM (directory_records env
            (directory_events (normalize_directory_event_type event_type) service_record reason base)) (\<lambda>records.
          seqM (modM (\<lambda>s. s\<lparr>lifecycle_events := lifecycle_events s @ records, audit_records := audit_records s @ records\<rparr>))
            (retM records)))"

section \<open>Telemetry labels\<close>

definition TELEMETRY_METHOD_LABELS :: "(string \<times> string) list" where
  "TELEMETRY_METHOD_LABELS =
     [(''get_backend_info'', ''basic-discovery''), (''get_device_info'', ''basic-discovery''),
      (''get_dynamic_backend_info'', ''basic-discovery''), (''get_calibration_snapshot'', ''basic-discovery''),
      (''get_coupling_graph'', ''basic-discovery''), (''get_task_timing'', ''caller-owned''),
      (''get_task_metadata'', ''caller-owned''), (''get_capacity_snapshot'', ''manager-aggregate''),
      (''get_queue_metrics'', ''manager-aggregate''), (''list_scheduler_allocations'', ''manager-aggregate''),
      (''get_service_lifecycle_telemetry'', ''operator''), (''get_scheduler_queue_state'', ''manager-aggregate''),
      (''get_scheduler_status'', ''operator''), (''get_telemetry_access_model'', ''basic-discovery''),
      (''reconcile_runtime_state'', ''operator'')]"

definition telemetry_method_label :: "string \<Rightarrow> exc + pyval" where
  "telemetry_method_label method_name =
     (case map_of TELEMETRY_METHOD_LABELS method_name of
        None \<Rightarrow> Inl (KeyError method_name)
      | Some cls \<Rightarrow> Inr (PDict [(''access_class'', PStr cls), (''enforced'', PBool False), (''object_visibility'', PStr cls),
          (''field_visibility'', PDict [(''telemetry'', PStr ''basic-discovery''), (''data'', PStr cls)])]))"

fun method_labels :: "string list \<Rightarrow> exc + pydict" where
  "method_labels [] = Inr []"
| "method_labels (n # ns) = bindE (telemetry_method_label n) (\<lambda>l. bindE (method_labels ns) (\<lambda>ls. Inr ((n, l) # ls)))"

definition access_class_entry :: "string \<Rightarrow> string \<Rightarrow> pyval" where
  "access_class_entry name description = PDict [(''name'', PStr name), (''description'', PStr description)]"

definition telemetry_access_model :: "controller \<Rightarrow> exc + pydict" where
  "telemetry_access_model s =
     bindE (method_labels (sort (dkeys TELEMETRY_METHOD_LABELS))) (\<lambda>labels.
       Inr [(''target_id'', PStr (target_id (config s))), (''enforcement'', PStr ''record-only''),
         (''access_classes'', PList [access_class_entry ''basic-discovery'' ''public backend and device discovery'',
            access_class_entry ''caller-owned'' ''caller-owned task and reservation state'',
            access_class_entry ''manager-aggregate'' ''aggregate queue and capacity state'',
            access_class_entry ''operator'' ''operator policy, audit, and health state'']),
         (''methods'', PDict labels)])"

definition find_task_reservation_error :: "pyval \<Rightarrow> pyval \<Rightarrow> pyval \<Rightarrow> bool \<Rightarrow> controller \<Rightarrow> exc + pydict option" where
  "find_task_reservation_error cid qtask_id reservation_id require_reservation s =
     bindE (normalize_optional_reservation_id reservation_id) (\<lambda>rid.
       Inr (case known_task cid qtask_id s of
              None \<Rightarrow> None | Some runtime \<Rightarrow> task_reservation_error runtime rid require_reservation))"

section \<open>What reconciliation keeps\<close>

lemma keeps_lifecycle_event:
  assumes "world_blind I" "\<And>s a b. I (s\<lparr>lifecycle_events := a, audit_records := b\<rparr>) = I s"
  shows "keeps I (record_lifecycle_event env event reason details)"
  unfolding record_lifecycle_event_def by (intro keeps_rules keeps_mod keeps_time assms(1)) (simp add: assms(2))

lemma keeps_lookup: "world_blind I \<Longrightarrow> keeps I (reservation_lifecycle_state env rid)"
  unfolding reservation_lifecycle_state_def by (intro keeps_rules keeps_admission)

lemma keeps_cancel_provider: "record_blind I \<Longrightarrow> keeps I (cancel_provider_for_task env r)"
  unfolding cancel_provider_for_task_def
  by (auto intro!: keeps_rules keeps_fault keeps_canceller record_blindD split: sum.splits)

lemma keeps_scheduler_state: "world_blind I \<Longrightarrow> keeps I (scheduler_state env r)"
  unfolding scheduler_state_def by (intro keeps_rules)

lemma keeps_reconcile_inactive:
  assumes I: "record_blind I"
    and drop: "\<And>s. I s \<Longrightarrow> I (pop_usage_event q (pop_hold q s))" "\<And>s. I s \<Longrightarrow> I (fail_held_task q s)"
  shows "keeps I (reconcile_inactive_hold env q fault)"
  unfolding reconcile_inactive_hold_def give_up_hold_def report_fault_def Let_def
  by (intro keeps_rules keeps_mod keeps_fault keeps_cancel_provider I record_blindD [OF I]) (simp_all add: drop)

text \<open>A predicate every step of the three passes keeps.\<close>

definition reconcile_safe :: "(controller \<Rightarrow> bool) \<Rightarrow> bool" where
  "reconcile_safe I \<longleftrightarrow> record_blind I \<and> (\<forall>s a b. I (s\<lparr>lifecycle_events := a, audit_records := b\<rparr>) = I s) \<and>
     (\<forall>s q. I s \<longrightarrow> I (pop_pending q s) \<and> I (pop_usage_event q (pop_hold q s)) \<and> I (fail_held_task q s)) \<and>
     (\<forall>q. keeps I (cleanup_task q))"

lemma keeps_reconcile:
  assumes I: "reconcile_safe I"
  shows "keeps I (reconcile_runtime_state env now)"
proof -
  have R: "record_blind I" and W: "world_blind I" and C: "\<And>q. keeps I (cleanup_task q)"
    and P: "\<And>s q. I s \<Longrightarrow> I (pop_pending q s)"
    using I by (simp_all add: reconcile_safe_def record_blind_def)
  have "keeps I (reconcile_inactive_hold env q fault)" for q fault
    by (rule keeps_reconcile_inactive [OF R]) (use I in \<open>auto simp: reconcile_safe_def\<close>)
  then have holds: "keeps I (reconcile_capacity_holds env n)" for n
    unfolding reconcile_capacity_holds_def reconcile_hold_def report_fault_def Let_def
    by (intro keeps_rules keeps_case_prod keeps_fault R keeps_lookup W)
  have pending: "keeps I (reconcile_pending_capacity env)"
    unfolding reconcile_pending_capacity_def reconcile_pending_def Let_def
    by (intro keeps_rules keeps_mod C P)
  have maps: "keeps I (reconcile_runtime_maps env)"
    unfolding reconcile_runtime_maps_def reconcile_runtime_def Let_def
    by (intro keeps_rules C keeps_scheduler_state W)
  show ?thesis
    unfolding reconcile_runtime_state_def Let_def
    by (intro keeps_rules keeps_time W pending holds maps keeps_lifecycle_event)
      (use I in \<open>simp add: reconcile_safe_def\<close>)
qed

lemma tasks_ok_drop [simp]: "tasks_ok s \<Longrightarrow> tasks_ok (drop_selected q s)" "tasks_ok s \<Longrightarrow> tasks_ok (drop_inflight q s)"
  by (simp_all add: tasks_ok_def drop_inflight_def drop_selected_def Let_def)

lemma tasks_ok_reconcile: "reconcile_safe tasks_ok"
  unfolding reconcile_safe_def
  by (auto simp: pop_pending_def fail_held_task_def intro: keeps_cleanup_tasks)
   (simp_all add: record_blind_def tasks_ok_blind tasks_ok_def)

section \<open>Holds in use\<close>

text \<open>The hold and the task of an identifier, and that the circuit of the task is still listed.\<close>

definition hold_in_use :: "int \<Rightarrow> capacity_hold \<Rightarrow> runtime_task \<Rightarrow> controller \<Rightarrow> bool" where
  "hold_in_use q h r s \<longleftrightarrow>
     dict_ok (capacity_holds s) \<and> map_of (capacity_holds s) q = Some h \<and>
     dict_ok (runtime_by_qtask_id s) \<and> map_of (runtime_by_qtask_id s) q = Some r \<and> rt_cid r \<in> set (circuits s)"

lemma hold_in_use_blind: "record_blind (hold_in_use q h r)"
  by (simp add: record_blind_def world_blind_def hold_in_use_def)

lemma hold_in_use_other:
  assumes "hold_in_use q h r s" "p \<noteq> q"
  shows "hold_in_use q h r (pop_usage_event p (pop_hold p s))" "hold_in_use q h r (fail_held_task p s)"
    "hold_in_use q h r (forget_task p r' s)"
  using assms
  by (auto simp: hold_in_use_def fail_held_task_def table_ops drop_inflight_def drop_selected_def upd_entry_def
      forget_task_def retain_terminal_task_def Let_def split: option.splits)

lemma keeps_cleanup_other: "p \<noteq> q \<Longrightarrow> keeps (hold_in_use q h r) (cleanup_task p)"
  unfolding cleanup_task_def by (intro keeps_rules keeps_mod hold_in_use_other) simp_all

lemma keeps_reconcile_hold_other:
  assumes "p \<noteq> q"
  shows "keeps (hold_in_use q h r) (reconcile_hold env now (p, h'))"
  unfolding reconcile_hold_def report_fault_def Let_def
  by (intro keeps_rules keeps_case_prod keeps_fault keeps_lookup keeps_reconcile_inactive hold_in_use_blind
      record_blindD [OF hold_in_use_blind]) (simp_all add: hold_in_use_other assms)

lemma keeps_get_else:
  "(\<And>s. I s \<Longrightarrow> \<not> c s) \<Longrightarrow> (\<And>s. keeps I (n s)) \<Longrightarrow> keeps I (bindM (getM id) (\<lambda>s. if c s then m s else n s))"
  by (simp add: keeps_def bindM_get)

text \<open>Whatever keeps the hold in the second pass keeps it in all three.\<close>

lemma reconcile_keeps_hold:
  assumes own: "\<And>n. keeps (hold_in_use q h r) (reconcile_hold env n (q, h))"
  shows "keeps (hold_in_use q h r) (reconcile_runtime_state env now)"
proof -
  let ?I = "hold_in_use q h r"
  have W: "world_blind ?I" by (rule record_blindD [OF hold_in_use_blind])
  have "keeps ?I (reconcile_pending env item)" for item
  proof (cases "fst item = q")
    case True
    then show ?thesis
      by (auto intro!: keepsI simp: reconcile_pending_def bindM_get hold_in_use_def task_for_qtask_id_def retM_def)
  next
    case False
    then show ?thesis
      unfolding reconcile_pending_def Let_def
      by (intro keeps_rules keeps_mod keeps_cleanup_other) (auto simp: hold_in_use_def pop_pending_def)
  qed
  then have pending: "keeps ?I (reconcile_pending_capacity env)"
    unfolding reconcile_pending_capacity_def by (intro keeps_rules)
  have "keeps ?I (reconcile_hold env n item)" if "item \<in> set (capacity_holds s)" "?I s" for n item s
  proof (cases "fst item = q")
    case True
    then have "item = (q, h)"
      using that dict_ok_in_set [of "capacity_holds s"] by (cases item) (auto simp: hold_in_use_def)
    then show ?thesis using own by simp
  next
    case False
    then show ?thesis using keeps_reconcile_hold_other [of "fst item" q] by (cases item) simp
  qed
  then have holds: "keeps ?I (reconcile_capacity_holds env n)" for n
    unfolding reconcile_capacity_holds_def
    by (intro keeps_bind_get) (auto intro: keepsD [OF keeps_collect_in])
  have "keeps ?I (reconcile_runtime env item)" if "item \<in> set (runtime_by_qtask_id s)" "?I s" for item s
  proof (cases "fst item = q")
    case True
    then have item: "item = (q, r)"
      using that dict_ok_in_set [of "runtime_by_qtask_id s"] by (cases item) (auto simp: hold_in_use_def)
    show ?thesis
      unfolding item reconcile_runtime_def Let_def fst_conv snd_conv
      by (rule keeps_get_else) (auto simp: hold_in_use_def intro!: keeps_rules keeps_scheduler_state W)
  next
    case False
    then show ?thesis
      unfolding reconcile_runtime_def Let_def
      by (intro keeps_rules keeps_cleanup_other keeps_scheduler_state W)
  qed
  then have maps: "keeps ?I (reconcile_runtime_maps env)"
    unfolding reconcile_runtime_maps_def
    by (intro keeps_bind_get) (auto intro: keepsD [OF keeps_collect_in])
  show ?thesis
    unfolding reconcile_runtime_state_def Let_def
    by (intro keeps_rules keeps_time W pending holds maps keeps_lifecycle_event) (simp add: hold_in_use_def)
qed

text \<open>What the admission service says about a reservation whenever it is asked.\<close>

definition admission_reports :: "qpm_env \<Rightarrow> int \<Rightarrow> pyval \<Rightarrow> bool" where
  "admission_reports env rid st \<longleftrightarrow>
     (\<forall>e. admission_context env \<noteq> Unavailable e) \<and> normalize_reservation_id (PInt rid) False = Inr rid \<and>
     (\<forall>past. \<exists>v. respond env past (AdmGet rid) = Inr v \<and> pget (reservation_dict v) ''state'' = st)"

lemma reported_state:
  assumes "admission_reports env rid st"
  shows "reservation_lifecycle_state env rid s = (Inr (st, PNone), s\<lparr>history := history s @ [AdmGet rid]\<rparr>)"
proof -
  obtain v where "respond env (history s) (AdmGet rid) = Inr v" "pget (reservation_dict v) ''state'' = st"
    using assms by (auto simp: admission_reports_def)
  then show ?thesis
    using assms
    by (cases "admission_context env")
      (auto simp: reservation_lifecycle_state_def get_reservation_def with_reservation_def on_context_def
        admission_reports_def ext_def monad_defs)
qed

lemma active_hold_stays:
  assumes "admission_reports env (ch_reservation_id h) (PStr ''active'')"
  shows "keeps (hold_in_use q h r) (reconcile_hold env now (q, h))"
  by (rule keepsI) (simp add: reconcile_hold_def monad_defs reported_state [OF assms], simp add: hold_in_use_def)

text \<open>A provider that is asked to cancel a task and does not say that the task is over.\<close>

definition cancel_unconfirmed :: "qpm_env \<Rightarrow> string \<Rightarrow> bool" where
  "cancel_unconfirmed env provider_handle \<longleftrightarrow>
     (\<forall>past. case respond env past (ProviderCancel provider_handle) of
        Inl e \<Rightarrow> True
      | Inr v \<Rightarrow> \<not> provider_cancel_is_terminal (case v of EVal x \<Rightarrow> x | EObj d \<Rightarrow> PDict d | EVals vs \<Rightarrow> PNone))"

lemma unconfirmed_cancel:
  assumes "rt_provider_handle r = Some ph" "cancel_unconfirmed env ph"
  shows "valid I (cancel_provider_for_task env r) (\<lambda>c. \<lambda>_. \<exists>p. c = Some p \<and> \<not> pc_terminal p) (\<lambda>_ _. False)"
proof (rule validI)
  fix s :: controller
  have "case respond env (history s) (ProviderCancel ph) of Inl e \<Rightarrow> True
      | Inr v \<Rightarrow> \<not> provider_cancel_is_terminal (case v of EVal x \<Rightarrow> x | EObj d \<Rightarrow> PDict d | EVals vs \<Rightarrow> PNone)"
    using assms(2) by (simp add: cancel_unconfirmed_def)
  then show "case cancel_provider_for_task env r s of (Inl e, t) \<Rightarrow> False | (Inr c, t) \<Rightarrow> \<exists>p. c = Some p \<and> \<not> pc_terminal p"
    using assms(1)
    by (auto simp: cancel_provider_for_task_def call_provider_canceller_def record_reconciliation_fault_def time_ns_def
        ext_def monad_defs pending_cancel_def Let_def split: sum.splits ext_value.splits)
qed

lemma valid_fixed: "(Q \<Longrightarrow> valid P m R E) \<Longrightarrow> valid (\<lambda>s. P s \<and> Q) m R E"
  by (simp add: valid_def)

lemma valid_keeps_result:
  "keeps I m \<Longrightarrow> valid I m (\<lambda>x _. Q x) (\<lambda>_ _. False) \<Longrightarrow> valid I m (\<lambda>x s. I s \<and> Q x) (\<lambda>_. I)"
  unfolding keeps_def valid_def by (auto split: prod.splits sum.splits)

lemma unconfirmed_hold_stays:
  assumes ph: "rt_provider_handle r = Some ph" and un: "cancel_unconfirmed env ph"
  shows "keeps (hold_in_use q h r) (reconcile_hold env now (q, h))"
proof -
  let ?I = "hold_in_use q h r"
  have W: "world_blind ?I" by (rule record_blindD [OF hold_in_use_blind])
  have cancel: "valid ?I (cancel_provider_for_task env r) (\<lambda>c s. ?I s \<and> (\<exists>p. c = Some p \<and> \<not> pc_terminal p)) (\<lambda>_. ?I)"
    by (rule valid_keeps_result [OF keeps_cancel_provider [OF hold_in_use_blind] unconfirmed_cancel [OF ph un]])
  have "?I (snd (reconcile_inactive_hold env q fault s))" if "?I s" for fault s
  proof -
    have found: "task_for_qtask_id q s = Some r" "provider_active r s"
      using that ph by (simp_all add: hold_in_use_def task_for_qtask_id_def provider_active_def)
    have "valid ?I (bindM (cancel_provider_for_task env r) (\<lambda>cancel. case cancel of
        None \<Rightarrow> give_up_hold env q (Some r) fault
      | Some c \<Rightarrow> if pc_terminal c then give_up_hold env q (Some r) (cancel_note r c fault)
          else report_fault env (dset ''reason'' (PStr ''inactive-reservation-hold-provider-cancel-pending'')
                 (cancel_note r c fault)))) (\<lambda>_. ?I) (\<lambda>_. ?I)"
    proof (rule valid_bind [OF cancel])
      fix c
      have "keeps ?I (report_fault env f)" for f
        unfolding report_fault_def by (intro keeps_rules keeps_fault hold_in_use_blind)
      then show "valid (\<lambda>s. ?I s \<and> (\<exists>p. c = Some p \<and> \<not> pc_terminal p)) (case c of
          None \<Rightarrow> give_up_hold env q (Some r) fault
        | Some c \<Rightarrow> if pc_terminal c then give_up_hold env q (Some r) (cancel_note r c fault)
            else report_fault env (dset ''reason'' (PStr ''inactive-reservation-hold-provider-cancel-pending'')
                   (cancel_note r c fault))) (\<lambda>_. ?I) (\<lambda>_. ?I)"
        by (intro valid_fixed) (auto intro: keeps_valid)
    qed
    from valid_snd [OF this that] show ?thesis
      unfolding reconcile_inactive_hold_def bindM_get Let_def id_apply found option.case by (simp add: found)
  qed
  then have "keeps ?I (reconcile_inactive_hold env q fault)" for fault by (rule keepsI)
  then show ?thesis
    unfolding reconcile_hold_def report_fault_def Let_def fst_conv snd_conv
    by (intro keeps_rules keeps_case_prod keeps_fault keeps_lookup W hold_in_use_blind)
qed

end
