(* ===== verification/QPM_Config_Inv.thy ===== *)
theory QPM_Config_Inv
  imports QPM_Reconcile
begin

text \<open>
  Configuration, control and the reports about other services write fields of their own. Whatever
  does not look at these fields is kept by every such operation, whether it returns or raises.
\<close>

section \<open>Fields of the configuration\<close>

definition config_blind :: "(controller \<Rightarrow> bool) \<Rightarrow> bool" where
  "config_blind I \<longleftrightarrow> ledger_blind I \<and>
     (\<forall>s x n. I (s\<lparr>lifecycle_events := x\<rparr>) = I s \<and> I (s\<lparr>audit_records := x\<rparr>) = I s \<and>
        I (s\<lparr>device_profile_version := n\<rparr>) = I s \<and> I (s\<lparr>admission_policy_version := n\<rparr>) = I s \<and>
        I (s\<lparr>scheduler_policy_version := n\<rparr>) = I s \<and> I (s\<lparr>scheduler_control_version := n\<rparr>) = I s \<and>
        I (s\<lparr>binding_count := n\<rparr>) = I s) \<and>
     (\<forall>s p. I (s\<lparr>device_profile := p\<rparr>) = I s \<and> I (s\<lparr>shutdown_request := p\<rparr>) = I s) \<and>
     (\<forall>s d. I (s\<lparr>admission_configuration := d\<rparr>) = I s) \<and> (\<forall>s c. I (s\<lparr>scheduler_control := c\<rparr>) = I s) \<and>
     (\<forall>s c. I (s\<lparr>scheduler_policy_state := c\<rparr>) = I s) \<and> (\<forall>s t. I (s\<lparr>service_state := t\<rparr>) = I s) \<and>
     (\<forall>s v. I (s\<lparr>max_ppn := v\<rparr>) = I s) \<and>
     (\<forall>s b. I (s\<lparr>provider_canceller := b\<rparr>) = I s \<and> I (s\<lparr>provider_credential_evictor := b\<rparr>) = I s)"

lemma config_blindD: "config_blind I \<Longrightarrow> world_blind I" "config_blind I \<Longrightarrow> ledger_blind I"
  by (simp_all add: config_blind_def ledger_blind_def)

lemma keeps_config_event: "config_blind I \<Longrightarrow> keeps I (record_lifecycle_event env event reason details)"
  by (rule keeps_lifecycle_event) (simp_all add: config_blindD, simp add: config_blind_def)

lemma keeps_config_profile: "config_blind I \<Longrightarrow> keeps I (normalize_device_profile profile)"
  by (rule keeps_normalize_profile) (simp_all add: config_blind_def ledger_blind_def)

lemma keeps_change_control: "config_blind I \<Longrightarrow> keeps I (change_control env f status event reason details)"
  unfolding change_control_def
  by (intro keeps_rules keeps_mod keeps_config_event) (simp_all add: config_blind_def upd_control_def)

lemma keeps_scheduler_set: "world_blind I \<Longrightarrow> keeps I (set_scheduler_policy env policy)"
  unfolding set_scheduler_policy_def require_scheduler_context_def Let_def
  by (auto intro!: keeps_rules keeps_ext split: context_kind.splits)

section \<open>Operations\<close>

lemma keeps_controls:
  assumes "config_blind I"
  shows "keeps I (pause_scheduler env reason)" "keeps I (resume_scheduler env)" "keeps I (drain_scheduler env mode timeout_s)"
    "keeps I (configure_dispatch_limits env limits)" "keeps I (set_service_state env state)" "keeps I (bind_controller env ppn)"
    "keeps I (configure_scheduler_policy env policy)" "keeps I (record_control_reconciliation env reason summary token)"
    "keeps I (begin_service_shutdown env mode timeout_s reason token)"
  unfolding pause_scheduler_def resume_scheduler_def drain_scheduler_def configure_dispatch_limits_def set_service_state_def
    bind_controller_def configure_scheduler_policy_def record_control_reconciliation_def begin_service_shutdown_def time_s_def Let_def
  by (intro keeps_rules keeps_mod keeps_change_control keeps_config_event keeps_scheduler_set keeps_time assms config_blindD [OF assms];
      use assms in \<open>simp add: config_blind_def upd_control_def\<close>)+

lemma keeps_profile:
  assumes "config_blind I"
  shows "keeps I (configure_device_profile env profile)"
  unfolding configure_device_profile_def
  by (intro keeps_rules keeps_mod keeps_config_profile assms config_blindD [OF assms]) (use assms in \<open>simp add: config_blind_def\<close>)

lemma keeps_set_policy:
  assumes "config_blind I"
  shows "keeps I (set_admission_policy env configuration wanted)"
proof -
  have "keeps I (normalize_admission_configuration configuration wanted)"
    by (rule keeps_normalize_configuration) (use assms in \<open>simp_all add: config_blind_def ledger_blind_def\<close>)
  then show ?thesis
    unfolding set_admission_policy_def Let_def
    by (intro keeps_rules keeps_case_prod keeps_mod keeps_apply_policy config_blindD [OF assms])
      (use assms in \<open>simp_all add: config_blind_def\<close>)
qed

lemma keeps_directory_event:
  assumes "config_blind I"
  shows "keeps I (record_defw_directory_event env event service_record peer_event reason details)"
proof -
  have "keeps I (directory_records env events)" for events
    by (induction env events rule: directory_records.induct)
      (auto intro!: keeps_rules keeps_time config_blindD [OF assms] simp: defw_directory_lifecycle_record_def)
  moreover have "I (s\<lparr>lifecycle_events := a, audit_records := b\<rparr>) = I s" for s a b
    using assms by (simp add: config_blind_def)
  ultimately show ?thesis
    unfolding record_defw_directory_event_def Let_def
    by (intro keeps_rules keeps_mod) simp_all
qed

end
