(* ===== verification/QPM_System.thy ===== *)
theory QPM_System
  imports QPM_Reservations_Inv QPM_Config_Inv
begin

text \<open>
  The controller as a whole: every operation a caller can invoke, as a datatype of requests, and
  the two table invariants through any sequence of them, whatever the services outside answer.
  An operation that raises leaves the state it had reached, and the invariants hold there too.
\<close>

section \<open>Operations that leave the completion queues alone\<close>

definition tables_blind :: "(controller \<Rightarrow> bool) \<Rightarrow> bool" where
  "tables_blind I \<longleftrightarrow> close_blind I \<and> queue_blind I \<and> ledger_blind I"

lemma cq_blind: "close_blind cq_ok" "queue_blind cq_ok" "ledger_blind cq_ok" "record_blind cq_ok"
  by (simp_all add: close_blind_def queue_blind_def record_blind_def ledger_blind_def world_blind_def cq_ok_def)

lemma queues_frame [simp]:
  "completion_queues (set_runtime_state q st s) = completion_queues s"
  "completion_queues (clear_dispatch q s) = completion_queues s"
  "completion_queues (pop_hold q s) = completion_queues s"
  "completion_queues (pop_usage_event q s) = completion_queues s"
  "completion_queues (pop_pending q s) = completion_queues s"
  "completion_queues (store_result q v s) = completion_queues s"
  "completion_queues (note_provider_handle q h s) = completion_queues s"
  "completion_queues (note_usage_event q e s) = completion_queues s"
  "completion_queues (hold_capacity q rid u d s) = completion_queues s"
  "completion_queues (pend_capacity q rid c u d s) = completion_queues s"
  "completion_queues (note_decision q p d s) = completion_queues s"
  "completion_queues (claim_dispatch me q s) = completion_queues s"
  "completion_queues (release_dispatch_claim q s) = completion_queues s"
  "completion_queues (mark_selected q s) = completion_queues s"
  "completion_queues (enter_flight q hdl s) = completion_queues s"
  "completion_queues (cancelled_tables q s) = completion_queues s"
  "completion_queues (set_circuit_info c f s) = completion_queues s"
  "completion_queues (note_scheduler_task q i s) = completion_queues s"
  "completion_queues (drop_selected q s) = completion_queues s"
  "completion_queues (drop_inflight q s) = completion_queues s"
  "completion_queues (remove_provider_credential rid s) = completion_queues s"
  "completion_queues (forget_task q r s) = completion_queues s"
  by (simp_all add: table_ops pop_pending_def note_decision_def note_scheduler_task_def drop_selected_def
      drop_inflight_def remove_provider_credential_def forget_task_def retain_terminal_task_def Let_def
      split: option.splits)

lemma cq_ok_frame [simp]: "completion_queues t = completion_queues s \<Longrightarrow> cq_ok s \<Longrightarrow> cq_ok t"
  by (simp add: cq_ok_def)

lemma keeps_frame_queues: "(\<And>s. completion_queues (f s) = completion_queues s) \<Longrightarrow> keeps cq_ok (modM f)"
  by (rule keeps_mod) (simp add: cq_ok_def)

lemma cq_ok_enter [simp]: "cq_ok s \<Longrightarrow> cq_ok (enter_task r s)"
proof -
  assume "cq_ok s"
  then have "cq_ok (s\<lparr>terminal_tasks_by_cid := a, runtime_by_cid := b, runtime_by_qtask_id := c\<rparr>)" for a b c
    by (simp add: cq_ok_def)
  from cq_ok_ensure [OF this] this show ?thesis
    by (auto simp: enter_task_def Let_def cq_ok_def split: option.splits)
qed

section \<open>The invariant of the queues\<close>

lemma keeps_record_then:
  assumes r: "rt_reservation_id r = Some rid" and f: "\<And>x. record_ok rid (fst x) \<Longrightarrow> keeps cq_ok (f x)"
  shows "keeps cq_ok (bindM (completion_record env payload r now) f)"
proof (rule keepsI)
  fix s assume ok: "cq_ok s"
  obtain x t where x: "completion_record env payload r now s = (Inr x, t)" "record_ok rid (fst x)"
    using valid_returns [OF completion_record_ok [OF r], of "\<lambda>_. True" s env payload now] by blast
  have "cq_ok t" using keepsD [OF keeps_record [OF cq_ok_blind] ok, of env payload r now] x(1) by simp
  from keepsD [OF f [OF x(2)] this] show "cq_ok (snd (bindM (completion_record env payload r now) f s))"
    by (simp add: bindM_def x(1))
qed

lemma keeps_terminal_delivery_queues [keeps_rules]: "keeps cq_ok (terminal_completion_delivery env r p)"
proof (cases "rt_reservation_id r")
  case (Some rid)
  show ?thesis
    unfolding terminal_completion_delivery_def Some option.case
    by (intro keeps_rules cq_world keeps_status cq_ok_blind keeps_record_then [OF Some])
      (auto intro!: keeps_rules keeps_mod keeps_enqueue)
qed (simp add: terminal_completion_delivery_def keeps_ret)

lemma keeps_dispatch_queues [keeps_rules]: "keeps cq_ok (dispatch_completion_deliveries env ds)"
  unfolding dispatch_completion_deliveries_def
  by (auto intro!: keeps_rules keeps_frame_queues keeps_push_deliveries cq_ok_blind simp: prune_event_registrations_def Let_def)

lemma keeps_finalize_queues [keeps_rules]: "keeps cq_ok (finalize_capacity_hold env q rid u r c)"
  unfolding finalize_capacity_hold_def by (intro keeps_rules cq_world)

lemma keeps_reconcile_hold_queues [keeps_rules]: "keeps cq_ok (reconcile_task_hold env r c)"
  unfolding reconcile_task_hold_def by (intro keeps_rules keeps_frame_queues) simp_all

lemma keeps_settle_queues [keeps_rules]:
  assumes "\<And>s. completion_queues (note s) = completion_queues s" "\<And>i. keeps cq_ok (mark i)"
  shows "keeps cq_ok (settle_task env cid r mark final note)"
  unfolding settle_task_def by (intro keeps_rules keeps_frame_queues keeps_end_scheduler cq_ok_blind assms) (simp add: assms)

lemma keeps_complete_queues [keeps_rules]: "keeps cq_ok (complete_scheduled_task env cid result)"
  unfolding complete_scheduled_task_def by (intro keeps_rules cq_world) simp

lemma keeps_fail_locked_queues [keeps_rules]: "keeps cq_ok (fail_scheduled_task_locked env cid err reason deliver)"
  unfolding fail_scheduled_task_locked_def
  by (intro keeps_rules cq_world keeps_status cq_ok_blind) (auto split: option.splits)

lemma keeps_fail_queues [keeps_rules]: "keeps cq_ok (fail_scheduled_task env cid err reason publish)"
  unfolding fail_scheduled_task_def by (intro keeps_rules)

lemma keeps_register_queues [keeps_rules]: "keeps cq_ok (register_circuit env cid ctx payload)"
  unfolding register_circuit_def canonicalize_reservation_metadata_def
proof (intro keeps_rules keeps_mod keeps_identifiers_blind keeps_metadata_for_id cq_blind cq_ok_blind cq_ok_enter)
  show "keeps cq_ok allocate_qtask_id" by (rule keepsI) (simp add: allocate_qtask_id_def)
qed

lemma keeps_record_usage_queues [keeps_rules]: "keeps cq_ok (record_usage_event q e)"
  unfolding record_usage_event_def by (intro keeps_rules keeps_frame_queues) simp

lemma keeps_authorize_queues [keeps_rules]: "keeps cq_ok (authorize_capacity_hold env cid)"
  unfolding authorize_capacity_hold_def authorize_locked_def Let_def
  by (intro keeps_rules keeps_frame_queues cq_world keeps_estimated_usage cq_blind) simp_all

lemma keeps_submit_queues [keeps_rules]: "keeps cq_ok (submit_qtask_to_scheduler env cid)"
  unfolding submit_qtask_to_scheduler_def submit_attempt_def submit_finish_def
  by (auto intro!: keeps_rules keeps_frame_queues cq_world keeps_task_desc cq_blind split: sum.splits)

lemma scan_queues: "completion_queues (snd (scan_selected me qs busy s)) = completion_queues s"
  by (induction me qs busy s rule: scan_selected.induct) (auto split: option.splits)

lemma keeps_select_queues [keeps_rules]: "keeps cq_ok (select_qtask_for_dispatch env me)"
proof -
  have "keeps cq_ok (selected_runtime me)"
  proof (rule keepsI)
    fix s assume "cq_ok s"
    then show "cq_ok (snd (selected_runtime me s))"
      using scan_queues [of me "sort (selected_qtask_ids s)" False s]
      by (auto simp: selected_runtime_def intro: cq_ok_frame split: prod.splits)
  qed
  then show ?thesis
    unfolding select_qtask_for_dispatch_def select_scheduler_task_def
    by (auto intro!: keeps_rules keeps_frame_queues keeps_can_select cq_world split: exc.splits)
qed

lemma keeps_start_queues [keeps_rules]: "keeps cq_ok (start_provider_submission env cid handle)"
  unfolding start_provider_submission_def by (intro keeps_rules keeps_frame_queues cq_world) simp_all

lemma keeps_cancel_queues [keeps_rules]: "keeps cq_ok (cancel_task env cid q reason rid req)"
proof -
  have "keeps cq_ok (cancel_provider_for_task env r)" for r
    unfolding cancel_provider_for_task_def
    by (auto intro!: keeps_rules keeps_fault keeps_canceller cq_blind cq_ok_blind split: sum.splits)
  then show ?thesis
    unfolding cancel_task_def cancel_task_locked_def finish_cancel_def Let_def
    by (intro keeps_rules keeps_frame_queues cq_world keeps_status cq_ok_blind) simp_all
qed

lemma keeps_cleanup_queues [keeps_rules]: "keeps cq_ok (cleanup_task q)" "keeps cq_ok (cleanup_circuit cid)"
  unfolding cleanup_circuit_def cleanup_task_def by (intro keeps_rules keeps_frame_queues; simp)+

lemma keeps_publish_queues [keeps_rules]: "keeps cq_ok (publish_completion env completion evtype from_event)"
proof -
  have "keeps cq_ok (modM (\<lambda>s. if has_key (result_state s) q then store_result q v s else s))" for q v
    by (rule keeps_frame_queues) simp
  then show ?thesis
    unfolding publish_completion_def
    by (intro keeps_rules cq_world keeps_record_then) (auto intro!: keeps_rules keeps_mod keeps_enqueue simp: Let_def)
qed

lemma keeps_close_delivery_queues [keeps_rules]: "keeps cq_ok (close_delivery env rid q)"
  unfolding close_delivery_def by (intro keeps_rules keeps_status cq_ok_blind)

lemma keeps_cancel_runtime_queues [keeps_rules]: "keeps cq_ok (cancel_runtime_for_close env rid r)"
  by (rule keeps_cancel_runtime) (auto intro: cq_ok_frame cq_blind)

lemma keeps_close_tasks_queues [keeps_rules]: "keeps cq_ok (close_tasks_of env rid deliver)"
  unfolding close_tasks_of_def remove_pending_for_reservation_def remove_pending_task_def
    reconcile_holds_for_reservation_def reconcile_closed_hold_def settle_closed_hold_def
  by (intro keeps_rules keeps_mod) (simp_all add: cq_blind cq_ok_frame)

lemma keeps_close_queues [keeps_rules]: "keeps cq_ok (close_reservation env rid kind code now deliver)"
proof -
  have "cq_ok (remove_provider_credential r (s\<lparr>reservation_metadata_by_id := m\<rparr>)) = cq_ok s" for r s m
    by (simp add: cq_ok_def)
  then show ?thesis
    unfolding close_reservation_def close_expired_reservations_def ask_admission_to_close_def finish_expired_def
    by (auto intro!: keeps_rules keeps_mod cq_world keeps_expired_ids cq_ok_blind
        simp: cq_blind Let_def split: close_kind.splits option.splits)
qed

lemma keeps_drain_queues [keeps_rules]: "keeps cq_ok (drain_provider_credential_cleanup env)"
  by (rule keeps_drain) (rule cq_blind)

lemma keeps_close_admission_queues [keeps_rules]: "keeps cq_ok (close_admission env kind rid code)"
  unfolding close_admission_def by (intro keeps_rules keeps_frame_queues) simp

lemma keeps_clear_credentials_queues [keeps_rules]: "keeps cq_ok (clear_provider_credentials env)"
  unfolding clear_provider_credentials_def by (intro keeps_rules keeps_frame_queues) simp

lemma keeps_retry_queues [keeps_rules]: "keeps cq_ok (retry_pending_capacity env rid)"
proof -
  have "keeps cq_ok (require_pending_capacity_reservation_valid env q p r)" for q p r
    unfolding require_pending_capacity_reservation_valid_def require_reservation_active_def
      require_reservation_not_expired_def
    by (intro keeps_rules cq_world)
  moreover have "completion_queues (if b s then s else set_runtime_state q st s) = completion_queues s" for b q st s by simp
  ultimately have "keeps cq_ok (retry_pending_task env rid x)" for x
    unfolding retry_pending_task_def pending_rejection_def reject_pending_capacity_def retry_usage_def drop_rejected_def
    by (auto intro!: keeps_rules keeps_frame_queues cq_world split: exc.splits)
  then show ?thesis unfolding retry_pending_capacity_def by (intro keeps_rules)
qed

lemma keeps_read_queues [keeps_rules]:
  "keeps cq_ok (peek_completion env rid cid q op)" "keeps cq_ok (read_completion env rid cid q op)"
  "keeps cq_ok (purge_completion_queues env force)"
  unfolding peek_completion_def read_completion_def purge_completion_queues_def by (intro keeps_rules cq_world)+

lemma keeps_read_tasks [keeps_rules]:
  "keeps tasks_ok (peek_completion env rid cid q op)" "keeps tasks_ok (read_completion env rid cid q op)"
  "keeps tasks_ok (purge_completion_queues env force)"
proof -
  have "keeps tasks_ok (finish_read env r rec op)" for r rec op
    unfolding finish_read_def
    by (auto intro!: keeps_rules keeps_mod tasks_world keeps_on_queue_tasks simp: Let_def split: pyval.splits)
  then have "keeps tasks_ok (poll_completion env r cid q consume op)" for r cid q consume op
    unfolding poll_completion_def completion_queue_for_poll_def completion_not_ready_response_def consume_completion_def
    by (auto intro!: keeps_rules keeps_mod tasks_world keeps_on_queue_tasks simp: Let_def)
  then show "keeps tasks_ok (peek_completion env rid cid q op)" "keeps tasks_ok (read_completion env rid cid q op)"
    "keeps tasks_ok (purge_completion_queues env force)"
    unfolding peek_completion_def read_completion_def purge_completion_queues_def
    by (auto intro!: keeps_rules tasks_world split: option.splits)
qed

section \<open>The intake of reservations\<close>

lemma keeps_not_expired_queues [keeps_rules]: "keeps cq_ok (require_reservation_not_expired env r)"
  unfolding require_reservation_not_expired_def by (intro keeps_rules cq_world)

lemma keeps_active [keeps_rules]: "keeps I (require_reservation_active r op)"
  unfolding require_reservation_active_def by (intro keeps_rules)

lemma keeps_intake:
  assumes I: "intake_blind I" and expiry: "\<And>r. keeps I (require_reservation_not_expired env r)"
  shows "keeps I (evaluate_reservation env request token)" "keeps I (renew_admission env i d)"
    "keeps I (get_admission_reservation env i)" "keeps I (list_admission_reservations env f)"
    "keeps I (validate_reservation_for_context env ctx op)" "keeps I (provider_credential_for_reservation env i op)"
proof -
  note rules = keeps_rules keeps_admission_request keeps_filters keeps_match_context keeps_fallback keeps_drain
    keeps_time I intake_blindD [OF I] expiry
  show "keeps I (evaluate_reservation env request token)" unfolding evaluate_reservation_def by (intro rules)
  show "keeps I (renew_admission env i d)" unfolding renew_admission_def by (intro rules)
  show "keeps I (get_admission_reservation env i)" unfolding get_admission_reservation_def by (intro rules)
  show "keeps I (list_admission_reservations env f)" unfolding list_admission_reservations_def by (intro rules)
  show "keeps I (validate_reservation_for_context env ctx op)"
    unfolding validate_reservation_for_context_def by (intro rules)
  show "keeps I (provider_credential_for_reservation env i op)"
    unfolding provider_credential_for_reservation_def by (intro rules)
qed

lemma keeps_attach:
  assumes I: "intake_blind I" and expiry: "\<And>r. keeps I (require_reservation_not_expired env r)"
  shows "keeps I (attach_provider_credential env cid)"
  unfolding attach_provider_credential_def
  by (auto intro!: keeps_rules keeps_mod keeps_intake [OF I expiry] simp: intake_blindD [OF I] Let_def split: prod.splits)

lemma keeps_expiry_tasks [keeps_rules]: "keeps tasks_ok (require_reservation_not_expired env r)"
  by (rule shapedI) (rule keeps_not_expired_shaped)

lemmas intake_queues = keeps_intake [OF tables_intake_blind(2) keeps_not_expired_queues]
  keeps_attach [OF tables_intake_blind(2) keeps_not_expired_queues]
lemmas intake_tasks = keeps_intake [OF tables_intake_blind(1) keeps_expiry_tasks]
  keeps_attach [OF tables_intake_blind(1) keeps_expiry_tasks]

lemma keeps_reserve_tables [keeps_rules]:
  "keeps cq_ok (reserve_admission env request token)" "keeps tasks_ok (reserve_admission env request token)"
proof -
  show "keeps cq_ok (reserve_admission env request token)"
    by (rule keeps_reserve [OF tables_intake_blind(2)]) (simp, simp add: cq_ok_def)
  show "keeps tasks_ok (reserve_admission env request token)"
    by (rule keeps_reserve [OF tables_intake_blind(1)]) (simp_all add: tasks_ok_def ensure_completion_queue_def split: option.split)
qed

section \<open>Requests\<close>

text \<open>
  The calls that change the controller. A caller that holds a circuit object may also write its
  information and its times, which is \<open>Touch\<close>.
\<close>

datatype request =
    Register string request_context pydict
  | Touch string circuit
  | Authorize string
  | Submit string
  | Select int
  | Release_claim int
  | Start string "string option"
  | Bind int string
  | Set_state int task_state
  | Time_out int pyval pyval
  | Complete string pyval
  | Fail string "(string \<times> string) option" pyval bool
  | Cancel_task pyval pyval pyval pyval bool
  | Cleanup int
  | Cleanup_circuit string
  | Publish pyval "string option" bool
  | Peek pyval pyval pyval string
  | Read pyval pyval pyval string
  | Purge "int option"
  | Add_endpoint string string string pyval pydict
  | Remove_endpoint "string option"
  | Close close_kind pyval pyval
  | Retry "int option"
  | Clear_credentials
  | Evaluate "pydict option" bool
  | Reserve "pydict option" bool
  | Renew pyval pydict
  | Get_reservation pyval
  | List_reservations "pydict option"
  | Validate request_context string
  | Attach_credential string
  | Configure_profile "pydict option"
  | Set_admission_policy pyval pyval
  | Configure_scheduler pyval
  | Pause pyval
  | Resume
  | Drain pyval pyval
  | Limit_dispatch "pydict option"
  | Begin_shutdown pyval pyval pyval pyval
  | Set_service_state string
  | Reconcile "int option"
  | Record_reconciliation pyval pydict pyval
  | Directory_event pyval pydict pydict pyval pydict
  | Bind_service pyval bool bool

fun handle :: "qpm_env \<Rightarrow> request \<Rightarrow> unit ctl" where
  "handle env (Register cid ctx payload) = seqM (register_circuit env cid ctx payload) (retM ())"
| "handle env (Touch cid c) = modM (\<lambda>s. s\<lparr>circuit_heap := dset cid c (circuit_heap s), circuits := List.insert cid (circuits s)\<rparr>)"
| "handle env (Authorize cid) = seqM (authorize_capacity_hold env cid) (retM ())"
| "handle env (Submit cid) = seqM (submit_qtask_to_scheduler env cid) (retM ())"
| "handle env (Select me) = seqM (select_qtask_for_dispatch env me) (retM ())"
| "handle env (Release_claim q) = modM (release_dispatch_claim q)"
| "handle env (Start cid h) = seqM (start_provider_submission env cid h) (retM ())"
| "handle env (Bind q h) = seqM (bind_provider_handle q h) (retM ())"
| "handle env (Set_state q st) = seqM (set_task_state q st) (retM ())"
| "handle env (Time_out q reason message) = seqM (record_timeout env q reason message) (retM ())"
| "handle env (Complete cid result) = seqM (complete_scheduled_task env cid result) (retM ())"
| "handle env (Fail cid error reason publish) = seqM (fail_scheduled_task env cid error reason publish) (retM ())"
| "handle env (Cancel_task cid q reason rid req) = seqM (cancel_task env cid q reason rid req) (retM ())"
| "handle env (Cleanup q) = seqM (cleanup_task q) (retM ())"
| "handle env (Cleanup_circuit cid) = seqM (cleanup_circuit cid) (retM ())"
| "handle env (Publish completion evtype from_event) = seqM (publish_completion env completion evtype from_event) (retM ())"
| "handle env (Peek rid cid q op) = seqM (peek_completion env rid cid q op) (retM ())"
| "handle env (Read rid cid q op) = seqM (read_completion env rid cid q op) (retM ())"
| "handle env (Purge now) = seqM (purge_completion_queues env now) (retM ())"
| "handle env (Add_endpoint uuid cls evtype rid filters) = seqM (register_event_endpoint uuid cls evtype rid filters) (retM ())"
| "handle env (Remove_endpoint rid) = seqM (unregister_event_endpoint rid) (retM ())"
| "handle env (Close kind rid code) = seqM (close_admission env kind rid code) (retM ())"
| "handle env (Retry rid) = seqM (retry_pending_capacity env rid) (retM ())"
| "handle env Clear_credentials = seqM (clear_provider_credentials env) (retM ())"
| "handle env (Evaluate d token) = seqM (evaluate_reservation env d token) (retM ())"
| "handle env (Reserve d token) = seqM (reserve_admission env d token) (retM ())"
| "handle env (Renew rid d) = seqM (renew_admission env rid d) (retM ())"
| "handle env (Get_reservation rid) = seqM (get_admission_reservation env rid) (retM ())"
| "handle env (List_reservations filters) = seqM (list_admission_reservations env filters) (retM ())"
| "handle env (Validate ctx operation) = seqM (validate_reservation_for_context env ctx operation) (retM ())"
| "handle env (Attach_credential cid) = attach_provider_credential env cid"
| "handle env (Configure_profile profile) = seqM (configure_device_profile env profile) (retM ())"
| "handle env (Set_admission_policy conf wanted) = seqM (set_admission_policy env conf wanted) (retM ())"
| "handle env (Configure_scheduler policy) = seqM (configure_scheduler_policy env policy) (retM ())"
| "handle env (Pause reason) = seqM (pause_scheduler env reason) (retM ())"
| "handle env Resume = seqM (resume_scheduler env) (retM ())"
| "handle env (Drain mode timeout_s) = seqM (drain_scheduler env mode timeout_s) (retM ())"
| "handle env (Limit_dispatch limits) = seqM (configure_dispatch_limits env limits) (retM ())"
| "handle env (Begin_shutdown mode timeout_s reason token) = seqM (begin_service_shutdown env mode timeout_s reason token) (retM ())"
| "handle env (Set_service_state state) = set_service_state env state"
| "handle env (Reconcile now) = seqM (reconcile_runtime_state env now) (retM ())"
| "handle env (Record_reconciliation reason summary token) = seqM (record_control_reconciliation env reason summary token) (retM ())"
| "handle env (Directory_event event service_record peer reason details) =
     seqM (record_defw_directory_event env event service_record peer reason details) (retM ())"
| "handle env (Bind_service ppn cancels evicts) = seqM (bind_controller env ppn)
     (modM (\<lambda>s. set_provider_credential_evictor evicts (set_provider_canceller cancels s)))"

text \<open>A request that raises leaves the state it had reached.\<close>

definition serve :: "qpm_env \<Rightarrow> request \<Rightarrow> controller \<Rightarrow> controller" where
  "serve env r s = snd (handle env r s)"

definition system_ok :: "controller \<Rightarrow> bool" where
  "system_ok s \<longleftrightarrow> tasks_ok s \<and> cq_ok s"

lemma keeps_endpoints [keeps_rules]:
  assumes "\<And>s e. I (s\<lparr>event_endpoints := e\<rparr>) = I s"
  shows "keeps I (register_event_endpoint uuid cls evtype i filters)" "keeps I (unregister_event_endpoint rid)"
proof -
  show "keeps I (register_event_endpoint uuid cls evtype i filters)"
    unfolding register_event_endpoint_def by (intro keeps_rules keeps_mod) (simp add: assms)
  have "keeps I (\<lambda>s. case prune_event_registrations P s of (removed, t) \<Rightarrow> (Inr removed, t))" for P
    by (rule keepsI) (simp add: prune_event_registrations_def Let_def assms)
  then show "keeps I (unregister_event_endpoint rid)"
    unfolding unregister_event_endpoint_def by (intro keeps_rules)
qed

lemma keeps_small_queues [keeps_rules]:
  "keeps cq_ok (bind_provider_handle q h)" "keeps cq_ok (set_task_state q st)" "keeps cq_ok (record_timeout env q m n)"
  unfolding bind_provider_handle_def set_task_state_def record_timeout_def
  by (intro keeps_rules keeps_frame_queues cq_world; simp)+

lemma tables_config_blind: "config_blind tasks_ok" "config_blind cq_ok"
  by (simp_all add: config_blind_def ledger_blind_def world_blind_def) (simp_all add: tasks_ok_def cq_ok_def)

lemmas config_tables = keeps_controls keeps_profile keeps_set_policy keeps_directory_event
lemmas config_tasks = config_tables [OF tables_config_blind(1)] keeps_reconcile [OF tasks_ok_reconcile]

lemma queues_ok_reconcile: "reconcile_safe cq_ok"
  unfolding reconcile_safe_def
  by (auto simp: fail_held_task_def cq_blind intro: keeps_cleanup_queues cq_ok_frame) (simp add: cq_ok_def)+

lemmas config_queues = config_tables [OF tables_config_blind(2)] keeps_reconcile [OF queues_ok_reconcile]

lemma keeps_handle_queues: "keeps cq_ok (handle env r)"
  by (cases r) (simp_all, (intro keeps_rules intake_queues config_queues keeps_frame_queues;
      simp add: cq_ok_def set_provider_credential_evictor_def set_provider_canceller_def)+)

lemma keeps_handle_tasks: "keeps tasks_ok (handle env r)"
proof (cases r)
  case (Touch cid c)
  then show ?thesis by (auto intro!: keeps_mod simp: tasks_ok_def)
next
  case (Release_claim q)
  then show ?thesis by (auto intro!: keeps_mod)
next
  case (Bind_service ppn cancels evicts)
  then show ?thesis
    by (auto intro!: keeps_rules config_tasks keeps_mod simp: set_provider_credential_evictor_def set_provider_canceller_def tasks_ok_def)
qed (simp_all, (intro keeps_rules intake_tasks config_tasks; simp add: tasks_ok_def)+)

lemma serve_ok: "system_ok s \<Longrightarrow> system_ok (serve env r s)"
  unfolding system_ok_def serve_def using keepsD [OF keeps_handle_queues] keepsD [OF keeps_handle_tasks] by blast

lemma system_ok_new: "system_ok (new_controller conf retention sequence)"
  by (simp add: system_ok_def tasks_ok_new) (simp add: cq_ok_def new_controller_def)

interpretation service: started_machine "serve env" system_ok "new_controller conf retention sequence"
  for env conf retention sequence
  by unfold_locales (auto intro: serve_ok system_ok_new)

text \<open>Task identifiers are issued once.\<close>

interpretation qtask_ids: id_source allocate_qtask_id "\<lambda>s. {1..<qtask_id_next s}" "\<lambda>s. 1 \<le> qtask_id_next s"
  by unfold_locales (auto simp: allocate_qtask_id_def)

end
