(* ===== verification/QPM_Lifecycle.thy ===== *)
theory QPM_Lifecycle
  imports QPM_System
begin

text \<open>
  What the operations on one task do: registering makes it reachable by both keys and disturbs no
  other task; settling its hold happens once; ending it leaves it at rest, and a task that has
  ended is left alone; cleaning up leaves no trace of it in any table.
\<close>

section \<open>Registration\<close>

text \<open>What a registration must answer.\<close>

definition registered :: "string \<Rightarrow> request_context \<Rightarrow> runtime_task \<times> pydict \<Rightarrow> controller \<Rightarrow> bool" where
  "registered cid ctx x s \<longleftrightarrow>
     task_for_cid cid s = Some (fst x) \<and> task_for_qtask_id (rt_qtask_id (fst x)) s = Some (fst x) \<and>
     rt_cid (fst x) = cid \<and> rt_reservation_id (fst x) = rc_reservation_id ctx \<and>
     rt_state (fst x) = QPM_TASK_CREATED \<and> pget (snd x) ''qtask_id'' = PInt (rt_qtask_id (fst x))"

lemma entered_lookup:
  "task_for_cid (rt_cid r) (enter_task r s) = Some r" "task_for_qtask_id (rt_qtask_id r) (enter_task r s) = Some r"
  by (simp_all add: enter_task_def task_for_cid_def task_for_qtask_id_def ensure_completion_queue_def Let_def
      split: option.splits)

lemma entered_other: "q \<noteq> rt_qtask_id r \<Longrightarrow> task_for_qtask_id q (enter_task r s) = task_for_qtask_id q s"
  by (simp add: enter_task_def task_for_qtask_id_def ensure_completion_queue_def Let_def split: option.splits)

lemma register_then_lookup:
  "valid P (register_circuit env cid ctx payload) (registered cid ctx) (\<lambda>_ _. True)"
proof -
  have last_step: "valid (\<lambda>_. True) (seqM (modM (enter_task r)) (retM (r, dset ''qtask_id'' (PInt (rt_qtask_id r)) payload)))
      (registered cid ctx) (\<lambda>_ _. True)" if "r = runtime_for cid q ctx m ids" for r q m ids
    using that entered_lookup [of r]
    by (auto simp: valid_def seqM_mod retM_def registered_def runtime_for_def new_runtime_def)
  show ?thesis
    unfolding register_circuit_def Let_def
    by (rule valid_bind [where R = "\<lambda>_ _. True"], simp add: valid_def allocate_qtask_id_def,
        rule valid_bind [where R = "\<lambda>_ _. True"], simp add: valid_def split: prod.splits sum.splits,
        rule valid_bind [where R = "\<lambda>_ _. True"], simp add: valid_def split: prod.splits sum.splits,
        use last_step in force)
qed

text \<open>A task that was there before stays as it was.\<close>

definition other_task :: "int \<Rightarrow> int \<Rightarrow> runtime_task \<Rightarrow> controller \<Rightarrow> bool" where
  "other_task new q r s \<longleftrightarrow> q \<noteq> new \<and> task_for_qtask_id q s = Some r"

lemma other_task_blind: "ledger_blind (other_task new q r)"
  by (simp add: ledger_blind_def world_blind_def other_task_def task_for_qtask_id_def)

lemma known_id_range:
  assumes "tasks_ok s" "task_for_qtask_id q s = Some r" shows "1 \<le> q \<and> q < qtask_id_next s"
proof -
  from assms(2) have "table_shape (runtime_by_qtask_id s) q = Some (shape_of r)" by (simp add: task_for_qtask_id_def)
  with assms(1) show ?thesis by (auto simp: tasks_ok_def tasks_wf_def Let_def shape_of_def)
qed

lemma register_keeps_others:
  "valid (\<lambda>s. tasks_ok s \<and> task_for_qtask_id q s = Some r) (register_circuit env cid ctx payload)
     (\<lambda>_ s. task_for_qtask_id q s = Some r) (\<lambda>_ _. True)"
proof -
  have fresh: "valid (\<lambda>s. tasks_ok s \<and> task_for_qtask_id q s = Some r) allocate_qtask_id (\<lambda>new. other_task new q r) (\<lambda>_ _. True)"
    using known_id_range by (fastforce simp: valid_def allocate_qtask_id_def other_task_def task_for_qtask_id_def)
  note blind = keeps_metadata_for_id [OF ledger_blindD [OF other_task_blind]] keeps_identifiers_blind [OF other_task_blind]
  show ?thesis
    unfolding register_circuit_def Let_def
    apply (rule valid_bind [OF fresh], rule valid_bind [OF valid_keeps_any [OF blind(1)]])
    apply (rule valid_bind)
     apply (rule valid_keeps_any)
     apply (simp only: canonicalize_reservation_metadata_def)
     apply (rule blind(2))
    apply (auto simp: valid_def seqM_mod retM_def other_task_def entered_other)
    done
qed

section \<open>Clean-up\<close>

text \<open>No table mentions the task.\<close>

definition no_trace :: "int \<Rightarrow> controller \<Rightarrow> bool" where
  "no_trace q s \<longleftrightarrow>
     task_for_qtask_id q s = None \<and> (\<forall>cid. map_of (runtime_by_cid s) cid \<noteq> Some q) \<and>
     (\<forall>rid. q \<notin> set (ids_at (qtask_ids_by_reservation s) rid)) \<and>
     (\<forall>st. st \<noteq> PNone \<longrightarrow> map_of (qtask_id_by_scheduler_task_id s) st \<noteq> Some q) \<and>
     map_of (capacity_holds s) q = None \<and> map_of (pending_capacity s) q = None \<and>
     q \<notin> set (dkeys (usage_events_by_qtask_id s)) \<and> q \<notin> set (dkeys (timeout_state s)) \<and>
     q \<notin> set (selected_qtask_ids s) \<and> q \<notin> set (dkeys (dispatching_qtask_ids s)) \<and> q \<notin> set (provider_inflight s)"

lemma consistent_no_trace:
  assumes ok: "tasks_ok s" and gone: "task_for_qtask_id q s = None"
  shows "no_trace q s"
proof -
  define sh where "sh = table_shape (runtime_by_qtask_id s)"
  have none: "sh q = None" using gone by (simp add: sh_def shape_None task_for_qtask_id_def)
  from ok have wf: "cids_wf sh (runtime_by_cid s)" "reservations_wf sh (qtask_ids_by_reservation s)"
    "scheduler_wf sh (qtask_id_by_scheduler_task_id s)" "holds_wf sh (capacity_holds s)" "pending_wf sh (pending_capacity s)"
    "owned sh (dkeys (usage_events_by_qtask_id s))" "owned sh (dkeys (timeout_state s))" "owned sh (selected_qtask_ids s)"
    "owned sh (dkeys (dispatching_qtask_ids s))" "owned sh (provider_inflight s)"
    by (simp_all add: tasks_ok_def sh_def Let_def)
  have "map_of (capacity_holds s) q = None"
    using wf(4) none by (cases "map_of (capacity_holds s) q") (force simp: holds_wf_def)+
  moreover have "map_of (pending_capacity s) q = None"
    using wf(5) none by (cases "map_of (pending_capacity s) q") (force simp: pending_wf_def)+
  moreover have "\<forall>cid. map_of (runtime_by_cid s) cid \<noteq> Some q"
    "\<forall>st. st \<noteq> PNone \<longrightarrow> map_of (qtask_id_by_scheduler_task_id s) st \<noteq> Some q"
    using wf(1,3) none by (fastforce simp: cids_wf_def scheduler_wf_def)+
  moreover have "\<forall>rid. q \<notin> set (ids_at (qtask_ids_by_reservation s) rid)"
    using reservations_wfD(2) [OF wf(2)] none by (auto simp: in_reservation_def)
  ultimately show ?thesis using wf(6-10) none gone by (auto simp: no_trace_def owned_def)
qed

lemma forget_gone: "task_for_qtask_id q (forget_task q r s) = None"
  by (simp add: forget_task_def task_for_qtask_id_def retain_terminal_task_def clear_dispatch_def pop_usage_event_def
      pop_hold_def Let_def)

lemma cleanup_leaves_no_trace:
  "valid tasks_ok (cleanup_task q) (\<lambda>_ s. tasks_ok s \<and> no_trace q s) (\<lambda>_ _. False)"
proof (rule validI)
  fix s assume ok: "tasks_ok s"
  show "case cleanup_task q s of (Inl e, t) \<Rightarrow> False | (Inr x, t) \<Rightarrow> tasks_ok t \<and> no_trace q t"
  proof (cases "task_for_qtask_id q s")
    case None
    then show ?thesis using ok consistent_no_trace by (simp add: cleanup_task_def bindM_get retM_def)
  next
    case (Some r)
    then have "tasks_ok (forget_task q r s)" using ok tasks_ok_forget by (simp add: task_for_qtask_id_def)
    then show ?thesis using Some consistent_no_trace forget_gone
      by (simp add: cleanup_task_def bindM_get seqM_mod retM_def)
  qed
qed

section \<open>Settling a hold\<close>

definition no_hold :: "int \<Rightarrow> controller \<Rightarrow> bool" where
  "no_hold q s \<longleftrightarrow> map_of (capacity_holds s) q = None"

lemma no_hold_blind: "ledger_blind (no_hold q)"
  by (simp add: ledger_blind_def world_blind_def no_hold_def)

lemma keeps_finalize: "world_blind I \<Longrightarrow> keeps I (finalize_capacity_hold env q rid usage r c)"
  unfolding finalize_capacity_hold_def Let_def by (intro keeps_rules) simp_all

lemma reconcile_removes_hold:
  "valid (\<lambda>_. True) (reconcile_task_hold env r c) (\<lambda>_. no_hold (rt_qtask_id r)) (\<lambda>_. no_hold (rt_qtask_id r))"
  unfolding reconcile_task_hold_def
proof (rule valid_bind_get, rule valid_case_option)
  fix s0 :: controller assume "map_of (capacity_holds s0) (rt_qtask_id r) = None"
  then show "valid (\<lambda>s. s = s0) (retM ()) (\<lambda>_. no_hold (rt_qtask_id r)) (\<lambda>_. no_hold (rt_qtask_id r))"
    by (intro valid_ret) (simp add: no_hold_def)
next
  fix s0 :: controller and h
  show "valid (\<lambda>s. s = s0) (seqM (modM (pop_hold (rt_qtask_id r)))
      (seqM (finalize_capacity_hold env (rt_qtask_id r) (ch_reservation_id h) (ch_usage h) (Some r) c)
        (modM (pop_usage_event (rt_qtask_id r))))) (\<lambda>_. no_hold (rt_qtask_id r)) (\<lambda>_. no_hold (rt_qtask_id r))"
    by (intro valid_mod_then keeps_seq keeps_finalize ledger_blindD no_hold_blind keeps_mod)
      (simp_all add: no_hold_def pop_hold_def pop_usage_event_def)
qed

lemma reconcile_without_hold: "no_hold (rt_qtask_id r) s \<Longrightarrow> reconcile_task_hold env r c s = (Inr (), s)"
  by (simp add: reconcile_task_hold_def no_hold_def bindM_get retM_def)

section \<open>Ending a task\<close>

text \<open>The task is in state \<open>st\<close>, holds no capacity and is nowhere on its way to the provider.\<close>

definition at_rest :: "int \<Rightarrow> task_state \<Rightarrow> controller \<Rightarrow> bool" where
  "at_rest q st s \<longleftrightarrow>
     map_option rt_state (task_for_qtask_id q s) = Some st \<and> no_hold q s \<and> q \<notin> set (selected_qtask_ids s) \<and>
     q \<notin> set (provider_inflight s) \<and> map_of (dispatching_qtask_ids s) q = None \<and> map_of (timeout_state s) q = None"

definition present :: "int \<Rightarrow> controller \<Rightarrow> bool" where
  "present q s \<longleftrightarrow> task_for_qtask_id q s \<noteq> None"

lemma present_blind: "ledger_blind (present q)"
  by (simp add: ledger_blind_def world_blind_def present_def task_for_qtask_id_def)

lemma keeps_reconcile_present: "keeps (present q) (reconcile_task_hold env r c)"
  unfolding reconcile_task_hold_def
  by (intro keeps_rules keeps_mod keeps_finalize ledger_blindD present_blind)
    (simp_all add: present_def task_for_qtask_id_def pop_hold_def pop_usage_event_def)

lemma ended_tables:
  assumes "present q s" "no_hold q s"
  shows "at_rest q st (set_runtime_state q st (clear_dispatch q s))"
  using assms
  by (auto simp: at_rest_def present_def no_hold_def set_runtime_state_def upd_runtime_def clear_dispatch_def
      task_for_qtask_id_def split: option.splits)

lemma settle_rests:
  assumes noted: "\<And>s. at_rest (rt_qtask_id r) final s \<Longrightarrow> at_rest (rt_qtask_id r) final (upd s)"
    and mark: "\<And>i I. world_blind I \<Longrightarrow> keeps I (mark i)"
  shows "valid (present (rt_qtask_id r)) (settle_task env cid r mark final upd)
     (\<lambda>_. at_rest (rt_qtask_id r) final) (\<lambda>_ _. True)"
proof -
  let ?J = "\<lambda>s. present (rt_qtask_id r) s \<and> no_hold (rt_qtask_id r) s"
  have J: "world_blind ?J"
    using ledger_blindD [OF present_blind] ledger_blindD [OF no_hold_blind] by (simp add: world_blind_def)
  have hold: "valid (present (rt_qtask_id r)) (reconcile_task_hold env r c) (\<lambda>_. ?J) (\<lambda>_ _. True)" for c
    using reconcile_removes_hold [of env r c] keeps_valid [OF keeps_reconcile_present [of "rt_qtask_id r" env r c]]
    by (auto simp: valid_def split: prod.splits sum.splits)
  have ends: "valid ?J (if rt_scheduler_task_id r \<noteq> PNone
      then end_scheduler_task env (rt_scheduler_task_id r) mark else retM ()) (\<lambda>_. ?J) (\<lambda>_ _. True)"
    by (rule valid_keeps_any) (intro keeps_rules keeps_end_scheduler J mark)
  show ?thesis
    unfolding settle_task_def
    by (rule valid_bind_get, rule valid_seq [OF valid_pre [OF hold]], simp, rule valid_seq [OF ends], rule valid_mod)
      (use noted ended_tables in blast)
qed

lemma keeps_marks:
  assumes "world_blind I"
  shows "keeps I (mark_scheduler_task_completed env i)" "keeps I (mark_scheduler_task_failed env i)"
  using keeps_scheduler [OF assms] by blast+

text \<open>The task a circuit names, before it is ended.\<close>

definition live_task :: "string \<Rightarrow> int \<Rightarrow> controller \<Rightarrow> bool" where
  "live_task cid q s \<longleftrightarrow> info_qtask_id cid s = Inr q \<and> \<not> task_ended (task_for_qtask_id q s)"

lemma circuit_qtask_id_eq: "info_qtask_id cid s = Inr q \<Longrightarrow> circuit_qtask_id cid s = (Inr q, s)"
  by (simp add: circuit_qtask_id_def bindM_get liftM_def retM_def split: sum.splits)

lemma store_result_rests: "at_rest q st s \<Longrightarrow> at_rest q st (store_result q' v s)"
  by (simp add: at_rest_def store_result_def task_for_qtask_id_def no_hold_def)

text \<open>Completing: the task is at rest, and the answer is the task as the table now has it.\<close>

lemma complete_rests:
  "valid (\<lambda>s. tasks_ok s \<and> live_task cid q s) (complete_scheduled_task env cid result)
     (\<lambda>x s. at_rest q QPM_TASK_COMPLETED s \<and> x = task_for_qtask_id q s) (\<lambda>_ _. True)"
proof (rule validI)
  fix s assume s: "tasks_ok s \<and> live_task cid q s"
  then obtain r where r: "info_qtask_id cid s = Inr q" "task_for_qtask_id q s = Some r" "\<not> terminal_state (rt_state r)"
    by (auto simp: live_task_def task_ended_def split: option.splits)
  have key: "rt_qtask_id r = q" using s r(2) task_for_key by (auto simp: task_for_qtask_id_def)
  let ?settle = "settle_task env cid r (mark_scheduler_task_completed env) QPM_TASK_COMPLETED (store_result q result)"
  have "valid (present q) ?settle (\<lambda>_. at_rest q QPM_TASK_COMPLETED) (\<lambda>_ _. True)"
    unfolding key [symmetric] by (rule settle_rests) (rule store_result_rests, assumption, rule keeps_marks(1))
  moreover have "present q s" using r by (simp add: present_def)
  ultimately have end_state: "case ?settle s of (Inl e, t) \<Rightarrow> True | (Inr x, t) \<Rightarrow> at_rest q QPM_TASK_COMPLETED t"
    by (auto simp: valid_def)
  have "complete_scheduled_task env cid result s = seqM ?settle (getM (task_for_qtask_id q)) s"
    using r by (simp add: complete_scheduled_task_def bindM_Inr [OF circuit_qtask_id_eq] bindM_get)
  then show "case complete_scheduled_task env cid result s of (Inl e, t) \<Rightarrow> True
      | (Inr x, t) \<Rightarrow> at_rest q QPM_TASK_COMPLETED t \<and> x = task_for_qtask_id q t"
    using end_state by (auto simp: seqM_def bindM_def getM_def split: prod.splits sum.splits)
qed

text \<open>A task that has ended is left alone by a late completion or failure, and no service hears of it.\<close>

lemma complete_after_end:
  assumes "info_qtask_id cid s = Inr q" "task_for_qtask_id q s = Some r" "terminal_state (rt_state r)"
  shows "complete_scheduled_task env cid result s = (Inr (Some r), s)"
  using assms by (auto simp: complete_scheduled_task_def bindM_Inr [OF circuit_qtask_id_eq] bindM_get retM_def)

lemma fail_after_end:
  assumes "info_qtask_id cid s = Inr q" "task_for_qtask_id q s = Some r" "terminal_state (rt_state r)"
  shows "fail_scheduled_task_locked env cid err reason deliver s = (Inr (Some r, []), s)"
  using assms by (auto simp: fail_scheduled_task_locked_def bindM_Inr [OF circuit_qtask_id_eq] bindM_get retM_def)

lemma dispatch_nothing: "dispatch_completion_deliveries env [] s = (Inr False, s)"
  by (simp add: dispatch_completion_deliveries_def seqM_def) (simp add: retM_def)

lemma fail_task_after_end:
  assumes "info_qtask_id cid s = Inr q" "task_for_qtask_id q s = Some r" "terminal_state (rt_state r)"
  shows "fail_scheduled_task env cid err reason publish s = (Inr (Some r), s)"
  using fail_after_end [OF assms, of env err reason publish] dispatch_nothing [of env s]
  by (simp add: fail_scheduled_task_def bindM_def seqM_def retM_def)

section \<open>A task that is authorized again\<close>

text \<open>
  A task whose usage was delayed waits in \<open>pending_capacity\<close>. When it is authorized again and
  accepted, the entry stays next to the hold.
\<close>

definition is_authorize :: "ext_call \<Rightarrow> bool" where
  "is_authorize c = (case c of AdmAuthorize rid usage \<Rightarrow> True | _ \<Rightarrow> False)"

definition is_consume :: "ext_call \<Rightarrow> bool" where
  "is_consume c = (case c of AdmConsume rid usage \<Rightarrow> True | _ \<Rightarrow> False)"

text \<open>Admission that delays the first request and accepts every later one.\<close>

definition delayed_once :: "ext_call list \<Rightarrow> ext_call \<Rightarrow> exc + ext_value" where
  "delayed_once calls c =
     (case c of
        AdmAuthorize rid usage \<Rightarrow>
          Inr (EVal (PDict [(''status'', PStr (if list_ex is_authorize calls then ''accepted'' else ''delayed''))]))
      | AdmConsume rid usage \<Rightarrow> Inr (EVal (PDict [(''status'', PStr ''accepted'')]))
      | AdmGet rid \<Rightarrow> Inr (EVal (PDict [(''state'', PStr ''active'')]))
      | _ \<Rightarrow> Inr (EVal PNone))"

definition delayed_env :: qpm_env where
  "delayed_env = \<lparr>respond = delayed_once, clock = int, seconds_of = PInt,
     admission_context = Handlers, setter_accepts_options = True, has_config_loader = False,
     default_policy_paths = [], scheduler_context = Handlers, scheduler_state_names = [],
     is_empty_selection_error = (\<lambda>_. False), gunzip = Some, access = (\<lambda>_. empty_access)\<rparr>"

definition delayed_controller :: controller where
  "delayed_controller =
     (new_controller \<lparr>target_id = ''qpu'', credential_mode = ''none'', admission_threading_mode = ''serialized'',
        scheduler_threading_mode = ''serialized'', serialization_mode = ''lock''\<rparr> COMPLETION_RETENTION_DEFAULTS None)
     \<lparr>circuit_heap := [(''c'', \<lparr>c_state = UNDEF, c_cid = ''c'', c_info = [(''qtask_id'', PInt 1)], launch_time = -1,
        creation_time = -1, exec_time = -1, completion_time = -1, resources_consumed_time = -1,
        provider_credential = [], provider_credential_metadata = []\<rparr>)],
      circuits := [''c''], qtask_id_next := 2, runtime_by_cid := [(''c'', 1)],
      runtime_by_qtask_id := [(1, new_runtime ''c'' 1 (Some 7))], qtask_ids_by_reservation := [(7, [1])]\<rparr>"

definition delayed_run :: "pydict list ctl" where
  "delayed_run =
     seqM (tryM (authorize_capacity_hold delayed_env ''c'') (\<lambda>_. retM []))
       (seqM (authorize_capacity_hold delayed_env ''c'') (retry_pending_capacity delayed_env None))"

section \<open>Cancelling\<close>

lemma at_rest_blind: "world_blind (at_rest q st)"
  by (simp add: world_blind_def at_rest_def task_for_qtask_id_def no_hold_def)

lemma at_rest_frame:
  "at_rest q st (s\<lparr>completion_queues := cq, completion_evictions := ev\<rparr>) = at_rest q st s"
  "at_rest q st (s\<lparr>event_endpoints := ep\<rparr>) = at_rest q st s"
  "at_rest q st (ensure_completion_queue rid s) = at_rest q st s"
  by (simp_all add: at_rest_def task_for_qtask_id_def no_hold_def ensure_completion_queue_def split: option.splits)

lemma keeps_on_queue_rest: "keeps (at_rest q st) (on_queue rid f a)"
  by (rule keepsI) (auto simp: on_queue_def at_rest_frame split: option.splits prod.splits)

lemma keeps_delivery_rest: "keeps (at_rest q st) (terminal_completion_delivery env r p)"
  unfolding terminal_completion_delivery_def enqueue_completion_record_def enforce_retention_at_def
  by (intro keeps_rules keeps_mod keeps_time keeps_status keeps_record keeps_on_queue_rest at_rest_blind)
    (simp add: at_rest_frame)

lemma keeps_dispatch_rest: "keeps (at_rest q st) (dispatch_completion_deliveries env ds)"
  unfolding dispatch_completion_deliveries_def
  by (auto intro!: keeps_rules keeps_mod keeps_push_deliveries at_rest_blind
      simp: prune_event_registrations_def Let_def at_rest_frame)

lemma finish_cancel_rests:
  "valid (present (rt_qtask_id r)) (finish_cancel env r cancel reason)
     (\<lambda>_. at_rest (rt_qtask_id r) QPM_TASK_CANCELLED) (\<lambda>_ _. True)"
proof -
  let ?q = "rt_qtask_id r"
  let ?J = "\<lambda>s. present ?q s \<and> no_hold ?q s"
  have J: "world_blind ?J"
    using ledger_blindD [OF present_blind] ledger_blindD [OF no_hold_blind] by (simp add: world_blind_def)
  have popped: "valid (present ?q) (modM (\<lambda>s. s\<lparr>pending_capacity := dpop ?q (pending_capacity s)\<rparr>)) (\<lambda>_. present ?q) (\<lambda>_ _. True)"
    by (rule valid_mod) (simp add: present_def task_for_qtask_id_def)
  have hold: "valid (present ?q) (reconcile_task_hold env r c) (\<lambda>_. ?J) (\<lambda>_ _. True)" for c
    using reconcile_removes_hold [of env r c] keeps_valid [OF keeps_reconcile_present [of ?q env r c]]
    by (auto simp: valid_def split: prod.splits sum.splits)
  have marked: "valid ?J (if rt_scheduler_task_id r \<noteq> PNone
      then mark_scheduler_task_cancelled env (rt_scheduler_task_id r) else retM ()) (\<lambda>_. ?J) (\<lambda>_ _. True)"
    by (rule valid_keeps_any) (intro keeps_rules keeps_scheduler J)
  have tables: "valid ?J (modM (cancelled_tables ?q)) (\<lambda>_. at_rest ?q QPM_TASK_CANCELLED) (\<lambda>_ _. True)"
    by (rule valid_mod)
      (auto simp: cancelled_tables_def at_rest_def present_def no_hold_def set_runtime_state_def upd_runtime_def
        clear_dispatch_def task_for_qtask_id_def Let_def split: option.splits)
  show ?thesis
    unfolding finish_cancel_def Let_def
    by (rule valid_seq [OF popped], rule valid_bind_get, rule valid_seq [OF valid_pre [OF hold]], simp,
        rule valid_seq [OF marked], rule valid_seq [OF tables], rule valid_keeps_any)
      (intro keeps_rules keeps_status keeps_delivery_rest at_rest_blind)
qed

text \<open>A task the provider has nothing of: no handle, and not in flight.\<close>

definition off_provider :: "int \<Rightarrow> int option \<Rightarrow> task_state set \<Rightarrow> controller \<Rightarrow> bool" where
  "off_provider q rid states s \<longleftrightarrow> q \<notin> set (provider_inflight s) \<and>
     (\<exists>r. task_for_qtask_id q s = Some r \<and> rt_reservation_id r = rid \<and> rt_state r \<in> states \<and>
        rt_provider_handle r = None)"

lemma cancel_off_provider:
  assumes "tasks_ok s" "task_for_qtask_id q s = Some r" "q \<notin> set (provider_inflight s)" "rt_provider_handle r = None"
    "rt_state r \<noteq> QPM_TASK_COMPLETED" "rt_state r \<noteq> QPM_TASK_CANCELLED"
  shows "cancel_task_locked env PNone (PInt q) reason (rt_reservation_id r) True s = finish_cancel env r None reason s"
proof -
  have key: "rt_qtask_id r = q" using assms(1,2) task_for_key by (auto simp: task_for_qtask_id_def)
  have found: "runtime_for_task_selector PNone (PInt q) s = Some r"
    using assms(2) by (simp add: runtime_for_task_selector_def qtask_key_def task_for_qtask_id_def)
  have "cancel_provider_for_task env r s = (Inr None, s)"
    using assms key by (simp add: cancel_provider_for_task_def bindM_get retM_def)
  then show ?thesis
    using found assms by (simp add: cancel_task_locked_def bindM_get reservation_error_None [THEN iffD2] bindM_Inr)
qed

lemma cancel_rests:
  "valid (\<lambda>s. tasks_ok s \<and> off_provider q rid (- {QPM_TASK_COMPLETED, QPM_TASK_CANCELLED}) s)
     (cancel_task env PNone (PInt q) reason (opt_int rid) True) (\<lambda>_. at_rest q QPM_TASK_CANCELLED) (\<lambda>_ _. True)"
proof -
  let ?P = "\<lambda>s. tasks_ok s \<and> off_provider q rid (- {QPM_TASK_COMPLETED, QPM_TASK_CANCELLED}) s"
  have locked: "valid ?P (cancel_task_locked env PNone (PInt q) reason rid True)
      (\<lambda>_. at_rest q QPM_TASK_CANCELLED) (\<lambda>_ _. True)"
  proof (rule validI)
    fix s assume s: "?P s"
    then obtain r where r: "task_for_qtask_id q s = Some r" "q \<notin> set (provider_inflight s)" "rt_reservation_id r = rid"
      "rt_provider_handle r = None" "rt_state r \<noteq> QPM_TASK_COMPLETED" "rt_state r \<noteq> QPM_TASK_CANCELLED"
      by (auto simp: off_provider_def)
    have key: "rt_qtask_id r = q" using s r(1) task_for_key by (auto simp: task_for_qtask_id_def)
    have "case finish_cancel env r None reason s of (Inl e, t) \<Rightarrow> True | (Inr x, t) \<Rightarrow> at_rest q QPM_TASK_CANCELLED t"
      using finish_cancel_rests [of r env None reason] key r(1) by (auto simp: valid_def present_def)
    then show "case cancel_task_locked env PNone (PInt q) reason rid True s of
        (Inl e, t) \<Rightarrow> True | (Inr x, t) \<Rightarrow> at_rest q QPM_TASK_CANCELLED t"
      using s cancel_off_provider [OF _ r(1,2,4-6), of env reason] r(3) by simp
  qed
  have same: "valid ?P (liftM (normalize_optional_reservation_id (opt_int rid))) (\<lambda>x s. x = rid \<and> ?P s) (\<lambda>_ _. True)"
    by (cases rid) (auto simp: valid_def liftM_def normalize_optional_reservation_id_def retM_def raiseM_def
        normalize_reservation_id_def Let_def split: sum.splits if_splits)
  have "valid (\<lambda>s. x = rid \<and> ?P s) (cancel_task_locked env PNone (PInt q) reason x True)
      (\<lambda>_. at_rest q QPM_TASK_CANCELLED) (\<lambda>_ _. True)" for x
    using locked by (auto simp: valid_def)
  then show ?thesis
    unfolding cancel_task_def
    by (rule valid_bind [OF same valid_bind])
      (auto intro!: valid_keeps_any keeps_rules keeps_dispatch_rest)
qed

text \<open>A completed or cancelled task is left as it is, and no second completion is queued for it.\<close>

lemma cancel_settled_alone:
  "valid (\<lambda>s. task_for_qtask_id q s = Some r \<and> rt_reservation_id r = rid \<and> rt_state r \<in> {QPM_TASK_COMPLETED, QPM_TASK_CANCELLED} \<and>
      completion_queues s = queues)
     (cancel_task env PNone (PInt q) reason (opt_int rid) True)
     (\<lambda>_ s. task_for_qtask_id q s = Some r \<and> completion_queues s = queues) (\<lambda>_ _. True)"
proof -
  let ?P = "\<lambda>s. task_for_qtask_id q s = Some r \<and> rt_reservation_id r = rid \<and> rt_state r \<in> {QPM_TASK_COMPLETED, QPM_TASK_CANCELLED} \<and>
      completion_queues s = queues"
  let ?Q = "\<lambda>s. task_for_qtask_id q s = Some r \<and> completion_queues s = queues"
  have blind: "world_blind ?Q" by (simp add: world_blind_def task_for_qtask_id_def)
  have answer: "keeps ?Q (bindM (task_status env r a b PNone PNone) (\<lambda>status. retM (status, [] :: completion_delivery list)))" for a b
    by (intro keeps_rules keeps_status blind)
  have locked: "valid ?P (cancel_task_locked env PNone (PInt q) reason rid True) (\<lambda>x s. snd x = [] \<and> ?Q s) (\<lambda>_ _. True)"
  proof (rule validI)
    fix s assume s: "?P s"
    then have found: "runtime_for_task_selector PNone (PInt q) s = Some r"
      by (simp add: runtime_for_task_selector_def qtask_key_def task_for_qtask_id_def)
    obtain a b where "cancel_task_locked env PNone (PInt q) reason rid True s =
        bindM (task_status env r a b PNone PNone) (\<lambda>status. retM (status, [])) s"
      using s found by (fastforce simp: cancel_task_locked_def bindM_get reservation_error_None [THEN iffD2])
    with keepsD [OF answer, of s a b] s show "case cancel_task_locked env PNone (PInt q) reason rid True s of
        (Inl e, t) \<Rightarrow> True | (Inr x, t) \<Rightarrow> snd x = [] \<and> ?Q t"
      by (auto simp: bindM_def retM_def split: prod.splits sum.splits)
  qed
  have same: "valid ?P (liftM (normalize_optional_reservation_id (opt_int rid))) (\<lambda>x s. x = rid \<and> ?P s) (\<lambda>_ _. True)"
    by (cases rid) (auto simp: valid_def liftM_def normalize_optional_reservation_id_def retM_def raiseM_def
        normalize_reservation_id_def Let_def split: sum.splits if_splits)
  have "valid (\<lambda>s. x = rid \<and> ?P s) (cancel_task_locked env PNone (PInt q) reason x True) (\<lambda>x s. snd x = [] \<and> ?Q s) (\<lambda>_ _. True)" for x
    using locked by (auto simp: valid_def)
  moreover have "valid (\<lambda>s. snd x = [] \<and> ?Q s) (case x of (response, ds) \<Rightarrow> seqM (dispatch_completion_deliveries env ds) (retM response))
      (\<lambda>_. ?Q) (\<lambda>_ _. True)" for x :: "pydict \<times> completion_delivery list"
    by (cases x) (auto simp: valid_def dispatch_completion_deliveries_def monad_defs prune_event_registrations_def task_for_qtask_id_def Let_def
        split: prod.splits sum.splits)
  ultimately show ?thesis unfolding cancel_task_def by (rule valid_bind [OF same valid_bind])
qed

text \<open>
  A task that was delayed, is authorized again and accepted, and is then retried has its usage
  consumed twice under one hold: the accepted path does not take the task off the waiting list.
\<close>

lemma delayed_usage_consumed_twice:
  "length (filter is_consume (history (snd (delayed_run delayed_controller)))) = 2 \<and>
   length (capacity_holds (snd (delayed_run delayed_controller))) = 1"
  by code_simp

end
