(* ===== verification/QPM_Intake.thy ===== *)
theory QPM_Intake
  imports QPM_System
begin

text \<open>
  What the intake of reservations guarantees: an accepted reservation is bound to a credential or
  leaves no trace, a bound key belongs to somebody entitled to the device, and an execution
  request that passes validation names the device, scope, job and session of its reservation.
\<close>

section \<open>Accepting a reservation\<close>

definition bound :: "int \<Rightarrow> controller \<Rightarrow> bool" where
  "bound rid s \<longleftrightarrow> has_key (reservation_metadata_by_id s) rid \<and> has_key (reservation_credentials_by_id s) rid \<and>
     has_key (completion_queues s) rid"

definition forgotten :: "int \<Rightarrow> controller \<Rightarrow> bool" where
  "forgotten rid s \<longleftrightarrow> \<not> has_key (reservation_metadata_by_id s) rid \<and> \<not> has_key (reservation_credentials_by_id s) rid \<and>
     \<not> has_key (completion_queues s) rid"

lemma forgotten_world: "world_blind (forgotten rid)"
  by (simp add: world_blind_def forgotten_def)

lemma reject_forgets:
  "valid (\<lambda>_. True) (reject_credential_binding_reservation env rid) (\<lambda>_. forgotten rid) (\<lambda>_ _. False)"
  unfolding reject_credential_binding_reservation_def
proof (rule valid_seq [OF valid_mod])
  show "forgotten rid (forget_reservation rid s)" for s
    by (simp add: forgotten_def forget_reservation_def)
  show "valid (forgotten rid)
     (tryM (seqM (release_reservation env rid (PInt 1)) (retM ()))
       (\<lambda>_. tryM (seqM (cancel_reservation env rid (PInt 1)) (retM ())) (\<lambda>_. retM ())))
     (\<lambda>_. forgotten rid) (\<lambda>_ _. False)"
    by (intro valid_try [OF keeps_valid] valid_ret keeps_rules forgotten_world)
qed

lemma bind_stores:
  "valid (\<lambda>_. True) (bind_provider_credential env rid metadata)
     (\<lambda>_ s. has_key (reservation_credentials_by_id s) rid) (\<lambda>_ _. True)"
  unfolding bind_provider_credential_def valid_def
  by (auto simp: monad_defs split: prod.splits sum.splits)

lemma ensure_has_queue: "has_key (completion_queues (ensure_completion_queue rid s)) rid"
  by (simp add: ensure_completion_queue_def split: option.split)

lemma ensure_frame:
  "reservation_metadata_by_id (ensure_completion_queue rid s) = reservation_metadata_by_id s"
  "reservation_credentials_by_id (ensure_completion_queue rid s) = reservation_credentials_by_id s"
  by (simp_all add: ensure_completion_queue_def split: option.split)

lemma accept_binds_or_forgets:
  "valid (\<lambda>_. True) (accept_reservation env request decision)
     (\<lambda>d s. d = decision \<and> bound (record_reservation_id decision) s \<or>
        pget d ''status'' = PStr ''rejected'' \<and> pget d ''reason'' = PStr ''credential-binding-failed'' \<and>
        forgotten (record_reservation_id decision) s)
     (\<lambda>_ _. False)"
proof -
  let ?rid = "record_reservation_id decision"
  have attempt: "valid (\<lambda>_. True)
     (tryM (bindM (bind_provider_credential env ?rid (request_metadata_of request)) (\<lambda>m. retM (Inr m)))
        (\<lambda>error. seqM (reject_credential_binding_reservation env ?rid) (retM (Inl error))))
     (\<lambda>outcome s. case outcome of Inl e \<Rightarrow> forgotten ?rid s | Inr m \<Rightarrow> has_key (reservation_credentials_by_id s) ?rid)
     (\<lambda>_ _. False)"
  proof (rule valid_try)
    show "valid (\<lambda>_. True) (bindM (bind_provider_credential env ?rid (request_metadata_of request)) (\<lambda>m. retM (Inr m)))
       (\<lambda>outcome s. case outcome of Inl e \<Rightarrow> forgotten ?rid s | Inr m \<Rightarrow> has_key (reservation_credentials_by_id s) ?rid)
       (\<lambda>_ _. True)"
      by (intro valid_bind [OF bind_stores] valid_ret) simp
    show "valid (\<lambda>_. True) (seqM (reject_credential_binding_reservation env ?rid) (retM (Inl error)))
       (\<lambda>outcome s. case outcome of Inl e \<Rightarrow> forgotten ?rid s | Inr m \<Rightarrow> has_key (reservation_credentials_by_id s) ?rid)
       (\<lambda>_ _. False)" for error
      by (intro valid_seq [OF reject_forgets] valid_ret) simp
  qed
  show ?thesis
    unfolding accept_reservation_def Let_def
  proof (rule valid_bind [OF attempt])
    fix outcome :: "exc + pydict"
    show "valid (\<lambda>s. case outcome of Inl e \<Rightarrow> forgotten ?rid s | Inr m \<Rightarrow> has_key (reservation_credentials_by_id s) ?rid)
       (case outcome of
          Inl error \<Rightarrow> retM
            [(''status'', PStr ''rejected''), (''request_id'', pget decision ''request_id''),
             (''reservation_id'', pget decision ''reservation_id''), (''reason'', PStr ''credential-binding-failed''),
             (''message'', PStr (exc_text error)), (''admission_status'', PDict decision)]
        | Inr metadata \<Rightarrow>
            seqM (modM (\<lambda>s. ensure_completion_queue ?rid
                    (s\<lparr>reservation_metadata_by_id := dset ?rid metadata (reservation_metadata_by_id s)\<rparr>)))
              (retM decision))
       (\<lambda>d s. d = decision \<and> bound ?rid s \<or>
          pget d ''status'' = PStr ''rejected'' \<and> pget d ''reason'' = PStr ''credential-binding-failed'' \<and>
          forgotten ?rid s)
       (\<lambda>_ _. False)"
      by (cases outcome)
        (auto simp: valid_def monad_defs pget_def bound_def ensure_has_queue [simplified] ensure_frame)
  qed
qed

section \<open>A bound key\<close>

text \<open>What a provider may hand out for a request, given the files of the process.\<close>

definition granted :: "access_env \<Rightarrow> string \<Rightarrow> pydict \<Rightarrow> credential_provider \<Rightarrow> credential_response \<Rightarrow> bool" where
  "granted ae mode request provider response =
     (case provider of
        NoSecretCredentialProvider \<Rightarrow> resp_secret response = PDict [] \<and> mode_text ae mode = NO_SECRET_PROVIDER
      | FileCredentialProvider path device conf \<Rightarrow>
          (\<exists>user entry secret. entitled_by ae device request user entry \<and> resp_secret response = PDict secret \<and>
             pget secret ''api_key'' = PStr (py_strip (py_str (pget entry ''api_key''))))
      | EntitlementCredentialProvider path device conf \<Rightarrow>
          (\<exists>user entry secret. entitled_by ae device request user entry \<and> resp_secret response = PDict secret \<and>
             (\<forall>k \<in> set (dkeys secret). \<not> sensitive_key k))
      | PluginProvider module class_name \<Rightarrow> mode_text ae mode = ''required'')"

lemma bound_credential:
  assumes run: "bind_reservation_credential env binding mode s = (Inr (provider, response), t)"
  shows "\<exists>request. credential_request_from_binding binding = Inr request \<and>
    granted (access env (history s)) mode request provider response"
proof -
  from run obtain request s' where request: "credential_request_from_binding binding = Inr request"
    and choice: "provider_for_request env request mode s = (Inr provider, s')"
    and bind: "bind_with env provider request s' = (Inr response, t)"
    by (auto simp: bind_reservation_credential_def monad_defs split: prod.splits sum.splits)
  note mode = provider_mode [OF choice]
  have "granted (access env (history s)) mode request provider response"
  proof (cases provider)
    case NoSecretCredentialProvider
    with bind mode show ?thesis
      by (auto simp: granted_def bind_with_def access_now_def time_ns_def monad_defs)
  next
    case (FileCredentialProvider path device conf)
    with mode have "s' = s" by (simp add: is_plugin_def)
    with bind FileCredentialProvider obtain sel where sel: "select_credential (access env (history s)) path device conf request = Inr sel"
      and secret: "resp_secret response = PDict (file_secret device sel)"
      by (auto simp: bind_with_def access_now_def time_ns_def monad_defs split: sum.splits)
    from selected_credential_entitled [OF sel] obtain entry where
      entry: "entitled_by (access env (history s)) device request (sel_user sel) entry"
        "sel_api_key sel = py_strip (py_str (pget entry ''api_key''))" "sel_api_key sel \<noteq> []"
        "set (dkeys (sel_object_storage sel)) \<subseteq> set OBJECT_STORAGE_SECRET_KEYS"
      by blast
    from file_secret_key [OF entry(3,4), of device] entry(1,2) secret FileCredentialProvider show ?thesis
      by (force simp: granted_def)
  next
    case (EntitlementCredentialProvider path device conf)
    with mode have "s' = s" by (simp add: is_plugin_def)
    with bind EntitlementCredentialProvider obtain key rec db_path where
      sel: "select_entitlement (access env (history s)) path device conf request = Inr ((key, rec), db_path)"
      and secret: "resp_secret response = PDict (entitlement_secret device key rec)"
      by (auto simp: bind_with_def access_now_def time_ns_def monad_defs split: sum.splits prod.splits)
    from selected_entitlement_entitled [OF sel] secret entitlement_secret_plain show ?thesis
      by (auto simp: granted_def EntitlementCredentialProvider simp del: set_map)
  next
    case (PluginProvider module class_name)
    with mode show ?thesis by (auto simp: granted_def)
  qed
  with request show ?thesis by blast
qed

section \<open>A validated request\<close>

text \<open>Canonical numbers only grow, and a number read is the number of its text.\<close>

definition names_grow :: "controller \<Rightarrow> controller \<Rightarrow> bool" where
  "names_grow s t \<longleftrightarrow> (\<forall>k x n. canonical_id s k x = Some n \<longrightarrow> canonical_id t k x = Some n)"

lemma canonical_value_run:
  assumes ok: "ids_ok s" and run: "canonical_binding_value k v s = (Inr n, t)"
  shows "ids_ok t" "names_grow s t" "if is_int v then v = PInt n else canonical_id t k (py_str v) = Some n"
proof -
  have run': "canonicalize_external_id k v s = (Inr n, t)"
    using run by (auto simp: canonical_binding_value_def canonicalize_external_id_def split: pyval.splits)
  from keepsD [OF keeps_canonicalize ok, of k v] run' show "ids_ok t" by simp
  consider "is_int v" | m where "\<not> is_int v" "canonical_id s k (py_str v) = Some m"
    | "\<not> is_int v" "canonical_id s k (py_str v) = None" by blast
  then have "names_grow s t \<and> (if is_int v then v = PInt n else canonical_id t k (py_str v) = Some n)"
  proof cases
    case 1
    then show ?thesis
      using run' by (auto simp: canonicalize_external_id_def is_int_def names_grow_def retM_def split: pyval.splits)
  next
    case 2
    from canonicalize_known [OF 2] run' 2 show ?thesis by (simp add: names_grow_def)
  next
    case 3
    from canonicalize_fresh [OF 3] run' 3 show ?thesis by (auto simp: names_grow_def)
  qed
  then show "names_grow s t" "if is_int v then v = PInt n else canonical_id t k (py_str v) = Some n" by simp_all
qed

text \<open>
  Two identifiers agree: equal numbers, equal texts, or a text and the very number the controller has for it. Names
  only grow, so what agrees goes on agreeing.
\<close>

definition same_identifier :: "controller \<Rightarrow> string \<Rightarrow> pyval \<Rightarrow> pyval \<Rightarrow> bool" where
  "same_identifier s k v w \<longleftrightarrow> v = PNone \<or> w = PNone \<or>
     (if is_int v then (if is_int w then v = w else \<exists>n. v = PInt n \<and> canonical_id s k (py_str w) = Some n)
      else if is_int w then \<exists>n. w = PInt n \<and> canonical_id s k (py_str v) = Some n
      else py_str v = py_str w)"

lemma same_identifier_grows: "same_identifier s k v w \<Longrightarrow> names_grow s t \<Longrightarrow> same_identifier t k v w"
  unfolding same_identifier_def names_grow_def by metis

lemma names_grow_trans: "names_grow s t \<Longrightarrow> names_grow t u \<Longrightarrow> names_grow s u"
  by (simp add: names_grow_def)

lemma names_grow_refl [simp]: "names_grow s s"
  by (simp add: names_grow_def)

lemma same_number:
  assumes ok: "ids_ok s" and 1: "canonical_binding_value k w s = (Inr n, s')" and 2: "canonical_binding_value k v s' = (Inr n, t)"
  shows "same_identifier t k v w \<and> ids_ok t \<and> names_grow s t"
proof -
  note first = canonical_value_run [OF ok 1]
  note second = canonical_value_run [OF first(1) 2]
  have "canonical_id t k (py_str w) = Some n" if "\<not> is_int w"
    using first(3) second(2) that by (simp add: names_grow_def)
  moreover have "py_str v = py_str w" if "canonical_id t k (py_str v) = Some n" "canonical_id t k (py_str w) = Some n"
    using second(1) that unfolding ids_ok_def by blast
  ultimately show ?thesis
    using second(1,2,3) first(2,3) names_grow_trans by (auto simp: same_identifier_def split: if_splits)
qed

definition field_agrees :: "controller \<Rightarrow> pydict \<Rightarrow> pydict \<Rightarrow> pydict \<Rightarrow> matched_field \<Rightarrow> bool" where
  "field_agrees s reservation metadata wanted f \<longleftrightarrow>
     same_identifier s (mf_name f) (metadata_identifier_any wanted (mf_request_keys f)) (bound_value reservation metadata f)"

lemma match_field_agrees:
  assumes ok: "ids_ok s" and run: "match_field reservation metadata wanted f s = (Inr x, t)"
  shows "ids_ok t \<and> names_grow s t \<and> field_agrees t reservation metadata wanted f"
proof -
  let ?v = "metadata_identifier_any wanted (mf_request_keys f)" and ?w = "bound_value reservation metadata f"
  show ?thesis
  proof (cases "?v = PNone \<or> ?w = PNone")
    case True
    with ok run show ?thesis
      by (auto simp: match_field_def reservation_binding_value_def field_agrees_def same_identifier_def Let_def monad_defs split: if_splits)
  next
    case False
    obtain n s1 where 1: "canonical_binding_value (mf_name f) ?w s = (Inr n, s1)"
      by (cases "canonical_binding_value (mf_name f) ?w s")
        (auto simp: canonical_binding_value_def canonicalize_external_id_def retM_def Let_def split: pyval.splits option.splits)
    obtain m s2 where 2: "canonical_binding_value (mf_name f) ?v s1 = (Inr m, s2)"
      by (cases "canonical_binding_value (mf_name f) ?v s1")
        (auto simp: canonical_binding_value_def canonicalize_external_id_def retM_def Let_def split: pyval.splits option.splits)
    from False 1 2 run have "m = n" "t = s2"
      by (auto simp: match_field_def reservation_binding_value_def Let_def monad_defs split: if_splits)
    with same_number [OF ok 1, of ?v s2] 2 show ?thesis by (simp add: field_agrees_def)
  qed
qed

lemma match_fields_agree:
  "ids_ok s \<Longrightarrow> forM fs (match_field reservation metadata wanted) s = (Inr x, t) \<Longrightarrow>
   ids_ok t \<and> names_grow s t \<and> list_all (field_agrees t reservation metadata wanted) fs"
proof (induction fs arbitrary: s)
  case Nil
  then show ?case by (simp add: retM_def)
next
  case (Cons f fs)
  from Cons.prems(2) obtain y u where here: "match_field reservation metadata wanted f s = (Inr y, u)"
    and rest: "forM fs (match_field reservation metadata wanted) u = (Inr x, t)"
    by (auto simp: seqM_returns)
  from match_field_agrees [OF Cons.prems(1) here] have u: "ids_ok u" "names_grow s u" "field_agrees u reservation metadata wanted f" by auto
  from Cons.IH [OF u(1) rest] u show ?case
    using same_identifier_grows names_grow_trans by (auto simp: field_agrees_def)
qed

text \<open>What a request has to satisfy to run under a reservation.\<close>

definition belongs_to :: "controller \<Rightarrow> pydict \<Rightarrow> pydict \<Rightarrow> pydict \<Rightarrow> bool" where
  "belongs_to s wanted reservation metadata \<longleftrightarrow>
     pget reservation ''state'' = PStr ''active'' \<and>
     list_all (field_agrees s reservation metadata wanted) MATCHED_FIELDS \<and>
     (operation_from_metadata metadata = PNone \<or> operation_from_metadata wanted = PNone \<or>
      operation_names_compatible (operation_from_metadata metadata) (operation_from_metadata wanted))"

lemma operation_matches:
  assumes "require_reservation_operation_matches rid metadata wanted s = (Inr x, t)"
  shows "t = s" "operation_from_metadata metadata = PNone \<or> operation_from_metadata wanted = PNone \<or>
    operation_names_compatible (operation_from_metadata metadata) (operation_from_metadata wanted)"
  using assms by (auto simp: require_reservation_operation_matches_def monad_defs Let_def split: if_splits)

lemma context_matches:
  assumes ok: "ids_ok s" and run: "require_reservation_matches_context reservation ctx s = (Inr x, t)"
    and active: "pget reservation ''state'' = PStr ''active''"
  shows "belongs_to t (rc_metadata ctx) reservation (reservation_metadata reservation s)"
proof -
  let ?m = "reservation_metadata reservation s"
  from run obtain y u where fields: "forM MATCHED_FIELDS (match_field reservation ?m (rc_metadata ctx)) s = (Inr y, u)"
    and operation: "require_reservation_operation_matches (pget reservation ''reservation_id'') ?m (rc_metadata ctx) u = (Inr x, t)"
    by (auto simp: require_reservation_matches_context_def bindM_get seqM_returns)
  from match_fields_agree [OF ok fields] operation_matches [OF operation] active show ?thesis
    by (auto simp: belongs_to_def)
qed

text \<open>On a normal exit the check of the expiry has only read the clock.\<close>

lemma not_expired_returns:
  assumes "require_reservation_not_expired env r s = (Inr x, t)"
  shows "\<exists>n. t = s\<lparr>clock_reads := n\<rparr>"
    and "py_truth (pget r ''expires_at_ns'') \<longrightarrow> (\<exists>e. py_number (pget r ''expires_at_ns'') = Inr e \<and> clock env (clock_reads s) < e)"
  using assms
  by (auto simp: require_reservation_not_expired_def time_ns_def monad_defs Let_def split: if_splits sum.splits prod.splits
      intro: exI [of _ "clock_reads s"])

text \<open>Cleaning credentials up afterwards leaves the names as they are.\<close>

lemma cleanup_keeps_names: "keeps (\<lambda>s. external_id_maps s = m) (drain_provider_credential_cleanup env)"
  by (rule keeps_drain) (simp add: queue_blind_def record_blind_def world_blind_def)

lemma belongs_to_names: "external_id_maps s = external_id_maps t \<Longrightarrow> belongs_to s = belongs_to t"
proof -
  assume "external_id_maps s = external_id_maps t"
  then have "canonical_id s = canonical_id t" by (simp add: fun_eq_iff canonical_id_def)
  then have "same_identifier s = same_identifier t" by (simp add: fun_eq_iff same_identifier_def)
  then have "field_agrees s = field_agrees t" by (simp add: fun_eq_iff field_agrees_def)
  then show ?thesis by (intro ext) (simp only: belongs_to_def)
qed

lemma validated_context:
  assumes ok: "ids_ok s" and run: "validate_reservation_for_context env ctx operation s = (Inr reservation, t)"
  obtains rid where "rc_reservation_id ctx = Some rid" "1 \<le> rid" "rid \<le> UINT64_MAX"
    "\<not> has_key (reservation_close_state s) rid"
    "belongs_to t (rc_metadata ctx) reservation (reservation_metadata reservation s)"
    "py_truth (pget reservation ''expires_at_ns'') \<longrightarrow>
       (\<exists>e. py_number (pget reservation ''expires_at_ns'') = Inr e \<and> clock env (clock_reads s) < e)"
proof -
  from run obtain rid where rid: "normalize_reservation_id (opt_int (rc_reservation_id ctx)) False = Inr rid"
    by (auto simp: validate_reservation_for_context_def monad_defs split: sum.splits)
  let ?check = "\<lambda>reservation. seqM (require_reservation_active reservation operation)
      (seqM (require_reservation_not_expired env reservation)
      (seqM (require_reservation_matches_context reservation ctx) (retM reservation)))"
  from run rid obtain r s1 s2 where got: "get_reservation env rid s = (Inr r, s1)"
    and open_: "\<not> has_key (reservation_close_state s1) rid" and check: "?check r s1 = (Inr reservation, s2)"
    and cleaned: "snd (drain_provider_credential_cleanup env s2) = t"
    by (auto simp: validate_reservation_for_context_def finallyM_def monad_defs split: prod.splits sum.splits if_splits)
  obtain h where s1: "s1 = s\<lparr>history := h\<rparr>"
    using got by (auto simp: get_reservation_def with_reservation_def on_context_def unavailable_def ext_def monad_defs
        split: context_kind.splits sum.splits)
  from check obtain u s3 x where act: "require_reservation_active r operation s1 = (Inr u, s1)"
    and expiry: "require_reservation_not_expired env r s1 = (Inr x, s3)"
    and matched: "require_reservation_matches_context r ctx s3 = (Inr (), s2)" and r: "reservation = r"
    unfolding seqM_returns retM_returns by (auto simp: require_reservation_active_def raiseM_def retM_def split: if_splits)
  from act have active: "pget r ''state'' = PStr ''active''"
    by (auto simp: require_reservation_active_def raiseM_def split: if_splits)
  note clock = not_expired_returns [OF expiry]
  from clock(1) obtain n where s3: "s3 = s1\<lparr>clock_reads := n\<rparr>" by blast
  have "reservation_metadata r s3 = reservation_metadata r s"
    unfolding s3 s1 by (cases "pget r ''reservation_id''") (simp_all add: reservation_metadata_def)
  then have "ids_ok s3 \<and> reservation_metadata r s3 = reservation_metadata r s"
    using ok by (simp add: s3 s1 ids_ok_def canonical_id_def)
  with context_matches [OF _ matched active] have "belongs_to s2 (rc_metadata ctx) r (reservation_metadata r s)" by simp
  moreover have "belongs_to s2 = belongs_to t"
    using keepsD [OF cleanup_keeps_names, of s2 "external_id_maps s2" env] cleaned by (intro belongs_to_names) simp
  ultimately have "belongs_to t (rc_metadata ctx) r (reservation_metadata r s)" by simp
  moreover have "rc_reservation_id ctx = Some rid"
    using rid by (cases "rc_reservation_id ctx") (auto simp: normalize_reservation_id_def Let_def split: if_splits)
  ultimately show thesis
    using that clock(2) open_ r normalize_reservation_id_bounds [OF rid] by (simp add: s1)
qed

section \<open>The binding of a request\<close>

lemma request_binding_free:
  assumes run: "admission_request (Some request) token s = (Inr sent, t)"
    and parts: "request_parts_of request (target_id (config s)) = Inr p" and plain: "plain_identifiers p"
  shows "dict_free (binding_of sent)"
proof -
  from run parts obtain ids task_class binding n rest where
    binding: "reservation_binding_metadata p ids task_class = Inr binding" and
    sent: "request_metadata_of sent = admission_metadata p token task_class binding"
    unfolding admission_request_def Let_def option.case bindM_returns retM_returns
    by (auto simp: getM_def liftM_def request_metadata_of_def pget_def)
  have "pget (admission_metadata p token task_class binding) ''reservation_binding'' = PDict binding"
    by (simp add: admission_metadata_def Let_def pget_def)
  with sent binding_free [OF plain binding] show ?thesis by (simp add: binding_of_def)
qed

text \<open>
  A request is refused for its form only when a part that should be a mapping is none, or a numeric
  identifier is no number.
\<close>

definition well_formed :: "pydict \<Rightarrow> bool" where
  "well_formed request \<longleftrightarrow>
     list_all (\<lambda>k. is_dict (pgetd request k (PDict [])))
       [''owner'', ''policy'', ''workload'', ''run_context'', ''task_class'', ''launcher'', ''analytics''] \<and>
     list_all (\<lambda>k. pget request k = PNone \<or> int_or_none (pget request k) \<noteq> None)
       [''device_numeric_id'', ''scope_numeric_id'', ''user_numeric_id'', ''job_numeric_id'']"

lemma py_dict_is_dict: "is_dict v \<Longrightarrow> \<exists>d. py_dict v = Inr d"
  by (auto simp: is_dict_def py_dict_def split: pyval.splits)

lemma numeric_returns:
  "v = PNone \<or> int_or_none v \<noteq> None \<Longrightarrow> \<exists>n t. numeric_or_canonical k v e s = (Inr n, t)"
  by (auto simp: numeric_or_canonical_def canonicalize_external_id_def int_or_none_def liftM_def retM_def Let_def
      split: sum.splits pyval.splits option.splits)

lemma parts_return:
  "well_formed request \<Longrightarrow> \<exists>p. request_parts_of request target = Inr p \<and> rq_request p = request"
  unfolding well_formed_def request_parts_of_def bindE_Inr by (auto dest!: py_dict_is_dict)

lemma ids_return:
  assumes "well_formed (rq_request p)"
  shows "\<exists>ids t. request_ids_of p s = (Inr ids, t)"
proof -
  let ?r = "rq_request p"
  have ok: "\<exists>n t. numeric_or_canonical k (pget ?r key) e u = (Inr n, t)"
    if "key \<in> set [''device_numeric_id'', ''scope_numeric_id'', ''user_numeric_id'', ''job_numeric_id'']" for k key e u
    using assms that numeric_returns unfolding well_formed_def list_all_iff by blast
  obtain a s1 where 1: "numeric_or_canonical ''device_id'' (pget ?r ''device_numeric_id'') (rq_device_external p) s = (Inr a, s1)"
    using ok [of "''device_numeric_id''"] by fastforce
  obtain b s2 where 2: "numeric_or_canonical ''scope_id'' (pget ?r ''scope_numeric_id'') (rq_scope_external p) s1 = (Inr b, s2)"
    using ok [of "''scope_numeric_id''"] by fastforce
  obtain c s3 where 3: "numeric_or_canonical ''user_id'' (pget ?r ''user_numeric_id'') (rq_user_external p) s2 = (Inr c, s3)"
    using ok [of "''user_numeric_id''"] by fastforce
  obtain d s4 where 4: "numeric_or_canonical ''job_id'' (pget ?r ''job_numeric_id'') (rq_job_external p) s3 = (Inr d, s4)"
    using ok [of "''job_numeric_id''"] by fastforce
  show ?thesis
    unfolding request_ids_of_def Let_def
    by (simp add: bindM_Inr 1 2 3 4 retM_def)
qed

lemma binding_returns: "well_formed (rq_request p) \<Longrightarrow> \<exists>b. reservation_binding_metadata p ids tc = Inr b"
  unfolding reservation_binding_metadata_def reservation_analytics_metadata_def Let_def bindE_Inr sum.inject
    well_formed_def list.pred_inject
  using py_dict_is_dict by blast

lemma request_returns:
  assumes wf: "well_formed request"
  shows "\<exists>sent t. admission_request (Some request) token s = (Inr sent, t)"
proof -
  from parts_return [OF wf] obtain p where p: "request_parts_of request (target_id (config s)) = Inr p" "rq_request p = request"
    by blast
  from ids_return [of p s] wf p obtain ids t where ids: "request_ids_of p s = (Inr ids, t)" by auto
  from wf obtain tc where tc: "admission_task_class request = Inr tc"
    unfolding well_formed_def admission_task_class_def bindE_Inr list.pred_inject using py_dict_is_dict by blast
  from binding_returns [of p ids tc] wf p obtain b where b: "reservation_binding_metadata p ids tc = Inr b" by auto
  show ?thesis
    unfolding admission_request_def Let_def option.case bindM_returns retM_returns allocate_admission_request_id_def seqM_returns
    by (simp add: getM_def liftM_def modM_def p ids tc b)
qed

section \<open>Examples\<close>

text \<open>
  Reservation 7 belongs to the job named \<^verbatim>\<open>slurm-7\<close>, which was numbered 1 when it was reserved, so the
  record that qhw-admission keeps has the job identifier 1.
\<close>

definition job_env :: qpm_env where
  "job_env = \<lparr>respond = (\<lambda>_ c. case c of
       AdmGet rid \<Rightarrow> Inr (EVal (PDict [(''reservation_id'', PInt rid), (''state'', PStr ''active''), (''job_id'', PInt 1)]))
     | _ \<Rightarrow> Inr (EVal PNone)), clock = int, seconds_of = PInt,
     admission_context = Handlers, setter_accepts_options = True, has_config_loader = False,
     default_policy_paths = [], scheduler_context = Handlers, scheduler_state_names = [],
     is_empty_selection_error = (\<lambda>_. False), gunzip = Some, access = (\<lambda>_. empty_access)\<rparr>"

definition job_controller :: controller where
  "job_controller =
     (new_controller \<lparr>target_id = ''qpu'', credential_mode = ''no-secret'', admission_threading_mode = ''serialized'',
        scheduler_threading_mode = ''serialized'', serialization_mode = ''lock''\<rparr> COMPLETION_RETENTION_DEFAULTS None)
     \<lparr>external_id_maps := [(''job_id'', [(''slurm-7'', 1)])], external_id_next := 2\<rparr>"

definition job_context :: "pyval \<Rightarrow> request_context" where
  "job_context job = \<lparr>rc_reservation_id = Some 7, rc_token = PNone, rc_timeout = PNone, rc_cancel_on_timeout = False,
     rc_metadata = [(''job_id'', job)], rc_auth_disabled = False\<rparr>"

definition job_accepted :: "pyval \<Rightarrow> bool" where
  "job_accepted job =
     (case fst (validate_reservation_for_context job_env (job_context job) ''execution'' job_controller) of
        Inr r \<Rightarrow> True | Inl e \<Rightarrow> False)"

lemma job_ids_ok: "ids_ok job_controller"
  by (auto simp: ids_ok_def canonical_id_def job_controller_def new_controller_def split: if_splits)

text \<open>A device whose key one user holds.\<close>

definition key_access :: access_env where
  "key_access = empty_access\<lparr>config_path := ''/etc/access.yaml'', files := (\<lambda>path.
     if path = ''/etc/access.yaml''
     then File (PDict [(''qpus'', PDict [(''qpu'', PDict [(''url'', PStr ''https://qpu''),
            (''credential-db'', PStr ''users.json'')])])])
     else if path = ''/etc/users.json''
     then File (PDict [(''ann'', PDict [(''enabled'', PBool True), (''devices'', PDict [(''qpu'',
            PDict [(''enabled'', PBool True), (''api_key'', PStr ''k1'')])])])])
     else No_file)\<rparr>"

definition key_env :: qpm_env where
  "key_env = job_env\<lparr>access := (\<lambda>_. key_access)\<rparr>"

definition key_binding :: pydict where
  "key_binding = [(''launcher'', PDict [(''external_user_id'', PStr ''ann'')]),
     (''resource'', PDict [(''target_device_id'', PStr ''qpu'')])]"

definition key_bound :: "(credential_provider \<times> credential_response) option" where
  "key_bound = (case fst (bind_reservation_credential key_env key_binding ''required'' job_controller) of
     Inr x \<Rightarrow> Some x | Inl e \<Rightarrow> None)"

text \<open>
  The comparison mixes numbers that callers give with numbers the controller hands out: a request for
  the job 1 passes as one for the job \<^verbatim>\<open>slurm-7\<close>, whose number happens to be 1, while the text
  \<^verbatim>\<open>1\<close> does not pass for the number 1.
\<close>

lemma job_number_passes_for_a_name:
  "canonical_id job_controller ''job_id'' ''slurm-7'' = Some 1 \<and> job_accepted (PInt 1) \<and>
   \<not> job_accepted (PStr ''1'') \<and> \<not> job_accepted (PStr ''slurm-8'')"
  by code_simp

end
