(* ===== verification/QPM_Hosts.thy ===== *)
theory QPM_Hosts
  imports QPM_Interfaces
begin

text \<open>
  The host slots of the service (\<^verbatim>\<open>services/util/qpm/util_qpm.py\<close>): \<open>free_hosts\<close> maps a host to
  its free slots. Taking the slots of a circuit walks the hosts in order, takes what is free and
  restores everything when it is not enough; returning them adds them back host by host. The
  host list is read from the environment, expanded by DEFw, and is an argument. The lemmas show
  that slots are neither made nor lost, and under which configuration returning cannot fail.
\<close>

section \<open>Definitions\<close>

type_synonym hosts = "(string \<times> int) list"

fun setup_host_resources :: "int \<Rightarrow> string list \<Rightarrow> hosts \<Rightarrow> exc + hosts" where
  "setup_host_resources max_ppn [] free_hosts = Inr free_hosts"
| "setup_host_resources max_ppn (h # hl) free_hosts =
     (case split_on (CHR '':'') h of
        [host] \<Rightarrow> setup_host_resources max_ppn hl (dset host max_ppn free_hosts)
      | [host, slots] \<Rightarrow>
          (case int_of_text slots of
             None \<Rightarrow> Inl (ValueError (''invalid literal for int() with base 10: '' @ repr_text slots))
           | Some n \<Rightarrow> setup_host_resources max_ppn hl (dset host n free_hosts))
      | _ \<Rightarrow> setup_host_resources max_ppn hl free_hosts)"

text \<open>The walk: the hosts after it, what was taken, and what is still wanted.\<close>

fun take_slots :: "int \<Rightarrow> hosts \<Rightarrow> hosts \<times> hosts \<times> int" where
  "take_slots np [] = ([], [], np)"
| "take_slots np ((host, free) # rest) =
     (if np = 0 then ((host, free) # rest, [], 0)
      else if np \<le> free then ((host, free - np) # rest, [(host, np)], 0)
      else if free \<noteq> 0 then
        (case take_slots (np - free) rest of (rest', taken, left) \<Rightarrow> ((host, 0) # rest', (host, free) # taken, left))
      else (case take_slots np rest of (rest', taken, left) \<Rightarrow> ((host, free) # rest', taken, left)))"

definition truncated_quotient :: "int \<Rightarrow> int \<Rightarrow> int" where
  "truncated_quotient a b = sgn a * sgn b * (abs a div abs b)"

definition hosts_wanted :: "int \<Rightarrow> int \<Rightarrow> int" where
  "hosts_wanted max_ppn np = (let n = truncated_quotient np max_ppn in if n = 0 then 1 else n)"

definition consume_resources :: "int \<Rightarrow> int \<Rightarrow> hosts \<Rightarrow> (exc + hosts) \<times> hosts" where
  "consume_resources max_ppn np free_hosts =
     (if max_ppn = 0 then (Inl (ZeroDivisionError ''division by zero''), free_hosts)
      else if hosts_wanted max_ppn np > int (length free_hosts)
      then (Inl (DEFwOutOfResources ''hosts requested is more than available''), free_hosts)
      else case take_slots np free_hosts of
             (free_hosts', taken, left) \<Rightarrow>
               if left \<noteq> 0 then (Inl (DEFwOutOfResources ''Not enough slots to run simulation''), free_hosts)
               else (Inr taken, free_hosts'))"

text \<open>The loop of \<^verbatim>\<open>_return_hosts\<close>. A host it refuses ends it, with the earlier hosts already returned.\<close>

fun return_slots :: "int \<Rightarrow> hosts \<Rightarrow> hosts \<Rightarrow> (exc + unit) \<times> hosts" where
  "return_slots max_ppn [] free_hosts = (Inr (), free_hosts)"
| "return_slots max_ppn ((host, n) # rest) free_hosts =
     (case map_of free_hosts host of
        None \<Rightarrow> (Inl (DEFwError (''Circuit has untracked host: '' @ host)), free_hosts)
      | Some free \<Rightarrow>
          if n + free > max_ppn then (Inl (DEFwError ''Returning more resources than originally had''), free_hosts)
          else return_slots max_ppn rest (dset host (n + free) free_hosts))"

section \<open>Conservation\<close>

definition slots :: "hosts \<Rightarrow> string \<Rightarrow> int" where
  "slots hs host = (case map_of hs host of Some n \<Rightarrow> n | None \<Rightarrow> 0)"

lemma slots_Cons: "slots ((h, n) # hs) host = (if host = h then n else slots hs host)"
  by (simp add: slots_def)

lemma slots_Nil [simp]: "slots [] host = 0"
  by (simp add: slots_def)

lemma slots_dset [simp]: "slots (dset h n hs) host = (if host = h then n else slots hs host)"
  by (simp add: slots_def)

definition slot_total :: "hosts \<Rightarrow> int" where
  "slot_total hs = (\<Sum>hn\<leftarrow>hs. snd hn)"

lemma slots_absent: "h \<notin> set (dkeys hs) \<Longrightarrow> slots hs h = 0"
  by (simp add: slots_def map_of_eq_None_iff [THEN iffD2])

lemma take_slots_spec:
  assumes "take_slots np hs = (hs', taken, left)" "dict_ok hs"
  shows "dkeys hs' = dkeys hs" "set (dkeys taken) \<subseteq> set (dkeys hs)" "dict_ok taken"
    "\<And>h. slots hs h = slots hs' h + slots taken h" "slot_total taken + left = np"
  using assms
proof (atomize (full), induction np hs arbitrary: hs' taken left rule: take_slots.induct)
  case (2 np host free rest)
  then have ok: "host \<notin> set (dkeys rest)" "dict_ok rest" by (simp_all add: dict_ok_def)
  show ?case
  proof (cases "np = 0 \<or> np \<le> free")
    case True
    with 2 show ?thesis by (auto simp: dict_ok_def slot_total_def slots_Cons split: if_splits)
  next
    case False
    define rec where "rec = take_slots (if free \<noteq> 0 then np - free else np) rest"
    obtain r t l where rec: "rec = (r, t, l)" by (cases rec)
    have out: "hs' = (host, if free \<noteq> 0 then 0 else free) # r" "left = l"
      "taken = (if free \<noteq> 0 then (host, free) # t else t)"
      using 2(3) False rec by (auto simp: rec_def split: if_splits)
    have IH: "dkeys r = dkeys rest" "set (dkeys t) \<subseteq> set (dkeys rest)" "dict_ok t"
      "\<And>h. slots rest h = slots r h + slots t h" "slot_total t + l = (if free \<noteq> 0 then np - free else np)"
      using 2(1,2) ok False rec by (auto simp: rec_def split: if_splits)
    from ok(1) IH(1,2) have "host \<notin> set (dkeys t)" "host \<notin> set (dkeys r)" by auto
    then have "host \<notin> set (dkeys t)" "slots t host = 0" "slots r host = 0" by (auto intro: slots_absent)
    with IH out show ?thesis by (auto simp: dict_ok_def slot_total_def slots_Cons)
  qed
qed (auto simp: slot_total_def dict_ok_def)

lemma take_slots_nonneg:
  assumes "take_slots np hs = (hs', taken, left)" "\<forall>(h, n) \<in> set hs. 0 \<le> n" "0 \<le> np"
  shows "(\<forall>(h, n) \<in> set hs'. 0 \<le> n) \<and> (\<forall>(h, n) \<in> set taken. 0 < n) \<and> 0 \<le> left"
  using assms
  by (induction np hs arbitrary: hs' taken left rule: take_slots.induct)
    (fastforce split: if_splits prod.splits)+

lemma return_slots_spec:
  assumes "return_slots max_ppn res hs = (Inr u, hs')" "dict_ok res"
  shows "slots hs' h = slots hs h + slots res h"
  using assms
proof (induction max_ppn res hs arbitrary: hs' rule: return_slots.induct)
  case (2 max_ppn host n rest hs)
  then obtain free where free: "map_of hs host = Some free" "n + free \<le> max_ppn"
    "return_slots max_ppn rest (dset host (n + free) hs) = (Inr u, hs')"
    by (auto split: option.splits if_splits)
  have "host \<notin> set (dkeys rest)" "dict_ok rest" using 2(3) by (simp_all add: dict_ok_def)
  moreover from this(1) have "slots rest host = 0" by (rule slots_absent)
  ultimately show ?case using 2(1) [OF free(1) _ free(3)] free by (auto simp: slots_Cons slots_def)
qed simp

text \<open>The pool: a host's slots are moved between the service and the circuits, never made or lost.\<close>

definition consume_request :: "int \<times> int \<Rightarrow> hosts \<Rightarrow> (exc + hosts) \<times> hosts" where
  "consume_request q hs = (if dict_ok hs then consume_resources (fst q) (snd q) hs else (Inl (KeyError []), hs))"

definition return_request :: "int \<Rightarrow> hosts \<Rightarrow> hosts \<Rightarrow> (exc + unit) \<times> hosts" where
  "return_request max_ppn res hs = (if dict_ok res then return_slots max_ppn res hs else (Inl (KeyError []), hs))"

interpretation host_pool: pool slots slots consume_request "return_request max_ppn" for max_ppn
proof
  fix q s p t r
  show "slots s r = slots t r + slots p r" if "consume_request q s = (Inr p, t)"
    using that take_slots_spec(4)
    by (auto simp: consume_request_def consume_resources_def split: if_splits prod.splits)
next
  fix q s e t
  show "slots t = slots s" if "consume_request q s = (Inl e, t)"
    using that by (auto simp: consume_request_def consume_resources_def split: if_splits prod.splits)
next
  fix p s u t r
  show "slots t r = slots s r + slots p r" if "return_request max_ppn p s = (Inr u, t)"
    using that return_slots_spec by (auto simp: return_request_def split: if_splits)
qed

lemma consume_request_eq: "dict_ok hs \<Longrightarrow> consume_request (m, np) hs = consume_resources m np hs"
  by (simp add: consume_request_def)

lemma consume_taken:
  assumes "consume_resources m np hs = (Inr taken, hs')" "dict_ok hs"
  shows "dict_ok taken" "dkeys hs' = dkeys hs" "set (dkeys taken) \<subseteq> set (dkeys hs)" "slot_total taken = np"
  using assms take_slots_spec [of np hs hs' taken 0]
  by (auto simp: consume_resources_def split: if_splits prod.splits)

text \<open>Returning succeeds when no host has more slots than \<open>max_ppn\<close> together with what is lent.\<close>

lemma return_slots_succeeds:
  assumes "dict_ok res" "set (dkeys res) \<subseteq> set (dkeys hs)" "\<And>h. slots hs h + slots res h \<le> max_ppn"
  shows "\<exists>hs'. return_slots max_ppn res hs = (Inr (), hs')"
  using assms
proof (induction max_ppn res hs rule: return_slots.induct)
  case (2 max_ppn host n rest hs)
  have ok: "host \<notin> set (dkeys rest)" "dict_ok rest" using 2(2) by (simp_all add: dict_ok_def)
  have "host \<in> set (dkeys hs)" using 2(3) by simp
  then obtain free where free: "map_of hs host = Some free" by (metis map_of_eq_None_iff option.exhaust set_map)
  have le: "n + free \<le> max_ppn" using 2(4) [of host] free by (simp add: slots_def)
  have "slots (dset host (n + free) hs) h + slots rest h \<le> max_ppn" for h
    using 2(4) [of h] ok(1) le slots_absent [OF ok(1)] by (auto simp: slots_Cons)
  moreover have "set (dkeys rest) \<subseteq> set (dkeys (dset host (n + free) hs))"
    using 2(3) by (simp add: AList.dom_update subset_insertI2)
  ultimately show ?case using 2(1) [OF free _ ok(2)] free le by auto
qed simp

text \<open>
  The whole cycle: what a circuit took can be returned, and the hosts are as before, provided no
  host was set up with more slots than \<open>max_ppn\<close>.
\<close>

lemma borrow_and_return:
  assumes ok: "dict_ok hs" and cap: "\<And>h. slots hs h \<le> max_ppn"
    and run: "consume_resources m np hs = (Inr taken, hs')"
  shows "\<exists>hs''. return_slots max_ppn taken hs' = (Inr (), hs'') \<and> slots hs'' = slots hs"
proof -
  note t = consume_taken [OF run ok]
  have eq: "consume_request (m, np) hs = (Inr taken, hs')" using run ok by (simp add: consume_request_eq)
  have "slots hs' h + slots taken h \<le> max_ppn" for h
    using cap [of h] host_pool.taken [OF eq, of h] by simp
  with return_slots_succeeds [of taken hs' max_ppn] t obtain hs'' where r: "return_slots max_ppn taken hs' = (Inr (), hs'')"
    by auto
  then have "return_request max_ppn taken hs' = (Inr (), hs'')" using t(1) by (simp add: return_request_def)
  from host_pool.borrow_return [OF eq this] r show ?thesis by blast
qed

text \<open>A host configured with more slots than \<open>max_ppn\<close> refuses its slots when they come back.\<close>

lemma return_refused:
  "consume_resources 4 6 [(''h'', 8)] = (Inr [(''h'', 6)], [(''h'', 2)]) \<and>
   return_slots 4 [(''h'', 6)] [(''h'', 2)] = (Inl (DEFwError ''Returning more resources than originally had''), [(''h'', 2)])"
  by (simp add: consume_resources_def hosts_wanted_def truncated_quotient_def)

end
