(* ===== verification/QPM_Drain.thy ===== *)
theory QPM_Drain
  imports QPM_Interfaces
begin

text \<open>
  The protocol by which threads share the out-of-resources queue: \<^verbatim>\<open>begin_oor_drain\<close> and
  \<^verbatim>\<open>end_oor_drain\<close> of \<^verbatim>\<open>controller.py\<close> and the loop of \<^verbatim>\<open>process_oor_queue\<close> in \<^verbatim>\<open>util_qpm.py\<close>.
  A program counter says which atomic action a thread does next: each access of the flag is under
  the controller's lock, and the drain lock is taken and released on its own. \<open>unserved\<close> is not
  in the code: it is set when a thread calls \<^verbatim>\<open>process_oor_queue\<close> and cleared when a pass over
  the queue starts, which sees whatever the caller freed before. The lemmas show that passes
  never overlap and that, as long as no pass raises, no call is left without a pass.
\<close>

section \<open>The protocol\<close>

datatype drain_pc =
    Idle            \<comment> \<open>outside \<^verbatim>\<open>process_oor_queue\<close>\<close>
  | Ask             \<comment> \<open>about to set \<^verbatim>\<open>oor_drain_requested\<close>\<close>
  | Acquire         \<comment> \<open>about to try the drain lock\<close>
  | Clear           \<comment> \<open>holds the lock, about to clear the flag\<close>
  | Draining        \<comment> \<open>in \<^verbatim>\<open>_drain_oor_queue\<close>\<close>
  | Let_go bool     \<comment> \<open>about to release the lock; whether the pass raised\<close>
  | Look bool       \<comment> \<open>about to read the flag; whether the pass raised\<close>

record drain_state =
  oor_drain_lock :: bool
  oor_drain_requested :: bool
  pc :: "nat \<Rightarrow> drain_pc"
  unserved :: bool

definition at_pc :: "nat \<Rightarrow> drain_pc \<Rightarrow> drain_state \<Rightarrow> drain_state" where
  "at_pc t l s = s\<lparr>pc := (pc s)(t := l)\<rparr>"

definition drain_init :: drain_state where
  "drain_init = \<lparr>oor_drain_lock = False, oor_drain_requested = False, pc = (\<lambda>_. Idle), unserved = False\<rparr>"

text \<open>The steps; the argument says whether a pass may raise.\<close>

inductive drain_step :: "bool \<Rightarrow> drain_state \<Rightarrow> drain_state \<Rightarrow> bool" for raising where
  call: "pc s t = Idle \<Longrightarrow> drain_step raising s (at_pc t Ask (s\<lparr>unserved := True\<rparr>))"
| ask: "pc s t = Ask \<Longrightarrow> drain_step raising s (at_pc t Acquire (s\<lparr>oor_drain_requested := True\<rparr>))"
| acquired: "pc s t = Acquire \<Longrightarrow> \<not> oor_drain_lock s \<Longrightarrow>
    drain_step raising s (at_pc t Clear (s\<lparr>oor_drain_lock := True\<rparr>))"
| refused: "pc s t = Acquire \<Longrightarrow> oor_drain_lock s \<Longrightarrow> drain_step raising s (at_pc t Idle s)"
| clear: "pc s t = Clear \<Longrightarrow>
    drain_step raising s (at_pc t Draining (s\<lparr>oor_drain_requested := False, unserved := False\<rparr>))"
| drained: "pc s t = Draining \<Longrightarrow> drain_step raising s (at_pc t (Let_go False) s)"
| raised: "raising \<Longrightarrow> pc s t = Draining \<Longrightarrow> drain_step raising s (at_pc t (Let_go True) s)"
| let_go: "pc s t = Let_go e \<Longrightarrow> drain_step raising s (at_pc t (Look e) (s\<lparr>oor_drain_lock := False\<rparr>))"
| again: "pc s t = Look False \<Longrightarrow> oor_drain_requested s \<Longrightarrow> drain_step raising s (at_pc t Ask s)"
| finished: "pc s t = Look False \<Longrightarrow> \<not> oor_drain_requested s \<Longrightarrow> drain_step raising s (at_pc t Idle s)"
| escaped: "pc s t = Look True \<Longrightarrow> drain_step raising s (at_pc t Idle s)"

inductive_cases drain_stepE: "drain_step raising s t"

inductive drain_reach :: "bool \<Rightarrow> drain_state \<Rightarrow> bool" for raising where
  reach_init: "drain_reach raising drain_init"
| reach_step: "drain_reach raising s \<Longrightarrow> drain_step raising s t \<Longrightarrow> drain_reach raising t"

section \<open>Mutual exclusion\<close>

definition holding :: "drain_pc \<Rightarrow> bool" where
  "holding l \<longleftrightarrow> l = Clear \<or> l = Draining \<or> (\<exists>e. l = Let_go e)"

lemma holding_simps [simp]:
  "\<not> holding Idle" "\<not> holding Ask" "\<not> holding Acquire" "holding Clear" "holding Draining"
  "holding (Let_go e)" "\<not> holding (Look e)"
  by (auto simp: holding_def)

definition holders :: "drain_state \<Rightarrow> nat set" where
  "holders s = {t. holding (pc s t)}"

lemma holders_at [simp]: "holders (at_pc t l s) = (if holding l then insert t (holders s) else holders s - {t})"
  by (auto simp: holders_def at_pc_def)

lemma holders_upd [simp]:
  "holders (s\<lparr>oor_drain_lock := b\<rparr>) = holders s" "holders (s\<lparr>oor_drain_requested := b\<rparr>) = holders s"
  "holders (s\<lparr>unserved := b\<rparr>) = holders s"
  by (simp_all add: holders_def)

lemma lock_at [simp]: "oor_drain_lock (at_pc t l s) = oor_drain_lock s"
  by (simp add: at_pc_def)

definition exclusive :: "drain_state \<Rightarrow> bool" where
  "exclusive s \<longleftrightarrow> (if oor_drain_lock s then \<exists>t. holders s = {t} else holders s = {})"

lemma pc_holders: "pc s t = l \<Longrightarrow> t \<in> holders s \<longleftrightarrow> holding l"
  by (simp add: holders_def)

lemma exclusive_step: "drain_step raising s t \<Longrightarrow> exclusive s \<Longrightarrow> exclusive t"
  by (induction rule: drain_step.induct; frule pc_holders) (auto simp: exclusive_def split: if_splits)

lemma reach_exclusive: "drain_reach raising s \<Longrightarrow> exclusive s"
proof (induction rule: drain_reach.induct)
  case reach_init
  show ?case by (simp add: exclusive_def holders_def drain_init_def)
qed (rule exclusive_step)

section \<open>No call is lost\<close>

text \<open>Threads at a given point of the loop.\<close>

definition threads_at :: "(drain_pc \<Rightarrow> bool) \<Rightarrow> drain_state \<Rightarrow> nat set" where
  "threads_at P s = {t. P (pc s t)}"

lemma threads_at_pc: "threads_at P (at_pc t l s) = (if P l then insert t (threads_at P s) else threads_at P s - {t})"
  by (auto simp: threads_at_def at_pc_def)

lemma threads_at_upd [simp]:
  "threads_at P (s\<lparr>oor_drain_lock := b\<rparr>) = threads_at P s" "threads_at P (s\<lparr>oor_drain_requested := b\<rparr>) = threads_at P s"
  "threads_at P (s\<lparr>unserved := b\<rparr>) = threads_at P s"
  by (simp_all add: threads_at_def)

lemma in_threads_at: "pc s t = l \<Longrightarrow> t \<in> threads_at P s \<longleftrightarrow> P l"
  by (simp add: threads_at_def)

definition raising_pc :: "drain_pc \<Rightarrow> bool" where
  "raising_pc l \<longleftrightarrow> l = Look True \<or> l = Let_go True"

definition served_later :: "drain_state \<Rightarrow> bool" where
  "served_later s \<longleftrightarrow> threads_at raising_pc s = {} \<and>
     (unserved s \<longrightarrow> threads_at (\<lambda>l. l = Ask) s \<noteq> {} \<or>
        (oor_drain_requested s \<and> threads_at (\<lambda>l. l \<noteq> Idle) s \<noteq> {}))"

lemma flags_at [simp]:
  "unserved (at_pc t l s) = unserved s" "oor_drain_requested (at_pc t l s) = oor_drain_requested s"
  by (simp_all add: at_pc_def)

lemma busy_other: "u \<in> holders s \<Longrightarrow> u \<in> threads_at (\<lambda>l. l \<noteq> Idle) s"
  by (auto simp: holders_def threads_at_def)

lemma served_later_step:
  "drain_step raising s t \<Longrightarrow> \<not> raising \<Longrightarrow> exclusive s \<Longrightarrow> served_later s \<Longrightarrow> served_later t"
proof (induction rule: drain_step.induct)
  case (refused s t)
  then obtain u where u: "holders s = {u}" by (auto simp: exclusive_def)
  then have "u \<noteq> t" using pc_holders [OF refused(1)] by auto
  then have "u \<in> threads_at (\<lambda>l. l \<noteq> Idle) s - {t}" using u busy_other by auto
  then show ?case
    using refused in_threads_at [OF refused(1), of "\<lambda>l. l = Ask"]
    by (auto simp: served_later_def threads_at_pc raising_pc_def)
next
  case (let_go s t e)
  then have "\<not> e" using in_threads_at [OF let_go(1), of raising_pc] by (auto simp: served_later_def raising_pc_def)
  with let_go in_threads_at [OF let_go(1), of "\<lambda>l. l = Ask"] show ?case
    by (auto simp: served_later_def threads_at_pc raising_pc_def)
next
  case (escaped s t)
  then show ?case using in_threads_at [OF escaped(1), of raising_pc] by (auto simp: served_later_def raising_pc_def)
next
  case (acquired s t)
  then show ?case using in_threads_at [OF acquired(1), of "\<lambda>l. l = Ask"]
    by (auto simp: served_later_def threads_at_pc raising_pc_def)
next
  case (drained s t)
  then show ?case using in_threads_at [OF drained(1), of "\<lambda>l. l = Ask"]
    by (auto simp: served_later_def threads_at_pc raising_pc_def)
next
  case (finished s t)
  then show ?case using in_threads_at [OF finished(1), of "\<lambda>l. l = Ask"]
    by (auto simp: served_later_def threads_at_pc raising_pc_def)
qed (auto simp: served_later_def threads_at_pc raising_pc_def)

lemma reach_served: "drain_reach False s \<Longrightarrow> served_later s"
proof (induction rule: drain_reach.induct)
  case reach_init
  show ?case by (simp add: served_later_def drain_init_def threads_at_def raising_pc_def)
next
  case (reach_step s t)
  then show ?case using served_later_step reach_exclusive by blast
qed

text \<open>When every thread has returned, every call has had its pass.\<close>

lemma quiescent_served:
  assumes "drain_reach False s" "\<And>t. pc s t = Idle"
  shows "\<not> unserved s"
  using reach_served [OF assms(1)] assms(2) by (auto simp: served_later_def threads_at_def)

section \<open>Runs\<close>

text \<open>The next step of a thread as a function; the flag says whether a pass it is in raises.\<close>

definition drain_next :: "bool \<times> nat \<Rightarrow> drain_state \<Rightarrow> drain_state" where
  "drain_next e s =
     (case e of (fails, t) \<Rightarrow>
        (case pc s t of
           Idle \<Rightarrow> at_pc t Ask (s\<lparr>unserved := True\<rparr>)
         | Ask \<Rightarrow> at_pc t Acquire (s\<lparr>oor_drain_requested := True\<rparr>)
         | Acquire \<Rightarrow> if oor_drain_lock s then at_pc t Idle s else at_pc t Clear (s\<lparr>oor_drain_lock := True\<rparr>)
         | Clear \<Rightarrow> at_pc t Draining (s\<lparr>oor_drain_requested := False, unserved := False\<rparr>)
         | Draining \<Rightarrow> at_pc t (Let_go fails) s
         | Let_go f \<Rightarrow> at_pc t (Look f) (s\<lparr>oor_drain_lock := False\<rparr>)
         | Look f \<Rightarrow> if \<not> f \<and> oor_drain_requested s then at_pc t Ask s else at_pc t Idle s))"

lemma drain_next_step: "(fst e \<Longrightarrow> raising) \<Longrightarrow> drain_step raising s (drain_next e s)"
  apply (cases e; cases "pc s (snd e)")
        apply (auto simp: drain_next_def intro: drain_step.intros split: bool.splits)
    apply (metis drained raised)
   apply (metis escaped finished)
  done

interpretation drain_machine: started_machine drain_next "drain_reach True" drain_init
  by unfold_locales (auto intro: reach_init reach_step drain_next_step)

text \<open>A run in which no pass raises.\<close>

lemma quiet_run_reach: "list_all (\<lambda>e. \<not> fst e) es \<Longrightarrow> drain_reach False (fold drain_next es drain_init)"
proof (induction es rule: rev_induct)
  case Nil
  show ?case by (simp add: reach_init)
next
  case (snoc e es)
  then show ?case using reach_step drain_next_step [of e False] by auto
qed

text \<open>
  A pass that raises leaves the loop without looking at the flag, so a call made meanwhile is
  left without a pass: thread 1 calls while thread 0 is in a pass that raises.
\<close>

definition lost_call_run :: "(bool \<times> nat) list" where
  "lost_call_run = map (\<lambda>t. (False, t)) [0, 0, 0, 0, 1, 1, 1] @ map (\<lambda>t. (True, t)) [0, 0, 0]"

lemma raising_pass_loses_call:
  "\<exists>s. drain_reach True s \<and> (\<forall>t. pc s t = Idle) \<and> unserved s"
proof -
  have "drain_reach True (fold drain_next lost_call_run drain_init)" by (rule drain_machine.always)
  moreover have "(\<forall>t. pc (fold drain_next lost_call_run drain_init) t = Idle) \<and>
      unserved (fold drain_next lost_call_run drain_init)"
    by (simp add: lost_call_run_def drain_next_def drain_init_def at_pc_def)
  ultimately show ?thesis by blast
qed

end
