(* ===== verification/QPM_Service.thy ===== *)
theory QPM_Service
  imports QPM_Hosts QPM_Close QPM_Reservations
begin

text \<open>
  The service around the controller (\<^verbatim>\<open>services/util/qpm/util_qpm.py\<close>): creation and deletion of
  circuits, the queue of circuits that wait for resources, preparation and submission of a circuit,
  and the synchronous and asynchronous runs. The service holds the controller, the free slots of the
  hosts and the waiting queue. The provider, the identifiers \<^verbatim>\<open>uuid4\<close> makes and the hooks that
  concrete services override are arguments. One call is one function of the state; what other
  threads do between the attempts of a synchronous run is an argument as well. A loop without an
  evident bound takes the number of its rounds as fuel: the drain of the queue answers \<open>NoReturn\<close>
  when it is used up, the loops that wait answer None.
\<close>

section \<open>State\<close>

record service =
  sv_controller :: controller
  sv_hosts :: hosts
  oor_queue :: "string list"
  all_results :: "pydict list"
  oor_drain_locked :: bool
  oor_drain_requested :: bool
  cids_made :: nat
  has_qrc :: bool
  qpm_initialized :: bool
  qpm_directory_registered :: bool

type_synonym 'a svc = "(service, 'a) pm"

record service_env =
  qpm :: qpm_env
  this_thread :: int
  auth_variable :: string
  own_max_ppn :: int
  qubits_per_process :: int
  round_quotient :: "int \<Rightarrow> int \<Rightarrow> int"
  nearest_power :: "int \<Rightarrow> int"
  uuid4 :: "nat \<Rightarrow> string"
  circuit_hook :: "pydict \<Rightarrow> exc + pydict option"
  submission_hook :: "circuit \<Rightarrow> exc + circuit"
  provider_events :: "ext_call list \<Rightarrow> string \<Rightarrow> circuit_event list"
  float_ns :: "pyval \<Rightarrow> exc + int"
  wall_clock :: "nat \<Rightarrow> int"
  others :: "nat \<Rightarrow> service \<Rightarrow> service"
  drain_fuel :: nat

definition on_controller :: "'a ctl \<Rightarrow> 'a svc" where
  "on_controller m = (\<lambda>s. case m (sv_controller s) of (r, c) \<Rightarrow> (r, s\<lparr>sv_controller := c\<rparr>))"

definition upd_circuit :: "string \<Rightarrow> (circuit \<Rightarrow> circuit) \<Rightarrow> controller \<Rightarrow> controller" where
  "upd_circuit cid f s = s\<lparr>circuit_heap := dset cid (f (circuit_object cid s)) (circuit_heap s)\<rparr>"

definition circuit_field :: "string \<Rightarrow> string \<Rightarrow> service \<Rightarrow> pyval option" where
  "circuit_field cid key s = map_of (c_info (circuit_object cid (sv_controller s))) key"

section \<open>Circuits\<close>

definition prepared_payload :: "service_env \<Rightarrow> pydict \<Rightarrow> exc + pydict" where
  "prepared_payload env info =
     bindE (circuit_hook env info) (\<lambda>changed. Inr (case changed of Some d \<Rightarrow> d | None \<Rightarrow> info))"

definition enter_circuit :: "string \<Rightarrow> circuit \<Rightarrow> controller \<Rightarrow> controller" where
  "enter_circuit cid c s = s\<lparr>circuit_heap := dset cid c (circuit_heap s), circuits := List.insert cid (circuits s)\<rparr>"

definition create_circuit :: "service_env \<Rightarrow> pydict \<Rightarrow> execution_request option \<Rightarrow> string svc" where
  "create_circuit env info request =
     bindM (getM cids_made) (\<lambda>n.
     seqM (modM (\<lambda>s. s\<lparr>cids_made := Suc n\<rparr>))
     (let cid = uuid4 env n
      in bindM (liftM (prepared_payload env (case request of Some r \<Rightarrow> er_payload r | None \<Rightarrow> info))) (\<lambda>prepared.
         bindM (liftM (case request of
                         None \<Rightarrow> parse_execution_request (auth_variable env) prepared []
                       | Some r \<Rightarrow> Inr \<lparr>er_payload = prepared, er_context = er_context r\<rparr>)) (\<lambda>req.
         seqM (on_controller
            (bindM (register_circuit (qpm env) cid (er_context req) (er_payload req)) (\<lambda>(runtime, payload).
             bindM (liftM (new_circuit (round_quotient env) (nearest_power env) (qubits_per_process env) cid payload)) (\<lambda>c.
             bindM (time_ns (qpm env)) (\<lambda>now. modM (enter_circuit cid (snd (set_ready now c))))))))
          (retM cid)))))"

text \<open>The request a call with a reservation stands for.\<close>

definition reservation_request :: "service_env \<Rightarrow> pyval \<Rightarrow> pyval \<Rightarrow> exc + execution_request" where
  "reservation_request env reservation_id token =
     parse_execution_request (auth_variable env) [] [(''reservation_id'', reservation_id), (''token'', token)]"

definition execution_error :: "exc \<Rightarrow> exc" where
  "execution_error e =
     (case e of
        QPMAdmissionUnavailable m \<Rightarrow> DEFwExecutionError m
      | QPMAdmissionValidationError m \<Rightarrow> DEFwExecutionError m
      | _ \<Rightarrow> e)"

definition require_managed_execution :: "service_env \<Rightarrow> execution_request \<Rightarrow> unit svc" where
  "require_managed_execution env request =
     bindM (getM (\<lambda>s. service_state (sv_controller s))) (\<lambda>state.
       if state \<noteq> ''running''
       then raiseM (DEFwExecutionError (''QPM is not accepting execution: state='' @ state))
       else case rc_reservation_id (er_context request) of
              Some rid \<Rightarrow>
                tryM (on_controller
                   (seqM (validate_reservation_for_context (qpm env) (er_context request) ''execution'')
                   (seqM (provider_credential_for_reservation (qpm env) (PInt rid) ''execution'') (retM ()))))
                  (\<lambda>e. raiseM (execution_error e))
            | None \<Rightarrow> raiseM (DEFwExecutionError
                ''reservation_id is required for resource-affecting QPM execution''))"

definition managed_reservation :: "service_env \<Rightarrow> pyval \<Rightarrow> pyval \<Rightarrow> unit svc" where
  "managed_reservation env reservation_id token =
     (if reservation_id = PNone then retM ()
      else bindM (liftM (reservation_request env reservation_id token)) (require_managed_execution env))"

definition require_initialized :: "unit svc" where
  "require_initialized =
     bindM (getM qpm_initialized) (\<lambda>ready. if ready then retM () else raiseM (DEFwNotReady ''QPM has not initialized properly''))"

definition known_task_error :: "pyval \<Rightarrow> pyval \<Rightarrow> bool \<Rightarrow> pydict option ctl" where
  "known_task_error cid reservation_id require =
     bindM (liftM (normalize_optional_reservation_id reservation_id)) (\<lambda>rid.
     getM (\<lambda>s. case known_task cid PNone s of None \<Rightarrow> None | Some r \<Rightarrow> task_reservation_error r rid require))"

definition delete_circuit :: "service_env \<Rightarrow> string \<Rightarrow> pyval \<Rightarrow> pyval \<Rightarrow> pydict option svc" where
  "delete_circuit env cid reservation_id token =
     seqM require_initialized
     (seqM (managed_reservation env reservation_id token)
     (bindM (on_controller (known_task_error (PStr cid) reservation_id True)) (\<lambda>error.
        case error of
          Some e \<Rightarrow> retM (Some e)
        | None \<Rightarrow>
            seqM (on_controller (bindM (getM (listed_circuit cid)) (\<lambda>found.
               case found of
                 None \<Rightarrow> retM ()
               | Some c \<Rightarrow>
                   if can_delete c
                   then seqM (modM (\<lambda>s. s\<lparr>circuits := removeAll cid (circuits s)\<rparr>))
                          (seqM (cleanup_circuit cid) (retM ()))
                   else modM (upd_circuit cid (\<lambda>c. snd (set_deletion c))))))
              (retM None))))"

section \<open>Slots\<close>

definition hosts_value :: "hosts \<Rightarrow> pyval" where
  "hosts_value hs = PDict (map (\<lambda>(h, n). (h, PInt n)) hs)"

fun hosts_of :: "pydict \<Rightarrow> exc + hosts" where
  "hosts_of [] = Inr []"
| "hosts_of ((h, v) # rest) = bindE (py_number v) (\<lambda>n. bindE (hosts_of rest) (\<lambda>hs. Inr ((h, n) # hs)))"

definition circuit_hosts :: "string \<Rightarrow> controller \<Rightarrow> exc + hosts" where
  "circuit_hosts cid s =
     (case map_of (c_info (circuit_object cid s)) ''hosts'' of
        None \<Rightarrow> Inl (KeyError ''hosts'') | Some v \<Rightarrow> bindE (py_dict v) hosts_of)"

definition take_resources :: "service_env \<Rightarrow> string \<Rightarrow> unit svc" where
  "take_resources env cid =
     bindM (getM (circuit_field cid ''np'')) (\<lambda>field.
     bindM (liftM (case field of None \<Rightarrow> Inl (KeyError ''np'') | Some v \<Rightarrow> py_number v)) (\<lambda>np.
     bindM (\<lambda>s. case consume_resources (own_max_ppn env) np (sv_hosts s) of (r, hs) \<Rightarrow> (r, s\<lparr>sv_hosts := hs\<rparr>)) (\<lambda>taken.
       on_controller (modM (set_circuit_info cid (dset ''hosts'' (hosts_value taken)))))))"

definition return_hosts :: "service_env \<Rightarrow> string \<Rightarrow> unit svc" where
  "return_hosts env cid =
     bindM (on_controller (bindM (getM (circuit_hosts cid)) liftM)) (\<lambda>res.
     bindM (\<lambda>s. case return_slots (own_max_ppn env) res (sv_hosts s) of (r, hs) \<Rightarrow> (r, s\<lparr>sv_hosts := hs\<rparr>)) (\<lambda>_.
       on_controller
         (seqM (modM (upd_circuit cid (\<lambda>c. snd (set_done c))))
         (seqM (modM (\<lambda>s. s\<lparr>circuits := removeAll cid (circuits s)\<rparr>))
         (seqM (cleanup_circuit cid) (retM ()))))))"

definition finalize_provider_task :: "service_env \<Rightarrow> string \<Rightarrow> pyval \<Rightarrow> unit svc" where
  "finalize_provider_task env cid result =
     bindM (getM (\<lambda>s. c_state (circuit_object cid (sv_controller s)))) (\<lambda>state.
       if state = FAIL
       then let reason = py_or (case result of PDict d \<Rightarrow> pget d ''reason'' | _ \<Rightarrow> PNone) (PStr ''provider-execution-failed'')
            in seqM (on_controller (fail_scheduled_task (qpm env) cid None reason (result = PNone))) (retM ())
       else if state \<in> {EXEC_DONE, RESOURCES_CONSUMED}
       then seqM (on_controller (complete_scheduled_task (qpm env) cid result)) (retM ())
       else retM ())"

definition free_resources :: "service_env \<Rightarrow> string \<Rightarrow> pyval \<Rightarrow> unit svc" where
  "free_resources env cid result = finallyM (finalize_provider_task env cid result) (return_hosts env cid)"

definition free_if_held :: "service_env \<Rightarrow> string \<Rightarrow> unit svc" where
  "free_if_held env cid =
     bindM (getM (circuit_field cid ''hosts'')) (\<lambda>field. if field = None then retM () else free_resources env cid PNone)"

definition fail_provider_submission :: "service_env \<Rightarrow> string \<Rightarrow> exc \<Rightarrow> unit svc" where
  "fail_provider_submission env cid error =
     seqM (on_controller (fail_scheduled_task (qpm env) cid (Some (exc_text error, exc_type_name error))
       (PStr ''provider-submission-failed'') True)) (retM ())"

section \<open>The waiting queue\<close>

text \<open>The three walks take every entry from the queue and put back what stays.\<close>

fun prune_walk :: "controller \<Rightarrow> string list \<Rightarrow> string list \<Rightarrow> string list" where
  "prune_walk c [] active = active"
| "prune_walk c (cid # queue) active =
     prune_walk c queue (if task_ended (task_for_cid cid c) then active else active @ [cid])"

definition prune_oor_queue :: "string list svc" where
  "prune_oor_queue =
     bindM (getM (\<lambda>s. prune_walk (sv_controller s) (oor_queue s) [])) (\<lambda>active.
       seqM (modM (\<lambda>s. s\<lparr>oor_queue := active\<rparr>)) (retM active))"

fun remove_walk :: "string \<Rightarrow> string list \<Rightarrow> bool \<Rightarrow> string list \<Rightarrow> string list" where
  "remove_walk dispatched [] removed pending = pending"
| "remove_walk dispatched (cid # queue) removed pending =
     (if \<not> removed \<and> cid = dispatched then remove_walk dispatched queue True pending
      else remove_walk dispatched queue removed (pending @ [cid]))"

definition remove_oor_cid :: "string option \<Rightarrow> unit svc" where
  "remove_oor_cid dispatched =
     (case dispatched of
        None \<Rightarrow> retM ()
      | Some cid \<Rightarrow> modM (\<lambda>s. s\<lparr>oor_queue := remove_walk cid (oor_queue s) False []\<rparr>))"

fun next_walk :: "controller \<Rightarrow> string list \<Rightarrow> string option \<Rightarrow> string list \<Rightarrow> string option \<times> string list" where
  "next_walk c [] selected pending = (selected, pending)"
| "next_walk c (cid # queue) selected pending =
     next_walk c queue
       (if selected = None \<and> (case task_for_cid cid c of Some r \<Rightarrow> rt_scheduler_task_id r = PNone | None \<Rightarrow> False)
        then Some cid else selected) (pending @ [cid])"

definition next_oor_cid_without_scheduler_task :: "string option svc" where
  "next_oor_cid_without_scheduler_task =
     bindM (getM (\<lambda>s. next_walk (sv_controller s) (oor_queue s) None [])) (\<lambda>(selected, pending).
       seqM (modM (\<lambda>s. s\<lparr>oor_queue := pending\<rparr>)) (retM selected))"

definition queue_oor :: "string \<Rightarrow> service \<Rightarrow> service" where
  "queue_oor cid s = s\<lparr>oor_queue := oor_queue s @ [cid]\<rparr>"

definition begin_oor_drain :: "bool svc" where
  "begin_oor_drain =
     bindM (getM oor_drain_locked) (\<lambda>locked.
       if locked then seqM (modM (\<lambda>s. s\<lparr>oor_drain_requested := True\<rparr>)) (retM False)
       else seqM (modM (\<lambda>s. s\<lparr>oor_drain_locked := True, oor_drain_requested := False\<rparr>)) (retM True))"

definition end_oor_drain :: "bool svc" where
  "end_oor_drain = seqM (modM (\<lambda>s. s\<lparr>oor_drain_locked := False\<rparr>)) (getM oor_drain_requested)"

definition defer_local_retry :: "string \<Rightarrow> unit svc" where
  "defer_local_retry cid =
     on_controller (bindM (getM (task_for_cid cid)) (\<lambda>found.
       case found of
         Some r \<Rightarrow>
           if rt_state r \<in> {QPM_TASK_CREATED, QPM_TASK_CAPACITY_HELD}
           then seqM (set_task_state (rt_qtask_id r) QPM_TASK_PENDING_CAPACITY) (retM ()) else retM ()
       | None \<Rightarrow> retM ()))"

section \<open>Preparing a circuit\<close>

definition dispatch_error :: "exc \<Rightarrow> exc" where
  "dispatch_error e =
     (case e of
        QPMTaskNotActive m \<Rightarrow> QTaskNotActive m
      | QPMAdmissionPendingCapacity m \<Rightarrow> DEFwOutOfResources m
      | QPMAdmissionUnavailable m \<Rightarrow> DEFwExecutionError m
      | QPMAdmissionValidationError m \<Rightarrow> DEFwExecutionError m
      | QPMSchedulerUnavailable m \<Rightarrow> DEFwExecutionError m
      | QPMSchedulerQueueEmpty m \<Rightarrow> DEFwExecutionError m
      | QPMSchedulerError m \<Rightarrow> DEFwExecutionError m
      | _ \<Rightarrow> e)"

text \<open>The task a selection handed out. A selection only hands out tasks of the table.\<close>

definition handed_out :: "int \<Rightarrow> controller \<Rightarrow> runtime_task" where
  "handed_out qtask_id s =
     (case task_for_qtask_id qtask_id s of Some r \<Rightarrow> r | None \<Rightarrow> new_runtime [] qtask_id None)"

definition select_task :: "service_env \<Rightarrow> runtime_task option ctl" where
  "select_task env =
     bindM (select_qtask_for_dispatch (qpm env) (this_thread env)) (\<lambda>found.
       case found of
         None \<Rightarrow> retM None
       | Some q \<Rightarrow> bindM (getM (handed_out q)) (\<lambda>r. retM (Some r)))"

definition admit_and_select :: "service_env \<Rightarrow> string \<Rightarrow> runtime_task option svc" where
  "admit_and_select env cid =
     tryM (on_controller
        (bindM (circuit_qtask_id cid) (\<lambda>qtask_id.
         bindM (getM capacity_holds) (\<lambda>holds.
         seqM (if has_key holds qtask_id then retM () else seqM (authorize_capacity_hold (qpm env) cid) (retM ()))
         (seqM (submit_qtask_to_scheduler (qpm env) cid) (select_task env))))))
       (\<lambda>e. raiseM (dispatch_error e))"

definition not_active_cid :: "string \<Rightarrow> exc" where
  "not_active_cid cid = QTaskNotActive (''qtask circuit record is no longer active: cid='' @ cid)"

definition note_consumed :: "service_env \<Rightarrow> runtime_task \<Rightarrow> unit svc" where
  "note_consumed env runtime =
     on_controller (bindM (time_ns (qpm env)) (\<lambda>now.
       seqM (modM (upd_circuit (rt_cid runtime) (\<lambda>c. snd (set_resources_consumed now c))))
         (seqM (set_task_state (rt_qtask_id runtime) QPM_TASK_RESOURCES_CONSUMED) (retM ()))))"

definition consume_for_dispatch :: "service_env \<Rightarrow> runtime_task \<Rightarrow> string svc" where
  "consume_for_dispatch env runtime =
     bindM (getM sv_controller) (\<lambda>c.
       if rt_cid runtime \<notin> set (circuits c) \<or> task_ended (task_for_qtask_id (rt_qtask_id runtime) c)
       then raiseM (not_active_cid (rt_cid runtime))
       else seqM (take_resources env (rt_cid runtime)) (seqM (note_consumed env runtime) (retM (rt_cid runtime))))"

definition release_claim :: "int \<Rightarrow> unit svc" where
  "release_claim qtask_id = on_controller (modM (release_dispatch_claim qtask_id))"

definition prepare_submission :: "service_env \<Rightarrow> string \<Rightarrow> unit svc" where
  "prepare_submission env cid =
     seqM (bindM (getM (circuit_field cid ''reservation_id'')) (\<lambda>rid.
             if rid \<in> {None, Some PNone} then retM () else on_controller (attach_provider_credential (qpm env) cid)))
     (bindM (getM (\<lambda>s. circuit_object cid (sv_controller s))) (\<lambda>c.
      bindM (liftM (submission_hook env c)) (\<lambda>c'. on_controller (modM (upd_circuit cid (\<lambda>_. c'))))))"

definition finish_preparation :: "service_env \<Rightarrow> string \<Rightarrow> string svc" where
  "finish_preparation env circuit =
     seqM (catchM (prepare_submission env circuit)
             (\<lambda>e. seqM (fail_provider_submission env circuit e)
                  (seqM (free_resources env circuit PNone) (raiseM e))))
       (retM circuit)"

definition prepare_run_circuit :: "service_env \<Rightarrow> string \<Rightarrow> bool \<Rightarrow> string svc" where
  "prepare_run_circuit env cid require_selected_cid =
     bindM (getM (\<lambda>s. circuits (sv_controller s))) (\<lambda>listed.
       if cid \<notin> set listed then raiseM (not_active_cid cid)
       else bindM (admit_and_select env cid) (\<lambda>selected.
         case selected of
           None \<Rightarrow> raiseM (DEFwOutOfResources ''scheduler has no dispatch slot available'')
         | Some runtime \<Rightarrow>
             bindM (catchM (if require_selected_cid \<and> rt_cid runtime \<noteq> cid
                            then raiseM (DEFwOutOfResources ''scheduler selected earlier queued work'')
                            else consume_for_dispatch env runtime)
                      (\<lambda>e. seqM (release_claim (rt_qtask_id runtime)) (raiseM e)))
               (finish_preparation env)))"

section \<open>Submitting to the provider\<close>

definition start_submission :: "service_env \<Rightarrow> string \<Rightarrow> runtime_task option svc" where
  "start_submission env cid =
     tryM (on_controller (start_provider_submission (qpm env) cid None))
       (\<lambda>e. raiseM (case e of QPMTaskNotActive m \<Rightarrow> QTaskNotActive m | _ \<Rightarrow> e))"

text \<open>The provider changes the circuit through its setters only.\<close>

definition call_provider :: "service_env \<Rightarrow> (string \<Rightarrow> pydict \<Rightarrow> ext_call) \<Rightarrow> string \<Rightarrow> pyval svc" where
  "call_provider env call cid =
     bindM (getM has_qrc) (\<lambda>qrc.
       if \<not> qrc then raiseM (AttributeError ''NoneType'')
       else on_controller
         (bindM (getM (\<lambda>s. provider_events env (history s) cid)) (\<lambda>events.
          seqM (modM (upd_circuit cid (circuit_run events)))
          (bindM (getM (\<lambda>s. c_info (circuit_object cid s))) (\<lambda>info.
           bindM (ext (qpm env) (call cid info)) (\<lambda>v.
             retM (case v of EVal x \<Rightarrow> x | EObj d \<Rightarrow> PDict d | EVals vs \<Rightarrow> PNone)))))))"

definition submit_provider_sync :: "service_env \<Rightarrow> string \<Rightarrow> pyval svc" where
  "submit_provider_sync env cid =
     bindM (start_submission env cid) (\<lambda>runtime.
       if runtime = None then raiseM (DEFwOutOfResources ''qtask is already submitted'')
       else call_provider env ProviderSync cid)"

definition status_of :: "service_env \<Rightarrow> string \<Rightarrow> pyval \<Rightarrow> pydict svc" where
  "status_of env cid reservation_id =
     on_controller (task_status_for_cid (qpm env) cid PNone PNone PNone PNone reservation_id False)"

definition circuit_status_answer :: "service_env \<Rightarrow> string \<Rightarrow> bool \<Rightarrow> pydict option svc" where
  "circuit_status_answer env cid return_status =
     (if return_status
      then bindM (getM (circuit_field cid ''reservation_id'')) (\<lambda>rid.
           bindM (status_of env cid (case rid of Some v \<Rightarrow> v | None \<Rightarrow> PNone)) (\<lambda>status. retM (Some status)))
      else retM None)"

definition bind_handle :: "string \<Rightarrow> pyval \<Rightarrow> bool ctl" where
  "bind_handle cid provider_handle =
     (if provider_handle = PNone then retM False
      else bindM (getM (task_for_cid cid)) (\<lambda>found.
        case found of
          None \<Rightarrow> retM False
        | Some r \<Rightarrow> seqM (bind_provider_handle (rt_qtask_id r) (py_str provider_handle)) (retM True)))"

definition submit_provider_async :: "service_env \<Rightarrow> string \<Rightarrow> bool \<Rightarrow> pydict option svc" where
  "submit_provider_async env cid return_status =
     bindM (start_submission env cid) (\<lambda>runtime.
     bindM (circuit_status_answer env cid return_status) (\<lambda>response.
       if runtime = None then retM response
       else bindM (call_provider env ProviderAsync cid) (\<lambda>provider_handle.
            bindM (on_controller (bind_handle cid provider_handle)) (\<lambda>bound.
              retM (if bound then map_option (dset ''provider_handle'' provider_handle) response else response)))))"

definition not_active_answer :: "string \<Rightarrow> pydict" where
  "not_active_answer cid = [(''cid'', PStr cid), (''outcome'', PStr ''NOT_ACTIVE'')]"

text \<open>What \<^verbatim>\<open>dispatch_ready_qtask\<close> does with an error, before and after the circuit was prepared.\<close>

definition dispatch_failed :: "service_env \<Rightarrow> runtime_task \<Rightarrow> string option \<Rightarrow> exc \<Rightarrow> pydict option svc" where
  "dispatch_failed env runtime circuit error =
     (case error of
        DEFwOutOfResources m \<Rightarrow>
          seqM (release_claim (rt_qtask_id runtime))
          (seqM (case circuit of Some c \<Rightarrow> defer_local_retry c | None \<Rightarrow> retM ()) (raiseM error))
      | QTaskNotActive m \<Rightarrow>
          seqM (release_claim (rt_qtask_id runtime))
          (seqM (case circuit of Some c \<Rightarrow> free_if_held env c | None \<Rightarrow> retM ())
            (retM (Some (not_active_answer (rt_cid runtime)))))
      | _ \<Rightarrow>
          seqM (case circuit of
                  None \<Rightarrow>
                    seqM (bindM (getM (\<lambda>s. circuits (sv_controller s))) (\<lambda>listed.
                            if rt_cid runtime \<in> set listed then fail_provider_submission env (rt_cid runtime) error else retM ()))
                      (release_claim (rt_qtask_id runtime))
                | Some c \<Rightarrow> seqM (fail_provider_submission env c error) (free_if_held env c))
            (raiseM error))"

definition dispatch_ready_qtask :: "service_env \<Rightarrow> pydict option svc" where
  "dispatch_ready_qtask env =
     bindM (on_controller (select_task env)) (\<lambda>selected.
       case selected of
         None \<Rightarrow> retM None
       | Some runtime \<Rightarrow>
           bindM (catchM (bindM (prepare_run_circuit env (rt_cid runtime) True) (\<lambda>c. retM (Inr c)))
                    (\<lambda>e. bindM (dispatch_failed env runtime None e) (\<lambda>answer. retM (Inl answer)))) (\<lambda>prepared.
             case prepared of
               Inl answer \<Rightarrow> retM answer
             | Inr c \<Rightarrow> catchM (submit_provider_async env c True) (dispatch_failed env runtime (Some c))))"

section \<open>Draining the queue\<close>

text \<open>
  \<^verbatim>\<open>async_run_oor\<close> runs inside a drain only, so the drain it asks for after an error finds the queue
  taken and is remembered as a request.
\<close>

definition oor_failed :: "service_env \<Rightarrow> string \<Rightarrow> string option \<Rightarrow> exc \<Rightarrow> 'a svc" where
  "oor_failed env cid circuit error =
     (case error of
        DEFwOutOfResources m \<Rightarrow> seqM (defer_local_retry cid) (seqM (modM (queue_oor cid)) (raiseM error))
      | _ \<Rightarrow>
          seqM (case circuit of Some c \<Rightarrow> seqM (fail_provider_submission env c error) (free_if_held env c) | None \<Rightarrow> retM ())
          (seqM begin_oor_drain (raiseM error)))"

definition async_run_oor :: "service_env \<Rightarrow> string \<Rightarrow> unit svc" where
  "async_run_oor env cid =
     seqM require_initialized
       (bindM (catchM (prepare_run_circuit env cid True) (oor_failed env cid None)) (\<lambda>c.
          catchM (seqM (submit_provider_async env c False) (retM ())) (oor_failed env cid (Some c))))"

datatype drain_verdict = Again | Stop

definition drain_round :: "service_env \<Rightarrow> drain_verdict svc" where
  "drain_round env =
     bindM next_oor_cid_without_scheduler_task (\<lambda>cid.
       catchM
         (case cid of
            Some c \<Rightarrow> seqM (async_run_oor env c) (seqM (remove_oor_cid (Some c)) (retM Again))
          | None \<Rightarrow>
              bindM (dispatch_ready_qtask env) (\<lambda>status.
                case status of
                  None \<Rightarrow> retM Stop
                | Some st \<Rightarrow>
                    seqM (remove_oor_cid (case pget st ''cid'' of PStr c \<Rightarrow> Some c | _ \<Rightarrow> None)) (retM Again)))
         (\<lambda>error. case error of
            DEFwOutOfResources m \<Rightarrow> retM Stop
          | QTaskNotActive m \<Rightarrow> seqM (remove_oor_cid cid) (retM Again)
          | _ \<Rightarrow> seqM (remove_oor_cid cid) (retM Stop)))"

fun drain_loop :: "service_env \<Rightarrow> nat \<Rightarrow> unit svc" where
  "drain_loop env 0 = raiseM NoReturn"
| "drain_loop env (Suc n) =
     bindM prune_oor_queue (\<lambda>active.
       if active = [] then retM ()
       else bindM (drain_round env) (\<lambda>verdict. case verdict of Again \<Rightarrow> drain_loop env n | Stop \<Rightarrow> retM ()))"

definition drain_oor_queue :: "service_env \<Rightarrow> unit svc" where
  "drain_oor_queue env =
     seqM (on_controller (retry_pending_capacity (qpm env) None)) (drain_loop env (drain_fuel env))"

fun process_loop :: "service_env \<Rightarrow> nat \<Rightarrow> unit svc" where
  "process_loop env 0 = raiseM NoReturn"
| "process_loop env (Suc n) =
     bindM begin_oor_drain (\<lambda>mine.
       if \<not> mine then retM ()
       else bindM (tryM (seqM (drain_oor_queue env) (retM None)) (\<lambda>e. retM (Some e))) (\<lambda>error.
            bindM end_oor_drain (\<lambda>again.
              case error of
                Some e \<Rightarrow> raiseM e
              | None \<Rightarrow> if again then process_loop env n else retM ())))"

definition process_oor_queue :: "service_env \<Rightarrow> unit svc" where
  "process_oor_queue env = process_loop env (drain_fuel env)"

definition free_resources_and_oor :: "service_env \<Rightarrow> string \<Rightarrow> pyval \<Rightarrow> unit svc" where
  "free_resources_and_oor env cid result =
     finallyM (free_resources env cid result) (catchM (process_oor_queue env) (\<lambda>_. retM ()))"

end
