(* ===== verification/QPM_Run.thy ===== *)
theory QPM_Run
  imports QPM_Service QPM_Reconcile
begin

text \<open>
  The calls of the service interface of \<^verbatim>\<open>services/util/qpm/util_qpm.py\<close>: synchronous and
  asynchronous runs, polls, cancellation, shutdown and the service's description for the directory.
  Calls that only hand their arguments to the controller are the controller's operations. The
  readings of \<^verbatim>\<open>time.time()\<close> that a waiting call makes are \<open>wall_clock\<close>, counted from the reading its
  deadline starts from, and \<open>float_ns\<close> stands for Python's conversion of a timeout; both are in
  nanoseconds.
\<close>

unbundle bit_operations_syntax

section \<open>Runs\<close>

definition MANAGED_SUBMISSION_FAILURE_REASONS :: "string list" where
  "MANAGED_SUBMISSION_FAILURE_REASONS =
     [''credential-binding-failed'', ''scheduler-submission-failed'', ''provider-submission-failed'']"

definition failed_submission_status :: "service_env \<Rightarrow> string option \<Rightarrow> pyval \<Rightarrow> pydict option svc" where
  "failed_submission_status env cid reservation_id =
     (case cid of
        None \<Rightarrow> retM None
      | Some c \<Rightarrow>
          bindM (status_of env c reservation_id) (\<lambda>status.
            retM (if pget status ''outcome'' = PStr ''FAILED'' \<and>
                     pget status ''reason'' \<in> PStr ` set MANAGED_SUBMISSION_FAILURE_REASONS
                  then Some status else None)))"

definition parse_run :: "service_env \<Rightarrow> pydict \<Rightarrow> pyval \<Rightarrow> pyval \<Rightarrow> pyval \<Rightarrow> pyval \<Rightarrow> exc + execution_request" where
  "parse_run env info reservation_id token timeout cancel_on_timeout =
     parse_execution_request (auth_variable env) info
       [(''reservation_id'', reservation_id), (''token'', token), (''timeout'', timeout),
        (''cancel_on_timeout'', cancel_on_timeout)]"

definition complete_provider_submission :: "service_env \<Rightarrow> string \<Rightarrow> pyval \<Rightarrow> unit svc" where
  "complete_provider_submission env cid result =
     on_controller (bindM (complete_scheduled_task (qpm env) cid result) (\<lambda>runtime.
       if result \<noteq> PNone \<and> runtime \<noteq> None
       then seqM (publish_completion (qpm env) result None False) (retM ()) else retM ()))"

text \<open>\<^verbatim>\<open>_sync_deadline\<close> and \<^verbatim>\<open>_sync_timed_out\<close>\<close>

definition sync_deadline :: "service_env \<Rightarrow> pyval \<Rightarrow> exc + int option" where
  "sync_deadline env timeout =
     (if timeout = PNone then Inr None
      else bindE (float_ns env timeout) (\<lambda>t. Inr (Some (if t \<le> 0 then wall_clock env 0 else wall_clock env 0 + t))))"

definition sync_timed_out :: "service_env \<Rightarrow> int option \<Rightarrow> nat \<Rightarrow> bool" where
  "sync_timed_out env deadline n = (case deadline of None \<Rightarrow> False | Some d \<Rightarrow> d \<le> wall_clock env (Suc n))"

text \<open>A call that may wait for ever: None when the fuel was not enough.\<close>

type_synonym 'a waiting = "service \<Rightarrow> ((exc + 'a) \<times> service) option"

definition waitM :: "'b svc \<Rightarrow> ('b \<Rightarrow> 'a waiting) \<Rightarrow> 'a waiting" where
  "waitM m f = (\<lambda>s. case m s of (Inl e, t) \<Rightarrow> Some (Inl e, t) | (Inr x, t) \<Rightarrow> f x t)"

definition doneM :: "'a svc \<Rightarrow> 'a waiting" where
  "doneM m = (\<lambda>s. Some (m s))"

definition controller_cancel ::
  "service_env \<Rightarrow> pyval \<Rightarrow> pyval \<Rightarrow> pyval \<Rightarrow> pyval \<Rightarrow> bool \<Rightarrow> pydict svc" where
  "controller_cancel env cid qtask_id reason reservation_id require =
     on_controller (QPM_Tasks.cancel_task (qpm env) cid qtask_id reason reservation_id require)"

definition service_cancel_task :: "service_env \<Rightarrow> pyval \<Rightarrow> pyval \<Rightarrow> pyval \<Rightarrow> pyval \<Rightarrow> pyval \<Rightarrow> pydict svc" where
  "service_cancel_task env cid reservation_id token reason qtask_id =
     seqM (managed_reservation env reservation_id token)
     (bindM (controller_cancel env cid qtask_id reason reservation_id True) (\<lambda>status.
        seqM (process_oor_queue env) (retM status)))"

definition cancel_provider_submission :: "service_env \<Rightarrow> string \<Rightarrow> pyval \<Rightarrow> pydict svc" where
  "cancel_provider_submission env cid reason =
     bindM (getM (\<lambda>s. task_for_cid cid (sv_controller s))) (\<lambda>found.
       service_cancel_task env (PStr cid) (case found of Some r \<Rightarrow> opt_int (rt_reservation_id r) | None \<Rightarrow> PNone) PNone reason PNone)"

definition timeout_status :: "service_env \<Rightarrow> string \<Rightarrow> string \<Rightarrow> pyval \<Rightarrow> int option \<Rightarrow> pydict svc" where
  "timeout_status env cid outcome message rid =
     on_controller (task_status_for_cid (qpm env) cid (PStr outcome) (PStr ''sync-timeout'') message PNone (opt_int rid) False)"

definition sync_timeout_response :: "service_env \<Rightarrow> string \<Rightarrow> execution_request \<Rightarrow> string \<Rightarrow> pydict svc" where
  "sync_timeout_response env cid request message =
     (let rid = rc_reservation_id (er_context request)
      in bindM (getM (\<lambda>s. task_for_cid cid (sv_controller s))) (\<lambda>found.
           case found of
             None \<Rightarrow> timeout_status env cid ''TIMEOUT'' (PStr message) rid
           | Some runtime \<Rightarrow>
               if rc_cancel_on_timeout (er_context request)
               then seqM (cancel_provider_submission env cid (PStr ''sync-timeout''))
                      (timeout_status env cid ''CANCELLED'' (PStr message) rid)
               else seqM (modM (queue_oor cid))
                   (seqM (on_controller (record_timeout (qpm env) (rt_qtask_id runtime) (PStr ''sync-timeout'') (PStr message)))
                      (timeout_status env cid ''TIMEOUT'' (PStr message) rid))))"

datatype attempt = Answer pydict | Retry_later string

definition sync_failed ::
  "service_env \<Rightarrow> string \<Rightarrow> execution_request \<Rightarrow> string option \<Rightarrow> exc \<Rightarrow> attempt svc" where
  "sync_failed env cid request circuit error =
     (case error of
        DEFwOutOfResources m \<Rightarrow> retM (Retry_later m)
      | _ \<Rightarrow>
          seqM (case circuit of Some c \<Rightarrow> seqM (fail_provider_submission env c error) (free_if_held env c) | None \<Rightarrow> retM ())
          (bindM (failed_submission_status env (Some cid) (opt_int (rc_reservation_id (er_context request)))) (\<lambda>status.
             case status of Some st \<Rightarrow> retM (Answer st) | None \<Rightarrow> raiseM error)))"

definition sync_finish :: "service_env \<Rightarrow> execution_request \<Rightarrow> string \<Rightarrow> attempt svc" where
  "sync_finish env request c =
     bindM (submit_provider_sync env c) (\<lambda>result.
     seqM (complete_provider_submission env c result)
     (bindM (on_controller (task_status_for_cid (qpm env) c (PStr ''COMPLETED'') PNone PNone result
          (opt_int (rc_reservation_id (er_context request))) False)) (\<lambda>response.
      seqM (free_if_held env c) (retM (Answer response)))))"

definition sync_attempt :: "service_env \<Rightarrow> string \<Rightarrow> execution_request \<Rightarrow> attempt svc" where
  "sync_attempt env cid request =
     bindM (catchM (bindM (prepare_run_circuit env cid True) (\<lambda>c. retM (Inr c)))
              (\<lambda>e. bindM (sync_failed env cid request None e) (\<lambda>a. retM (Inl a)))) (\<lambda>prepared.
       case prepared of
         Inl a \<Rightarrow> retM a
       | Inr c \<Rightarrow> catchM (sync_finish env request c) (sync_failed env cid request (Some c)))"

text \<open>Each sleep lets the other threads work.\<close>

fun sync_loop :: "service_env \<Rightarrow> string \<Rightarrow> execution_request \<Rightarrow> int option \<Rightarrow> nat \<Rightarrow> nat \<Rightarrow> pydict waiting" where
  "sync_loop env cid request deadline n 0 = (\<lambda>s. None)"
| "sync_loop env cid request deadline n (Suc fuel) =
     waitM (sync_attempt env cid request) (\<lambda>a.
       case a of
         Answer response \<Rightarrow> doneM (retM response)
       | Retry_later m \<Rightarrow>
           if sync_timed_out env deadline n then doneM (sync_timeout_response env cid request m)
           else waitM (modM (others env n)) (\<lambda>_. sync_loop env cid request deadline (Suc n) fuel))"

definition sync_run_submission :: "service_env \<Rightarrow> nat \<Rightarrow> execution_request \<Rightarrow> pydict waiting" where
  "sync_run_submission env fuel request =
     waitM (create_circuit env (er_payload request) (Some request)) (\<lambda>cid.
     waitM (liftM (sync_deadline env (rc_timeout (er_context request)))) (\<lambda>deadline.
       sync_loop env cid request deadline 0 fuel))"

definition sync_run :: "service_env \<Rightarrow> nat \<Rightarrow> pydict \<Rightarrow> pyval \<Rightarrow> pyval \<Rightarrow> pyval \<Rightarrow> pyval \<Rightarrow> pydict waiting" where
  "sync_run env fuel info reservation_id token timeout cancel_on_timeout =
     waitM require_initialized (\<lambda>_.
     waitM (liftM (parse_run env info reservation_id token timeout cancel_on_timeout)) (\<lambda>request.
     waitM (require_managed_execution env request) (\<lambda>_. sync_run_submission env fuel request)))"

definition async_failed ::
  "service_env \<Rightarrow> execution_request \<Rightarrow> string option \<Rightarrow> string option \<Rightarrow> exc \<Rightarrow> pydict option svc" where
  "async_failed env request cid circuit error =
     (let rid = opt_int (rc_reservation_id (er_context request));
          ended = seqM (case circuit of Some c \<Rightarrow> seqM (fail_provider_submission env c error) (free_if_held env c) | None \<Rightarrow> retM ())
            (seqM (process_oor_queue env)
            (bindM (failed_submission_status env cid rid) (\<lambda>status.
               case status of Some st \<Rightarrow> retM (Some st) | None \<Rightarrow> raiseM error)))
      in case error of
           DEFwOutOfResources m \<Rightarrow>
             (case cid of
                None \<Rightarrow> raiseM error
              | Some c \<Rightarrow>
                  seqM (catchM (seqM (dispatch_ready_qtask env) (retM ())) (\<lambda>_. retM ()))
                  (seqM (defer_local_retry c)
                  (seqM (modM (queue_oor c))
                  (bindM (status_of env c rid) (\<lambda>status. retM (Some status))))))
         | _ \<Rightarrow> ended)"

definition async_run_submission :: "service_env \<Rightarrow> execution_request \<Rightarrow> pydict option svc" where
  "async_run_submission env request =
     bindM (catchM (bindM (create_circuit env (er_payload request) (Some request)) (\<lambda>cid. retM (Inr cid)))
              (\<lambda>e. bindM (async_failed env request None None e) (\<lambda>a. retM (Inl a)))) (\<lambda>created.
       case created of
         Inl a \<Rightarrow> retM a
       | Inr cid \<Rightarrow>
           bindM (catchM (bindM (prepare_run_circuit env cid True) (\<lambda>c. retM (Inr c)))
                    (\<lambda>e. bindM (async_failed env request (Some cid) None e) (\<lambda>a. retM (Inl a)))) (\<lambda>prepared.
             case prepared of
               Inl a \<Rightarrow> retM a
             | Inr c \<Rightarrow> catchM (submit_provider_async env c True) (async_failed env request (Some cid) (Some c))))"

definition async_run :: "service_env \<Rightarrow> pydict \<Rightarrow> pyval \<Rightarrow> pyval \<Rightarrow> pyval \<Rightarrow> pyval \<Rightarrow> pydict option svc" where
  "async_run env info reservation_id token timeout cancel_on_timeout =
     seqM require_initialized
     (bindM (liftM (parse_run env info reservation_id token timeout cancel_on_timeout)) (\<lambda>request.
      seqM (require_managed_execution env request) (async_run_submission env request)))"

section \<open>Polls and status\<close>

definition read_cq :: "service_env \<Rightarrow> pyval \<Rightarrow> pyval \<Rightarrow> pydict svc" where
  "read_cq env cid reservation_id =
     seqM require_initialized
     (seqM (process_oor_queue env)
     (bindM (on_controller (read_completion (qpm env) reservation_id cid PNone ''read_cq'')) (\<lambda>result.
        seqM (if py_truth (pget result ''completion_ready'')
              then modM (\<lambda>s. s\<lparr>all_results := all_results s @ [result]\<rparr>) else retM ())
          (retM result))))"

definition peek_cq :: "service_env \<Rightarrow> pyval \<Rightarrow> pyval \<Rightarrow> pydict svc" where
  "peek_cq env cid reservation_id =
     seqM require_initialized (on_controller (peek_completion (qpm env) reservation_id cid PNone ''peek_cq''))"

definition task_status_answer :: "service_env \<Rightarrow> string \<Rightarrow> pyval \<Rightarrow> int option \<Rightarrow> pydict svc" where
  "task_status_answer env cid reservation_id qtask_id =
     on_controller (case qtask_id of
        Some q \<Rightarrow> task_status_for_qtask_id (qpm env) q PNone PNone PNone PNone reservation_id True
      | None \<Rightarrow> task_status_for_cid (qpm env) cid PNone PNone PNone PNone reservation_id True)"

definition unavailable_details :: "string \<Rightarrow> pydict" where
  "unavailable_details reason = [(''available'', PBool False), (''reason'', PStr reason)]"

text \<open>\<open>supported\<close>: whether the provider has the method.\<close>

definition provider_task_details :: "service_env \<Rightarrow> bool \<Rightarrow> string \<Rightarrow> pyval \<Rightarrow> pydict svc" where
  "provider_task_details env supported method_name cid =
     (case cid of
        PStr c \<Rightarrow>
          bindM (getM has_qrc) (\<lambda>qrc.
            if \<not> (qrc \<and> supported) then retM (unavailable_details ''provider-unsupported'')
            else bindM (on_controller (ext (qpm env) (ProviderDetails method_name c))) (\<lambda>v.
                   retM (case v of
                      EVal (PDict d) \<Rightarrow> d
                    | EVal x \<Rightarrow> [(''available'', PBool (x \<noteq> PNone)), (''value'', x)]
                    | EObj d \<Rightarrow> [(''available'', PBool True), (''value'', PDict d)]
                    | EVals vs \<Rightarrow> [(''available'', PBool True), (''value'', PNone)])))
      | _ \<Rightarrow> retM (unavailable_details ''no-provider-task''))"

definition get_task_timing :: "service_env \<Rightarrow> bool \<Rightarrow> pyval \<Rightarrow> int \<Rightarrow> pydict svc" where
  "get_task_timing env supported reservation_id task_id =
     bindM (task_status_answer env [] reservation_id (Some task_id)) (\<lambda>status.
       if pget status ''outcome'' = PStr ''INVALID_RESERVATION'' then retM status
       else bindM (provider_task_details env supported ''get_task_timing'' (pget status ''cid'')) (\<lambda>timing.
            retM [(''task_id'', PInt task_id), (''reservation_id'', reservation_id),
              (''lifecycle_state'', pget status ''lifecycle_state''), (''timing'', PDict timing)]))"

definition get_task_metadata :: "service_env \<Rightarrow> bool \<Rightarrow> pyval \<Rightarrow> int \<Rightarrow> pydict svc" where
  "get_task_metadata env supported reservation_id task_id =
     bindM (task_status_answer env [] reservation_id (Some task_id)) (\<lambda>status.
       if pget status ''outcome'' = PStr ''INVALID_RESERVATION'' then retM status
       else bindM (provider_task_details env supported ''get_task_metadata'' (pget status ''cid'')) (\<lambda>details.
            retM (dset ''provider_metadata'' (PDict details) (dset ''task_id'' (PInt task_id) status))))"

definition reconcile_service :: "service_env \<Rightarrow> pyval \<Rightarrow> pyval \<Rightarrow> pydict svc" where
  "reconcile_service env token reason =
     (if \<not> py_truth reason then raiseM (DEFwExecutionError ''runtime reconciliation requires an audit reason'')
      else bindM (on_controller (reconcile_runtime_state (qpm env) None)) (\<lambda>result.
           seqM (process_oor_queue env)
             (on_controller (record_control_reconciliation (qpm env) reason result token))))"

text \<open>A provider takes the registration of the service as its listener.\<close>

definition ensure_qrc_event_dispatcher :: "service_env \<Rightarrow> string \<Rightarrow> unit svc" where
  "ensure_qrc_event_dispatcher env evtype =
     bindM (getM has_qrc) (\<lambda>qrc.
       if qrc
       then on_controller (seqM (modM (\<lambda>s. s\<lparr>push_evtype := Some evtype\<rparr>))
              (seqM (ext (qpm env) (ProviderRegister evtype)) (retM ())))
       else retM ())"

definition register_event_notification ::
  "service_env \<Rightarrow> string \<Rightarrow> string \<Rightarrow> string \<Rightarrow> pyval \<Rightarrow> pyval \<Rightarrow> pydict \<Rightarrow> pydict svc" where
  "register_event_notification env uuid evtype class_id token reservation_id filters =
     seqM (managed_reservation env reservation_id token)
     (bindM (on_controller (register_event_endpoint uuid class_id evtype reservation_id filters)) (\<lambda>result.
      seqM (ensure_qrc_event_dispatcher env evtype) (retM result)))"

section \<open>Configuration\<close>

definition configure_default_admission_policy :: "qpm_env \<Rightarrow> pydict ctl" where
  "configure_default_admission_policy env =
     bindM (getM id) (\<lambda>s.
       if admission_configuration s \<noteq> [] then set_admission_policy env (PDict (admission_configuration s)) PNone
       else bindM (liftM (py_dict_or_empty (pget (case device_profile s of Some p \<Rightarrow> p | None \<Rightarrow> []) ''baseline''))) (\<lambda>baseline.
            set_admission_policy env
              (PDict [(''policy'', PDict [(''name'', PStr ''unlimited''), (''options'', PDict [])]),
                 (''estimator'', PDict [(''name'', PStr ''baseline''), (''options'', PDict [])]),
                 (''baseline'', PDict baseline), (''capacity'', PDict [])]) PNone))"

definition configure_service_profile :: "qpm_env \<Rightarrow> pyval \<Rightarrow> pyval \<Rightarrow> pydict option \<Rightarrow> pydict \<Rightarrow> pydict ctl" where
  "configure_service_profile env token device profile overrides =
     (let profile = (case (profile, token) of (None, PDict d) \<Rightarrow> d | (None, _) \<Rightarrow> [] | (Some p, _) \<Rightarrow> p);
          profile = (if device \<noteq> PNone then dset ''device_id'' device profile else profile)
      in bindM (configure_device_profile env (Some (dupdate profile overrides))) (\<lambda>result.
           seqM (configure_default_admission_policy env) (retM result)))"

definition reserve_call :: "qpm_env \<Rightarrow> pyval \<Rightarrow> bool \<Rightarrow> pydict ctl" where
  "reserve_call env request token =
     (case request of
        PDict d \<Rightarrow> reserve_admission env (Some d) token
      | _ \<Rightarrow> raiseM (DEFwExecutionError ''legacy service reservation is not supported by the QPM admission API''))"

definition release_call :: "qpm_env \<Rightarrow> pyval \<Rightarrow> pyval \<Rightarrow> pydict ctl" where
  "release_call env reservation_id reason =
     (case reservation_id of
        PNone \<Rightarrow> raiseM (DEFwExecutionError ''legacy service release is not supported by the QPM admission API'')
      | PList xs \<Rightarrow> raiseM (DEFwExecutionError ''legacy service release is not supported by the QPM admission API'')
      | PTuple xs \<Rightarrow> raiseM (DEFwExecutionError ''legacy service release is not supported by the QPM admission API'')
      | _ \<Rightarrow> release_admission env reservation_id (py_or reason (PInt 0)))"

section \<open>Shutdown\<close>

definition service_status :: "service \<Rightarrow> pydict" where
  "service_status s =
     (let status = get_service_status (qpm_initialized s) (has_qrc s) (sv_controller s);
          ready = (pget status ''ready'' = PBool True \<and> qpm_directory_registered s)
      in dset ''ready'' (PBool ready) (dset ''directory_registered'' (PBool (qpm_directory_registered s)) status))"

definition test_answer :: "service \<Rightarrow> pydict" where
  "test_answer s =
     [(''status'', PStr (if qpm_initialized s then ''ok'' else ''not-ready'')), (''rpc_ready'', PBool True),
      (''service'', PDict (service_status s))]"

definition shutdown_provider :: "service_env \<Rightarrow> unit svc" where
  "shutdown_provider env =
     seqM (on_controller (clear_provider_credentials (qpm env)))
     (bindM (getM has_qrc) (\<lambda>qrc.
        if qrc then seqM (on_controller (ext (qpm env) ProviderShutdown)) (modM (\<lambda>s. s\<lparr>has_qrc := False\<rparr>)) else retM ()))"

text \<open>\<^verbatim>\<open>release_service\<close> also notes for the process that the service is shut down.\<close>

definition release_service :: "service_env \<Rightarrow> unit svc" where
  "release_service env = shutdown_provider env"

definition active_runtime_tasks :: "controller \<Rightarrow> (int \<times> int option) list" where
  "active_runtime_tasks s =
     map (\<lambda>kv. (rt_qtask_id (snd kv), rt_reservation_id (snd kv)))
       (filter (\<lambda>kv. \<not> terminal_state (rt_state (snd kv))) (runtime_by_qtask_id s))"

definition cancel_active_runtime_tasks :: "service_env \<Rightarrow> unit svc" where
  "cancel_active_runtime_tasks env =
     bindM (getM (\<lambda>s. active_runtime_tasks (sv_controller s))) (\<lambda>tasks.
       forM tasks (\<lambda>task. controller_cancel env PNone (PInt (fst task)) (PStr ''service-shutdown'')
         (opt_int (snd task)) False))"

text \<open>\<open>shutdown\<close> checks its arguments and starts the thread that runs \<open>complete_service_shutdown\<close>.\<close>

definition shutdown :: "service_env \<Rightarrow> pyval \<Rightarrow> string \<Rightarrow> pyval \<Rightarrow> pyval \<Rightarrow> pydict svc" where
  "shutdown env token mode timeout_s reason =
     (if mode \<notin> {''graceful'', ''cancel''}
      then raiseM (DEFwExecutionError (''unsupported shutdown mode: '' @ mode))
      else bindM (if timeout_s = PNone then retM 0 else liftM (float_ns env timeout_s)) (\<lambda>t.
           if t < 0 then raiseM (DEFwExecutionError ''shutdown timeout must not be negative'')
           else on_controller (begin_service_shutdown (qpm env) (PStr mode) timeout_s reason token)))"

text \<open>The wait for the tasks of a graceful shutdown: True when the deadline ended it.\<close>

fun await_tasks :: "service_env \<Rightarrow> int option \<Rightarrow> nat \<Rightarrow> nat \<Rightarrow> bool waiting" where
  "await_tasks env deadline n 0 = (\<lambda>s. None)"
| "await_tasks env deadline n (Suc fuel) =
     waitM (getM (\<lambda>s. active_runtime_tasks (sv_controller s))) (\<lambda>active.
       if active = [] then doneM (retM False)
       else if sync_timed_out env deadline n then doneM (retM True)
       else waitM (modM (others env n)) (\<lambda>_. await_tasks env deadline (Suc n) fuel))"

definition stop_service :: "service_env \<Rightarrow> bool \<Rightarrow> unit svc" where
  "stop_service env cancel =
     seqM (if cancel then cancel_active_runtime_tasks env else retM ())
     (seqM (on_controller (set_service_state (qpm env) ''stopping''))
     (seqM (shutdown_provider env) (on_controller (set_service_state (qpm env) ''stopped''))))"

definition complete_service_shutdown :: "service_env \<Rightarrow> nat \<Rightarrow> string \<Rightarrow> pyval \<Rightarrow> unit waiting" where
  "complete_service_shutdown env fuel mode timeout_s =
     waitM (liftM (if timeout_s = PNone then Inr None
                   else bindE (float_ns env timeout_s) (\<lambda>t. Inr (Some (wall_clock env 0 + t))))) (\<lambda>deadline s.
       case (if mode = ''graceful'' then await_tasks env deadline 0 fuel s else Some (Inr False, s)) of
         None \<Rightarrow> None
       | Some (Inl e, t) \<Rightarrow> Some (Inl e, t)
       | Some (Inr late, t) \<Rightarrow> Some (stop_service env (late \<or> mode = ''cancel'') t))"

section \<open>Description for the directory\<close>

definition QPM_CATEGORY_API_BINDINGS :: "(string \<times> string \<times> string) list" where
  "QPM_CATEGORY_API_BINDINGS =
     [(''execution'', ''api_qpm_execution'', ''QPMExecution''),
      (''admission'', ''api_qpm_admission_control'', ''QPMAdmissionControl''),
      (''admission-policy'', ''api_qpm_admission_policy_config'', ''QPMAdmissionPolicyConfig''),
      (''scheduler'', ''api_qpm_scheduler_control'', ''QPMSchedulerControl''),
      (''telemetry'', ''api_qpm_telemetry'', ''QPMTelemetry''),
      (''control'', ''api_qpm_control'', ''QPMControl'')]"

definition qpm_api_bindings :: "string \<Rightarrow> string \<Rightarrow> pyval list" where
  "qpm_api_bindings service_module service_class =
     map (\<lambda>(name, client_module, client_class).
       PDict [(''binding_name'', PStr name), (''client_module'', PStr client_module), (''client_class'', PStr client_class),
         (''service_module'', PStr service_module), (''service_class'', PStr service_class), (''version'', PInt 1)])
       QPM_CATEGORY_API_BINDINGS"

definition qpm_service_id :: "string \<Rightarrow> string \<Rightarrow> pyval \<Rightarrow> pydict \<Rightarrow> string" where
  "qpm_service_id svc_name service_module provider properties =
     (let device = py_or (pget properties ''device_id'') (pget properties ''target_id'')
      in if py_truth device
         then ''qpm:'' @ py_str (py_or provider (PStr svc_name)) @ '':'' @ py_str device
         else ''qpm:'' @ py_str (py_or provider (PStr service_module)) @ '':'' @ svc_name)"

definition metadata_list :: "pyval \<Rightarrow> string list" where
  "metadata_list v =
     (case v of
        PNone \<Rightarrow> []
      | PList xs \<Rightarrow> map py_str (filter (\<lambda>x. x \<noteq> PNone) xs)
      | PTuple xs \<Rightarrow> map py_str (filter (\<lambda>x. x \<noteq> PNone) xs)
      | _ \<Rightarrow> [py_str v])"

definition add_metadata_value :: "pyval \<Rightarrow> string list \<Rightarrow> string list" where
  "add_metadata_value v items =
     (if v = PNone then items
      else let t = py_str v in if t \<noteq> [] \<and> t \<notin> set items then items @ [t] else items)"

definition add_qpm_qubit_resource :: "pyval \<Rightarrow> pyval \<Rightarrow> string list \<Rightarrow> string list" where
  "add_qpm_qubit_resource provider num_qubits resources =
     (if provider = PNone \<or> num_qubits = PNone then resources
      else case py_int num_qubits of
             Inl e \<Rightarrow> resources
           | Inr n \<Rightarrow> add_metadata_value (PStr (py_upper (py_str provider) @ ''-'' @ int_text n @ ''q'')) resources)"

definition qpm_selector :: "pydict \<Rightarrow> string \<Rightarrow> pyval \<Rightarrow> exc + pydict" where
  "qpm_selector properties svc_name provider =
     bindE (py_dict_or_empty (pget properties ''selector'')) (\<lambda>selector.
       let device = py_or (pget properties ''device_id'') (pget properties ''target_id'');
           resources = add_qpm_qubit_resource provider (pget properties ''num_qubits'')
             (add_metadata_value (pget properties ''resource_id'')
               (add_metadata_value device (metadata_list (pget selector ''resources''))));
           resources = (if resources = [] then add_metadata_value (PStr svc_name) resources else resources);
           aliases = add_metadata_value (PStr svc_name) (add_metadata_value provider (metadata_list (pget selector ''aliases'')));
           selector = dset ''aliases'' (PList (map PStr aliases)) (dset ''resources'' (PList (map PStr resources)) selector)
       in Inr (dsetdefault ''name'' (py_or (py_or device provider) (PStr svc_name)) selector))"

definition qpm_type_bit_enabled :: "pyval \<Rightarrow> int \<Rightarrow> bool" where
  "qpm_type_bit_enabled type_bits flag =
     (case py_int type_bits of Inl e \<Rightarrow> False | Inr bits \<Rightarrow> bits AND flag \<noteq> 0)"

definition QPMType :: "(string \<times> int) list" where
  "QPMType = [(''QPM_TYPE_HARDWARE'', 1), (''QPM_TYPE_SIMULATOR'', 2)]"

definition QPMCapability :: "(string \<times> int) list" where
  "QPMCapability = [(''QPM_CAP_TENSORNETWORK'', 1), (''QPM_CAP_STATEVECTOR'', 2), (''QPM_CAP_SUPERCONDUCTING'', 4),
     (''QPM_CAP_NEUTRAL_ATOM'', 8), (''QPM_CAP_QEC'', 16)]"

definition flag_names :: "(string \<times> int) list \<Rightarrow> int \<Rightarrow> string" where
  "flag_names members bits = join_with '','' (map fst (filter (\<lambda>m. snd m AND bits \<noteq> 0) members))"

definition description_properties :: "int \<Rightarrow> int \<Rightarrow> string \<Rightarrow> pyval \<Rightarrow> pydict \<Rightarrow> pydict" where
  "description_properties type_bits caps_bits service_id target properties =
     (let p = dpop ''selector'' properties;
          p = dsetdefault ''circuit_formats'' (PList (map PStr DEFAULT_CIRCUIT_FORMATS)) p;
          p = dsetdefault ''qpm_type'' (PInt type_bits) p;
          p = dsetdefault ''qpm_capabilities'' (PInt caps_bits) p;
          p = dsetdefault ''simulator'' (PBool (qpm_type_bit_enabled (PInt type_bits) 2)) p;
          p = dsetdefault ''hardware'' (PBool (qpm_type_bit_enabled (PInt type_bits) 1)) p;
          p = (if py_truth target then dsetdefault ''controller_target_id'' target p else p);
          p = dsetdefault ''service_id'' (PStr service_id) p
      in dsetdefault ''service_type'' (PStr ''qfw.qpm'') p)"

text \<open>
  \<open>service\<close> names the module and the class of the concrete service. The selector is computed after
  the caller's own selector was dropped from the properties.
\<close>

definition query_helper ::
  "string \<times> string \<Rightarrow> int \<Rightarrow> int \<Rightarrow> string \<Rightarrow> string \<Rightarrow> pydict \<Rightarrow> service \<Rightarrow> exc + pydict" where
  "query_helper service type_bits caps_bits svc_name svc_desc properties s =
     (let provider = pget properties ''provider'';
          service_id = qpm_service_id svc_name (fst service) provider properties
      in bindE (qpm_selector (dpop ''selector'' properties) svc_name provider) (\<lambda>selector.
           Inr [(''service_id'', PStr service_id), (''service_name'', PStr svc_name), (''service_type'', PStr ''qfw.qpm''),
             (''api_bindings'', PList (qpm_api_bindings (fst service) (snd service))), (''selector'', PDict selector),
             (''properties'', PDict (description_properties type_bits caps_bits service_id
                (PStr (target_id (config (sv_controller s)))) properties)),
             (''capability'', PDict [(''type'', PInt type_bits), (''caps'', PInt caps_bits),
                (''description'', PStr (flag_names QPMType type_bits @ '' -> '' @ flag_names QPMCapability caps_bits))]),
             (''qpm_type'', PInt type_bits), (''qpm_capabilities'', PInt caps_bits), (''description'', PStr svc_desc)]))"

section \<open>Creation of the service\<close>

text \<open>
  The hosts a target already has are kept; \<open>assigned\<close> is the expanded list of hosts. \<open>methods\<close> says
  whether the provider has \<^verbatim>\<open>cancel\<close> and \<^verbatim>\<open>evict_reservation_client\<close>.
\<close>

definition new_service :: "service_env \<Rightarrow> string list \<Rightarrow> hosts \<Rightarrow> bool \<Rightarrow> bool \<times> bool \<Rightarrow> controller \<Rightarrow> exc + service" where
  "new_service env assigned hosts_before qrc methods c =
     (let c = set_provider_credential_evictor (qrc \<and> snd methods) (set_provider_canceller (qrc \<and> fst methods) c)
      in bindE (if resources_initialized c then Inr hosts_before
                else setup_host_resources (own_max_ppn env) assigned hosts_before) (\<lambda>hosts.
           let s = \<lparr>sv_controller = c\<lparr>resources_initialized := True\<rparr>, sv_hosts = hosts, oor_queue = [], all_results = [],
                  oor_drain_locked = False, oor_drain_requested = False, cids_made = 0, has_qrc = qrc,
                  qpm_initialized = False, qpm_directory_registered = False\<rparr>
           in case ensure_qrc_event_dispatcher env ''completion'' s of (Inl e, t) \<Rightarrow> Inl e | (Inr u, t) \<Rightarrow> Inr t))"

end
