(* ===== verification/QPM_Service_Inv.thy ===== *)
theory QPM_Service_Inv
  imports QPM_Run QPM_Lifecycle
begin

text \<open>
  What the service promises: the walks over the waiting queue are the obvious operations on lists,
  no path through the preparation of a circuit loses a slot without a circuit that records it, a
  service that is not running starts nothing, and a synchronous run with a timeout returns. Two
  examples show the limits: a drain that finds no capacity enters its circuit into the queue once
  more, and a failure that cannot be recorded strands the slots the circuit took.
\<close>

section \<open>The waiting queue\<close>

lemma prune_walk_filter: "prune_walk c queue active = active @ filter (\<lambda>cid. \<not> task_ended (task_for_cid cid c)) queue"
  by (induction c queue active rule: prune_walk.induct) auto

lemma remove_walk_done: "remove_walk d queue True pending = pending @ queue"
  by (induction queue arbitrary: pending) auto

lemma remove_walk_remove1: "remove_walk d queue False pending = pending @ remove1 d queue"
  by (induction queue arbitrary: pending) (auto simp: remove_walk_done)

definition unscheduled :: "controller \<Rightarrow> string \<Rightarrow> bool" where
  "unscheduled c cid = (case task_for_cid cid c of Some r \<Rightarrow> rt_scheduler_task_id r = PNone | None \<Rightarrow> False)"

lemma next_walk_selected: "next_walk c queue (Some x) pending = (Some x, pending @ queue)"
  by (induction queue arbitrary: pending) auto

lemma next_walk_find: "next_walk c queue None pending = (List.find (unscheduled c) queue, pending @ queue)"
  by (induction queue arbitrary: pending) (auto simp: next_walk_selected unscheduled_def split: option.splits)

section \<open>What leaves the circuit objects alone\<close>

definition heap_sat :: "((string \<times> circuit) list \<Rightarrow> bool) \<Rightarrow> controller \<Rightarrow> bool" where
  "heap_sat P s = P (circuit_heap s)"

lemma heap_blind: "close_blind (heap_sat P)" "queue_blind (heap_sat P)" "record_blind (heap_sat P)" "world_blind (heap_sat P)"
  by (simp_all add: close_blind_def queue_blind_def record_blind_def world_blind_def heap_sat_def)

lemma heap_frame [simp]:
  "circuit_heap (set_runtime_state q st s) = circuit_heap s"
  "circuit_heap (clear_dispatch q s) = circuit_heap s"
  "circuit_heap (pop_hold q s) = circuit_heap s"
  "circuit_heap (pop_usage_event q s) = circuit_heap s"
  "circuit_heap (pop_pending q s) = circuit_heap s"
  "circuit_heap (store_result q v s) = circuit_heap s"
  "circuit_heap (drop_selected q s) = circuit_heap s"
  "circuit_heap (drop_inflight q s) = circuit_heap s"
  "circuit_heap (remove_provider_credential rid s) = circuit_heap s"
  "circuit_heap (ensure_completion_queue rid s) = circuit_heap s"
  by (simp_all add: table_ops pop_pending_def drop_selected_def drop_inflight_def remove_provider_credential_def
      ensure_completion_queue_def Let_def split: option.splits)

lemma keeps_frame_heap: "(\<And>s. circuit_heap (f s) = circuit_heap s) \<Longrightarrow> keeps (heap_sat P) (modM f)"
  by (rule keeps_mod) (simp add: heap_sat_def)

lemma keeps_on_queue_heap: "keeps (heap_sat P) (on_queue rid f a)"
  by (rule keepsI) (auto simp: on_queue_def heap_sat_def split: option.splits prod.splits)

lemma keeps_delivery_heap: "keeps (heap_sat P) (terminal_completion_delivery env r p)"
  unfolding terminal_completion_delivery_def enqueue_completion_record_def enforce_retention_at_def
  by (intro keeps_rules keeps_frame_heap keeps_time keeps_status keeps_record keeps_on_queue_heap heap_blind) simp

lemma keeps_dispatch_heap: "keeps (heap_sat P) (dispatch_completion_deliveries env ds)"
  unfolding dispatch_completion_deliveries_def
  by (auto intro!: keeps_rules keeps_frame_heap keeps_push_deliveries heap_blind
      simp: prune_event_registrations_def Let_def)

lemma keeps_reconcile_hold_heap: "keeps (heap_sat P) (reconcile_task_hold env r c)"
  unfolding reconcile_task_hold_def by (intro keeps_rules keeps_frame_heap keeps_finalize heap_blind) simp_all

lemma keeps_settle_heap:
  assumes "\<And>s. circuit_heap (note s) = circuit_heap s" "\<And>i. keeps (heap_sat P) (mark i)"
  shows "keeps (heap_sat P) (settle_task env cid r mark final note)"
  unfolding settle_task_def
  by (intro keeps_rules keeps_frame_heap keeps_end_scheduler keeps_reconcile_hold_heap heap_blind assms) (simp add: assms)

lemma keeps_complete_heap: "keeps (heap_sat P) (complete_scheduled_task env cid result)"
  unfolding complete_scheduled_task_def by (intro keeps_rules keeps_settle_heap heap_blind) simp

lemma keeps_fail_heap: "keeps (heap_sat P) (fail_scheduled_task env cid err reason publish)"
  unfolding fail_scheduled_task_def fail_scheduled_task_locked_def
  by (intro keeps_rules keeps_case_prod keeps_settle_heap keeps_status keeps_delivery_heap keeps_dispatch_heap heap_blind)
    (auto split: option.splits)

lemma keeps_close_tasks_heap: "keeps (heap_sat P) (close_tasks_of env rid deliver)"
proof -
  have "keeps (heap_sat P) (cancel_runtime_for_close env rid r)" for r
    by (rule keeps_cancel_runtime) (auto simp: heap_blind heap_sat_def)
  moreover have "keeps (heap_sat P) (close_delivery env rid q)" for q
    unfolding close_delivery_def by (intro keeps_rules keeps_status keeps_delivery_heap heap_blind)
  ultimately show ?thesis
    unfolding close_tasks_of_def remove_pending_for_reservation_def remove_pending_task_def
      reconcile_holds_for_reservation_def reconcile_closed_hold_def settle_closed_hold_def
    by (intro keeps_rules keeps_mod keeps_finalize heap_blind) (simp_all add: heap_blind, simp_all add: heap_sat_def)
qed

lemma keeps_close_heap: "keeps (heap_sat P) (close_reservation env rid kind code now deliver)"
proof -
  have "heap_sat P (remove_provider_credential r (s\<lparr>reservation_metadata_by_id := m\<rparr>)) = heap_sat P s" for r s m
    by (simp add: heap_sat_def)
  moreover have "heap_sat P (remove_provider_credential r s) = heap_sat P s" for r s by (simp add: heap_sat_def)
  moreover have "heap_sat P (mark_completion_queue_terminal r n s) = heap_sat P s" for r n s
    by (simp add: heap_sat_def mark_completion_queue_terminal_def Let_def split: option.splits)
  ultimately show ?thesis
    unfolding close_reservation_def close_expired_reservations_def ask_admission_to_close_def finish_expired_def
    by (auto intro!: keeps_rules keeps_mod keeps_time keeps_expired_ids keeps_close_tasks_heap heap_blind
        simp: heap_blind Let_def split: close_kind.splits option.splits)
qed

lemma keeps_credential_heap: "keeps (heap_sat P) (provider_credential_for_reservation env i op)"
  unfolding provider_credential_for_reservation_def fallback_provider_credential_def require_reservation_not_expired_def Let_def
  by (auto intro!: keeps_rules keeps_time keeps_drain keeps_close_heap keeps_frame_heap heap_blind split: pyval.splits)

section \<open>Slots\<close>

text \<open>The circuit object \<open>c\<close> records the slots \<open>taken\<close>.\<close>

definition records_slots :: "string \<Rightarrow> hosts \<Rightarrow> (string \<times> circuit) list \<Rightarrow> bool" where
  "records_slots c taken heap =
     (case map_of heap c of Some k \<Rightarrow> map_of (c_info k) ''hosts'' = Some (hosts_value taken) | None \<Rightarrow> False)"

lemma hosts_of_value: "hosts_of (map (\<lambda>(h, n). (h, PInt n)) hs) = Inr hs"
  by (induction hs) (auto simp: py_number_def)

lemma recorded_hosts: "heap_sat (records_slots c taken) s \<Longrightarrow> circuit_hosts c s = Inr taken"
  by (auto simp: heap_sat_def records_slots_def circuit_hosts_def circuit_object_def hosts_value_def py_dict_def
      hosts_of_value split: option.splits)

text \<open>A state in which \<open>c\<close> has the slots \<open>taken\<close> and \<open>free\<close> are left.\<close>

definition slots_lent :: "string \<Rightarrow> hosts \<Rightarrow> hosts \<Rightarrow> service \<Rightarrow> bool" where
  "slots_lent c taken free s \<longleftrightarrow> heap_sat (records_slots c taken) (sv_controller s) \<and> sv_hosts s = free"

lemma keeps_on_controller:
  "keeps J m \<Longrightarrow> keeps (\<lambda>s. J (sv_controller s) \<and> sv_hosts s = free) (on_controller m)"
  by (auto simp: keeps_def on_controller_def split: prod.splits)

lemma keeps_lent: "keeps (heap_sat (records_slots c taken)) m \<Longrightarrow> keeps (slots_lent c taken free) (on_controller m)"
  using keeps_on_controller [of "heap_sat (records_slots c taken)"] by (simp add: slots_lent_def [abs_def])

lemma keeps_attach_slots: "keeps (heap_sat (records_slots c taken)) (attach_provider_credential env cid)"
  unfolding attach_provider_credential_def Let_def
  by (intro keeps_rules keeps_case_prod keeps_credential_heap keeps_mod)
    (auto simp: heap_sat_def records_slots_def circuit_object_def split: option.splits if_splits)

text \<open>A hook that leaves the recorded slots of a circuit alone.\<close>

definition hook_keeps_slots :: "service_env \<Rightarrow> bool" where
  "hook_keeps_slots env \<longleftrightarrow>
     (\<forall>k k'. submission_hook env k = Inr k' \<longrightarrow> map_of (c_info k') ''hosts'' = map_of (c_info k) ''hosts'')"

lemma keeps_prepare_slots:
  assumes hook: "hook_keeps_slots env"
  shows "keeps (slots_lent c taken free) (prepare_submission env c)"
proof -
  have hooked: "keeps (slots_lent c taken free)
      (bindM (getM (\<lambda>s. circuit_object c (sv_controller s))) (\<lambda>k.
         bindM (liftM (submission_hook env k)) (\<lambda>k'. on_controller (modM (upd_circuit c (\<lambda>_. k'))))))"
  proof (rule keeps_bind_get)
    fix s assume lent: "slots_lent c taken free s"
    show "slots_lent c taken free (snd (bindM (liftM (submission_hook env (circuit_object c (sv_controller s))))
        (\<lambda>k'. on_controller (modM (upd_circuit c (\<lambda>_. k')))) s))"
    proof (cases "submission_hook env (circuit_object c (sv_controller s))")
      case (Inr k')
      with hook have "map_of (c_info k') ''hosts'' = map_of (c_info (circuit_object c (sv_controller s))) ''hosts''"
        by (simp add: hook_keeps_slots_def)
      with Inr lent show ?thesis
        by (auto simp: monad_defs on_controller_def slots_lent_def heap_sat_def records_slots_def upd_circuit_def
            circuit_object_def split: option.splits)
    qed (use lent in \<open>simp add: monad_defs\<close>)
  qed
  show ?thesis
    unfolding prepare_submission_def by (rule keeps_seq [OF _ hooked]) (intro keeps_rules keeps_lent keeps_attach_slots)
qed

lemma keeps_fail_slots: "keeps (slots_lent c taken free) (fail_provider_submission env cid e)"
  unfolding fail_provider_submission_def by (intro keeps_rules keeps_lent keeps_fail_heap)

lemma keeps_finalize_slots: "keeps (slots_lent c taken free) (finalize_provider_task env cid result)"
  unfolding finalize_provider_task_def Let_def
  by (intro keeps_rules keeps_lent keeps_fail_heap keeps_complete_heap)

text \<open>Slots that fit come back: whatever else the return does, the hosts have them again.\<close>

lemma return_hosts_slots:
  assumes "slots_lent c taken free s" "return_slots (own_max_ppn env) taken free = (Inr (), after)"
  shows "sv_hosts (snd (return_hosts env c s)) = after"
proof -
  have "circuit_hosts c (sv_controller s) = Inr taken" "sv_hosts s = free"
    using assms(1) recorded_hosts by (auto simp: slots_lent_def)
  then show ?thesis
    using assms(2) by (simp add: return_hosts_def monad_defs on_controller_def split: prod.splits sum.splits)
qed

lemma free_resources_slots:
  assumes "slots_lent c taken free s" "return_slots (own_max_ppn env) taken free = (Inr (), after)"
  shows "sv_hosts (snd (free_resources env c result s)) = after"
proof -
  have "slots_lent c taken free (snd (finalize_provider_task env c result s))"
    by (rule keepsD [OF keeps_finalize_slots assms(1)])
  from return_hosts_slots [OF this assms(2)] show ?thesis
    by (auto simp: free_resources_def finallyM_def split: prod.splits sum.splits)
qed

text \<open>
  After its slots were taken, a circuit that cannot be submitted gives them back. It still records
  them when the preparation ended where recording the failure raised, with that error, or when a call did
  not come back at all.
\<close>

definition not_recorded :: "service_env \<Rightarrow> string \<Rightarrow> exc + 'a \<Rightarrow> service \<Rightarrow> bool" where
  "not_recorded env c r t \<longleftrightarrow>
     r = Inl NoReturn \<or> (\<exists>w k u e. prepare_submission env c w = (Inl k, u) \<and> fail_provider_submission env c k u = (Inl e, t) \<and> r = Inl e)"

lemma finish_preparation_slots:
  assumes hook: "hook_keeps_slots env" and lent: "slots_lent c taken free s"
    and given: "return_slots (own_max_ppn env) taken free = (Inr (), after)"
    and run: "finish_preparation env c s = (r, t)"
  shows "slots_lent c taken free t \<and> (r = Inr c \<or> not_recorded env c r t) \<or> (\<exists>e. r = Inl e \<and> sv_hosts t = after)"
proof -
  obtain r1 u where prep: "prepare_submission env c s = (r1, u)" by (cases "prepare_submission env c s")
  have u: "slots_lent c taken free u" using keepsD [OF keeps_prepare_slots [OF hook] lent] prep by simp
  show ?thesis
  proof (cases r1)
    case (Inl e)
    obtain r2 v where fail: "fail_provider_submission env c e u = (r2, v)" by (cases "fail_provider_submission env c e u")
    have v: "slots_lent c taken free v" using keepsD [OF keeps_fail_slots u, of env c e] fail by simp
    consider "e = NoReturn" | e2 where "e \<noteq> NoReturn" "r2 = Inl e2" | x where "e \<noteq> NoReturn" "r2 = Inr x" by (cases r2) auto
    then show ?thesis
    proof cases
      case 1
      then show ?thesis
        using run prep Inl u by (auto simp: finish_preparation_def catchM_def monad_defs not_recorded_def)
    next
      case 2
      then have "r = Inl e2" "t = v" using run prep Inl fail by (auto simp: finish_preparation_def catchM_def monad_defs)
      moreover have "prepare_submission env c s = (Inl e, u)" "fail_provider_submission env c e u = (Inl e2, v)"
        using prep Inl fail 2 by simp_all
      ultimately show ?thesis using v unfolding not_recorded_def by blast
    next
      case 3
      with run prep Inl fail free_resources_slots [OF v given, of PNone] show ?thesis
        by (auto simp: finish_preparation_def catchM_def monad_defs split: prod.splits sum.splits)
    qed
  next
    case (Inr x)
    with run prep u show ?thesis by (auto simp: finish_preparation_def catchM_def monad_defs)
  qed
qed

text \<open>Taking the slots of a circuit.\<close>

lemma take_resources_slots:
  assumes "take_resources env c s = (Inr x, t)"
  shows "\<exists>np taken. consume_resources (own_max_ppn env) np (sv_hosts s) = (Inr taken, sv_hosts t) \<and>
    slots_lent c taken (sv_hosts t) t"
proof -
  from assms obtain np taken hs where "consume_resources (own_max_ppn env) np (sv_hosts s) = (Inr taken, hs)"
    "t = s\<lparr>sv_hosts := hs, sv_controller := set_circuit_info c (dset ''hosts'' (hosts_value taken)) (sv_controller s)\<rparr>"
    by (auto simp: take_resources_def monad_defs on_controller_def split: prod.splits sum.splits)
  then show ?thesis
    by (auto simp: slots_lent_def heap_sat_def records_slots_def set_circuit_info_def Let_def)
qed

lemma take_resources_refused: "take_resources env c s = (Inl e, t) \<Longrightarrow> sv_hosts t = sv_hosts s"
  by (auto simp: take_resources_def consume_resources_def monad_defs on_controller_def
      split: prod.splits sum.splits if_splits)

lemma keeps_note_consumed: "keeps (slots_lent c taken free) (note_consumed env runtime)"
proof -
  have "heap_sat (records_slots c taken) (upd_circuit d (\<lambda>k. snd (set_resources_consumed now k)) s)"
    if "heap_sat (records_slots c taken) s" for now s d
    using that
    by (auto simp: heap_sat_def records_slots_def upd_circuit_def set_resources_consumed_def set_state_def
        circuit_object_def split: option.splits)
  then show ?thesis
    unfolding note_consumed_def set_task_state_def
    by (intro keeps_lent keeps_rules keeps_time heap_blind keeps_mod) (auto simp: heap_sat_def)
qed

text \<open>The slots that \<open>t\<close> has less than \<open>s\<close> are those a circuit took and records.\<close>

definition took_slots :: "service_env \<Rightarrow> string \<Rightarrow> service \<Rightarrow> service \<Rightarrow> bool" where
  "took_slots env c s t \<longleftrightarrow>
     (\<exists>np taken. consume_resources (own_max_ppn env) np (sv_hosts s) = (Inr taken, sv_hosts t) \<and>
        slots_lent c taken (sv_hosts t) t)"

lemma note_consumed_returns: "\<exists>t. note_consumed env runtime s = (Inr (), t)"
  by (simp add: note_consumed_def on_controller_def set_task_state_def time_ns_def monad_defs)

lemma consume_for_dispatch_slots:
  assumes run: "consume_for_dispatch env runtime s = (r, t)"
  shows "took_slots env (rt_cid runtime) s t \<and> r = Inr (rt_cid runtime) \<or> sv_hosts t = sv_hosts s \<and> (\<exists>e. r = Inl e)"
proof -
  obtain r1 u where took: "take_resources env (rt_cid runtime) s = (r1, u)"
    by (cases "take_resources env (rt_cid runtime) s")
  show ?thesis
  proof (cases "\<exists>x. r1 = Inr x")
    case False
    then show ?thesis
      using run took take_resources_refused [of env "rt_cid runtime" s]
      by (cases r1) (auto simp: consume_for_dispatch_def monad_defs split: if_splits)
  next
    case True
    with take_resources_slots took have u: "took_slots env (rt_cid runtime) s u" unfolding took_slots_def by blast
    obtain v where noted: "note_consumed env runtime u = (Inr (), v)" using note_consumed_returns by blast
    from u have "took_slots env (rt_cid runtime) s (snd (note_consumed env runtime u))"
      using keepsD [OF keeps_note_consumed] unfolding took_slots_def by (metis slots_lent_def)
    with run took True noted show ?thesis
      by (auto simp: consume_for_dispatch_def monad_defs split: if_splits)
  qed
qed

text \<open>The whole preparation.\<close>

lemma on_controller_hosts [simp]: "sv_hosts (snd (on_controller m s)) = sv_hosts s"
  by (simp add: on_controller_def split: prod.splits)

lemma keeps_hosts: "keeps (\<lambda>s. sv_hosts s = free) (on_controller m)"
  by (rule keepsI) simp

lemma admit_hosts: "admit_and_select env cid s = (r, t) \<Longrightarrow> sv_hosts t = sv_hosts s"
proof -
  have "keeps (\<lambda>u. sv_hosts u = sv_hosts s) (admit_and_select env cid)"
    unfolding admit_and_select_def by (intro keeps_rules keeps_hosts)
  from keepsD [OF this, of s] show "admit_and_select env cid s = (r, t) \<Longrightarrow> sv_hosts t = sv_hosts s" by simp
qed

lemma release_hosts [simp]: "sv_hosts (snd (release_claim q s)) = sv_hosts s"
  by (simp add: release_claim_def)

lemma release_returns: "release_claim q s = (Inr (), snd (release_claim q s))"
  by (simp add: release_claim_def on_controller_def modM_def)

lemma took_slots_frame: "took_slots env c s t \<Longrightarrow> sv_hosts s' = sv_hosts s \<Longrightarrow> took_slots env c s' t"
  by (simp add: took_slots_def)

lemma prepare_slots:
  assumes hook: "hook_keeps_slots env" and ok: "dict_ok (sv_hosts s)" and cap: "\<And>h. slots (sv_hosts s) h \<le> own_max_ppn env"
    and run: "prepare_run_circuit env cid req s = (r, t)"
  shows "(\<exists>c. took_slots env c s t \<and> (r = Inr c \<or> not_recorded env c r t)) \<or> (\<exists>e. r = Inl e) \<and> slots (sv_hosts t) = slots (sv_hosts s)"
proof -
  obtain r1 u where admit: "admit_and_select env cid s = (r1, u)" by (cases "admit_and_select env cid s")
  have u: "sv_hosts u = sv_hosts s" by (rule admit_hosts [OF admit])
  show ?thesis
  proof (cases "cid \<in> set (circuits (sv_controller s)) \<and> (\<exists>runtime. r1 = Inr (Some runtime) \<and> \<not> (req \<and> rt_cid runtime \<noteq> cid))")
    case False
    then show ?thesis
      using run admit u release_hosts
      by (auto simp: prepare_run_circuit_def catchM_def monad_defs release_claim_def on_controller_def
          split: if_splits option.splits sum.splits)
  next
    case True
    then obtain runtime where r1: "r1 = Inr (Some runtime)" and listed: "cid \<in> set (circuits (sv_controller s))"
      and same: "\<not> (req \<and> rt_cid runtime \<noteq> cid)" by auto
    obtain r2 v where consume: "consume_for_dispatch env runtime u = (r2, v)" by (cases "consume_for_dispatch env runtime u")
    note cs = consume_for_dispatch_slots [OF consume]
    show ?thesis
    proof (cases r2)
      case (Inl e)
      have "t = (if e = NoReturn then v else snd (release_claim (rt_qtask_id runtime) v))" "r = Inl e"
        using run admit r1 listed same consume Inl
        by (auto simp: prepare_run_circuit_def catchM_def monad_defs release_claim_def on_controller_def split: if_splits)
      then show ?thesis using cs u Inl by simp
    next
      case (Inr c)
      then have took: "took_slots env c s v" and c: "c = rt_cid runtime"
        using cs took_slots_frame [of env "rt_cid runtime" u v s] u by auto
      have fin: "finish_preparation env c v = (r, t)"
        using run admit r1 listed same consume Inr by (simp add: prepare_run_circuit_def catchM_def monad_defs)
      from took obtain np taken where taken: "consume_resources (own_max_ppn env) np (sv_hosts s) = (Inr taken, sv_hosts v)"
        and lent: "slots_lent c taken (sv_hosts v) v" by (auto simp: took_slots_def)
      from borrow_and_return [OF ok cap taken] obtain after where
        given: "return_slots (own_max_ppn env) taken (sv_hosts v) = (Inr (), after)" "slots after = slots (sv_hosts s)"
        by blast
      have "slots_lent c taken (sv_hosts v) t \<Longrightarrow> took_slots env c s t"
        using taken by (auto simp: took_slots_def slots_lent_def)
      then show ?thesis
        using finish_preparation_slots [OF hook lent given(1) fin] given(2) by metis
    qed
  qed
qed

section \<open>Calls that wait\<close>

lemma waitM_returns:
  assumes "\<And>x t. m s = (Inr x, t) \<Longrightarrow> \<exists>fuel y. f fuel x t = Some y"
  shows "\<exists>fuel y. waitM m (f fuel) s = Some y"
proof (cases "m s")
  case (Pair r t)
  then show ?thesis using assms by (cases r) (simp_all add: waitM_def)
qed

lemma sync_loop_returns:
  "n \<le> k \<Longrightarrow> sync_timed_out env deadline k \<Longrightarrow> \<exists>x. sync_loop env cid request deadline n (Suc (k - n)) s = Some x"
proof (induction "k - n" arbitrary: n s)
  case 0
  then show ?case by (auto simp: waitM_def doneM_def split: prod.splits sum.splits attempt.splits)
next
  case (Suc m)
  then have fuel: "k - n = Suc (k - Suc n)" and le: "Suc n \<le> k" by simp_all
  from Suc.hyps(1) [OF _ le Suc.prems(2)] Suc.hyps(2)
  have "\<exists>x. sync_loop env cid request deadline (Suc n) (Suc (k - Suc n)) t = Some x" for t by simp
  then have "\<exists>x. sync_loop env cid request deadline (Suc n) (k - n) t = Some x" for t unfolding fuel .
  then show ?case by (auto simp: waitM_def doneM_def modM_def split: prod.splits sum.splits attempt.splits)
qed

lemma await_tasks_returns:
  "n \<le> k \<Longrightarrow> sync_timed_out env deadline k \<Longrightarrow> \<exists>x t. await_tasks env deadline n (Suc (k - n)) s = Some (Inr x, t)"
proof (induction "k - n" arbitrary: n s)
  case 0
  then show ?case by (auto simp: waitM_def doneM_def getM_def retM_def)
next
  case (Suc m)
  then have fuel: "k - n = Suc (k - Suc n)" and le: "Suc n \<le> k" by simp_all
  from Suc.hyps(1) [OF _ le Suc.prems(2)] Suc.hyps(2)
  have "\<exists>x u. await_tasks env deadline (Suc n) (Suc (k - Suc n)) t = Some (Inr x, u)" for t by simp
  then have "\<exists>x u. await_tasks env deadline (Suc n) (k - n) t = Some (Inr x, u)" for t unfolding fuel .
  then show ?case by (auto simp: waitM_def doneM_def getM_def retM_def modM_def)
qed

text \<open>Without other threads and without a deadline the wait for a task that nobody ends has no end.\<close>

lemma await_forever:
  assumes "active_runtime_tasks (sv_controller s) \<noteq> []" "\<And>n t. others env n t = t"
  shows "await_tasks env None n fuel s = None"
  using assms by (induction fuel arbitrary: n) (simp_all add: waitM_def getM_def modM_def sync_timed_out_def)

section \<open>A service that does not accept work\<close>

lemma not_running_refused:
  assumes "service_state (sv_controller s) \<noteq> ''running''"
  shows "\<exists>e. async_run env info rid token timeout cancel s = (Inl e, s)"
    and "\<exists>e. sync_run env fuel info rid token timeout cancel s = Some (Inl e, s)"
  using assms
  by (auto simp: async_run_def sync_run_def waitM_def require_initialized_def require_managed_execution_def monad_defs
      split: sum.splits)

section \<open>Examples\<close>

text \<open>A service with one host of two slots and one circuit that waits.\<close>

definition small_env :: "(ext_call \<Rightarrow> exc + ext_value) \<Rightarrow> (circuit \<Rightarrow> exc + circuit) \<Rightarrow> service_env" where
  "small_env answer hook =
     \<lparr>qpm = delayed_env\<lparr>respond := (\<lambda>_. answer)\<rparr>, this_thread = 1, auth_variable = [], own_max_ppn = 2,
      qubits_per_process = 10, round_quotient = (div), nearest_power = (\<lambda>n. n), uuid4 = (\<lambda>n. CHR ''c'' # nat_text n),
      circuit_hook = (\<lambda>_. Inr None), submission_hook = hook, provider_events = (\<lambda>_ _. []), float_ns = py_number,
      wall_clock = int, others = (\<lambda>_ s. s), drain_fuel = 5\<rparr>"

definition small_service :: service where
  "small_service =
     \<lparr>sv_controller = delayed_controller\<lparr>circuit_heap := [(''c'', \<lparr>c_state = READY, c_cid = ''c'',
          c_info = [(''qtask_id'', PInt 1), (''np'', PInt 1)], launch_time = -1, creation_time = 0, exec_time = -1,
          completion_time = -1, resources_consumed_time = -1, provider_credential = [], provider_credential_metadata = []\<rparr>)]\<rparr>,
      sv_hosts = [(''n'', 2)], oor_queue = [''c''], all_results = [], oor_drain_locked = False, oor_drain_requested = False,
      cids_made = 0, has_qrc = True, qpm_initialized = True, qpm_directory_registered = True\<rparr>"

text \<open>An admission service without capacity, and a scheduler that cannot be told of a failure.\<close>

definition no_capacity :: "ext_call \<Rightarrow> exc + ext_value" where
  "no_capacity c =
     (case c of
        AdmAuthorize rid usage \<Rightarrow> Inr (EVal (PDict [(''status'', PStr ''delayed'')]))
      | AdmGet rid \<Rightarrow> Inr (EVal (PDict [(''state'', PStr ''active'')]))
      | _ \<Rightarrow> Inr (EVal PNone))"

definition deaf_scheduler :: "ext_call \<Rightarrow> exc + ext_value" where
  "deaf_scheduler c =
     (case c of
        AdmAuthorize rid usage \<Rightarrow> Inr (EVal (PDict [(''status'', PStr ''accepted'')]))
      | AdmConsume rid usage \<Rightarrow> Inr (EVal (PDict [(''status'', PStr ''accepted'')]))
      | AdmGet rid \<Rightarrow> Inr (EVal (PDict [(''state'', PStr ''active'')]))
      | SchedSubmit d \<Rightarrow> Inr (EVal (PInt 5))
      | SchedSelect \<Rightarrow> Inr (EVal (PDict [(''task_id'', PInt 5)]))
      | SchedFailed t \<Rightarrow> Inl (QPMSchedulerError ''scheduler is down'')
      | SchedState t \<Rightarrow> Inr (EVal (PStr ''queued''))
      | _ \<Rightarrow> Inr (EVal PNone))"

definition refusing_hook :: "circuit \<Rightarrow> exc + circuit" where
  "refusing_hook c = Inl (ProviderError ''bad circuit'')"

definition queue_after :: "nat \<Rightarrow> string list" where
  "queue_after n = oor_queue (((\<lambda>s. snd (process_oor_queue (small_env no_capacity Inr) s)) ^^ n) small_service)"

definition stranded :: "(exc + string) \<times> hosts \<times> string list" where
  "stranded =
     (case prepare_run_circuit (small_env deaf_scheduler refusing_hook) ''c'' True small_service of
        (r, t) \<Rightarrow> (r, sv_hosts t, circuits (sv_controller t)))"

lemma queue_after_examples: "queue_after 0 = [''c'']" "queue_after 1 = [''c'', ''c'']" "queue_after 2 = [''c'', ''c'', ''c'']"
  by code_simp+

lemma stranded_example: "stranded = (Inl (QPMSchedulerError ''scheduler is down''), [(''n'', 1)], [''c''])"
  by code_simp

text \<open>A service without tasks, and a run whose request does not say how many qubits it needs.\<close>

definition idle_service :: service where
  "idle_service = small_service\<lparr>oor_queue := [], sv_controller := new_controller
     \<lparr>target_id = ''qpu'', credential_mode = ''none'', admission_threading_mode = ''serialized'',
      scheduler_threading_mode = ''serialized'', serialization_mode = ''lock''\<rparr> COMPLETION_RETENTION_DEFAULTS None\<rparr>"

definition rejected_run :: "(exc + pydict option) \<times> service" where
  "rejected_run = async_run (small_env deaf_scheduler Inr) [(''shots'', PInt 1)] (PInt 7) PNone PNone PNone idle_service"

lemma rejected_run_task:
  "fst rejected_run = Inl (KeyError ''num_qubits'') \<and> active_runtime_tasks (sv_controller (snd rejected_run)) = [(1, Some 7)] \<and>
   circuits (sv_controller (snd rejected_run)) = []"
  by code_simp

end
