(* ===== verification/QPM_Service_System.thy ===== *)
theory QPM_Service_System
  imports QPM_Run QPM_System
begin

text \<open>
  The service and its controller together: every call of the service keeps the invariant of the
  controller's tables, whether it returns or raises, so the invariant holds after any sequence of
  calls, however the attempts of a waiting synchronous run interleave with other calls.
\<close>

section \<open>Calls on the controller\<close>

definition service_ok :: "service \<Rightarrow> bool" where
  "service_ok s = system_ok (sv_controller s)"

lemma keeps_both: "keeps tasks_ok m \<Longrightarrow> keeps cq_ok m \<Longrightarrow> keeps service_ok (on_controller m)"
  by (auto simp: keeps_def on_controller_def service_ok_def system_ok_def split: prod.splits)

lemma keeps_own: "(\<And>s. sv_controller (f s) = sv_controller s) \<Longrightarrow> keeps service_ok (modM f)"
  by (simp add: keeps_def modM_def service_ok_def)

text \<open>What writes only circuit objects and the list of circuits touches neither invariant.\<close>

lemma circuit_frame:
  "tasks_ok (upd_circuit cid f s) = tasks_ok s" "cq_ok (upd_circuit cid f s) = cq_ok s"
  "tasks_ok (enter_circuit cid c s) = tasks_ok s" "cq_ok (enter_circuit cid c s) = cq_ok s"
  "tasks_ok (set_circuit_info cid g s) = tasks_ok s" "cq_ok (set_circuit_info cid g s) = cq_ok s"
  "tasks_ok (s\<lparr>circuits := l\<rparr>) = tasks_ok s" "cq_ok (s\<lparr>circuits := l\<rparr>) = cq_ok s"
  by (simp_all add: upd_circuit_def enter_circuit_def set_circuit_info_def tasks_ok_def cq_ok_def Let_def)

lemma keeps_frame:
  assumes "\<And>s. tasks_ok (f s) = tasks_ok s" "\<And>s. cq_ok (f s) = cq_ok s"
  shows "keeps tasks_ok (modM f)" "keeps cq_ok (modM f)"
  by (auto intro!: keeps_mod simp: assms)

lemmas table_rules = keeps_rules intake_tasks intake_queues config_tasks config_queues tasks_world cq_world
  keeps_frame [OF circuit_frame(1,2)] keeps_frame [OF circuit_frame(3,4)] keeps_frame [OF circuit_frame(5,6)]
  keeps_frame [OF circuit_frame(7,8)]

section \<open>Circuits and slots\<close>

lemma keeps_create [keeps_rules]: "keeps service_ok (create_circuit env info request)"
  unfolding create_circuit_def Let_def
  by (intro keeps_rules keeps_own keeps_both keeps_case_prod table_rules) simp

lemma keeps_require [keeps_rules]:
  "keeps service_ok (require_managed_execution env request)" "keeps service_ok (managed_reservation env rid token)"
  "keeps service_ok require_initialized"
proof -
  show managed: "keeps service_ok (require_managed_execution env request)" for request
    unfolding require_managed_execution_def by (intro keeps_rules keeps_both table_rules)
  show "keeps service_ok (managed_reservation env rid token)"
    unfolding managed_reservation_def by (intro keeps_rules managed)
  show "keeps service_ok require_initialized" unfolding require_initialized_def by (intro keeps_rules)
qed

lemma keeps_delete [keeps_rules]: "keeps service_ok (delete_circuit env cid rid token)"
  unfolding delete_circuit_def known_task_error_def by (intro keeps_rules keeps_both table_rules)

lemma keeps_slots: "keeps service_ok (\<lambda>s. case g s of (r, hs) \<Rightarrow> (r, s\<lparr>sv_hosts := hs\<rparr>))"
  by (rule keepsI) (simp add: service_ok_def split: prod.splits)

lemma keeps_take_return [keeps_rules]:
  "keeps service_ok (take_resources env cid)" "keeps service_ok (return_hosts env cid)"
  unfolding take_resources_def return_hosts_def by (intro keeps_rules keeps_slots keeps_both table_rules)+

lemma keeps_free [keeps_rules]:
  "keeps service_ok (finalize_provider_task env cid result)" "keeps service_ok (free_resources env cid result)"
  "keeps service_ok (free_if_held env cid)" "keeps service_ok (fail_provider_submission env cid e)"
proof -
  show final: "keeps service_ok (finalize_provider_task env cid result)" for result
    unfolding finalize_provider_task_def by (intro keeps_rules keeps_both table_rules)
  show free: "keeps service_ok (free_resources env cid result)" for result
    unfolding free_resources_def by (intro keeps_rules final)
  show "keeps service_ok (free_if_held env cid)" unfolding free_if_held_def by (intro keeps_rules free)
  show "keeps service_ok (fail_provider_submission env cid e)"
    unfolding fail_provider_submission_def by (intro keeps_rules keeps_both table_rules)
qed

section \<open>The waiting queue\<close>

lemma keeps_queue [keeps_rules]:
  "keeps service_ok prune_oor_queue" "keeps service_ok (remove_oor_cid cid)"
  "keeps service_ok next_oor_cid_without_scheduler_task" "keeps service_ok (modM (queue_oor c))"
  "keeps service_ok begin_oor_drain" "keeps service_ok end_oor_drain"
  unfolding prune_oor_queue_def remove_oor_cid_def next_oor_cid_without_scheduler_task_def begin_oor_drain_def end_oor_drain_def
  by (intro keeps_rules keeps_case_prod keeps_own; simp add: queue_oor_def)+

lemma keeps_defer [keeps_rules]: "keeps service_ok (defer_local_retry cid)" "keeps service_ok (release_claim q)"
  unfolding defer_local_retry_def release_claim_def
  by (intro keeps_rules keeps_both table_rules keeps_mod; simp)+

section \<open>Dispatching\<close>

lemma keeps_prepare [keeps_rules]: "keeps service_ok (prepare_run_circuit env cid req)"
proof -
  have admit: "keeps service_ok (admit_and_select env cid)"
    unfolding admit_and_select_def select_task_def circuit_qtask_id_def by (intro keeps_rules keeps_both table_rules)
  have consume: "keeps service_ok (consume_for_dispatch env r)" for r
    unfolding consume_for_dispatch_def note_consumed_def by (intro keeps_rules keeps_both table_rules)
  have "keeps service_ok (finish_preparation env c)" for c
    unfolding finish_preparation_def prepare_submission_def by (intro keeps_rules keeps_both table_rules)
  with admit consume show ?thesis unfolding prepare_run_circuit_def by (intro keeps_rules)
qed

lemma keeps_status_for [keeps_rules]:
  "keeps service_ok (on_controller (task_status_for_cid env cid o1 r1 m1 v1 rid req))"
  "keeps service_ok (on_controller (task_status_for_qtask_id env q o2 r2 m2 v2 rid req))"
  unfolding task_status_for_cid_def task_status_for_qtask_id_def report_task_status_def
  by (intro keeps_rules keeps_both table_rules keeps_status cq_ok_blind)+

lemma keeps_submit [keeps_rules]:
  "keeps service_ok (submit_provider_sync env cid)" "keeps service_ok (submit_provider_async env cid st)"
proof -
  have start: "keeps service_ok (start_submission env cid)"
    unfolding start_submission_def by (intro keeps_rules keeps_both table_rules)
  have call: "keeps service_ok (call_provider env c cid)" for c
    unfolding call_provider_def by (intro keeps_rules keeps_both table_rules)
  have "keeps service_ok (circuit_status_answer env cid st)"
    unfolding circuit_status_answer_def status_of_def by (intro keeps_rules)
  moreover have "keeps service_ok (on_controller (bind_handle cid h))" for h
    unfolding bind_handle_def by (intro keeps_rules keeps_both table_rules)
  ultimately show "keeps service_ok (submit_provider_sync env cid)" "keeps service_ok (submit_provider_async env cid st)"
    unfolding submit_provider_sync_def submit_provider_async_def by (intro keeps_rules start call)+
qed

lemma keeps_dispatch_ready [keeps_rules]: "keeps service_ok (dispatch_ready_qtask env)"
proof -
  have "keeps service_ok (dispatch_failed env r c e)" for r c e
    unfolding dispatch_failed_def by (cases e) (simp_all, (intro keeps_rules)+)
  then show ?thesis
    unfolding dispatch_ready_qtask_def select_task_def
    by (auto intro!: keeps_rules keeps_both table_rules split: sum.splits)
qed

lemma keeps_oor_failed [keeps_rules]: "keeps service_ok (oor_failed env cid c e)"
  unfolding oor_failed_def by (cases e) (simp_all, (intro keeps_rules)+)

lemma keeps_run_oor [keeps_rules]: "keeps service_ok (async_run_oor env cid)"
  unfolding async_run_oor_def by (intro keeps_rules)

lemma keeps_drain_queue [keeps_rules]: "keeps service_ok (process_oor_queue env)"
proof -
  have round: "keeps service_ok (drain_round env)"
    unfolding drain_round_def by (auto intro!: keeps_rules split: exc.splits)
  have loop: "keeps service_ok (drain_loop env n)" for n
    by (induction n) (auto intro!: keeps_rules round split: drain_verdict.splits)
  have "keeps service_ok (drain_oor_queue env)"
    unfolding drain_oor_queue_def by (intro keeps_rules keeps_both loop table_rules)
  then have "keeps service_ok (process_loop env n)" for n
    by (induction n) (auto intro!: keeps_rules)
  then show ?thesis unfolding process_oor_queue_def .
qed

lemma keeps_free_and_oor [keeps_rules]: "keeps service_ok (free_resources_and_oor env cid result)"
  unfolding free_resources_and_oor_def by (intro keeps_rules)

section \<open>Runs\<close>

lemma keeps_service_cancel [keeps_rules]: "keeps service_ok (service_cancel_task env cid rid token reason q)"
  unfolding service_cancel_task_def controller_cancel_def by (intro keeps_rules keeps_both table_rules)

lemma keeps_attempt [keeps_rules]: "keeps service_ok (sync_attempt env cid request)"
proof -
  have "keeps service_ok (sync_failed env cid request c e)" for c e
    unfolding sync_failed_def failed_submission_status_def status_of_def by (cases e) (simp_all, (intro keeps_rules)+)
  moreover have "keeps service_ok (sync_finish env request c)" for c
    unfolding sync_finish_def complete_provider_submission_def by (intro keeps_rules keeps_both table_rules)
  ultimately show ?thesis
    unfolding sync_attempt_def by (auto intro!: keeps_rules split: sum.splits)
qed

lemma keeps_timeout [keeps_rules]: "keeps service_ok (sync_timeout_response env cid request message)"
  unfolding sync_timeout_response_def cancel_provider_submission_def timeout_status_def
  by (intro keeps_rules keeps_both table_rules)

lemma keeps_async [keeps_rules]: "keeps service_ok (async_run env info rid token timeout cancel)"
proof -
  have "keeps service_ok (async_failed env request cid c e)" for request cid c e
    unfolding async_failed_def failed_submission_status_def status_of_def Let_def
    by (cases e) (simp_all, (intro keeps_rules)+)
  then show ?thesis
    unfolding async_run_def async_run_submission_def by (auto intro!: keeps_rules split: sum.splits)
qed

section \<open>Other calls\<close>

lemma keeps_polls [keeps_rules]:
  "keeps service_ok (read_cq env cid rid)" "keeps service_ok (peek_cq env cid rid)"
  unfolding read_cq_def peek_cq_def by (intro keeps_rules keeps_own keeps_both table_rules; simp)+

lemma keeps_details [keeps_rules]:
  "keeps service_ok (get_task_timing env b rid q)" "keeps service_ok (get_task_metadata env b rid q)"
proof -
  have "keeps service_ok (provider_task_details env b m v)" for m v
    unfolding provider_task_details_def by (cases v) (simp_all, (intro keeps_rules keeps_both table_rules)+)
  then show "keeps service_ok (get_task_timing env b rid q)" "keeps service_ok (get_task_metadata env b rid q)"
    unfolding get_task_timing_def get_task_metadata_def task_status_answer_def by (auto intro!: keeps_rules)
qed

lemma keeps_service_reconcile [keeps_rules]: "keeps service_ok (reconcile_service env token reason)"
  unfolding reconcile_service_def by (intro keeps_rules keeps_both table_rules)

lemma push_frame: "keeps tasks_ok (modM (\<lambda>s. s\<lparr>push_evtype := e\<rparr>))" "keeps cq_ok (modM (\<lambda>s. s\<lparr>push_evtype := e\<rparr>))"
  by (auto intro!: keeps_mod simp: tasks_ok_def cq_ok_def)

lemma keeps_notification [keeps_rules]:
  "keeps service_ok (ensure_qrc_event_dispatcher env evtype)"
  "keeps service_ok (register_event_notification env uuid evtype cls token rid filters)"
proof -
  show own: "keeps service_ok (ensure_qrc_event_dispatcher env evtype)"
    unfolding ensure_qrc_event_dispatcher_def by (intro keeps_rules keeps_both table_rules push_frame)
  have endpoint: "keeps service_ok (on_controller (register_event_endpoint uuid cls evtype rid filters))"
    by (intro keeps_both table_rules) (simp_all add: tasks_ok_def cq_ok_def)
  show "keeps service_ok (register_event_notification env uuid evtype cls token rid filters)"
    unfolding register_event_notification_def by (intro keeps_rules own endpoint)
qed

lemma keeps_profile_call [keeps_rules]:
  "keeps service_ok (on_controller (configure_service_profile env token device profile overrides))"
  unfolding configure_service_profile_def configure_default_admission_policy_def Let_def
  by (intro keeps_rules keeps_both table_rules)

lemma keeps_shutdown [keeps_rules]:
  "keeps service_ok (shutdown env token mode timeout_s reason)" "keeps service_ok (stop_service env cancel)"
  "keeps service_ok (release_service env)"
proof -
  show "keeps service_ok (shutdown env token mode timeout_s reason)"
    unfolding shutdown_def by (intro keeps_rules keeps_both table_rules)
  have provider: "keeps service_ok (shutdown_provider env)"
    unfolding shutdown_provider_def by (intro keeps_rules keeps_own keeps_both table_rules) simp
  have cancelled: "keeps service_ok (cancel_active_runtime_tasks env)"
    unfolding cancel_active_runtime_tasks_def controller_cancel_def by (intro keeps_rules keeps_both table_rules)
  show "keeps service_ok (stop_service env cancel)"
    unfolding stop_service_def by (intro keeps_rules keeps_both table_rules provider cancelled)
  show "keeps service_ok (release_service env)" unfolding release_service_def by (rule provider)
qed

section \<open>The service as a machine\<close>

text \<open>
  The calls that reach a service. A synchronous run appears as its parts, the entry of its
  circuit, its attempts and the answer when its time is over, so that other calls may come between
  them; \<open>Provider_done\<close> is the call back of a provider that has ended a circuit. \<open>Control\<close> hands
  its request to the controller.
\<close>

datatype service_call =
    Async_run pydict pyval pyval pyval pyval
  | Sync_entry execution_request
  | Sync_attempt string execution_request
  | Sync_timeout string execution_request string
  | Provider_done string pyval
  | Delete_circuit string pyval pyval
  | Cancel_call pyval pyval pyval pyval pyval
  | Read_cq pyval pyval
  | Peek_cq pyval pyval
  | Task_timing bool pyval int
  | Task_metadata bool pyval int
  | Reconcile_call pyval pyval
  | Notify string string string pyval pyval pydict
  | Profile_call pyval pyval "pydict option" pydict
  | Shutdown_call pyval string pyval pyval
  | Stop_call bool
  | Release_service
  | Control request

fun call :: "service_env \<Rightarrow> service_call \<Rightarrow> unit svc" where
  "call env (Async_run info rid token timeout cancel) = seqM (async_run env info rid token timeout cancel) (retM ())"
| "call env (Sync_entry request) =
     seqM require_initialized (seqM (require_managed_execution env request)
       (seqM (create_circuit env (er_payload request) (Some request)) (retM ())))"
| "call env (Sync_attempt cid request) = seqM (sync_attempt env cid request) (retM ())"
| "call env (Sync_timeout cid request message) = seqM (sync_timeout_response env cid request message) (retM ())"
| "call env (Provider_done cid result) = free_resources_and_oor env cid result"
| "call env (Delete_circuit cid rid token) = seqM (delete_circuit env cid rid token) (retM ())"
| "call env (Cancel_call cid rid token reason q) = seqM (service_cancel_task env cid rid token reason q) (retM ())"
| "call env (Read_cq cid rid) = seqM (read_cq env cid rid) (retM ())"
| "call env (Peek_cq cid rid) = seqM (peek_cq env cid rid) (retM ())"
| "call env (Task_timing supported rid q) = seqM (get_task_timing env supported rid q) (retM ())"
| "call env (Task_metadata supported rid q) = seqM (get_task_metadata env supported rid q) (retM ())"
| "call env (Reconcile_call token reason) = seqM (reconcile_service env token reason) (retM ())"
| "call env (Notify uuid evtype cls token rid filters) =
     seqM (register_event_notification env uuid evtype cls token rid filters) (retM ())"
| "call env (Profile_call token device profile overrides) =
     seqM (on_controller (configure_service_profile (qpm env) token device profile overrides)) (retM ())"
| "call env (Shutdown_call token mode timeout_s reason) = seqM (shutdown env token mode timeout_s reason) (retM ())"
| "call env (Stop_call cancel) = stop_service env cancel"
| "call env Release_service = release_service env"
| "call env (Control r) = on_controller (handle (qpm env) r)"

definition answer_call :: "service_env \<Rightarrow> service_call \<Rightarrow> service \<Rightarrow> service" where
  "answer_call env c s = snd (call env c s)"

lemma keeps_call: "keeps service_ok (call env c)"
  by (cases c) (simp_all, (intro keeps_rules keeps_both keeps_handle_tasks keeps_handle_queues)+)

interpretation service_machine: invariant_machine "answer_call env" service_ok for env
  by unfold_locales (simp add: answer_call_def keepsD [OF keeps_call])

text \<open>A new service of a consistent controller is consistent.\<close>

lemma new_service_start:
  assumes "new_service env assigned before qrc methods c = Inr s"
  obtains s0 where "s = snd (ensure_qrc_event_dispatcher env ''completion'' s0)"
    "sv_controller s0 = (set_provider_credential_evictor (qrc \<and> snd methods) (set_provider_canceller (qrc \<and> fst methods) c))
       \<lparr>resources_initialized := True\<rparr>"
proof -
  let ?c = "set_provider_credential_evictor (qrc \<and> snd methods) (set_provider_canceller (qrc \<and> fst methods) c)"
  from assms obtain hosts where "(case ensure_qrc_event_dispatcher env ''completion''
      \<lparr>sv_controller = ?c\<lparr>resources_initialized := True\<rparr>, sv_hosts = hosts, oor_queue = [], all_results = [],
       oor_drain_locked = False, oor_drain_requested = False, cids_made = 0, has_qrc = qrc,
       qpm_initialized = False, qpm_directory_registered = False\<rparr> of (Inl e, t) \<Rightarrow> Inl e | (Inr u, t) \<Rightarrow> Inr t) = Inr s"
    unfolding new_service_def Let_def bindE_Inr by blast
  then show thesis
    by (intro that [of "\<lparr>sv_controller = ?c\<lparr>resources_initialized := True\<rparr>, sv_hosts = hosts, oor_queue = [], all_results = [],
       oor_drain_locked = False, oor_drain_requested = False, cids_made = 0, has_qrc = qrc,
       qpm_initialized = False, qpm_directory_registered = False\<rparr>"]) (auto split: prod.splits sum.splits)
qed

lemma new_service_ok:
  assumes "system_ok c" "new_service env assigned before qrc methods c = Inr s"
  shows "service_ok s"
  using assms(2)
proof (rule new_service_start)
  fix s0 assume s: "s = snd (ensure_qrc_event_dispatcher env ''completion'' s0)"
    and c: "sv_controller s0 = (set_provider_credential_evictor (qrc \<and> snd methods) (set_provider_canceller (qrc \<and> fst methods) c))
       \<lparr>resources_initialized := True\<rparr>"
  from assms(1) have "service_ok s0"
    by (simp add: c service_ok_def system_ok_def set_provider_credential_evictor_def set_provider_canceller_def tasks_ok_def cq_ok_def)
  then show ?thesis unfolding s by (rule keepsD [OF keeps_notification(1)])
qed

text \<open>A synchronous run as a whole, when the threads between its attempts keep the invariant.\<close>

lemma waitM_ok:
  assumes "keeps service_ok m" "\<And>x r t u. service_ok t \<Longrightarrow> f x t = Some (r, u) \<Longrightarrow> service_ok u"
    and "service_ok s" "waitM m f s = Some (r, u)"
  shows "service_ok u"
  using assms keepsD [OF assms(1,3)] by (cases "m s") (auto simp: waitM_def split: sum.splits)

lemma sync_loop_ok:
  assumes others: "\<And>n t. service_ok t \<Longrightarrow> service_ok (others env n t)"
  shows "service_ok s \<Longrightarrow> sync_loop env cid request deadline n fuel s = Some (r, t) \<Longrightarrow> service_ok t"
proof (induction fuel arbitrary: n s)
  case (Suc fuel)
  have attempt: "service_ok (snd (sync_attempt env cid request s))" by (rule keepsD [OF keeps_attempt Suc.prems(1)])
  have timeout: "sync_timeout_response env cid request m u = (x, v) \<Longrightarrow> service_ok u \<Longrightarrow> service_ok v" for m u x v
    using keepsD [OF keeps_timeout, of u env cid request m] by simp
  from Suc.prems(2) attempt show ?case
    by (auto simp: waitM_def doneM_def retM_def modM_def split: prod.splits sum.splits attempt.splits if_splits
        dest: timeout intro: Suc.IH others)
qed simp

lemma sync_run_ok:
  assumes "\<And>n t. service_ok t \<Longrightarrow> service_ok (others env n t)" "service_ok s"
    and "sync_run env fuel info rid token timeout cancel s = Some (r, t)"
  shows "service_ok t"
proof -
  note step = waitM_ok [OF _ _ assms(2) assms(3) [unfolded sync_run_def]]
  have submitted: "service_ok v" if "service_ok u" "sync_run_submission env fuel request u = Some (x, v)" for request u x v
  proof -
    have "service_ok b" if "service_ok a" "waitM (liftM (sync_deadline env d)) (\<lambda>deadline. sync_loop env cid request deadline 0 fuel) a = Some (y, b)"
      for d cid a y b
      using that sync_loop_ok [OF assms(1)] by (intro waitM_ok [OF keeps_lift _ that]) auto
    then show ?thesis
      using that unfolding sync_run_submission_def by (intro waitM_ok [OF keeps_create _ that [unfolded sync_run_submission_def]]) auto
  qed
  have managed: "service_ok v"
    if "service_ok u" "waitM (require_managed_execution env request) (\<lambda>_. sync_run_submission env fuel request) u = Some (x, v)"
    for request u x v
    by (rule waitM_ok [OF keeps_require(1) submitted that])
  have parsed: "service_ok v"
    if "service_ok u" "waitM (liftM (parse_run env info rid token timeout cancel)) (\<lambda>request.
       waitM (require_managed_execution env request) (\<lambda>_. sync_run_submission env fuel request)) u = Some (x, v)" for u x v
    by (rule waitM_ok [OF keeps_lift managed that])
  show ?thesis by (rule step [OF keeps_require(3) parsed])
qed

end
