(* ===== verification/QPM_Resolver.thy ===== *)
theory QPM_Resolver
  imports QPM_Access "HOL-Library.Product_Lexorder"
begin

text \<open>
  The client's search for a QPM (\<^verbatim>\<open>backends/qfw_qiskit/qpm_resolver.py\<close>): the directories a client
  may ask, the records they answer with, the choice among the candidates and the record that is handed
  to DEFw for the connection. A directory is asked through \<open>resolve_services\<close> of the environment,
  which may answer differently in every round of the wait; directories answer with plain values.
  The lemmas show that a resolved candidate matches the request, that a request for hardware never
  ends at a simulator without the consent of its caller, and that the choice is the first in the
  configured order and the only one of its rank.
\<close>

unbundle bit_operations_syntax

section \<open>Names\<close>

datatype resolver_error =
    Reserve_error string
  | Resolver_error string
  | Ambiguous_resolution string
  | Stale_generation string
  | Unsupported_configuration string
  | Provider_policy string
  | Invalid_directory_record string
  | Simulator_fallback_policy string
  | Raised exc

type_synonym 'a resolved = "resolver_error + 'a"

definition bindR :: "'a resolved \<Rightarrow> ('a \<Rightarrow> 'b resolved) \<Rightarrow> 'b resolved" where
  "bindR r f = (case r of Inl e \<Rightarrow> Inl e | Inr x \<Rightarrow> f x)"

definition python :: "exc + 'a \<Rightarrow> 'a resolved" where
  "python r = map_sum Raised id r"

lemma bindR_simps [simp]: "bindR (Inr x) f = f x" "bindR (Inl e) f = Inl e"
  by (simp_all add: bindR_def)

lemma bindR_Inr: "bindR r f = Inr y \<longleftrightarrow> (\<exists>x. r = Inr x \<and> f x = Inr y)"
  by (cases r) auto

lemma python_Inr [simp]: "python r = Inr x \<longleftrightarrow> r = Inr x"
  by (cases r) (simp_all add: python_def)

definition DEFAULT_SCOPE_ORDER :: "string list" where
  "DEFAULT_SCOPE_ORDER = [''site'', ''allocation-local'']"

definition SCOPE_ALIASES :: "(string \<times> string) list" where
  "SCOPE_ALIASES = [(''local'', ''allocation-local''), (''allocation-local'', ''allocation-local''), (''site'', ''site'')]"

definition QPM_TYPE_HARDWARE :: int where "QPM_TYPE_HARDWARE = 1"
definition QPM_TYPE_SIMULATOR :: int where "QPM_TYPE_SIMULATOR = 2"

definition SIMULATOR_PROVIDERS :: "string list" where
  "SIMULATOR_PROVIDERS = [''simulator'', ''nwqsim'', ''tnqvm'', ''qb'']"

definition ZERO_UUID :: string where "ZERO_UUID = ''00000000-0000-0000-0000-000000000000''"

definition API_CATEGORY_BINDINGS :: "(string \<times> string) list" where
  "API_CATEGORY_BINDINGS =
     [(''execution'', ''execution''), (''admission'', ''admission''), (''admission-control'', ''admission''),
      (''admission-policy'', ''admission-policy''), (''scheduler'', ''scheduler''), (''scheduler-control'', ''scheduler''),
      (''telemetry'', ''telemetry''), (''discovery'', ''telemetry''), (''control'', ''control'')]"

definition API_BINDING_CLIENTS :: "(string \<times> string \<times> string) list" where
  "API_BINDING_CLIENTS =
     [(''execution'', ''api_qpm_execution'', ''QPMExecution''),
      (''admission'', ''api_qpm_admission_control'', ''QPMAdmissionControl''),
      (''admission-policy'', ''api_qpm_admission_policy_config'', ''QPMAdmissionPolicyConfig''),
      (''scheduler'', ''api_qpm_scheduler_control'', ''QPMSchedulerControl''),
      (''telemetry'', ''api_qpm_telemetry'', ''QPMTelemetry''), (''control'', ''api_qpm_control'', ''QPMControl'')]"

text \<open>An optional text that is neither absent nor empty.\<close>

definition given :: "string option \<Rightarrow> bool" where
  "given t \<longleftrightarrow> t \<notin> {None, Some []}"

definition binding_name_for_category :: "string \<Rightarrow> string option \<Rightarrow> string" where
  "binding_name_for_category api_category binding_name =
     (if given binding_name then the binding_name
      else case map_of API_CATEGORY_BINDINGS api_category of Some b \<Rightarrow> b | None \<Rightarrow> api_category)"

definition normalize_scope_name :: "string option \<Rightarrow> string option" where
  "normalize_scope_name name =
     (case name of
        None \<Rightarrow> None
      | Some t \<Rightarrow> let v = py_strip t in Some (case map_of SCOPE_ALIASES v of Some w \<Rightarrow> w | None \<Rightarrow> v))"

definition normalize_scope_order :: "string list \<Rightarrow> string list" where
  "normalize_scope_order order =
     map the (filter given (map (\<lambda>item. normalize_scope_name (Some item)) order))"

definition names_allowed :: "string option list \<Rightarrow> string list \<Rightarrow> bool" where
  "names_allowed names selection_order =
     list_ex (\<lambda>item. let name = normalize_scope_name item in given name \<and> the name \<in> set selection_order) names"

definition TRUE_TEXTS :: "string list" where
  "TRUE_TEXTS = [''1'', ''true'', ''yes'', ''on'', ''y'']"

definition env_enabled :: "string option \<Rightarrow> bool" where
  "env_enabled value = (py_lower (py_strip (case value of Some v \<Rightarrow> v | None \<Rightarrow> [])) \<in> set TRUE_TEXTS)"

text \<open>A number is what \<^verbatim>\<open>int()\<close> takes from an opaque object.\<close>

definition truthy :: "pyval \<Rightarrow> bool" where
  "truthy v =
     (case v of
        PBool b \<Rightarrow> b
      | PNone \<Rightarrow> False
      | PInt i \<Rightarrow> i \<noteq> 0
      | PObj t s (Some i) \<Rightarrow> t
      | _ \<Rightarrow> py_lower (py_strip (py_str v)) \<in> set TRUE_TEXTS)"

definition split_env_list :: "string option \<Rightarrow> string list" where
  "split_env_list value =
     (case value of
        None \<Rightarrow> []
      | Some t \<Rightarrow> filter (\<lambda>item. item \<noteq> [])
                  (map py_strip (if t = [] then [] else split_on (CHR '','') (replace_char (CHR '';'') (CHR '','') t))))"

definition as_list :: "pyval \<Rightarrow> pyval list" where
  "as_list v = (case v of PNone \<Rightarrow> [] | PList xs \<Rightarrow> xs | PTuple xs \<Rightarrow> xs | _ \<Rightarrow> [v])"

section \<open>Requests, directories and candidates\<close>

record resolution_request =
  rq_service_id :: "string option"
  rq_service_name :: string
  rq_service_type :: string
  rq_api_category :: string
  rq_binding_name :: "string option"
  rq_selector_resource :: "string option"
  rq_selector_alias :: "string option"
  rq_qpm_type :: pyval
  rq_qpm_capabilities :: pyval
  rq_provider :: "string option"
  rq_allow_simulator_fallback :: bool

definition binding_filter :: "resolution_request \<Rightarrow> string" where
  "binding_filter request = binding_name_for_category (rq_api_category request) (rq_binding_name request)"

datatype directory_client = Bound_client | Dialed_client string

record directory_scope =
  dir_name :: string
  dir_scope :: string
  dir_client :: directory_client
  dir_endpoint :: "string option"
  dir_identity :: "string option"
  dir_priority :: int
  dir_enabled :: bool

record api_binding =
  ab_binding_name :: pyval
  ab_client_module :: pyval
  ab_client_class :: pyval
  ab_service_module :: pyval
  ab_service_class :: pyval
  ab_version :: pyval
  ab_policy_labels :: "pyval list"

record resolved_binding =
  rb_api_binding :: api_binding
  rb_directory_scope :: pyval
  rb_directory_identity :: pyval
  rb_endpoint :: pyval
  rb_service_id :: pyval
  rb_service_name :: pyval
  rb_service_type :: pyval
  rb_runtime_id :: pyval
  rb_generation :: pyval
  rb_latest_generation :: pyval
  rb_selector_metadata :: pydict
  rb_properties :: pydict
  rb_directory_priority :: int
  rb_discovery_index :: nat

record resolver =
  rv_directories :: "directory_scope list"
  rv_selection_order :: "string list"
  rv_allow_ambiguous :: bool

text \<open>
  What lies outside: the client a directory has in a round of the wait, its answers, and the
  generation it reports for a service, None when its client has no such method.
\<close>

record resolver_env =
  variable :: "string \<Rightarrow> string option"
  client_present :: "nat \<Rightarrow> directory_scope \<Rightarrow> bool"
  resolve_services :: "nat \<Rightarrow> directory_scope \<Rightarrow> pydict \<Rightarrow> exc + pyval"
  service_generation :: "directory_scope \<Rightarrow> pyval \<Rightarrow> (exc + pyval) option"

section \<open>The directories of a client\<close>

definition dir_identity_or_name :: "directory_scope \<Rightarrow> string" where
  "dir_identity_or_name d = (if given (dir_identity d) then the (dir_identity d) else dir_name d)"

definition local_directory :: "string option \<Rightarrow> directory_scope" where
  "local_directory endpoint =
     \<lparr>dir_name = ''allocation-local'', dir_scope = ''allocation-local'', dir_client = Bound_client, dir_endpoint = endpoint,
      dir_identity = Some (if given endpoint then the endpoint else ''allocation-local''), dir_priority = 100, dir_enabled = True\<rparr>"

definition site_directory_scope :: "string option \<Rightarrow> nat \<Rightarrow> string \<Rightarrow> directory_scope" where
  "site_directory_scope bound index endpoint =
     \<lparr>dir_name = ''site-'' @ nat_text index, dir_scope = ''site'',
      dir_client = (if bound = Some endpoint then Bound_client else Dialed_client endpoint), dir_endpoint = Some endpoint,
      dir_identity = Some endpoint, dir_priority = 50, dir_enabled = True\<rparr>"

text \<open>\<open>bound\<close> says whether the process has a directory of its own.\<close>

definition from_environment :: "resolver_env \<Rightarrow> bool \<Rightarrow> resolver" where
  "from_environment env bound =
     (let given_order = split_env_list (variable env ''QFW_QPM_RESOLVER_SCOPE_ORDER'');
          order = normalize_scope_order (if given_order = [] then DEFAULT_SCOPE_ORDER else given_order);
          local_endpoint = variable env ''QFW_LOCAL_DIRSVC_ENDPOINT'';
          sites = split_env_list (variable env ''QFW_SITE_DIRSVC_ENDPOINTS'');
          bound_site = (if bound \<and> \<not> given local_endpoint \<and> sites \<noteq> [] then Some (hd sites) else None);
          own = (if bound \<and> (given local_endpoint \<or> sites = []) \<and>
                    names_allowed [Some ''allocation-local'', local_endpoint] order
                 then [local_directory local_endpoint] else []);
          others = concat (map (\<lambda>(index, endpoint).
             if names_allowed [Some ''site'', Some endpoint, Some (''site-'' @ nat_text index)] order
             then [site_directory_scope bound_site index endpoint] else []) (enumerate 0 sites))
      in \<lparr>rv_directories = own @ others, rv_selection_order = normalize_scope_order order, rv_allow_ambiguous = False\<rparr>)"

definition directory_allowed :: "resolver \<Rightarrow> directory_scope \<Rightarrow> bool" where
  "directory_allowed rv d =
     (rv_selection_order rv = [] \<or>
      names_allowed [normalize_scope_name (Some (dir_scope d)), normalize_scope_name (dir_identity d),
        normalize_scope_name (Some (dir_name d))] (rv_selection_order rv))"

section \<open>Candidates\<close>

definition query_filters :: "resolution_request \<Rightarrow> pydict" where
  "query_filters request =
     [(''service_id'', opt_str (rq_service_id request)), (''service_name'', PStr (rq_service_name request)),
      (''service_type'', PStr (rq_service_type request)), (''binding_name'', PStr (binding_filter request)),
      (''selector_resource'', opt_str (rq_selector_resource request)), (''selector_alias'', opt_str (rq_selector_alias request)),
      (''api_category'', PStr (rq_api_category request)), (''qpm_type'', rq_qpm_type request),
      (''qpm_capabilities'', rq_qpm_capabilities request), (''provider'', opt_str (rq_provider request))]"

definition query_directory :: "resolver_env \<Rightarrow> nat \<Rightarrow> directory_scope \<Rightarrow> resolution_request \<Rightarrow> pyval list resolved" where
  "query_directory env round d request =
     (if \<not> client_present env round d then Inr []
      else bindR (python (resolve_services env round d (query_filters request))) (\<lambda>v. Inr (as_list v)))"

definition invalid_record :: "string \<Rightarrow> 'a resolved" where
  "invalid_record m = Inl (Invalid_directory_record m)"

text \<open>\<open>v.get(key)\<close> of a value that should be a mapping.\<close>

definition attr_get :: "pyval \<Rightarrow> string \<Rightarrow> pyval resolved" where
  "attr_get v key =
     (case v of PDict d \<Rightarrow> Inr (pget d key) | _ \<Rightarrow> Inl (Raised (AttributeError ''object has no attribute get'')))"

definition record_service_id :: "pydict \<Rightarrow> pyval resolved" where
  "record_service_id service =
     (if py_truth (pget service ''service_id'') then Inr (pget service ''service_id'')
      else attr_get (py_or (pget service ''properties'') (PDict [])) ''service_id'')"

definition validate_directory_record :: "pyval \<Rightarrow> pyval \<Rightarrow> pydict \<Rightarrow> (pydict \<times> pydict) resolved" where
  "validate_directory_record service binding rec =
     (case service of
        PDict sv \<Rightarrow>
          bindR (record_service_id sv) (\<lambda>service_id.
            if \<not> py_truth service_id then invalid_record ''directory service record is missing service_id''
            else if \<not> py_truth (py_or (pget sv ''endpoint'') (pget rec ''endpoint''))
            then invalid_record (''directory service record '' @ py_repr service_id @ '' is missing endpoint'')
            else if binding = PNone
            then invalid_record (''directory service record '' @ py_repr service_id @ '' is missing selected API binding'')
            else case binding of
                   PDict bd \<Rightarrow>
                     if py_truth (pget bd ''binding_name'') then Inr (sv, bd)
                     else invalid_record (''selected API binding for '' @ py_repr service_id @ '' is missing binding_name'')
                 | _ \<Rightarrow> invalid_record (''selected API binding for '' @ py_repr service_id @ '' must be a mapping''))
      | _ \<Rightarrow> invalid_record ''directory service record must be a mapping'')"

text \<open>\<^verbatim>\<open>tuple(v)\<close>\<close>

definition py_tuple :: "pyval \<Rightarrow> exc + pyval list" where
  "py_tuple v =
     (case v of
        PList xs \<Rightarrow> Inr xs
      | PTuple xs \<Rightarrow> Inr xs
      | PDict d \<Rightarrow> Inr (map (\<lambda>kv. PStr (fst kv)) d)
      | PStr s \<Rightarrow> Inr (map (\<lambda>c. PStr [c]) s)
      | _ \<Rightarrow> Inl (TypeError ''object is not iterable''))"

definition api_binding_from_mapping :: "pydict \<Rightarrow> resolution_request \<Rightarrow> api_binding resolved" where
  "api_binding_from_mapping binding request =
     (let name = pgetd binding ''binding_name'' (PStr (binding_filter request))
      in case (case name of PStr n \<Rightarrow> map_of API_BINDING_CLIENTS n | _ \<Rightarrow> None) of
           None \<Rightarrow> Inl (Raised (KeyError (py_str name)))
         | Some (client_module, client_class) \<Rightarrow>
             bindR (python (py_tuple (pgetd binding ''policy_labels'' (PTuple [])))) (\<lambda>labels.
               Inr \<lparr>ab_binding_name = name, ab_client_module = pgetd binding ''client_module'' (PStr client_module),
                    ab_client_class = pgetd binding ''client_class'' (PStr client_class),
                    ab_service_module = pget binding ''service_module'', ab_service_class = pgetd binding ''service_class'' (PStr ''QPM''),
                    ab_version = pgetd binding ''version'' (PInt 1), ab_policy_labels = labels\<rparr>))"

definition add_service_keys :: "pydict \<Rightarrow> pydict \<Rightarrow> pydict" where
  "add_service_keys service properties =
     foldl (\<lambda>p key. if has_key service key \<and> \<not> has_key p key then dset key (pget service key) p else p)
       properties [''qpm_type'', ''qpm_capabilities'', ''capability'']"

definition normalize_directory_record ::
  "directory_scope \<Rightarrow> pydict \<Rightarrow> resolution_request \<Rightarrow> nat \<Rightarrow> resolved_binding resolved" where
  "normalize_directory_record d rec request index =
     (let binding = py_or (py_or (pget rec ''selected_api_binding'') (pget rec ''selected_binding'')) (pget rec ''api_binding'')
      in bindR (validate_directory_record (pgetd rec ''service_record'' (PDict rec)) binding rec) (\<lambda>(service, bd).
         bindR (api_binding_from_mapping bd request) (\<lambda>api.
         bindR (python (py_dict_or_empty (pget service ''properties''))) (\<lambda>given_properties.
         bindR (python (py_dict_or_empty (pget service ''selector''))) (\<lambda>selector.
           let properties = add_service_keys service given_properties
           in Inr \<lparr>rb_api_binding = api,
                rb_directory_scope = pgetd rec ''directory_scope'' (PStr (dir_scope d)),
                rb_directory_identity = pgetd rec ''directory_identity'' (PStr (dir_identity_or_name d)),
                rb_endpoint = py_or (pget service ''endpoint'') (pget rec ''endpoint''),
                rb_service_id = py_or (pget service ''service_id'') (pget properties ''service_id''),
                rb_service_name = pgetd service ''service_name'' (PStr (rq_service_name request)),
                rb_service_type = pgetd service ''service_type'' (PStr (rq_service_type request)),
                rb_runtime_id = pget service ''runtime_id'', rb_generation = pget service ''generation'',
                rb_latest_generation = py_or (py_or (pget rec ''latest_generation'') (pget service ''latest_generation''))
                  (pget properties ''latest_generation''),
                rb_selector_metadata = selector, rb_properties = properties,
                rb_directory_priority = dir_priority d, rb_discovery_index = index\<rparr>)))))"

definition normalize_record :: "directory_scope \<Rightarrow> pyval \<Rightarrow> resolution_request \<Rightarrow> nat \<Rightarrow> resolved_binding resolved" where
  "normalize_record d rec request index =
     (case rec of
        PDict r \<Rightarrow> normalize_directory_record d r request index
      | _ \<Rightarrow> invalid_record ''QPM directory resolution requires binding-aware directory record dictionaries'')"

section \<open>Matching\<close>

text \<open>\<^verbatim>\<open>v in (-1, None)\<close>\<close>

definition any_bits :: "pyval \<Rightarrow> bool" where
  "any_bits v \<longleftrightarrow> v = PNone \<or> py_eq v (PInt (-1))"

definition bits_match :: "pyval \<Rightarrow> pyval \<Rightarrow> bool" where
  "bits_match record_bits requested_bits =
     (case (py_int record_bits, py_int requested_bits) of
        (Inr have, Inr want) \<Rightarrow>
          if want \<in> {-1, 0} then True else if have \<in> {-1, 0} then False else have AND want = want
      | _ \<Rightarrow> False)"

definition candidate_bits_match :: "resolved_binding \<Rightarrow> string \<Rightarrow> pyval \<Rightarrow> bool" where
  "candidate_bits_match candidate key requested_bits =
     (any_bits requested_bits \<or> any_bits (pget (rb_properties candidate) key) \<or>
      bits_match (pget (rb_properties candidate) key) requested_bits)"

definition selector_has :: "resolved_binding \<Rightarrow> string \<Rightarrow> string option \<Rightarrow> bool resolved" where
  "selector_has candidate key wanted =
     (if given wanted then python (py_in (the wanted) (pgetd (rb_selector_metadata candidate) key (PList []))) else Inr True)"

definition matches_request :: "resolved_binding \<Rightarrow> resolution_request \<Rightarrow> bool resolved" where
  "matches_request candidate request =
     (if given (rq_service_id request) \<and> rb_service_id candidate \<noteq> PStr (the (rq_service_id request)) then Inr False
      else if rq_service_type request \<noteq> [] \<and> rb_service_type candidate \<noteq> PStr (rq_service_type request) then Inr False
      else if \<not> candidate_bits_match candidate ''qpm_type'' (rq_qpm_type request) then Inr False
      else if \<not> candidate_bits_match candidate ''qpm_capabilities'' (rq_qpm_capabilities request) then Inr False
      else bindR (selector_has candidate ''resources'' (rq_selector_resource request)) (\<lambda>resource.
        if \<not> resource then Inr False
        else bindR (selector_has candidate ''aliases'' (rq_selector_alias request)) (\<lambda>alias.
          if \<not> alias then Inr False
          else Inr (ab_binding_name (rb_api_binding candidate) = PStr (binding_filter request)))))"

definition scope_name_of :: "pyval \<Rightarrow> string option" where
  "scope_name_of v = normalize_scope_name (if v = PNone then None else Some (py_str v))"

definition candidate_names :: "resolved_binding \<Rightarrow> string option list" where
  "candidate_names candidate = [scope_name_of (rb_directory_scope candidate), scope_name_of (rb_directory_identity candidate)]"

definition candidate_allowed :: "resolver \<Rightarrow> resolved_binding \<Rightarrow> bool" where
  "candidate_allowed rv candidate =
     (rv_selection_order rv = [] \<or> names_allowed (candidate_names candidate) (rv_selection_order rv))"

fun collect_records ::
  "resolver \<Rightarrow> directory_scope \<Rightarrow> resolution_request \<Rightarrow> pyval list \<Rightarrow> resolved_binding list \<Rightarrow> resolved_binding list resolved" where
  "collect_records rv d request [] candidates = Inr candidates"
| "collect_records rv d request (rec # recs) candidates =
     bindR (normalize_record d rec request (length candidates)) (\<lambda>candidate.
     bindR (if candidate_allowed rv candidate then matches_request candidate request else Inr False) (\<lambda>taken.
       collect_records rv d request recs (if taken then candidates @ [candidate] else candidates)))"

fun collect_directories ::
  "resolver_env \<Rightarrow> nat \<Rightarrow> resolver \<Rightarrow> resolution_request \<Rightarrow> directory_scope list \<Rightarrow> resolved_binding list \<Rightarrow>
    resolved_binding list resolved" where
  "collect_directories env round rv request [] candidates = Inr candidates"
| "collect_directories env round rv request (d # ds) candidates =
     (if \<not> dir_enabled d \<or> \<not> directory_allowed rv d then collect_directories env round rv request ds candidates
      else bindR (query_directory env round d request) (\<lambda>recs.
           bindR (collect_records rv d request recs candidates) (collect_directories env round rv request ds)))"

definition collect_candidates :: "resolver_env \<Rightarrow> nat \<Rightarrow> resolver \<Rightarrow> resolution_request \<Rightarrow> resolved_binding list resolved" where
  "collect_candidates env round rv request = collect_directories env round rv request (rv_directories rv) []"

text \<open>The wait: at most \<open>timeout\<close> rounds, one second apart.\<close>

fun await_candidates ::
  "resolver_env \<Rightarrow> resolver \<Rightarrow> resolution_request \<Rightarrow> nat \<Rightarrow> nat \<Rightarrow> resolved_binding list resolved" where
  "await_candidates env rv request round 0 = Inr []"
| "await_candidates env rv request round (Suc left) =
     bindR (collect_candidates env round rv request) (\<lambda>candidates.
       if candidates \<noteq> [] then Inr candidates else await_candidates env rv request (Suc round) left)"

section \<open>The choice\<close>

definition candidate_list :: "resolved_binding list \<Rightarrow> string" where
  "candidate_list cs =
     join_with '', '' (map (\<lambda>c. py_str (rb_service_id c) @ ''@'' @ py_str (rb_directory_identity c)) cs)"

definition duplicate_ids :: "resolved_binding list \<Rightarrow> pyval list" where
  "duplicate_ids cs =
     filter (\<lambda>i. i \<noteq> PNone \<and> 1 < length (filter (\<lambda>c. py_eq (rb_service_id c) i) cs)) (map rb_service_id cs)"

definition reject_duplicate_service_ids :: "resolved_binding list \<Rightarrow> unit resolved" where
  "reject_duplicate_service_ids cs =
     (case map py_repr (sort_key py_str (duplicate_ids cs)) of
        [] \<Rightarrow> Inr ()
      | i # _ \<Rightarrow> Inl (Ambiguous_resolution (''QPM service_id '' @ i @ '' appears in multiple visible directories'')))"

definition provider_is_simulator :: "pyval \<Rightarrow> bool" where
  "provider_is_simulator provider = (provider \<noteq> PNone \<and> py_lower (py_strip (py_str provider)) \<in> set SIMULATOR_PROVIDERS)"

definition candidate_is_simulator :: "resolved_binding \<Rightarrow> bool" where
  "candidate_is_simulator candidate =
     (let p = rb_properties candidate
      in if has_key p ''simulator'' then truthy (pget p ''simulator'')
         else if has_key p ''is_simulator'' then truthy (pget p ''is_simulator'')
         else if provider_is_simulator (pget p ''provider'') then True
         else case py_int (pgetd p ''qpm_type'' (PInt (-1))) of
                Inl e \<Rightarrow> False
              | Inr t \<Rightarrow> t \<notin> {-1, 0} \<and> t AND QPM_TYPE_SIMULATOR \<noteq> 0)"

definition simulator_fallback_allowed :: "resolution_request \<Rightarrow> bool" where
  "simulator_fallback_allowed request =
     (rq_allow_simulator_fallback request \<or> provider_is_simulator (opt_str (rq_provider request)) \<or>
      (case py_int (rq_qpm_type request) of Inl e \<Rightarrow> False | Inr t \<Rightarrow> t AND QPM_TYPE_SIMULATOR \<noteq> 0))"

definition request_requires_hardware :: "resolution_request \<Rightarrow> bool" where
  "request_requires_hardware request =
     (case py_int (rq_qpm_type request) of
        Inl e \<Rightarrow> False | Inr t \<Rightarrow> t \<notin> {-1, 0} \<and> t AND QPM_TYPE_HARDWARE \<noteq> 0)"

definition apply_simulator_fallback_policy ::
  "resolved_binding list \<Rightarrow> resolution_request \<Rightarrow> resolved_binding list resolved" where
  "apply_simulator_fallback_policy cs request =
     (if simulator_fallback_allowed request \<or> \<not> request_requires_hardware request then Inr cs
      else let simulators = filter candidate_is_simulator cs; rest = filter (\<lambda>c. \<not> candidate_is_simulator c) cs
           in if simulators = [] then Inr cs
              else if rest \<noteq> [] then Inr rest
              else Inl (Simulator_fallback_policy
                     (''explicit simulator fallback policy required for hardware QPM request: '' @ candidate_list simulators)))"

fun index_of :: "'a list \<Rightarrow> 'a \<Rightarrow> nat" where
  "index_of [] x = 0"
| "index_of (y # ys) x = (if x = y then 0 else Suc (index_of ys x))"

definition scope_order :: "resolver \<Rightarrow> resolved_binding \<Rightarrow> nat" where
  "scope_order rv candidate =
     (let order = rv_selection_order rv
      in if order = [] then 0
         else case filter (\<lambda>n. n \<noteq> None \<and> the n \<in> set order) (candidate_names candidate) of
                n # _ \<Rightarrow> index_of order (the n)
              | [] \<Rightarrow> length order)"

definition selection_sort_key :: "resolver \<Rightarrow> resolved_binding \<Rightarrow> nat \<times> int \<times> nat" where
  "selection_sort_key rv c = (scope_order rv c, - rb_directory_priority c, rb_discovery_index c)"

definition selection_rank :: "resolver \<Rightarrow> resolved_binding \<Rightarrow> nat \<times> int" where
  "selection_rank rv c = (scope_order rv c, rb_directory_priority c)"

definition reject_ambiguous_resolution ::
  "resolver \<Rightarrow> resolved_binding list \<Rightarrow> resolution_request \<Rightarrow> string option \<Rightarrow> unit resolved" where
  "reject_ambiguous_resolution rv ordered request provider =
     (if rv_allow_ambiguous rv \<or> ordered = [] then Inr ()
      else let tied = filter (\<lambda>c. selection_rank rv c = selection_rank rv (hd ordered)) ordered
           in if length tied \<le> 1 then Inr ()
              else Inl (Ambiguous_resolution (''ambiguous QPM'' @
                     (case provider of Some p \<Rightarrow> '' provider '' @ repr_text p | None \<Rightarrow> []) @ '' resolution for '' @
                     rq_service_type request @ ''/'' @ binding_filter request @ '': '' @ candidate_list tied)))"

definition select_candidate ::
  "resolver \<Rightarrow> resolved_binding list \<Rightarrow> resolution_request \<Rightarrow> resolved_binding resolved" where
  "select_candidate rv cs request =
     bindR (reject_duplicate_service_ids cs) (\<lambda>_.
     bindR (apply_simulator_fallback_policy cs request) (\<lambda>allowed.
       let ordered = sort_key (selection_sort_key rv) allowed
       in if given (rq_provider request)
          then let matching = filter (\<lambda>c. pget (rb_properties c) ''provider'' = PStr (the (rq_provider request))) ordered
               in if matching = []
                  then Inl (Provider_policy (''no QPM provider '' @ repr_text (the (rq_provider request)) @ '' matched '' @
                         rq_service_type request @ ''/'' @ binding_filter request @ '': '' @ candidate_list ordered))
                  else bindR (reject_ambiguous_resolution rv matching request (rq_provider request)) (\<lambda>_. Inr (hd matching))
          else bindR (reject_ambiguous_resolution rv ordered request None) (\<lambda>_. Inr (hd ordered))))"

definition resolve :: "resolver_env \<Rightarrow> resolver \<Rightarrow> nat \<Rightarrow> bool \<Rightarrow> resolution_request \<Rightarrow> resolved_binding resolved" where
  "resolve env rv timeout fallback_given request =
     (let request = (if \<not> fallback_given \<and> env_enabled (variable env ''QFW_QPM_ALLOW_SIMULATOR_FALLBACK'')
                     then request\<lparr>rq_allow_simulator_fallback := True\<rparr> else request)
      in bindR (await_candidates env rv request 0 timeout) (\<lambda>cs.
           if cs = []
           then Inl (Reserve_error (''Couldn't connect to a QPM ('' @ py_str (rq_qpm_type request) @ '', '' @
                  py_str (rq_qpm_capabilities request) @ '')''))
           else select_candidate rv cs request))"

section \<open>Generations\<close>

definition directory_matches_resolved :: "directory_scope \<Rightarrow> resolved_binding \<Rightarrow> bool" where
  "directory_matches_resolved d resolved =
     (rb_directory_scope resolved = PStr (dir_scope d) \<and> rb_directory_identity resolved = PStr (dir_identity_or_name d))"

fun reported_generation :: "resolver_env \<Rightarrow> directory_scope list \<Rightarrow> resolved_binding \<Rightarrow> pyval resolved" where
  "reported_generation env [] resolved = Inr (rb_latest_generation resolved)"
| "reported_generation env (d # ds) resolved =
     (if \<not> directory_matches_resolved d resolved then reported_generation env ds resolved
      else case service_generation env d (rb_service_id resolved) of
             None \<Rightarrow> reported_generation env ds resolved
           | Some r \<Rightarrow> bindR (python r) (\<lambda>latest.
               if latest \<noteq> PNone then Inr latest else reported_generation env ds resolved))"

definition latest_generation :: "resolver_env \<Rightarrow> resolver \<Rightarrow> resolved_binding \<Rightarrow> pyval resolved" where
  "latest_generation env rv resolved = reported_generation env (rv_directories rv) resolved"

definition reject_stale_generation :: "resolver_env \<Rightarrow> resolver \<Rightarrow> resolved_binding \<Rightarrow> unit resolved" where
  "reject_stale_generation env rv resolved =
     (if rb_generation resolved = PNone then Inr ()
      else bindR (latest_generation env rv resolved) (\<lambda>latest.
        if latest = PNone then Inr ()
        else case (py_int (rb_generation resolved), py_int latest) of
               (Inr current, Inr newest) \<Rightarrow>
                 if newest > current
                 then Inl (Stale_generation (''stale QPM binding for '' @ py_str (rb_service_id resolved) @ '': generation '' @
                        int_text current @ '' is older than '' @ int_text newest))
                 else Inr ()
             | _ \<Rightarrow> Inr ()))"

definition resolve_reserved ::
  "resolver_env \<Rightarrow> resolver \<Rightarrow> string \<Rightarrow> nat \<Rightarrow> string \<Rightarrow> string option \<Rightarrow> resolved_binding resolved" where
  "resolve_reserved env rv service_id timeout api_category binding_name =
     (let request = \<lparr>rq_service_id = Some service_id, rq_service_name = ''QPM'', rq_service_type = ''qfw.qpm'',
            rq_api_category = api_category, rq_binding_name = binding_name, rq_selector_resource = None,
            rq_selector_alias = None, rq_qpm_type = PInt (-1), rq_qpm_capabilities = PInt (-1), rq_provider = None,
            rq_allow_simulator_fallback = False\<rparr>
      in bindR (await_candidates env rv request 0 timeout) (\<lambda>cs.
           case cs of
             [] \<Rightarrow> Inl (Resolver_error (''reserved QPM service '' @ repr_text service_id @ '' is unavailable''))
           | [resolved] \<Rightarrow> bindR (reject_stale_generation env rv resolved) (\<lambda>_. Inr resolved)
           | _ \<Rightarrow> Inl (Ambiguous_resolution (''reserved QPM service '' @ repr_text service_id @
                    '' appears in multiple visible directories''))))"

definition managed_directory :: "resolver_env \<Rightarrow> resolver \<Rightarrow> resolved_binding \<Rightarrow> directory_scope resolved" where
  "managed_directory env rv resolved =
     (let missing = Inl (Resolver_error (''directory for QPM '' @ py_repr (rb_service_id resolved) @ '' is unavailable''))
      in case filter (\<lambda>d. directory_matches_resolved d resolved) (rv_directories rv) of
           [] \<Rightarrow> missing
         | d # _ \<Rightarrow> if client_present env 0 d then Inr d else missing)"

section \<open>Endpoints\<close>

text \<open>
  \<^verbatim>\<open>urlparse\<close>: the host and the port of the part between \<^verbatim>\<open>//\<close> and the path, without user
  information. A host in brackets is taken as it stands.
\<close>

definition is_alpha :: "char \<Rightarrow> bool" where
  "is_alpha c = (lower_char c \<in> set ''abcdefghijklmnopqrstuvwxyz'')"

definition url_scheme :: "string \<Rightarrow> string \<times> string" where
  "url_scheme url =
     (let s = takeWhile (\<lambda>c. c \<noteq> CHR '':'') url
      in if s \<noteq> [] \<and> CHR '':'' \<in> set url \<and> is_alpha (hd s) \<and>
            list_all (\<lambda>c. is_alpha c \<or> is_digit c \<or> c \<in> set ''+-.'') s
         then (s, drop (Suc (length s)) url) else ([], url))"

definition url_netloc :: "string \<Rightarrow> string" where
  "url_netloc url =
     (let rest = snd (url_scheme (filter (\<lambda>c. c \<notin> {CHR 0x09, CHR 0x0A, CHR 0x0D}) url))
      in if starts_with ''//'' rest then takeWhile (\<lambda>c. c \<notin> set ''/?#'') (drop 2 rest) else [])"

definition partition_at :: "char \<Rightarrow> string \<Rightarrow> string \<times> bool \<times> string" where
  "partition_at c s = (takeWhile (\<lambda>x. x \<noteq> c) s, c \<in> set s, drop 1 (dropWhile (\<lambda>x. x \<noteq> c) s))"

definition url_hostinfo :: "string \<Rightarrow> string \<times> string" where
  "url_hostinfo netloc =
     (let info = rev (takeWhile (\<lambda>c. c \<noteq> CHR ''@'') (rev netloc))
      in case partition_at (CHR ''['') info of
           (_, True, bracketed) \<Rightarrow>
             (case partition_at (CHR '']'') bracketed of
                (host, _, tail) \<Rightarrow> (host, snd (snd (partition_at (CHR '':'') tail))))
         | (_, False, _) \<Rightarrow>
             (case partition_at (CHR '':'') info of (host, _, port) \<Rightarrow> (host, port)))"

definition url_host_port :: "string \<Rightarrow> exc + (string \<times> int) option" where
  "url_host_port url =
     (let netloc = url_netloc url; info = url_hostinfo netloc;
          host = (case partition_at (CHR ''%'') (fst info) of (h, zoned, zone) \<Rightarrow> py_lower h @ (if zoned then CHR ''%'' # zone else []));
          port = snd info
      in if (CHR ''['' \<in> set netloc) \<noteq> (CHR '']'' \<in> set netloc) then Inl (ValueError ''Invalid IPv6 URL'')
         else if host = [] then Inr None
         else if port = [] then Inr None
         else if \<not> list_all is_digit port then Inl (ValueError (''Port could not be cast to integer value as '' @ repr_text port))
         else if 65535 < decimal_value port then Inl (ValueError ''Port out of range 0-65535'')
         else Inr (Some (host, int (decimal_value port))))"

definition parse_endpoint_string :: "string \<Rightarrow> exc + (string \<times> int) option" where
  "parse_endpoint_string endpoint =
     (let v = py_strip endpoint
      in if v = [] then Inr None
         else if contains_text ''://'' v then url_host_port v
         else if count_list v (CHR '':'') = 1
         then (case partition_at (CHR '':'') v of
                 (host, _, port) \<Rightarrow>
                   if host = [] \<or> port = [] then Inr None
                   else Inr (map_option (\<lambda>p. (host, p)) (int_of_text port)))
         else Inr None)"

definition endpoint_dict_record :: "pydict \<Rightarrow> pyval \<Rightarrow> pyval \<Rightarrow> pydict option resolved" where
  "endpoint_dict_record e default_name runtime_id =
     (let address = py_or (py_or (py_or (pget e ''address'') (pget e ''addr'')) (pget e ''host'')) (pget e ''hostname'');
          port = py_or (py_or (pget e ''listen_port'') (pget e ''listen-port'')) (pget e ''port'')
      in if \<not> py_truth address \<or> port = PNone then Inr None
         else case py_int port of
                Inl _ \<Rightarrow> Inr None
              | Inr p \<Rightarrow>
                  bindR (python (py_int (py_or (pgetd e ''pid'' (PInt 0)) (PInt 0)))) (\<lambda>pid.
                    Inr (Some [(''address'', PStr (py_str address)), (''listen_port'', PInt p), (''pid'', PInt pid),
                      (''node_name'', PStr (py_str (py_or (py_or (py_or (pget e ''node_name'') (pget e ''name'')) default_name)
                         (PStr (py_str address))))),
                      (''hostname'', PStr (py_str (py_or (pget e ''hostname'') (PStr (py_str address))))),
                      (''runtime_id'', py_or (py_or (py_or runtime_id (pget e ''runtime_id'')) (pget e ''remote_uuid''))
                         (PStr ZERO_UUID))])))"

definition endpoint_record_from_value :: "pyval \<Rightarrow> pyval \<Rightarrow> pyval \<Rightarrow> pydict option resolved" where
  "endpoint_record_from_value endpoint default_name runtime_id =
     (case endpoint of
        PDict e \<Rightarrow> endpoint_dict_record e default_name runtime_id
      | PStr t \<Rightarrow>
          bindR (python (parse_endpoint_string t)) (\<lambda>parsed.
            Inr (case parsed of
                   None \<Rightarrow> None
                 | Some (host, port) \<Rightarrow>
                     Some [(''address'', PStr host), (''listen_port'', PInt port), (''pid'', PInt 0),
                       (''node_name'', py_or default_name (PStr host)), (''hostname'', PStr host),
                       (''runtime_id'', py_or runtime_id (PStr ZERO_UUID))]))
      | _ \<Rightarrow> Inr None)"

definition api_binding_to_mapping :: "api_binding \<Rightarrow> pydict" where
  "api_binding_to_mapping b =
     [(''binding_name'', ab_binding_name b), (''client_module'', ab_client_module b), (''client_class'', ab_client_class b),
      (''service_module'', ab_service_module b), (''service_class'', ab_service_class b), (''version'', ab_version b),
      (''policy_labels'', PList (ab_policy_labels b))]"

definition defw_binding_record :: "resolved_binding \<Rightarrow> pydict resolved" where
  "defw_binding_record r =
     bindR (endpoint_record_from_value (rb_endpoint r) (rb_service_name r) (rb_runtime_id r)) (\<lambda>endpoint.
       case endpoint of
         None \<Rightarrow> Inl (Unsupported_configuration (''resolved QPM endpoint for '' @ py_repr (rb_service_id r) @
                '' must include address and listen_port''))
       | Some e \<Rightarrow> Inr
           [(''service_record'', PDict [(''service_id'', rb_service_id r), (''service_name'', rb_service_name r),
               (''service_type'', rb_service_type r), (''runtime_id'', pget e ''runtime_id''), (''generation'', rb_generation r),
               (''endpoint'', PDict e), (''selector'', PDict (rb_selector_metadata r)), (''properties'', PDict (rb_properties r))]),
            (''selected_binding'', PDict (api_binding_to_mapping (rb_api_binding r)))])"

definition directory_api_binding :: api_binding where
  "directory_api_binding =
     \<lparr>ab_binding_name = PStr ''directory'', ab_client_module = PStr ''api_dirsvc'', ab_client_class = PStr ''DEFwDirSvc'',
      ab_service_module = PStr ''svc_dirsvc.svc_dirsvc'', ab_service_class = PStr ''DEFwDirSvc'', ab_version = PInt 1,
      ab_policy_labels = []\<rparr>"

definition defw_directory_binding_record :: "string \<Rightarrow> pydict resolved" where
  "defw_directory_binding_record endpoint =
     bindR (endpoint_record_from_value (PStr endpoint) (PStr ''DEFwDirSvc'') PNone) (\<lambda>rec.
       case rec of
         None \<Rightarrow> Inl (Unsupported_configuration (''site directory endpoint '' @ repr_text endpoint @ '' must include a listen port''))
       | Some e \<Rightarrow> Inr
           [(''service_record'', PDict [(''service_id'', PStr (''dirsvc:'' @ endpoint)), (''service_name'', PStr ''DEFwDirSvc''),
               (''service_type'', PStr ''defw.dirsvc''), (''runtime_id'', pget e ''runtime_id''), (''generation'', PNone),
               (''endpoint'', PDict e),
               (''selector'', PDict [(''resources'', PList [PStr ''DEFwDirSvc'']), (''aliases'', PList [PStr ''dirsvc'', PStr ''directory''])]),
               (''properties'', PDict [])]),
            (''selected_binding'', PDict (api_binding_to_mapping directory_api_binding))])"

text \<open>What the connection of a request is made to.\<close>

definition resolve_and_connect ::
  "resolver_env \<Rightarrow> resolver \<Rightarrow> nat \<Rightarrow> bool \<Rightarrow> bool \<Rightarrow> resolution_request \<Rightarrow> (resolved_binding \<times> pydict) resolved" where
  "resolve_and_connect env rv timeout require_current fallback_given request =
     bindR (resolve env rv timeout fallback_given request) (\<lambda>resolved.
     bindR (if require_current then reject_stale_generation env rv resolved else Inr ()) (\<lambda>_.
     bindR (defw_binding_record resolved) (\<lambda>rec. Inr (resolved, rec))))"

definition connect_reserved ::
  "resolver_env \<Rightarrow> resolver \<Rightarrow> string \<Rightarrow> nat \<Rightarrow> string \<Rightarrow> string option \<Rightarrow> (resolved_binding \<times> pydict) resolved" where
  "connect_reserved env rv service_id timeout api_category binding_name =
     bindR (resolve_reserved env rv service_id timeout api_category binding_name) (\<lambda>resolved.
     bindR (defw_binding_record resolved) (\<lambda>rec. Inr (resolved, rec)))"

section \<open>Lemmas\<close>

text \<open>Every candidate that is collected matches the request and the configured scopes.\<close>

definition fitting :: "resolver \<Rightarrow> resolution_request \<Rightarrow> resolved_binding \<Rightarrow> bool" where
  "fitting rv request c \<longleftrightarrow> candidate_allowed rv c \<and> matches_request c request = Inr True"

lemma collect_records_fitting:
  "collect_records rv d request recs cs = Inr out \<Longrightarrow> list_all (fitting rv request) cs \<Longrightarrow> list_all (fitting rv request) out"
proof (induction recs arbitrary: cs)
  case (Cons rec recs)
  from Cons.prems(1) obtain c taken where c: "normalize_record d rec request (length cs) = Inr c"
    "(if candidate_allowed rv c then matches_request c request else Inr False) = Inr taken"
    "collect_records rv d request recs (if taken then cs @ [c] else cs) = Inr out" by (auto simp: bindR_Inr)
  have "taken \<Longrightarrow> fitting rv request c" using c(2) by (auto simp: fitting_def split: if_splits)
  with Cons.prems(2) have "list_all (fitting rv request) (if taken then cs @ [c] else cs)" by simp
  from Cons.IH [OF c(3) this] show ?case .
qed simp

lemma collect_directories_fitting:
  "collect_directories env n rv request ds cs = Inr out \<Longrightarrow> list_all (fitting rv request) cs \<Longrightarrow> list_all (fitting rv request) out"
  by (induction env n rv request ds cs arbitrary: out rule: collect_directories.induct)
    (auto simp: bindR_Inr split: if_splits dest: collect_records_fitting)

lemma await_candidates_fitting:
  "await_candidates env rv request n left = Inr cs \<Longrightarrow> list_all (fitting rv request) cs"
  by (induction env rv request n left rule: await_candidates.induct)
    (auto simp: bindR_Inr collect_candidates_def split: if_splits dest: collect_directories_fitting)

text \<open>What the policies leave of the candidates.\<close>

definition eligible :: "resolution_request \<Rightarrow> resolved_binding list \<Rightarrow> resolved_binding \<Rightarrow> bool" where
  "eligible request cs c \<longleftrightarrow> c \<in> set cs \<and>
     (simulator_fallback_allowed request \<or> \<not> request_requires_hardware request \<or> \<not> candidate_is_simulator c) \<and>
     (given (rq_provider request) \<longrightarrow> pget (rb_properties c) ''provider'' = PStr (the (rq_provider request)))"

lemma policy_keeps: "apply_simulator_fallback_policy cs request = Inr allowed \<Longrightarrow>
    set allowed = {c \<in> set cs. simulator_fallback_allowed request \<or> \<not> request_requires_hardware request \<or> \<not> candidate_is_simulator c}"
  by (auto simp: apply_simulator_fallback_policy_def Let_def filter_empty_conv split: if_splits)

lemma sort_key_empty: "sort_key k xs = [] \<longleftrightarrow> xs = []"
  by (metis set_empty set_sort)

lemma sorted_first:
  "xs \<noteq> [] \<Longrightarrow> sorted (map k xs) \<Longrightarrow> x \<in> set xs \<Longrightarrow> k (hd xs) \<le> k x"
  by (cases xs) auto

lemma unambiguous_first:
  assumes "reject_ambiguous_resolution rv xs request p = Inr u" "xs \<noteq> []" "\<not> rv_allow_ambiguous rv"
    and "c \<in> set xs" "selection_rank rv c = selection_rank rv (hd xs)"
  shows "c = hd xs"
proof -
  let ?tied = "filter (\<lambda>c. selection_rank rv c = selection_rank rv (hd xs)) xs"
  have "length ?tied \<le> 1" using assms by (auto simp: reject_ambiguous_resolution_def Let_def split: if_splits)
  moreover obtain rest where "?tied = hd xs # rest" using assms(2) by (cases xs) auto
  moreover have "c \<in> set ?tied" using assms(4,5) by simp
  ultimately show ?thesis by simp
qed

lemma select_candidate_chooses:
  assumes "select_candidate rv cs request = Inr c" "cs \<noteq> []"
  shows "eligible request cs c \<and> (\<forall>d. eligible request cs d \<longrightarrow> selection_sort_key rv c \<le> selection_sort_key rv d) \<and>
    (\<not> rv_allow_ambiguous rv \<longrightarrow> (\<forall>d. eligible request cs d \<longrightarrow> selection_rank rv d = selection_rank rv c \<longrightarrow> d = c))"
proof -
  from assms(1) obtain allowed where allowed: "apply_simulator_fallback_policy cs request = Inr allowed"
    by (auto simp: select_candidate_def bindR_Inr)
  define wanted where "wanted = (if given (rq_provider request)
    then filter (\<lambda>c. pget (rb_properties c) ''provider'' = PStr (the (rq_provider request))) (sort_key (selection_sort_key rv) allowed)
    else sort_key (selection_sort_key rv) allowed)"
  have elig: "set wanted = {d. eligible request cs d}"
    using policy_keeps [OF allowed] by (auto simp: wanted_def eligible_def)
  have sorted: "sorted (map (selection_sort_key rv) wanted)"
    by (auto simp: wanted_def intro: sorted_filter)
  have "allowed \<noteq> []"
    using allowed assms(2) by (auto simp: apply_simulator_fallback_policy_def Let_def split: if_splits)
  then have run: "wanted \<noteq> []" "c = hd wanted" "\<exists>p. reject_ambiguous_resolution rv wanted request p = Inr ()"
    using assms(1) allowed by (auto simp: select_candidate_def bindR_Inr wanted_def Let_def sort_key_empty split: if_splits)
  then show ?thesis
    using elig sorted_first [OF run(1) sorted] unambiguous_first [OF _ run(1)] by (metis list.set_sel(1) mem_Collect_eq)
qed

definition effective_request :: "resolver_env \<Rightarrow> bool \<Rightarrow> resolution_request \<Rightarrow> resolution_request" where
  "effective_request env fallback_given request =
     (if \<not> fallback_given \<and> env_enabled (variable env ''QFW_QPM_ALLOW_SIMULATOR_FALLBACK'')
      then request\<lparr>rq_allow_simulator_fallback := True\<rparr> else request)"

lemma resolve_sound:
  assumes "resolve env rv timeout fallback_given request = Inr c"
  shows "\<exists>cs. await_candidates env rv (effective_request env fallback_given request) 0 timeout = Inr cs \<and>
    fitting rv (effective_request env fallback_given request) c \<and>
    eligible (effective_request env fallback_given request) cs c \<and>
    (\<forall>d. eligible (effective_request env fallback_given request) cs d \<longrightarrow> selection_sort_key rv c \<le> selection_sort_key rv d) \<and>
    (\<not> rv_allow_ambiguous rv \<longrightarrow> (\<forall>d. eligible (effective_request env fallback_given request) cs d \<longrightarrow>
       selection_rank rv d = selection_rank rv c \<longrightarrow> d = c))"
proof -
  let ?r = "effective_request env fallback_given request"
  from assms obtain cs where cs: "await_candidates env rv ?r 0 timeout = Inr cs" "cs \<noteq> []" "select_candidate rv cs ?r = Inr c"
    by (auto simp: resolve_def bindR_Inr Let_def effective_request_def [symmetric] split: if_splits)
  note chosen = select_candidate_chooses [OF cs(3,2)]
  then have "c \<in> set cs" by (simp add: eligible_def)
  with await_candidates_fitting [OF cs(1)] have "fitting rv ?r c" by (simp add: list_all_iff)
  with chosen cs(1) show ?thesis by blast
qed

text \<open>A request for hardware never ends at a simulator unless its caller asked for one.\<close>

lemma hardware_stays_hardware:
  assumes "resolve env rv timeout fallback_given request = Inr c"
    and "request_requires_hardware request" "\<not> simulator_fallback_allowed (effective_request env fallback_given request)"
  shows "\<not> candidate_is_simulator c"
proof -
  have "request_requires_hardware (effective_request env fallback_given request)"
    using assms(2) by (simp add: effective_request_def request_requires_hardware_def)
  with resolve_sound [OF assms(1)] assms(3) show ?thesis by (auto simp: eligible_def)
qed

lemma current_generation:
  assumes "reject_stale_generation env rv c = Inr ()" "latest_generation env rv c = Inr latest"
    and "py_int (rb_generation c) = Inr current" "py_int latest = Inr newest"
  shows "newest \<le> current"
  using assms by (auto simp: reject_stale_generation_def py_int_def split: if_splits)

text \<open>A site endpoint that is given as a URL with a bad port raises instead of being reported.\<close>

lemma bad_ports:
  "defw_directory_binding_record ''qfw:x'' =
     Inl (Unsupported_configuration (''site directory endpoint '' @ repr_text ''qfw:x'' @ '' must include a listen port''))"
  "\<exists>m. defw_directory_binding_record ''tcp://qfw:x'' = Inl (Raised (ValueError m))"
proof -
  show "defw_directory_binding_record ''qfw:x'' =
     Inl (Unsupported_configuration (''site directory endpoint '' @ repr_text ''qfw:x'' @ '' must include a listen port''))"
    by code_simp
  have "(case defw_directory_binding_record ''tcp://qfw:x'' of Inl (Raised (ValueError m)) \<Rightarrow> True | _ \<Rightarrow> False)" by code_simp
  then show "\<exists>m. defw_directory_binding_record ''tcp://qfw:x'' = Inl (Raised (ValueError m))"
    by (auto split: sum.splits resolver_error.splits exc.splits)
qed

text \<open>One record with a binding this client does not know ends the search, whatever else there is.\<close>

lemma unknown_binding_raises:
  assumes "pget bd ''binding_name'' = PStr name" "map_of API_BINDING_CLIENTS name = None"
  shows "api_binding_from_mapping bd request = Inl (Raised (KeyError name))"
proof -
  have "map_of bd ''binding_name'' = Some (PStr name)" using assms(1) by (simp add: pget_def split: option.splits)
  then have "pgetd bd ''binding_name'' v = PStr name" for v by (simp add: pgetd_def)
  with assms(2) show ?thesis by (simp add: api_binding_from_mapping_def py_str_def Let_def)
qed

end
