(* ===== verification/QPM_Binding.thy ===== *)
theory QPM_Binding
  imports QPM_Interfaces
begin

text \<open>
  The binding a client keeps to one QPM (\<^verbatim>\<open>service-apis/api_qpm_common/__init__.py\<close>,
  \<^verbatim>\<open>QPMLifecycleBinding\<close>): which runtime of the service it is bound to, the connections it has made to
  it, and how events of the directory and of the transport change both. Calls that leave the process
  are answered by an argument, a function of the history of such calls; a directory is known by a
  number. A connection is the record it was made with and its number among the connections.
  Threads are a step relation over the sections of the code that hold its lock. The lemmas show that a
  cached connection always belongs to the runtime the binding has, and that a caller who expects a
  runtime never gets a connection to another one.
\<close>

section \<open>State\<close>

datatype outside_call =
    Register_external
  | Unregister_external
  | Add_peer_listener
  | Remove_peer_listener
  | Directory_runtime
  | Register_notification nat string
  | Unregister_notification nat pyval
  | Resolve_services nat
  | Connect pydict pydict
  | Invoke nat string

type_synonym outside = "outside_call list \<Rightarrow> outside_call \<Rightarrow> exc + pyval"

record qpm_client =
  qc_number :: nat
  qc_record :: pydict
  qc_binding :: pydict

record lifecycle_binding =
  lb_service_id :: string
  lb_started :: bool
  lb_stop :: bool
  lb_directory :: "nat option"
  lb_directory_runtime_id :: pyval
  lb_registration_ids :: "pyval list"
  lb_service_record :: "pydict option"
  lb_runtime_id :: pyval
  lb_peer_handle :: pyval
  lb_generation :: pyval
  lb_clients :: "(string \<times> qpm_client) list"
  lb_listeners :: "nat list"
  lb_notified :: "(nat \<times> pydict) list"
  lb_calls :: "outside_call list"
  lb_connections :: nat

type_synonym 'a lb = "(lifecycle_binding, 'a) pm"

definition new_binding :: "string \<Rightarrow> exc + lifecycle_binding" where
  "new_binding service_id =
     (if service_id = [] then Inl (QPMBindingError ''QPM lifecycle binding requires service_id'')
      else Inr \<lparr>lb_service_id = service_id, lb_started = False, lb_stop = False, lb_directory = None,
        lb_directory_runtime_id = PNone, lb_registration_ids = [], lb_service_record = None, lb_runtime_id = PNone,
        lb_peer_handle = PNone, lb_generation = PNone, lb_clients = [], lb_listeners = [], lb_notified = [], lb_calls = [],
        lb_connections = 0\<rparr>)"

definition call_outside :: "outside \<Rightarrow> outside_call \<Rightarrow> pyval lb" where
  "call_outside answer c = (\<lambda>s. (answer (lb_calls s) c, s\<lparr>lb_calls := lb_calls s @ [c]\<rparr>))"

text \<open>\<^verbatim>\<open>try: ... except Exception: pass\<close>\<close>

definition attempted :: "'a lb \<Rightarrow> unit lb" where
  "attempted m = tryM (seqM m (retM ())) (\<lambda>_. retM ())"

definition named_qpm :: "lifecycle_binding \<Rightarrow> string" where
  "named_qpm s = ''QPM '' @ repr_text (lb_service_id s)"

section \<open>Records\<close>

definition snapshot :: "lifecycle_binding \<Rightarrow> pydict" where
  "snapshot s =
     [(''service_id'', PStr (lb_service_id s)), (''directory_runtime_id'', lb_directory_runtime_id s),
      (''runtime_id'', lb_runtime_id s), (''peer_handle'', lb_peer_handle s), (''generation'', lb_generation s),
      (''available'', PBool (lb_service_record s \<noteq> None))]"

definition notify :: "bool \<Rightarrow> lifecycle_binding \<Rightarrow> lifecycle_binding" where
  "notify same_runtime s =
     s\<lparr>lb_notified := lb_notified s @
        map (\<lambda>l. (l, dset ''same_runtime'' (PBool same_runtime) (snapshot s))) (lb_listeners s)\<rparr>"

definition install_service_record :: "pydict \<Rightarrow> pyval \<Rightarrow> unit lb" where
  "install_service_record rec directory_runtime_id =
     bindM (getM id) (\<lambda>s.
       if pget rec ''service_id'' \<noteq> PStr (lb_service_id s)
       then raiseM (QPMBindingError ''QPM lifecycle event has wrong service_id'')
       else if \<not> py_truth (pget rec ''runtime_id'') \<or> \<not> py_truth (pget rec ''peer_handle'')
       then raiseM (QPMBindingError ''QPM lifecycle event lacks runtime identity'')
       else let same_runtime = (lb_runtime_id s = PNone \<or> py_eq (lb_runtime_id s) (pget rec ''runtime_id''))
            in modM (\<lambda>s. notify same_runtime (s\<lparr>lb_directory_runtime_id := py_or directory_runtime_id (lb_directory_runtime_id s),
                 lb_runtime_id := pget rec ''runtime_id'', lb_peer_handle := pget rec ''peer_handle'',
                 lb_generation := pget rec ''generation'', lb_service_record := Some rec, lb_clients := []\<rparr>)))"

text \<open>\<^verbatim>\<open>entry.get("service_record", entry)\<close>, and what it gives for one entry after the other.\<close>

definition entry_record :: "pyval \<Rightarrow> exc + pydict" where
  "entry_record entry =
     (case entry of
        PDict d \<Rightarrow> (case pgetd d ''service_record'' (PDict d) of
                      PDict r \<Rightarrow> Inr r | _ \<Rightarrow> Inl (AttributeError ''object has no attribute get''))
      | _ \<Rightarrow> Inl (AttributeError ''object has no attribute get''))"

fun gather_records :: "string \<Rightarrow> pyval list \<Rightarrow> ((pyval \<times> pyval) \<times> pydict) list \<Rightarrow> exc + ((pyval \<times> pyval) \<times> pydict) list" where
  "gather_records service_id [] found = Inr found"
| "gather_records service_id (entry # entries) found =
     bindE (entry_record entry) (\<lambda>r.
       gather_records service_id entries
         (if pget r ''service_id'' = PStr service_id
          then dset (py_canon (pget r ''runtime_id''), py_canon (pget r ''peer_handle'')) r found else found))"

text \<open>\<^verbatim>\<open>records or []\<close>\<close>

definition record_entries :: "pyval \<Rightarrow> exc + pyval list" where
  "record_entries v =
     (if \<not> py_truth v then Inr []
      else case v of
             PList xs \<Rightarrow> Inr xs
           | PTuple xs \<Rightarrow> Inr xs
           | PDict d \<Rightarrow> Inr (map (\<lambda>kv. PStr (fst kv)) d)
           | PStr s \<Rightarrow> Inr (map (\<lambda>c. PStr [c]) s)
           | _ \<Rightarrow> Inl (TypeError ''object is not iterable''))"

definition one_service_record :: "string \<Rightarrow> pyval \<Rightarrow> exc + pydict" where
  "one_service_record service_id records =
     bindE (record_entries records) (\<lambda>entries.
     bindE (gather_records service_id entries []) (\<lambda>found.
       case found of
         [] \<Rightarrow> Inl (QPMBindingUnavailable (''QPM '' @ repr_text service_id @ '' is not registered''))
       | [(identity, r)] \<Rightarrow> Inr r
       | _ \<Rightarrow> Inl (QPMBindingError (''QPM '' @ repr_text service_id @ '' has ambiguous registrations''))))"

definition select_api_binding :: "string \<Rightarrow> pydict option \<Rightarrow> string \<Rightarrow> exc + pydict" where
  "select_api_binding service_id rec name =
     (case rec of
        None \<Rightarrow> Inl (QPMBindingUnavailable (''QPM '' @ repr_text service_id @ '' is unavailable''))
      | Some r \<Rightarrow>
          bindE (record_entries (pgetd r ''api_bindings'' (PList []))) (\<lambda>bindings.
            if list_ex (\<lambda>b. \<not> is_dict b) bindings then Inl (AttributeError ''object has no attribute get'')
            else case filter (\<lambda>d. pget d ''binding_name'' = PStr name) (map (\<lambda>b. case b of PDict d \<Rightarrow> d | _ \<Rightarrow> []) bindings) of
                   [b] \<Rightarrow> Inr b
                 | _ \<Rightarrow> Inl (QPMBindingError (''QPM '' @ repr_text service_id @ '' does not expose one '' @
                          repr_text name @ '' binding''))))"

section \<open>Clients\<close>

definition require_runtime :: "pyval \<Rightarrow> unit lb" where
  "require_runtime expected =
     bindM (getM id) (\<lambda>s.
       if expected \<noteq> PNone \<and> lb_runtime_id s \<noteq> PNone \<and> \<not> py_eq (lb_runtime_id s) expected
       then raiseM (QPMRuntimeChanged (named_qpm s @ '' restarted; a new reservation is required''))
       else if lb_service_record s = None then raiseM (QPMBindingUnavailable (named_qpm s @ '' is unavailable''))
       else retM ())"

text \<open>The first section under the connect lock: the cached connection, or what a new one is made with.\<close>

record pending_client =
  pn_name :: string
  pn_expected :: pyval
  pn_record :: pydict
  pn_binding :: pydict
  pn_runtime :: pyval
  pn_peer :: pyval

definition client_begin :: "string \<Rightarrow> pyval \<Rightarrow> (qpm_client + pending_client) lb" where
  "client_begin name expected =
     seqM (require_runtime expected)
     (bindM (getM id) (\<lambda>s.
        case map_of (lb_clients s) name of
          Some c \<Rightarrow> retM (Inl c)
        | None \<Rightarrow>
            bindM (liftM (select_api_binding (lb_service_id s) (lb_service_record s) name)) (\<lambda>b.
              retM (Inr \<lparr>pn_name = name, pn_expected = expected,
                pn_record = (case lb_service_record s of Some r \<Rightarrow> r | None \<Rightarrow> []), pn_binding = b,
                pn_runtime = lb_runtime_id s, pn_peer = lb_peer_handle s\<rparr>))))"

definition client_connect :: "outside \<Rightarrow> pending_client \<Rightarrow> qpm_client lb" where
  "client_connect answer p =
     seqM (call_outside answer (Connect (pn_record p) (pn_binding p)))
     (bindM (getM lb_connections) (\<lambda>n.
      seqM (modM (\<lambda>s. s\<lparr>lb_connections := Suc n\<rparr>))
        (retM \<lparr>qc_number = n, qc_record = pn_record p, qc_binding = pn_binding p\<rparr>)))"

definition client_store :: "pending_client \<Rightarrow> qpm_client \<Rightarrow> qpm_client lb" where
  "client_store p c =
     seqM (require_runtime (pn_expected p))
     (bindM (getM id) (\<lambda>s.
        if \<not> py_eq (lb_runtime_id s) (pn_runtime p) \<or> \<not> py_eq (lb_peer_handle s) (pn_peer p)
        then raiseM (QPMBindingUnavailable (named_qpm s @ '' changed while connecting''))
        else let clients = dsetdefault (pn_name p) c (lb_clients s)
             in seqM (modM (\<lambda>s. s\<lparr>lb_clients := clients\<rparr>))
                  (retM (case map_of clients (pn_name p) of Some d \<Rightarrow> d | None \<Rightarrow> c))))"

text \<open>The look before the connect lock is taken.\<close>

definition client_cached :: "string \<Rightarrow> pyval \<Rightarrow> qpm_client option lb" where
  "client_cached name expected =
     seqM (require_runtime expected) (getM (\<lambda>s. map_of (lb_clients s) name))"

definition client :: "outside \<Rightarrow> string \<Rightarrow> pyval \<Rightarrow> qpm_client lb" where
  "client answer name expected =
     bindM (client_cached name expected) (\<lambda>cached.
       case cached of
         Some c \<Rightarrow> retM c
       | None \<Rightarrow>
           bindM (client_begin name expected) (\<lambda>found.
             case found of
               Inl c \<Rightarrow> retM c
             | Inr p \<Rightarrow> bindM (client_connect answer p) (client_store p)))"

definition invoke :: "outside \<Rightarrow> string \<Rightarrow> pyval \<Rightarrow> string \<Rightarrow> pyval lb" where
  "invoke answer name expected method_name =
     bindM (client answer name expected) (\<lambda>c. call_outside answer (Invoke (qc_number c) method_name))"

section \<open>The directory\<close>

definition unregister_all :: "outside \<Rightarrow> nat \<Rightarrow> pyval list \<Rightarrow> unit lb" where
  "unregister_all answer directory ids = forM ids (\<lambda>i. attempted (call_outside answer (Unregister_notification directory i)))"

text \<open>The registrations made so far are taken back when a later step raises.\<close>

fun register_all :: "outside \<Rightarrow> nat \<Rightarrow> string list \<Rightarrow> pyval list \<Rightarrow> (pyval list \<Rightarrow> 'a lb) \<Rightarrow> 'a lb" where
  "register_all answer directory [] ids f =
     tryM (f ids) (\<lambda>e. seqM (unregister_all answer directory ids) (raiseM e))"
| "register_all answer directory (event # events) ids f =
     bindM (tryM (call_outside answer (Register_notification directory event))
              (\<lambda>e. seqM (unregister_all answer directory ids) (raiseM e))) (\<lambda>i.
       register_all answer directory events (ids @ [i]) f)"

definition bind_directory :: "outside \<Rightarrow> nat option \<Rightarrow> pyval \<Rightarrow> unit lb" where
  "bind_directory answer directory runtime_id =
     (case directory of
        None \<Rightarrow> raiseM (QPMBindingUnavailable ''DEFw directory service is unavailable'')
      | Some d \<Rightarrow>
          bindM (if py_truth runtime_id then retM runtime_id
                 else tryM (call_outside answer Directory_runtime) (\<lambda>_. retM PNone)) (\<lambda>rid.
          seqM (modM (\<lambda>s. s\<lparr>lb_directory := Some d, lb_directory_runtime_id := rid, lb_registration_ids := []\<rparr>))
          (bindM (register_all answer d [''SERVICE_CONNECTED'', ''SERVICE_DISCONNECTED''] [] (\<lambda>ids.
                    bindM (call_outside answer (Resolve_services d)) (\<lambda>records.
                    bindM (getM lb_service_id) (\<lambda>service_id.
                    bindM (liftM (one_service_record service_id records)) (\<lambda>rec. retM (ids, rec)))))) (\<lambda>(ids, rec).
           bindM (getM lb_directory) (\<lambda>now.
             if now \<noteq> Some d then raiseM (QPMBindingUnavailable ''directory changed while registering callbacks'')
             else seqM (modM (\<lambda>s. s\<lparr>lb_registration_ids := ids\<rparr>)) (install_service_record rec rid))))))"

definition close_binding :: "outside \<Rightarrow> unit lb" where
  "close_binding answer =
     bindM (getM id) (\<lambda>s.
       if \<not> lb_started s then retM ()
       else seqM (modM (\<lambda>s. s\<lparr>lb_started := False, lb_stop := True, lb_registration_ids := [], lb_service_record := None, lb_clients := []\<rparr>))
         (seqM (attempted (call_outside answer Remove_peer_listener))
         (seqM (case lb_directory s of Some d \<Rightarrow> unregister_all answer d (lb_registration_ids s) | None \<Rightarrow> retM ())
           (attempted (call_outside answer Unregister_external)))))"

definition start_binding :: "outside \<Rightarrow> nat option \<Rightarrow> pyval \<Rightarrow> unit lb" where
  "start_binding answer directory runtime_id =
     bindM (getM lb_started) (\<lambda>started.
       if started then retM ()
       else seqM (call_outside answer Register_external)
         (seqM (call_outside answer Add_peer_listener)
         (seqM (modM (\<lambda>s. s\<lparr>lb_started := True\<rparr>))
           (tryM (bind_directory answer directory runtime_id) (\<lambda>e. seqM (close_binding answer) (raiseM e))))))"

text \<open>The recovery asks for the directory once per round: \<open>rounds\<close> are the answers before its deadline.\<close>

fun recover_directory :: "outside \<Rightarrow> pyval \<Rightarrow> nat option list \<Rightarrow> unit lb" where
  "recover_directory answer runtime_id [] = retM ()"
| "recover_directory answer runtime_id (d # rounds) =
     bindM (getM lb_stop) (\<lambda>stop.
       if stop then retM ()
       else case d of
              None \<Rightarrow> recover_directory answer runtime_id rounds
            | Some n \<Rightarrow>
                bindM (tryM (seqM (bind_directory answer (Some n) runtime_id) (retM True)) (\<lambda>_. retM False)) (\<lambda>bound.
                  if bound then retM () else recover_directory answer runtime_id rounds))"

section \<open>Events\<close>

definition is_qpm_service_event :: "pydict \<Rightarrow> bool" where
  "is_qpm_service_event event =
     (pget event ''service_type'' \<in> {PNone, PStr ''qfw.qpm''} \<and>
      (case pget event ''service_record'' of
         PDict r \<Rightarrow> pget r ''service_type'' \<in> {PNone, PStr ''qfw.qpm''} | _ \<Rightarrow> True))"

definition disconnect_service :: "pydict \<Rightarrow> lifecycle_binding \<Rightarrow> lifecycle_binding" where
  "disconnect_service event s =
     (if \<not> py_eq (pget event ''runtime_id'') (lb_runtime_id s) \<or> \<not> py_eq (pget event ''peer_handle'') (lb_peer_handle s) then s
      else s\<lparr>lb_service_record := None, lb_clients := []\<rparr>)"

definition handle_service_event :: "pyval \<Rightarrow> unit lb" where
  "handle_service_event event =
     (case event of
        PDict e \<Rightarrow>
          bindM (getM id) (\<lambda>s.
            if pget e ''service_id'' \<noteq> PStr (lb_service_id s) \<or> \<not> is_qpm_service_event e then retM ()
            else if py_truth (lb_directory_runtime_id s) \<and>
                    \<not> py_eq (pget e ''directory_runtime_id'') (lb_directory_runtime_id s) then retM ()
            else if pget e ''event'' = PStr ''SERVICE_CONNECTED''
            then (case pget e ''service_record'' of
                    PDict r \<Rightarrow> install_service_record r (pget e ''directory_runtime_id'') | _ \<Rightarrow> retM ())
            else if pget e ''event'' = PStr ''SERVICE_DISCONNECTED'' then modM (disconnect_service e)
            else retM ())
      | _ \<Rightarrow> retM ())"

text \<open>One batch of the event thread: an event that raises ends the batch.\<close>

definition consume_events :: "pyval list \<Rightarrow> unit lb" where
  "consume_events events = tryM (forM events handle_service_event) (\<lambda>_. retM ())"

definition PEER_GONE :: "pyval list" where
  "PEER_GONE = [PStr ''PEER_LOST'', PStr ''PEER_REMOVED'']"

text \<open>
  \<open>directory_peer\<close> is what the transport says of the peer; \<open>rounds\<close> are the directories the recovery
  would find.
\<close>

definition handle_peer_event :: "outside \<Rightarrow> bool \<Rightarrow> nat option list \<Rightarrow> pydict \<Rightarrow> unit lb" where
  "handle_peer_event answer directory_peer rounds event =
     (let kind = pget event ''event_type''; runtime_id = py_or (pget event ''remote_runtime_id'') (pget event ''runtime_id'')
      in if \<not> directory_peer
         then modM (\<lambda>s. if kind \<in> set PEER_GONE \<and> py_truth runtime_id \<and> py_eq runtime_id (lb_runtime_id s)
                        then s\<lparr>lb_clients := []\<rparr> else s)
         else if kind \<in> set PEER_GONE
         then modM (\<lambda>s. if py_truth (lb_directory_runtime_id s) \<and> py_truth runtime_id \<and>
                           \<not> py_eq (lb_directory_runtime_id s) runtime_id then s
                        else s\<lparr>lb_directory := None, lb_registration_ids := [], lb_service_record := None, lb_clients := []\<rparr>)
         else if kind = PStr ''PEER_READY'' then recover_directory answer runtime_id rounds
         else retM ())"

definition add_reconnect_listener :: "nat \<Rightarrow> lifecycle_binding \<Rightarrow> lifecycle_binding" where
  "add_reconnect_listener l s = (if l \<in> set (lb_listeners s) then s else s\<lparr>lb_listeners := lb_listeners s @ [l]\<rparr>)"

definition remove_reconnect_listener :: "nat \<Rightarrow> lifecycle_binding \<Rightarrow> lifecycle_binding" where
  "remove_reconnect_listener l s = s\<lparr>lb_listeners := remove1 l (lb_listeners s)\<rparr>"

section \<open>What a binding keeps\<close>

text \<open>
  A connection belongs to the binding when it was made with a record of the runtime and the peer the
  binding has, to the API it is cached under. Without a record of the service nothing is cached.
\<close>

definition belongs :: "lifecycle_binding \<Rightarrow> string \<Rightarrow> qpm_client \<Rightarrow> bool" where
  "belongs s name c =
     (py_eq (pget (qc_record c) ''runtime_id'') (lb_runtime_id s) \<and>
      py_eq (pget (qc_record c) ''peer_handle'') (lb_peer_handle s) \<and>
      pget (qc_binding c) ''binding_name'' = PStr name)"

definition binding_ok :: "lifecycle_binding \<Rightarrow> bool" where
  "binding_ok s =
     (case lb_service_record s of
        None \<Rightarrow> lb_clients s = []
      | Some r \<Rightarrow> pget r ''service_id'' = PStr (lb_service_id s) \<and> py_truth (lb_runtime_id s) \<and>
                  pget r ''runtime_id'' = lb_runtime_id s \<and> pget r ''peer_handle'' = lb_peer_handle s \<and>
                  list_all (\<lambda>(name, c). belongs s name c) (lb_clients s))"

lemma belongs_clients [simp]: "belongs (s\<lparr>lb_clients := cs\<rparr>) = belongs s"
  by (simp add: fun_eq_iff belongs_def)

lemma new_binding_ok: "new_binding service_id = Inr s \<Longrightarrow> binding_ok s"
  by (auto simp: new_binding_def binding_ok_def split: if_splits)

lemma binding_ok_cleared: "binding_ok (s\<lparr>lb_service_record := None, lb_clients := []\<rparr>)"
  by (simp add: binding_ok_def)

lemma binding_ok_dropped: "binding_ok s \<Longrightarrow> binding_ok (s\<lparr>lb_clients := []\<rparr>)"
  by (auto simp: binding_ok_def split: option.splits)

text \<open>Fields the invariant does not read.\<close>

lemma binding_ok_frame:
  "binding_ok (s\<lparr>lb_calls := x1\<rparr>) = binding_ok s" "binding_ok (s\<lparr>lb_connections := x2\<rparr>) = binding_ok s"
  "binding_ok (s\<lparr>lb_registration_ids := x3\<rparr>) = binding_ok s" "binding_ok (s\<lparr>lb_started := x4\<rparr>) = binding_ok s"
  "binding_ok (s\<lparr>lb_directory := x5, lb_directory_runtime_id := x6, lb_registration_ids := x7\<rparr>) = binding_ok s"
  "binding_ok (s\<lparr>lb_directory := x5, lb_directory_runtime_id := x6\<rparr>) = binding_ok s"
  "binding_ok (s\<lparr>lb_listeners := x8\<rparr>) = binding_ok s" "binding_ok (s\<lparr>lb_notified := x9\<rparr>) = binding_ok s"
  by (simp_all add: binding_ok_def belongs_def cong: option.case_cong)

lemma keeps_frame_binding: "(\<And>s. binding_ok (f s) = binding_ok s) \<Longrightarrow> keeps binding_ok (modM f)"
  by (auto intro: keeps_mod)

lemma keeps_outside [keeps_rules]: "keeps binding_ok (call_outside answer c)"
  by (rule keepsI) (simp add: call_outside_def binding_ok_frame)

lemma keeps_attempted [keeps_rules]: "keeps I m \<Longrightarrow> keeps I (attempted m)"
  unfolding attempted_def by (intro keeps_rules)

lemma keeps_install [keeps_rules]: "keeps binding_ok (install_service_record rec d)"
proof (rule keepsI)
  fix s assume ok: "binding_ok s"
  have "binding_ok (notify same (s\<lparr>lb_directory_runtime_id := x, lb_runtime_id := pget rec ''runtime_id'',
      lb_peer_handle := pget rec ''peer_handle'', lb_generation := g, lb_service_record := Some rec, lb_clients := []\<rparr>))"
    if "pget rec ''service_id'' = PStr (lb_service_id s)" "py_truth (pget rec ''runtime_id'')" for same x g
    using that by (simp add: binding_ok_def notify_def)
  with ok show "binding_ok (snd (install_service_record rec d s))"
    by (auto simp: install_service_record_def monad_defs Let_def)
qed

lemma keeps_require_runtime [keeps_rules]: "keeps I (require_runtime expected)"
  unfolding require_runtime_def by (intro keeps_rules)

lemma keeps_registered [keeps_rules]:
  "keeps binding_ok (unregister_all answer d ids)"
  "(\<And>ids. keeps binding_ok (f ids)) \<Longrightarrow> keeps binding_ok (register_all answer d events ids f)"
proof -
  show taken: "keeps binding_ok (unregister_all answer d ids)" for ids
    unfolding unregister_all_def by (intro keeps_rules)
  show "(\<And>ids. keeps binding_ok (f ids)) \<Longrightarrow> keeps binding_ok (register_all answer d events ids f)"
    by (induction events arbitrary: ids) (auto intro!: keeps_rules taken)
qed

lemma keeps_bind_directory [keeps_rules]: "keeps binding_ok (bind_directory answer directory runtime_id)"
  unfolding bind_directory_def case_prod_beta by (intro keeps_rules keeps_frame_binding binding_ok_frame)

lemma keeps_close_binding [keeps_rules]: "keeps binding_ok (close_binding answer)"
  unfolding close_binding_def by (intro keeps_rules keeps_mod) (simp add: binding_ok_def)

lemma keeps_start_binding [keeps_rules]: "keeps binding_ok (start_binding answer directory runtime_id)"
  unfolding start_binding_def by (intro keeps_rules keeps_frame_binding binding_ok_frame)

lemma keeps_recover_directory [keeps_rules]: "keeps binding_ok (recover_directory answer runtime_id rounds)"
  by (induction rounds) (auto intro!: keeps_rules split: option.splits)

lemma keeps_service_event [keeps_rules]: "keeps binding_ok (handle_service_event event)"
proof -
  have "keeps binding_ok (modM (disconnect_service e))" for e
    by (rule keeps_mod) (auto simp: disconnect_service_def binding_ok_cleared)
  then show ?thesis
    unfolding handle_service_event_def by (cases event) (auto intro!: keeps_rules split: pyval.splits)
qed

lemma keeps_consume [keeps_rules]: "keeps binding_ok (consume_events events)"
  unfolding consume_events_def by (intro keeps_rules)

lemma keeps_peer_event [keeps_rules]: "keeps binding_ok (handle_peer_event answer directory_peer rounds event)"
  unfolding handle_peer_event_def Let_def
  by (intro keeps_rules keeps_mod; simp add: binding_ok_dropped; simp add: binding_ok_def)

text \<open>What a connection is made with is what the binding had.\<close>

definition pending_ok :: "pending_client \<Rightarrow> bool" where
  "pending_ok p =
     (pget (pn_record p) ''runtime_id'' = pn_runtime p \<and> pget (pn_record p) ''peer_handle'' = pn_peer p \<and>
      pget (pn_binding p) ''binding_name'' = PStr (pn_name p))"

definition made_for :: "pending_client \<Rightarrow> qpm_client \<Rightarrow> bool" where
  "made_for p c = (pending_ok p \<and> qc_record c = pn_record p \<and> qc_binding c = pn_binding p)"

text \<open>What a caller that expects a runtime is given.\<close>

definition given_client :: "lifecycle_binding \<Rightarrow> string \<Rightarrow> pyval \<Rightarrow> qpm_client \<Rightarrow> bool" where
  "given_client s name expected c =
     (belongs s name c \<and> lb_service_record s \<noteq> None \<and>
      (expected \<noteq> PNone \<longrightarrow> py_eq (pget (qc_record c) ''runtime_id'') expected))"

lemma selected_name:
  "select_api_binding service_id rec name = Inr b \<Longrightarrow> pget b ''binding_name'' = PStr name"
proof -
  assume "select_api_binding service_id rec name = Inr b"
  then obtain ds where "filter (\<lambda>d. pget d ''binding_name'' = PStr name) ds = [b]"
    by (auto simp: select_api_binding_def bindE_Inr split: option.splits if_splits list.split_asm)
  then have "b \<in> set (filter (\<lambda>d. pget d ''binding_name'' = PStr name) ds)" by simp
  then show ?thesis by simp
qed

lemma require_runtime_spec:
  "require_runtime expected s = (Inr u, t) \<Longrightarrow>
     t = s \<and> lb_service_record s \<noteq> None \<and>
     (expected = PNone \<or> lb_runtime_id s = PNone \<or> py_eq (lb_runtime_id s) expected)"
  by (auto simp: require_runtime_def monad_defs split: if_splits)

lemma cached_given:
  assumes "binding_ok s" "require_runtime expected s = (Inr u, s)" "map_of (lb_clients s) name = Some c"
  shows "given_client s name expected c"
proof -
  from assms(1) require_runtime_spec [OF assms(2)] have "list_all (\<lambda>(name, c). belongs s name c) (lb_clients s)"
    and "lb_runtime_id s \<noteq> PNone"
    by (auto simp: binding_ok_def)
  then show ?thesis
    using map_of_SomeD [OF assms(3)] require_runtime_spec [OF assms(2)]
    by (auto simp: given_client_def list_all_iff belongs_def py_eq_def)
qed

lemma client_cached_spec:
  assumes "binding_ok s" "client_cached name expected s = (Inr found, t)"
  shows "t = s \<and> (case found of Some c \<Rightarrow> given_client s name expected c | None \<Rightarrow> map_of (lb_clients s) name = None)"
proof -
  from assms(2) obtain u where "require_runtime expected s = (Inr u, s)" "t = s" "found = map_of (lb_clients s) name"
    by (auto simp: client_cached_def monad_defs split: prod.splits sum.splits dest: require_runtime_spec)
  with assms(1) show ?thesis by (auto intro: cached_given split: option.splits)
qed

lemma client_begin_spec:
  assumes "binding_ok s" "client_begin name expected s = (Inr found, t)"
  shows "t = s \<and> (case found of Inl c \<Rightarrow> given_client s name expected c
                              | Inr p \<Rightarrow> pending_ok p \<and> pn_name p = name \<and> pn_expected p = expected)"
proof -
  from assms(2) obtain u where req: "require_runtime expected s = (Inr u, s)"
    and found: "(case map_of (lb_clients s) name of
          Some c \<Rightarrow> retM (Inl c)
        | None \<Rightarrow>
            bindM (liftM (select_api_binding (lb_service_id s) (lb_service_record s) name)) (\<lambda>b.
              retM (Inr \<lparr>pn_name = name, pn_expected = expected,
                pn_record = (case lb_service_record s of Some r \<Rightarrow> r | None \<Rightarrow> []), pn_binding = b,
                pn_runtime = lb_runtime_id s, pn_peer = lb_peer_handle s\<rparr>))) s = (Inr found, t)"
    by (auto simp: client_begin_def monad_defs split: prod.splits sum.splits dest: require_runtime_spec)
  show ?thesis
  proof (cases "map_of (lb_clients s) name")
    case (Some c)
    with found cached_given [OF assms(1) req Some] show ?thesis by (auto simp: retM_def)
  next
    case None
    with found obtain b where b: "select_api_binding (lb_service_id s) (lb_service_record s) name = Inr b" and "t = s"
      and "found = Inr \<lparr>pn_name = name, pn_expected = expected, pn_record = (case lb_service_record s of Some r \<Rightarrow> r | None \<Rightarrow> []),
             pn_binding = b, pn_runtime = lb_runtime_id s, pn_peer = lb_peer_handle s\<rparr>"
      by (auto simp: monad_defs split: sum.splits)
    with assms(1) require_runtime_spec [OF req] selected_name [OF b] show ?thesis
      by (auto simp: pending_ok_def binding_ok_def)
  qed
qed

lemma client_connect_spec:
  "client_connect answer p s = (Inr c, t) \<Longrightarrow> pending_ok p \<Longrightarrow> made_for p c"
  by (auto simp: client_connect_def monad_defs made_for_def call_outside_def split: prod.splits sum.splits)

lemma keeps_connect [keeps_rules]: "keeps binding_ok (client_connect answer p)"
  unfolding client_connect_def by (intro keeps_rules keeps_frame_binding binding_ok_frame)

lemma client_store_spec:
  assumes "binding_ok s" "made_for p c" "client_store p c s = (r, t)"
  shows "binding_ok t \<and> (\<forall>d. r = Inr d \<longrightarrow> given_client t (pn_name p) (pn_expected p) d)"
proof (cases "fst (require_runtime (pn_expected p) s)")
  case (Inl e)
  with assms(1,3) keepsD [where I = binding_ok, OF keeps_require_runtime, of s "pn_expected p"] show ?thesis
    by (auto simp: client_store_def monad_defs split: prod.splits)
next
  case (Inr u)
  then have req: "require_runtime (pn_expected p) s = (Inr u, s)"
    by (metis prod.collapse require_runtime_spec)
  show ?thesis
  proof (cases "py_eq (lb_runtime_id s) (pn_runtime p) \<and> py_eq (lb_peer_handle s) (pn_peer p)")
    case False
    with assms(1,3) req show ?thesis by (auto simp: client_store_def monad_defs)
  next
    case True
    define clients where "clients = dsetdefault (pn_name p) c (lb_clients s)"
    define t' where "t' = s\<lparr>lb_clients := clients\<rparr>"
    from True assms(2) have here: "belongs s (pn_name p) c"
      by (simp add: belongs_def made_for_def pending_ok_def py_eq_def)
    have ok: "binding_ok t'"
      using assms(1) here require_runtime_spec [OF req]
      by (auto simp: t'_def binding_ok_def clients_def dsetdefault_def)
    obtain d where d: "map_of clients (pn_name p) = Some d"
      by (cases "map_of (lb_clients s) (pn_name p)") (auto simp: clients_def map_of_setdefault)
    have "require_runtime (pn_expected p) t' = (Inr u, t')"
      using req by (auto simp: require_runtime_def monad_defs t'_def split: if_splits)
    then have "given_client t' (pn_name p) (pn_expected p) d"
      by (rule cached_given [OF ok]) (simp add: t'_def d)
    moreover from assms(3) req True d have "r = Inr d" "t = t'"
      by (auto simp: client_store_def monad_defs clients_def t'_def Let_def)
    ultimately show ?thesis using ok by simp
  qed
qed

section \<open>Threads\<close>

text \<open>
  The threads of a binding. At most one of them holds the connect lock; it is between two sections of
  \<^verbatim>\<open>client\<close>, before or after its connection is there, while events arrive, the binding closes, and the
  sections of \<^verbatim>\<open>_bind_directory\<close> run in a recovery. A step is labelled with the connection a call got.
\<close>

datatype got = Nothing_got | Got string pyval qpm_client

type_synonym threads = "lifecycle_binding \<times> (pending_client \<times> qpm_client option) option"

inductive binding_step :: "outside \<Rightarrow> got \<Rightarrow> threads \<Rightarrow> threads \<Rightarrow> bool" for answer where
  From_cache: "client_cached name expected s = (Inr (Some c), t) \<Longrightarrow>
     binding_step answer (Got name expected c) (s, l) (t, l)"
| Waited: "client_begin name expected s = (Inr (Inl c), t) \<Longrightarrow>
     binding_step answer (Got name expected c) (s, None) (t, None)"
| Begun: "client_begin name expected s = (Inr (Inr p), t) \<Longrightarrow>
     binding_step answer Nothing_got (s, None) (t, Some (p, None))"
| Connected: "client_connect answer p s = (Inr c, t) \<Longrightarrow>
     binding_step answer Nothing_got (s, Some (p, None)) (t, Some (p, Some c))"
| Not_connected: "client_connect answer p s = (Inl e, t) \<Longrightarrow>
     binding_step answer Nothing_got (s, Some (p, None)) (t, None)"
| Stored: "client_store p c s = (Inr d, t) \<Longrightarrow>
     binding_step answer (Got (pn_name p) (pn_expected p) d) (s, Some (p, Some c)) (t, None)"
| Not_stored: "client_store p c s = (Inl e, t) \<Longrightarrow>
     binding_step answer Nothing_got (s, Some (p, Some c)) (t, None)"
| Service_event: "binding_step answer Nothing_got (s, l) (snd (handle_service_event event s), l)"
| Peer_event: "binding_step answer Nothing_got (s, l) (snd (handle_peer_event answer directory_peer rounds event s), l)"
| Started: "binding_step answer Nothing_got (s, l) (snd (start_binding answer directory runtime_id s), l)"
| Closed: "binding_step answer Nothing_got (s, l) (snd (close_binding answer s), l)"
| Directory_found: "binding_step answer Nothing_got (s, l)
     (s\<lparr>lb_directory := directory, lb_directory_runtime_id := runtime_id, lb_registration_ids := []\<rparr>, l)"
| Directory_called: "binding_step answer Nothing_got (s, l) (snd (call_outside answer call s), l)"
| Registered: "binding_step answer Nothing_got (s, l) (s\<lparr>lb_registration_ids := ids\<rparr>, l)"
| Installed: "binding_step answer Nothing_got (s, l) (snd (install_service_record rec runtime_id s), l)"

inductive binding_steps :: "outside \<Rightarrow> threads \<Rightarrow> threads \<Rightarrow> bool" for answer where
  here: "binding_steps answer x x"
| further: "binding_steps answer x y \<Longrightarrow> binding_step answer g y z \<Longrightarrow> binding_steps answer x z"

definition threads_ok :: "threads \<Rightarrow> bool" where
  "threads_ok x =
     (binding_ok (fst x) \<and>
      (case snd x of
         None \<Rightarrow> True | Some (p, None) \<Rightarrow> pending_ok p | Some (p, Some c) \<Rightarrow> made_for p c))"

lemma step_keeps_threads: "binding_step answer g x y \<Longrightarrow> threads_ok x \<Longrightarrow> threads_ok y"
proof (induction rule: binding_step.induct)
  case (From_cache name expected s c t l)
  then show ?case using client_cached_spec [of s name expected "Some c" t] by (simp add: threads_ok_def)
next
  case (Waited name expected s c t)
  then show ?case using client_begin_spec [of s name expected "Inl c" t] by (simp add: threads_ok_def)
next
  case (Begun name expected s p t)
  then show ?case using client_begin_spec [of s name expected "Inr p" t] by (simp add: threads_ok_def)
next
  case (Connected p s c t)
  then show ?case using client_connect_spec [OF Connected(1)] keepsD [OF keeps_connect, of s answer p]
    by (simp add: threads_ok_def)
next
  case (Not_connected p s e t)
  then show ?case using keepsD [OF keeps_connect, of s answer p] by (simp add: threads_ok_def)
next
  case (Stored p c s d t)
  then show ?case using client_store_spec [of s p c "Inr d" t] by (simp add: threads_ok_def)
next
  case (Not_stored p c s e t)
  then show ?case using client_store_spec [of s p c "Inl e" t] by (simp add: threads_ok_def)
qed (simp_all add: threads_ok_def binding_ok_frame keepsD [OF keeps_service_event] keepsD [OF keeps_peer_event]
    keepsD [OF keeps_start_binding] keepsD [OF keeps_close_binding] keepsD [OF keeps_outside] keepsD [OF keeps_install])

lemma steps_keep_threads: "binding_steps answer x y \<Longrightarrow> threads_ok x \<Longrightarrow> threads_ok y"
  by (induction rule: binding_steps.induct) (auto dest: step_keeps_threads)

lemma got_is_given:
  assumes "threads_ok x" "binding_step answer (Got name expected c) x y"
  shows "given_client (fst y) name expected c"
  using assms(2)
proof (cases rule: binding_step.cases)
  case From_cache
  with assms(1) client_cached_spec show ?thesis by (fastforce simp: threads_ok_def)
next
  case Waited
  with assms(1) client_begin_spec show ?thesis by (fastforce simp: threads_ok_def)
next
  case Stored
  with assms(1) client_store_spec show ?thesis by (fastforce simp: threads_ok_def)
qed

text \<open>A call that is not interrupted is a run of the threads, so what holds of the connections they get holds of its own.\<close>

lemma client_runs:
  assumes "binding_ok s" "client answer name expected s = (Inr c, t)"
  obtains x where "binding_steps answer (s, None) x" "binding_step answer (Got name expected c) x (t, None)"
proof -
  from assms(2) obtain cached u where u: "client_cached name expected s = (Inr cached, u)"
    and rest: "(case cached of Some c \<Rightarrow> retM c | None \<Rightarrow> bindM (client_begin name expected) (\<lambda>found.
             case found of Inl c \<Rightarrow> retM c | Inr p \<Rightarrow> bindM (client_connect answer p) (client_store p))) u = (Inr c, t)"
    by (auto simp: client_def bindM_def split: prod.splits sum.split_asm)
  note cached = client_cached_spec [OF assms(1) u]
  show thesis
  proof (cases cached)
    case (Some d)
    with rest u have "binding_step answer (Got name expected c) (s, None) (t, None)"
      by (auto simp: retM_def intro: From_cache)
    with here show thesis by (rule that)
  next
    case None
    with rest cached obtain found v where v: "client_begin name expected s = (Inr found, v)"
      and rest: "(case found of Inl c \<Rightarrow> retM c | Inr p \<Rightarrow> bindM (client_connect answer p) (client_store p)) v = (Inr c, t)"
      by (auto simp: bindM_def split: prod.splits sum.split_asm)
    note begun = client_begin_spec [OF assms(1) v]
    show thesis
    proof (cases found)
      case (Inl d)
      with rest v have "binding_step answer (Got name expected c) (s, None) (t, None)"
        by (auto simp: retM_def intro: Waited)
      with here show thesis by (rule that)
    next
      case (Inr p)
      with rest begun obtain d w where w: "client_connect answer p s = (Inr d, w)" "client_store p d w = (Inr c, t)"
        by (auto simp: bindM_def split: prod.splits sum.split_asm)
      from Inr v begun have "binding_step answer Nothing_got (s, None) (s, Some (p, None))" by (auto intro: Begun)
      then have "binding_steps answer (s, None) (w, Some (p, Some d))"
        by (rule further [OF further [OF here] Connected [OF w(1)]])
      moreover from Stored [OF w(2)] begun Inr have "binding_step answer (Got name expected c) (w, Some (p, Some d)) (t, None)"
        by simp
      ultimately show thesis by (rule that)
    qed
  qed
qed

lemma client_spec:
  assumes "binding_ok s" "client answer name expected s = (Inr c, t)"
  shows "binding_ok t \<and> given_client t name expected c"
  using assms
proof (rule client_runs)
  fix x assume "binding_steps answer (s, None) x" and got: "binding_step answer (Got name expected c) x (t, None)"
  then have "threads_ok x" using steps_keep_threads assms(1) by (simp add: threads_ok_def)
  then show ?thesis using got_is_given [OF _ got] step_keeps_threads [OF got] by (simp add: threads_ok_def)
qed

section \<open>Connections and events\<close>

text \<open>A connection that is there is used again: a second call opens none.\<close>

lemma client_again:
  assumes "binding_ok s" "client answer name expected s = (Inr c, t)"
  shows "client answer name expected t = (Inr c, t)"
proof -
  have fresh: "map_of (lb_clients v) (pn_name p) = Some d \<and> require_runtime (pn_expected p) v = (Inr (), v)"
    if "client_store p e w = (Inr d, v)" for p e w v d
    using that
    by (cases "map_of (lb_clients w) (pn_name p)")
      (auto simp: client_store_def require_runtime_def monad_defs Let_def map_of_setdefault split: if_splits)
  have "map_of (lb_clients t) name = Some c \<and> require_runtime expected t = (Inr (), t)"
  proof -
    from assms(2) obtain cached u where u: "client_cached name expected s = (Inr cached, u)"
      and rest: "(case cached of Some c \<Rightarrow> retM c | None \<Rightarrow> bindM (client_begin name expected) (\<lambda>found.
               case found of Inl c \<Rightarrow> retM c | Inr p \<Rightarrow> bindM (client_connect answer p) (client_store p))) u = (Inr c, t)"
      by (auto simp: client_def bindM_def split: prod.splits sum.split_asm)
    then have u': "u = s" "cached = map_of (lb_clients s) name" "require_runtime expected s = (Inr (), s)"
      by (auto simp: client_cached_def monad_defs split: prod.splits sum.splits dest: require_runtime_spec)
    show ?thesis
    proof (cases cached)
      case None
      with rest u' obtain p d w where "client_begin name expected s = (Inr (Inr p), s)"
        and w: "client_store p d w = (Inr c, t)"
        by (auto simp: bindM_def client_begin_def monad_defs split: prod.splits sum.split_asm)
      with client_begin_spec [OF assms(1)] have "pn_name p = name" "pn_expected p = expected" by fastforce+
      with fresh [OF w] show ?thesis by simp
    qed (use rest u' in \<open>auto simp: retM_def\<close>)
  qed
  then show ?thesis by (auto simp: client_def client_cached_def monad_defs)
qed

text \<open>A caller whose runtime is gone is told so, whatever is cached; one that expects none is served.\<close>

lemma restarted_is_told:
  assumes "lb_runtime_id s \<noteq> PNone" "expected \<noteq> PNone" "\<not> py_eq (lb_runtime_id s) expected"
  shows "client answer name expected s =
           (Inl (QPMRuntimeChanged (named_qpm s @ '' restarted; a new reservation is required'')), s)"
  using assms by (simp add: client_def client_cached_def require_runtime_def monad_defs)

text \<open>A disconnect of the runtime the binding has makes it unavailable, one of another runtime changes nothing.\<close>

lemma disconnected:
  assumes "binding_ok s" "client answer name expected (disconnect_service event s) = (Inr c, t)"
  shows "disconnect_service event s = s"
  using assms
  by (auto simp: disconnect_service_def client_def client_cached_def require_runtime_def monad_defs split: if_splits)

text \<open>Each listener is told once of a record that is installed, and whether the runtime is the one it knew.\<close>

lemma install_notifies:
  assumes "install_service_record rec d s = (Inr u, t)"
  shows "lb_notified t = lb_notified s @ map (\<lambda>l. (l, dset ''same_runtime''
           (PBool (lb_runtime_id s = PNone \<or> py_eq (lb_runtime_id s) (pget rec ''runtime_id''))) (snapshot t))) (lb_listeners s)"
  using assms by (auto simp: install_service_record_def monad_defs Let_def notify_def snapshot_def split: if_splits)

text \<open>
  A connection made before its peer was lost is cached after the loss, although the loss drops the
  connections that are cached: the section that stores it compares runtime and peer only, which the loss
  leaves as they are.
\<close>

lemma lost_connection_cached:
  assumes "client_store p c s = (Inr c, t)" "map_of (lb_clients s) (pn_name p) = None"
    and "kind \<in> set PEER_GONE" "pget event ''event_type'' = kind" "py_truth (lb_runtime_id s)"
    and "pget event ''remote_runtime_id'' = lb_runtime_id s"
  obtains u where "client_store p c (snd (handle_peer_event answer False rounds event s)) = (Inr c, u)"
    "map_of (lb_clients u) (pn_name p) = Some c"
proof -
  have "snd (handle_peer_event answer False rounds event s) = s\<lparr>lb_clients := []\<rparr>"
    using assms by (simp add: handle_peer_event_def Let_def modM_def py_or_def py_eq_def)
  moreover have "client_store p c (s\<lparr>lb_clients := []\<rparr>) = (Inr c, s\<lparr>lb_clients := [(pn_name p, c)]\<rparr>)"
    using assms(1) by (auto simp: client_store_def require_runtime_def monad_defs Let_def dsetdefault_def split: if_splits)
  ultimately show thesis by (intro that [of "s\<lparr>lb_clients := [(pn_name p, c)]\<rparr>"]) simp_all
qed

text \<open>
  A recovery whose records lack a runtime identity registers for events in every round and takes none
  of the registrations back: what it has noted is overwritten by the next round.
\<close>

lemma recovery_leaks:
  defines "answer \<equiv> (\<lambda>calls c. case c of
       Register_notification d e \<Rightarrow> Inr (PInt (int (length calls)))
     | Resolve_services d \<Rightarrow> Inr (PList [PDict [(''service_id'', PStr ''q''), (''runtime_id'', PStr ''r1'')]])
     | _ \<Rightarrow> Inr PNone)"
  shows "map_sum id (\<lambda>s. let t = snd (recover_directory answer (PStr ''d1'') [Some 0, Some 0] s)
           in (lb_registration_ids t, length (filter (\<lambda>c. case c of Register_notification d e \<Rightarrow> True | _ \<Rightarrow> False) (lb_calls t)),
               length (filter (\<lambda>c. case c of Unregister_notification d i \<Rightarrow> True | _ \<Rightarrow> False) (lb_calls t))))
         (new_binding ''q'') = Inr ([PInt 3, PInt 4], 4, 0)"
  unfolding answer_def by code_simp

end
