(* ===== verification/QPM_Managed.thy ===== *)
theory QPM_Managed
  imports QPM_Resolver QPM_Binding
begin

text \<open>
  The resolver and the lifecycle binding together (\<^verbatim>\<open>connect_reserved_managed\<close> and
  \<^verbatim>\<open>managed_binding\<close> of \<^verbatim>\<open>backends/qfw_qiskit/qpm_resolver.py\<close>, \<^verbatim>\<open>QPMManagedAPI\<close> of
  \<^verbatim>\<open>service-apis/api_qpm_common/__init__.py\<close>): a client of a reservation resolves its service once, and
  every method it calls later goes through the binding, which asks for the runtime that was resolved.
  The directories of the resolver are known to the binding by their place in its list.
\<close>

record managed_api =
  ma_binding_name :: string
  ma_expected_runtime_id :: pyval

definition managed_invoke :: "outside \<Rightarrow> managed_api \<Rightarrow> string \<Rightarrow> pyval lb" where
  "managed_invoke answer api method_name = invoke answer (ma_binding_name api) (ma_expected_runtime_id api) method_name"

text \<open>Identifiers of services are texts: a candidate has the one its caller asked for.\<close>

definition managed_binding :: "resolver_env \<Rightarrow> outside \<Rightarrow> resolver \<Rightarrow> resolved_binding \<Rightarrow> lifecycle_binding resolved" where
  "managed_binding env answer rv resolved =
     bindR (managed_directory env rv resolved) (\<lambda>d.
     bindR (python (new_binding (py_str (rb_service_id resolved)))) (\<lambda>s.
       case start_binding answer (Some (index_of (rv_directories rv) d)) PNone s of
         (Inl e, t) \<Rightarrow> Inl (Raised e)
       | (Inr u, t) \<Rightarrow> Inr t))"

definition connect_reserved_managed ::
  "resolver_env \<Rightarrow> outside \<Rightarrow> resolver \<Rightarrow> string \<Rightarrow> nat \<Rightarrow> string \<Rightarrow> string option \<Rightarrow>
     (resolved_binding \<times> managed_api \<times> lifecycle_binding) resolved" where
  "connect_reserved_managed env answer rv service_id timeout api_category binding_name =
     bindR (resolve_reserved env rv service_id timeout api_category binding_name) (\<lambda>resolved.
     bindR (managed_binding env answer rv resolved) (\<lambda>s.
       Inr (resolved, \<lparr>ma_binding_name = py_str (ab_binding_name (rb_api_binding resolved)),
              ma_expected_runtime_id = rb_runtime_id resolved\<rparr>, s)))"

section \<open>Lemmas\<close>

lemma resolve_reserved_unique:
  assumes "resolve_reserved env rv service_id timeout api_category binding_name = Inr c"
  obtains request where "rq_service_id request = Some service_id" "rq_service_type request = ''qfw.qpm''"
    "binding_filter request = binding_name_for_category api_category binding_name"
    "await_candidates env rv request 0 timeout = Inr [c]" "fitting rv request c" "reject_stale_generation env rv c = Inr ()"
proof -
  define request where "request = \<lparr>rq_service_id = Some service_id, rq_service_name = ''QPM'', rq_service_type = ''qfw.qpm'',
            rq_api_category = api_category, rq_binding_name = binding_name, rq_selector_resource = None,
            rq_selector_alias = None, rq_qpm_type = PInt (-1), rq_qpm_capabilities = PInt (-1), rq_provider = None,
            rq_allow_simulator_fallback = False\<rparr>"
  from assms obtain cs where cs: "await_candidates env rv request 0 timeout = Inr cs"
    and rest: "(case cs of
             [] \<Rightarrow> Inl (Resolver_error (''reserved QPM service '' @ repr_text service_id @ '' is unavailable''))
           | [resolved] \<Rightarrow> bindR (reject_stale_generation env rv resolved) (\<lambda>_. Inr resolved)
           | _ \<Rightarrow> Inl (Ambiguous_resolution (''reserved QPM service '' @ repr_text service_id @
                    '' appears in multiple visible directories''))) = Inr c"
    unfolding resolve_reserved_def Let_def request_def [symmetric] bindR_Inr by blast
  from rest have one: "cs = [c]" "reject_stale_generation env rv c = Inr ()"
    by (auto simp: bindR_Inr split: list.split_asm)
  with await_candidates_fitting [OF cs] have "fitting rv request c" by simp
  with one cs show thesis by (intro that [of request]) (simp_all add: request_def binding_filter_def)
qed

lemma managed_binding_ok: "managed_binding env answer rv resolved = Inr s \<Longrightarrow> binding_ok s"
proof -
  assume "managed_binding env answer rv resolved = Inr s"
  then obtain d s0 where s0: "new_binding (py_str (rb_service_id resolved)) = Inr s0"
    and started: "(case start_binding answer (Some (index_of (rv_directories rv) d)) PNone s0 of
         (Inl e, t) \<Rightarrow> Inl (Raised e) | (Inr u, t) \<Rightarrow> Inr t) = Inr s"
    unfolding managed_binding_def bindR_Inr python_Inr by blast
  have "s = snd (start_binding answer (Some (index_of (rv_directories rv) d)) PNone s0)"
    using started by (auto split: prod.splits sum.splits)
  with keepsD [OF keeps_start_binding new_binding_ok [OF s0]] show ?thesis by simp
qed

text \<open>What a managed client gets from its binding.\<close>

lemma managed_client_given:
  assumes "connect_reserved_managed env answer rv service_id timeout api_category binding_name = Inr (resolved, api, s0)"
    and "binding_steps answer (s0, None) x" "binding_step answer (Got name expected c) x y"
  shows "given_client (fst y) name expected c"
proof -
  from assms(1) have "binding_ok s0"
    by (auto simp: connect_reserved_managed_def bindR_Inr dest: managed_binding_ok)
  then have "threads_ok x" using steps_keep_threads [OF assms(2)] by (simp add: threads_ok_def)
  then show ?thesis by (rule got_is_given [OF _ assms(3)])
qed

text \<open>One directory with one service that is registered, as the resolver and as the binding see them.\<close>

definition sample_service :: pyval where
  "sample_service = PDict
     [(''service_record'', PDict
        [(''service_id'', PStr ''q''), (''service_type'', PStr ''qfw.qpm''), (''endpoint'', PStr ''h:1''),
         (''runtime_id'', PStr ''r1''), (''peer_handle'', PStr ''p1''),
         (''api_bindings'', PList [PDict [(''binding_name'', PStr ''execution'')]])]),
      (''selected_binding'', PDict [(''binding_name'', PStr ''execution'')])]"

definition sample_env :: resolver_env where
  "sample_env = \<lparr>variable = (\<lambda>_. None), client_present = (\<lambda>_ _. True),
     resolve_services = (\<lambda>_ _ _. Inr (PList [sample_service])), service_generation = (\<lambda>_ _. None)\<rparr>"

definition sample_resolver :: resolver where
  "sample_resolver = from_environment sample_env True"

definition sample_request :: resolution_request where
  "sample_request = \<lparr>rq_service_id = None, rq_service_name = ''QPM'', rq_service_type = ''qfw.qpm'',
     rq_api_category = ''execution'', rq_binding_name = None, rq_selector_resource = None, rq_selector_alias = None,
     rq_qpm_type = PInt (-1), rq_qpm_capabilities = PInt (-1), rq_provider = None, rq_allow_simulator_fallback = False\<rparr>"

definition sample_answer :: outside where
  "sample_answer calls c = (case c of Resolve_services d \<Rightarrow> Inr (PList [sample_service]) | _ \<Rightarrow> Inr (PInt (int (length calls))))"

end
