(* ===== verification/QPM_Setup.thy ===== *)
theory QPM_Setup
  imports "HOL-Library.Countable" QPM_Access
begin

text \<open>
  The configuration of a run (\<^verbatim>\<open>setup/qfw_runtime/config.py\<close>): which variables a run inherits, how
  values of configuration files are expanded, the directory and the services of a site, the ports of a
  local directory, the manifest of services, and the state, the environment file and the marker of the
  current run that a setup writes. The file system is part of the state; a file written as JSON holds
  its value. What the operating system knows otherwise is an argument: home directories and links
  (\<open>real_path\<close>), free ports, unique numbers, and the parser of YAML.
\<close>

section \<open>The environment of a setup\<close>

datatype file_content = Json_file pyval | Text_file string

record setup_env =
  environ :: "(string \<times> string) list"
  expanduser :: "string \<Rightarrow> string"
  real_path :: "string \<Rightarrow> string"
  parse_yaml :: "file_content \<Rightarrow> exc + pyval"
  parse_json :: "string \<Rightarrow> exc + pyval"
  dump_json :: "pyval \<Rightarrow> string"
  free_port :: "nat \<Rightarrow> int"
  temp_dir :: string
  working_dir :: string
  module_file :: string
  uuid4_hex :: string
  uuid5_hex :: "string \<Rightarrow> string"

record setup_state =
  file_system :: "(string \<times> file_content) list"
  directories :: "string list"
  ports_asked :: nat

type_synonym 'a prep = "(setup_state, 'a) pm"

definition variable_of :: "setup_env \<Rightarrow> string \<Rightarrow> string" where
  "variable_of env name = (case map_of (environ env) name of Some v \<Rightarrow> v | None \<Rightarrow> [])"

definition path_exists :: "string \<Rightarrow> bool prep" where
  "path_exists p = getM (\<lambda>s. has_key (file_system s) p \<or> p \<in> set (directories s))"

definition make_dir :: "string \<Rightarrow> unit prep" where
  "make_dir p = modM (\<lambda>s. s\<lparr>directories := p # directories s\<rparr>)"

definition write_file :: "string \<Rightarrow> file_content \<Rightarrow> unit prep" where
  "write_file p content = modM (\<lambda>s. s\<lparr>file_system := dset p content (file_system s)\<rparr>)"

text \<open>A file that is not there raises \<^verbatim>\<open>FileNotFoundError\<close>, which is an \<^verbatim>\<open>OSError\<close>.\<close>

definition open_file :: "string \<Rightarrow> file_content prep" where
  "open_file p = bindM (getM file_system) (\<lambda>fs.
     case map_of fs p of Some c \<Rightarrow> retM c | None \<Rightarrow> raiseM (OSError (''No such file or directory: '' @ repr_text p)))"

definition load_json :: "setup_env \<Rightarrow> string \<Rightarrow> pyval prep" where
  "load_json env p = bindM (open_file p) (\<lambda>c. liftM (case c of Json_file v \<Rightarrow> Inr v | Text_file t \<Rightarrow> parse_json env t))"

definition read_text :: "setup_env \<Rightarrow> string \<Rightarrow> string prep" where
  "read_text env p = bindM (open_file p) (\<lambda>c. retM (case c of Json_file v \<Rightarrow> dump_json env v | Text_file t \<Rightarrow> t))"

section \<open>Inherited variables\<close>

definition SETUP_SCOPE_ALIASES :: "(string \<times> string) list" where
  "SETUP_SCOPE_ALIASES = [(''local'', ''allocation-local''), (''allocation-local'', ''allocation-local''), (''site'', ''site'')]"

definition CALLER_ENVIRONMENT_KEYS :: "string list" where
  "CALLER_ENVIRONMENT_KEYS =
     [''PATH'', ''LD_LIBRARY_PATH'', ''PYTHONPATH'', ''PYTHONHOME'', ''PYTHONNOUSERSITE'', ''PYTHONUSERBASE'', ''VIRTUAL_ENV'',
      ''VIRTUAL_ENV_PROMPT'']"

definition DEFW_PROCESS_VARIABLES :: "string list" where
  "DEFW_PROCESS_VARIABLES =
     [''DEFW_AGENT_NAME'', ''DEFW_AGENT_TYPE'', ''DEFW_SHELL_TYPE'', ''DEFW_LISTEN_PORT'', ''DEFW_TELNET_PORT'', ''DEFW_PARENT_ADDR'',
      ''DEFW_PARENT_HOSTNAME'', ''DEFW_PARENT_NAME'', ''DEFW_PARENT_PORT'', ''DEFW_DISABLE_DIRSVC'', ''DEFW_LOG_DIR'',
      ''DEFW_ONLY_LOAD_MODULE'']"

definition RUN_STATE_VARIABLES :: "string list" where
  "RUN_STATE_VARIABLES =
     [''QFW_RUN_TMP_PATH'', ''QFW_LOG_DIR'', ''QFW_DVM_URI_PATH'', ''QFW_LOCAL_DIRSVC_ENDPOINT'', ''QFW_LOCAL_DIRSVC_NAME'',
      ''QFW_LOCAL_SERVICE_CONFIG'', ''QFW_SERVICE_SCOPE'', ''QFW_QPM_SERVICE_IDS'', ''QFW_STARTUP_DRY_RUN'', ''QFW_ALLOCATION_MODE'',
      ''QFW_GROUP_0_NODELIST'', ''QFW_GROUP_1_NODELIST'', ''QFW_GROUPS'']"

definition RUN_INPUT_VARIABLES :: "string list" where
  "RUN_INPUT_VARIABLES = [''QFW_RUN_ID'', ''QFW_DIRECTORY_SERVICE_INFO'']"

text \<open>\<^verbatim>\<open>sorted\<close> on texts: by the codes of the characters.\<close>

fun text_le :: "string \<Rightarrow> string \<Rightarrow> bool" where
  "text_le [] b = True"
| "text_le (x # xs) [] = False"
| "text_le (x # xs) (y # ys) = ((of_char x :: nat) < of_char y \<or> x = y \<and> text_le xs ys)"

fun text_insert :: "('a \<Rightarrow> string) \<Rightarrow> 'a \<Rightarrow> 'a list \<Rightarrow> 'a list" where
  "text_insert key x [] = [x]"
| "text_insert key x (y # ys) = (if text_le (key x) (key y) then x # y # ys else y # text_insert key x ys)"

definition text_sort :: "('a \<Rightarrow> string) \<Rightarrow> 'a list \<Rightarrow> 'a list" where
  "text_sort key xs = foldr (text_insert key) xs []"

definition inherited_variables :: "(string \<times> string) list \<Rightarrow> bool \<Rightarrow> string list" where
  "inherited_variables vars run_state =
     (let names = DEFW_PROCESS_VARIABLES @
            (if run_state
             then RUN_STATE_VARIABLES @
               (case map_of vars ''QFW_RUN_TMP_PATH'' of Some v \<Rightarrow> if v \<noteq> [] then RUN_INPUT_VARIABLES else [] | None \<Rightarrow> [])
             else [])
      in text_sort id (filter (has_key vars) names))"

definition launch_environment :: "(string \<times> string) list \<Rightarrow> bool \<Rightarrow> (string \<times> string) list" where
  "launch_environment vars run_state =
     (let drop_names = inherited_variables vars run_state in filter (\<lambda>(name, v). name \<notin> set drop_names) vars)"

definition discard_inherited_environment :: "(string \<times> string) list \<Rightarrow> (string \<times> string) list" where
  "discard_inherited_environment vars = foldl (\<lambda>e name. dpop name e) vars (inherited_variables vars True)"

fun persist_caller_environment :: "setup_env \<Rightarrow> string list \<Rightarrow> (string \<times> string) list \<Rightarrow> (string \<times> string) list" where
  "persist_caller_environment env [] environment = environment"
| "persist_caller_environment env (name # names) environment =
     persist_caller_environment env names
       (if variable_of env name \<noteq> [] then dset name (variable_of env name) environment else environment)"

section \<open>Lists and flags in configurations\<close>

definition py_items :: "pyval \<Rightarrow> exc + pyval list" where
  "py_items v =
     (case v of
        PList xs \<Rightarrow> Inr xs
      | PTuple xs \<Rightarrow> Inr xs
      | PDict d \<Rightarrow> Inr (map (\<lambda>kv. PStr (fst kv)) d)
      | PStr s \<Rightarrow> Inr (map (\<lambda>c. PStr [c]) s)
      | _ \<Rightarrow> Inl (TypeError ''object is not iterable''))"

definition split_config_list :: "pyval \<Rightarrow> exc + string list" where
  "split_config_list v =
     (if \<not> py_truth v then Inr []
      else bindE (case v of
                    PStr t \<Rightarrow> Inr (split_on (CHR '','') (replace_char (CHR '';'') (CHR '','') t))
                  | _ \<Rightarrow> bindE (py_items v) (\<lambda>xs. Inr (map py_str xs))) (\<lambda>items.
             Inr (filter (\<lambda>t. t \<noteq> []) (map py_strip items))))"

definition bool_config :: "pyval \<Rightarrow> bool \<Rightarrow> bool" where
  "bool_config v d =
     (case v of
        PNone \<Rightarrow> d
      | PBool b \<Rightarrow> b
      | _ \<Rightarrow> py_lower (py_strip (py_str v)) \<in> {''1'', ''true'', ''yes'', ''on'', ''y''})"

section \<open>Paths\<close>

text \<open>A path that was resolved has no empty, \<open>.\<close> or \<open>..\<close> part, so joining and taking the parent are textual.\<close>

definition parent_path :: "string \<Rightarrow> string" where
  "parent_path p = dirname p"

definition path_name :: "string \<Rightarrow> string" where
  "path_name p = rev (takeWhile (\<lambda>c. c \<noteq> CHR ''/'') (rev p))"

fun join_all :: "string \<Rightarrow> string list \<Rightarrow> string" where
  "join_all p [] = p"
| "join_all p (q # qs) = join_all (join_path p q) qs"

definition qfw_prefix :: "setup_env \<Rightarrow> string" where
  "qfw_prefix env =
     (if variable_of env ''QFW_PREFIX'' \<noteq> [] then real_path env (variable_of env ''QFW_PREFIX'')
      else let source_path = real_path env (module_file env); setup_dir = parent_path (parent_path source_path)
           in if path_name (parent_path source_path) = ''qfw_runtime'' \<and> path_name setup_dir = ''setup''
              then parent_path setup_dir else real_path env (working_dir env))"

definition qfw_share_dir :: "setup_env \<Rightarrow> string option \<Rightarrow> string" where
  "qfw_share_dir env given_prefix =
     (case given_prefix of
        Some p \<Rightarrow> join_all (real_path env p) [''share'', ''qfw'']
      | None \<Rightarrow> if variable_of env ''QFW_SHARE_DIR'' \<noteq> [] then real_path env (variable_of env ''QFW_SHARE_DIR'')
                else join_all (qfw_prefix env) [''share'', ''qfw''])"

definition qfw_bin_path :: "setup_env \<Rightarrow> string option \<Rightarrow> string" where
  "qfw_bin_path env given_prefix =
     (case given_prefix of
        Some p \<Rightarrow> join_path (real_path env p) ''bin''
      | None \<Rightarrow> if variable_of env ''QFW_BIN_PATH'' \<noteq> [] then real_path env (variable_of env ''QFW_BIN_PATH'')
                else join_path (qfw_prefix env) ''bin'')"

definition qfw_run_base_dir :: "setup_env \<Rightarrow> string" where
  "qfw_run_base_dir env =
     real_path env (if variable_of env ''QFW_RUN_BASE_DIR'' \<noteq> [] then variable_of env ''QFW_RUN_BASE_DIR''
                    else join_path (temp_dir env) ''qfw-runs'')"

definition setup_load_yaml :: "setup_env \<Rightarrow> string \<Rightarrow> pydict prep" where
  "setup_load_yaml env path =
     bindM (open_file (expanduser env path)) (\<lambda>content.
     bindM (liftM (parse_yaml env content)) (\<lambda>data.
       case py_or data (PDict []) of
         PDict d \<Rightarrow> retM d
       | _ \<Rightarrow> raiseM (ValueError (''configuration must be a mapping: '' @ expanduser env path))))"

section \<open>Values with references\<close>

definition name_start :: "char \<Rightarrow> bool" where
  "name_start c = (c = CHR ''_'' \<or> (of_char c :: nat) \<in> {65..90} \<or> (of_char c :: nat) \<in> {97..122})"

definition name_char :: "char \<Rightarrow> bool" where
  "name_char c = (name_start c \<or> is_digit c)"

text \<open>\<^verbatim>\<open>\$([A-Za-z_][A-Za-z0-9_]*)\<close>, the first match.\<close>

fun unbraced_reference :: "string \<Rightarrow> string option" where
  "unbraced_reference (c # d # cs) =
     (if c = CHR ''$'' \<and> name_start d then Some (d # takeWhile name_char cs) else unbraced_reference (d # cs))"
| "unbraced_reference _ = None"

text \<open>\<^verbatim>\<open>\$\{([A-Za-z_][A-Za-z0-9_]*)\}\<close> at the start of a text: the name and what follows.\<close>

definition braced_reference :: "string \<Rightarrow> (string \<times> string) option" where
  "braced_reference t =
     (if starts_with ''${'' t
      then let name = takeWhile name_char (drop 2 t); rest = dropWhile name_char (drop 2 t)
           in if name \<noteq> [] \<and> name_start (hd name) \<and> rest \<noteq> [] \<and> hd rest = CHR ''}'' then Some (name, tl rest) else None
      else None)"

lemma braced_shorter: "braced_reference t = Some (name, rest) \<Longrightarrow> length rest < length t"
proof -
  assume "braced_reference t = Some (name, rest)"
  then have "rest = tl (dropWhile name_char (drop 2 t))" "dropWhile name_char (drop 2 t) \<noteq> []"
    by (auto simp: braced_reference_def Let_def split: if_splits)
  moreover have "length (dropWhile name_char (drop 2 t)) \<le> length t"
    using length_dropWhile_le [of name_char "drop 2 t"] by simp
  ultimately show ?thesis by (cases "dropWhile name_char (drop 2 t)") auto
qed

text \<open>\<^verbatim>\<open>ENVIRONMENT_REFERENCE.sub\<close>: each match from the left is replaced, the replacement is not read again.\<close>

function replace_references :: "(string \<Rightarrow> exc + string) \<Rightarrow> string \<Rightarrow> exc + string" where
  "replace_references f t =
     (case braced_reference t of
        Some (name, rest) \<Rightarrow>
          bindE (f name) (\<lambda>v. bindE (replace_references f rest) (\<lambda>w. Inr (v @ w)))
      | None \<Rightarrow>
          (case t of [] \<Rightarrow> Inr [] | c # cs \<Rightarrow> bindE (replace_references f cs) (\<lambda>w. Inr (c # w))))"
  by pat_completeness auto
termination by (relation "measure (\<lambda>(f, t). length t)") (auto dest: braced_shorter)

declare replace_references.simps [simp del]

definition reference_value :: "setup_env \<Rightarrow> string \<Rightarrow> exc + string" where
  "reference_value env name =
     (case map_of (environ env) name of
        None \<Rightarrow> Inl (ValueError (''configuration references unset environment variable: ${'' @ name @ ''}''))
      | Some v \<Rightarrow> if v = [] then Inl (ValueError (''configuration references empty environment variable: ${'' @ name @ ''}''))
                  else Inr v)"

definition UNSUPPORTED_PATH_PLACEHOLDERS :: "(string \<times> string) list" where
  "UNSUPPORTED_PATH_PLACEHOLDERS =
     [(''<prefix>'', ''${QFW_PREFIX}''), (''<qfw-prefix>'', ''${QFW_PREFIX}''), (''<defw-prefix>'', ''${DEFW_PREFIX}'')]"

definition expand_text :: "setup_env \<Rightarrow> string \<Rightarrow> exc + string" where
  "expand_text env t =
     (case filter (\<lambda>(placeholder, replacement). contains_text placeholder t) UNSUPPORTED_PATH_PLACEHOLDERS of
        (placeholder, replacement) # _ \<Rightarrow>
          Inl (ValueError (''unsupported configuration placeholder '' @ repr_text placeholder @ ''; use '' @ replacement))
      | [] \<Rightarrow>
          (case unbraced_reference t of
             Some name \<Rightarrow> Inl (ValueError (''environment variable references must use braced form: ${'' @ name @ ''}''))
           | None \<Rightarrow>
               bindE (replace_references (\<lambda>_. Inr []) t) (\<lambda>unmatched.
                 if contains_text ''${'' unmatched
                 then Inl (ValueError (''invalid environment variable reference in configuration: '' @ repr_text t))
                 else bindE (replace_references (reference_value env) t) (\<lambda>e. Inr (expanduser env e)))))"

definition expand_config_value :: "setup_env \<Rightarrow> pyval \<Rightarrow> exc + string option" where
  "expand_config_value env v =
     (if v = PNone then Inr None else bindE (expand_text env (py_str v)) (\<lambda>t. Inr (Some t)))"

definition resolve_path :: "setup_env \<Rightarrow> pyval \<Rightarrow> string option \<Rightarrow> exc + string option" where
  "resolve_path env v base =
     bindE (expand_config_value env v) (\<lambda>expanded.
       case expanded of
         None \<Rightarrow> Inr None
       | Some t \<Rightarrow> Inr (Some (real_path env
           (case base of Some b \<Rightarrow> if starts_with ''/'' t then t else join_path b t | None \<Rightarrow> t))))"

text \<open>The path of a value that is there.\<close>

definition resolved_path :: "setup_env \<Rightarrow> pyval \<Rightarrow> string option \<Rightarrow> exc + string" where
  "resolved_path env v base =
     bindE (resolve_path env v base) (\<lambda>p. Inr (case p of Some t \<Rightarrow> t | None \<Rightarrow> ''None''))"

definition resolve_site_config :: "setup_env \<Rightarrow> pyval \<Rightarrow> exc + string option" where
  "resolve_site_config env explicit =
     resolve_path env
       (if py_truth explicit then explicit
        else if variable_of env ''QFW_SITE_CONFIG'' \<noteq> [] then PStr (variable_of env ''QFW_SITE_CONFIG'')
        else PStr (join_all (qfw_share_dir env None) [''config'', ''site.yaml''])) None"

definition resolve_runtime_config :: "setup_env \<Rightarrow> pyval \<Rightarrow> string \<Rightarrow> string option \<Rightarrow> exc + string option" where
  "resolve_runtime_config env explicit profile prefix_override =
     (let share = qfw_share_dir env prefix_override
      in if py_truth explicit then resolve_path env explicit None
         else if profile \<noteq> [] then Inr (Some (join_all share [''config'', ''runtime'', profile @ ''.yaml'']))
         else if variable_of env ''QFW_RUNTIME_CONFIG'' \<noteq> []
         then resolve_path env (PStr (variable_of env ''QFW_RUNTIME_CONFIG'')) None
         else if variable_of env ''QFW_RUNTIME_PROFILE'' \<noteq> []
         then Inr (Some (join_all share [''config'', ''runtime'', variable_of env ''QFW_RUNTIME_PROFILE'' @ ''.yaml'']))
         else Inr (Some (join_all share [''config'', ''runtime.yaml''])))"

section \<open>The site\<close>

text \<open>\<^verbatim>\<open>for key, replacement in removed.items(): if key in mapping: raise\<close>\<close>

definition first_removed :: "string \<Rightarrow> (string \<times> string) list \<Rightarrow> pydict \<Rightarrow> exc + unit" where
  "first_removed what removed d =
     (case filter (\<lambda>(key, replacement). has_key d key) removed of
        (key, replacement) # _ \<Rightarrow>
          Inl (ValueError (''unsupported '' @ what @ '' key '' @ repr_text key @ ''; use '' @ repr_text replacement))
      | [] \<Rightarrow> Inr ())"

definition mapping_of :: "string \<Rightarrow> pyval \<Rightarrow> exc + pydict" where
  "mapping_of what v = (case py_or v (PDict []) of PDict d \<Rightarrow> Inr d | _ \<Rightarrow> Inl (ValueError (what @ '' must be a mapping'')))"

definition site_install_prefixes :: "setup_env \<Rightarrow> pydict \<Rightarrow> (string \<times> string) prep" where
  "site_install_prefixes env site_config =
     bindM (liftM (mapping_of ''install'' (pget site_config ''install''))) (\<lambda>install.
     seqM (liftM (first_removed ''install''
             [(''qfw_prefix'', ''qfw-prefix''), (''defw_prefix'', ''defw-prefix''), (''prefix'', ''qfw-prefix'')] install))
     (bindM (if pget install ''qfw-prefix'' \<noteq> PNone then liftM (resolved_path env (pget install ''qfw-prefix'') None)
             else retM (qfw_prefix env)) (\<lambda>qfw_path.
      bindM (if pget install ''defw-prefix'' \<noteq> PNone then liftM (resolved_path env (pget install ''defw-prefix'') None)
             else bindM (path_exists (join_path qfw_path ''DEFw'')) (\<lambda>source.
                  bindM (path_exists (join_all qfw_path [''bin'', ''defwp''])) (\<lambda>built.
                    retM (if source \<and> \<not> built then join_path qfw_path ''DEFw'' else qfw_path)))) (\<lambda>defw_path.
        retM (qfw_path, defw_path)))))"

text \<open>\<^verbatim>\<open>endpoint.rsplit(":", 1)[1]\<close>\<close>

definition after_last_colon :: "string \<Rightarrow> string option" where
  "after_last_colon t =
     (if CHR '':'' \<in> set t then Some (rev (takeWhile (\<lambda>c. c \<noteq> CHR '':'') (rev t))) else None)"

definition site_base :: "setup_env \<Rightarrow> string option \<Rightarrow> string option" where
  "site_base env site_config_path = map_option (\<lambda>p. parent_path (real_path env p)) site_config_path"

definition site_directory_config :: "setup_env \<Rightarrow> pydict \<Rightarrow> string option \<Rightarrow> exc + pydict" where
  "site_directory_config env site_config site_config_path =
     (if \<not> py_truth (pget site_config ''directory-service'') then Inr []
      else
        bindE (mapping_of ''directory-service'' (pget site_config ''directory-service'')) (\<lambda>d.
          let connection_file = pget d ''connection-file'';
              endpoint = py_strip (py_str (py_or (pget d ''endpoint'') (PStr [])))
          in if \<not> py_truth connection_file \<and> endpoint = []
             then Inl (ValueError ''directory-service requires connection-file or a stable endpoint'')
             else
               bindE (if pget d ''listen-port'' = PNone \<and> endpoint \<noteq> []
                      then (case after_last_colon endpoint of
                              Some p \<Rightarrow> Inr (PStr p)
                            | None \<Rightarrow> Inl (ValueError (''invalid directory-service endpoint: '' @ endpoint)))
                      else Inr (pget d ''listen-port'')) (\<lambda>configured_port.
               bindE (py_int (py_or configured_port (PInt 8090))) (\<lambda>listen_port.
                 if listen_port \<le> 0 \<or> listen_port > 65535
                 then Inl (ValueError (''invalid directory-service listen port: '' @ int_text listen_port))
                 else
                   bindE (py_int (pgetd d ''connect-timeout-seconds'' (PInt 300))) (\<lambda>connect_timeout.
                   bindE (if py_truth connection_file
                          then bindE (resolved_path env connection_file (site_base env site_config_path))
                                 (\<lambda>p. Inr [(''connection_file'', PStr p)])
                          else Inr []) (\<lambda>file_part.
                     Inr ([(''name'', PStr (py_str (pgetd d ''name'' (PStr ''qfw-site-dirsvc'')))), (''listen_port'', PInt listen_port),
                           (''connect_timeout_seconds'', PInt connect_timeout)] @ file_part @
                          (if endpoint \<noteq> [] then [(''endpoint'', PStr endpoint), (''endpoints'', PList [PStr endpoint])]
                           else []))))))))"

definition DIRECTORY_SERVICE_CONNECTION_SCHEMA :: string where
  "DIRECTORY_SERVICE_CONNECTION_SCHEMA = ''qfw-directory-service-v1''"

definition read_directory_service_connection :: "setup_env \<Rightarrow> pyval \<Rightarrow> pydict \<Rightarrow> pydict prep" where
  "read_directory_service_connection env connection_file defaults =
     bindM (liftM (resolved_path env connection_file None)) (\<lambda>path.
     bindM (getM (\<lambda>s. has_key (file_system s) path)) (\<lambda>present.
       if \<not> present then raiseM (OSError (''directory-service connection record is not available: '' @ path))
       else
         bindM (load_json env path) (\<lambda>v.
           case v of
             PDict rec \<Rightarrow>
               if pget rec ''schema'' \<noteq> PStr DIRECTORY_SERVICE_CONNECTION_SCHEMA
               then raiseM (ValueError (''unsupported directory-service connection record: '' @ path))
               else if pget rec ''ready'' \<noteq> PBool True then raiseM (RuntimeError (''directory service is not ready: '' @ path))
               else
                 let endpoint = py_strip (py_str (py_or (pget rec ''endpoint'') (PStr [])));
                     name = py_strip (py_str (py_or (pget rec ''name'') (PStr [])))
                 in if endpoint = [] \<or> name = []
                    then raiseM (ValueError (''directory-service connection record lacks name or endpoint: '' @ path))
                    else
                      bindM (liftM (py_int (pgetd rec ''connect_timeout_seconds'' (PInt 300)))) (\<lambda>connect_timeout.
                        retM (dsetdefault ''connect_timeout_seconds'' (PInt connect_timeout)
                          (dupdate defaults
                             [(''name'', PStr name), (''endpoint'', PStr endpoint), (''endpoints'', PList [PStr endpoint]),
                              (''connection_file'', PStr path),
                              (''instance_id'', PStr (py_str (py_or (pget rec ''instance_id'') (PStr []))))])))
           | _ \<Rightarrow> raiseM (ValueError (''directory-service connection record must be a mapping: '' @ path)))))"

definition site_directory :: "setup_env \<Rightarrow> pydict \<Rightarrow> string option \<Rightarrow> pyval \<Rightarrow> pydict prep" where
  "site_directory env site_config site_config_path connection_file =
     bindM (liftM (site_directory_config env site_config site_config_path)) (\<lambda>configured.
     bindM (liftM (split_config_list (PStr (variable_of env ''QFW_SITE_DIRSVC_ENDPOINTS'')))) (\<lambda>endpoints.
       case endpoints of
         e # _ \<Rightarrow>
           retM (dupdate configured
             [(''name'', case map_of (environ env) ''QFW_SITE_DIRSVC_NAME'' of
                           Some n \<Rightarrow> PStr n | None \<Rightarrow> pgetd configured ''name'' (PStr ''qfw-site-dirsvc'')),
              (''endpoint'', PStr e), (''endpoints'', PList (map PStr endpoints))])
       | [] \<Rightarrow>
           if py_truth (pget configured ''endpoint'') then retM configured
           else
             let selected_file = py_or (py_or connection_file (PStr (variable_of env ''QFW_DIRECTORY_SERVICE_INFO'')))
                   (pget configured ''connection_file'')
             in if \<not> py_truth selected_file then retM []
                else read_directory_service_connection env selected_file configured))"

fun service_paths :: "setup_env \<Rightarrow> pydict \<Rightarrow> string option \<Rightarrow> (string \<times> string) list \<Rightarrow> exc + (string \<times> string) list" where
  "service_paths env service base [] = Inr []"
| "service_paths env service base ((canonical, key) # rest) =
     (if pget service key = PNone then service_paths env service base rest
      else bindE (resolved_path env (pget service key) base) (\<lambda>p.
           bindE (service_paths env service base rest) (\<lambda>ps. Inr ((canonical, p) # ps))))"

definition site_service_config :: "setup_env \<Rightarrow> pydict \<Rightarrow> string option \<Rightarrow> exc + (string \<times> string) list" where
  "site_service_config env site_config site_config_path =
     bindE (mapping_of ''service'' (pget site_config ''service'')) (\<lambda>service.
     bindE (first_removed ''service''
        [(''service-manifest'', ''manifest''), (''service_manifest'', ''manifest''), (''device_access_config'', ''device-access-config'')]
        service) (\<lambda>_.
       service_paths env service (site_base env site_config_path)
         [(''manifest'', ''manifest''), (''device_access_config'', ''device-access-config'')]))"

section \<open>Scopes and directories of a run\<close>

fun normalize_scopes :: "string list \<Rightarrow> exc + string list" where
  "normalize_scopes [] = Inr []"
| "normalize_scopes (scope # scopes) =
     (case map_of SETUP_SCOPE_ALIASES (py_strip scope) of
        None \<Rightarrow> Inl (ValueError (''unsupported resolver scope: '' @ scope))
      | Some n \<Rightarrow> bindE (normalize_scopes scopes) (\<lambda>ns. Inr (n # ns)))"

definition normalize_resolver_scope_order :: "pyval \<Rightarrow> exc + string list" where
  "normalize_resolver_scope_order scopes = bindE (split_config_list scopes) normalize_scopes"

text \<open>\<^verbatim>\<open>(v or {}).get(key, default)\<close>\<close>

definition sub_get :: "pyval \<Rightarrow> string \<Rightarrow> pyval \<Rightarrow> exc + pyval" where
  "sub_get v key d =
     (case py_or v (PDict []) of
        PDict m \<Rightarrow> Inr (pgetd m key d) | _ \<Rightarrow> Inl (AttributeError ''object has no attribute get''))"

definition resolver_scope_order :: "pydict \<Rightarrow> exc + string list" where
  "resolver_scope_order runtime_config =
     bindE (sub_get (pget runtime_config ''resolver'') ''scope-order'' PNone) (\<lambda>scopes.
       normalize_resolver_scope_order (py_or scopes (PList [PStr ''site''])))"

definition requirement :: "string \<Rightarrow> pyval \<Rightarrow> pyval \<Rightarrow> int \<Rightarrow> pyval" where
  "requirement scope name endpoint connect_timeout =
     PDict [(''scope'', PStr scope), (''name'', name), (''endpoint'', endpoint), (''connect_timeout_seconds'', PInt connect_timeout)]"

definition site_requirements :: "pydict \<Rightarrow> exc + pyval list" where
  "site_requirements site_dir =
     bindE (py_items (py_or (pget site_dir ''endpoints'') (PList [pget site_dir ''endpoint'']))) (\<lambda>items.
       let endpoints = filter py_truth items
       in if endpoints = [] then Inl (ValueError ''site resolver scope requires a site directory endpoint'')
          else bindE (py_int (pgetd site_dir ''connect_timeout_seconds'' (PInt 300))) (\<lambda>connect_timeout.
            Inr (map (\<lambda>e. requirement ''site'' (pgetd site_dir ''name'' (PStr ''qfw-site-dirsvc'')) e connect_timeout) endpoints)))"

definition local_requirements :: "pydict \<Rightarrow> exc + pyval list" where
  "local_requirements local_dir =
     (if \<not> py_truth (pget local_dir ''endpoint'') then Inl (ValueError ''local resolver scope requires a local directory endpoint'')
      else bindE (py_int (pgetd local_dir ''connect_timeout_seconds'' (PInt 300))) (\<lambda>connect_timeout.
        Inr [requirement ''allocation-local'' (pgetd local_dir ''name'' (PStr ''qfw-local-dirsvc'')) (pget local_dir ''endpoint'')
               connect_timeout]))"

fun directory_readiness_requirements :: "string list \<Rightarrow> pydict \<Rightarrow> pydict \<Rightarrow> exc + pyval list" where
  "directory_readiness_requirements [] site_dir local_dir = Inr []"
| "directory_readiness_requirements (scope # scopes) site_dir local_dir =
     bindE (if scope = ''site'' then site_requirements site_dir
            else if scope = ''allocation-local'' then local_requirements local_dir else Inr []) (\<lambda>here.
     bindE (directory_readiness_requirements scopes site_dir local_dir) (\<lambda>there. Inr (here @ there)))"

section \<open>Local services\<close>

definition local_services :: "pydict \<Rightarrow> exc + pydict" where
  "local_services runtime_config = mapping_of ''local-services'' (pget runtime_config ''local-services'')"

definition free_tcp_port :: "setup_env \<Rightarrow> int prep" where
  "free_tcp_port env = (\<lambda>s. (Inr (free_port env (ports_asked s)), s\<lparr>ports_asked := Suc (ports_asked s)\<rparr>))"

definition is_auto :: "pyval \<Rightarrow> bool" where
  "is_auto port = (py_lower (py_strip (py_str port)) = ''auto'')"

definition allocate_local_endpoint :: "setup_env \<Rightarrow> pydict \<Rightarrow> bool \<Rightarrow> (string \<times> string \<times> int \<times> string) prep" where
  "allocate_local_endpoint env local_config dry_run =
     bindM (liftM (sub_get (pget local_config ''dirsvc'') ''bind-host'' (PStr ''127.0.0.1''))) (\<lambda>host_value.
     bindM (liftM (sub_get (pget local_config ''dirsvc'') ''port'' (PStr ''auto''))) (\<lambda>configured_port.
     bindM (if is_auto configured_port \<and> dry_run then retM 0
            else if is_auto configured_port then free_tcp_port env
            else liftM (py_int configured_port)) (\<lambda>port.
     bindM (liftM (sub_get (pget local_config ''dirsvc'') ''name'' (PStr ''qfw-local-dirsvc''))) (\<lambda>name.
       retM (py_str name, py_str host_value, port, py_str host_value @ '':'' @ int_text port)))))"

text \<open>Asking for ports until one differs from the listen port; the number of ports asked for by then.\<close>

partial_function (option) other_port :: "(nat \<Rightarrow> int) \<Rightarrow> int \<Rightarrow> nat \<Rightarrow> (int \<times> nat) option" where
  "other_port free listen_port n =
     (if free n = listen_port then other_port free listen_port (Suc n) else Some (free n, Suc n))"

declare other_port.simps [code]

definition differing_port :: "setup_env \<Rightarrow> int \<Rightarrow> int prep" where
  "differing_port env listen_port =
     (\<lambda>s. case other_port (free_port env) listen_port (ports_asked s) of
            None \<Rightarrow> (Inl NoReturn, s) | Some (port, n) \<Rightarrow> (Inr port, s\<lparr>ports_asked := n\<rparr>))"

definition allocate_local_telnet_port :: "setup_env \<Rightarrow> pydict \<Rightarrow> int \<Rightarrow> bool \<Rightarrow> int prep" where
  "allocate_local_telnet_port env local_config listen_port dry_run =
     bindM (liftM (sub_get (pget local_config ''dirsvc'') ''telnet-port'' (PStr ''auto''))) (\<lambda>configured_port.
     bindM (if is_auto configured_port \<and> dry_run then retM 0
            else if is_auto configured_port then differing_port env listen_port
            else liftM (py_int configured_port)) (\<lambda>port.
       if port = 0 \<and> dry_run then retM port
       else if port \<le> 0 \<or> port > 65535 then raiseM (ValueError (''invalid local directory telnet port: '' @ int_text port))
       else if port = listen_port then raiseM (ValueError ''local directory listen and telnet ports must differ'')
       else retM port))"

definition service_manifest_path :: "setup_env \<Rightarrow> pydict \<Rightarrow> string option \<Rightarrow> exc + string" where
  "service_manifest_path env local_config given_prefix =
     (if pget local_config ''service-manifest'' \<noteq> PNone then resolved_path env (pget local_config ''service-manifest'') None
      else Inr (join_all (case given_prefix of Some p \<Rightarrow> real_path env p | None \<Rightarrow> qfw_prefix env)
             [''share'', ''qfw'', ''config'', ''services'', ''local-services.yaml'']))"

definition selected_service_names :: "pydict \<Rightarrow> pydict list \<Rightarrow> exc + string list" where
  "selected_service_names local_config manifest_services =
     (case pget local_config ''services'' of
        PNone \<Rightarrow> Inr (map (\<lambda>item. py_str (pget item ''name'')) (filter (\<lambda>item. has_key item ''name'') manifest_services))
      | PStr t \<Rightarrow> Inr [t]
      | v \<Rightarrow> bindE (py_items v) (\<lambda>items. Inr (map py_str items)))"

definition application_service_id :: "setup_env \<Rightarrow> string \<Rightarrow> string \<Rightarrow> string" where
  "application_service_id env service_name run_id =
     service_name @ ''-'' @ uuid5_hex env (''qfw-application-service:'' @ run_id @ '':'' @ service_name)"

section \<open>The manifest of services\<close>

definition CREDENTIAL_MODES :: "string list" where "CREDENTIAL_MODES = [''no-secret'', ''required'']"

definition list_field :: "pydict \<Rightarrow> nat \<Rightarrow> string \<Rightarrow> exc + unit" where
  "list_field service index key =
     (let label = py_repr (pgetd service ''name'' (PInt (int index)))
      in case pget service key of
           PNone \<Rightarrow> Inr ()
         | PList items \<Rightarrow>
             if list_ex (\<lambda>item. py_strip (py_str item) = []) items
             then Inl (ValueError (''service '' @ label @ '' '' @ key @ '' entries must not be empty'')) else Inr ()
         | _ \<Rightarrow> Inl (ValueError (''service '' @ label @ '' '' @ key @ '' must be a list'')))"

definition manifest_entry :: "string \<Rightarrow> nat \<Rightarrow> pyval \<Rightarrow> exc + pydict" where
  "manifest_entry path index entry =
     (case entry of
        PDict service \<Rightarrow>
          bindE (first_removed ''service'' [(''listen_port'', ''listen-port''), (''telnet_port'', ''telnet-port'')] service) (\<lambda>_.
          case filter (has_key service) [''direct-endpoint-enabled'', ''direct-qpm-endpoint'', ''register-with-dirsvc''] of
            key # _ \<Rightarrow> Inl (ValueError (''unsupported service key '' @ repr_text key @
                         ''; every QPM registers with a directory service''))
          | [] \<Rightarrow>
              let name = py_strip (py_str (py_or (pget service ''name'') (PStr [])));
                  operation_mode = py_strip (py_str (py_or (pget service ''operation-mode'') (PStr [])));
                  credential_mode = py_lower (py_strip (py_str (py_or (pget service ''credential-mode'') (PStr []))))
              in if name = [] then Inl (ValueError (''service entry '' @ nat_text index @ '' requires name: '' @ path))
                 else if operation_mode \<noteq> [] \<and> operation_mode \<notin> {''long-running'', ''qfw-managed''}
                 then Inl (ValueError (''unsupported QPM operation-mode '' @ repr_text operation_mode))
                 else if credential_mode \<notin> set CREDENTIAL_MODES
                 then Inl (ValueError (''service '' @ repr_text name @ '' credential-mode must be one of '' @
                        join_with '', '' CREDENTIAL_MODES))
                 else if credential_mode = ''required'' \<and> \<not> py_truth (pget service ''device-id'')
                 then Inl (ValueError (''service '' @ repr_text name @ '' with required credentials needs device-id''))
                 else bindE (list_field service index ''environment-modules'') (\<lambda>_.
                      bindE (list_field service index ''required-executables'') (\<lambda>_. Inr service)))
      | _ \<Rightarrow> Inl (ValueError (''service entry '' @ nat_text index @ '' must be a mapping: '' @ path)))"

fun manifest_entries :: "string \<Rightarrow> nat \<Rightarrow> pyval list \<Rightarrow> exc + pydict list" where
  "manifest_entries path index [] = Inr []"
| "manifest_entries path index (entry # entries) =
     bindE (manifest_entry path index entry) (\<lambda>service.
     bindE (manifest_entries path (Suc index) entries) (\<lambda>services. Inr (service # services)))"

definition load_service_manifest :: "setup_env \<Rightarrow> string \<Rightarrow> pydict list prep" where
  "load_service_manifest env path =
     bindM (setup_load_yaml env path) (\<lambda>data.
       case py_or (pget data ''services'') (PList []) of
         PList entries \<Rightarrow> liftM (manifest_entries path 0 entries)
       | _ \<Rightarrow> raiseM (ValueError (''services must be a list: '' @ path)))"

definition service_by_name :: "pydict list \<Rightarrow> string \<Rightarrow> exc + pydict" where
  "service_by_name services service_id =
     (case filter (\<lambda>service. py_str (pgetd service ''name'' (PStr [])) = service_id) services of
        service # _ \<Rightarrow> Inr service
      | [] \<Rightarrow> Inl (ValueError (''service not found in manifest: '' @ service_id)))"

section \<open>The files of a run\<close>

definition state_path :: "string \<Rightarrow> string" where
  "state_path state_dir = join_path state_dir ''runtime-state.json''"

text \<open>\<^verbatim>\<open>shlex.quote\<close>\<close>

definition shell_safe :: "char \<Rightarrow> bool" where
  "shell_safe c = (name_char c \<or> c \<in> set ''@%+=:,./-'')"

fun quote_chars :: "string \<Rightarrow> string" where
  "quote_chars [] = []"
| "quote_chars (c # cs) = (if c = CHR 0x27 then [CHR 0x27, CHR 0x22, CHR 0x27, CHR 0x22, CHR 0x27] else [c]) @ quote_chars cs"

definition shlex_quote :: "string \<Rightarrow> string" where
  "shlex_quote s =
     (if s = [] then [CHR 0x27, CHR 0x27]
      else if list_all shell_safe s then s
      else CHR 0x27 # quote_chars s @ [CHR 0x27])"

definition export_line :: "string \<times> string \<Rightarrow> string" where
  "export_line nv = ''export '' @ fst nv @ ''='' @ shlex_quote (snd nv) @ [CHR 0x0A]"

definition env_file_text :: "(string \<times> string) list \<Rightarrow> string" where
  "env_file_text environment = concat (map export_line (text_sort fst environment))"

definition write_current_run :: "string \<Rightarrow> string \<Rightarrow> unit prep" where
  "write_current_run run_base run_id =
     seqM (make_dir run_base) (write_file (join_path run_base ''current'') (Text_file (run_id @ [CHR 0x0A])))"

definition read_state_at :: "setup_env \<Rightarrow> string \<Rightarrow> pyval prep" where
  "read_state_at env run_dir = load_json env (join_all run_dir [''state'', ''runtime-state.json''])"

definition other_run_reason :: "setup_env \<Rightarrow> string \<Rightarrow> string prep" where
  "other_run_reason env run_dir =
     bindM (tryM (bindM (read_state_at env run_dir) (\<lambda>v. retM (Some v)))
              (\<lambda>e. case e of OSError m \<Rightarrow> retM None | ValueError m \<Rightarrow> retM None | _ \<Rightarrow> raiseM e)) (\<lambda>found.
       case found of
         None \<Rightarrow> retM ''it holds no readable QFw runtime state''
       | Some (PDict state) \<Rightarrow>
           let recorded = py_str (py_or (pget state ''slurm_job_id'') (PStr [])); current = variable_of env ''SLURM_JOB_ID''
           in if recorded = current then retM []
              else retM (''it was prepared '' @ (if recorded \<noteq> [] then ''in Slurm job '' @ recorded else ''outside Slurm'') @
                     '', and this is '' @ (if current \<noteq> [] then ''Slurm job '' @ current else ''a process outside Slurm''))
       | Some _ \<Rightarrow> raiseM (AttributeError ''object has no attribute get''))"

definition marked_run_dir :: "setup_env \<Rightarrow> string prep" where
  "marked_run_dir env =
     (let run_base = qfw_run_base_dir env; current = join_path run_base ''current''
      in bindM (path_exists current) (\<lambda>present.
           if \<not> present then raiseM (OSError ''No QFw runtime state is active; run qfw-setup first'')
           else bindM (read_text env current) (\<lambda>t.
             if py_strip t = [] then raiseM (OSError (''empty QFw current run marker: '' @ current))
             else retM (join_path run_base (py_strip t)))))"

definition current_run_dir :: "setup_env \<Rightarrow> string prep" where
  "current_run_dir env =
     (if variable_of env ''QFW_RUN_TMP_PATH'' \<noteq> []
      then let run_dir = real_path env (variable_of env ''QFW_RUN_TMP_PATH'')
           in bindM (other_run_reason env run_dir) (\<lambda>reason. if reason = [] then retM run_dir else marked_run_dir env)
      else marked_run_dir env)"

definition read_state :: "setup_env \<Rightarrow> string option \<Rightarrow> pyval prep" where
  "read_state env run_dir =
     bindM (case run_dir of Some d \<Rightarrow> retM d | None \<Rightarrow> current_run_dir env) (read_state_at env)"

definition clear_current_run :: "setup_env \<Rightarrow> string \<Rightarrow> string \<Rightarrow> unit prep" where
  "clear_current_run env run_base run_id =
     (let current = join_path run_base ''current''
      in bindM (path_exists current) (\<lambda>present.
           if \<not> present then retM ()
           else bindM (read_text env current) (\<lambda>t.
             if py_strip t = run_id then modM (\<lambda>s. s\<lparr>file_system := dpop current (file_system s)\<rparr>) else retM ())))"

section \<open>Preparing a run\<close>

text \<open>What the variables of the caller make of the site's directory.\<close>

definition override_site_directory :: "setup_env \<Rightarrow> pydict \<Rightarrow> exc + pydict" where
  "override_site_directory env site_dir =
     bindE (split_config_list (PStr (variable_of env ''QFW_SITE_DIRSVC_ENDPOINTS''))) (\<lambda>endpoints.
       case endpoints of
         [] \<Rightarrow> Inr site_dir
       | e # _ \<Rightarrow>
           bindE (case map_of (environ env) ''QFW_DIRSVC_CONNECT_TIMEOUT_SECONDS'' of
                    Some t \<Rightarrow> py_int (PStr t) | None \<Rightarrow> Inr 300) (\<lambda>connect_timeout.
             Inr (dset ''endpoints'' (PList (map PStr endpoints)) (dset ''endpoint'' (PStr e)
               (dsetdefault ''connect_timeout_seconds'' (PInt connect_timeout)
                 (dsetdefault ''name''
                    (PStr (case map_of (environ env) ''QFW_SITE_DIRSVC_NAME'' of Some n \<Rightarrow> n | None \<Rightarrow> ''qfw-site-dirsvc''))
                    site_dir))))))"

definition run_site_directory :: "setup_env \<Rightarrow> pydict \<Rightarrow> string \<Rightarrow> string list \<Rightarrow> pydict prep" where
  "run_site_directory env site_config site_config_path scope_order =
     bindM (if ''site'' \<in> set scope_order \<or> variable_of env ''QFW_SITE_DIRSVC_ENDPOINTS'' \<noteq> []
            then site_directory env site_config (Some site_config_path) PNone else retM []) (\<lambda>site_dir.
       liftM (override_site_directory env site_dir))"

text \<open>The directory of the allocation: its name, host, ports and endpoint, and the manifest of its services.\<close>

record local_directory_service =
  ld_name :: string
  ld_host :: string
  ld_port :: "int option"
  ld_telnet_port :: "int option"
  ld_endpoint :: string
  ld_manifest :: "string option"

definition no_local_directory :: local_directory_service where
  "no_local_directory = \<lparr>ld_name = [], ld_host = [], ld_port = None, ld_telnet_port = None, ld_endpoint = [], ld_manifest = None\<rparr>"

definition run_local_directory :: "setup_env \<Rightarrow> pydict \<Rightarrow> string \<Rightarrow> bool \<Rightarrow> local_directory_service prep" where
  "run_local_directory env local_config qfw_install_prefix dry_run =
     (if local_config = [] then retM no_local_directory
      else
        bindM (allocate_local_endpoint env local_config dry_run) (\<lambda>(name, host, port, endpoint).
        bindM (allocate_local_telnet_port env local_config port dry_run) (\<lambda>telnet_port.
        bindM (liftM (service_manifest_path env local_config (Some qfw_install_prefix))) (\<lambda>manifest.
          retM \<lparr>ld_name = name, ld_host = host, ld_port = Some port, ld_telnet_port = Some telnet_port, ld_endpoint = endpoint,
            ld_manifest = Some manifest\<rparr>))))"

definition site_environment :: "pydict \<Rightarrow> exc + (string \<times> string) list" where
  "site_environment site_dir =
     (if site_dir = [] then Inr []
      else
        bindE (py_items (py_or (pget site_dir ''endpoints'') (PList [pget site_dir ''endpoint'']))) (\<lambda>endpoints.
          Inr ([(''QFW_SITE_DIRSVC_ENDPOINTS'', join_with '','' (map py_str endpoints)),
                (''QFW_SITE_DIRSVC_NAME'', py_str (pget site_dir ''name'')),
                (''QFW_DIRSVC_CONNECT_TIMEOUT_SECONDS'', py_str (pget site_dir ''connect_timeout_seconds''))] @
               (if py_truth (pget site_dir ''connection_file'')
                then [(''QFW_DIRECTORY_SERVICE_INFO'', py_str (pget site_dir ''connection_file''))] else []))))"

definition local_environment :: "local_directory_service \<Rightarrow> string \<Rightarrow> (string \<times> string) list" where
  "local_environment ld run_root =
     (if ld_endpoint ld \<noteq> []
      then [(''QFW_LOCAL_DIRSVC_ENDPOINT'', ld_endpoint ld), (''QFW_LOCAL_DIRSVC_NAME'', ld_name ld),
            (''DEFW_PARENT_HOSTNAME'', ld_host ld),
            (''DEFW_PARENT_PORT'', case ld_port ld of Some p \<Rightarrow> int_text p | None \<Rightarrow> ''None''),
            (''DEFW_PARENT_NAME'', ld_name ld), (''QFW_DVM_URI_PATH'', join_all run_root [''prte_dvm'', ''dvm-uri''])]
      else []) @
     (case ld_manifest ld of
        Some m \<Rightarrow> [(''QFW_LOCAL_SERVICE_CONFIG'', m), (''QFW_SERVICE_SCOPE'', ''allocation-local'')] | None \<Rightarrow> [])"

definition run_environment ::
  "setup_env \<Rightarrow> string \<Rightarrow> string \<Rightarrow> string \<Rightarrow> string \<Rightarrow> string \<Rightarrow> string \<Rightarrow> string \<Rightarrow> string list \<Rightarrow> (string \<times> string) list" where
  "run_environment env qfw defw site_config_path runtime_config_path run_id run_root log_dir scope_order =
     persist_caller_environment env CALLER_ENVIRONMENT_KEYS
       [(''QFW_PREFIX'', qfw), (''QFW_BIN_PATH'', qfw_bin_path env (Some qfw)),
        (''QFW_LIBEXEC_DIR'', join_all qfw [''libexec'', ''qfw'']), (''QFW_SHARE_DIR'', qfw_share_dir env (Some qfw)),
        (''DEFW_PREFIX'', defw), (''DEFW_PATH'', defw),
        (''DEFW_CONFIG_PATH'', join_all defw [''share'', ''defw'', ''config'', ''defw_generic.yaml'']),
        (''QFW_SITE_CONFIG'', site_config_path), (''QFW_RUNTIME_CONFIG'', runtime_config_path), (''QFW_RUN_ID'', run_id),
        (''QFW_RUN_TMP_PATH'', run_root), (''QFW_LOG_DIR'', log_dir),
        (''QFW_QPM_RESOLVER_SCOPE_ORDER'', join_with '','' scope_order)]"

text \<open>The readiness requirement of the directory of the allocation.\<close>

definition local_readiness :: "pydict \<Rightarrow> local_directory_service \<Rightarrow> exc + pydict" where
  "local_readiness local_config ld =
     (if ld_endpoint ld = [] then Inr []
      else
        bindE (if local_config \<noteq> []
               then bindE (sub_get (pget local_config ''dirsvc'') ''connect-timeout-seconds''
                              (pgetd local_config ''connect-timeout-seconds'' (PInt 300))) py_int
               else Inr 300) (\<lambda>connect_timeout.
          Inr [(''endpoint'', PStr (ld_endpoint ld)), (''name'', PStr (ld_name ld)),
               (''connect_timeout_seconds'', PInt connect_timeout)]))"

definition text_dict :: "(string \<times> string) list \<Rightarrow> pyval" where
  "text_dict d = PDict (map (\<lambda>(k, v). (k, PStr v)) d)"

record run_request =
  rr_site_config_path :: string
  rr_runtime_config_path :: string
  rr_site_config :: pydict
  rr_runtime_config :: pydict
  rr_profile :: "string option"
  rr_run_id :: string
  rr_run_dir :: string
  rr_dry_run :: bool
  rr_service_id :: string

definition run_identifier :: "setup_env \<Rightarrow> run_request \<Rightarrow> string" where
  "run_identifier env r =
     (if rr_run_id r \<noteq> [] then rr_run_id r
      else if variable_of env ''QFW_RUN_ID'' \<noteq> [] then variable_of env ''QFW_RUN_ID'' else uuid4_hex env)"

definition run_places :: "setup_env \<Rightarrow> run_request \<Rightarrow> string \<times> string" where
  "run_places env r =
     (if rr_run_dir r \<noteq> [] then (parent_path (real_path env (rr_run_dir r)), real_path env (rr_run_dir r))
      else (qfw_run_base_dir env, join_path (qfw_run_base_dir env) (run_identifier env r)))"

definition run_scope_order :: "setup_env \<Rightarrow> run_request \<Rightarrow> exc + string list" where
  "run_scope_order env r =
     bindE (resolver_scope_order (rr_runtime_config r)) (\<lambda>order.
       if variable_of env ''QFW_QPM_RESOLVER_SCOPE_ORDER'' \<noteq> []
       then normalize_resolver_scope_order (PStr (variable_of env ''QFW_QPM_RESOLVER_SCOPE_ORDER'')) else Inr order)"

definition run_local_config :: "run_request \<Rightarrow> exc + pydict" where
  "run_local_config r =
     bindE (local_services (rr_runtime_config r)) (\<lambda>local_config.
       if rr_service_id r = [] then Inr local_config
       else if local_config = [] then Inl (ValueError ''--service-id requires a runtime profile with local-services'')
       else Inr (dset ''services'' (PList [PStr (rr_service_id r)]) local_config))"

definition opt_port :: "int option \<Rightarrow> pyval" where "opt_port p = (case p of Some i \<Rightarrow> PInt i | None \<Rightarrow> PNone)"

definition write_state :: "setup_env \<Rightarrow> string \<Rightarrow> pydict \<Rightarrow> unit prep" where
  "write_state env state_dir state = write_file (state_path state_dir) (Text_file (dump_json env (PDict state) @ [CHR 0x0A]))"

definition write_env_file :: "string \<Rightarrow> (string \<times> string) list \<Rightarrow> unit prep" where
  "write_env_file run_dir environment = write_file (join_path run_dir ''qfw-runtime-env.sh'') (Text_file (env_file_text environment))"

definition prepared_state ::
  "setup_env \<Rightarrow> run_request \<Rightarrow> string list \<Rightarrow> pyval list \<Rightarrow> pydict \<Rightarrow> pydict \<Rightarrow> local_directory_service \<Rightarrow>
     (string \<times> string) list \<Rightarrow> pydict" where
  "prepared_state env r scope_order requirements site_dir local_config ld environment =
     (let (run_base, run_root) = run_places env r
      in [(''run_id'', PStr (run_identifier env r)), (''run_base_dir'', PStr run_base), (''run_dir'', PStr run_root),
          (''log_dir'', PStr (join_path run_root ''logs'')), (''state_dir'', PStr (join_path run_root ''state'')),
          (''slurm_job_id'', PStr (variable_of env ''SLURM_JOB_ID'')), (''site_config'', PStr (rr_site_config_path r)),
          (''runtime_config'', PStr (rr_runtime_config_path r)),
          (''profile'', opt_str (rr_profile r)),
          (''resolver_scope_order'', PList (map PStr scope_order)), (''directory_requirements'', PList requirements),
          (''site_directory'', PDict site_dir), (''local_services'', PDict local_config),
          (''local_dirsvc'', PDict [(''name'', PStr (ld_name ld)), (''host'', PStr (ld_host ld)), (''port'', opt_port (ld_port ld)),
             (''telnet_port'', opt_port (ld_telnet_port ld)), (''endpoint'', PStr (ld_endpoint ld))]),
          (''service_manifest'', PStr (case ld_manifest ld of Some m \<Rightarrow> m | None \<Rightarrow> [])),
          (''environment'', text_dict environment), (''service_managers'', PList []), (''dry_run'', PBool (rr_dry_run r)),
          (''setup_complete'', PBool False)])"

definition planned_environment ::
  "setup_env \<Rightarrow> run_request \<Rightarrow> string \<Rightarrow> string \<Rightarrow> string list \<Rightarrow> (string \<times> string) list \<Rightarrow> local_directory_service \<Rightarrow>
     (string \<times> string) list" where
  "planned_environment env r qfw defw scope_order site_part ld =
     (let run_root = snd (run_places env r)
      in dupdate
           (run_environment env qfw defw (rr_site_config_path r) (rr_runtime_config_path r) (run_identifier env r) run_root
              (join_path run_root ''logs'') scope_order)
           ((case rr_profile r of Some p \<Rightarrow> if p \<noteq> [] then [(''QFW_RUNTIME_PROFILE'', p)] else [] | None \<Rightarrow> []) @ site_part @
            local_environment ld run_root @ (if rr_dry_run r then [(''QFW_STARTUP_DRY_RUN'', ''1'')] else [])))"

text \<open>The state and the environment of a run; its directories are made before its configuration is read.\<close>

definition plan_run :: "setup_env \<Rightarrow> run_request \<Rightarrow> (pydict \<times> (string \<times> string) list) prep" where
  "plan_run env r =
     bindM (site_install_prefixes env (rr_site_config r)) (\<lambda>(qfw, defw).
     seqM (make_dir (snd (run_places env r)))
     (seqM (make_dir (join_path (snd (run_places env r)) ''logs''))
     (seqM (make_dir (join_path (snd (run_places env r)) ''state''))
     (bindM (liftM (run_local_config r)) (\<lambda>local_config.
      bindM (liftM (run_scope_order env r)) (\<lambda>scope_order.
      bindM (run_site_directory env (rr_site_config r) (rr_site_config_path r) scope_order) (\<lambda>site_dir.
      bindM (run_local_directory env local_config qfw (rr_dry_run r)) (\<lambda>ld.
      bindM (liftM (site_environment site_dir)) (\<lambda>site_part.
      bindM (liftM (local_readiness local_config ld)) (\<lambda>local_dir.
      bindM (liftM (directory_readiness_requirements scope_order site_dir local_dir)) (\<lambda>requirements.
      let environment = planned_environment env r qfw defw scope_order site_part ld
      in retM (prepared_state env r scope_order requirements site_dir local_config ld environment, environment))))))))))))"

definition prepare_run_state :: "setup_env \<Rightarrow> run_request \<Rightarrow> pydict prep" where
  "prepare_run_state env r =
     bindM (plan_run env r) (\<lambda>(state, environment).
     seqM (write_state env (join_path (snd (run_places env r)) ''state'') state)
     (seqM (write_env_file (snd (run_places env r)) environment)
     (seqM (write_current_run (fst (run_places env r)) (run_identifier env r)) (retM state))))"

section \<open>What a run inherits\<close>

lemma set_text_insert [simp]: "set (text_insert key x xs) = insert x (set xs)"
  by (induction xs) auto

lemma set_text_sort [simp]: "set (text_sort key xs) = set xs"
  by (induction xs) (simp_all add: text_sort_def)

lemma launch_lookup:
  "map_of (launch_environment vars run_state) name =
     (if name \<in> set (inherited_variables vars run_state) then None else map_of vars name)"
proof -
  have "map_of (filter (\<lambda>(n, v). n \<notin> D) vars) name = (if name \<in> D then None else map_of vars name)" for D
    by (induction vars) auto
  then show ?thesis by (simp add: launch_environment_def Let_def)
qed

text \<open>Removing the variables one after the other is the copy without them.\<close>

lemma discard_is_launch: "discard_inherited_environment vars = launch_environment vars True"
proof -
  have "foldl (\<lambda>e n. dpop n e) e names = filter (\<lambda>(n, v). n \<notin> set names) e" for e names
    by (induction names arbitrary: e) (auto simp: AList.delete_eq filter_filter intro!: filter_cong)
  then show ?thesis by (simp add: discard_inherited_environment_def launch_environment_def)
qed

lemma inherited_set:
  "set (inherited_variables vars run_state) =
     {n. has_key vars n \<and> (n \<in> set DEFW_PROCESS_VARIABLES \<or> run_state \<and> (n \<in> set RUN_STATE_VARIABLES \<or>
        (\<exists>v. map_of vars ''QFW_RUN_TMP_PATH'' = Some v \<and> v \<noteq> []) \<and>
        n \<in> set RUN_INPUT_VARIABLES))}"
  by (cases "map_of vars ''QFW_RUN_TMP_PATH''") (auto simp: inherited_variables_def Let_def)

section \<open>References in values\<close>

text \<open>What a text refers to.\<close>

function references :: "string \<Rightarrow> string list" where
  "references t =
     (case braced_reference t of
        Some (name, rest) \<Rightarrow> name # references rest
      | None \<Rightarrow> (case t of [] \<Rightarrow> [] | c # cs \<Rightarrow> references cs))"
  by pat_completeness auto
termination by (relation "measure length") (auto dest: braced_shorter)

declare references.simps [simp del]

lemma references_step:
  "references [] = []" "braced_reference t = Some (name, rest) \<Longrightarrow> references t = name # references rest"
  "braced_reference (c # cs) = None \<Longrightarrow> references (c # cs) = references cs"
  by (simp_all add: references.simps [of t] references.simps [of "[]"] references.simps [of "c # cs"] braced_reference_def)

lemma replace_step:
  "replace_references f [] = Inr []"
  "braced_reference t = Some (name, rest) \<Longrightarrow>
     replace_references f t = bindE (f name) (\<lambda>v. bindE (replace_references f rest) (\<lambda>w. Inr (v @ w)))"
  "braced_reference (c # cs) = None \<Longrightarrow>
     replace_references f (c # cs) = bindE (replace_references f cs) (\<lambda>w. Inr (c # w))"
  by (simp_all add: replace_references.simps [of f t] replace_references.simps [of f "[]"]
      replace_references.simps [of f "c # cs"] braced_reference_def)

lemma replaced_are_known: "replace_references f t = Inr u \<Longrightarrow> name \<in> set (references t) \<Longrightarrow> \<exists>v. f name = Inr v"
proof (induction t arbitrary: u rule: references.induct)
  case (1 t)
  show ?case
  proof (cases "braced_reference t")
    case None
    with 1 show ?thesis
      by (cases t) (auto simp: replace_step references_step bindE_Inr)
  next
    case (Some nr)
    then obtain n rest where "braced_reference t = Some (n, rest)" by (cases nr) auto
    with 1 show ?thesis
      by (auto simp: replace_step references_step bindE_Inr)
  qed
qed

lemma no_dollar_no_reference: "CHR ''$'' \<notin> set t \<Longrightarrow> braced_reference t = None"
  by (cases t) (auto simp: braced_reference_def)

lemma replace_plain: "CHR ''$'' \<notin> set t \<Longrightarrow> replace_references f t = Inr t"
proof (induction t)
  case Nil
  then show ?case by (simp add: replace_step)
next
  case (Cons c t)
  with no_dollar_no_reference [OF Cons.prems] show ?case by (simp add: replace_step)
qed

text \<open>One reference between texts without any.\<close>

lemma replace_around:
  assumes "CHR ''$'' \<notin> set a" "CHR ''$'' \<notin> set b" "name \<noteq> []" "name_start (hd name)" "list_all name_char name"
  shows "replace_references f (a @ ''${'' @ name @ ''}'' @ b) = bindE (f name) (\<lambda>v. Inr (a @ v @ b))"
  using assms(1)
proof (induction a)
  case Nil
  have "takeWhile name_char (name @ ''}'' @ b) = name" "dropWhile name_char (name @ ''}'' @ b) = ''}'' @ b"
    using assms(5) by (simp_all add: list_all_iff takeWhile_append dropWhile_append name_char_def name_start_def is_digit_def)
  then have "braced_reference (''${'' @ name @ ''}'' @ b) = Some (name, b)"
    using assms(3,4) by (simp add: braced_reference_def)
  then show ?case
    using replace_step(2) [of "''${'' @ name @ ''}'' @ b" name b f] by (simp add: replace_plain [OF assms(2)])
next
  case (Cons c a)
  then have "braced_reference (c # a @ ''${'' @ name @ ''}'' @ b) = None"
    by (cases "a @ ''${'' @ name @ ''}'' @ b") (auto simp: braced_reference_def)
  then have "replace_references f (c # a @ ''${'' @ name @ ''}'' @ b) =
      bindE (replace_references f (a @ ''${'' @ name @ ''}'' @ b)) (\<lambda>w. Inr (c # w))"
    by (simp add: replace_step)
  with Cons show ?case by (cases "f name") (simp_all add: bindE_def)
qed

text \<open>A value that expands names no removed placeholder, and every variable it refers to is set and not empty.\<close>

lemma expanded_references:
  assumes "expand_text env t = Inr u"
  shows "(\<forall>name \<in> set (references t). \<exists>v. map_of (environ env) name = Some v \<and> v \<noteq> []) \<and>
    (\<forall>p \<in> fst ` set UNSUPPORTED_PATH_PLACEHOLDERS. \<not> contains_text p t) \<and> unbraced_reference t = None"
proof -
  from assms have empty: "filter (\<lambda>(placeholder, replacement). contains_text placeholder t) UNSUPPORTED_PATH_PLACEHOLDERS = []"
    and none: "unbraced_reference t = None"
    by (auto simp: expand_text_def split: list.splits option.splits)
  with assms obtain w where "replace_references (reference_value env) t = Inr w"
    by (auto simp: expand_text_def bindE_Inr split: if_splits)
  from replaced_are_known [OF this] have "\<forall>name \<in> set (references t). \<exists>v. map_of (environ env) name = Some v \<and> v \<noteq> []"
    by (fastforce simp: reference_value_def split: option.splits if_splits)
  with empty none show ?thesis by (auto simp: filter_empty_conv)
qed

section \<open>Ports\<close>

lemma other_port_differs: "other_port free listen_port n = Some pm \<Longrightarrow> fst pm \<noteq> listen_port"
  by (erule other_port.raw_induct [rotated]) (auto split: if_splits)

text \<open>The search ends exactly when some port that will be offered differs.\<close>

lemma other_port_found:
  assumes "free (n + k) \<noteq> listen_port"
  shows "\<exists>p m. other_port free listen_port n = Some (p, m)"
  using assms
proof (induction k arbitrary: n)
  case 0
  then show ?case by (simp add: other_port.simps)
next
  case (Suc k)
  from Suc.IH [of "Suc n"] Suc.prems show ?case by (simp add: other_port.simps [of free listen_port n])
qed

lemma telnet_port_fits:
  assumes "allocate_local_telnet_port env local_config listen_port dry_run s = (Inr p, t)"
  shows "dry_run \<and> p = 0 \<or> 1 \<le> p \<and> p \<le> 65535 \<and> p \<noteq> listen_port"
  using assms
  by (auto simp: allocate_local_telnet_port_def monad_defs split: sum.splits if_splits prod.splits option.splits)

section \<open>Scopes and requirements\<close>

lemma normalized_scopes: "normalize_scopes scopes = Inr ns \<Longrightarrow> set ns \<subseteq> {''site'', ''allocation-local''}"
  by (induction scopes arbitrary: ns) (auto simp: SETUP_SCOPE_ALIASES_def bindE_Inr split: option.splits if_splits)

lemma run_scopes: "run_scope_order env r = Inr order \<Longrightarrow> set order \<subseteq> {''site'', ''allocation-local''}"
  by (auto simp: run_scope_order_def resolver_scope_order_def normalize_resolver_scope_order_def bindE_Inr
      split: if_splits dest!: normalized_scopes)

text \<open>Every scope a run resolves in has a directory it waits for.\<close>

lemma site_required:
  assumes "site_requirements site_dir = Inr reqs"
  shows "\<exists>name endpoint t. requirement ''site'' name endpoint t \<in> set reqs \<and> py_truth endpoint"
proof -
  from assms obtain items t where
    "reqs = map (\<lambda>e. requirement ''site'' (pgetd site_dir ''name'' (PStr ''qfw-site-dirsvc'')) e t) (filter py_truth items)"
    and "filter py_truth items \<noteq> []"
    by (auto simp: site_requirements_def bindE_Inr Let_def split: if_splits)
  then obtain e where "e \<in> set items" "py_truth e"
    "requirement ''site'' (pgetd site_dir ''name'' (PStr ''qfw-site-dirsvc'')) e t \<in> set reqs"
    by (auto simp: filter_empty_conv)
  then show ?thesis by blast
qed

lemma local_required:
  "local_requirements local_dir = Inr reqs \<Longrightarrow>
     \<exists>name endpoint t. requirement ''allocation-local'' name endpoint t \<in> set reqs \<and> py_truth endpoint"
  by (auto simp: local_requirements_def bindE_Inr requirement_def split: if_splits)

lemma scope_has_requirement:
  assumes "directory_readiness_requirements scopes site_dir local_dir = Inr reqs" "scope \<in> set scopes"
    "scope \<in> {''site'', ''allocation-local''}"
  shows "\<exists>name endpoint t. requirement scope name endpoint t \<in> set reqs \<and> py_truth endpoint"
  using assms(1,2)
proof (induction scopes arbitrary: reqs)
  case (Cons s scopes)
  from Cons.prems(1) obtain here_reqs there_reqs where parts:
    "(if s = ''site'' then site_requirements site_dir
      else if s = ''allocation-local'' then local_requirements local_dir else Inr []) = Inr here_reqs"
    "directory_readiness_requirements scopes site_dir local_dir = Inr there_reqs" "reqs = here_reqs @ there_reqs"
    by (auto simp: bindE_Inr)
  show ?case
  proof (cases "s = scope")
    case True
    with parts(1) assms(3) site_required local_required
    have "\<exists>name endpoint t. requirement scope name endpoint t \<in> set here_reqs \<and> py_truth endpoint" by fastforce
    with parts(3) show ?thesis by auto
  next
    case False
    with Cons.IH [OF parts(2)] Cons.prems(2) parts(3) show ?thesis by auto
  qed
qed simp

section \<open>The environment file\<close>

text \<open>
  What a POSIX shell makes of the file: words of characters without meaning to it, quoted parts, and the
  end of the line. Anything else is not read.
\<close>

datatype quoting = Bare | Single | Double

fun shell_word :: "quoting \<Rightarrow> string \<Rightarrow> (string \<times> string) option" where
  "shell_word Bare [] = Some ([], [])"
| "shell_word Bare (c # cs) =
     (if c = CHR 0x0A then Some ([], cs)
      else if c = CHR 0x27 then shell_word Single cs
      else if c = CHR 0x22 then shell_word Double cs
      else if shell_safe c then map_option (map_prod ((#) c) id) (shell_word Bare cs)
      else None)"
| "shell_word Single [] = None"
| "shell_word Single (c # cs) =
     (if c = CHR 0x27 then shell_word Bare cs else map_option (map_prod ((#) c) id) (shell_word Single cs))"
| "shell_word Double [] = None"
| "shell_word Double (c # cs) =
     (if c = CHR 0x22 then shell_word Bare cs
      else if c \<in> {CHR ''$'', CHR 0x60, CHR 0x5C} then None
      else map_option (map_prod ((#) c) id) (shell_word Double cs))"

definition shell_name :: "string \<Rightarrow> bool" where
  "shell_name n = (n \<noteq> [] \<and> name_start (hd n) \<and> list_all name_char n)"

definition read_export :: "string \<Rightarrow> ((string \<times> string) \<times> string) option" where
  "read_export t =
     (if starts_with ''export '' t
      then let name = takeWhile name_char (drop 7 t); rest = dropWhile name_char (drop 7 t)
           in if shell_name name \<and> rest \<noteq> [] \<and> hd rest = CHR ''=''
              then map_option (\<lambda>(v, rest). ((name, v), rest)) (shell_word Bare (tl rest)) else None
      else None)"

lemma shell_word_shorter: "shell_word q t = Some (v, rest) \<Longrightarrow> length rest \<le> length t"
  by (induction q t arbitrary: v rest rule: shell_word.induct) (fastforce split: if_splits)+

lemma read_export_shorter: "read_export t = Some (nv, rest) \<Longrightarrow> length rest < length t"
proof -
  assume "read_export t = Some (nv, rest)"
  then obtain v where "shell_word Bare (tl (dropWhile name_char (drop 7 t))) = Some (v, rest)" "dropWhile name_char (drop 7 t) \<noteq> []"
    by (auto simp: read_export_def Let_def split: if_splits)
  moreover have "length (dropWhile name_char (drop 7 t)) \<le> length t"
    using length_dropWhile_le [of name_char "drop 7 t"] by simp
  ultimately show ?thesis
    using shell_word_shorter by (cases "dropWhile name_char (drop 7 t)") fastforce+
qed

function source_file :: "string \<Rightarrow> (string \<times> string) list option" where
  "source_file t =
     (if t = [] then Some []
      else case read_export t of
             None \<Rightarrow> None
           | Some (nv, rest) \<Rightarrow> map_option ((#) nv) (source_file rest))"
  by pat_completeness auto
termination by (relation "measure length") (auto dest: read_export_shorter)

declare source_file.simps [simp del]

lemma safe_word: "list_all shell_safe v \<Longrightarrow> shell_word Bare (v @ CHR 0x0A # rest) = Some (v, rest)"
proof (induction v)
  case (Cons c v)
  then have "c \<noteq> CHR 0x0A" "c \<noteq> CHR 0x27" "c \<noteq> CHR 0x22"
    by (auto simp: shell_safe_def name_char_def name_start_def is_digit_def)
  with Cons show ?case by simp
qed simp

lemma quoted_word: "shell_word Single (quote_chars v @ CHR 0x27 # CHR 0x0A # rest) = Some (v, rest)"
  by (induction v) simp_all

lemma shlex_round_trip: "shell_word Bare (shlex_quote v @ CHR 0x0A # rest) = Some (v, rest)"
  by (simp add: shlex_quote_def safe_word quoted_word)

lemma read_export_line:
  assumes "shell_name (fst nv)"
  shows "read_export (export_line nv @ rest) = Some (nv, rest)"
proof -
  let ?t = "shlex_quote (snd nv) @ CHR 0x0A # rest"
  have "takeWhile name_char (fst nv @ CHR ''='' # ?t) = fst nv" "dropWhile name_char (fst nv @ CHR ''='' # ?t) = CHR ''='' # ?t"
    using assms by (simp_all add: shell_name_def list_all_iff takeWhile_append dropWhile_append name_char_def name_start_def is_digit_def)
  then show ?thesis
    using assms by (simp add: read_export_def export_line_def shlex_round_trip)
qed

lemma env_file_round_trip:
  assumes "list_all shell_name (map fst environment)"
  shows "source_file (env_file_text environment) = Some (text_sort fst environment)"
proof -
  have "list_all shell_name (map fst es) \<Longrightarrow> source_file (concat (map export_line es)) = Some es" for es
  proof (induction es)
    case (Cons nv es)
    moreover have "export_line nv @ concat (map export_line es) \<noteq> []" by (simp add: export_line_def)
    ultimately show ?case
      by (simp add: source_file.simps [of "export_line nv @ _"] read_export_line)
  qed (simp add: source_file.simps)
  with assms show ?thesis by (simp add: env_file_text_def list_all_iff)
qed

section \<open>The files a setup writes\<close>

lemma persist_names:
  "fst ` set (persist_caller_environment env names e) \<subseteq> fst ` set e \<union> set names"
  by (induction env names e rule: persist_caller_environment.induct) (auto simp: dom_map_of_conv_image_fst [symmetric] split: if_splits)

lemma names_dset: "fst ` set (dset k v d) = insert k (fst ` set d)"
  using dom_map_of_conv_image_fst [of "dset k v d"] dom_map_of_conv_image_fst [of d] by (simp add: update_conv')

lemma names_dupdate: "fst ` set (dupdate d new) = fst ` set d \<union> fst ` set new"
  unfolding dupdate_def by (induction new arbitrary: d) (auto simp: names_dset)

text \<open>Every name in the environment of a run is a name to the shell.\<close>

lemma run_environment_names:
  "\<forall>n \<in> fst ` set (run_environment env qfw defw site runtime run_id root log order). shell_name n"
proof -
  let ?own = "[''QFW_PREFIX'', ''QFW_BIN_PATH'', ''QFW_LIBEXEC_DIR'', ''QFW_SHARE_DIR'', ''DEFW_PREFIX'', ''DEFW_PATH'',
    ''DEFW_CONFIG_PATH'', ''QFW_SITE_CONFIG'', ''QFW_RUNTIME_CONFIG'', ''QFW_RUN_ID'', ''QFW_RUN_TMP_PATH'', ''QFW_LOG_DIR'',
    ''QFW_QPM_RESOLVER_SCOPE_ORDER'']"
  have "list_all shell_name (?own @ CALLER_ENVIRONMENT_KEYS)"
    by (simp add: CALLER_ENVIRONMENT_KEYS_def shell_name_def name_char_def name_start_def is_digit_def)
  moreover have "fst ` set (run_environment env qfw defw site runtime run_id root log order) \<subseteq> set (?own @ CALLER_ENVIRONMENT_KEYS)"
    unfolding run_environment_def by (rule subset_trans [OF persist_names]) auto
  ultimately show ?thesis unfolding list_all_iff by blast
qed

lemma added_names:
  assumes "site_environment site_dir = Inr site_part"
  shows "\<forall>n \<in> fst ` set ((case profile of Some p \<Rightarrow> if p \<noteq> [] then [(''QFW_RUNTIME_PROFILE'', p)] else [] | None \<Rightarrow> []) @
    site_part @ local_environment ld root @ (if dry then [(''QFW_STARTUP_DRY_RUN'', ''1'')] else [])). shell_name n"
proof -
  define names where "names = [''QFW_RUNTIME_PROFILE'', ''QFW_SITE_DIRSVC_ENDPOINTS'', ''QFW_SITE_DIRSVC_NAME'',
    ''QFW_DIRSVC_CONNECT_TIMEOUT_SECONDS'', ''QFW_DIRECTORY_SERVICE_INFO'', ''QFW_LOCAL_DIRSVC_ENDPOINT'', ''QFW_LOCAL_DIRSVC_NAME'',
    ''DEFW_PARENT_HOSTNAME'', ''DEFW_PARENT_PORT'', ''DEFW_PARENT_NAME'', ''QFW_DVM_URI_PATH'', ''QFW_LOCAL_SERVICE_CONFIG'',
    ''QFW_SERVICE_SCOPE'', ''QFW_STARTUP_DRY_RUN'']"
  have "list_all shell_name names"
    by (simp add: names_def shell_name_def name_char_def name_start_def is_digit_def)
  moreover from assms have "\<forall>n \<in> fst ` set site_part. n \<in> set names"
    by (auto simp: names_def site_environment_def bindE_Inr split: if_splits)
  moreover have "\<forall>n \<in> fst ` set (local_environment ld root). n \<in> set names"
    by (auto simp: names_def local_environment_def split: option.splits)
  moreover have "''QFW_RUNTIME_PROFILE'' \<in> set names" "''QFW_STARTUP_DRY_RUN'' \<in> set names" by (simp_all add: names_def)
  ultimately show ?thesis by (cases profile) (auto simp: list_all_iff)
qed

lemma last_join: "b \<noteq> [] \<Longrightarrow> last (join_path a b) = last b"
  by (simp add: join_path_def)

lemma differ: "last a \<noteq> last b \<Longrightarrow> a \<noteq> b"
  by auto

lemma strip_line: "py_strip (t @ [CHR 0x0A]) = py_strip t"
proof -
  have "is_space (CHR 0x0A)" by (simp add: is_space_def)
  then show ?thesis
    by (cases "list_all is_space t")
      (auto simp: py_strip_def list_all_iff dropWhile_append dropWhile_eq_Nil_conv dest: set_dropWhileD)
qed

text \<open>What a setup that returns has written, and where.\<close>

lemma plan_run_returns:
  assumes "plan_run env r s = (Inr (state, environment), t)"
  shows "\<exists>qfw defw scope_order requirements site_dir site_part local_config ld. site_environment site_dir = Inr site_part \<and>
    environment = planned_environment env r qfw defw scope_order site_part ld \<and>
    state = prepared_state env r scope_order requirements site_dir local_config ld environment"
  using assms by (clarsimp simp: plan_run_def bindM_returns seqM_returns liftM_returns Let_def retM_def) blast

lemma planned_names:
  assumes "site_environment site_dir = Inr site_part"
  shows "list_all shell_name (map fst (planned_environment env r qfw defw scope_order site_part ld))"
proof -
  have "\<forall>n \<in> fst ` set (planned_environment env r qfw defw scope_order site_part ld). shell_name n"
    unfolding planned_environment_def Let_def names_dupdate ball_Un
    by (intro conjI run_environment_names added_names [OF assms])
  then show ?thesis by (simp add: list_all_iff)
qed

lemma prepared_fields:
  "pget (prepared_state env r scopes reqs site_dir local_config ld environment) ''environment'' = text_dict environment"
  "pget (prepared_state env r scopes reqs site_dir local_config ld environment) ''slurm_job_id'' = PStr (variable_of env ''SLURM_JOB_ID'')"
  by (simp_all add: prepared_state_def pget_def case_prod_beta)

lemma prepared_files:
  assumes "prepare_run_state env r s = (Inr state, t)"
  obtains environment fs where
    "file_system t = dset (join_path (fst (run_places env r)) ''current'') (Text_file (run_identifier env r @ [CHR 0x0A]))
       (dset (join_path (snd (run_places env r)) ''qfw-runtime-env.sh'') (Text_file (env_file_text environment))
         (dset (state_path (join_path (snd (run_places env r)) ''state'')) (Text_file (dump_json env (PDict state) @ [CHR 0x0A])) fs))"
    "list_all shell_name (map fst environment)" "pget state ''environment'' = text_dict environment"
    "pget state ''slurm_job_id'' = PStr (variable_of env ''SLURM_JOB_ID'')"
proof -
  from assms obtain environment v where planned: "plan_run env r s = (Inr (state, environment), v)"
    and writes: "seqM (write_state env (join_path (snd (run_places env r)) ''state'') state)
       (seqM (write_env_file (snd (run_places env r)) environment)
         (seqM (write_current_run (fst (run_places env r)) (run_identifier env r)) (retM state))) v = (Inr state, t)"
    by (auto simp: prepare_run_state_def bindM_returns seqM_returns retM_def)
  from plan_run_returns [OF planned] have "list_all shell_name (map fst environment)"
    and "pget state ''environment'' = text_dict environment" "pget state ''slurm_job_id'' = PStr (variable_of env ''SLURM_JOB_ID'')"
    by (auto simp: planned_names prepared_fields)
  moreover have "file_system t = dset (join_path (fst (run_places env r)) ''current'') (Text_file (run_identifier env r @ [CHR 0x0A]))
       (dset (join_path (snd (run_places env r)) ''qfw-runtime-env.sh'') (Text_file (env_file_text environment))
         (dset (state_path (join_path (snd (run_places env r)) ''state'')) (Text_file (dump_json env (PDict state) @ [CHR 0x0A])) (file_system v)))"
    using writes by (auto simp: monad_defs write_state_def write_env_file_def write_current_run_def write_file_def make_dir_def)
  ultimately show thesis by (intro that)
qed

text \<open>The three files have different paths, so each is read as it was written.\<close>

lemma prepared_lookup:
  assumes "prepare_run_state env r s = (Inr state, t)"
  obtains environment where
    "map_of (file_system t) (join_path (fst (run_places env r)) ''current'') = Some (Text_file (run_identifier env r @ [CHR 0x0A]))"
    "map_of (file_system t) (join_path (snd (run_places env r)) ''qfw-runtime-env.sh'') = Some (Text_file (env_file_text environment))"
    "map_of (file_system t) (state_path (join_path (snd (run_places env r)) ''state'')) = Some (Text_file (dump_json env (PDict state) @ [CHR 0x0A]))"
    "list_all shell_name (map fst environment)" "pget state ''environment'' = text_dict environment"
    "pget state ''slurm_job_id'' = PStr (variable_of env ''SLURM_JOB_ID'')"
  using assms
proof (rule prepared_files)
  fix environment fs
  let ?current = "join_path (fst (run_places env r)) ''current''"
  let ?env = "join_path (snd (run_places env r)) ''qfw-runtime-env.sh''"
  let ?state = "state_path (join_path (snd (run_places env r)) ''state'')"
  assume files: "file_system t = dset ?current (Text_file (run_identifier env r @ [CHR 0x0A]))
       (dset ?env (Text_file (env_file_text environment)) (dset ?state (Text_file (dump_json env (PDict state) @ [CHR 0x0A])) fs))"
    and rest: "list_all shell_name (map fst environment)" "pget state ''environment'' = text_dict environment"
    "pget state ''slurm_job_id'' = PStr (variable_of env ''SLURM_JOB_ID'')"
  have "?current \<noteq> ?env" "?current \<noteq> ?state" "?env \<noteq> ?state"
    by (rule differ; simp add: last_join state_path_def)+
  then have "map_of (file_system t) ?current = Some (Text_file (run_identifier env r @ [CHR 0x0A]))"
    "map_of (file_system t) ?env = Some (Text_file (env_file_text environment))"
    "map_of (file_system t) ?state = Some (Text_file (dump_json env (PDict state) @ [CHR 0x0A]))"
    unfolding files by (simp_all add: map_of_dset)
  then show thesis using rest by (rule that)
qed

text \<open>The marker of the current run leads to the run base and the identifier of the last run prepared there.\<close>

lemma prepared_is_marked:
  assumes "prepare_run_state env r s = (Inr state, t)" "variable_of env ''QFW_RUN_TMP_PATH'' = []"
    and "fst (run_places env r) = qfw_run_base_dir env"
    and "py_strip (run_identifier env r) = run_identifier env r" "run_identifier env r \<noteq> []"
  shows "current_run_dir env t = (Inr (join_path (qfw_run_base_dir env) (run_identifier env r)), t)"
  using assms(1)
proof (rule prepared_lookup)
  assume "map_of (file_system t) (join_path (fst (run_places env r)) ''current'') = Some (Text_file (run_identifier env r @ [CHR 0x0A]))"
  then show ?thesis
    using assms(2-5) by (simp add: current_run_dir_def marked_run_dir_def Let_def path_exists_def read_text_def open_file_def
        monad_defs strip_line)
qed

text \<open>A run that was prepared in its own place is the current run, and its state is read back.\<close>

lemma prepared_is_current:
  assumes "prepare_run_state env r s = (Inr state, t)" "rr_run_dir r = []" "variable_of env ''QFW_RUN_TMP_PATH'' = []"
    and "py_strip (run_identifier env r) = run_identifier env r" "run_identifier env r \<noteq> []"
    and "parse_json env (dump_json env (PDict state) @ [CHR 0x0A]) = Inr (PDict state)"
  shows "current_run_dir env t = (Inr (snd (run_places env r)), t) \<and> read_state env None t = (Inr (PDict state), t)"
proof -
  have places: "run_places env r = (qfw_run_base_dir env, join_path (qfw_run_base_dir env) (run_identifier env r))"
    using assms(2) by (simp add: run_places_def)
  then have "current_run_dir env t = (Inr (snd (run_places env r)), t)"
    using prepared_is_marked [OF assms(1,3) _ assms(4,5)] by simp
  moreover from assms(1) obtain "map_of (file_system t) (state_path (join_path (snd (run_places env r)) ''state'')) = Some (Text_file (dump_json env (PDict state) @ [CHR 0x0A]))"
    by (rule prepared_lookup)
  ultimately show ?thesis
    using assms(6) by (simp add: read_state_def read_state_at_def load_json_def open_file_def monad_defs state_path_def)
qed

text \<open>The environment file is read back as the recorded environment.\<close>

lemma prepared_file_sourced:
  assumes "prepare_run_state env r s = (Inr state, t)"
  shows "\<exists>e content. map_of (file_system t) (join_path (snd (run_places env r)) ''qfw-runtime-env.sh'') = Some (Text_file content) \<and>
    pget state ''environment'' = text_dict e \<and> source_file content = Some (text_sort fst e)"
  using assms by (rule prepared_lookup) (use env_file_round_trip in blast)

text \<open>Clearing the marker leaves the marker of another run in place.\<close>

lemma clear_spares_others:
  assumes "map_of (file_system s) (join_path run_base ''current'') = Some (Text_file t)" "py_strip t \<noteq> run_id"
  shows "clear_current_run env run_base run_id s = (Inr (), s)"
  using assms by (simp add: clear_current_run_def Let_def path_exists_def read_text_def open_file_def monad_defs)

text \<open>
  A run that was prepared in a directory of the caller's choice is marked under its identifier: when the
  directory has another name, the marked run is not the one that was prepared.
\<close>

lemma chosen_dir_not_current:
  assumes "prepare_run_state env r s = (Inr state, t)" "variable_of env ''QFW_RUN_TMP_PATH'' = []"
    and "rr_run_dir r = real_path env (rr_run_dir r)" "rr_run_dir r = qfw_run_base_dir env @ ''/'' @ name"
    and "fst (run_places env r) = qfw_run_base_dir env" "name \<noteq> run_identifier env r"
    and "py_strip (run_identifier env r) = run_identifier env r" "run_identifier env r \<noteq> []" "\<not> starts_with ''/'' (run_identifier env r)"
    and "qfw_run_base_dir env \<noteq> []" "last (qfw_run_base_dir env) \<noteq> CHR ''/''"
  obtains d where "current_run_dir env t = (Inr d, t)" "d \<noteq> snd (run_places env r)"
proof
  show "current_run_dir env t = (Inr (join_path (qfw_run_base_dir env) (run_identifier env r)), t)"
    by (rule prepared_is_marked) fact+
  have "snd (run_places env r) = qfw_run_base_dir env @ ''/'' @ name"
    using assms(3,4) by (simp add: run_places_def)
  with assms(6,9-11) show "join_path (qfw_run_base_dir env) (run_identifier env r) \<noteq> snd (run_places env r)"
    by (simp add: join_path_def)
qed

section \<open>The services of a manifest\<close>

text \<open>What every service of a manifest that loads has: a name, a credential mode, a device when keys are needed.\<close>

definition manifest_ok :: "pydict \<Rightarrow> bool" where
  "manifest_ok service =
     (py_strip (py_str (py_or (pget service ''name'') (PStr []))) \<noteq> [] \<and>
      py_lower (py_strip (py_str (py_or (pget service ''credential-mode'') (PStr [])))) \<in> set CREDENTIAL_MODES \<and>
      (py_lower (py_strip (py_str (py_or (pget service ''credential-mode'') (PStr [])))) = ''required'' \<longrightarrow>
         py_truth (pget service ''device-id'')) \<and>
      \<not> list_ex (has_key service) [''listen_port'', ''telnet_port'', ''direct-endpoint-enabled'', ''direct-qpm-endpoint'', ''register-with-dirsvc''])"

lemma manifest_entry_ok: "manifest_entry path index entry = Inr service \<Longrightarrow> manifest_ok service \<and> entry = PDict service"
  by (auto simp: manifest_entry_def manifest_ok_def bindE_Inr first_removed_def Let_def filter_empty_conv
      split: pyval.splits list.splits if_splits)

lemma manifest_entries_ok:
  "manifest_entries path index entries = Inr services \<Longrightarrow> list_all manifest_ok services \<and> entries = map PDict services"
  by (induction entries arbitrary: index services) (auto simp: bindE_Inr dest: manifest_entry_ok)

lemma loaded_manifest_ok:
  assumes "load_service_manifest env path s = (Inr services, t)"
  shows "list_all manifest_ok services"
proof -
  from assms obtain data u where rest: "(case py_or (pget data ''services'') (PList []) of
         PList entries \<Rightarrow> liftM (manifest_entries path 0 entries)
       | _ \<Rightarrow> raiseM (ValueError (''services must be a list: '' @ path))) u = (Inr services, t)"
    unfolding load_service_manifest_def bindM_returns by blast
  then show ?thesis
    by (cases "py_or (pget data ''services'') (PList [])") (auto simp: liftM_returns raiseM_def dest: manifest_entries_ok)
qed

text \<open>A setup without a site and with given ports.\<close>

definition plain_env :: setup_env where
  "plain_env = \<lparr>environ = [(''QFW_RUN_BASE_DIR'', ''/runs''), (''PATH'', ''/bin'')], expanduser = id, real_path = id,
     parse_yaml = (\<lambda>_. Inr PNone), parse_json = (\<lambda>_. Inl (ValueError ''no JSON'')), dump_json = (\<lambda>_. []), free_port = (\<lambda>n. 9000 + int n),
     temp_dir = ''/tmp'', working_dir = ''/work'', module_file = ''/opt/qfw/setup/qfw_runtime/config.py'', uuid4_hex = ''0a1b'',
     uuid5_hex = id\<rparr>"

definition plain_request :: "string \<Rightarrow> run_request" where
  "plain_request run_dir = \<lparr>rr_site_config_path = ''/site.yaml'', rr_runtime_config_path = ''/runtime.yaml'', rr_site_config = [],
     rr_runtime_config = [(''resolver'', PDict [(''scope-order'', PStr ''local'')]), (''local-services'', PDict [(''services'', PList [])])],
     rr_profile = None, rr_run_id = [], rr_run_dir = run_dir, rr_dry_run = False, rr_service_id = []\<rparr>"

definition empty_disk :: setup_state where
  "empty_disk = \<lparr>file_system = [], directories = [], ports_asked = 0\<rparr>"

text \<open>The same with any reader and writer of JSON: a setup without a site reads none.\<close>

definition with_json :: "(string \<Rightarrow> exc + pyval) \<Rightarrow> (pyval \<Rightarrow> string) \<Rightarrow> setup_env" where
  "with_json p d = plain_env\<lparr>parse_json := p, dump_json := d\<rparr>"

lemma json_run_prepared: "\<exists>state t. prepare_run_state (with_json p d) (plain_request run_dir) empty_disk = (Inr state, t)"
proof -
  let ?env = "with_json p d"
  let ?r = "plain_request run_dir" and ?local = "[(''services'', PList [])] :: pydict"
  define s where "s = empty_disk\<lparr>directories := [join_path (snd (run_places ?env ?r)) ''state'',
    join_path (snd (run_places ?env ?r)) ''logs'', snd (run_places ?env ?r)]\<rparr>"
  have prefixes: "site_install_prefixes ?env (rr_site_config ?r) empty_disk = (Inr (''/opt/qfw'', ''/opt/qfw''), empty_disk)"
    unfolding plain_request_def run_request.simps by code_simp
  have local: "run_local_config ?r = Inr ?local"
    by (simp add: plain_request_def run_local_config_def local_services_def mapping_of_def pget_def py_or_def)
  have scopes: "run_scope_order ?env ?r = Inr [''allocation-local'']"
    unfolding run_scope_order_def plain_request_def by code_simp
  have unset: "variable_of ?env ''QFW_SITE_DIRSVC_ENDPOINTS'' = []" by (simp add: variable_of_def with_json_def plain_env_def)
  have site: "run_site_directory ?env (rr_site_config ?r) (rr_site_config_path ?r) [''allocation-local''] s = (Inr [], s)"
    by (simp add: run_site_directory_def override_site_directory_def split_config_list_def unset monad_defs)
  have "sub_get (pget ?local ''dirsvc'') key d = Inr d" for key d
    by (simp add: sub_get_def pget_def pgetd_def py_or_def)
  moreover have "is_auto (PStr ''auto'')" by code_simp
  moreover have "other_port (\<lambda>n. 9000 + int n) 9000 (Suc 0) = Some (9001, 2)"
    by (subst other_port.simps) simp
  moreover have "service_manifest_path ?env ?local (Some ''/opt/qfw'') = Inr ''/opt/qfw/share/qfw/config/services/local-services.yaml''"
    by code_simp
  ultimately obtain ld u where ld: "run_local_directory ?env ?local ''/opt/qfw'' False s = (Inr ld, u)" "ld_endpoint ld \<noteq> []"
    by (simp add: run_local_directory_def allocate_local_endpoint_def allocate_local_telnet_port_def free_tcp_port_def
        differing_port_def s_def empty_disk_def with_json_def plain_env_def monad_defs)
  have "\<exists>d. local_readiness ?local ld = Inr d \<and> py_truth (pget d ''endpoint'') \<and> pgetd d ''connect_timeout_seconds'' (PInt 300) = PInt 300"
    using ld(2) by (simp add: local_readiness_def sub_get_def pget_def pgetd_def py_or_def py_int_def)
  then obtain d reqs where "local_readiness ?local ld = Inr d" "directory_readiness_requirements [''allocation-local''] [] d = Inr reqs"
    by (auto simp: local_requirements_def py_int_def)
  with prefixes local scopes site ld(1) show ?thesis
    by (simp add: prepare_run_state_def plan_run_def monad_defs make_dir_def s_def site_environment_def Let_def empty_disk_def
        write_state_def write_env_file_def write_current_run_def write_file_def plain_request_def)
qed

lemma plain_run_prepared: "\<exists>state t. prepare_run_state plain_env (plain_request run_dir) empty_disk = (Inr state, t)"
proof -
  have "plain_env = with_json (parse_json plain_env) (dump_json plain_env)" by (simp add: with_json_def)
  then show ?thesis using json_run_prepared by metis
qed

text \<open>A reader and a writer of JSON texts that agree, by numbering the values.\<close>

instance pyval :: countable
  by countable_datatype

definition json_env :: setup_env where
  "json_env = with_json (\<lambda>t. Inr (from_nat (length t - 1))) (\<lambda>v. replicate (to_nat v) (CHR ''1''))"

lemma json_env_reads: "parse_json json_env (dump_json json_env v @ [CHR 0x0A]) = Inr v"
  by (simp add: json_env_def with_json_def)

end
