(* ===== verification/QPM_Process.thy ===== *)
theory QPM_Process
  imports QPM_Resolver QPM_Setup
begin

text \<open>
  Processes and files of a service plane (\<^verbatim>\<open>setup/qfw_runtime/process_state.py\<close>,
  \<^verbatim>\<open>environment_modules.py\<close>, and the helpers of \<^verbatim>\<open>service_plane.py\<close>): the identity of a process, the
  modules of a service, launching on a node, terminating, the lock and the state file. What the
  operating system and other processes answer is an argument, a function of the history of calls;
  what other processes have done to the files by the time of an answer is another.
\<close>

section \<open>Calls that leave the process\<close>

datatype plane_call =
    Time_ns
  | Monotonic
  | Lock_state string
  | Unlock_state string
  | Lock_file string
  | Unlock_file string
  | Read_stat int
  | Read_boot_id
  | Run_command "string list" "(string \<times> string) list"
  | Find_executable string "string option"
  | Kill_group int string
  | Kill_process int string
  | Dial string int
  | Host_address string
  | Bind_port int
  | Spawn "string list" "(string \<times> string) list"
  | Poll_process int
  | Wait_process int
  | Open_write string
  | Stop_requested

record plane_env =
  su :: setup_env
  plane_answer :: "plane_call list \<Rightarrow> plane_call \<Rightarrow> exc + pyval"
  meanwhile :: "plane_call list \<Rightarrow> setup_state \<Rightarrow> setup_state"
  hostname :: string
  python_path :: string
  own_pid :: int
  is_root :: bool
  expand_host_list :: "string \<Rightarrow> string list option"
  poll_rounds :: nat

text \<open>\<open>pl_state\<close> is the mapping a start fills in while it goes on, which its error path finds as far as it got.\<close>

record plane_state =
  pl_disk :: setup_state
  pl_calls :: "plane_call list"
  pl_state :: pydict

type_synonym 'a plane = "(plane_state, 'a) pm"

definition call_plane :: "plane_env \<Rightarrow> plane_call \<Rightarrow> pyval plane" where
  "call_plane env c = (\<lambda>s. (plane_answer env (pl_calls s) c,
     s\<lparr>pl_calls := pl_calls s @ [c], pl_disk := meanwhile env (pl_calls s @ [c]) (pl_disk s)\<rparr>))"

definition on_disk :: "'a prep \<Rightarrow> 'a plane" where
  "on_disk m = (\<lambda>s. case m (pl_disk s) of (r, d) \<Rightarrow> (r, s\<lparr>pl_disk := d\<rparr>))"

definition call_flag :: "plane_env \<Rightarrow> plane_call \<Rightarrow> bool plane" where
  "call_flag env c = bindM (call_plane env c) (\<lambda>v. retM (py_truth v))"

text \<open>\<^verbatim>\<open>d[key]\<close>\<close>

definition sub :: "pydict \<Rightarrow> string \<Rightarrow> exc + pyval" where
  "sub d key = (case map_of d key of Some v \<Rightarrow> Inr v | None \<Rightarrow> Inl (KeyError key))"

text \<open>\<^verbatim>\<open>v.get(...)\<close> needs a mapping.\<close>

definition as_mapping :: "pyval \<Rightarrow> exc + pydict" where
  "as_mapping v = (case v of PDict d \<Rightarrow> Inr d | _ \<Rightarrow> Inl (AttributeError ''object has no attribute get''))"

section \<open>The identity of a process\<close>

fun words_of :: "string \<Rightarrow> string \<Rightarrow> string list" where
  "words_of w [] = (if w = [] then [] else [rev w])"
| "words_of w (c # cs) =
     (if is_space c then (if w = [] then words_of [] cs else rev w # words_of [] cs) else words_of (c # w) cs)"

text \<open>What follows the last \<open>)\<close> and the blank after it.\<close>

definition stat_fields :: "string \<Rightarrow> string list option" where
  "stat_fields stat =
     (if CHR '')'' \<in> set stat then Some (words_of [] (drop 1 (rev (takeWhile (\<lambda>c. c \<noteq> CHR '')'') (rev stat))))) else None)"

definition identity_of :: "int \<Rightarrow> string \<Rightarrow> string \<Rightarrow> string \<Rightarrow> exc + pyval" where
  "identity_of pid proc stat boot_id =
     (case stat_fields stat of
        None \<Rightarrow> Inl (RuntimeError (''unreadable '' @ proc @ '' contents''))
      | Some parts \<Rightarrow>
          if length parts \<le> 19 then Inl (RuntimeError (''unreadable '' @ proc @ '' contents''))
          else (case int_of_text (parts ! 19) of
                  None \<Rightarrow> Inl (RuntimeError (''unreadable start time in '' @ proc))
                | Some ticks \<Rightarrow>
                    Inr (PDict [(''pid'', PInt pid), (''boot_id'', PStr boot_id), (''start_time_ticks'', PInt ticks)])))"

text \<open>What the system refuses is a probe that could not answer; another error of reading escapes as it is.\<close>

definition probe_error :: "string \<Rightarrow> exc \<Rightarrow> exc" where
  "probe_error path e = (case e of OSError m \<Rightarrow> RuntimeError (''cannot read '' @ path @ '': '' @ m) | _ \<Rightarrow> e)"

definition local_process_identity :: "plane_env \<Rightarrow> pyval \<Rightarrow> pyval plane" where
  "local_process_identity env pid_value =
     bindM (liftM (py_int pid_value)) (\<lambda>pid.
     let proc = ''/proc/'' @ int_text pid @ ''/stat''
     in bindM (tryM (call_plane env (Read_stat pid)) (\<lambda>e. raiseM (probe_error proc e))) (\<lambda>stat.
        if stat = PNone then retM PNone
        else
          bindM (tryM (call_plane env Read_boot_id) (\<lambda>e. raiseM (probe_error ''/proc/sys/kernel/random/boot_id'' e))) (\<lambda>boot_id.
            liftM (identity_of pid proc (py_str stat) (py_strip (py_str boot_id))))))"

definition identity_parts :: "pyval \<Rightarrow> exc + (int \<times> pyval \<times> int)" where
  "identity_parts v =
     (case v of
        PDict d \<Rightarrow>
          bindE (sub d ''pid'') (\<lambda>p. bindE (py_int p) (\<lambda>pid.
          bindE (sub d ''boot_id'') (\<lambda>boot_id.
          bindE (sub d ''start_time_ticks'') (\<lambda>t. bindE (py_int t) (\<lambda>ticks. Inr (pid, boot_id, ticks))))))
      | _ \<Rightarrow> Inl (TypeError ''object is not subscriptable''))"

text \<open>An identity whose parts cannot be read matches none.\<close>

definition identities_match :: "pyval \<Rightarrow> pyval \<Rightarrow> bool" where
  "identities_match expected observed =
     (py_truth expected \<and> py_truth observed \<and>
      (case (identity_parts expected, identity_parts observed) of
         (Inr (p1, b1, t1), Inr (p2, b2, t2)) \<Rightarrow> p1 = p2 \<and> py_eq b1 b2 \<and> t1 = t2
       | _ \<Rightarrow> False))"

text \<open>
  The probe run as a program of its own on another node: its exit code, what it prints and what it
  reports as an error. Both answers are printed with exit code 0.
\<close>

definition PROBE_FAILED_EXIT :: int where "PROBE_FAILED_EXIT = 3"

definition probe_reply :: "pyval \<Rightarrow> pyval" where
  "probe_reply identity = (if identity = PNone then PDict [(''alive'', PBool False)] else identity)"

definition process_state_main :: "plane_env \<Rightarrow> int \<Rightarrow> (int \<times> string \<times> string) plane" where
  "process_state_main env pid =
     tryM (bindM (local_process_identity env (PInt pid)) (\<lambda>identity.
             retM (0, dump_json (su env) (probe_reply identity) @ [CHR 0x0A], [])))
       (\<lambda>e. case e of
          RuntimeError m \<Rightarrow> retM (PROBE_FAILED_EXIT, [], ''process-state probe failed: '' @ m @ [CHR 0x0A]) | _ \<Rightarrow> raiseM e)"

section \<open>Environment modules\<close>

fun configured_items :: "string \<Rightarrow> pyval list \<Rightarrow> exc + string list" where
  "configured_items key [] = Inr []"
| "configured_items key (item # items) =
     (if py_strip (py_str item) = [] then Inl (ValueError (key @ '' entries must not be empty''))
      else bindE (configured_items key items) (\<lambda>names. Inr (py_strip (py_str item) # names)))"

definition configured_names :: "pydict \<Rightarrow> string \<Rightarrow> exc + string list" where
  "configured_names service key =
     (case py_or (pget service key) (PList []) of
        PList items \<Rightarrow> configured_items key items | _ \<Rightarrow> Inl (ValueError (key @ '' must be a list'')))"

text \<open>A command answers with its exit code and its two outputs.\<close>

definition command_result :: "pyval \<Rightarrow> int \<times> string \<times> string" where
  "command_result v =
     (case v of PTuple [PInt code, PStr out, PStr err] \<Rightarrow> (code, out, err) | _ \<Rightarrow> (1, [], []))"

definition load_modules :: "plane_env \<Rightarrow> string list \<Rightarrow> (string \<times> string) list \<Rightarrow> (string \<times> string) list plane" where
  "load_modules env modules environment =
     bindM (call_plane env (Find_executable ''modulecmd'' (map_of environment ''PATH''))) (\<lambda>modulecmd.
       if \<not> py_truth modulecmd then raiseM (RuntimeError ''environment modules are required but modulecmd is unavailable'')
       else
         bindM (call_plane env (Run_command (py_str modulecmd # [''python'', ''load''] @ modules) environment)) (\<lambda>loaded.
         case command_result loaded of
           (code, out, err) \<Rightarrow>
             if code \<noteq> 0
             then let detail = py_strip (if err \<noteq> [] then err else out)
                  in raiseM (RuntimeError (''unable to load environment modules '' @ join_with '', '' modules @ '': '' @
                       (if detail \<noteq> [] then detail else ''modulecmd exited with '' @ int_text code)))
             else
               bindM (call_plane env (Run_command [python_path env, ''-c'',
                   out @ [CHR 0x0A] @ ''import json, os'' @ [CHR 0x0A] @ ''print(json.dumps(dict(os.environ), sort_keys=True))'' @ [CHR 0x0A]]
                   environment)) (\<lambda>resolved.
               case command_result resolved of
                 (code, out, err) \<Rightarrow>
                   if code \<noteq> 0
                   then raiseM (RuntimeError (''modulecmd produced an invalid environment update'' @
                          (if py_strip err \<noteq> [] then '': '' @ py_strip err else [])))
                   else case parse_json (su env) out of
                          Inr (PDict d) \<Rightarrow> retM (map (\<lambda>(k, v). (k, py_str v)) d)
                        | Inr _ \<Rightarrow> raiseM (RuntimeError ''modulecmd did not produce an environment mapping'')
                        | Inl e \<Rightarrow> raiseM (RuntimeError ''modulecmd did not produce a valid environment''))))"

primrec missing_executables :: "plane_env \<Rightarrow> (string \<times> string) list \<Rightarrow> string list \<Rightarrow> string list plane" where
  "missing_executables env environment [] = retM []"
| "missing_executables env environment (x # xs) =
     bindM (call_flag env (Find_executable x (map_of environment ''PATH''))) (\<lambda>found.
     bindM (missing_executables env environment xs) (\<lambda>missing. retM (if found then missing else x # missing)))"

definition validate_executables :: "plane_env \<Rightarrow> string list \<Rightarrow> (string \<times> string) list \<Rightarrow> unit plane" where
  "validate_executables env executables environment =
     bindM (missing_executables env environment executables) (\<lambda>missing.
       if missing \<noteq> []
       then raiseM (RuntimeError (''required executable(s) unavailable after module loading: '' @ join_with '', '' missing))
       else retM ())"

definition load_for_service :: "plane_env \<Rightarrow> pydict \<Rightarrow> (string \<times> string) list \<Rightarrow> (string \<times> string) list plane" where
  "load_for_service env service environment =
     bindM (liftM (configured_names service ''environment-modules'')) (\<lambda>modules.
     bindM (if modules \<noteq> [] then load_modules env modules environment else retM environment) (\<lambda>loaded.
     bindM (liftM (configured_names service ''required-executables'')) (\<lambda>executables.
     seqM (validate_executables env executables loaded) (retM loaded))))"

section \<open>Nodes\<close>

definition group_for_node :: "pyval \<Rightarrow> pydict \<Rightarrow> exc + string" where
  "group_for_node node allocation =
     bindE (py_items (pgetd allocation ''group1'' (PList []))) (\<lambda>group1.
       if list_ex (py_eq node) group1 then Inr ''1''
       else bindE (py_items (pgetd allocation ''group0'' (PList []))) (\<lambda>group0.
         if list_ex (py_eq node) group0 then Inr ''0''
         else Inl (ServicePlaneError (''node is not in the heterogeneous allocation: '' @ py_str node))))"

definition node_launch :: "pyval \<Rightarrow> string list \<Rightarrow> pydict \<Rightarrow> exc + string list" where
  "node_launch node command allocation =
     (if pget allocation ''mode'' = PStr ''heterogeneous''
      then bindE (group_for_node node allocation) (\<lambda>group.
        Inr ([''srun'', ''--het-group='' @ group, ''--nodes=1'', ''--ntasks=1'', ''--nodelist'', py_str node] @ command))
      else if pget allocation ''mode'' = PStr ''slurm''
      then Inr ([''srun'', ''--nodes=1'', ''--ntasks=1'', ''--nodelist'', py_str node] @ command)
      else Inr command)"

definition run_on_node :: "plane_env \<Rightarrow> pyval \<Rightarrow> string list \<Rightarrow> (string \<times> string) list \<Rightarrow> pydict \<Rightarrow> unit plane" where
  "run_on_node env node command environment allocation =
     bindM (liftM (node_launch node command allocation)) (\<lambda>launch.
     bindM (call_plane env (Run_command launch environment)) (\<lambda>v.
       case command_result v of
         (code, out, err) \<Rightarrow>
           if code \<noteq> 0
           then raiseM (ServicePlaneError (''command failed with '' @ int_text code @ '': '' @ join_with '' '' (map shlex_quote launch)))
           else retM ()))"

definition unknown_liveness :: "pyval \<Rightarrow> pyval \<Rightarrow> string \<Rightarrow> string" where
  "unknown_liveness pid node reason =
     ''cannot determine whether process '' @ py_str pid @ '' on '' @ py_str (py_or node (PStr ''localhost'')) @ '' is still running: '' @ reason"

definition last_line :: "string \<Rightarrow> string" where
  "last_line t = rev (takeWhile (\<lambda>c. c \<notin> {CHR 0x0A, CHR 0x0B, CHR 0x0C, CHR 0x0D, CHR 0x1C, CHR 0x1D, CHR 0x1E}) (rev t))"

definition is_remote :: "pydict \<Rightarrow> bool" where
  "is_remote allocation = (pget allocation ''mode'' \<in> {PStr ''slurm'', PStr ''heterogeneous''})"

definition read_process_identity :: "plane_env \<Rightarrow> pyval \<Rightarrow> pyval \<Rightarrow> pydict \<Rightarrow> pyval plane" where
  "read_process_identity env pid node allocation =
     (if \<not> is_remote allocation
      then tryM (local_process_identity env pid)
             (\<lambda>e. case e of RuntimeError m \<Rightarrow> raiseM (ServicePlaneError (unknown_liveness pid node m)) | _ \<Rightarrow> raiseM e)
      else
        bindM (liftM (node_launch node [python_path env, ''-m'', ''qfw_runtime.process_state'', py_str pid] allocation)) (\<lambda>launch.
        bindM (call_plane env (Run_command launch (environ (su env)))) (\<lambda>v.
          case command_result v of
            (code, out, err) \<Rightarrow>
              if code \<noteq> 0
              then let detail = py_strip (if err \<noteq> [] then err else out); reason = ''probe exited '' @ int_text code
                   in raiseM (ServicePlaneError (unknown_liveness pid node
                        (if detail \<noteq> [] then reason @ '': '' @ last_line detail else reason)))
              else case parse_json (su env) out of
                     Inl e \<Rightarrow> raiseM (ServicePlaneError (unknown_liveness pid node ''unreadable probe output''))
                   | Inr observed \<Rightarrow>
                       retM (case observed of
                               PDict d \<Rightarrow> if pget d ''alive'' = PBool False then PNone else observed | _ \<Rightarrow> observed))))"

definition require_process_identity :: "plane_env \<Rightarrow> pyval \<Rightarrow> pyval \<Rightarrow> pydict \<Rightarrow> pyval plane" where
  "require_process_identity env pid node allocation =
     bindM (read_process_identity env pid node allocation) (\<lambda>identity.
       if identity = PNone
       then raiseM (ServicePlaneError (''launched process '' @ py_str pid @ '' on '' @ py_str (py_or node (PStr ''localhost'')) @ '' is not alive''))
       else retM identity)"

section \<open>Terminating\<close>

definition TERMINATE_TIMEOUT_SECONDS :: int where "TERMINATE_TIMEOUT_SECONDS = 10"

definition terminate_script :: string where
  "terminate_script = concat (map (\<lambda>l. l @ [CHR 0x0A])
     [''import os,signal,sys,time'', ''pid=int(sys.argv[1])'', ''def alive():'', ''  try: os.kill(pid,0); return True'',
      ''  except ProcessLookupError: return False'', ''def send(sig):'', ''  try: os.killpg(pid,sig)'',
      ''  except (ProcessLookupError,PermissionError):'', ''    try: os.kill(pid,sig)'', ''    except ProcessLookupError: pass'',
      ''send(signal.SIGTERM)'', ''deadline=time.monotonic()+'' @ int_text TERMINATE_TIMEOUT_SECONDS,
      ''while alive() and time.monotonic()<deadline: time.sleep(.1)'', ''if alive(): send(signal.SIGKILL)''])"

text \<open>
  A signal answers whether it was sent, \<open>no-process\<close> or \<open>not-permitted\<close>; signal 0 only asks.
\<close>

definition signal_local_pid :: "plane_env \<Rightarrow> int \<Rightarrow> string \<Rightarrow> unit plane" where
  "signal_local_pid env pid sig =
     bindM (call_plane env (Kill_group pid sig)) (\<lambda>delivered.
       if delivered \<notin> {PStr ''no-process'', PStr ''not-permitted''} then retM ()
       else bindM (call_plane env (Kill_process pid sig)) (\<lambda>r.
         if r = PStr ''not-permitted'' then raiseM (OSError ''Operation not permitted'') else retM ()))"

definition local_pid_alive :: "plane_env \<Rightarrow> int \<Rightarrow> bool plane" where
  "local_pid_alive env pid = bindM (call_plane env (Kill_process pid ''0'')) (\<lambda>r. retM (r \<noteq> PStr ''no-process''))"

text \<open>The wait for the end of a process, a number of polls at most; more of them do not return.\<close>

primrec await_exit :: "plane_env \<Rightarrow> int \<Rightarrow> int \<Rightarrow> nat \<Rightarrow> unit plane" where
  "await_exit env pid deadline 0 = raiseM NoReturn"
| "await_exit env pid deadline (Suc n) =
     bindM (local_pid_alive env pid) (\<lambda>alive.
       if \<not> alive then retM ()
       else bindM (call_plane env Monotonic) (\<lambda>t. bindM (liftM (py_int t)) (\<lambda>now.
         if now < deadline then await_exit env pid deadline n else retM ())))"

definition terminate_pid :: "plane_env \<Rightarrow> int \<Rightarrow> pyval \<Rightarrow> pydict \<Rightarrow> unit plane" where
  "terminate_pid env pid node allocation =
     (if is_remote allocation
      then run_on_node env node [''python3'', ''-c'', terminate_script, int_text pid] (environ (su env)) allocation
      else
        seqM (signal_local_pid env pid ''SIGTERM'')
        (bindM (call_plane env Monotonic) (\<lambda>t. bindM (liftM (py_int t)) (\<lambda>now.
         seqM (await_exit env pid (now + TERMINATE_TIMEOUT_SECONDS) (poll_rounds env))
         (bindM (local_pid_alive env pid) (\<lambda>alive. if alive then signal_local_pid env pid ''SIGKILL'' else retM ()))))))"

section \<open>Files\<close>

definition SCHEMA :: string where "SCHEMA = ''qfw-service-plane-v1''"
definition STATE_NAME :: string where "STATE_NAME = ''service-plane.json''"
definition ENV_NAME :: string where "ENV_NAME = ''qfw-service-env.sh''"

definition plane_state_path :: "string \<Rightarrow> string" where
  "plane_state_path run_dir = join_all run_dir [''state'', STATE_NAME]"

definition resolve_run_dir :: "plane_env \<Rightarrow> pyval \<Rightarrow> exc + string" where
  "resolve_run_dir env v =
     (if v = PNone \<or> py_strip (py_str v) = [] then Inl (ValueError ''--run-dir must not be empty'')
      else Inr (real_path (su env) (py_str v)))"

definition read_plane_state :: "plane_env \<Rightarrow> string \<Rightarrow> bool \<Rightarrow> pydict option plane" where
  "read_plane_state env run_dir required =
     (let path = plane_state_path run_dir
      in bindM (on_disk (path_exists path)) (\<lambda>present.
           if \<not> present \<and> \<not> required then retM None
           else if \<not> present then raiseM (ServicePlaneError (''service-plane state not found: '' @ path))
           else
             bindM (on_disk (load_json (su env) path)) (\<lambda>v. bindM (liftM (as_mapping v)) (\<lambda>state.
               if pget state ''schema'' \<noteq> PStr SCHEMA then raiseM (ServicePlaneError (''unsupported service-plane state: '' @ path))
               else retM (Some state)))))"

definition write_plane_state :: "plane_env \<Rightarrow> pydict \<Rightarrow> unit plane" where
  "write_plane_state env state =
     bindM (liftM (sub state ''run_dir'')) (\<lambda>run_dir.
     let path = plane_state_path (py_str run_dir)
     in on_disk (seqM (make_dir (parent_path path)) (write_file path (Json_file (PDict state)))))"

definition unlink_file :: "string \<Rightarrow> unit plane" where
  "unlink_file path = on_disk (modM (\<lambda>s. s\<lparr>file_system := dpop path (file_system s)\<rparr>))"

definition nonempty_file :: "string \<Rightarrow> bool plane" where
  "nonempty_file path = on_disk (getM (\<lambda>s. case map_of (file_system s) path of
     Some (Text_file t) \<Rightarrow> t \<noteq> [] | Some (Json_file v) \<Rightarrow> True | None \<Rightarrow> False))"

definition ready_file :: "plane_env \<Rightarrow> string \<Rightarrow> bool plane" where
  "ready_file env path =
     bindM (tryM (bindM (on_disk (load_json (su env) path)) (\<lambda>v. retM (Some v)))
              (\<lambda>e. case e of OSError m \<Rightarrow> retM None | ValueError m \<Rightarrow> retM None | _ \<Rightarrow> raiseM e)) (\<lambda>found.
       case found of
         None \<Rightarrow> retM False
       | Some v \<Rightarrow> bindM (liftM (as_mapping v)) (\<lambda>d. retM (py_truth (pget d ''ready''))))"

definition read_pid :: "plane_env \<Rightarrow> string \<Rightarrow> int plane" where
  "read_pid env path =
     bindM (tryM (on_disk (read_text (su env) path))
              (\<lambda>e. case e of OSError m \<Rightarrow> raiseM (ServicePlaneError (''invalid or missing PID file: '' @ path)) | _ \<Rightarrow> raiseM e)) (\<lambda>t.
       case int_of_text t of
         Some pid \<Rightarrow> retM pid | None \<Rightarrow> raiseM (ServicePlaneError (''invalid or missing PID file: '' @ path)))"

text \<open>The lock of a run is not waited for.\<close>

definition state_lock :: "plane_env \<Rightarrow> string \<Rightarrow> 'a plane \<Rightarrow> 'a plane" where
  "state_lock env run_dir body =
     seqM (on_disk (make_dir (join_path run_dir ''state'')))
     (bindM (call_flag env (Lock_state run_dir)) (\<lambda>locked.
        if \<not> locked then raiseM (ServicePlaneError (''another service-plane operation is active: '' @ run_dir))
        else finallyM body (call_plane env (Unlock_state run_dir))))"

text \<open>\<^verbatim>\<open>_wait_for\<close>, a number of rounds at most.\<close>

primrec wait_for :: "plane_env \<Rightarrow> bool plane \<Rightarrow> int \<Rightarrow> int \<Rightarrow> string \<Rightarrow> nat \<Rightarrow> unit plane" where
  "wait_for env probe deadline timeout description 0 = raiseM NoReturn"
| "wait_for env probe deadline timeout description (Suc n) =
     bindM probe (\<lambda>there.
       if there then retM ()
       else bindM (call_plane env Monotonic) (\<lambda>t. bindM (liftM (py_int t)) (\<lambda>now.
         if now \<ge> deadline
         then raiseM (ServicePlaneError (''timed out after '' @ int_text timeout @ '' seconds waiting for '' @ description))
         else wait_for env probe deadline timeout description n)))"

definition command_path :: "plane_env \<Rightarrow> string \<Rightarrow> (string \<times> string) list \<Rightarrow> string plane" where
  "command_path env name environment =
     (let found_elsewhere = bindM (call_plane env (Find_executable name (map_of environment ''PATH''))) (\<lambda>found.
            if py_truth found then retM (py_str found) else raiseM (ServicePlaneError (''unable to find required command: '' @ name)))
      in case map_of environment ''QFW_BIN_PATH'' of
           Some b \<Rightarrow>
             if b = [] then found_elsewhere
             else let candidate = join_path (real_path (su env) b) name
                  in bindM (on_disk (path_exists candidate)) (\<lambda>present. if present then retM candidate else found_elsewhere)
         | None \<Rightarrow> found_elsewhere)"

section \<open>The probe of another node\<close>

lemma local_identity_shape:
  assumes "local_process_identity env pid s = (Inr v, t)"
  shows "v = PNone \<or> (\<exists>p b k. v = PDict [(''pid'', PInt p), (''boot_id'', PStr b), (''start_time_ticks'', PInt k)])"
proof -
  have "\<exists>p b k. v = PDict [(''pid'', PInt p), (''boot_id'', PStr b), (''start_time_ticks'', PInt k)]"
    if "identity_of pid proc stat boot_id = Inr v" for pid proc stat boot_id
    using that by (auto simp: identity_of_def split: option.split_asm if_split_asm)
  with assms show ?thesis
    by (fastforce simp: local_process_identity_def Let_def bindM_returns liftM_returns retM_def split: if_split_asm)
qed

lemma remote_identity:
  assumes "is_remote allocation"
    and "node_launch node [python_path env, ''-m'', ''qfw_runtime.process_state'', py_str pid] allocation = Inr launch"
    and "plane_answer env (pl_calls s) (Run_command launch (environ (su env))) = Inr (PTuple [PInt code, PStr out, PStr err])"
  shows "code \<noteq> 0 \<Longrightarrow> fst (read_process_identity env pid node allocation s) \<noteq> Inr v"
    and "code = 0 \<Longrightarrow> parse_json (su env) out = Inr observed \<Longrightarrow> fst (read_process_identity env pid node allocation s) =
      Inr (case observed of PDict d \<Rightarrow> if pget d ''alive'' = PBool False then PNone else observed | _ \<Rightarrow> observed)"
  using assms
  by (simp_all add: read_process_identity_def bindM_def liftM_def call_plane_def command_result_def raiseM_def retM_def Let_def)

text \<open>What the probe of a node prints is read as the answer its own function gave there.\<close>

lemma remote_probe_agrees:
  assumes remote: "is_remote allocation"
    "node_launch node [python_path env, ''-m'', ''qfw_runtime.process_state'', py_str (PInt pid)] allocation = Inr launch"
    "plane_answer env (pl_calls s) (Run_command launch (environ (su env))) = Inr (PTuple [PInt code, PStr out, PStr err])"
    and runs: "process_state_main there pid s' = (Inr (code, out, err), t')"
    and json: "\<And>w t. local_process_identity there (PInt pid) s' = (Inr w, t) \<Longrightarrow>
      parse_json (su env) (dump_json (su there) (probe_reply w) @ [CHR 0x0A]) = Inr (probe_reply w)"
  shows "fst (read_process_identity env (PInt pid) node allocation s) = Inr v \<longleftrightarrow> fst (local_process_identity there (PInt pid) s') = Inr v"
proof (cases "local_process_identity there (PInt pid) s'")
  case (Pair r u)
  show ?thesis
  proof (cases r)
    case (Inl e)
    then have main: "process_state_main there pid s' = (case e of
        RuntimeError m \<Rightarrow> retM (PROBE_FAILED_EXIT, [], ''process-state probe failed: '' @ m @ [CHR 0x0A]) | _ \<Rightarrow> raiseM e) u"
      by (simp add: process_state_main_def tryM_def bindM_def Pair)
    have "code \<noteq> 0" using runs unfolding main by (cases e) (auto simp: raiseM_def retM_def PROBE_FAILED_EXIT_def)
    then show ?thesis using remote_identity(1) [OF remote] Pair Inl by simp
  next
    case (Inr w)
    have out: "code = 0" "out = dump_json (su there) (probe_reply w) @ [CHR 0x0A]"
      using Pair Inr runs by (auto simp: process_state_main_def tryM_def bindM_def retM_def)
    from out have "fst (read_process_identity env (PInt pid) node allocation s) = Inr w"
      using remote_identity(2) [OF remote] json [OF Pair [unfolded Inr]] local_identity_shape [OF Pair [unfolded Inr]]
      by (auto simp: pget_def probe_reply_def)
    with Inr Pair show ?thesis by simp
  qed
qed

end
