(* ===== verification/QPM_Plan.thy ===== *)
theory QPM_Plan
  imports QPM_Process
begin

text \<open>
  What a service plane will start (\<^verbatim>\<open>setup/qfw_runtime/service_plane.py\<close>, from \<^verbatim>\<open>_resolve_plan\<close> to
  \<^verbatim>\<open>_new_state\<close>): the allocation and its nodes, the directory that is started or found, the one service
  of the manifest with its hosts and ports, the nodes of the DVM, and the first state of the plane.
\<close>

section \<open>Arguments\<close>

text \<open>The poll interval is in milliseconds.\<close>

record plane_args =
  pa_run_dir :: pyval
  pa_site_config :: pyval
  pa_runtime_config :: pyval
  pa_profile :: string
  pa_scope :: string
  pa_node :: pyval
  pa_timeout :: int
  pa_poll_interval :: int
  pa_dry_run :: bool
  pa_component_mode :: string
  pa_directory_node :: pyval
  pa_qpm_node :: pyval
  pa_directory_service_info :: pyval
  pa_service_id :: pyval
  pa_manifest_service_name :: pyval
  pa_allocation :: "pydict option"

definition start_role_args :: "string \<Rightarrow> plane_args \<Rightarrow> exc + plane_args" where
  "start_role_args role args =
     (if role \<notin> {''directory'', ''qpm''} then Inl (ValueError (''unsupported service-plane role: '' @ role))
      else if role = ''qpm'' \<and> \<not> py_truth (pa_service_id args) then Inl (ValueError ''qpm lifecycle requires a service ID'')
      else if role = ''directory'' \<and> py_truth (pa_service_id args)
      then Inl (ValueError ''directory lifecycle does not accept a service ID'')
      else Inr (args\<lparr>pa_component_mode := role, pa_directory_node := PNone, pa_qpm_node := PNone\<rparr>))"

section \<open>The allocation\<close>

definition expand_hosts :: "plane_env \<Rightarrow> string \<Rightarrow> string list" where
  "expand_hosts env v =
     (if v = [] then []
      else case expand_host_list env v of
             Some hosts \<Rightarrow> hosts
           | None \<Rightarrow> filter (\<lambda>t. t \<noteq> []) (map py_strip (split_on (CHR '','') v)))"

definition or_text :: "string \<Rightarrow> string \<Rightarrow> string" where
  "or_text a b = (if a \<noteq> [] then a else b)"

definition allocation_mode :: "plane_env \<Rightarrow> string" where
  "allocation_mode env =
     (let mode = py_lower (py_strip (variable_of (su env) ''QFW_ALLOCATION_MODE''))
      in if mode \<noteq> [] then mode
         else if list_ex (\<lambda>(key, v). starts_with ''SLURM_JOB_NODELIST_HET_GROUP_'' key) (environ (su env)) then ''heterogeneous''
         else if variable_of (su env) ''SLURM_JOB_NODELIST'' \<noteq> [] then ''slurm''
         else ''local'')"

definition allocation_context :: "plane_env \<Rightarrow> exc + pydict" where
  "allocation_context env =
     (let mode = allocation_mode env;
          nodes = (case map_of (environ (su env)) ''SLURM_JOB_NODELIST'' of Some n \<Rightarrow> n | None \<Rightarrow> hostname env);
          value_of = (\<lambda>own het. or_text (variable_of (su env) own)
            (if mode = ''heterogeneous'' then variable_of (su env) het else if mode = ''slurm'' then nodes else hostname env));
          group0_value = value_of ''QFW_GROUP_0_NODELIST'' ''SLURM_JOB_NODELIST_HET_GROUP_0'';
          group1_value = value_of ''QFW_GROUP_1_NODELIST'' ''SLURM_JOB_NODELIST_HET_GROUP_1'';
          group0 = expand_hosts env group0_value; group1 = expand_hosts env group1_value
      in if group0 = [] \<or> group1 = [] then Inl (ServicePlaneError ''service-plane startup requires allocation groups 0 and 1'')
         else Inr [(''mode'', PStr mode), (''group0'', PList (map PStr group0)), (''group1'', PList (map PStr group1)),
                   (''group0_nodelist'', PStr group0_value), (''group1_nodelist'', PStr group1_value)])"

definition group_hosts :: "pydict \<Rightarrow> string \<Rightarrow> exc + string list" where
  "group_hosts allocation key = bindE (sub allocation key) (\<lambda>v. bindE (py_items v) (\<lambda>items. Inr (map py_str items)))"

definition group_head :: "pydict \<Rightarrow> string \<Rightarrow> exc + string" where
  "group_head allocation key =
     bindE (group_hosts allocation key) (\<lambda>hosts.
       case hosts of h # _ \<Rightarrow> Inr h | [] \<Rightarrow> Inl (IndexError ''list index out of range''))"

definition resolve_node_policy :: "plane_env \<Rightarrow> pyval \<Rightarrow> pydict \<Rightarrow> exc + string" where
  "resolve_node_policy env policy allocation =
     (if \<not> py_truth policy \<or> policy = PStr ''group1-head'' then group_head allocation ''group1''
      else if policy = PStr ''group0-head'' then group_head allocation ''group0''
      else if policy = PStr ''local'' then Inr (hostname env)
      else Inr (py_str policy))"

definition resolve_host_policy :: "plane_env \<Rightarrow> pyval \<Rightarrow> pydict \<Rightarrow> exc + string" where
  "resolve_host_policy env policy allocation =
     (if \<not> py_truth policy then Inr []
      else
        bindE (expand_text (su env) (py_str policy)) (\<lambda>p.
          if p = ''group1'' then bindE (group_hosts allocation ''group1'') (\<lambda>hosts. Inr (join_with '','' hosts))
          else if p = ''group0'' then bindE (group_hosts allocation ''group0'') (\<lambda>hosts. Inr (join_with '','' hosts))
          else if p = ''all''
          then bindE (group_hosts allocation ''group0'') (\<lambda>g0. bindE (group_hosts allocation ''group1'') (\<lambda>g1.
                 Inr (join_with '','' (rev (remdups (rev (g0 @ g1)))))))
          else Inr p))"

section \<open>Directories\<close>

text \<open>\<^verbatim>\<open>urlparse\<close> with the loopback address and port 0 where the URL has none.\<close>

definition split_url :: "string \<Rightarrow> exc + (string \<times> int)" where
  "split_url url =
     (let netloc = url_netloc url; info = url_hostinfo netloc; port = snd info
      in if (CHR ''['' \<in> set netloc) \<noteq> (CHR '']'' \<in> set netloc) then Inl (ValueError ''Invalid IPv6 URL'')
         else if \<not> list_all is_digit port then Inl (ValueError (''Port could not be cast to integer value as '' @ repr_text port))
         else if 65535 < decimal_value port then Inl (ValueError ''Port out of range 0-65535'')
         else Inr (or_text (py_lower (fst info)) ''127.0.0.1'', if port = [] then 0 else int (decimal_value port)))"

definition split_endpoint :: "pyval \<Rightarrow> exc + (string \<times> int)" where
  "split_endpoint endpoint =
     (let v = py_str endpoint
      in if contains_text ''://'' v then split_url v
         else case after_last_colon v of
                None \<Rightarrow> Inl (ValueError ''not enough values to unpack (expected 2, got 1)'')
              | Some port \<Rightarrow>
                  bindE (py_int (PStr port)) (\<lambda>p. Inr (take (length v - length port - 1) v, p)))"

definition directory_entry :: "pyval \<Rightarrow> string \<Rightarrow> int \<Rightarrow> int \<Rightarrow> pyval \<Rightarrow> string \<Rightarrow> pyval \<Rightarrow> pydict" where
  "directory_entry name host port telnet_port endpoint connection_file connect_timeout =
     [(''name'', name), (''host'', PStr host), (''port'', PInt port), (''telnet_port'', PInt telnet_port), (''endpoint'', endpoint),
      (''target'', PStr host), (''connection_file'', PStr connection_file), (''connect_timeout_seconds'', connect_timeout)]"

definition resolve_directory ::
  "plane_env \<Rightarrow> pydict \<Rightarrow> string \<Rightarrow> pydict \<Rightarrow> pydict \<Rightarrow> string \<Rightarrow> pyval \<Rightarrow> bool \<Rightarrow> string \<Rightarrow> pydict plane" where
  "resolve_directory env site site_path local allocation scope override_node dry_run run_dir =
     (if scope = ''application''
      then
        bindM (on_disk (allocate_local_endpoint (su env) local dry_run)) (\<lambda>(name, _, port, _).
        bindM (on_disk (allocate_local_telnet_port (su env) local port dry_run)) (\<lambda>telnet_port.
        bindM (liftM (group_head allocation ''group1'')) (\<lambda>host.
        bindM (liftM (bindE (sub_get (pget local ''dirsvc'') ''connect-timeout-seconds''
                 (pgetd local ''connect-timeout-seconds'' (PInt 300))) py_int)) (\<lambda>connect_timeout.
          retM (directory_entry (PStr name) host port telnet_port (PStr (host @ '':'' @ int_text port))
                  (join_path run_dir ''directory-service.json'') (PInt connect_timeout))))))
      else
        bindM (liftM (site_directory_config (su env) site (Some site_path))) (\<lambda>configured.
          if configured = [] then raiseM (ServicePlaneError ''site-owned directory startup requires directory-service configuration'')
          else if \<not> py_truth (pget configured ''connection_file'')
          then raiseM (ServicePlaneError (''qfw-dir-svc requires directory-service.connection-file so it can publish its resolved endpoint''))
          else
            let host = (if py_truth override_node then py_str override_node else hostname env)
            in bindM (liftM (bindE (sub configured ''listen_port'') py_int)) (\<lambda>port.
               bindM (liftM (sub configured ''name'')) (\<lambda>name.
               bindM (liftM (sub configured ''connect_timeout_seconds'')) (\<lambda>connect_timeout.
                 retM (directory_entry name host port (port + 1) (PStr (host @ '':'' @ int_text port))
                         (py_str (pget configured ''connection_file'')) connect_timeout))))))"

definition resolve_existing_directory :: "plane_env \<Rightarrow> pydict \<Rightarrow> string \<Rightarrow> string \<Rightarrow> pyval \<Rightarrow> pydict plane" where
  "resolve_existing_directory env site site_path scope connection_file =
     bindM (if scope = ''site'' then on_disk (site_directory (su env) site (Some site_path) connection_file)
            else
              let selected = py_or connection_file (PStr (variable_of (su env) ''QFW_DIRECTORY_SERVICE_INFO''))
              in if \<not> py_truth selected then raiseM (ServicePlaneError ''application QPM startup requires --directory-service-info'')
                 else on_disk (read_directory_service_connection (su env) selected [])) (\<lambda>configured.
     bindM (liftM (sub configured ''endpoint'')) (\<lambda>endpoint.
     bindM (liftM (split_endpoint endpoint)) (\<lambda>(host, port).
     bindM (liftM (sub configured ''name'')) (\<lambda>name.
       retM (directory_entry name host port (port + 1) endpoint (py_str (py_or (pget configured ''connection_file'') (PStr [])))
               (pgetd configured ''connect_timeout_seconds'' (PInt 300)))))))"

section \<open>Services\<close>

definition selected_service_ids :: "pyval \<Rightarrow> pydict \<Rightarrow> pydict list \<Rightarrow> exc + string" where
  "selected_service_ids explicit local manifest_services =
     bindE (if py_truth explicit then Inr [py_str explicit]
            else if pget local ''services'' \<noteq> PNone then selected_service_names local manifest_services
            else case manifest_services of
                   [service] \<Rightarrow> bindE (sub service ''name'') (\<lambda>n. Inr [py_str n])
                 | _ \<Rightarrow> Inl (ServicePlaneError (''multiple QPM services are available; select one with --service-id: '' @
                          join_with '', '' (map (\<lambda>service. py_str (pgetd service ''name'' (PStr []))) manifest_services))))
       (\<lambda>selected.
          case selected of
            [] \<Rightarrow> Inl (ServicePlaneError ''no QPM service was selected'')
          | [name] \<Rightarrow> Inr name
          | _ \<Rightarrow> Inl (ServicePlaneError (''one service-plane instance manages exactly one QPM; select one service with --service-id'')))"

text \<open>The place of the last service of a name in the manifest.\<close>

definition manifest_index :: "pydict list \<Rightarrow> string \<Rightarrow> nat" where
  "manifest_index services name =
     (case filter (\<lambda>(i, service). py_str (pgetd service ''name'' (PStr [])) = name) (enumerate 0 services) of
        [] \<Rightarrow> 0 | found \<Rightarrow> fst (last found))"

definition list_or_empty :: "pyval \<Rightarrow> exc + pyval" where
  "list_or_empty v = bindE (py_items (py_or v (PList []))) (\<lambda>items. Inr (PList items))"

definition resolve_service ::
  "plane_env \<Rightarrow> plane_args \<Rightarrow> string \<Rightarrow> pydict list \<Rightarrow> pydict \<Rightarrow> pydict \<Rightarrow> pyval \<Rightarrow> string \<Rightarrow> exc + (pydict \<times> pydict)" where
  "resolve_service env args service_name manifest_services local allocation qpm_node default_target =
     bindE (py_int (pgetd local ''service-listen-port-base'' (PInt 8290))) (\<lambda>listen_base.
     bindE (py_int (pgetd local ''service-telnet-port-base'' (PInt 8291))) (\<lambda>telnet_base.
     bindE (py_int (pgetd local ''service-port-stride'' (PInt 100))) (\<lambda>stride.
     bindE (service_by_name manifest_services service_name) (\<lambda>service.
     let index = int (manifest_index manifest_services service_name)
     in bindE (if pa_scope args = ''application'' then group_head allocation ''group1''
               else Inr (py_str (py_or (py_or (pget service ''host'') qpm_node) (PStr default_target)))) (\<lambda>found_target.
        let target = or_text found_target (hostname env)
        in bindE (resolve_host_policy env (pget service ''assigned-hosts'') allocation) (\<lambda>policy_hosts.
           let assigned_hosts = or_text policy_hosts target
           in bindE (py_int (pgetd service ''listen-port'' (PInt (listen_base + index * stride)))) (\<lambda>service_listen.
              bindE (py_int (pgetd service ''telnet-port'' (PInt (telnet_base + index * stride)))) (\<lambda>service_telnet.
              bindE (list_or_empty (pget service ''environment-modules'')) (\<lambda>modules.
              bindE (list_or_empty (pget service ''required-executables'')) (\<lambda>executables.
                Inr ([(''service_id'', py_or (pa_service_id args) (PStr service_name)), (''manifest_service_name'', PStr service_name),
                      (''module'', pgetd service ''module'' (PStr [])), (''target'', PStr target),
                      (''assigned_hosts'', PStr assigned_hosts),
                      (''assigned_hosts_env'', pgetd service ''assigned-hosts-env'' (PStr [])), (''listen_port'', PInt service_listen),
                      (''telnet_port'', PInt service_telnet),
                      (''provider_launch'', py_or (pget service ''provider-launch'') (PDict [])),
                      (''environment_modules'', modules), (''required_executables'', executables)], service)))))))))))"

definition dvm_nodes :: "plane_env \<Rightarrow> pydict \<Rightarrow> pydict list \<Rightarrow> pydict \<Rightarrow> pydict \<Rightarrow> string \<Rightarrow> exc + string list" where
  "dvm_nodes env local services allocation directory scope =
     (if scope = ''application'' then group_hosts allocation ''group1''
      else
        bindE (sub_get (pget local ''prte'') ''hosts'' PNone) (\<lambda>configured.
          if py_truth configured then bindE (expand_text (su env) (py_str configured)) (\<lambda>t. Inr (expand_hosts env t))
          else
            bindE (case services of
                     [] \<Rightarrow> Inr []
                   | service # _ \<Rightarrow> bindE (expand_text (su env) (py_str (pgetd service ''assigned_hosts'' (PStr []))))
                                      (\<lambda>t. Inr (expand_hosts env t))) (\<lambda>hosts.
              let nodes = rev (remdups (rev hosts))
              in if nodes \<noteq> [] then Inr nodes
                 else if py_truth (pget allocation ''group1'') then group_hosts allocation ''group1''
                 else Inr (if py_truth (pget directory ''target'') then [py_str (pget directory ''target'')] else []))))"

section \<open>The plan\<close>

record plane_plan =
  plan_run_dir :: string
  plan_scope :: string
  plan_owner :: string
  plan_site_config :: string
  plan_runtime_config :: string
  plan_service_manifest :: string
  plan_prte :: bool
  plan_directory_started :: bool
  plan_qpm :: bool
  plan_directory :: pydict
  plan_services :: "(pydict \<times> pydict) list"
  plan_dvm_nodes :: "string list"
  plan_allocation :: pydict

definition check_node :: "plane_env \<Rightarrow> pydict \<Rightarrow> pyval \<Rightarrow> exc + unit" where
  "check_node env allocation node =
     (if node = PNone then Inr ()
      else
        bindE (sub allocation ''mode'') (\<lambda>mode.
          if mode = PStr ''local'' \<and> node \<notin> {PStr ''127.0.0.1'', PStr ''localhost'', PStr (hostname env)}
          then Inl (ServicePlaneError (''cannot launch on '' @ py_repr node @
                 '' outside a Slurm allocation; run the manager on that node or invoke it inside an allocation''))
          else Inr ()))"

text \<open>Whether the provider of a service is launched through the DVM.\<close>

definition service_uses_dvm :: "pydict \<Rightarrow> exc + bool" where
  "service_uses_dvm service =
     bindE (as_mapping (pget service ''provider_launch'')) (\<lambda>launch.
       Inr (pget launch ''type'' = PStr ''mpi'' \<and> bool_config (pget launch ''use-dvm'') True))"

definition plan_manifest :: "plane_env \<Rightarrow> plane_args \<Rightarrow> pydict \<Rightarrow> string \<Rightarrow> pydict \<Rightarrow> string \<Rightarrow> exc + string" where
  "plan_manifest env args site site_path local qfw =
     (if pa_scope args = ''application'' then service_manifest_path (su env) local (Some qfw)
      else bindE (site_service_config (su env) site (Some site_path)) (\<lambda>paths.
             Inr (case map_of paths ''manifest'' of Some p \<Rightarrow> p | None \<Rightarrow> [])))"

definition plan_service ::
  "plane_env \<Rightarrow> plane_args \<Rightarrow> string \<Rightarrow> pydict \<Rightarrow> pydict \<Rightarrow> pydict \<Rightarrow> pyval \<Rightarrow> (pydict \<times> pydict) plane" where
  "plan_service env args manifest_path local allocation directory qpm_node =
     (if manifest_path = [] then raiseM (ServicePlaneError ''QPM startup requires a service manifest'')
      else
        bindM (on_disk (load_service_manifest (su env) manifest_path)) (\<lambda>manifest_services.
        bindM (liftM (selected_service_ids (py_or (pa_manifest_service_name args) (pa_service_id args)) local manifest_services)) (\<lambda>name.
          liftM (resolve_service env args name manifest_services local allocation qpm_node
            (if pa_scope args = ''site'' then hostname env else py_str (pgetd directory ''target'' (PStr [])))))))"

definition resolve_plan :: "plane_env \<Rightarrow> plane_args \<Rightarrow> string \<Rightarrow> plane_plan plane" where
  "resolve_plan env args run_dir =
     (if pa_timeout args \<le> 0 then raiseM (ValueError ''--timeout must be positive'')
      else if pa_poll_interval args \<le> 0 then raiseM (ValueError ''--poll-interval must be positive'')
      else
        bindM (liftM (resolve_site_config (su env) (pa_site_config args))) (\<lambda>site_path'.
        let site_path = (case site_path' of Some p \<Rightarrow> p | None \<Rightarrow> []) in
        bindM (on_disk (setup_load_yaml (su env) site_path)) (\<lambda>site.
        bindM (on_disk (site_install_prefixes (su env) site)) (\<lambda>(qfw, defw).
        bindM (liftM (resolve_runtime_config (su env) (pa_runtime_config args) (pa_profile args) (Some qfw))) (\<lambda>runtime_path'.
        let runtime_path = (case runtime_path' of Some p \<Rightarrow> p | None \<Rightarrow> []) in
        bindM (on_disk (setup_load_yaml (su env) runtime_path)) (\<lambda>runtime.
        bindM (liftM (local_services runtime)) (\<lambda>local.
        bindM (case pa_allocation args of
                 Some a \<Rightarrow> if a \<noteq> [] then retM a else liftM (allocation_context env)
               | None \<Rightarrow> liftM (allocation_context env)) (\<lambda>allocation.
        let is_directory = (pa_component_mode args = ''directory''); is_qpm = (pa_component_mode args = ''qpm'') in
        if \<not> is_directory \<and> \<not> is_qpm
        then raiseM (ServicePlaneError (''unsupported service-plane role: '' @ pa_component_mode args))
        else if pa_scope args = ''application'' \<and> py_truth (pa_node args)
        then raiseM (ServicePlaneError ''--node is not accepted in application scope; group1-head is selected automatically'')
        else
          let directory_node = py_or (pa_directory_node args) (if is_directory then pa_node args else PNone);
              qpm_node = py_or (pa_qpm_node args) (if is_qpm then pa_node args else PNone)
          in seqM (liftM (check_node env allocation directory_node)) (seqM (liftM (check_node env allocation qpm_node))
          (if pa_scope args = ''application'' \<and> local = []
           then raiseM (ServicePlaneError ''application scope requires local-services in the runtime config'')
           else
             bindM (if is_directory
                    then resolve_directory env site site_path local allocation (pa_scope args) directory_node (pa_dry_run args) run_dir
                    else resolve_existing_directory env site site_path (pa_scope args) (pa_directory_service_info args)) (\<lambda>directory.
             bindM (liftM (plan_manifest env args site site_path local qfw)) (\<lambda>manifest_path.
             bindM (if is_qpm
                    then bindM (plan_service env args manifest_path local allocation directory qpm_node) (\<lambda>service. retM [service])
                    else retM []) (\<lambda>services.
             bindM (case services of
                      [] \<Rightarrow> retM False
                    | (service, _) # _ \<Rightarrow>
                        bindM (liftM (service_uses_dvm service)) (\<lambda>needs.
                          retM (if \<not> has_key local ''start-prte'' then needs
                                else bool_config (pget local ''start-prte'') False \<and> needs))) (\<lambda>prte.
             if is_qpm \<and> \<not> py_truth (pget directory ''endpoint'')
             then raiseM (ServicePlaneError ''QPM startup requires a directory endpoint'')
             else
               bindM (liftM (dvm_nodes env local (map fst services) allocation directory (pa_scope args))) (\<lambda>nodes.
                 retM \<lparr>plan_run_dir = run_dir, plan_scope = pa_scope args,
                   plan_owner = (if pa_scope args = ''application'' then ''application'' else ''site''), plan_site_config = site_path,
                   plan_runtime_config = runtime_path, plan_service_manifest = manifest_path, plan_prte = prte,
                   plan_directory_started = is_directory, plan_qpm = is_qpm, plan_directory = directory, plan_services = services,
                   plan_dvm_nodes = nodes, plan_allocation = allocation\<rparr>)))))))))))))))"

definition new_plane_state :: "plane_env \<Rightarrow> plane_plan \<Rightarrow> bool \<Rightarrow> pydict plane" where
  "new_plane_state env plan dry_run =
     bindM (call_plane env Time_ns) (\<lambda>now.
       retM [(''schema'', PStr SCHEMA), (''instance_id'', PStr (uuid4_hex (su env))), (''state'', PStr ''starting''),
         (''run_dir'', PStr (plan_run_dir plan)), (''scope'', PStr (plan_scope plan)), (''owner'', PStr (plan_owner plan)),
         (''dry_run'', PBool dry_run),
         (''configuration'', PDict
            [(''site_config'', PStr (plan_site_config plan)), (''runtime_config'', PStr (plan_runtime_config plan)),
             (''service_manifest'', PStr (plan_service_manifest plan)),
             (''components'', PDict [(''prte'', PBool (plan_prte plan)), (''directory'', PBool (plan_directory_started plan)),
                (''qpm'', PBool (plan_qpm plan))]),
             (''service_ids'', PList (map (\<lambda>(service, _). pget service ''service_id'') (plan_services plan)))]),
         (''directory'', PDict (plan_directory plan)), (''services'', PList (map (PDict \<circ> fst) (plan_services plan))),
         (''dvm'', PDict [(''nodes'', PList (map PStr (plan_dvm_nodes plan))),
            (''uri_path'', PStr (join_all (plan_run_dir plan) [''prte_dvm'', ''dvm-uri''])),
            (''launch_node'', PStr (case plan_dvm_nodes plan of n # _ \<Rightarrow> n | [] \<Rightarrow> []))]),
         (''allocation'', PDict (plan_allocation plan)), (''components'', PDict []), (''created_at_ns'', now), (''updated_at_ns'', now)])"

section \<open>A site without a directory\<close>

text \<open>
  A site that configures no directory and gives no other endpoint: the plan of a QPM ends with the
  missing key, before the check that reports a missing endpoint.
\<close>

lemma no_directory_no_report:
  assumes "\<not> py_truth (pget site ''directory-service'')" "variable_of (su env) ''QFW_SITE_DIRSVC_ENDPOINTS'' = []"
    and "variable_of (su env) ''QFW_DIRECTORY_SERVICE_INFO'' = []"
  shows "resolve_existing_directory env site site_path ''site'' PNone s = (Inl (KeyError ''endpoint''), s)"
  using assms by (simp add: resolve_existing_directory_def site_directory_def site_directory_config_def split_config_list_def on_disk_def
      pget_def pgetd_def sub_def py_or_def mapping_of_def monad_defs Let_def)

end
