(* ===== verification/QPM_Plane.thy ===== *)
theory QPM_Plane
  imports QPM_Plan
begin

text \<open>
  The life of a service plane (\<^verbatim>\<open>setup/qfw_runtime/service_plane.py\<close>): starting a directory, a DVM or a
  QPM, reporting their state, stopping them, and the manager that watches them. The state of a plane
  is the mapping of its state file. The lemmas show what a stop that returns has established of every
  component, that an answer that does not come is never read as a process that is gone, and that a
  plane that may be running is not taken over.
\<close>

section \<open>The connection record of a directory\<close>

definition directory_connection_active :: "plane_env \<Rightarrow> pydict \<Rightarrow> bool plane" where
  "directory_connection_active env rec =
     (if pget rec ''ready'' \<noteq> PBool True then retM False
      else if \<not> py_truth (pget rec ''endpoint'') then retM True
      else case split_endpoint (pget rec ''endpoint'') of
             Inl e \<Rightarrow> retM False
           | Inr (host, port) \<Rightarrow> tryM (call_flag env (Dial host port))
               (\<lambda>e. case e of OSError m \<Rightarrow> retM False | TypeError m \<Rightarrow> retM False | ValueError m \<Rightarrow> retM False | _ \<Rightarrow> raiseM e))"

text \<open>The record at a path, or what a file that is not there or not JSON gives.\<close>

definition connection_record :: "plane_env \<Rightarrow> string \<Rightarrow> pyval option plane" where
  "connection_record env path =
     tryM (bindM (on_disk (load_json (su env) path)) (\<lambda>v. retM (Some v)))
       (\<lambda>e. case e of OSError m \<Rightarrow> retM None | ValueError m \<Rightarrow> retM None | _ \<Rightarrow> raiseM e)"

definition state_directory :: "pydict \<Rightarrow> exc + pydict" where
  "state_directory state = as_mapping (py_or (pget state ''directory'') (PDict []))"

definition write_connection :: "plane_env \<Rightarrow> pydict \<Rightarrow> pydict \<Rightarrow> string \<Rightarrow> bool \<Rightarrow> unit plane" where
  "write_connection env state directory path ready =
     bindM (connection_record env path) (\<lambda>found.
     bindM (liftM (as_mapping (case found of Some v \<Rightarrow> v | None \<Rightarrow> PDict []))) (\<lambda>existing.
     bindM (directory_connection_active env existing) (\<lambda>active.
       if active \<and> \<not> py_eq (pget existing ''instance_id'') (pget state ''instance_id'')
       then raiseM (ServicePlaneError (''directory-service connection file is owned by active instance '' @
              py_str (pget existing ''instance_id'') @ '': '' @ path))
       else
         bindM (liftM (sub state ''instance_id'')) (\<lambda>instance_id.
         bindM (liftM (sub directory ''name'')) (\<lambda>name.
         bindM (liftM (sub directory ''endpoint'')) (\<lambda>endpoint.
         bindM (call_plane env Time_ns) (\<lambda>now.
           on_disk (write_file path (Json_file (PDict
             [(''schema'', PStr DIRECTORY_SERVICE_CONNECTION_SCHEMA), (''instance_id'', instance_id), (''name'', name),
              (''endpoint'', endpoint), (''connect_timeout_seconds'', pgetd directory ''connect_timeout_seconds'' (PInt 300)),
              (''ready'', PBool ready), (''updated_at_ns'', now)]))))))))))"

definition publish_directory_connection :: "plane_env \<Rightarrow> pydict \<Rightarrow> bool \<Rightarrow> unit plane" where
  "publish_directory_connection env state ready =
     (if py_truth (pget state ''dry_run'') then retM ()
      else
        bindM (liftM (state_directory state)) (\<lambda>directory.
          if \<not> py_truth (pget directory ''connection_file'') then retM ()
          else
            let path = py_str (pget directory ''connection_file'')
            in seqM (on_disk (make_dir (parent_path path)))
               (seqM (call_plane env (Lock_file path))
                 (finallyM (write_connection env state directory path ready) (call_plane env (Unlock_file path))))))"

definition withdraw_directory_connection :: "plane_env \<Rightarrow> pydict \<Rightarrow> unit plane" where
  "withdraw_directory_connection env state =
     (if py_truth (pget state ''dry_run'') then retM ()
      else
        bindM (liftM (state_directory state)) (\<lambda>directory.
          if \<not> py_truth (pget directory ''connection_file'') then retM ()
          else
            bindM (connection_record env (py_str (pget directory ''connection_file''))) (\<lambda>found.
              case found of
                None \<Rightarrow> retM ()
              | Some v \<Rightarrow>
                  bindM (liftM (as_mapping v)) (\<lambda>rec.
                    if \<not> py_eq (pget rec ''instance_id'') (pget state ''instance_id'') then retM ()
                    else publish_directory_connection env state False))))"

section \<open>Components\<close>

text \<open>The components of a state, in the order they were started.\<close>

fun component_dicts :: "pydict \<Rightarrow> exc + (string \<times> pydict) list" where
  "component_dicts [] = Inr []"
| "component_dicts ((key, v) # rest) =
     bindE (as_mapping v) (\<lambda>c. bindE (component_dicts rest) (\<lambda>cs. Inr ((key, c) # cs)))"

definition plane_components :: "pydict \<Rightarrow> exc + (string \<times> pydict) list" where
  "plane_components state = bindE (as_mapping (pgetd state ''components'' (PDict []))) component_dicts"

definition with_components :: "(string \<times> pydict) list \<Rightarrow> pydict \<Rightarrow> pydict" where
  "with_components cs state = dset ''components'' (PDict (map (\<lambda>(k, c). (k, PDict c)) cs)) state"

definition state_allocation :: "pydict \<Rightarrow> exc + pydict" where
  "state_allocation state = bindE (sub state ''allocation'') as_mapping"

text \<open>A component whose probe gives no answer raises.\<close>

definition verified_component_status :: "plane_env \<Rightarrow> pydict \<Rightarrow> pydict \<Rightarrow> string plane" where
  "verified_component_status env c state =
     (if pget c ''pid'' = PNone \<or> \<not> py_truth (pget c ''process_identity'') then retM ''missing''
      else
        bindM (liftM (state_allocation state)) (\<lambda>allocation.
        bindM (read_process_identity env (pget c ''pid'') (pget c ''node'') allocation) (\<lambda>observed.
          retM (if observed = PNone then ''dead''
                else if \<not> identities_match (pget c ''process_identity'') observed then ''identity-mismatch''
                else ''alive''))))"

definition component_process_status :: "plane_env \<Rightarrow> pydict \<Rightarrow> pydict \<Rightarrow> string plane" where
  "component_process_status env c state =
     tryM (verified_component_status env c state)
       (\<lambda>e. case e of ServicePlaneError m \<Rightarrow> retM ''unknown'' | _ \<Rightarrow> raiseM e)"

definition component_files_ready :: "plane_env \<Rightarrow> pydict \<Rightarrow> bool plane" where
  "component_files_ready env c =
     bindM (liftM (sub c ''role'')) (\<lambda>role.
       if role = PStr ''prte-dvm'' then bindM (liftM (sub c ''uri_path'')) (\<lambda>p. nonempty_file (py_str p))
       else bindM (liftM (sub c ''ready_file'')) (\<lambda>p. ready_file env (py_str p)))"

definition component_ready :: "plane_env \<Rightarrow> pydict \<Rightarrow> pydict \<Rightarrow> bool plane" where
  "component_ready env c state =
     (if py_truth (pget state ''dry_run'') then component_files_ready env c
      else bindM (component_process_status env c state) (\<lambda>status.
        if status \<noteq> ''alive'' then retM False else component_files_ready env c))"

primrec any_active :: "plane_env \<Rightarrow> pydict \<Rightarrow> (string \<times> pydict) list \<Rightarrow> bool plane" where
  "any_active env state [] = retM False"
| "any_active env state (kc # cs) =
     (if pget (snd kc) ''state'' = PStr ''stopped'' then any_active env state cs
      else
        bindM (component_ready env (snd kc) state) (\<lambda>ready.
          if ready then retM True
          else bindM (component_process_status env (snd kc) state) (\<lambda>status.
            if status \<in> {''alive'', ''unknown''} then retM True else any_active env state cs)))"

definition recorded_instance_active :: "plane_env \<Rightarrow> pydict \<Rightarrow> bool plane" where
  "recorded_instance_active env state = bindM (liftM (plane_components state)) (any_active env state)"

definition observed_component_state :: "plane_env \<Rightarrow> pydict \<Rightarrow> pydict \<Rightarrow> bool \<Rightarrow> (pydict \<times> string) plane" where
  "observed_component_state env c state ready =
     (if ready then retM (dset ''liveness'' (PStr ''alive'') c, ''ready'')
      else if py_truth (pget state ''dry_run'') then retM (c, ''stale'')
      else
        bindM (component_process_status env c state) (\<lambda>liveness.
          retM (dset ''liveness'' (PStr liveness) c,
                if liveness \<in> {''dead'', ''identity-mismatch''} then ''dead''
                else if liveness \<noteq> ''alive'' then ''stale''
                else if pget c ''state'' = PStr ''starting'' then ''starting''
                else ''not-ready'')))"

definition CONTROL_FILES :: "string list" where
  "CONTROL_FILES = [''pid_file'', ''ready_file'', ''service_ready_file'', ''uri_path'']"

definition discard_component_control_files :: "pydict \<Rightarrow> unit plane" where
  "discard_component_control_files c =
     forM CONTROL_FILES (\<lambda>key. if py_truth (pget c key) then unlink_file (py_str (pget c key)) else retM ())"

text \<open>\<^verbatim>\<open>state.get("configuration", {}).get("components", {}).get(key)\<close>\<close>

definition configured_component :: "pydict \<Rightarrow> string \<Rightarrow> exc + bool" where
  "configured_component state key =
     bindE (as_mapping (pgetd state ''configuration'' (PDict []))) (\<lambda>configuration.
     bindE (as_mapping (pgetd configuration ''components'' (PDict []))) (\<lambda>components. Inr (py_truth (pget components key))))"

definition discard_stale_control_files :: "plane_env \<Rightarrow> pydict \<Rightarrow> unit plane" where
  "discard_stale_control_files env state =
     bindM (liftM (configured_component state ''directory'')) (\<lambda>directory.
     seqM (if directory then withdraw_directory_connection env state else retM ())
       (bindM (liftM (plane_components state)) (\<lambda>cs. forM cs (\<lambda>kc. discard_component_control_files (snd kc)))))"

section \<open>Stopping\<close>

definition add_module :: "pyval list \<Rightarrow> pyval \<Rightarrow> pyval list" where
  "add_module modules name = (if list_ex (py_eq name) modules then modules else modules @ [name])"

fun service_modules :: "pyval list \<Rightarrow> pyval list \<Rightarrow> exc + pyval list" where
  "service_modules modules [] = Inr modules"
| "service_modules modules (service # services) =
     bindE (as_mapping service) (\<lambda>d. bindE (py_items (pgetd d ''environment_modules'' (PList []))) (\<lambda>names.
       service_modules (foldl add_module modules names) services))"

definition stopped_service_environment :: "plane_env \<Rightarrow> pydict \<Rightarrow> (string \<times> string) list plane" where
  "stopped_service_environment env state =
     bindM (liftM (bindE (py_items (pgetd state ''services'' (PList []))) (service_modules []))) (\<lambda>modules.
       if modules = [] then retM (environ (su env)) else load_modules env (map py_str modules) (environ (su env)))"

definition ask_pterm :: "plane_env \<Rightarrow> pydict \<Rightarrow> pydict \<Rightarrow> (string \<times> string) list \<Rightarrow> string \<Rightarrow> unit plane" where
  "ask_pterm env c state environment uri_path =
     bindM (command_path env ''pterm'' environment) (\<lambda>pterm.
     bindM (liftM (state_allocation state)) (\<lambda>allocation.
       tryM (run_on_node env (pget c ''node'') [pterm, ''--dvm'', ''file:'' @ uri_path] environment allocation)
         (\<lambda>e. case e of ServicePlaneError m \<Rightarrow> retM () | _ \<Rightarrow> raiseM e)))"

text \<open>A process that was seen to be the recorded one is told to end.\<close>

definition end_verified :: "plane_env \<Rightarrow> pydict \<Rightarrow> pydict \<Rightarrow> string \<Rightarrow> unit plane" where
  "end_verified env c state seen =
     (if seen = ''alive''
      then bindM (liftM (bindE (sub c ''pid'') py_int)) (\<lambda>pid.
           bindM (liftM (state_allocation state)) (\<lambda>allocation. terminate_pid env pid (pget c ''node'') allocation))
      else retM ())"

definition stop_prte :: "plane_env \<Rightarrow> pydict \<Rightarrow> pydict \<Rightarrow> (string \<times> string) list \<Rightarrow> unit plane" where
  "stop_prte env c state environment =
     bindM (liftM (sub c ''uri_path'')) (\<lambda>uri.
       if py_truth (pget state ''dry_run'') then discard_component_control_files c
       else
         bindM (verified_component_status env c state) (\<lambda>seen.
         bindM (on_disk (path_exists (py_str uri))) (\<lambda>present.
         seqM (if seen = ''alive'' \<and> present then ask_pterm env c state environment (py_str uri) else retM ())
         (bindM (if seen = ''alive'' then verified_component_status env c state else retM seen) (\<lambda>running.
           finallyM (end_verified env c state running) (discard_component_control_files c))))))"

definition stop_process :: "plane_env \<Rightarrow> pydict \<Rightarrow> pydict \<Rightarrow> unit plane" where
  "stop_process env c state =
     bindM (liftM (sub c ''role'')) (\<lambda>role.
       if role = PStr ''prte-dvm'' then bindM (stopped_service_environment env state) (stop_prte env c state)
       else if py_truth (pget state ''dry_run'') then retM ()
       else bindM (verified_component_status env c state) (end_verified env c state))"

text \<open>One component: what it becomes, and the error it is reported with.\<close>

definition stop_component :: "plane_env \<Rightarrow> pydict \<Rightarrow> string \<Rightarrow> pydict \<Rightarrow> (pydict \<times> string option) plane" where
  "stop_component env state key c =
     catchM (seqM (stop_process env c state)
            (seqM (discard_component_control_files c)
              (bindM (call_plane env Time_ns) (\<lambda>now.
                 retM (dset ''stopped_at_ns'' now (dset ''state'' (PStr ''stopped'') (dset ''ready'' (PBool False) c)), None)))))
       (\<lambda>e. retM (dset ''error'' (PStr (exc_text e)) (dset ''state'' (PStr ''error'') c), Some (key @ '': '' @ exc_text e)))"

primrec stop_each :: "plane_env \<Rightarrow> pydict \<Rightarrow> (string \<times> pydict) list \<Rightarrow> ((string \<times> pydict) list \<times> string list) plane" where
  "stop_each env state [] = retM ([], [])"
| "stop_each env state (kc # cs) =
     bindM (stop_each env state cs) (\<lambda>(stopped, errors).
     bindM (stop_component env state (fst kc) (snd kc)) (\<lambda>(c, e).
       retM ((fst kc, c) # stopped, errors @ (case e of Some m \<Rightarrow> [m] | None \<Rightarrow> []))))"

text \<open>The last component that was started is stopped first.\<close>

definition stop_components :: "plane_env \<Rightarrow> pydict \<Rightarrow> (pydict \<times> string list) plane" where
  "stop_components env state =
     bindM (liftM (configured_component state ''directory'')) (\<lambda>directory.
     bindM (if directory
            then catchM (seqM (withdraw_directory_connection env state) (retM []))
                   (\<lambda>e. retM [''directory connection record: '' @ exc_text e])
            else retM []) (\<lambda>withdrawn.
     bindM (liftM (plane_components state)) (\<lambda>cs.
     bindM (stop_each env state cs) (\<lambda>(stopped, errors).
       retM (if has_key state ''components'' then with_components stopped state else state, withdrawn @ errors)))))"

text \<open>The record of a stop, and the error it raises when a component could not be stopped.\<close>

definition finish_stop :: "plane_env \<Rightarrow> pydict \<Rightarrow> string list \<Rightarrow> pydict plane" where
  "finish_stop env state errors =
     bindM (if errors \<noteq> []
            then retM (dset ''error'' (PStr (join_with ''; '' errors)) (dset ''state'' (PStr ''error'') state))
            else bindM (call_plane env Time_ns) (\<lambda>now.
              retM (dset ''stopped_at_ns'' now (dpop ''error'' (dset ''state'' (PStr ''stopped'') state))))) (\<lambda>state.
     bindM (call_plane env Time_ns) (\<lambda>now.
     let state = dset ''updated_at_ns'' now state in
     seqM (write_plane_state env state)
       (if errors \<noteq> [] then raiseM (ServicePlaneError (join_with ''; '' errors)) else retM state)))"

definition stop_locked :: "plane_env \<Rightarrow> string \<Rightarrow> pydict plane" where
  "stop_locked env run_dir =
     bindM (read_plane_state env run_dir True) (\<lambda>found.
       let state = (case found of Some st \<Rightarrow> st | None \<Rightarrow> []) in
       if pget state ''state'' = PStr ''stopped'' then retM state
       else bindM (stop_components env state) (\<lambda>(state, errors). finish_stop env state errors))"

definition stop :: "plane_env \<Rightarrow> pyval \<Rightarrow> pydict plane" where
  "stop env run_dir_value =
     bindM (liftM (resolve_run_dir env run_dir_value)) (\<lambda>run_dir. state_lock env run_dir (stop_locked env run_dir))"

section \<open>Reporting\<close>

definition expected_component_keys :: "pydict \<Rightarrow> exc + string list" where
  "expected_component_keys state =
     bindE (configured_component state ''prte'') (\<lambda>prte.
     bindE (configured_component state ''directory'') (\<lambda>directory.
     bindE (configured_component state ''qpm'') (\<lambda>qpm.
     bindE (if qpm then bindE (sub state ''configuration'') (\<lambda>v. bindE (as_mapping v) (\<lambda>configuration.
              py_items (pgetd configuration ''service_ids'' (PList [])))) else Inr []) (\<lambda>ids.
       Inr ((if prte then [''prte-dvm''] else []) @ (if directory then [''directory''] else []) @
            map (\<lambda>i. ''qpm:'' @ py_str i) ids)))))"

primrec check_each :: "plane_env \<Rightarrow> pydict \<Rightarrow> (string \<times> pydict) list \<Rightarrow> (string \<times> pydict) list plane" where
  "check_each env state [] = retM []"
| "check_each env state (kc # cs) =
     bindM (component_ready env (snd kc) state) (\<lambda>ready.
     bindM (observed_component_state env (dset ''ready'' (PBool ready) (snd kc)) state ready) (\<lambda>(c, observed).
     bindM (call_plane env Time_ns) (\<lambda>now.
     bindM (check_each env state cs) (\<lambda>rest.
       retM ((fst kc, dset ''checked_at_ns'' now (dset ''state'' (PStr observed) c)) # rest)))))"

definition observed_plane :: "string list \<Rightarrow> (string \<times> pydict) list \<Rightarrow> string" where
  "observed_plane expected checked =
     (if set (map fst checked) = set expected \<and> list_all (\<lambda>(k, c). py_truth (pget c ''ready'')) checked then ''ready''
      else if list_ex (\<lambda>(k, c). pget c ''state'' = PStr ''stale'') checked then ''stale''
      else if list_ex (\<lambda>(k, c). pget c ''state'' = PStr ''starting'') checked then ''starting''
      else ''degraded'')"

definition report_plane :: "plane_env \<Rightarrow> pydict \<Rightarrow> string list \<Rightarrow> (string \<times> pydict) list \<Rightarrow> pydict plane" where
  "report_plane env state expected checked =
     seqM (case map_of checked ''directory'' of
             Some c \<Rightarrow> if c \<noteq> [] then publish_directory_connection env state (py_truth (pget c ''ready'')) else retM ()
           | None \<Rightarrow> retM ())
     (bindM (call_plane env Time_ns) (\<lambda>now.
      let state = dset ''updated_at_ns'' now (dset ''state'' (PStr (observed_plane expected checked)) state) in
      seqM (write_plane_state env state) (retM state)))"

definition status_locked :: "plane_env \<Rightarrow> string \<Rightarrow> pydict plane" where
  "status_locked env run_dir =
     bindM (read_plane_state env run_dir True) (\<lambda>found.
       let state = (case found of Some st \<Rightarrow> st | None \<Rightarrow> []) in
       if pget state ''state'' = PStr ''stopped'' then retM state
       else
         bindM (liftM (expected_component_keys state)) (\<lambda>expected.
         bindM (liftM (plane_components state)) (\<lambda>cs.
         bindM (check_each env state cs) (\<lambda>checked.
           report_plane env (if has_key state ''components'' then with_components checked state else state) expected checked))))"

definition status :: "plane_env \<Rightarrow> pyval \<Rightarrow> pydict plane" where
  "status env run_dir_value =
     bindM (liftM (resolve_run_dir env run_dir_value)) (\<lambda>run_dir. state_lock env run_dir (status_locked env run_dir))"

section \<open>Starting\<close>

definition upd_state :: "string \<Rightarrow> pyval \<Rightarrow> unit plane" where
  "upd_state key v = modM (\<lambda>s. s\<lparr>pl_state := dset key v (pl_state s)\<rparr>)"

text \<open>\<^verbatim>\<open>state["components"][key] = record\<close>, and a field of a record that is there.\<close>

definition put_component :: "string \<Rightarrow> pydict \<Rightarrow> unit plane" where
  "put_component key c = modM (\<lambda>s. s\<lparr>pl_state :=
     (case pget (pl_state s) ''components'' of
        PDict cs \<Rightarrow> dset ''components'' (PDict (dset key (PDict c) cs)) (pl_state s) | _ \<Rightarrow> pl_state s)\<rparr>)"

definition write_current :: "plane_env \<Rightarrow> unit plane" where
  "write_current env = bindM (getM pl_state) (write_plane_state env)"

definition component_is_ready :: "plane_env \<Rightarrow> string \<Rightarrow> pydict \<Rightarrow> unit plane" where
  "component_is_ready env key c =
     bindM (call_plane env Time_ns) (\<lambda>now.
     seqM (put_component key (dset ''ready_at_ns'' now (dset ''ready'' (PBool True) (dset ''state'' (PStr ''ready'') c))))
       (seqM (upd_state ''updated_at_ns'' now) (write_current env)))"

text \<open>The process of a component after its launch: its number and its identity are recorded as they become known.\<close>

definition record_process :: "plane_env \<Rightarrow> string \<Rightarrow> pydict \<Rightarrow> string \<Rightarrow> pydict \<Rightarrow> pydict plane" where
  "record_process env key c pid_file allocation =
     bindM (read_pid env pid_file) (\<lambda>pid.
     let c = dset ''pid'' (PInt pid) c in
     seqM (put_component key c)
       (bindM (require_process_identity env (PInt pid) (pget c ''node'') allocation) (\<lambda>identity.
        let c = dset ''process_identity'' identity c in seqM (put_component key c) (retM c))))"

definition prte_runtime_args :: "pydict \<Rightarrow> exc + string list" where
  "prte_runtime_args allocation =
     bindE (sub allocation ''mode'') (\<lambda>mode.
       Inr (if mode = PStr ''heterogeneous''
            then [''--prtemca'', ''ras'', ''^slurm'', ''--prtemca'', ''plm'', ''slurm'', ''--prtemca'', ''plm_slurm_args'', ''--het-group 1'']
            else if mode = PStr ''slurm'' then [''--prtemca'', ''ras'', ''^slurm'', ''--prtemca'', ''plm'', ''slurm''] else []))"

definition prte_job_args :: "plane_env \<Rightarrow> string list" where
  "prte_job_args env =
     (let job_id = or_text (variable_of (su env) ''QFW_JOB_ID'') (variable_of (su env) ''SLURM_JOB_ID'')
      in if job_id \<noteq> [] \<and> job_id \<noteq> ''-1'' then [''-x'', ''SLURM_JOB_ID='' @ job_id, ''-x'', ''SLURM_JOBID='' @ job_id] else [])"

definition launch_prte :: "plane_env \<Rightarrow> plane_plan \<Rightarrow> int \<Rightarrow> string \<Rightarrow> string \<Rightarrow> (string \<times> string) list \<Rightarrow> unit plane" where
  "launch_prte env plan timeout uri_path pid_file environment =
     bindM (command_path env ''prte'' environment) (\<lambda>prte.
     bindM (liftM (prte_runtime_args (plan_allocation plan))) (\<lambda>runtime_args.
     let command = [prte, ''--host'', join_with '','' (map (\<lambda>h. h @ '':*'') (plan_dvm_nodes plan)), ''--report-uri'', uri_path,
             ''--report-pid'', pid_file] @ prte_job_args env @ runtime_args @
             (if is_root env then [''--allow-run-as-root''] else []) @ [''--keepalive'', ''0'', ''--daemonize''];
         node = PStr (case plan_dvm_nodes plan of n # _ \<Rightarrow> n | [] \<Rightarrow> [])
     in seqM (run_on_node env node command environment (plan_allocation plan))
        (bindM (call_plane env Monotonic) (\<lambda>t. bindM (liftM (py_int t)) (\<lambda>now.
           wait_for env (bindM (nonempty_file uri_path) (\<lambda>u. bindM (nonempty_file pid_file) (\<lambda>p. retM (u \<and> p))))
             (now + timeout) timeout (''PRTE DVM URI and PID under '' @ parent_path uri_path) (poll_rounds env))))))"

definition start_prte :: "plane_env \<Rightarrow> plane_plan \<Rightarrow> bool \<Rightarrow> int \<Rightarrow> (string \<times> string) list \<Rightarrow> unit plane" where
  "start_prte env plan dry_run timeout environment =
     (let uri_path = join_all (plan_run_dir plan) [''prte_dvm'', ''dvm-uri'']; pid_file = join_path (parent_path uri_path) ''pid'';
          c = [(''role'', PStr ''prte-dvm''), (''owner'', PStr (plan_owner plan)), (''state'', PStr ''starting''), (''ready'', PBool False),
               (''node'', PStr (case plan_dvm_nodes plan of n # _ \<Rightarrow> n | [] \<Rightarrow> [])), (''nodes'', PList (map PStr (plan_dvm_nodes plan))),
               (''uri_path'', PStr uri_path), (''pid_file'', PStr pid_file)]
      in seqM (on_disk (make_dir (parent_path uri_path)))
         (seqM (unlink_file uri_path) (seqM (unlink_file pid_file)
         (seqM (put_component ''prte-dvm'' c) (seqM (write_current env)
         (bindM (if dry_run then seqM (on_disk (write_file uri_path (Text_file (''dry-run-dvm-uri'' @ [CHR 0x0A])))) (retM c)
                 else seqM (launch_prte env plan timeout uri_path pid_file environment)
                        (record_process env ''prte-dvm'' c pid_file (plan_allocation plan))) (\<lambda>c.
            component_is_ready env ''prte-dvm'' c)))))))"

definition write_dry_run_component :: "plane_env \<Rightarrow> pydict \<Rightarrow> string \<Rightarrow> pydict plane" where
  "write_dry_run_component env c ready_path =
     bindM (call_plane env Time_ns) (\<lambda>now.
     seqM (on_disk (seqM (make_dir (parent_path ready_path)) (write_file ready_path (Json_file (PDict
             [(''ready'', PBool True), (''role'', pget c ''role''), (''timestamp_ns'', now)])))))
       (retM (dset ''pid'' PNone c)))"

definition start_directory :: "plane_env \<Rightarrow> plane_plan \<Rightarrow> bool \<Rightarrow> int \<Rightarrow> unit plane" where
  "start_directory env plan dry_run timeout =
     (let d = plan_directory plan; name = py_str (pget d ''name''); dir = join_all (plan_run_dir plan) [''services'', name];
          pid_file = join_path dir ''pid''; ready_path = join_path dir ''ready.json'';
          c = [(''role'', PStr ''directory''), (''name'', PStr name), (''owner'', PStr (plan_owner plan)), (''state'', PStr ''starting''),
               (''ready'', PBool False), (''node'', pget d ''target''), (''endpoint'', pget d ''endpoint''),
               (''connection_file'', pget d ''connection_file''), (''pid_file'', PStr pid_file), (''ready_file'', PStr ready_path),
               (''log_dir'', PStr (join_path dir ''logs''))];
          command = [python_path env, ''-m'', ''qfw_runtime._process_launcher'', ''directory'', ''--background'',
               ''--site-config'', plan_site_config plan, ''--run-dir'', plan_run_dir plan, ''--name'', name, ''--host'', py_str (pget d ''host''),
               ''--listen-port'', py_str (pget d ''port''), ''--telnet-port'', py_str (pget d ''telnet_port''), ''--timeout'', int_text timeout,
               ''--pid-file'', pid_file, ''--ready-file'', ready_path]
      in seqM (put_component ''directory'' c) (seqM (write_current env)
         (bindM (if dry_run then write_dry_run_component env c ready_path
                 else seqM (run_on_node env (pget d ''target'') command (environ (su env)) (plan_allocation plan))
                        (record_process env ''directory'' c pid_file (plan_allocation plan))) (\<lambda>c.
            component_is_ready env ''directory'' c))))"

definition qpm_environment :: "plane_plan \<Rightarrow> pydict \<Rightarrow> (string \<times> string) list \<Rightarrow> (string \<times> string) list" where
  "qpm_environment plan service environment =
     (let hosts = py_str (pget service ''assigned_hosts''); d = plan_directory plan;
          endpoint = py_str (pgetd d ''endpoint'' (PStr [])); name = py_str (pgetd d ''name'' (PStr []))
      in dupdate environment
           ([(''QFW_SERVICE_SCOPE'', if plan_scope plan = ''application'' then ''allocation-local'' else ''site''),
             (''QFW_DVM_URI_PATH'', join_all (plan_run_dir plan) [''prte_dvm'', ''dvm-uri'']), (''QFW_SERVICE_ASSIGNED_HOSTS'', hosts)] @
            (if py_truth (pget service ''assigned_hosts_env'') then [(py_str (pget service ''assigned_hosts_env''), hosts)] else []) @
            (if plan_scope plan = ''application''
             then [(''QFW_LOCAL_SERVICE_CONFIG'', plan_service_manifest plan), (''QFW_LOCAL_SERVICE_TARGET'', py_str (pget service ''target'')),
                   (''QFW_LOCAL_DIRSVC_ENDPOINT'', endpoint), (''QFW_LOCAL_DIRSVC_NAME'', name)]
             else [(''QFW_SITE_DIRSVC_ENDPOINTS'', endpoint), (''QFW_SITE_DIRSVC_NAME'', name)])))"

definition start_qpm :: "plane_env \<Rightarrow> plane_plan \<Rightarrow> bool \<Rightarrow> int \<Rightarrow> pydict \<Rightarrow> (string \<times> string) list \<Rightarrow> unit plane" where
  "start_qpm env plan dry_run timeout service environment =
     (let service_id = py_str (pget service ''service_id''); dir = join_all (plan_run_dir plan) [''services'', service_id];
          key = ''qpm:'' @ service_id; pid_file = join_path dir ''pid''; ready_path = join_path dir ''ready.json'';
          c = [(''role'', PStr ''qpm''), (''service_id'', PStr service_id), (''owner'', PStr (plan_owner plan)), (''state'', PStr ''starting''),
               (''ready'', PBool False), (''node'', pget service ''target''),
               (''assigned_nodes'', PList (map PStr (expand_hosts env (py_str (pget service ''assigned_hosts''))))),
               (''pid_file'', PStr pid_file), (''ready_file'', PStr ready_path),
               (''service_ready_file'', PStr (join_path dir ''service-ready.json'')), (''log_dir'', PStr (join_path dir ''logs''))];
          command = [python_path env, ''-m'', ''qfw_runtime._process_launcher'', ''qpm'', ''--background'', ''--run-dir'', plan_run_dir plan,
               ''--service-id'', service_id, ''--manifest-service-name'', py_str (pget service ''manifest_service_name''),
               ''--site-config'', plan_site_config plan, ''--operation-mode'',
               if plan_scope plan = ''application'' then ''qfw-managed'' else ''long-running'',
               ''--listen-port'', py_str (pget service ''listen_port''), ''--telnet-port'', py_str (pget service ''telnet_port''),
               ''--timeout'', int_text timeout, ''--pid-file'', pid_file, ''--ready-file'', ready_path]
      in seqM (put_component key c) (seqM (write_current env)
         (bindM (if dry_run then write_dry_run_component env c ready_path
                 else seqM (run_on_node env (pget service ''target'') command (qpm_environment plan service environment) (plan_allocation plan))
                        (record_process env key c pid_file (plan_allocation plan))) (\<lambda>c.
            component_is_ready env key c))))"

definition plane_environment :: "plane_plan \<Rightarrow> (string \<times> string) list" where
  "plane_environment plan =
     (let d = plan_directory plan; endpoint = py_str (pgetd d ''endpoint'' (PStr [])); name = py_str (pgetd d ''name'' (PStr []))
      in [(''QFW_SERVICE_PLANE_RUN_DIR'', plan_run_dir plan), (''QFW_SITE_CONFIG'', plan_site_config plan),
          (''QFW_RUNTIME_CONFIG'', plan_runtime_config plan),
          (''QFW_QPM_SERVICE_IDS'', join_with '','' (map (\<lambda>(service, _). py_str (pget service ''service_id'')) (plan_services plan)))] @
         (if py_truth (pget d ''connection_file'') then [(''QFW_DIRECTORY_SERVICE_INFO'', py_str (pget d ''connection_file''))] else []) @
         (if plan_scope plan = ''site''
          then [(''QFW_SITE_DIRSVC_ENDPOINTS'', endpoint), (''QFW_SITE_DIRSVC_NAME'', name)]
          else [(''QFW_LOCAL_DIRSVC_ENDPOINT'', endpoint), (''QFW_LOCAL_DIRSVC_NAME'', name),
                (''QFW_QPM_RESOLVER_SCOPE_ORDER'', ''allocation-local'')]))"

definition write_environment :: "plane_plan \<Rightarrow> unit plane" where
  "write_environment plan =
     on_disk (write_file (join_path (plan_run_dir plan) ENV_NAME) (Text_file (env_file_text (plane_environment plan))))"

definition start_components :: "plane_env \<Rightarrow> plane_args \<Rightarrow> plane_plan \<Rightarrow> pydict plane" where
  "start_components env args plan =
     bindM (if plan_qpm plan \<and> \<not> pa_dry_run args
            then (case plan_services plan of
                    (_, manifest) # _ \<Rightarrow> load_for_service env manifest (environ (su env))
                  | [] \<Rightarrow> raiseM (IndexError ''list index out of range''))
            else retM (environ (su env))) (\<lambda>environment.
     seqM (if plan_prte plan then start_prte env plan (pa_dry_run args) (pa_timeout args) environment else retM ())
     (seqM (if plan_directory_started plan
            then seqM (bindM (getM pl_state) (\<lambda>st. publish_directory_connection env st False))
                   (seqM (start_directory env plan (pa_dry_run args) (pa_timeout args))
                     (bindM (getM pl_state) (\<lambda>st. publish_directory_connection env st True)))
            else retM ())
     (seqM (if plan_qpm plan
            then forM (plan_services plan) (\<lambda>(service, _). start_qpm env plan (pa_dry_run args) (pa_timeout args) service environment)
            else retM ())
     (seqM (upd_state ''state'' (PStr ''ready''))
     (bindM (call_plane env Time_ns) (\<lambda>now.
      seqM (upd_state ''ready_at_ns'' now) (seqM (upd_state ''updated_at_ns'' now) (seqM (write_current env) (getM pl_state)))))))))"

text \<open>A start that raises stops what it has started, as far as the state says, and records the error.\<close>

definition start_failed :: "plane_env \<Rightarrow> exc \<Rightarrow> 'a plane" where
  "start_failed env e =
     seqM (upd_state ''state'' (PStr ''error'')) (seqM (upd_state ''error'' (PStr (exc_text e)))
     (bindM (call_plane env Time_ns) (\<lambda>now.
      seqM (upd_state ''updated_at_ns'' now)
      (bindM (getM pl_state) (\<lambda>st.
       bindM (stop_components env st) (\<lambda>(st, errors).
       seqM (modM (\<lambda>s. s\<lparr>pl_state := st\<rparr>)) (seqM (write_current env) (raiseM e))))))))"

definition refuse_live :: "plane_env \<Rightarrow> string \<Rightarrow> pydict \<Rightarrow> unit plane" where
  "refuse_live env run_dir previous =
     bindM (if pget previous ''state'' \<noteq> PStr ''stopped'' then recorded_instance_active env previous else retM False) (\<lambda>active.
       if active
       then raiseM (ServicePlaneError (''service plane already has a live instance with state '' @ py_repr (pget previous ''state'') @
              '': '' @ plane_state_path run_dir))
       else discard_stale_control_files env previous)"

definition start_locked :: "plane_env \<Rightarrow> plane_args \<Rightarrow> string \<Rightarrow> pydict plane" where
  "start_locked env args run_dir =
     bindM (read_plane_state env run_dir False) (\<lambda>previous.
     seqM (case previous of Some st \<Rightarrow> if st \<noteq> [] then refuse_live env run_dir st else retM () | None \<Rightarrow> retM ())
     (bindM (resolve_plan env args run_dir) (\<lambda>plan.
      bindM (new_plane_state env plan (pa_dry_run args)) (\<lambda>state.
      seqM (modM (\<lambda>s. s\<lparr>pl_state := state\<rparr>)) (seqM (write_current env) (seqM (write_environment plan)
        (catchM (start_components env args plan) (start_failed env))))))))"

definition start :: "plane_env \<Rightarrow> plane_args \<Rightarrow> pydict plane" where
  "start env args =
     bindM (liftM (resolve_run_dir env (pa_run_dir args))) (\<lambda>run_dir. state_lock env run_dir (start_locked env args run_dir))"

section \<open>The manager\<close>

text \<open>
  The manager watches for a number of rounds; \<open>Stop_requested\<close> asks whether a signal has arrived. Its
  run directory is taken as it was given.
\<close>

primrec watch :: "plane_env \<Rightarrow> plane_args \<Rightarrow> nat \<Rightarrow> int plane" where
  "watch env args 0 = raiseM NoReturn"
| "watch env args (Suc n) =
     bindM (call_flag env Stop_requested) (\<lambda>stopping.
       if stopping then seqM (stop env (pa_run_dir args)) (retM 0)
       else
         bindM (status env (pa_run_dir args)) (\<lambda>current.
         bindM (liftM (sub current ''state'')) (\<lambda>st.
           if st = PStr ''ready'' then watch env args n
           else
             bindM (call_plane env Time_ns) (\<lambda>now.
             let current = dset ''updated_at_ns'' now (dset ''error'' (PStr ''an owned service-plane component stopped'')
                   (dset ''state'' (PStr ''error'') current)) in
             seqM (write_plane_state env current)
               (bindM (stop_components env current) (\<lambda>(stopped, errors). seqM (write_plane_state env stopped) (retM 1)))))))"

definition run_plane :: "plane_env \<Rightarrow> plane_args \<Rightarrow> int plane" where
  "run_plane env args =
     seqM (start env args)
     (seqM (state_lock env (py_str (pa_run_dir args))
              (bindM (read_plane_state env (py_str (pa_run_dir args)) True) (\<lambda>found.
               let state = (case found of Some st \<Rightarrow> st | None \<Rightarrow> []) in
               bindM (call_plane env Time_ns) (\<lambda>now.
                 write_plane_state env (dset ''updated_at_ns'' now (dset ''manager_mode'' (PStr ''foreground'')
                   (dset ''manager_pid'' (PInt (own_pid env)) state)))))))
       (watch env args (poll_rounds env)))"

definition start_role :: "plane_env \<Rightarrow> string \<Rightarrow> plane_args \<Rightarrow> pydict plane" where
  "start_role env role args = bindM (liftM (start_role_args role args)) (start env)"

text \<open>The exit code of a command: what it does not catch goes to the caller.\<close>

definition role_main :: "plane_env \<Rightarrow> string \<Rightarrow> plane_args \<Rightarrow> int plane" where
  "role_main env action args =
     tryM (if action = ''start'' then seqM (start env args) (retM 0)
           else if action = ''run'' then run_plane env args
           else if action = ''status''
           then bindM (status env (pa_run_dir args)) (\<lambda>state. bindM (liftM (sub state ''state'')) (\<lambda>st.
                  retM (if st = PStr ''ready'' then 0 else 1)))
           else if action = ''stop'' then seqM (stop env (pa_run_dir args)) (retM 0)
           else retM 2)
       (\<lambda>e. case e of OSError m \<Rightarrow> retM 1 | ServicePlaneError m \<Rightarrow> retM 1 | ValueError m \<Rightarrow> retM 1 | _ \<Rightarrow> raiseM e)"

section \<open>The history of calls\<close>

text \<open>The calls of a run are only ever added to; \<open>grown h\<close> says that a state comes after the calls \<open>h\<close>.\<close>

definition grown :: "plane_call list \<Rightarrow> plane_state \<Rightarrow> bool" where
  "grown h s \<longleftrightarrow> (\<exists>later. pl_calls s = h @ later)"

lemma grown_refl [simp]: "grown (pl_calls s) s"
  by (simp add: grown_def)

lemma grown_trans: "grown h s \<Longrightarrow> grown (pl_calls s) t \<Longrightarrow> grown h t"
  by (auto simp: grown_def)

declare keeps_case_prod [keeps_rules] keeps_case_sum [keeps_rules] pget_dset [simp]

lemma keeps_exc [keeps_rules]:
  "(\<And>m. keeps I (f m)) \<Longrightarrow> (\<And>e. keeps I (g e)) \<Longrightarrow>
   keeps I (case e of ServicePlaneError m \<Rightarrow> f m | _ \<Rightarrow> g e)"
  by (cases e) simp_all

lemma keeps_runtime [keeps_rules]:
  "(\<And>m. keeps I (f m)) \<Longrightarrow> (\<And>e. keeps I (g e)) \<Longrightarrow>
   keeps I (case e of RuntimeError m \<Rightarrow> f m | _ \<Rightarrow> g e)"
  by (cases e) simp_all

lemma keeps_missing [keeps_rules]:
  "(\<And>m. keeps I (f m)) \<Longrightarrow> (\<And>m. keeps I (g m)) \<Longrightarrow> (\<And>e. keeps I (h e)) \<Longrightarrow>
   keeps I (case e of OSError m \<Rightarrow> f m | ValueError m \<Rightarrow> g m | _ \<Rightarrow> h e)"
  by (cases e) simp_all

lemma keeps_refused [keeps_rules]:
  "(\<And>m. keeps I (f m)) \<Longrightarrow> (\<And>m. keeps I (f' m)) \<Longrightarrow> (\<And>m. keeps I (g m)) \<Longrightarrow> (\<And>e. keeps I (h e)) \<Longrightarrow>
   keeps I (case e of OSError m \<Rightarrow> f m | TypeError m \<Rightarrow> f' m | ValueError m \<Rightarrow> g m | _ \<Rightarrow> h e)"
  by (cases e) simp_all

lemma grown_call [keeps_rules]: "keeps (grown h) (call_plane env c)"
  by (auto simp: keeps_def call_plane_def grown_def)

lemma grown_disk [keeps_rules]: "keeps (grown h) (on_disk m)"
  by (auto simp: keeps_def on_disk_def grown_def split: prod.split)

text \<open>A statement that only calls: what it keeps of the history it keeps of every part.\<close>

lemma keeps_flag [keeps_rules]: "keeps I (call_plane env c) \<Longrightarrow> keeps I (call_flag env c)"
  unfolding call_flag_def by (intro keeps_rules)

lemma grown_identity [keeps_rules]: "keeps (grown h) (read_process_identity env pid node allocation)"
  unfolding read_process_identity_def local_process_identity_def Let_def by (intro keeps_rules)

lemma grown_run [keeps_rules]: "keeps (grown h) (run_on_node env node command environment allocation)"
  unfolding run_on_node_def by (intro keeps_rules)

lemma grown_status [keeps_rules]: "keeps (grown h) (verified_component_status env c state)"
  unfolding verified_component_status_def by (intro keeps_rules)

lemma grown_signal [keeps_rules]: "keeps (grown h) (signal_local_pid env pid sig)"
  unfolding signal_local_pid_def by (intro keeps_rules)

lemma grown_alive [keeps_rules]: "keeps (grown h) (local_pid_alive env pid)"
  unfolding local_pid_alive_def by (intro keeps_rules)

lemma grown_await [keeps_rules]: "keeps (grown h) (await_exit env pid deadline n)"
  by (induction n) (auto intro!: keeps_rules)

lemma grown_terminate [keeps_rules]: "keeps (grown h) (terminate_pid env pid node allocation)"
  unfolding terminate_pid_def by (intro keeps_rules)

lemma grown_discard [keeps_rules]: "keeps (grown h) (discard_component_control_files c)"
  unfolding discard_component_control_files_def unlink_file_def by (intro keeps_rules)

lemma grown_load [keeps_rules]: "keeps (grown h) (load_modules env modules environment)"
  unfolding load_modules_def Let_def
  by (intro keeps_rules) (auto split: sum.split pyval.split intro: keeps_rules)

lemma grown_command [keeps_rules]: "keeps (grown h) (command_path env name environment)"
  unfolding command_path_def Let_def by (intro keeps_rules)

lemma grown_service_environment [keeps_rules]: "keeps (grown h) (stopped_service_environment env state)"
  unfolding stopped_service_environment_def by (intro keeps_rules)

lemma grown_pterm [keeps_rules]: "keeps (grown h) (ask_pterm env c state environment uri_path)"
  unfolding ask_pterm_def by (intro keeps_rules)

lemma grown_end [keeps_rules]: "keeps (grown h) (end_verified env c state seen)"
  unfolding end_verified_def by (intro keeps_rules)

lemma grown_stop [keeps_rules]: "keeps (grown h) (stop_process env c state)"
  unfolding stop_process_def stop_prte_def by (intro keeps_rules)

lemma grown_stop_component [keeps_rules]: "keeps (grown h) (stop_component env state key c)"
  unfolding stop_component_def by (intro keeps_rules)

lemma grown_stop_each [keeps_rules]: "keeps (grown h) (stop_each env state cs)"
  by (induction cs) (auto intro!: keeps_rules)

lemma grown_after: "m s = (r, t) \<Longrightarrow> keeps (grown (pl_calls s)) m \<Longrightarrow> grown (pl_calls s) t"
  unfolding keeps_def by (metis grown_refl snd_conv)
section \<open>Stopping establishes the end of every component\<close>

definition component_stopped :: "pydict \<Rightarrow> bool" where
  "component_stopped c = (pget c ''state'' = PStr ''stopped'')"

text \<open>A component that has the process it stands for on record.\<close>

definition identified :: "pydict \<Rightarrow> bool" where
  "identified c \<longleftrightarrow> pget c ''pid'' \<noteq> PNone \<and> py_truth (pget c ''process_identity'')"

text \<open>
  Between two states a component is settled when its process was asked for and answered, and, when the
  answer is the recorded process, was told to end afterwards by a call that did not fail.
\<close>

definition settled :: "plane_env \<Rightarrow> pydict \<Rightarrow> pydict \<Rightarrow> plane_state \<Rightarrow> plane_state \<Rightarrow> bool" where
  "settled env state c s t \<longleftrightarrow>
     (\<exists>allocation u observed v. state_allocation state = Inr allocation \<and> grown (pl_calls s) u \<and>
       read_process_identity env (pget c ''pid'') (pget c ''node'') allocation u = (Inr observed, v) \<and> grown (pl_calls v) t \<and>
       (identities_match (pget c ''process_identity'') observed \<longrightarrow>
         (\<exists>pid w x. bindE (sub c ''pid'') py_int = Inr pid \<and> grown (pl_calls v) w \<and>
            terminate_pid env pid (pget c ''node'') allocation w = (Inr (), x) \<and> grown (pl_calls x) t)))"

lemma identified_status:
  assumes "verified_component_status env c state s = (Inr seen, v)" "identified c"
  obtains allocation observed where "state_allocation state = Inr allocation"
    "read_process_identity env (pget c ''pid'') (pget c ''node'') allocation s = (Inr observed, v)"
    "seen = ''alive'' \<longleftrightarrow> identities_match (pget c ''process_identity'') observed"
  using assms by (auto simp: verified_component_status_def identified_def bindM_returns liftM_returns retM_returns identities_match_def
    split: if_splits)

lemma settled_later: "settled env state c s t \<Longrightarrow> grown (pl_calls t) u \<Longrightarrow> settled env state c s u"
  unfolding settled_def by (meson grown_trans)

lemma settled_earlier: "settled env state c s t \<Longrightarrow> grown (pl_calls r) s \<Longrightarrow> settled env state c r t"
  unfolding settled_def by (meson grown_trans)

lemma settled_ended:
  assumes "verified_component_status env c state s = (Inr seen, v)" "identified c" "seen \<noteq> ''alive''" "grown (pl_calls v) t"
  shows "settled env state c s t"
  using assms(1,2)
proof (rule identified_status)
  fix allocation observed
  assume "state_allocation state = Inr allocation" "seen = ''alive'' \<longleftrightarrow> identities_match (pget c ''process_identity'') observed"
    and "read_process_identity env (pget c ''pid'') (pget c ''node'') allocation s = (Inr observed, v)"
  with assms(3,4) show ?thesis unfolding settled_def
    by (intro exI [of _ allocation] exI [of _ s] exI [of _ observed] exI [of _ v]) (simp add: grown_refl)
qed

lemma settled_told:
  assumes "verified_component_status env c state s = (Inr seen, v)" "identified c" "bindE (sub c ''pid'') py_int = Inr pid"
    "state_allocation state = Inr allocation" "terminate_pid env pid (pget c ''node'') allocation v = (Inr (), t)"
  shows "settled env state c s t"
  using assms(1,2)
proof (rule identified_status)
  fix allocation' observed
  assume "state_allocation state = Inr allocation'"
    and "read_process_identity env (pget c ''pid'') (pget c ''node'') allocation' s = (Inr observed, v)"
  then have "state_allocation state = Inr allocation \<and> grown (pl_calls s) s \<and>
     read_process_identity env (pget c ''pid'') (pget c ''node'') allocation s = (Inr observed, v) \<and> grown (pl_calls v) t \<and>
     (\<exists>pid w x. bindE (sub c ''pid'') py_int = Inr pid \<and> grown (pl_calls v) w \<and>
        terminate_pid env pid (pget c ''node'') allocation w = (Inr (), x) \<and> grown (pl_calls x) t)"
    using assms(3-5) grown_after [OF assms(5) grown_terminate] by (auto intro: grown_refl)
  then show ?thesis unfolding settled_def by blast
qed

lemma end_verified_settles:
  assumes "verified_component_status env c state s = (Inr seen, v)" "identified c" "end_verified env c state seen v = (Inr (), t)"
  shows "settled env state c s t"
  using assms by (cases "seen = ''alive''")
    (auto simp: end_verified_def bindM_returns liftM_returns retM_def intro: settled_told settled_ended)

lemma stop_prte_settles:
  assumes stopped: "stop_prte env c state environment s = (Inr (), t)" and live: "\<not> py_truth (pget state ''dry_run'')"
    and known: "identified c"
  shows "settled env state c s t"
proof -
  from stopped live obtain uri present seen running u v w x y where
    seen: "verified_component_status env c state s = (Inr seen, u)"
    and pterm: "(if seen = ''alive'' \<and> present then ask_pterm env c state environment (py_str uri) else retM ()) v = (Inr y, w)"
    and present: "on_disk (path_exists (py_str uri)) u = (Inr present, v)"
    and running: "(if seen = ''alive'' then verified_component_status env c state else retM seen) w = (Inr running, x)"
    and ended: "finallyM (end_verified env c state running) (discard_component_control_files c) x = (Inr (), t)"
    by (auto simp: stop_prte_def bindM_returns seqM_returns liftM_returns)
  from ended obtain z y' where told: "end_verified env c state running x = (Inr (), z)"
    and gone: "discard_component_control_files c z = (Inr y', t)"
    by (auto simp: finallyM_returns)
  have zt: "grown (pl_calls z) t" by (rule grown_after [OF gone grown_discard])
  have uv: "grown (pl_calls u) v" by (rule grown_after [OF present grown_disk])
  have vw: "grown (pl_calls v) w"
    using pterm grown_after [OF _ grown_pterm] by (auto simp: retM_def split: if_splits)
  have xz: "grown (pl_calls x) z" by (rule grown_after [OF told grown_end])
  have su: "grown (pl_calls s) u" by (rule grown_after [OF seen grown_status])
  show ?thesis
  proof (cases "seen = ''alive''")
    case True
    with running have "verified_component_status env c state w = (Inr running, x)" by simp
    from settled_later [OF end_verified_settles [OF this known told] zt]
    show ?thesis by (rule settled_earlier) (intro grown_trans [OF grown_trans [OF su uv] vw])
  next
    case False
    with running have "x = w" by (simp add: retM_def)
    then have "grown (pl_calls u) t" using uv vw xz zt by (blast intro: grown_trans)
    with False seen known show ?thesis by (intro settled_ended)
  qed
qed

lemma stop_process_settles:
  assumes "stop_process env c state s = (Inr (), t)" and "\<not> py_truth (pget state ''dry_run'')" "identified c"
  shows "settled env state c s t"
proof (cases "sub c ''role'' = Inr (PStr ''prte-dvm'')")
  case True
  with assms obtain environment u where u: "stopped_service_environment env state s = (Inr environment, u)"
    and t: "stop_prte env c state environment u = (Inr (), t)"
    by (auto simp: stop_process_def bindM_returns liftM_returns)
  from stop_prte_settles [OF t assms(2,3)] show ?thesis
    by (rule settled_earlier) (rule grown_after [OF u grown_service_environment])
next
  case False
  with assms show ?thesis
    by (auto simp: stop_process_def bindM_returns liftM_returns intro: end_verified_settles)
qed

text \<open>What a stop makes of a component: it is stopped, or in error with its process still on record.\<close>

definition accounted :: "plane_env \<Rightarrow> pydict \<Rightarrow> pydict \<Rightarrow> plane_state \<Rightarrow> plane_state \<Rightarrow> pydict \<Rightarrow> bool" where
  "accounted env state c s t c' \<longleftrightarrow>
     pget c' ''pid'' = pget c ''pid'' \<and> pget c' ''process_identity'' = pget c ''process_identity'' \<and> pget c' ''node'' = pget c ''node'' \<and>
     (if component_stopped c' then \<not> py_truth (pget state ''dry_run'') \<longrightarrow> identified c \<longrightarrow> settled env state c s t
      else pget c' ''state'' = PStr ''error'')"

lemma accounted_later: "accounted env state c s t c' \<Longrightarrow> grown (pl_calls t) u \<Longrightarrow> accounted env state c s u c'"
  unfolding accounted_def by (auto intro: settled_later)

lemma accounted_earlier: "accounted env state c s t c' \<Longrightarrow> grown (pl_calls r) s \<Longrightarrow> accounted env state c r t c'"
  unfolding accounted_def by (auto intro: settled_earlier)

lemma stop_component_accounts:
  assumes "stop_component env state key c s = (Inr (c', e), t)"
  shows "accounted env state c s t c' \<and> (component_stopped c' \<longleftrightarrow> e = None)"
proof -
  let ?rest = "seqM (discard_component_control_files c) (bindM (call_plane env Time_ns) (\<lambda>now.
     retM (dset ''stopped_at_ns'' now (dset ''state'' (PStr ''stopped'') (dset ''ready'' (PBool False) c)), None :: string option)))"
  from assms consider (stopped) u where "stop_process env c state s = (Inr (), u)" "?rest u = (Inr (c', e), t)"
    | (failed) m where "c' = dset ''error'' (PStr m) (dset ''state'' (PStr ''error'') c)" "e = Some (key @ '': '' @ m)"
    unfolding stop_component_def catchM_returns seqM_returns [of "stop_process env c state"] by (auto simp: retM_returns)
  then show ?thesis
  proof cases
    case stopped
    have "keeps (grown (pl_calls u)) ?rest" by (intro keeps_rules)
    then have "grown (pl_calls u) t" unfolding keeps_def using stopped(2) by (metis grown_refl snd_conv)
    then have "\<not> py_truth (pget state ''dry_run'') \<Longrightarrow> identified c \<Longrightarrow> settled env state c s t"
      using stop_process_settles [OF stopped(1)] settled_later by blast
    with stopped(2) show ?thesis by (auto simp: seqM_returns bindM_returns retM_returns accounted_def component_stopped_def)
  qed (auto simp: accounted_def component_stopped_def)
qed

lemma stop_each_accounts:
  "stop_each env state cs s = (Inr (cs', errors), t) \<Longrightarrow>
     list_all2 (\<lambda>kc kc'. fst kc' = fst kc \<and> accounted env state (snd kc) s t (snd kc')) cs cs' \<and>
     (errors = [] \<longleftrightarrow> list_all (\<lambda>kc. component_stopped (snd kc)) cs')"
proof (induction cs arbitrary: cs' errors t)
  case Nil
  then show ?case by (simp add: retM_def)
next
  case (Cons kc cs)
  from Cons.prems obtain stopped errs u c e where rest: "stop_each env state cs s = (Inr (stopped, errs), u)"
    and here: "stop_component env state (fst kc) (snd kc) u = (Inr (c, e), t)"
    and out: "cs' = (fst kc, c) # stopped" "errors = errs @ (case e of Some m \<Rightarrow> [m] | None \<Rightarrow> [])"
    by (auto simp: bindM_returns retM_def)
  have su: "grown (pl_calls s) u" by (rule grown_after [OF rest grown_stop_each])
  have ut: "grown (pl_calls u) t" by (rule grown_after [OF here grown_stop_component])
  note IH = Cons.IH [OF rest]
  have "list_all2 (\<lambda>kc kc'. fst kc' = fst kc \<and> accounted env state (snd kc) s t (snd kc')) cs stopped"
    by (rule list_all2_mono [OF conjunct1 [OF IH]]) (auto intro: accounted_later [OF _ ut])
  moreover have "accounted env state (snd kc) s t c"
    using stop_component_accounts [OF here] accounted_earlier [OF _ su] by blast
  moreover have "errors = [] \<longleftrightarrow> component_stopped c \<and> errs = []"
    using stop_component_accounts [OF here] out(2) by (auto split: option.splits)
  ultimately show ?case using IH by (auto simp: out(1))
qed

text \<open>The components of a state are read as they were put.\<close>

lemma component_dicts_map: "component_dicts (map (\<lambda>(k, c). (k, PDict c)) cs) = Inr cs"
  by (induction cs) (auto simp: as_mapping_def)

lemma plane_components_with [simp]: "plane_components (with_components cs state) = Inr cs"
  by (simp add: plane_components_def with_components_def pgetd_def as_mapping_def component_dicts_map)

lemma plane_components_dset: "k \<noteq> ''components'' \<Longrightarrow> plane_components (dset k v state) = plane_components state"
  by (simp add: plane_components_def pgetd_def)

lemma plane_components_dpop: "k \<noteq> ''components'' \<Longrightarrow> plane_components (dpop k state) = plane_components state"
  by (simp add: plane_components_def pgetd_def)

lemma no_components: "\<not> has_key state ''components'' \<Longrightarrow> plane_components state = Inr []"
  by (simp add: plane_components_def pgetd_def as_mapping_def)

lemma grown_connection [keeps_rules]: "keeps (grown h) (publish_directory_connection env state ready)"
  unfolding publish_directory_connection_def write_connection_def connection_record_def directory_connection_active_def Let_def
  by (intro keeps_rules)

lemma grown_withdraw [keeps_rules]: "keeps (grown h) (withdraw_directory_connection env state)"
  unfolding withdraw_directory_connection_def connection_record_def by (intro keeps_rules)

lemma stop_components_accounts:
  assumes "stop_components env state s = (Inr (state', errors), t)"
  obtains cs cs' where "plane_components state = Inr cs" "plane_components state' = Inr cs'"
    "list_all2 (\<lambda>kc kc'. fst kc' = fst kc \<and> accounted env state (snd kc) s t (snd kc')) cs cs'"
    "errors = [] \<Longrightarrow> list_all (\<lambda>kc. component_stopped (snd kc)) cs'"
    "list_ex (\<lambda>kc. \<not> component_stopped (snd kc)) cs' \<Longrightarrow> errors \<noteq> []"
proof -
  let ?withdraw = "\<lambda>directory. if directory then catchM (seqM (withdraw_directory_connection env state) (retM []))
      (\<lambda>e. retM [''directory connection record: '' @ exc_text e]) else retM []"
  from assms obtain directory withdrawn cs cs' errs u where cs: "plane_components state = Inr cs"
    and w: "?withdraw directory s = (Inr withdrawn, u)"
    and each: "stop_each env state cs u = (Inr (cs', errs), t)"
    and out: "state' = (if has_key state ''components'' then with_components cs' state else state)" "errors = withdrawn @ errs"
    unfolding stop_components_def bindM_returns liftM_returns by (auto simp: retM_def)
  have "keeps (grown (pl_calls s)) (?withdraw directory)" by (intro keeps_rules)
  then have su: "grown (pl_calls s) u" unfolding keeps_def using w by (metis grown_refl snd_conv)
  note acc = stop_each_accounts [OF each]
  have "plane_components state' = Inr cs'"
    using each cs by (cases "has_key state ''components''") (auto simp: out(1) no_components retM_def)
  moreover have "list_all2 (\<lambda>kc kc'. fst kc' = fst kc \<and> accounted env state (snd kc) s t (snd kc')) cs cs'"
    by (rule list_all2_mono [OF conjunct1 [OF acc]]) (auto intro: accounted_earlier [OF _ su])
  ultimately show thesis using cs acc by (intro that) (auto simp: out(2) list_all_iff list_ex_iff)
qed

lemma required_state: "read_plane_state env run_dir True s = (Inr found, t) \<Longrightarrow> \<exists>state. found = Some state"
  by (auto simp: read_plane_state_def Let_def bindM_returns retM_def raiseM_def split: if_splits)

lemma grown_write [keeps_rules]: "keeps (grown h) (write_plane_state env state)"
  unfolding write_plane_state_def Let_def by (intro keeps_rules)

lemma grown_finish [keeps_rules]: "keeps (grown h) (finish_stop env state errors)"
  unfolding finish_stop_def Let_def by (intro keeps_rules)

lemma finish_stop_returns:
  assumes "finish_stop env state errors s = (Inr state', t)"
  shows "errors = [] \<and> component_stopped state' \<and> plane_components state' = plane_components state"
proof (cases "errors = []")
  case True
  with assms obtain x y where "state' = dset ''updated_at_ns'' x (dset ''stopped_at_ns'' y
      (dpop ''error'' (dset ''state'' (PStr ''stopped'') state)))"
    by (auto simp: finish_stop_def bindM_returns seqM_returns retM_def Let_def)
  with True show ?thesis by (simp add: plane_components_dset plane_components_dpop component_stopped_def pget_def)
next
  case False
  with assms show ?thesis by (auto simp: finish_stop_def bindM_returns seqM_returns raiseM_def Let_def)
qed

text \<open>A stop that returns: the plane was recorded as stopped, or every component is accounted for.\<close>

lemma stop_locked_parts:
  assumes "stop_locked env run_dir s = (Inr state', t)"
  obtains (recorded) u where "read_plane_state env run_dir True s = (Inr (Some state'), u)" "component_stopped state'"
  | (now) state u v st errors where "read_plane_state env run_dir True s = (Inr (Some state), u)"
      "stop_components env state u = (Inr (st, errors), v)" "finish_stop env st errors v = (Inr state', t)"
proof -
  from assms obtain found u where read: "read_plane_state env run_dir True s = (Inr found, u)"
    by (auto simp: stop_locked_def bindM_returns)
  from required_state [OF read] obtain state where "found = Some state" ..
  with assms read recorded now show thesis
    by (cases "component_stopped state") (auto simp: stop_locked_def bindM_returns component_stopped_def retM_def)
qed

lemma stop_locked_accounts:
  assumes "stop_locked env run_dir s = (Inr state', t)"
  obtains (recorded) u where "read_plane_state env run_dir True s = (Inr (Some state'), u)" "component_stopped state'"
  | (now) state u cs cs' where "read_plane_state env run_dir True s = (Inr (Some state), u)" "plane_components state = Inr cs"
      "plane_components state' = Inr cs'" "component_stopped state'"
      "list_all2 (\<lambda>kc kc'. fst kc' = fst kc \<and> component_stopped (snd kc') \<and> accounted env state (snd kc) u t (snd kc')) cs cs'"
  using assms
proof (cases rule: stop_locked_parts)
  case (now state u v st errors)
  have vt: "grown (pl_calls v) t" by (rule grown_after [OF now(3) grown_finish])
  from finish_stop_returns [OF now(3)] have ended: "errors = []" "component_stopped state'"
    "plane_components state' = plane_components st" by auto
  from now(2) obtain cs cs' where cs: "plane_components state = Inr cs" "plane_components st = Inr cs'"
    "list_all2 (\<lambda>kc kc'. fst kc' = fst kc \<and> accounted env state (snd kc) u v (snd kc')) cs cs'"
    "list_all (\<lambda>kc. component_stopped (snd kc)) cs'"
    by (rule stop_components_accounts) (use ended in auto)
  have "list_all2 (\<lambda>kc kc'. fst kc' = fst kc \<and> component_stopped (snd kc') \<and> accounted env state (snd kc) u t (snd kc')) cs cs'"
    using cs(3,4) accounted_later [OF _ vt] by (auto simp: list_all2_conv_all_nth list_all_length)
  with now(1) cs(1,2) ended that(2) show thesis by simp
qed (use that(1) in blast)

text \<open>The state in which what is done under the lock of a run begins.\<close>

definition locked_state :: "plane_env \<Rightarrow> string \<Rightarrow> plane_state \<Rightarrow> plane_state" where
  "locked_state env run_dir s =
     snd (call_plane env (Lock_state run_dir) (snd (on_disk (make_dir (join_path run_dir ''state'')) s)))"

lemma state_lock_returns:
  assumes "state_lock env run_dir body s = (Inr x, t)"
  obtains v where "body (locked_state env run_dir s) = (Inr x, v)" "grown (pl_calls s) (locked_state env run_dir s)" "grown (pl_calls v) t"
proof -
  from assms obtain d l r u v y where d: "on_disk (make_dir (join_path run_dir ''state'')) s = (Inr d, r)"
    and l: "call_flag env (Lock_state run_dir) r = (Inr l, u)" and b: "body u = (Inr x, v)"
    and f: "call_plane env (Unlock_state run_dir) v = (Inr y, t)"
    by (auto simp: state_lock_def seqM_returns bindM_returns finallyM_returns raiseM_def split: if_splits)
  have "grown (pl_calls s) u"
    using grown_after [OF d grown_disk] grown_after [OF l keeps_flag [OF grown_call]] by (rule grown_trans)
  moreover have "u = locked_state env run_dir s"
    using d l by (auto simp: locked_state_def call_flag_def bindM_returns retM_returns)
  ultimately show thesis using that b grown_after [OF f grown_call] by simp
qed
section \<open>A question that is not answered\<close>

text \<open>A component whose process cannot be asked for, whatever has been called before.\<close>

definition unanswered :: "plane_env \<Rightarrow> pydict \<Rightarrow> pydict \<Rightarrow> bool" where
  "unanswered env state c \<longleftrightarrow> (\<forall>s. \<exists>m t. verified_component_status env c state s = (Inl (ServicePlaneError m), t))"

lemma unanswered_identified: "unanswered env state c \<Longrightarrow> identified c"
  unfolding unanswered_def identified_def verified_component_status_def by (auto simp: retM_def split: if_splits)

lemma unanswered_not_settled:
  assumes u: "unanswered env state c" shows "\<not> settled env state c s t"
proof
  assume "settled env state c s t"
  then obtain allocation w observed v where "state_allocation state = Inr allocation"
    "read_process_identity env (pget c ''pid'') (pget c ''node'') allocation w = (Inr observed, v)"
    by (auto simp: settled_def)
  with unanswered_identified [OF u] have "\<exists>seen x. verified_component_status env c state w = (Inr seen, x)"
    by (auto simp: verified_component_status_def identified_def bindM_def liftM_def retM_def)
  with u show False unfolding unanswered_def by (metis Inl_Inr_False prod.inject)
qed

lemma unanswered_fails:
  assumes u: "unanswered env state c" and live: "\<not> py_truth (pget state ''dry_run'')"
    and parts: "plane_components state = Inr cs" "(key, c) \<in> set cs"
    and returns: "stop_components env state s = (Inr (state', errors), t)"
  shows "errors \<noteq> [] \<and> (\<exists>cs' c'. plane_components state' = Inr cs' \<and> (key, c') \<in> set cs' \<and> pget c' ''state'' = PStr ''error'' \<and>
    pget c' ''pid'' = pget c ''pid'' \<and> pget c' ''process_identity'' = pget c ''process_identity'' \<and> pget c' ''node'' = pget c ''node'')"
proof -
  from returns obtain cs' where cs': "plane_components state' = Inr cs'"
    and all2: "list_all2 (\<lambda>kc kc'. fst kc' = fst kc \<and> accounted env state (snd kc) s t (snd kc')) cs cs'"
    and errs: "list_ex (\<lambda>kc. \<not> component_stopped (snd kc)) cs' \<Longrightarrow> errors \<noteq> []"
    by (rule stop_components_accounts) (use parts in auto)
  from parts(2) obtain i where i: "i < length cs" "cs ! i = (key, c)" by (auto simp: in_set_conv_nth)
  obtain c' where c': "cs' ! i = (key, c')" "accounted env state c s t c'"
    using list_all2_nthD [OF all2 i(1)] i(2) by (cases "cs' ! i") auto
  have "i < length cs'" using i(1) list_all2_lengthD [OF all2] by simp
  then have mem: "(key, c') \<in> set cs'" using c'(1) nth_mem by metis
  have "\<not> component_stopped c'" using c'(2) unanswered_not_settled [OF u] unanswered_identified [OF u] live by (auto simp: accounted_def)
  moreover have "errors \<noteq> []" using mem \<open>\<not> component_stopped c'\<close> by (intro errs) (force simp: list_ex_iff)
  ultimately show ?thesis using mem c'(2) cs' by (auto simp: accounted_def)
qed

text \<open>A machine on which nothing else writes to the files of the run.\<close>

definition quiet :: "plane_env \<Rightarrow> bool" where
  "quiet env \<longleftrightarrow> (\<forall>h d. meanwhile env h d = d)"

abbreviation same_files :: "(string \<times> file_content) list \<Rightarrow> plane_state \<Rightarrow> bool" where
  "same_files fs s \<equiv> file_system (pl_disk s) = fs"

lemma quiet_call: "quiet env \<Longrightarrow> keeps (same_files fs) (call_plane env c)"
  by (auto simp: keeps_def call_plane_def quiet_def)

lemma disk_read: "(\<And>d. file_system (snd (m d)) = file_system d) \<Longrightarrow> keeps (same_files fs) (on_disk m)"
  by (auto simp: keeps_def on_disk_def split: prod.split) (metis snd_conv)

lemma disk_exists: "keeps (same_files fs) (on_disk (path_exists p))"
  by (rule disk_read) (simp add: path_exists_def getM_def)

lemma disk_json: "keeps (same_files fs) (on_disk (load_json e p))"
  by (rule disk_read) (auto simp: load_json_def open_file_def monad_defs split: option.split)

lemma disk_nonempty: "keeps (same_files fs) (nonempty_file p)"
  unfolding nonempty_file_def by (rule disk_read) (simp add: getM_def)

lemma disk_ready_file: "keeps (same_files fs) (ready_file env p)"
  unfolding ready_file_def by (intro keeps_rules disk_json)

lemmas quiet_rules = keeps_rules quiet_call disk_exists disk_json disk_nonempty disk_ready_file

lemma quiet_identity: "quiet env \<Longrightarrow> keeps (same_files fs) (read_process_identity env pid node allocation)"
  unfolding read_process_identity_def local_process_identity_def Let_def by (intro quiet_rules)

lemma quiet_status: "quiet env \<Longrightarrow> keeps (same_files fs) (verified_component_status env c state)"
  unfolding verified_component_status_def by (intro quiet_rules quiet_identity)

lemma quiet_process_status: "quiet env \<Longrightarrow> keeps (same_files fs) (component_process_status env c state)"
  unfolding component_process_status_def by (intro quiet_rules quiet_status)

lemma quiet_ready: "quiet env \<Longrightarrow> keeps (same_files fs) (component_ready env c state)"
  unfolding component_ready_def component_files_ready_def by (intro quiet_rules quiet_process_status)

lemma quiet_active: "quiet env \<Longrightarrow> keeps (same_files fs) (any_active env state cs)"
  by (induction cs) (auto intro!: keeps_rules quiet_ready quiet_process_status)

lemma quiet_read: "quiet env \<Longrightarrow> keeps (same_files fs) (read_plane_state env run_dir required)"
  unfolding read_plane_state_def Let_def by (intro quiet_rules)

text \<open>The component keeps its files and its record, and the stop reports it.\<close>

lemma unanswered_component:
  assumes u: "unanswered env state c" and live: "\<not> py_truth (pget state ''dry_run'')" and q: "quiet env"
    and role: "sub c ''role'' = Inr role" "role \<noteq> PStr ''prte-dvm''"
  shows "\<exists>m t. stop_component env state key c s =
    (Inr (dset ''error'' (PStr m) (dset ''state'' (PStr ''error'') c), Some (key @ '': '' @ m)), t) \<and>
    file_system (pl_disk t) = file_system (pl_disk s)"
proof -
  obtain m t where m: "verified_component_status env c state s = (Inl (ServicePlaneError m), t)"
    using u unanswered_def by blast
  have "file_system (pl_disk t) = file_system (pl_disk s)"
    using quiet_status [OF q, unfolded keeps_def, rule_format, of s "file_system (pl_disk s)" c state] m by simp
  moreover have "stop_process env c state s = (Inl (ServicePlaneError m), t)"
    using role live m by (simp add: stop_process_def bindM_def liftM_def)
  ultimately show ?thesis by (simp add: stop_component_def catchM_def tryM_def seqM_def bindM_def retM_def)
qed

section \<open>A plane that may be running is not taken over\<close>

lemma grown_process_status [keeps_rules]: "keeps (grown h) (component_process_status env c state)"
  unfolding component_process_status_def by (intro keeps_rules)

lemma grown_ready [keeps_rules]: "keeps (grown h) (component_ready env c state)"
  unfolding component_ready_def component_files_ready_def nonempty_file_def ready_file_def by (intro keeps_rules)

lemma grown_active [keeps_rules]: "keeps (grown h) (any_active env state cs)"
  by (induction cs) (auto intro!: keeps_rules)

text \<open>A component found over was asked for, and the answer was that the recorded process is not there.\<close>

definition found_over :: "plane_env \<Rightarrow> pydict \<Rightarrow> pydict \<Rightarrow> plane_state \<Rightarrow> plane_state \<Rightarrow> bool" where
  "found_over env state c s t \<longleftrightarrow>
     (\<exists>u seen v. grown (pl_calls s) u \<and> component_process_status env c state u = (Inr seen, v) \<and> grown (pl_calls v) t \<and>
       seen \<notin> {''alive'', ''unknown''})"

lemma none_active:
  "any_active env state cs s = (Inr False, t) \<Longrightarrow> kc \<in> set cs \<Longrightarrow> component_stopped (snd kc) \<or> found_over env state (snd kc) s t"
proof (induction cs arbitrary: s)
  case Nil
  then show ?case by simp
next
  case (Cons x cs)
  show ?case
  proof (cases "component_stopped (snd x)")
    case True
    with Cons show ?thesis by (auto simp: component_stopped_def)
  next
    case False
    with Cons.prems(1) obtain u seen v where u: "component_ready env (snd x) state s = (Inr False, u)"
      and v: "component_process_status env (snd x) state u = (Inr seen, v)" and seen: "seen \<notin> {''alive'', ''unknown''}"
      and rest: "any_active env state cs v = (Inr False, t)"
      by (auto simp: component_stopped_def bindM_returns retM_def split: if_splits)
    have su: "grown (pl_calls s) u" by (rule grown_after [OF u grown_ready])
    have uv: "grown (pl_calls u) v" by (rule grown_after [OF v grown_process_status])
    have vt: "grown (pl_calls v) t" by (rule grown_after [OF rest grown_active])
    have "found_over env state (snd x) s t" unfolding found_over_def using su v vt seen by blast
    moreover have "found_over env state (snd kc) v t \<Longrightarrow> found_over env state (snd kc) s t"
      unfolding found_over_def using grown_trans [OF grown_trans [OF su uv]] by (metis)
    ultimately show ?thesis using Cons.IH [OF rest] Cons.prems(2) by auto
  qed
qed

text \<open>A component that is alive or cannot be asked for, whatever has been called before.\<close>

definition maybe_running :: "plane_env \<Rightarrow> pydict \<Rightarrow> pydict \<Rightarrow> bool" where
  "maybe_running env state c \<longleftrightarrow>
     (\<forall>s. \<exists>seen t. component_process_status env c state s = (Inr seen, t) \<and> seen \<in> {''alive'', ''unknown''})"

lemma unanswered_maybe_running: "unanswered env state c \<Longrightarrow> maybe_running env state c"
  unfolding maybe_running_def
proof
  fix s
  assume "unanswered env state c"
  then obtain m t where "verified_component_status env c state s = (Inl (ServicePlaneError m), t)"
    unfolding unanswered_def by blast
  then show "\<exists>seen t. component_process_status env c state s = (Inr seen, t) \<and> seen \<in> {''alive'', ''unknown''}"
    by (simp add: component_process_status_def tryM_def retM_def)
qed

lemma refuse_live_refuses:
  assumes run: "maybe_running env state c" "\<not> component_stopped c" and parts: "plane_components state = Inr cs" "(key, c) \<in> set cs"
    and st: "\<not> component_stopped state" and q: "quiet env"
  shows "\<exists>e t. refuse_live env run_dir state s = (Inl e, t) \<and> file_system (pl_disk t) = file_system (pl_disk s)"
proof -
  obtain r t where r: "any_active env state cs s = (r, t)" by (cases "any_active env state cs s")
  have files: "file_system (pl_disk t) = file_system (pl_disk s)"
    using quiet_active [OF q, unfolded keeps_def, rule_format, of s "file_system (pl_disk s)" state cs] r by simp
  have "r \<noteq> Inr False"
  proof
    assume "r = Inr False"
    with r parts(2) run(2) have "found_over env state c s t" using none_active by fastforce
    with run(1) show False unfolding found_over_def maybe_running_def by (metis Inr_inject prod.inject)
  qed
  with r st parts(1) files show ?thesis
    by (cases r) (auto simp: refuse_live_def recorded_instance_active_def component_stopped_def bindM_def liftM_def raiseM_def)
qed

lemma live_plane_is_refused:
  assumes read: "read_plane_state env run_dir False s = (Inr (Some state), u)" and st: "\<not> component_stopped state" and q: "quiet env"
    and parts: "plane_components state = Inr cs" "(key, c) \<in> set cs" and run: "maybe_running env state c" "\<not> component_stopped c"
  shows "\<exists>e t. start_locked env args run_dir s = (Inl e, t) \<and> file_system (pl_disk t) = file_system (pl_disk s)"
proof -
  have files: "file_system (pl_disk u) = file_system (pl_disk s)"
    using quiet_read [OF q, unfolded keeps_def, rule_format, of s "file_system (pl_disk s)" run_dir False] read by simp
  have "state \<noteq> []" using parts by (auto simp: plane_components_def pgetd_def as_mapping_def)
  moreover obtain e t where "refuse_live env run_dir state u = (Inl e, t)" "file_system (pl_disk t) = file_system (pl_disk u)"
    using refuse_live_refuses [OF run parts st q] by blast
  ultimately show ?thesis using read files by (simp add: start_locked_def bindM_def seqM_def)
qed

section \<open>A plane reported ready was seen alive\<close>

lemma check_each_keys: "check_each env state cs s = (Inr checked, t) \<Longrightarrow> map fst checked = map fst cs"
  by (induction cs arbitrary: s checked) (auto simp: bindM_returns retM_def)

lemma status_alive: "component_process_status env c state s = (Inr ''alive'', t) \<Longrightarrow> verified_component_status env c state s = (Inr ''alive'', t)"
  unfolding component_process_status_def tryM_returns
proof (elim disjE exE conjE)
  fix e u
  assume "(case e of ServicePlaneError m \<Rightarrow> retM ''unknown'' | _ \<Rightarrow> raiseM e) u = (Inr ''alive'', t)"
  then show ?thesis by (cases e) (simp_all add: retM_def raiseM_def)
qed

lemma ready_is_alive:
  assumes "component_ready env c state s = (Inr True, t)" "\<not> py_truth (pget state ''dry_run'')"
  shows "\<exists>u. verified_component_status env c state s = (Inr ''alive'', u)"
  using assms by (auto simp: component_ready_def bindM_returns retM_def split: if_splits dest: status_alive)

definition seen_alive :: "plane_env \<Rightarrow> pydict \<Rightarrow> pydict \<Rightarrow> plane_state \<Rightarrow> plane_state \<Rightarrow> bool" where
  "seen_alive env state c s t \<longleftrightarrow>
     (\<exists>u v. grown (pl_calls s) u \<and> verified_component_status env c state u = (Inr ''alive'', v) \<and> grown (pl_calls u) t)"

lemma seen_later: "seen_alive env state c s t \<Longrightarrow> grown (pl_calls t) u \<Longrightarrow> seen_alive env state c s u"
  unfolding seen_alive_def by (meson grown_trans)

lemma grown_observed [keeps_rules]: "keeps (grown h) (observed_component_state env c state ready)"
  unfolding observed_component_state_def by (intro keeps_rules)

lemma grown_check [keeps_rules]: "keeps (grown h) (check_each env state cs)"
  by (induction cs) (auto intro!: keeps_rules)

lemma observed_keeps_ready: "observed_component_state env c state ready s = (Inr (c', seen), t) \<Longrightarrow> pget c' ''ready'' = pget c ''ready''"
  by (auto simp: observed_component_state_def bindM_returns retM_def split: if_splits)

lemma check_each_seen:
  "check_each env state cs s = (Inr checked, t) \<Longrightarrow> \<not> py_truth (pget state ''dry_run'') \<Longrightarrow>
   list_all2 (\<lambda>kc kc'. fst kc' = fst kc \<and> (py_truth (pget (snd kc') ''ready'') \<longrightarrow> seen_alive env state (snd kc) s t)) cs checked"
proof (induction cs arbitrary: s checked)
  case Nil
  then show ?case by (simp add: retM_def)
next
  case (Cons kc cs)
  from Cons.prems(1) obtain ready c seen now rest u v w where u: "component_ready env (snd kc) state s = (Inr ready, u)"
    and v: "observed_component_state env (dset ''ready'' (PBool ready) (snd kc)) state ready u = (Inr (c, seen), v)"
    and w: "call_plane env Time_ns v = (Inr now, w)" and rest: "check_each env state cs w = (Inr rest, t)"
    and out: "checked = (fst kc, dset ''checked_at_ns'' now (dset ''state'' (PStr seen) c)) # rest"
    by (auto simp: bindM_returns retM_def)
  have sw: "grown (pl_calls s) w"
    using grown_after [OF u grown_ready] grown_after [OF v grown_observed] grown_after [OF w grown_call] by (blast intro: grown_trans)
  have st: "grown (pl_calls s) t" using sw grown_after [OF rest grown_check] by (rule grown_trans)
  have "list_all2 (\<lambda>kc kc'. fst kc' = fst kc \<and> (py_truth (pget (snd kc') ''ready'') \<longrightarrow> seen_alive env state (snd kc) s t)) cs rest"
    by (rule list_all2_mono [OF Cons.IH [OF rest Cons.prems(2)]]) (auto simp: seen_alive_def intro: grown_trans [OF sw])
  moreover have "py_truth (pget c ''ready'') \<Longrightarrow> seen_alive env state (snd kc) s t"
    using observed_keeps_ready [OF v] u ready_is_alive [OF _ Cons.prems(2)] st unfolding seen_alive_def
    by (cases ready) (auto, metis grown_refl)
  ultimately show ?case by (simp add: out)
qed

lemma grown_report [keeps_rules]: "keeps (grown h) (report_plane env state expected checked)"
  unfolding report_plane_def Let_def by (intro keeps_rules)

lemma report_plane_state:
  "report_plane env state expected checked s = (Inr state', t) \<Longrightarrow> pget state' ''state'' = PStr (observed_plane expected checked)"
  by (auto simp: report_plane_def bindM_returns seqM_returns retM_def Let_def)

lemma observed_ready:
  "observed_plane expected checked = ''ready'' \<Longrightarrow>
   set (map fst checked) = set expected \<and> list_all (\<lambda>kc. py_truth (pget (snd kc) ''ready'')) checked"
  by (auto simp: observed_plane_def list_all_iff split: if_splits)

lemma status_ready_seen:
  assumes "status_locked env run_dir s = (Inr state', t)" "pget state' ''state'' = PStr ''ready''"
  obtains state u cs expected where "read_plane_state env run_dir True s = (Inr (Some state), u)" "plane_components state = Inr cs"
    "expected_component_keys state = Inr expected" "set (map fst cs) = set expected"
    "py_truth (pget state ''dry_run'') \<or> list_all (\<lambda>kc. seen_alive env state (snd kc) u t) cs"
proof -
  from assms(1) obtain found u where read: "read_plane_state env run_dir True s = (Inr found, u)"
    by (auto simp: status_locked_def bindM_returns)
  from required_state [OF read] obtain state where found: "found = Some state" ..
  with assms read have "pget state ''state'' \<noteq> PStr ''stopped''"
    by (auto simp: status_locked_def bindM_returns retM_def)
  with assms(1) read found obtain expected cs checked v where parts: "plane_components state = Inr cs"
    "expected_component_keys state = Inr expected" and checked: "check_each env state cs u = (Inr checked, v)"
    and report: "report_plane env (if has_key state ''components'' then with_components checked state else state) expected checked v
      = (Inr state', t)"
    by (auto simp: status_locked_def bindM_returns liftM_returns)
  note ready = observed_ready [of expected checked]
  have obs: "observed_plane expected checked = ''ready''" using report_plane_state [OF report] assms(2) by simp
  have vt: "grown (pl_calls v) t" by (rule grown_after [OF report grown_report])
  have keys: "map fst checked = map fst cs" using checked by (rule check_each_keys)
  have "list_all (\<lambda>kc. seen_alive env state (snd kc) u t) cs" if "\<not> py_truth (pget state ''dry_run'')"
    using check_each_seen [OF checked that] ready [OF obs] vt
    by (auto simp: list_all_length list_all2_conv_all_nth intro: seen_later)
  with read found parts keys ready [OF obs] show thesis by (intro that) auto
qed

section \<open>What is not brought to an end\<close>

lemma discard_returns: "\<exists>d. discard_component_control_files c s = (Inr (), s\<lparr>pl_disk := d\<rparr>)"
proof -
  have "\<exists>d. forM keys (\<lambda>key. if py_truth (pget c key) then unlink_file (py_str (pget c key)) else retM ()) s = (Inr (), s\<lparr>pl_disk := d\<rparr>)" for keys
  proof (induction keys arbitrary: s)
    case Nil
    show ?case by (rule exI [of _ "pl_disk s"]) (simp add: retM_def)
  next
    case (Cons key keys)
    have "\<exists>d. (if py_truth (pget c key) then unlink_file (py_str (pget c key)) else retM ()) s = (Inr (), s\<lparr>pl_disk := d\<rparr>)"
      by (cases "py_truth (pget c key)") (auto simp: unlink_file_def on_disk_def modM_def retM_def intro: exI [of _ "pl_disk s"])
    then obtain d where "(if py_truth (pget c key) then unlink_file (py_str (pget c key)) else retM ()) s = (Inr (), s\<lparr>pl_disk := d\<rparr>)" ..
    with Cons [of "s\<lparr>pl_disk := d\<rparr>"] show ?case by (simp add: seqM_def bindM_def)
  qed
  then show ?thesis by (simp add: discard_component_control_files_def)
qed

text \<open>
  A component with a process number and no identity, which a start leaves behind when the question for
  the identity is not answered, is called stopped although no signal was sent.
\<close>

lemma unidentified_called_stopped:
  assumes "sub c ''role'' = Inr role" "role \<noteq> PStr ''prte-dvm''" "\<not> py_truth (pget c ''process_identity'')"
    and clock: "plane_answer env (pl_calls s) Time_ns = Inr now"
  shows "\<exists>c' t. stop_component env state key c s = (Inr (c', None), t) \<and> component_stopped c' \<and> pget c' ''pid'' = pget c ''pid'' \<and>
    pl_calls t = pl_calls s @ [Time_ns]"
proof -
  obtain d where "discard_component_control_files c s = (Inr (), s\<lparr>pl_disk := d\<rparr>)" using discard_returns by blast
  with assms show ?thesis
    by (auto simp: stop_component_def stop_process_def verified_component_status_def end_verified_def call_plane_def catchM_def
        component_stopped_def monad_defs)
qed

lemma unanswered_launch:
  assumes "read_pid env pid_file s = (Inr pid, u)"
    and "read_process_identity env (PInt pid) (pget c ''node'') allocation (snd (put_component key (dset ''pid'' (PInt pid) c) u)) = (Inl e, v)"
  shows "record_process env key c pid_file allocation s = (Inl e, v)"
  using assms by (auto simp: record_process_def bindM_def seqM_def put_component_def modM_def require_process_identity_def Let_def)

text \<open>A manager that finds the lock taken ends, and stops nothing.\<close>

lemma refused_lock_ends_manager:
  assumes "plane_answer env (pl_calls s) Stop_requested = Inr (PBool False)"
    and "resolve_run_dir env (pa_run_dir args) = Inr run_dir"
    and "plane_answer env (pl_calls s @ [Stop_requested]) (Lock_state run_dir) = Inr (PBool False)"
  shows "\<exists>t. watch env args (Suc n) s = (Inl (ServicePlaneError (''another service-plane operation is active: '' @ run_dir)), t) \<and>
    pl_calls t = pl_calls s @ [Stop_requested, Lock_state run_dir]"
  using assms by (simp add: call_flag_def call_plane_def status_def state_lock_def on_disk_def make_dir_def monad_defs)

section \<open>Whole commands\<close>

text \<open>A process of this machine that is told to end is sent the signal.\<close>

lemma terminate_tells:
  assumes "terminate_pid env pid node allocation s = (Inr (), t)" "\<not> is_remote allocation"
  shows "\<exists>later. pl_calls t = pl_calls s @ Kill_group pid ''SIGTERM'' # later"
proof -
  let ?rest = "\<lambda>delivered. if delivered \<notin> {PStr ''no-process'', PStr ''not-permitted''} then retM ()
       else bindM (call_plane env (Kill_process pid ''SIGTERM'')) (\<lambda>r.
         if r = PStr ''not-permitted'' then raiseM (OSError ''Operation not permitted'') else retM ())"
    and ?wait = "bindM (call_plane env Monotonic) (\<lambda>t. bindM (liftM (py_int t)) (\<lambda>now.
         seqM (await_exit env pid (now + TERMINATE_TIMEOUT_SECONDS) (poll_rounds env))
         (bindM (local_pid_alive env pid) (\<lambda>alive. if alive then signal_local_pid env pid ''SIGKILL'' else retM ()))))"
  from assms obtain delivered u v where u: "call_plane env (Kill_group pid ''SIGTERM'') s = (Inr delivered, u)"
    and v: "?rest delivered u = (Inr (), v)" and t: "?wait v = (Inr (), t)"
    by (auto simp: terminate_pid_def seqM_returns bindM_returns [of "signal_local_pid env pid ''SIGTERM''"]
        bindM_returns [of "call_plane env (Kill_group pid ''SIGTERM'')"] signal_local_pid_def [of env pid "''SIGTERM''"])
  have "keeps (grown (pl_calls u)) (?rest delivered)" by (intro keeps_rules)
  then have uv: "grown (pl_calls u) v" unfolding keeps_def using v by (metis grown_refl snd_conv)
  have "keeps (grown (pl_calls v)) ?wait" by (intro keeps_rules)
  then have "grown (pl_calls v) t" unfolding keeps_def using t by (metis grown_refl snd_conv)
  with uv have "grown (pl_calls u) t" by (rule grown_trans)
  with u show ?thesis by (auto simp: call_plane_def grown_def)
qed

lemma stop_accounts:
  assumes "stop env run_dir s = (Inr state', t)"
  shows "component_stopped state' \<and> (\<exists>dir state v. resolve_run_dir env run_dir = Inr dir \<and>
    read_plane_state env dir True (locked_state env dir s) = (Inr (Some state), v) \<and>
    (state' = state \<or> (\<exists>cs cs'. plane_components state = Inr cs \<and> plane_components state' = Inr cs' \<and>
      list_all2 (\<lambda>kc kc'. fst kc' = fst kc \<and> component_stopped (snd kc') \<and>
        (py_truth (pget state ''dry_run'') \<or> \<not> identified (snd kc) \<or> settled env state (snd kc) v t)) cs cs')))"
proof -
  from assms obtain dir where dir: "resolve_run_dir env run_dir = Inr dir"
    and "state_lock env dir (stop_locked env dir) s = (Inr state', t)"
    by (auto simp: stop_def bindM_returns liftM_returns)
  from this(2) obtain w where u: "stop_locked env dir (locked_state env dir s) = (Inr state', w)" and wt: "grown (pl_calls w) t"
    by (rule state_lock_returns)
  from u show ?thesis
  proof (cases rule: stop_locked_accounts)
    case (recorded v)
    with dir show ?thesis by blast
  next
    case (now state v cs cs')
    have "list_all2 (\<lambda>kc kc'. fst kc' = fst kc \<and> component_stopped (snd kc') \<and>
        (py_truth (pget state ''dry_run'') \<or> \<not> identified (snd kc) \<or> settled env state (snd kc) v t)) cs cs'"
      by (rule list_all2_mono [OF now(5)]) (auto simp: accounted_def intro: settled_later [OF _ wt])
    with dir now(1-4) show ?thesis by blast
  qed
qed

lemma unanswered_stop_raises:
  assumes "read_plane_state env run_dir True s = (Inr (Some state), u)" "\<not> component_stopped state"
    and "\<not> py_truth (pget state ''dry_run'')" "plane_components state = Inr cs" "(key, c) \<in> set cs" "unanswered env state c"
  shows "\<exists>e t. stop_locked env run_dir s = (Inl e, t)"
proof (rule ccontr)
  assume "\<nexists>e t. stop_locked env run_dir s = (Inl e, t)"
  then obtain state' t where "stop_locked env run_dir s = (Inr state', t)"
    by (metis sum.exhaust surj_pair)
  then show False
  proof (cases rule: stop_locked_parts)
    case (now state2 u2 v st errors)
    then have "state2 = state" "u2 = u" using assms(1) by simp_all
    with now(2) have "errors \<noteq> []" using unanswered_fails [OF assms(6,3,4,5)] by blast
    with finish_stop_returns [OF now(3)] show False by simp
  qed (use assms(1,2) in simp)
qed

lemma status_accounts:
  assumes "status env run_dir s = (Inr state', t)" "pget state' ''state'' = PStr ''ready''"
  shows "\<exists>dir state u v cs expected. resolve_run_dir env run_dir = Inr dir \<and> grown (pl_calls s) u \<and>
    read_plane_state env dir True u = (Inr (Some state), v) \<and> plane_components state = Inr cs \<and>
    expected_component_keys state = Inr expected \<and> set (map fst cs) = set expected \<and>
    (py_truth (pget state ''dry_run'') \<or> list_all (\<lambda>kc. seen_alive env state (snd kc) v t) cs)"
proof -
  from assms(1) obtain dir where dir: "resolve_run_dir env run_dir = Inr dir"
    and "state_lock env dir (status_locked env dir) s = (Inr state', t)"
    by (auto simp: status_def bindM_returns liftM_returns)
  from this(2) obtain u w where u: "status_locked env dir u = (Inr state', w)" "grown (pl_calls s) u" and wt: "grown (pl_calls w) t"
    by (rule state_lock_returns)
  from u(1) assms(2) obtain state v cs expected where parts: "read_plane_state env dir True u = (Inr (Some state), v)"
    "plane_components state = Inr cs" "expected_component_keys state = Inr expected" "set (map fst cs) = set expected"
    and seen: "py_truth (pget state ''dry_run'') \<or> list_all (\<lambda>kc. seen_alive env state (snd kc) v w) cs"
    by (rule status_ready_seen)
  have "py_truth (pget state ''dry_run'') \<or> list_all (\<lambda>kc. seen_alive env state (snd kc) v t) cs"
    using seen seen_later [OF _ wt] by (auto simp: list_all_iff)
  with dir u(2) parts show ?thesis by blast
qed

section \<open>A recorded plane\<close>

text \<open>A plane with one QPM, on machines whose answers to the question for its process differ.\<close>

definition plane_machine :: "(plane_call list \<Rightarrow> plane_call \<Rightarrow> exc + pyval) \<Rightarrow> plane_env" where
  "plane_machine answer = \<lparr>su = plain_env, plane_answer = answer, meanwhile = (\<lambda>_ d. d), hostname = ''here'', python_path = ''python3'',
     own_pid = 1, is_root = False, expand_host_list = (\<lambda>_. None), poll_rounds = 0\<rparr>"

definition probe_answer :: "(exc + pyval) \<Rightarrow> plane_call list \<Rightarrow> plane_call \<Rightarrow> exc + pyval" where
  "probe_answer stat h c =
     (case c of Read_stat p \<Rightarrow> stat | Read_boot_id \<Rightarrow> Inr (PStr ''b'') | Time_ns \<Rightarrow> Inr (PInt 7) | Lock_state d \<Rightarrow> Inr (PBool True) | _ \<Rightarrow> Inr PNone)"

definition gone_machine :: plane_env where "gone_machine = plane_machine (probe_answer (Inr PNone))"
definition deaf_machine :: plane_env where "deaf_machine = plane_machine (probe_answer (Inl (OSError ''Input/output error'')))"
definition live_machine :: plane_env where
  "live_machine = plane_machine (probe_answer (Inr (PStr ''5 (python3) S 0 0 0 0 0 0 0 0 0 0 0 0 0 0 0 0 0 0 3 0'')))"

definition recorded_qpm :: pydict where
  "recorded_qpm = [(''role'', PStr ''qpm''), (''state'', PStr ''ready''), (''node'', PStr ''here''), (''pid'', PInt 5),
     (''process_identity'', PDict [(''pid'', PInt 5), (''boot_id'', PStr ''b''), (''start_time_ticks'', PInt 3)]),
     (''ready_file'', PStr ''/r/ready.json'')]"

definition recorded_plane :: pydict where
  "recorded_plane = [(''schema'', PStr SCHEMA), (''state'', PStr ''ready''), (''run_dir'', PStr ''/r''), (''dry_run'', PBool False),
     (''configuration'', PDict [(''components'', PDict [(''qpm'', PBool True)]), (''service_ids'', PList [PStr ''q''])]),
     (''allocation'', PDict [(''mode'', PStr ''local'')]), (''components'', PDict [(''qpm:q'', PDict recorded_qpm)])]"

definition recorded_run :: plane_state where
  "recorded_run = \<lparr>pl_disk = \<lparr>file_system = [(plane_state_path ''/r'', Json_file (PDict recorded_plane)),
       (''/r/ready.json'', Json_file (PDict [(''ready'', PBool True)]))], directories = [], ports_asked = 0\<rparr>,
     pl_calls = [], pl_state = []\<rparr>"

lemma gone_plane_stops: "\<not> isl (fst (stop gone_machine (PStr ''/r'') recorded_run))"
  by code_simp

lemma live_plane_ready: "(case fst (status live_machine (PStr ''/r'') recorded_run) of Inr st \<Rightarrow> pget st ''state'' = PStr ''ready'' | Inl _ \<Rightarrow> False)"
  by code_simp

lemma recorded_parts: "plane_components recorded_plane = Inr [(''qpm:q'', recorded_qpm)]" "\<not> component_stopped recorded_plane"
  "\<not> component_stopped recorded_qpm" "\<not> py_truth (pget recorded_plane ''dry_run'')"
  by code_simp+

lemma recorded_read: "read_plane_state deaf_machine ''/r'' required recorded_run = (Inr (Some recorded_plane), recorded_run)"
  by (cases required) code_simp+

lemma gone_run_read:
  "resolve_run_dir gone_machine (PStr ''/r'') = Inr ''/r''"
  "read_plane_state gone_machine ''/r'' True (locked_state gone_machine ''/r'' recorded_run) =
     (Inr (Some recorded_plane), locked_state gone_machine ''/r'' recorded_run)"
  "identified recorded_qpm"
  by code_simp+

lemma deaf_unanswered: "unanswered deaf_machine recorded_plane recorded_qpm"
  by (simp add: unanswered_def verified_component_status_def recorded_qpm_def recorded_plane_def pget_def state_allocation_def sub_def
      as_mapping_def read_process_identity_def is_remote_def local_process_identity_def probe_error_def py_int_def deaf_machine_def plane_machine_def
      probe_answer_def call_plane_def monad_defs Let_def)

lemma deaf_quiet: "quiet deaf_machine"
  by (simp add: quiet_def deaf_machine_def plane_machine_def)

text \<open>A machine that asks a node whose answer is that the process has gone.\<close>

definition relay_machine :: plane_env where
  "relay_machine = (plane_machine (\<lambda>_ _. Inr (PTuple [PInt 0, PStr [CHR 0x0A], PStr []])))
     \<lparr>su := plain_env\<lparr>parse_json := (\<lambda>_. Inr (PDict [(''alive'', PBool False)]))\<rparr>\<rparr>"

text \<open>A command ends with the error when it is none of the three kinds it reports.\<close>

lemma role_main_uncaught:
  assumes "start env args s = (Inl e, t)" "\<forall>m. e \<notin> {OSError m, ServicePlaneError m, ValueError m}"
  shows "role_main env ''start'' args s = (Inl e, t)"
  using assms by (cases e) (simp_all add: role_main_def tryM_def seqM_def bindM_def raiseM_def)

end
