(* ===== verification/QPM_Commands.thy ===== *)
theory QPM_Commands
  imports QPM_Plane
begin

text \<open>
  The commands of a run (\<^verbatim>\<open>setup/qfw_runtime/commands.py\<close>): setting a run up, reporting it, starting an
  application in it and tearing it down. A command works on the mapping of the run's state file and on
  the service planes of the run. The lemmas show what the environment of an application holds, that a
  run is removed only when the planes it owns were stopped, and where a failed setup loses a process.
\<close>

section \<open>The state of a command\<close>

record command_state =
  cm_plane :: plane_state
  cm_run :: pydict

type_synonym 'a command = "(command_state, 'a) pm"

definition on_plane :: "'a plane \<Rightarrow> 'a command" where
  "on_plane m = (\<lambda>s. case m (cm_plane s) of (r, p) \<Rightarrow> (r, s\<lparr>cm_plane := p\<rparr>))"

definition put_run :: "string \<Rightarrow> pyval \<Rightarrow> unit command" where
  "put_run key v = modM (\<lambda>s. s\<lparr>cm_run := dset key v (cm_run s)\<rparr>)"

text \<open>The texts of an environment that was read from a state.\<close>

definition environment_of :: "pyval \<Rightarrow> exc + (string \<times> string) list" where
  "environment_of v = bindE (as_mapping (py_or v (PDict []))) (\<lambda>d. Inr (map (\<lambda>(k, x). (k, py_str x)) d))"

definition save_run :: "plane_env \<Rightarrow> unit command" where
  "save_run env = bindM (getM cm_run) (\<lambda>state. bindM (liftM (sub state ''state_dir'')) (\<lambda>dir. on_plane (on_disk (write_state (su env) (py_str dir) state))))"

definition save_environment :: "unit command" where
  "save_environment =
     bindM (getM cm_run) (\<lambda>state. bindM (liftM (sub state ''run_dir'')) (\<lambda>dir.
     bindM (liftM (bindE (sub state ''environment'') environment_of)) (\<lambda>e. on_plane (on_disk (write_env_file (py_str dir) e)))))"

section \<open>The environment of an application\<close>

definition PATH_ENVIRONMENT_VARS :: "string list" where
  "PATH_ENVIRONMENT_VARS = [''PATH'', ''LD_LIBRARY_PATH'', ''PYTHONPATH'', ''MANPATH'']"

text \<open>The items of two search paths, each once, in the order they come.\<close>

primrec unseen_items :: "string list \<Rightarrow> string list \<Rightarrow> string list" where
  "unseen_items seen [] = []"
| "unseen_items seen (item # items) =
     (if item = [] \<or> item \<in> set seen then unseen_items seen items else item # unseen_items (item # seen) items)"

definition path_values :: "string option \<Rightarrow> string list" where
  "path_values v = (case v of Some t \<Rightarrow> if t = [] then [] else split_on (CHR '':'') t | None \<Rightarrow> [])"

definition merge_path_environment :: "string option \<Rightarrow> string option \<Rightarrow> string" where
  "merge_path_environment caller_value runtime_value =
     join_with '':'' (unseen_items [] (path_values caller_value @ path_values runtime_value))"

definition application_environment :: "(string \<times> string) list \<Rightarrow> (string \<times> string) list \<Rightarrow> (string \<times> string) list" where
  "application_environment vars runtime_env =
     (let caller_env = launch_environment vars True
      in foldl (\<lambda>env name.
             let merged = merge_path_environment (map_of caller_env name) (map_of runtime_env name)
             in if merged \<noteq> [] then dset name merged env else env)
           (dupdate caller_env runtime_env) PATH_ENVIRONMENT_VARS)"

section \<open>Hosts\<close>

definition split_once :: "char \<Rightarrow> string \<Rightarrow> string \<times> string" where
  "split_once c t = (takeWhile (\<lambda>x. x \<noteq> c) t, drop 1 (dropWhile (\<lambda>x. x \<noteq> c) t))"

definition padded :: "nat \<Rightarrow> int \<Rightarrow> string" where
  "padded width n = replicate (width - length (int_text n)) (CHR ''0'') @ int_text n"

text \<open>One part between brackets: a number, or a range with the leading zeros of its ends.\<close>

definition expand_part :: "string \<Rightarrow> string \<Rightarrow> string \<Rightarrow> exc + string list" where
  "expand_part before after part =
     (if CHR ''-'' \<notin> set part then Inr [before @ part @ after]
      else let (start_text, end_text) = split_once (CHR ''-'') part; width = max (length start_text) (length end_text)
           in bindE (py_int (PStr start_text)) (\<lambda>a. bindE (py_int (PStr end_text)) (\<lambda>b.
                Inr (map (\<lambda>n. before @ padded width n @ after) [a..b]))))"

fun expand_parts :: "string \<Rightarrow> string \<Rightarrow> string list \<Rightarrow> exc + string list" where
  "expand_parts before after [] = Inr []"
| "expand_parts before after (part # parts) =
     bindE (expand_part before after part) (\<lambda>hs. bindE (expand_parts before after parts) (\<lambda>rest. Inr (hs @ rest)))"

definition expand_item :: "string \<Rightarrow> exc + string list" where
  "expand_item text =
     (let item = py_strip text
      in if item = [] then Inr []
         else if CHR ''['' \<notin> set item \<or> CHR '']'' \<notin> set item then Inr [item]
         else let (before, rest) = split_once (CHR ''['') item
              in if CHR '']'' \<notin> set rest then Inl (ValueError ''not enough values to unpack (expected 2, got 1)'')
                 else let (body, after) = split_once (CHR '']'') rest in expand_parts before after (split_on (CHR '','') body))"

fun expand_items :: "string list \<Rightarrow> exc + string list" where
  "expand_items [] = Inr []"
| "expand_items (item # items) = bindE (expand_item item) (\<lambda>hs. bindE (expand_items items) (\<lambda>rest. Inr (hs @ rest)))"

definition expand_simple_host_list :: "string \<Rightarrow> exc + string list" where
  "expand_simple_host_list v = expand_items (split_on (CHR '','') v)"

definition expand_command_hosts :: "plane_env \<Rightarrow> string \<Rightarrow> exc + string list" where
  "expand_command_hosts env v =
     (if v = [] then Inr []
      else case expand_host_list env v of Some hosts \<Rightarrow> Inr hosts | None \<Rightarrow> expand_simple_host_list v)"

definition var :: "(string \<times> string) list \<Rightarrow> string \<Rightarrow> string \<Rightarrow> string" where
  "var e name d = (case map_of e name of Some v \<Rightarrow> v | None \<Rightarrow> d)"

definition environment_mode :: "(string \<times> string) list \<Rightarrow> string" where
  "environment_mode e =
     (let mode = py_lower (py_strip (var e ''QFW_ALLOCATION_MODE'' []))
      in if mode \<noteq> [] then mode
         else if list_ex (\<lambda>(key, v). starts_with ''SLURM_JOB_NODELIST_HET_GROUP_'' key) e then ''heterogeneous''
         else if var e ''SLURM_JOB_NODELIST'' [] \<noteq> [] then ''slurm'' else ''local'')"

text \<open>The two node lists of an allocation.\<close>

definition environment_groups :: "plane_env \<Rightarrow> (string \<times> string) list \<Rightarrow> string \<times> string" where
  "environment_groups env e =
     (let mode = environment_mode e; g0 = var e ''QFW_GROUP_0_NODELIST'' []; g1 = var e ''QFW_GROUP_1_NODELIST'' [];
          some_missing = (g0 = [] \<or> g1 = [])
      in if mode = ''heterogeneous'' \<and> some_missing
         then (var e ''SLURM_JOB_NODELIST_HET_GROUP_0'' g0, var e ''SLURM_JOB_NODELIST_HET_GROUP_1'' g1)
         else if mode = ''slurm'' \<and> some_missing
         then let nodes = var e ''SLURM_JOB_NODELIST'' (hostname env) in (or_text g0 nodes, or_text g1 nodes)
         else if mode = ''local'' then (or_text g0 (hostname env), or_text g1 (hostname env))
         else (g0, g1))"

definition allocation_context_from_env :: "plane_env \<Rightarrow> (string \<times> string) list \<Rightarrow> exc + pydict" where
  "allocation_context_from_env env e =
     (let (g0, g1) = environment_groups env e; groups = var e ''QFW_GROUPS'' []
      in bindE (expand_command_hosts env g0) (\<lambda>group0. bindE (expand_command_hosts env g1) (\<lambda>group1.
           if group0 = [] \<or> group1 = []
           then Inl (ValueError (''local-services require allocation groups 0 and 1; got group0='' @ repr_text g0 @ '' group1='' @ repr_text g1))
           else Inr [(''mode'', PStr (environment_mode e)), (''group0'', PList (map PStr group0)), (''group1'', PList (map PStr group1)),
                     (''group0_nodelist'', PStr g0), (''group1_nodelist'', PStr g1),
                     (''groups'', PStr (or_text groups (''GROUP_0='' @ g0 @ '':GROUP_1='' @ g1)))])))"

definition allocation_variables :: "pydict \<Rightarrow> (string \<times> string) list" where
  "allocation_variables allocation =
     [(''QFW_ALLOCATION_MODE'', py_str (pget allocation ''mode'')), (''QFW_GROUP_0_NODELIST'', py_str (pget allocation ''group0_nodelist'')),
      (''QFW_GROUP_1_NODELIST'', py_str (pget allocation ''group1_nodelist'')), (''QFW_GROUPS'', py_str (pget allocation ''groups''))]"

definition publish_allocation_environment :: "(string \<times> string) list \<Rightarrow> pydict \<Rightarrow> (string \<times> string) list" where
  "publish_allocation_environment e allocation = dupdate e (allocation_variables allocation)"

section \<open>Endpoints\<close>

definition record_endpoint :: "pydict \<Rightarrow> exc + (string \<times> int)" where
  "record_endpoint d =
     bindE (py_int (py_or (pget d ''listen_port'') (py_or (pget d ''listen-port'') (py_or (pget d ''port'') (PInt 0))))) (\<lambda>port.
       Inr (py_str (py_or (pget d ''address'') (py_or (pget d ''host'') (py_or (pget d ''hostname'') (PStr ''127.0.0.1'')))), port))"

definition split_any_endpoint :: "pyval \<Rightarrow> exc + (string \<times> int)" where
  "split_any_endpoint endpoint =
     (case endpoint of
        PDict d \<Rightarrow> record_endpoint d
      | _ \<Rightarrow>
          if \<not> py_truth endpoint then Inr (''127.0.0.1'', 0)
          else let v = py_strip (py_str endpoint)
               in if contains_text ''://'' v then split_url v
                  else case after_last_colon v of
                         None \<Rightarrow> Inr (v, 0)
                       | Some port \<Rightarrow> bindE (py_int (PStr port)) (\<lambda>p. Inr (take (length v - length port - 1) v, p)))"

definition tcp_endpoint_ready :: "plane_env \<Rightarrow> pyval \<Rightarrow> bool plane" where
  "tcp_endpoint_ready env endpoint =
     bindM (liftM (split_any_endpoint endpoint)) (\<lambda>(host, port).
       if port = 0 then retM False
       else tryM (call_flag env (Dial host port)) (\<lambda>e. case e of OSError m \<Rightarrow> retM False | _ \<Rightarrow> raiseM e))"

text \<open>
  The wait for a probe: what it raises counts as not yet. A number of rounds at most; the deadline that
  passes is \<^verbatim>\<open>TimeoutError\<close>, an \<^verbatim>\<open>OSError\<close>.
\<close>

primrec wait_for_ready :: "plane_env \<Rightarrow> string \<Rightarrow> int \<Rightarrow> int \<Rightarrow> bool plane \<Rightarrow> string \<Rightarrow> nat \<Rightarrow> unit plane" where
  "wait_for_ready env name timeout deadline probe detail 0 = raiseM NoReturn"
| "wait_for_ready env name timeout deadline probe detail (Suc n) =
     bindM (catchM (bindM probe (\<lambda>b. retM (b, detail))) (\<lambda>e. retM (False, '': '' @ exc_text e))) (\<lambda>(there, detail).
       if there then retM ()
       else bindM (call_plane env Monotonic) (\<lambda>t. bindM (liftM (py_int t)) (\<lambda>now.
         if now \<ge> deadline
         then raiseM (OSError (name @ '' readiness timed out after '' @ int_text timeout @ '' seconds'' @ detail))
         else wait_for_ready env name timeout deadline probe detail n)))"

definition await_endpoint :: "plane_env \<Rightarrow> string \<Rightarrow> int \<Rightarrow> pyval \<Rightarrow> unit plane" where
  "await_endpoint env name timeout endpoint =
     bindM (call_plane env Monotonic) (\<lambda>t. bindM (liftM (py_int t)) (\<lambda>now.
       wait_for_ready env name timeout (now + max 0 timeout) (tcp_endpoint_ready env endpoint) [] (poll_rounds env)))"

definition requirements_of :: "pydict \<Rightarrow> exc + pyval list" where
  "requirements_of state = py_items (py_or (pget state ''directory_requirements'') (PList []))"

definition wait_requirement :: "plane_env \<Rightarrow> pyval \<Rightarrow> unit plane" where
  "wait_requirement env v =
     bindM (liftM (as_mapping v)) (\<lambda>req.
     bindM (liftM (sub req ''endpoint'')) (\<lambda>endpoint.
     bindM (liftM (py_int (pgetd req ''connect_timeout_seconds'' (PInt 300)))) (\<lambda>timeout.
     let name = py_str (py_or (pget req ''name'') (py_or (pget req ''scope'') endpoint))
     in await_endpoint env (''directory '' @ name @ '' at '' @ py_str endpoint) timeout endpoint)))"

definition wait_required_directories :: "plane_env \<Rightarrow> pydict \<Rightarrow> unit plane" where
  "wait_required_directories env state = bindM (liftM (requirements_of state)) (\<lambda>reqs. forM reqs (wait_requirement env))"

fun scope_timeout :: "string \<Rightarrow> pyval list \<Rightarrow> exc + int" where
  "scope_timeout scope [] = Inr 300"
| "scope_timeout scope (v # reqs) =
     bindE (as_mapping v) (\<lambda>req.
       if pget req ''scope'' = PStr scope then py_int (pgetd req ''connect_timeout_seconds'' (PInt 300)) else scope_timeout scope reqs)"

definition directory_timeout :: "pydict \<Rightarrow> string \<Rightarrow> exc + int" where
  "directory_timeout state scope = bindE (requirements_of state) (scope_timeout scope)"

section \<open>The services of a run\<close>

definition managers_of :: "pydict \<Rightarrow> exc + pyval list" where
  "managers_of state = py_items (py_or (pget state ''service_managers'') (PList []))"

definition add_manager :: "pydict \<Rightarrow> unit command" where
  "add_manager manager =
     bindM (getM cm_run) (\<lambda>state. bindM (liftM (managers_of state)) (\<lambda>managers.
       put_run ''service_managers'' (PList (managers @ [PDict manager]))))"

definition update_environment :: "(string \<times> string) list \<Rightarrow> unit command" where
  "update_environment new =
     bindM (getM cm_run) (\<lambda>state. bindM (liftM (bindE (sub state ''environment'') environment_of)) (\<lambda>e.
       put_run ''environment'' (text_dict (dupdate e new))))"

fun adopt_requirements :: "pyval \<Rightarrow> pyval \<Rightarrow> pyval list \<Rightarrow> exc + pyval list" where
  "adopt_requirements endpoint name [] = Inr []"
| "adopt_requirements endpoint name (v # reqs) =
     bindE (as_mapping v) (\<lambda>req. bindE (adopt_requirements endpoint name reqs) (\<lambda>rest.
       Inr (PDict (if pget req ''scope'' = PStr ''allocation-local'' then dset ''name'' name (dset ''endpoint'' endpoint req) else req) # rest)))"

text \<open>The directory a plane has started becomes the directory of the run.\<close>

definition adopt_managed_directory :: "pydict \<Rightarrow> unit command" where
  "adopt_managed_directory directory_state =
     bindM (liftM (bindE (sub directory_state ''directory'') as_mapping)) (\<lambda>directory.
     bindM (liftM (sub directory ''endpoint'')) (\<lambda>endpoint.
     bindM (liftM (split_any_endpoint endpoint)) (\<lambda>(host, port).
     bindM (liftM (sub directory ''connection_file'')) (\<lambda>connection_file.
     bindM (getM cm_run) (\<lambda>state.
     bindM (liftM (as_mapping (py_or (pget state ''local_dirsvc'') (PDict [])))) (\<lambda>local.
     bindM (liftM (sub directory ''name'')) (\<lambda>name.
     bindM (liftM (sub directory ''telnet_port'')) (\<lambda>telnet_port.
     seqM (put_run ''local_dirsvc'' (PDict (dupdate local [(''name'', name), (''host'', PStr host), (''port'', PInt port),
             (''telnet_port'', telnet_port), (''endpoint'', endpoint), (''connection_file'', connection_file)])))
     (seqM (update_environment [(''QFW_DIRECTORY_SERVICE_INFO'', py_str connection_file), (''QFW_LOCAL_DIRSVC_ENDPOINT'', py_str endpoint),
             (''QFW_LOCAL_DIRSVC_NAME'', py_str name), (''DEFW_PARENT_HOSTNAME'', host), (''DEFW_PARENT_PORT'', int_text port),
             (''DEFW_PARENT_NAME'', py_str name), (''DEFW_DISABLE_DIRSVC'', ''no'')])
       (bindM (liftM (requirements_of state)) (\<lambda>reqs.
          if reqs = [] then retM ()
          else bindM (liftM (adopt_requirements endpoint name reqs)) (\<lambda>reqs. put_run ''directory_requirements'' (PList reqs)))))))))))))"

definition role_args :: "pydict \<Rightarrow> string \<Rightarrow> int \<Rightarrow> pydict \<Rightarrow> plane_args" where
  "role_args state run_dir timeout allocation =
     \<lparr>pa_run_dir = PStr run_dir, pa_site_config = pget state ''site_config'', pa_runtime_config = pget state ''runtime_config'', pa_profile = [],
      pa_scope = ''application'', pa_node = PNone, pa_timeout = timeout, pa_poll_interval = 2000, pa_dry_run = False, pa_component_mode = [],
      pa_directory_node = PNone, pa_qpm_node = PNone, pa_directory_service_info = PNone, pa_service_id = PNone,
      pa_manifest_service_name = PNone, pa_allocation = Some allocation\<rparr>"

definition start_managed_directory :: "plane_env \<Rightarrow> int \<Rightarrow> pydict \<Rightarrow> string \<Rightarrow> unit command" where
  "start_managed_directory env timeout allocation run_dir =
     bindM (getM cm_run) (\<lambda>state.
     bindM (on_plane (start_role env ''directory'' (role_args state run_dir timeout allocation))) (\<lambda>directory_state.
     seqM (add_manager [(''owner'', PStr ''application''), (''role'', PStr ''directory''), (''run_dir'', PStr run_dir)])
     (seqM (adopt_managed_directory directory_state) (seqM (save_run env) save_environment))))"

definition add_launch :: "pydict \<Rightarrow> unit command" where
  "add_launch service_state =
     bindM (liftM (bindE (sub service_state ''services'') py_items)) (\<lambda>services.
     case services of
       [] \<Rightarrow> raiseM (IndexError ''list index out of range'')
     | service # _ \<Rightarrow>
         bindM (getM cm_run) (\<lambda>state. bindM (liftM (py_items (pgetd state ''local_service_launches'' (PList [])))) (\<lambda>launches.
           put_run ''local_service_launches'' (PList (launches @ [service])))))"

definition start_managed_qpm :: "plane_env \<Rightarrow> int \<Rightarrow> pydict \<Rightarrow> string \<Rightarrow> string \<Rightarrow> string \<Rightarrow> string \<Rightarrow> string command" where
  "start_managed_qpm env timeout allocation directory_info run_id run_dir service_name =
     (let service_id = application_service_id (su env) service_name run_id in
      bindM (getM cm_run) (\<lambda>state.
      bindM (on_plane (start_role env ''qpm'' ((role_args state run_dir timeout allocation)
        \<lparr>pa_service_id := PStr service_id, pa_manifest_service_name := PStr service_name, pa_directory_service_info := PStr directory_info\<rparr>)))
        (\<lambda>service_state.
      seqM (add_manager [(''owner'', PStr ''application''), (''role'', PStr ''qpm''), (''service_id'', PStr service_id),
             (''manifest_service_name'', PStr service_name), (''run_dir'', PStr run_dir)])
      (seqM (add_launch service_state) (seqM (save_run env) (retM service_id))))))"

definition start_managed_qpms :: "plane_env \<Rightarrow> int \<Rightarrow> pydict \<Rightarrow> string \<Rightarrow> string \<Rightarrow> unit command" where
  "start_managed_qpms env timeout allocation directory_info root =
     (if directory_info = []
      then raiseM (RuntimeError ''application QPM startup requires a managed or configured directory-service connection record'')
      else
        bindM (getM cm_run) (\<lambda>state.
        bindM (liftM (sub state ''service_manifest'')) (\<lambda>manifest.
        bindM (on_plane (on_disk (load_service_manifest (su env) (py_str manifest)))) (\<lambda>services.
        bindM (liftM (bindE (sub state ''local_services'') as_mapping)) (\<lambda>local_config.
        bindM (liftM (selected_service_names local_config services)) (\<lambda>selected.
        bindM (liftM (sub state ''run_id'')) (\<lambda>run_id.
        bindM (collectM selected (\<lambda>name.
                 bindM (start_managed_qpm env timeout allocation directory_info (py_str run_id) (join_all root [''qpm'', name]) name) (\<lambda>i. retM [i])))
          (\<lambda>ids.
        seqM (update_environment [(''QFW_QPM_SERVICE_IDS'', join_with '','' ids)])
          (if ids = [] then retM ()
           else update_environment [(''QFW_DVM_URI_PATH'', join_all root [''qpm'', last selected, ''prte_dvm'', ''dvm-uri''])])))))))))"

definition start_job_local_services :: "plane_env \<Rightarrow> unit command" where
  "start_job_local_services env =
     bindM (getM cm_run) (\<lambda>state.
     bindM (liftM (bindE (sub state ''local_services'') as_mapping)) (\<lambda>local_config.
     bindM (liftM (bindE (sub state ''environment'') environment_of)) (\<lambda>e.
     bindM (liftM (directory_timeout state ''allocation-local'')) (\<lambda>timeout.
     bindM (liftM (allocation_context_from_env env (dupdate (environ (su env)) e))) (\<lambda>allocation.
     seqM (update_environment (allocation_variables allocation))
     (bindM (liftM (sub state ''run_dir'')) (\<lambda>run_dir.
     let root = join_path (py_str run_dir) ''service-plane'' in
     seqM (if bool_config (pget local_config ''start-dirsvc'') False
           then start_managed_directory env timeout allocation (join_path root ''directory'') else retM ())
     (seqM (if bool_config (pget local_config ''start-qpm'') False
            then bindM (getM cm_run) (\<lambda>state. bindM (liftM (bindE (sub state ''environment'') environment_of)) (\<lambda>e.
                 start_managed_qpms env timeout allocation (var e ''QFW_DIRECTORY_SERVICE_INFO'' []) root))
            else retM ())
       (seqM (save_run env) save_environment)))))))))"

section \<open>Ending the services of a run\<close>

definition manager_label :: "pydict \<Rightarrow> string" where
  "manager_label manager =
     (let role = py_str (pgetd manager ''role'' (PStr ''service''))
      in if py_truth (pget manager ''service_id'') then role @ '':'' @ py_str (pget manager ''service_id'') else role)"

definition stop_manager :: "plane_env \<Rightarrow> pydict \<Rightarrow> string list plane" where
  "stop_manager env manager =
     catchM (bindM (liftM (sub manager ''run_dir'')) (\<lambda>run_dir. seqM (stop env run_dir) (retM [])))
       (\<lambda>e. retM [manager_label manager @ '': '' @ exc_text e])"

text \<open>The managers of the run that it owns, the last one first; what fails is reported and the rest is still stopped.\<close>

primrec stop_managers :: "plane_env \<Rightarrow> pyval list \<Rightarrow> string list plane" where
  "stop_managers env [] = retM []"
| "stop_managers env (v # managers) =
     bindM (liftM (as_mapping v)) (\<lambda>manager.
     bindM (if pget manager ''owner'' \<noteq> PStr ''application'' then retM [] else stop_manager env manager) (\<lambda>here.
     bindM (stop_managers env managers) (\<lambda>rest. retM (here @ rest))))"

definition cleanup_application_service_managers :: "plane_env \<Rightarrow> pydict \<Rightarrow> string list plane" where
  "cleanup_application_service_managers env state =
     bindM (liftM (managers_of state)) (\<lambda>managers. stop_managers env (rev managers))"

text \<open>\<^verbatim>\<open>shutil.rmtree\<close>: the files under a directory and the directory.\<close>

definition below :: "string \<Rightarrow> string \<Rightarrow> bool" where
  "below dir path \<longleftrightarrow> path = dir \<or> starts_with (dir @ ''/'') path"

definition remove_tree :: "string \<Rightarrow> unit prep" where
  "remove_tree dir = modM (\<lambda>s. s\<lparr>file_system := filter (\<lambda>(p, c). \<not> below dir p) (file_system s),
     directories := filter (\<lambda>p. \<not> below dir p) (directories s)\<rparr>)"

section \<open>The commands\<close>

record setup_args =
  sa_site_config :: pyval
  sa_runtime_config :: pyval
  sa_profile :: string
  sa_service_id :: string
  sa_run_id :: string
  sa_run_dir :: string
  sa_dry_run :: bool
  sa_no_start_services :: bool

text \<open>The process goes on with the environment from which inherited variables were discarded.\<close>

definition setup_process :: "plane_env \<Rightarrow> plane_env" where
  "setup_process env = env\<lparr>su := (su env)\<lparr>environ := discard_inherited_environment (environ (su env))\<rparr>\<rparr>"

definition prepare_setup :: "plane_env \<Rightarrow> setup_args \<Rightarrow> pydict plane" where
  "prepare_setup env args =
     bindM (liftM (resolve_site_config (su env) (sa_site_config args))) (\<lambda>site_path'.
     let site_path = (case site_path' of Some p \<Rightarrow> p | None \<Rightarrow> []) in
     bindM (on_disk (setup_load_yaml (su env) site_path)) (\<lambda>site.
     bindM (on_disk (site_install_prefixes (su env) site)) (\<lambda>(qfw, defw).
     bindM (liftM (resolve_runtime_config (su env) (sa_runtime_config args) (sa_profile args) (Some qfw))) (\<lambda>runtime_path'.
     let runtime_path = (case runtime_path' of Some p \<Rightarrow> p | None \<Rightarrow> []) in
     bindM (on_disk (setup_load_yaml (su env) runtime_path)) (\<lambda>runtime.
       on_disk (prepare_run_state (su env) \<lparr>rr_site_config_path = site_path, rr_runtime_config_path = runtime_path, rr_site_config = site,
         rr_runtime_config = runtime,
         rr_profile = (if sa_profile args \<noteq> [] then Some (sa_profile args) else map_of (environ (su env)) ''QFW_RUNTIME_PROFILE''),
         rr_run_id = sa_run_id args, rr_run_dir = sa_run_dir args, rr_dry_run = sa_dry_run args, rr_service_id = sa_service_id args\<rparr>))))))"

definition complete_setup :: "plane_env \<Rightarrow> setup_args \<Rightarrow> unit command" where
  "complete_setup env args =
     bindM (getM cm_run) (\<lambda>state.
     bindM (liftM (sub state ''local_services'')) (\<lambda>local_config.
     seqM (if py_truth local_config \<and> \<not> (sa_dry_run args \<or> sa_no_start_services args) then start_job_local_services env else retM ())
     (seqM (if sa_dry_run args then retM () else bindM (getM cm_run) (\<lambda>state. on_plane (wait_required_directories env state)))
     (seqM (put_run ''setup_complete'' (PBool True))
       (bindM (on_plane (call_plane env Time_ns)) (\<lambda>now. seqM (put_run ''setup_completed_at_ns'' now) (save_run env)))))))"

definition clear_run :: "plane_env \<Rightarrow> pydict \<Rightarrow> unit plane" where
  "clear_run env state =
     bindM (liftM (sub state ''run_base_dir'')) (\<lambda>run_base.
     bindM (on_disk (path_exists (join_path (py_str run_base) ''current''))) (\<lambda>present.
       if \<not> present then retM ()
       else bindM (liftM (sub state ''run_id'')) (\<lambda>run_id. on_disk (clear_current_run (su env) (py_str run_base) (py_str run_id)))))"

definition setup_failed :: "plane_env \<Rightarrow> exc \<Rightarrow> 'a command" where
  "setup_failed env e =
     seqM (put_run ''setup_error'' (PStr (exc_text e))) (seqM (save_run env)
     (bindM (getM cm_run) (\<lambda>state.
      seqM (on_plane (cleanup_application_service_managers env state)) (seqM (on_plane (clear_run env state)) (raiseM e)))))"

definition qfw_setup :: "plane_env \<Rightarrow> setup_args \<Rightarrow> int command" where
  "qfw_setup caller args =
     (let env = setup_process caller in
      bindM (on_plane (prepare_setup env args)) (\<lambda>state.
      seqM (modM (\<lambda>s. s\<lparr>cm_run := state\<rparr>))
        (seqM (catchM (complete_setup env args) (setup_failed env)) (retM 0))))"

definition read_run :: "plane_env \<Rightarrow> string option \<Rightarrow> pydict plane" where
  "read_run env run_dir = bindM (on_disk (read_state (su env) run_dir)) (\<lambda>v. liftM (as_mapping v))"

definition qfw_teardown :: "plane_env \<Rightarrow> string option \<Rightarrow> bool \<Rightarrow> int plane" where
  "qfw_teardown env run_dir keep_run_dir =
     bindM (read_run env run_dir) (\<lambda>state.
     bindM (cleanup_application_service_managers env state) (\<lambda>errors.
       if errors \<noteq> [] then bindM (liftM (sub state ''run_dir'')) (\<lambda>_. retM 1)
       else
         seqM (clear_run env state)
         (seqM (if keep_run_dir then retM ()
                else bindM (liftM (sub state ''run_dir'')) (\<lambda>dir. on_disk (remove_tree (py_str dir))))
           (retM 0))))"

subsection \<open>Status\<close>

definition manager_record :: "pydict \<Rightarrow> pydict" where
  "manager_record manager =
     [(''owner'', pgetd manager ''owner'' (PStr [])), (''role'', pgetd manager ''role'' (PStr [])), (''run_dir'', pgetd manager ''run_dir'' (PStr []))] @
     (if py_truth (pget manager ''service_id'') then [(''service_id'', pget manager ''service_id'')] else [])"

definition report_manager :: "plane_env \<Rightarrow> pydict \<Rightarrow> pydict plane" where
  "report_manager env manager =
     (let rec = manager_record manager;
          unavailable = (\<lambda>m. retM (dset ''error'' (PStr m) (dset ''state'' (PStr ''unavailable'') rec)))
      in if pget rec ''owner'' \<noteq> PStr ''application'' then retM (dset ''state'' (PStr ''external'') rec)
         else tryM (bindM (status env (pget rec ''run_dir'')) (\<lambda>st.
                      retM (dset ''status'' (PDict st) (dset ''state'' (pgetd st ''state'' (PStr ''unknown'')) rec))))
                (\<lambda>e. case e of OSError m \<Rightarrow> unavailable m | RuntimeError m \<Rightarrow> unavailable m | ServicePlaneError m \<Rightarrow> unavailable m
                   | ValueError m \<Rightarrow> unavailable m | _ \<Rightarrow> raiseM e))"

primrec report_managers :: "plane_env \<Rightarrow> string \<Rightarrow> pyval list \<Rightarrow> (pydict list \<times> string) plane" where
  "report_managers env runtime_state [] = retM ([], runtime_state)"
| "report_managers env runtime_state (v # managers) =
     bindM (liftM (as_mapping v)) (\<lambda>manager.
     bindM (report_manager env manager) (\<lambda>rec.
     bindM (report_managers env
              (if pget rec ''owner'' = PStr ''application'' \<and> pget rec ''state'' \<noteq> PStr ''ready'' \<and> runtime_state = ''ready''
               then ''degraded'' else runtime_state) managers) (\<lambda>(records, final). retM (rec # records, final))))"

definition setup_outcome :: "pydict \<Rightarrow> string" where
  "setup_outcome state =
     (if py_truth (pget state ''setup_error'') then ''failed''
      else if py_truth (pget state ''setup_complete'') then ''ready'' else ''incomplete'')"

definition reported_directory :: "pydict \<Rightarrow> (string \<times> string) list \<Rightarrow> exc + pydict" where
  "reported_directory state environment =
     bindE (as_mapping (py_or (pget state ''local_dirsvc'') (PDict []))) (\<lambda>local.
     bindE (if py_truth (pget local ''endpoint'') then Inr (local, ''application'')
            else bindE (as_mapping (py_or (pget state ''site_directory'') (PDict []))) (\<lambda>site.
              Inr (site, if site \<noteq> [] then ''site'' else []))) (\<lambda>(directory, owner).
     let connection_file = py_or (pget directory ''connection_file'')
           (case map_of environment ''QFW_DIRECTORY_SERVICE_INFO'' of Some v \<Rightarrow> PStr v | None \<Rightarrow> PNone)
     in Inr ([(''owner'', PStr owner), (''name'', pgetd directory ''name'' (PStr [])), (''endpoint'', pgetd directory ''endpoint'' (PStr []))] @
             (if py_truth connection_file then [(''connection_file'', connection_file)] else []))))"

definition runtime_status :: "plane_env \<Rightarrow> pydict \<Rightarrow> pydict plane" where
  "runtime_status env state =
     bindM (liftM (managers_of state)) (\<lambda>managers.
     bindM (report_managers env (setup_outcome state) managers) (\<lambda>(records, final).
     bindM (liftM (environment_of (pget state ''environment''))) (\<lambda>environment.
     bindM (liftM (reported_directory state environment)) (\<lambda>directory.
       retM [(''schema'', PStr ''qfw-runtime-status-v1''), (''state'', PStr final), (''run_id'', pgetd state ''run_id'' (PStr [])),
         (''run_dir'', pgetd state ''run_dir'' (PStr [])), (''profile'', pget state ''profile''),
         (''setup'', PDict [(''complete'', PBool (py_truth (pget state ''setup_complete''))), (''error'', pget state ''setup_error'')]),
         (''allocation'', PDict [(''mode'', PStr (var environment ''QFW_ALLOCATION_MODE'' [])),
            (''group0'', PStr (var environment ''QFW_GROUP_0_NODELIST'' [])), (''group1'', PStr (var environment ''QFW_GROUP_1_NODELIST'' []))]),
         (''directory_service'', PDict directory), (''service_managers'', PList (map PDict records)), (''teardown_required'', PBool True),
         (''runtime_state'', PDict state)]))))"

definition qfw_status :: "plane_env \<Rightarrow> string option \<Rightarrow> int plane" where
  "qfw_status env run_dir =
     bindM (read_run env run_dir) (\<lambda>state. bindM (runtime_status env state) (\<lambda>report.
       retM (if pget report ''state'' = PStr ''ready'' then 0 else 1)))"

subsection \<open>Running an application\<close>

record launch_options =
  lo_nodes :: string
  lo_ntasks :: string
  lo_nodelist :: string
  lo_het_group :: "string option"
  lo_exclusive :: bool

definition application_srun_options :: "launch_options \<Rightarrow> string list" where
  "application_srun_options options =
     (if lo_nodes options \<noteq> [] then [''--nodes'', lo_nodes options] else []) @
     (if lo_ntasks options \<noteq> [] then [''--ntasks'', lo_ntasks options] else []) @
     (if lo_nodelist options \<noteq> [] then [''--nodelist'', lo_nodelist options] else []) @
     (if lo_exclusive options then [''--exclusive''] else [])"

definition application_launch_command :: "string list \<Rightarrow> pydict \<Rightarrow> launch_options \<Rightarrow> exc + string list" where
  "application_launch_command command allocation options =
     bindE (sub allocation ''mode'') (\<lambda>mode.
       Inr (if mode = PStr ''heterogeneous''
            then let group = (case lo_het_group options of Some g \<Rightarrow> g | None \<Rightarrow> ''0'')
                 in [''srun''] @ (if group \<noteq> [] then [''--het-group='' @ group] else []) @ application_srun_options options @ command
            else if mode = PStr ''slurm'' then [''srun''] @ application_srun_options options @ command
            else command))"

text \<open>The directory an application reports to: host, port and name.\<close>

definition application_directory_parent :: "(string \<times> string) list \<Rightarrow> exc + (string \<times> string \<times> string) option" where
  "application_directory_parent e =
     (let local_endpoint = var e ''QFW_LOCAL_DIRSVC_ENDPOINT'' [] in
      if local_endpoint \<noteq> []
      then bindE (split_any_endpoint (PStr local_endpoint)) (\<lambda>(host, port).
             Inr (Some (or_text (var e ''DEFW_PARENT_HOSTNAME'' []) host, or_text (var e ''DEFW_PARENT_PORT'' []) (int_text port),
               or_text (var e ''DEFW_PARENT_NAME'' []) (var e ''QFW_LOCAL_DIRSVC_NAME'' ''qfw-local-dirsvc''))))
      else
        bindE (split_config_list (PStr (var e ''QFW_SITE_DIRSVC_ENDPOINTS'' []))) (\<lambda>endpoints.
          case endpoints of
            [] \<Rightarrow> Inr None
          | first # _ \<Rightarrow> bindE (split_any_endpoint (PStr first)) (\<lambda>(host, port).
              Inr (Some (host, int_text port, var e ''QFW_SITE_DIRSVC_NAME'' ''qfw-site-dirsvc'')))))"

definition resolve_host_address :: "plane_env \<Rightarrow> string \<Rightarrow> string plane" where
  "resolve_host_address env host =
     tryM (bindM (call_plane env (Host_address host)) (\<lambda>v. retM (py_str v))) (\<lambda>e. case e of OSError m \<Rightarrow> retM host | _ \<Rightarrow> raiseM e)"

definition int_value :: "string option \<Rightarrow> int \<Rightarrow> int" where
  "int_value v d = (case v of Some t \<Rightarrow> (case int_of_text t of Some n \<Rightarrow> n | None \<Rightarrow> d) | None \<Rightarrow> d)"

definition configure_application_defw_environment ::
  "plane_env \<Rightarrow> (string \<times> string) list \<Rightarrow> pydict \<Rightarrow> (string \<times> string) list plane" where
  "configure_application_defw_environment env given_env state =
     bindM (if state \<noteq> [] \<and> var given_env ''DEFW_LOG_DIR'' [] = []
            then bindM (liftM (sub state ''run_dir'')) (\<lambda>dir.
                 retM (dset ''DEFW_LOG_DIR'' (join_all (py_str dir) [''application'', ''logs'']) given_env))
            else retM given_env) (\<lambda>e.
     bindM (liftM (application_directory_parent e)) (\<lambda>parent.
       case parent of
         None \<Rightarrow> retM e
       | Some (host, port, name) \<Rightarrow>
           let e = dupdate e [(''DEFW_DISABLE_DIRSVC'', ''no''), (''DEFW_AGENT_TYPE'', ''agent''), (''DEFW_SHELL_TYPE'', ''cmdline''),
                 (''DEFW_PARENT_HOSTNAME'', host), (''DEFW_PARENT_PORT'', port), (''DEFW_PARENT_NAME'', name)]
           in bindM (if host \<noteq> [] then bindM (resolve_host_address env host) (\<lambda>a. retM (dset ''DEFW_PARENT_ADDR'' a e)) else retM e) (\<lambda>e.
                if int_value (map_of e ''DEFW_LISTEN_PORT'') 0 \<le> 0
                then bindM (on_disk (free_tcp_port (su env))) (\<lambda>p. retM (dset ''DEFW_LISTEN_PORT'' (int_text p) e))
                else retM e)))"

definition qfw_command_path :: "plane_env \<Rightarrow> string \<Rightarrow> (string \<times> string) list \<Rightarrow> string plane" where
  "qfw_command_path env name e =
     (let bin_path = var e ''QFW_BIN_PATH'' [];
          candidate = join_path (if bin_path \<noteq> [] then real_path (su env) bin_path else qfw_bin_path (su env) None) name
      in bindM (on_disk (path_exists candidate)) (\<lambda>present.
           if present then retM candidate
           else bindM (call_plane env (Find_executable name (map_of e ''PATH''))) (\<lambda>found.
             if py_truth found then retM (py_str found) else raiseM (OSError (''unable to find QFw command: '' @ name)))))"

definition qfw_srun :: "plane_env \<Rightarrow> string option \<Rightarrow> launch_options \<Rightarrow> string list \<Rightarrow> int plane" where
  "qfw_srun env run_dir options application =
     bindM (read_run env run_dir) (\<lambda>state.
       if \<not> py_truth (pget state ''setup_complete'') then retM 1
       else
         bindM (liftM (environment_of (pget state ''environment''))) (\<lambda>runtime_env.
         let e = application_environment (environ (su env)) runtime_env in
         bindM (liftM (allocation_context_from_env env e)) (\<lambda>allocation.
         bindM (configure_application_defw_environment env (publish_allocation_environment e allocation) state) (\<lambda>e.
         bindM (qfw_command_path env ''defw-python'' e) (\<lambda>defw_python.
         bindM (liftM (application_launch_command (defw_python # application) allocation options)) (\<lambda>command.
         bindM (call_plane env (Run_command command e)) (\<lambda>v. retM (fst (command_result v)))))))))"

text \<open>What a command reports as its error; anything else goes to the caller.\<close>

definition command_exit :: "int plane \<Rightarrow> int plane" where
  "command_exit m =
     tryM m (\<lambda>e. case e of OSError t \<Rightarrow> retM 1 | RuntimeError t \<Rightarrow> retM 1 | ServicePlaneError t \<Rightarrow> retM 1 | ValueError t \<Rightarrow> retM 1 | _ \<Rightarrow> raiseM e)"

section \<open>The environment of an application\<close>

lemma unseen_set: "set (unseen_items seen items) = set items - insert [] (set seen)"
  by (induction items arbitrary: seen) auto

lemma unseen_distinct: "distinct (unseen_items seen items)"
  by (induction items arbitrary: seen) (auto simp: unseen_set)

lemma split_on_first: "c \<notin> set x \<Longrightarrow> split_on c (x @ c # r) = x # split_on c r"
  by (induction x) auto

lemma split_on_word: "c \<notin> set x \<Longrightarrow> split_on c x = [x]"
  by (induction x) auto

lemma split_on_parts: "x \<in> set (split_on c t) \<Longrightarrow> c \<notin> set x"
  by (induction t arbitrary: x) (auto split: if_splits list.splits)

lemma split_join: "list_all (\<lambda>x. c \<notin> set x) xs \<Longrightarrow> xs \<noteq> [] \<Longrightarrow> split_on c (join_with [c] xs) = xs"
  by (induction "[c]" xs rule: join_with.induct) (auto simp: split_on_first split_on_word)

lemma join_empty: "join_with [c] xs = [] \<Longrightarrow> [] \<notin> set xs \<Longrightarrow> xs = []"
  by (induction "[c]" xs rule: join_with.induct) auto

text \<open>
  A search path has every entry of the caller's path, then those of the run that were missing, each once.
\<close>

lemma merged_path:
  "path_values (Some (merge_path_environment a b)) = unseen_items [] (path_values a @ path_values b)"
proof -
  let ?items = "unseen_items [] (path_values a @ path_values b)"
  have "list_all (\<lambda>x. CHR '':'' \<notin> set x) ?items"
    by (auto simp: list_all_iff unseen_set path_values_def split: option.splits if_splits dest: split_on_parts)
  moreover have "[] \<notin> set ?items" by (simp add: unseen_set)
  ultimately show ?thesis
    using split_join [of "CHR '':''" ?items] join_empty [of "CHR '':''" ?items]
    by (cases "?items = []") (auto simp: merge_path_environment_def path_values_def)
qed

lemma path_vars_foreign:
  "n \<in> set DEFW_PROCESS_VARIABLES \<union> set RUN_STATE_VARIABLES \<Longrightarrow> n \<notin> set PATH_ENVIRONMENT_VARS"
  by (auto simp: DEFW_PROCESS_VARIABLES_def RUN_STATE_VARIABLES_def PATH_ENVIRONMENT_VARS_def)

lemma paths_spare: "n \<notin> set names \<Longrightarrow>
  map_of (foldl (\<lambda>env name. let merged = f name in if merged \<noteq> [] then dset name merged env else env) e names) n = map_of e n"
  by (induction names arbitrary: e) (auto simp: Let_def)

lemma dupdate_lookup: "dict_ok new \<Longrightarrow> map_of (dupdate d new) n = (case map_of new n of Some v \<Rightarrow> Some v | None \<Rightarrow> map_of d n)"
  by (induction new arbitrary: d)
    (auto simp: dupdate_def dict_ok_def map_of_eq_None_iff [symmetric] split: option.splits)

text \<open>What describes a process or a run is the run's own, whatever the caller has.\<close>

lemma application_own:
  assumes n: "n \<in> set DEFW_PROCESS_VARIABLES \<union> set RUN_STATE_VARIABLES" and d: "dict_ok runtime_env"
  shows "map_of (application_environment vars runtime_env) n = map_of runtime_env n"
proof -
  have "map_of (launch_environment vars True) n = None"
    using n by (auto simp: launch_lookup inherited_set map_of_eq_None_iff)
  then show ?thesis
    unfolding application_environment_def Let_def
    by (subst paths_spare [OF path_vars_foreign [OF n], unfolded Let_def]) (simp add: dupdate_lookup [OF d] split: option.split)
qed

section \<open>Hosts\<close>

text \<open>A range keeps the leading zeros; a list inside brackets is cut at its commas before the brackets are read.\<close>

lemma host_ranges: "expand_simple_host_list ''n[08-10],m'' = Inr [''n08'', ''n09'', ''n10'', ''m'']"
  by code_simp

lemma bracket_list_is_cut: "expand_simple_host_list ''n[1-2,5]'' = Inr [''n[1-2'', ''5]'']"
  by code_simp

section \<open>Ending a run\<close>

lemma grown_publish_state [keeps_rules]: "keeps (grown h) (state_lock env run_dir body)" if "keeps (grown h) body"
  unfolding state_lock_def using that by (intro keeps_rules)

lemma grown_read_plane [keeps_rules]: "keeps (grown h) (read_plane_state env run_dir required)"
  unfolding read_plane_state_def Let_def by (intro keeps_rules)

lemma grown_stop_components [keeps_rules]: "keeps (grown h) (stop_components env state)"
  unfolding stop_components_def by (intro keeps_rules)

lemma grown_stop_plane [keeps_rules]: "keeps (grown h) (stop env run_dir)"
  unfolding stop_def stop_locked_def Let_def by (intro keeps_rules)

lemma grown_stop_manager [keeps_rules]: "keeps (grown h) (stop_manager env manager)"
  unfolding stop_manager_def by (intro keeps_rules)

lemma grown_stop_managers [keeps_rules]: "keeps (grown h) (stop_managers env managers)"
  by (induction managers) (auto intro!: keeps_rules)

text \<open>The managers a run owns, as its record has them.\<close>

definition owned_managers :: "pyval list \<Rightarrow> pydict list" where
  "owned_managers managers =
     concat (map (\<lambda>v. case v of PDict m \<Rightarrow> if pget m ''owner'' = PStr ''application'' then [m] else [] | _ \<Rightarrow> []) managers)"

text \<open>
  The planes of some managers are stopped in turn, each stop in the state the one before it has left, and nothing
  else happens: \<open>failed\<close> are the managers whose stop raised, or which have no directory to stop.
\<close>

inductive stopped_in_turn :: "plane_env \<Rightarrow> plane_state \<Rightarrow> pydict list \<Rightarrow> pydict list \<Rightarrow> plane_state \<Rightarrow> bool" for env where
  none: "stopped_in_turn env s [] [] s"
| ended: "\<lbrakk>sub m ''run_dir'' = Inr dir; stop env dir s = (Inr st, u); stopped_in_turn env u ms failed t\<rbrakk> \<Longrightarrow> stopped_in_turn env s (m # ms) failed t"
| failed: "\<lbrakk>sub m ''run_dir'' = Inr dir; stop env dir s = (Inl e, u); e \<noteq> NoReturn; stopped_in_turn env u ms failed t\<rbrakk> \<Longrightarrow>
    stopped_in_turn env s (m # ms) (m # failed) t"
| unplaced: "\<lbrakk>\<not> has_key m ''run_dir''; stopped_in_turn env s ms failed t\<rbrakk> \<Longrightarrow> stopped_in_turn env s (m # ms) (m # failed) t"

inductive_cases stopped_in_turn_none: "stopped_in_turn env s [] failed t"
inductive_cases stopped_in_turn_all: "stopped_in_turn env s (m # ms) [] t"

lemma stop_manager_turn:
  assumes "stop_manager env m s = (Inr here, u)" "stopped_in_turn env u ms failed t"
  shows "stopped_in_turn env s (m # ms) ((if here = [] then [] else [m]) @ failed) t"
proof (cases "sub m ''run_dir''")
  case (Inl e)
  then have "\<not> has_key m ''run_dir''" "e \<noteq> NoReturn" by (auto simp: sub_def split: option.splits)
  with assms Inl show ?thesis
    by (auto simp: stop_manager_def catchM_def tryM_def bindM_def liftM_def retM_def intro: unplaced)
next
  case (Inr dir)
  with assms show ?thesis
    by (auto simp: stop_manager_def catchM_returns bindM_returns seqM_returns liftM_returns retM_def bindM_def liftM_def seqM_def
        split: prod.splits sum.splits intro: stopped_in_turn.ended stopped_in_turn.failed)
qed

lemma stop_managers_turn:
  "stop_managers env managers s = (Inr errors, t) \<Longrightarrow>
   \<exists>failed. stopped_in_turn env s (owned_managers managers) failed t \<and> (failed = [] \<longleftrightarrow> errors = [])"
proof (induction managers arbitrary: s errors)
  case Nil
  then show ?case by (auto simp: retM_def owned_managers_def intro: none)
next
  case (Cons v managers)
  from Cons.prems obtain m u here rest where m: "v = PDict m"
    and here: "(if pget m ''owner'' \<noteq> PStr ''application'' then retM [] else stop_manager env m) s = (Inr here, u)"
    and rest: "stop_managers env managers u = (Inr rest, t)" and errors: "errors = here @ rest"
    by (auto simp: bindM_returns liftM_returns retM_returns as_mapping_def split: pyval.splits)
  from Cons.IH [OF rest] obtain failed where "stopped_in_turn env u (owned_managers managers) failed t" "failed = [] \<longleftrightarrow> rest = []" by blast
  with m here errors show ?case
    by (cases "pget m ''owner'' = PStr ''application''") (auto simp: owned_managers_def retM_def dest: stop_manager_turn split: if_splits)
qed

text \<open>What a teardown removes once every plane was stopped: the mark when it names the run, and the run's directory.\<close>

lemma owned_managers_rev: "owned_managers (rev managers) = rev (owned_managers managers)"
  unfolding owned_managers_def by (induction managers) (auto split: pyval.splits)

definition marks_run :: "plane_env \<Rightarrow> pydict \<Rightarrow> setup_state \<Rightarrow> string \<Rightarrow> bool" where
  "marks_run env state d path \<longleftrightarrow> (\<exists>base run_id mark. sub state ''run_base_dir'' = Inr base \<and> path = join_path (py_str base) ''current'' \<and>
     sub state ''run_id'' = Inr run_id \<and> fst (read_text (su env) path d) = Inr mark \<and> py_strip mark = py_str run_id)"

definition in_run :: "pydict \<Rightarrow> string \<Rightarrow> bool" where
  "in_run state path \<longleftrightarrow> (\<exists>dir. sub state ''run_dir'' = Inr dir \<and> below (py_str dir) path)"

lemma map_of_filter_keys: "map_of (filter (\<lambda>(k, v). P k) xs) k = (if P k then map_of xs k else None)"
  by (induction xs) auto

lemma clear_run_removes:
  assumes "clear_run env state s = (Inr (), t)"
  shows "pl_calls t = pl_calls s \<and> (\<forall>p. map_of (file_system (pl_disk t)) p =
    (if marks_run env state (pl_disk s) p then None else map_of (file_system (pl_disk s)) p))"
proof -
  from assms obtain base where base: "sub state ''run_base_dir'' = Inr base" by (auto simp: clear_run_def bindM_returns liftM_returns)
  show ?thesis
  proof (cases "map_of (file_system (pl_disk s)) (join_path (py_str base) ''current'')")
    case None
    with assms base show ?thesis
      by (auto simp: clear_run_def clear_current_run_def on_disk_def path_exists_def marks_run_def read_text_def open_file_def
          monad_defs Let_def split: if_splits sum.splits)
  next
    case (Some c)
    with assms base obtain run_id where "sub state ''run_id'' = Inr run_id"
      by (auto simp: clear_run_def on_disk_def path_exists_def monad_defs split: sum.splits)
    with assms base Some show ?thesis
      by (auto simp: clear_run_def clear_current_run_def on_disk_def path_exists_def marks_run_def read_text_def open_file_def
          monad_defs Let_def split: if_splits)
  qed
qed

lemma remove_tree_removes:
  "on_disk (remove_tree dir) s = (Inr (), t) \<Longrightarrow> pl_calls t = pl_calls s \<and>
   (\<forall>p. map_of (file_system (pl_disk t)) p = (if below dir p then None else map_of (file_system (pl_disk s)) p))"
  by (auto simp: on_disk_def remove_tree_def modM_def map_of_filter_keys [of "\<lambda>p. \<not> below dir p"])

lemma teardown_outcome:
  assumes "qfw_teardown env run_dir keep_run_dir s = (Inr code, t)"
  obtains state u managers failed v where "read_run env run_dir s = (Inr state, u)" "managers_of state = Inr managers"
    "stopped_in_turn env u (rev (owned_managers managers)) failed v"
    "if failed \<noteq> [] then code = 1 \<and> t = v
     else code = 0 \<and> pl_calls t = pl_calls v \<and> (\<forall>p. map_of (file_system (pl_disk t)) p =
       (if marks_run env state (pl_disk v) p \<or> \<not> keep_run_dir \<and> in_run state p then None else map_of (file_system (pl_disk v)) p))"
proof -
  from assms obtain state u errors v where read: "read_run env run_dir s = (Inr state, u)"
    and clean: "cleanup_application_service_managers env state u = (Inr errors, v)"
    and rest: "(if errors \<noteq> [] then bindM (liftM (sub state ''run_dir'')) (\<lambda>_. retM 1)
        else seqM (clear_run env state) (seqM (if keep_run_dir then retM ()
          else bindM (liftM (sub state ''run_dir'')) (\<lambda>dir. on_disk (remove_tree (py_str dir)))) (retM 0))) v = (Inr code, t)"
    unfolding qfw_teardown_def bindM_returns [of "read_run env run_dir"]
      bindM_returns [of "cleanup_application_service_managers env state" for state] by auto
  from clean obtain managers where managers: "managers_of state = Inr managers" "stop_managers env (rev managers) u = (Inr errors, v)"
    by (auto simp: cleanup_application_service_managers_def bindM_returns liftM_returns)
  from stop_managers_turn [OF managers(2)] obtain failed where turn: "stopped_in_turn env u (rev (owned_managers managers)) failed v"
    and failed: "failed = [] \<longleftrightarrow> errors = []" by (auto simp: owned_managers_rev)
  have "code = 1 \<and> t = v" if "failed \<noteq> []"
    using rest failed that by (auto simp: bindM_returns liftM_returns retM_returns)
  moreover have "code = 0 \<and> pl_calls t = pl_calls v \<and> (\<forall>p. map_of (file_system (pl_disk t)) p =
       (if marks_run env state (pl_disk v) p \<or> \<not> keep_run_dir \<and> in_run state p then None else map_of (file_system (pl_disk v)) p))"
    if "failed = []"
  proof -
    from that rest failed obtain w where w: "clear_run env state v = (Inr (), w)"
      and t: "(if keep_run_dir then retM () else bindM (liftM (sub state ''run_dir'')) (\<lambda>dir. on_disk (remove_tree (py_str dir)))) w = (Inr (), t)"
      and code: "code = 0" by (auto simp: seqM_returns retM_returns)
    show ?thesis
    proof (cases keep_run_dir)
      case True
      with t clear_run_removes [OF w] code show ?thesis by (simp add: retM_def)
    next
      case False
      with t obtain dir where "sub state ''run_dir'' = Inr dir" "on_disk (remove_tree (py_str dir)) w = (Inr (), t)"
        by (auto simp: bindM_returns liftM_returns)
      with clear_run_removes [OF w] remove_tree_removes [OF this(2)] code False show ?thesis by (auto simp: in_run_def)
    qed
  qed
  ultimately show thesis by (intro that [OF read managers(1) turn]) simp
qed

section \<open>Reporting a run\<close>

lemma grown_status_plane [keeps_rules]: "keeps (grown h) (status env run_dir)"
  unfolding status_def status_locked_def Let_def by (intro keeps_rules)

lemma keeps_reported [keeps_rules]:
  "(\<And>m. keeps I (f m)) \<Longrightarrow> (\<And>e. keeps I (g e)) \<Longrightarrow>
   keeps I (case e of OSError m \<Rightarrow> f m | RuntimeError m \<Rightarrow> f m | ServicePlaneError m \<Rightarrow> f m | ValueError m \<Rightarrow> f m | _ \<Rightarrow> g e)"
  by (cases e) simp_all

lemma grown_report_manager [keeps_rules]: "keeps (grown h) (report_manager env manager)"
  unfolding report_manager_def Let_def by (intro keeps_rules)

lemma grown_report_managers [keeps_rules]: "keeps (grown h) (report_managers env runtime_state managers)"
  by (induction managers arbitrary: runtime_state) (auto intro!: keeps_rules)

text \<open>A manager is ready between two states when the report of its plane said so.\<close>

definition ready_between :: "plane_env \<Rightarrow> pydict \<Rightarrow> plane_state \<Rightarrow> plane_state \<Rightarrow> bool" where
  "ready_between env manager s t \<longleftrightarrow>
     (\<exists>u st v. grown (pl_calls s) u \<and> status env (pgetd manager ''run_dir'' (PStr [])) u = (Inr st, v) \<and> pget st ''state'' = PStr ''ready'' \<and>
       grown (pl_calls v) t)"

lemma ready_wider: "ready_between env manager s t \<Longrightarrow> grown (pl_calls r) s \<Longrightarrow> grown (pl_calls t) w \<Longrightarrow> ready_between env manager r w"
  unfolding ready_between_def by (meson grown_trans)

lemma manager_record_fields: "pget (manager_record manager) ''owner'' = pgetd manager ''owner'' (PStr [])"
  "pget (manager_record manager) ''run_dir'' = pgetd manager ''run_dir'' (PStr [])"
  by (simp_all add: manager_record_def pget_def)

lemma owned_manager: "pget manager ''owner'' = PStr ''application'' \<Longrightarrow> pgetd manager ''owner'' d = PStr ''application''"
  by (auto simp: pget_def pgetd_def split: option.splits)

lemma report_manager_ready:
  assumes "report_manager env manager s = (Inr rec, t)" "pget manager ''owner'' = PStr ''application''"
  shows "pget rec ''owner'' = PStr ''application'' \<and> (pget rec ''state'' = PStr ''ready'' \<longrightarrow> ready_between env manager s t)"
proof -
  let ?rec = "manager_record manager"
  from assms have run: "tryM (bindM (status env (pgetd manager ''run_dir'' (PStr []))) (\<lambda>st.
        retM (dset ''status'' (PDict st) (dset ''state'' (pgetd st ''state'' (PStr ''unknown'')) ?rec))))
      (\<lambda>e. case e of OSError m \<Rightarrow> retM (dset ''error'' (PStr m) (dset ''state'' (PStr ''unavailable'') ?rec))
        | RuntimeError m \<Rightarrow> retM (dset ''error'' (PStr m) (dset ''state'' (PStr ''unavailable'') ?rec))
        | ServicePlaneError m \<Rightarrow> retM (dset ''error'' (PStr m) (dset ''state'' (PStr ''unavailable'') ?rec))
        | ValueError m \<Rightarrow> retM (dset ''error'' (PStr m) (dset ''state'' (PStr ''unavailable'') ?rec)) | _ \<Rightarrow> raiseM e) s = (Inr rec, t)"
    by (simp add: report_manager_def manager_record_fields owned_manager Let_def)
  then consider (seen) st where "status env (pgetd manager ''run_dir'' (PStr [])) s = (Inr st, t)"
      "rec = dset ''status'' (PDict st) (dset ''state'' (pgetd st ''state'' (PStr ''unknown'')) ?rec)"
    | (hidden) m where "rec = dset ''error'' (PStr m) (dset ''state'' (PStr ''unavailable'') ?rec)"
    unfolding tryM_returns bindM_returns retM_returns
    by (elim disjE exE conjE) (use that in \<open>auto simp: retM_def raiseM_def split: exc.splits\<close>)
  then show ?thesis
  proof cases
    case seen
    have "pget st ''state'' = PStr ''ready''" if "pgetd st ''state'' (PStr ''unknown'') = PStr ''ready''"
      using that by (auto simp: pget_def pgetd_def split: option.splits)
    with seen assms(2) show ?thesis
      by (auto simp: manager_record_fields owned_manager ready_between_def) (metis grown_refl)
  qed (use assms(2) in \<open>simp add: manager_record_fields owned_manager\<close>)
qed

lemma report_managers_ready:
  "report_managers env runtime_state managers s = (Inr (records, ''ready''), t) \<Longrightarrow> runtime_state = ''ready'' \<and>
   (\<forall>manager. PDict manager \<in> set managers \<longrightarrow> pget manager ''owner'' = PStr ''application'' \<longrightarrow> ready_between env manager s t)"
proof (induction managers arbitrary: runtime_state s records)
  case Nil
  then show ?case by (simp add: retM_def)
next
  case (Cons v managers)
  let ?next = "\<lambda>rec. if pget rec ''owner'' = PStr ''application'' \<and> pget rec ''state'' \<noteq> PStr ''ready'' \<and> runtime_state = ''ready''
     then ''degraded'' else runtime_state"
  from Cons.prems obtain m rec records' u where m: "as_mapping v = Inr m" and here: "report_manager env m s = (Inr rec, u)"
    and rest: "report_managers env (?next rec) managers u = (Inr (records', ''ready''), t)"
    by (auto simp: bindM_returns liftM_returns retM_returns)
  from Cons.IH [OF rest] have final: "?next rec = ''ready''"
    and others: "\<And>manager. PDict manager \<in> set managers \<Longrightarrow> pget manager ''owner'' = PStr ''application'' \<Longrightarrow> ready_between env manager u t"
    by auto
  have su: "grown (pl_calls s) u" by (rule grown_after [OF here grown_report_manager])
  have ut: "grown (pl_calls u) t" by (rule grown_after [OF rest grown_report_managers])
  have "runtime_state = ''ready''" using final by (auto split: if_splits)
  moreover have "ready_between env manager s t" if "PDict manager \<in> set (v # managers)" "pget manager ''owner'' = PStr ''application''" for manager
  proof (cases "v = PDict manager")
    case True
    with m have "m = manager" by (simp add: as_mapping_def)
    with report_manager_ready [OF here] that(2) final \<open>runtime_state = ''ready''\<close> have "ready_between env manager s u"
      by (auto split: if_splits)
    then show ?thesis by (rule ready_wider [OF _ grown_refl ut])
  next
    case False
    with that show ?thesis by (intro ready_wider [OF others su grown_refl]) auto
  qed
  ultimately show ?case by blast
qed

text \<open>A run reported ready was set up, and the plane of each manager it owns was reported ready.\<close>

lemma status_zero_ready:
  assumes "qfw_status env run_dir s = (Inr 0, t)"
  obtains state u managers where "read_run env run_dir s = (Inr state, u)" "managers_of state = Inr managers"
    "py_truth (pget state ''setup_complete'')" "\<not> py_truth (pget state ''setup_error'')"
    "\<And>manager. PDict manager \<in> set managers \<Longrightarrow> pget manager ''owner'' = PStr ''application'' \<Longrightarrow> ready_between env manager u t"
proof -
  from assms obtain state report u v where read: "read_run env run_dir s = (Inr state, u)"
    and report: "runtime_status env state u = (Inr report, t)" and ready: "pget report ''state'' = PStr ''ready''"
    by (auto simp: qfw_status_def bindM_returns retM_returns split: if_splits)
  from report ready obtain managers records where managers: "managers_of state = Inr managers"
    and records: "report_managers env (setup_outcome state) managers u = (Inr (records, ''ready''), t)"
    by (auto simp: runtime_status_def bindM_returns liftM_returns retM_returns pget_def)
  from report_managers_ready [OF records] have "setup_outcome state = ''ready''" by blast
  then have "py_truth (pget state ''setup_complete'')" "\<not> py_truth (pget state ''setup_error'')"
    by (auto simp: setup_outcome_def split: if_splits)
  with read managers report_managers_ready [OF records] show thesis by (intro that) auto
qed

section \<open>A setup that fails\<close>

text \<open>
  A service whose start raises is on no list of the run: what its own teardown could not end is not tried
  again when the run is cleaned up.
\<close>

lemma failed_start_unrecorded:
  assumes "start_role env ''qpm'' ((role_args (cm_run s) run_dir timeout allocation)
      \<lparr>pa_service_id := PStr (application_service_id (su env) service_name run_id), pa_manifest_service_name := PStr service_name,
        pa_directory_service_info := PStr directory_info\<rparr>) (cm_plane s) = (Inl e, p)"
  shows "start_managed_qpm env timeout allocation directory_info run_id run_dir service_name s = (Inl e, s\<lparr>cm_plane := p\<rparr>)"
  using assms by (simp add: start_managed_qpm_def Let_def bindM_def getM_def on_plane_def)

text \<open>The marker of the current run is cleared whether or not the services were stopped.\<close>

lemma failed_setup_clears:
  assumes "state = dset ''setup_error'' (PStr (exc_text e)) (cm_run s)" "sub state ''state_dir'' = Inr dir"
    and "on_disk (write_state (su env) (py_str dir) state) (cm_plane s) = (Inr (), p)"
    and "cleanup_application_service_managers env state p = (Inr errors, q)" and "clear_run env state q = (Inr (), r)"
  shows "setup_failed env e s = (Inl e, s\<lparr>cm_run := state, cm_plane := r\<rparr>)"
  using assms by (simp add: setup_failed_def put_run_def save_run_def on_plane_def monad_defs)

section \<open>A run with one service of its own\<close>

definition managed_run :: pydict where
  "managed_run = [(''run_id'', PStr ''x''), (''run_dir'', PStr ''/runs/x''), (''run_base_dir'', PStr ''/runs''),
     (''setup_complete'', PBool True), (''environment'', PDict [(''QFW_ALLOCATION_MODE'', PStr ''local'')]),
     (''service_managers'', PList [PDict [(''owner'', PStr ''application''), (''role'', PStr ''qpm''), (''run_dir'', PStr ''/r'')]])]"

definition managed_disk :: plane_state where
  "managed_disk = recorded_run\<lparr>pl_disk := (pl_disk recorded_run)\<lparr>file_system :=
     (''/runs/x/state/runtime-state.json'', Json_file (PDict managed_run)) # (''/runs/current'', Text_file ''x'') # file_system (pl_disk recorded_run)\<rparr>\<rparr>"

lemma managed_teardown: "fst (qfw_teardown gone_machine (Some ''/runs/x'') False managed_disk) = Inr 0"
  by code_simp

lemma managed_ready: "fst (qfw_status live_machine (Some ''/runs/x'') managed_disk) = Inr 0"
  by code_simp

lemma managed_read: "read_run gone_machine (Some ''/runs/x'') managed_disk = (Inr managed_run, managed_disk)"
  by code_simp

lemma managed_managers:
  "managers_of managed_run = Inr [PDict [(''owner'', PStr ''application''), (''role'', PStr ''qpm''), (''run_dir'', PStr ''/r'')]]"
  by code_simp

lemma managed_owned:
  "owned_managers [PDict [(''owner'', PStr ''application''), (''role'', PStr ''qpm''), (''run_dir'', PStr ''/r'')]] =
     [[(''owner'', PStr ''application''), (''role'', PStr ''qpm''), (''run_dir'', PStr ''/r'')]]"
  by code_simp

lemma managed_in_run: "in_run managed_run ''/runs/x/state/runtime-state.json''"
  by (simp add: in_run_def managed_run_def sub_def below_def py_str_def)

end
