(* ===== verification/QPM_Launcher.thy ===== *)
theory QPM_Launcher
  imports QPM_Commands
begin

text \<open>
  The launcher of a service process (\<^verbatim>\<open>setup/qfw_runtime/_process_launcher.py\<close>): it runs on the node of the
  service, works out the environment of a directory or a QPM, starts the DEFw process, waits until it is
  ready and writes its PID and its ready file. The lemmas show that a launch that fails has told its
  process to end, and that no service that needs a credential is started before its device is accepted in
  the device configuration of the site.
\<close>

section \<open>Arguments and log levels\<close>

record launcher_args =
  la_site_config :: pyval
  la_run_dir :: string
  la_name :: string
  la_host :: string
  la_listen_port :: "int option"
  la_telnet_port :: int
  la_timeout :: "int option"
  la_pid_file :: string
  la_ready_file :: string
  la_background :: bool
  la_dry_run :: bool
  la_service_id :: string
  la_manifest_service_name :: string
  la_module :: string
  la_load_modules :: string
  la_operation_mode :: string

definition service_env_suffix :: "string \<Rightarrow> string" where
  "service_env_suffix service_id = map (\<lambda>c. if is_alpha c \<or> is_digit c then c else CHR ''_'') (py_upper service_id)"

definition service_env_override :: "setup_env \<Rightarrow> string \<Rightarrow> string \<Rightarrow> string option" where
  "service_env_override env service_id name =
     (case map_of (environ env) (''QFW_SERVICE_'' @ service_env_suffix service_id @ ''_'' @ name) of
        Some v \<Rightarrow> Some v | None \<Rightarrow> map_of (environ env) (''QFW_SERVICE_'' @ name))"

definition first_set :: "setup_env \<Rightarrow> string \<Rightarrow> string \<Rightarrow> pyval \<Rightarrow> string \<Rightarrow> string" where
  "first_set env service_id name configured d =
     (let override = (case service_env_override env service_id name of Some v \<Rightarrow> v | None \<Rightarrow> [])
      in or_text override (or_text (variable_of env name) (if py_truth configured then py_str configured else d)))"

definition service_log_level :: "setup_env \<Rightarrow> string \<Rightarrow> pydict \<Rightarrow> string" where
  "service_log_level env service_id service = first_set env service_id ''DEFW_LOG_LEVEL'' (pget service ''log-level'') ''error''"

definition service_py_loglevel :: "setup_env \<Rightarrow> string \<Rightarrow> pydict \<Rightarrow> string \<Rightarrow> string" where
  "service_py_loglevel env service_id service d = first_set env service_id ''DEFW_PY_LOGLEVEL'' (pget service ''py-log-level'') d"

definition load_optional_site :: "plane_env \<Rightarrow> pyval \<Rightarrow> pydict plane" where
  "load_optional_site env site_config =
     bindM (liftM (resolve_site_config (su env) site_config)) (\<lambda>resolved.
     let path = (case resolved of Some p \<Rightarrow> p | None \<Rightarrow> []) in
     bindM (on_disk (path_exists path)) (\<lambda>present.
       if \<not> py_truth site_config \<and> \<not> present then retM [] else on_disk (setup_load_yaml (su env) path)))"

definition service_run_dir :: "setup_env \<Rightarrow> string \<Rightarrow> string \<Rightarrow> string" where
  "service_run_dir env run_dir name =
     (if run_dir \<noteq> [] then join_all (real_path env run_dir) [''services'', name] else join_all (qfw_run_base_dir env) [''services'', name])"

section \<open>The DEFw process\<close>

text \<open>A file of the launch is opened before it is written; opening it may be refused, and then nothing is written.\<close>

definition write_opened :: "plane_env \<Rightarrow> string \<Rightarrow> file_content \<Rightarrow> unit plane" where
  "write_opened env path content = bindM (call_plane env (Open_write path)) (\<lambda>_. on_disk (write_file path content))"

definition write_ready :: "plane_env \<Rightarrow> string \<Rightarrow> pydict \<Rightarrow> unit plane" where
  "write_ready env path payload =
     bindM (call_plane env Time_ns) (\<lambda>now.
       write_opened env path (Json_file (PDict (dset ''timestamp_ns'' now (dset ''ready'' (PBool True) payload)))))"

text \<open>A port is taken when binding it answers that the address is in use.\<close>

definition require_free_port :: "plane_env \<Rightarrow> string \<Rightarrow> (string \<times> string) list \<Rightarrow> string \<times> string \<Rightarrow> unit plane" where
  "require_free_port env name e vl =
     bindM (liftM (case map_of e (fst vl) of Some t \<Rightarrow> if t = [] then Inr 0 else py_int (PStr t) | None \<Rightarrow> Inr 0)) (\<lambda>port.
       if port \<le> 0 then retM ()
       else bindM (call_plane env (Bind_port port)) (\<lambda>v.
         if v = PStr ''address-in-use''
         then raiseM (RuntimeError (name @ '' cannot start: '' @ snd vl @ '' port '' @ int_text port @ '' is already in use on '' @ hostname env @
                '', possibly by a service left over from an earlier run''))
         else retM ()))"

definition require_free_defw_ports :: "plane_env \<Rightarrow> string \<Rightarrow> (string \<times> string) list \<Rightarrow> unit plane" where
  "require_free_defw_ports env name e =
     forM [(''DEFW_LISTEN_PORT'', ''listen''), (''DEFW_TELNET_PORT'', ''telnet'')] (require_free_port env name e)"

definition open_process_log :: "plane_env \<Rightarrow> (string \<times> string) list \<Rightarrow> string \<Rightarrow> string \<Rightarrow> unit plane" where
  "open_process_log env e name stream_name =
     (let log_dir = or_text (var e ''DEFW_LOG_DIR'' []) (join_path (qfw_run_base_dir (su env)) ''logs'');
          safe_name = map (\<lambda>c. if is_alpha c \<or> is_digit c \<or> c \<in> set ''-_.'' then c else CHR ''_'') name;
          path = join_path log_dir (safe_name @ ''.'' @ stream_name @ ''.log'')
      in seqM (on_disk (make_dir log_dir)) (bindM (call_plane env (Open_write path)) (\<lambda>_.
           on_disk (modM (\<lambda>s. if has_key (file_system s) path then s else s\<lparr>file_system := dset path (Text_file []) (file_system s)\<rparr>)))))"

definition ready_file_ready :: "plane_env \<Rightarrow> string \<Rightarrow> bool plane" where
  "ready_file_ready env path =
     (if path = [] then retM False
      else bindM (on_disk (path_exists path)) (\<lambda>present. if \<not> present then retM False else ready_file env path))"

text \<open>The start of a process has failed when it exits, or when it is not ready at the deadline; polls are limited.\<close>

primrec wait_process_ready :: "plane_env \<Rightarrow> int \<Rightarrow> string \<Rightarrow> int \<Rightarrow> int \<Rightarrow> bool plane \<Rightarrow> string \<Rightarrow> nat \<Rightarrow> unit plane" where
  "wait_process_ready env pid name timeout deadline probe detail 0 = raiseM NoReturn"
| "wait_process_ready env pid name timeout deadline probe detail (Suc n) =
     bindM (call_plane env (Poll_process pid)) (\<lambda>code.
       if code \<noteq> PNone then raiseM (RuntimeError (name @ '' exited during startup with status '' @ py_str code))
       else
         bindM (catchM (bindM probe (\<lambda>b. retM (b, detail))) (\<lambda>e. retM (False, '': '' @ exc_text e))) (\<lambda>(there, detail).
           if there then retM ()
           else bindM (call_plane env Monotonic) (\<lambda>t. bindM (liftM (py_int t)) (\<lambda>now.
             if now \<ge> deadline
             then raiseM (OSError (name @ '' readiness timed out after '' @ int_text timeout @ '' seconds'' @ detail))
             else wait_process_ready env pid name timeout deadline probe detail n))))"

text \<open>A signal to the group, or to the process when the group refuses: the answer says whether anything is left to end.\<close>

definition send_or_gone :: "plane_env \<Rightarrow> int \<Rightarrow> string \<Rightarrow> bool plane" where
  "send_or_gone env pid sig =
     bindM (call_plane env (Kill_group pid sig)) (\<lambda>r.
       if r = PStr ''no-process'' then retM False
       else if r \<noteq> PStr ''not-permitted'' then retM True
       else bindM (call_plane env (Kill_process pid sig)) (\<lambda>r.
         if r = PStr ''no-process'' then retM False
         else if r = PStr ''not-permitted'' then raiseM (OSError ''Operation not permitted'')
         else retM True))"

primrec await_gone :: "plane_env \<Rightarrow> int \<Rightarrow> int \<Rightarrow> nat \<Rightarrow> bool plane" where
  "await_gone env pid deadline 0 = raiseM NoReturn"
| "await_gone env pid deadline (Suc n) =
     bindM (call_plane env Monotonic) (\<lambda>t. bindM (liftM (py_int t)) (\<lambda>now.
       if now \<ge> deadline then retM False
       else bindM (call_plane env (Kill_process pid ''0'')) (\<lambda>r.
         if r = PStr ''no-process'' then retM True
         else if r = PStr ''not-permitted'' then raiseM (OSError ''Operation not permitted'')
         else await_gone env pid deadline n)))"

definition terminate_process :: "plane_env \<Rightarrow> int \<Rightarrow> unit plane" where
  "terminate_process env pid =
     bindM (send_or_gone env pid ''SIGTERM'') (\<lambda>there.
       if \<not> there then retM ()
       else bindM (call_plane env Monotonic) (\<lambda>t. bindM (liftM (py_int t)) (\<lambda>now.
            bindM (await_gone env pid (now + 5) (poll_rounds env)) (\<lambda>gone.
              if gone then retM () else bindM (send_or_gone env pid ''SIGKILL'') (\<lambda>_. retM ())))))"

text \<open>A launcher in the foreground waits for its process; a signal that arrives ends it.\<close>

definition wait_foreground :: "plane_env \<Rightarrow> int \<Rightarrow> string \<Rightarrow> string \<Rightarrow> int plane" where
  "wait_foreground env pid pid_file ready_path =
     bindM (call_flag env Stop_requested) (\<lambda>signalled.
       finallyM (seqM (if signalled then terminate_process env pid else retM ())
                  (bindM (call_plane env (Wait_process pid)) (\<lambda>v. liftM (py_int v))))
         (seqM (if signalled then terminate_process env pid else retM ()) (seqM (unlink_file pid_file) (unlink_file ready_path))))"

definition supervise :: "plane_env \<Rightarrow> int \<Rightarrow> string \<Rightarrow> string \<Rightarrow> string \<Rightarrow> int \<Rightarrow> bool \<Rightarrow> pydict \<Rightarrow> bool plane \<Rightarrow> int plane" where
  "supervise env pid name pid_file ready_path timeout background payload probe =
     catchM (bindM (call_plane env Monotonic) (\<lambda>t. bindM (liftM (py_int t)) (\<lambda>now.
             seqM (wait_process_ready env pid name timeout (now + max 0 timeout) probe [] (poll_rounds env))
               (seqM (write_ready env ready_path payload)
                 (if background then retM 0 else wait_foreground env pid pid_file ready_path)))))
       (\<lambda>e. seqM (terminate_process env pid) (seqM (unlink_file pid_file) (seqM (unlink_file ready_path) (raiseM e))))"

text \<open>The ports are free, the command is found and the logs are open before the process is started.\<close>

definition ready_to_start :: "plane_env \<Rightarrow> string \<Rightarrow> (string \<times> string) list \<Rightarrow> string plane" where
  "ready_to_start env name e =
     seqM (require_free_defw_ports env name e)
     (bindM (qfw_command_path env ''defw-python'' e) (\<lambda>defw_python.
      seqM (open_process_log env e name ''stdout'') (seqM (open_process_log env e name ''stderr'') (retM defw_python))))"

definition start_defw_owned_process ::
  "plane_env \<Rightarrow> string \<Rightarrow> (string \<times> string) list \<Rightarrow> string \<Rightarrow> string \<Rightarrow> int \<Rightarrow> bool \<Rightarrow> bool \<Rightarrow> pydict \<Rightarrow> bool plane \<Rightarrow> int plane" where
  "start_defw_owned_process env name e pid_file ready_path timeout background dry_run payload probe =
     (if dry_run \<or> map_of e ''QFW_STARTUP_DRY_RUN'' = Some ''1''
      then seqM (write_opened env pid_file (Text_file (int_text (own_pid env) @ [CHR 0x0A])))
             (seqM (write_ready env ready_path payload) (retM 0))
      else
        bindM (ready_to_start env name e) (\<lambda>defw_python.
        bindM (call_plane env (Spawn [defw_python, ''-d'', ''-x''] e)) (\<lambda>v. bindM (liftM (py_int v)) (\<lambda>pid.
          seqM (write_opened env pid_file (Text_file (int_text pid @ [CHR 0x0A])))
            (supervise env pid name pid_file ready_path timeout background payload probe)))))"

section \<open>A directory\<close>

definition directory_settings :: "plane_env \<Rightarrow> launcher_args \<Rightarrow> (string \<times> string \<times> int \<times> int) plane" where
  "directory_settings env args =
     (let use_site = (py_truth (la_site_config args) \<or> \<not> (la_name args \<noteq> [] \<and> la_listen_port args \<noteq> None)) in
      bindM (if use_site then liftM (resolve_site_config (su env) (la_site_config args)) else retM None) (\<lambda>site_path.
      bindM (if use_site then load_optional_site env (la_site_config args) else retM []) (\<lambda>site.
      bindM (if site \<noteq> [] then liftM (site_directory_config (su env) site site_path) else retM []) (\<lambda>site_dir.
      bindM (liftM (split_any_endpoint (pgetd site_dir ''endpoint'' (PStr [])))) (\<lambda>(site_host, site_port).
      bindM (liftM (case la_listen_port args of
               Some p \<Rightarrow> Inr p | None \<Rightarrow> py_int (py_or (pget site_dir ''listen_port'') (PInt site_port)))) (\<lambda>port.
      bindM (liftM (case la_timeout args of
               Some t \<Rightarrow> Inr t | None \<Rightarrow> py_int (pgetd site_dir ''connect_timeout_seconds'' (PInt 40)))) (\<lambda>timeout.
        retM (or_text (la_name args) (py_str (pgetd site_dir ''name'' (PStr ''qfw-dirsvc''))),
              or_text (la_host args) (or_text site_host (hostname env)), if port = 0 then 8090 else port, timeout))))))))"

definition directory_process_environment ::
  "plane_env \<Rightarrow> launcher_args \<Rightarrow> string \<Rightarrow> string \<Rightarrow> int \<Rightarrow> string \<Rightarrow> (string \<times> string) list" where
  "directory_process_environment env args name host port log_dir =
     dupdate (launch_environment (environ (su env)) False)
       [(''DEFW_AGENT_NAME'', name), (''DEFW_LISTEN_PORT'', int_text port), (''DEFW_TELNET_PORT'', int_text (la_telnet_port args)),
        (''DEFW_ONLY_LOAD_MODULE'', ''svc_dirsvc''), (''DEFW_LOAD_NO_INIT'', []), (''DEFW_SHELL_TYPE'', ''daemon''),
        (''DEFW_AGENT_TYPE'', ''dirsvc''), (''DEFW_PARENT_HOSTNAME'', host), (''DEFW_PARENT_PORT'', int_text port),
        (''DEFW_PARENT_NAME'', name), (''DEFW_LOG_LEVEL'', service_log_level (su env) name []), (''DEFW_DISABLE_DIRSVC'', ''yes''),
        (''DEFW_LOG_DIR'', log_dir), (''DEFW_PY_LOGLEVEL'', service_py_loglevel (su env) name [] ''critical'')]"

text \<open>Everything about a directory that comes before its process: its name, its endpoint, its timeout and its environment.\<close>

definition prepare_directory :: "plane_env \<Rightarrow> launcher_args \<Rightarrow> (string \<times> string \<times> int \<times> (string \<times> string) list) plane" where
  "prepare_directory env args =
     bindM (directory_settings env args) (\<lambda>(name, host, port, timeout).
     let run_dir = service_run_dir (su env) (la_run_dir args) name; log_dir = join_path run_dir ''logs'';
         e = directory_process_environment env args name host port log_dir
     in seqM (on_disk (seqM (make_dir run_dir) (make_dir log_dir)))
        (if py_truth (la_site_config args)
         then bindM (liftM (resolve_site_config (su env) (la_site_config args))) (\<lambda>p.
              retM (name, host @ '':'' @ int_text port, timeout, dset ''QFW_SITE_CONFIG'' (case p of Some t \<Rightarrow> t | None \<Rightarrow> ''None'') e))
         else retM (name, host @ '':'' @ int_text port, timeout, e)))"

definition launch_directory :: "plane_env \<Rightarrow> launcher_args \<Rightarrow> int plane" where
  "launch_directory env args =
     bindM (prepare_directory env args) (\<lambda>(name, endpoint, timeout, e).
       let run_dir = service_run_dir (su env) (la_run_dir args) name
       in start_defw_owned_process env name e (or_text (la_pid_file args) (join_path run_dir ''pid''))
           (or_text (la_ready_file args) (join_path run_dir ''ready.json'')) timeout (la_background args) (la_dry_run args)
           [(''role'', PStr ''dirsvc''), (''name'', PStr name), (''endpoint'', PStr endpoint), (''startup_timeout'', PInt timeout)]
           (tcp_endpoint_ready env (PStr endpoint)))"

section \<open>A QPM\<close>

definition resolve_manifest_service :: "plane_env \<Rightarrow> launcher_args \<Rightarrow> (string \<times> string) list \<Rightarrow> (pydict \<times> string option) plane" where
  "resolve_manifest_service env args site_service =
     (let local_manifest = py_strip (variable_of (su env) ''QFW_LOCAL_SERVICE_CONFIG'') in
      if la_module args \<noteq> []
      then bindM (if local_manifest \<noteq> [] then liftM (resolve_path (su env) (PStr local_manifest) None) else retM None) (\<lambda>path.
             retM ([(''name'', PStr (la_service_id args)), (''module'', PStr (la_module args)),
                    (''load-modules'', PStr (or_text (la_load_modules args) (la_module args))),
                    (''operation-mode'', PStr (la_operation_mode args))], path))
      else
        let scope = py_lower (py_strip (var (environ (su env)) ''QFW_SERVICE_SCOPE'' ''site'')) in
        bindM (if scope = ''allocation-local''
               then (if local_manifest = []
                     then raiseM (ValueError ''allocation-local service startup requires prepared QFw runtime state'') else retM local_manifest)
               else if scope = ''site''
               then (case map_of site_service ''manifest'' of
                       Some m \<Rightarrow> if m = [] then raiseM (ValueError ''site service startup requires service.manifest in site.yaml'') else retM m
                     | None \<Rightarrow> raiseM (ValueError ''site service startup requires service.manifest in site.yaml''))
               else raiseM (ValueError (''unsupported QFw service scope: '' @ scope))) (\<lambda>manifest.
        bindM (liftM (resolved_path (su env) (PStr manifest) None)) (\<lambda>path.
        bindM (on_disk (load_service_manifest (su env) path)) (\<lambda>services.
        bindM (liftM (service_by_name services (or_text (la_manifest_service_name args) (la_service_id args)))) (\<lambda>service.
          retM (service, Some path))))))"

definition qpm_directory :: "plane_env \<Rightarrow> pydict \<Rightarrow> string \<Rightarrow> pydict plane" where
  "qpm_directory env site site_path =
     (let local_endpoint = variable_of (su env) ''QFW_LOCAL_DIRSVC_ENDPOINT'' in
      if local_endpoint \<noteq> []
      then bindM (liftM (case map_of (environ (su env)) ''QFW_DIRSVC_CONNECT_TIMEOUT_SECONDS'' of
               Some t \<Rightarrow> py_int (PStr t) | None \<Rightarrow> Inr 300)) (\<lambda>timeout.
             retM [(''name'', PStr (var (environ (su env)) ''QFW_LOCAL_DIRSVC_NAME'' ''qfw-local-dirsvc'')),
                   (''endpoint'', PStr local_endpoint), (''connect_timeout_seconds'', PInt timeout)])
      else if site \<noteq> [] then on_disk (site_directory (su env) site (Some site_path) PNone)
      else retM [])"

text \<open>The node and the hosts of a service.\<close>

definition qpm_target :: "plane_env \<Rightarrow> pydict \<Rightarrow> pydict \<Rightarrow> exc + string" where
  "qpm_target env service allocation =
     (if py_lower (py_strip (var (environ (su env)) ''QFW_SERVICE_SCOPE'' ''site'')) = ''allocation-local''
      then (let given_target = variable_of (su env) ''QFW_LOCAL_SERVICE_TARGET''
            in if given_target \<noteq> [] then Inr given_target else resolve_node_policy env (pget service ''target'') allocation)
      else Inr (py_str (pgetd service ''host'' (PStr []))))"

definition qpm_assigned_hosts :: "plane_env \<Rightarrow> pydict \<Rightarrow> pydict \<Rightarrow> exc + string" where
  "qpm_assigned_hosts env service allocation =
     (let given_hosts = variable_of (su env) ''QFW_SERVICE_ASSIGNED_HOSTS''
      in if given_hosts \<noteq> [] then Inr given_hosts else resolve_host_policy env (pget service ''assigned-hosts'') allocation)"

text \<open>
  What a service with credentials needs: the configuration of the site's devices, and the device of the
  service in it. A failure ends the launcher.
\<close>

definition credential_mode_of :: "pydict \<Rightarrow> string" where
  "credential_mode_of service = py_strip (py_str (py_or (pget service ''credential-mode'') (PStr [])))"

definition check_credentials :: "access_env \<Rightarrow> pydict \<Rightarrow> string option \<Rightarrow> exc + unit" where
  "check_credentials ae service device_access_config =
     (if credential_mode_of service \<noteq> ''required'' then Inr ()
      else case device_access_config of
             None \<Rightarrow> Inl (SystemExit ''services with required credentials need service.device-access-config in site.yaml'')
           | Some path \<Rightarrow>
               (case bindE (sub service ''device-id'') (validate_credential_configuration ae path) of
                  Inl e \<Rightarrow> Inl (SystemExit (exc_text e)) | Inr _ \<Rightarrow> Inr ()))"

definition device_access_path :: "plane_env \<Rightarrow> (string \<times> string) list \<Rightarrow> exc + string option" where
  "device_access_path env site_service =
     (case map_of site_service ''device_access_config'' of
        Some p \<Rightarrow> if p = [] then Inr None else bindE (resolved_path (su env) (PStr p) None) (\<lambda>path. Inr (Some path))
      | None \<Rightarrow> Inr None)"

record qpm_launch =
  ql_service :: pydict
  ql_config_path :: "string option"
  ql_directory :: pydict
  ql_module :: string
  ql_timeout :: int
  ql_host :: string
  ql_port :: int
  ql_dirsvc_endpoint :: pyval
  ql_dirsvc_host :: string
  ql_dirsvc_port :: int
  ql_dirsvc_name :: string
  ql_target :: string
  ql_assigned_hosts :: string
  ql_device_access :: "string option"

definition qpm_process_environment :: "plane_env \<Rightarrow> launcher_args \<Rightarrow> qpm_launch \<Rightarrow> string \<Rightarrow> string \<Rightarrow> (string \<times> string) list" where
  "qpm_process_environment env args q run_dir site_path =
     (let service = ql_service q; service_id = la_service_id args; hosts = ql_assigned_hosts q
      in dupdate (dpop ''QFW_DEVICE_ACCESS_CFG'' (dupdate (launch_environment (environ (su env)) False)
         ([(''DEFW_AGENT_NAME'', service_id), (''DEFW_LISTEN_PORT'', int_text (ql_port q)),
           (''DEFW_TELNET_PORT'', py_str (pgetd service ''telnet-port'' (PInt (la_telnet_port args)))),
           (''DEFW_ONLY_LOAD_MODULE'', or_text (la_load_modules args)
              (py_str (py_or (pget service ''load-modules'') (PStr (ql_module q))))),
           (''DEFW_LOAD_NO_INIT'', []), (''DEFW_SHELL_TYPE'', ''daemon''),
           (''DEFW_AGENT_TYPE'', py_str (pgetd service ''agent-type'' (PStr ''service''))),
           (''DEFW_PARENT_HOSTNAME'', ql_dirsvc_host q), (''DEFW_PARENT_PORT'', int_text (ql_dirsvc_port q)),
           (''DEFW_PARENT_NAME'', ql_dirsvc_name q), (''DEFW_LOG_LEVEL'', service_log_level (su env) service_id service),
           (''DEFW_DISABLE_DIRSVC'', ''no''), (''DEFW_LOG_DIR'', join_path run_dir ''logs''),
           (''DEFW_PY_LOGLEVEL'', service_py_loglevel (su env) service_id service ''debug,DEFW_ALL''),
           (''QFW_QPM_OPERATION_MODE'', py_str (pgetd service ''operation-mode'' (PStr (la_operation_mode args)))),
           (''QFW_QPM_SERVICE_ID'', service_id), (''QFW_QPM_SERVICE_MODULE'', ql_module q),
           (''QFW_QPM_CREDENTIAL_MODE'', credential_mode_of service), (''QFW_QPM_RUN_DIR'', run_dir),
           (''QFW_STARTUP_TIMEOUT'', int_text (ql_timeout q)),
           (''QFW_SERVICE_READY_FILE'', join_path run_dir ''service-ready.json'')] @
          (case ql_config_path q of Some p \<Rightarrow> [(''QFW_SERVICE_CONFIG'', p)] | None \<Rightarrow> []) @
          (if ql_target q \<noteq> [] then [(''QFW_LOCAL_SERVICE_TARGET'', ql_target q)] else []) @
          (if hosts \<noteq> [] then [(''QFW_SERVICE_ASSIGNED_HOSTS'', hosts)] @
             (if py_truth (pget service ''assigned-hosts-env'') then [(py_str (pget service ''assigned-hosts-env''), hosts)] else []) else []) @
          (if py_truth (pget (ql_directory q) ''endpoint'')
           then [(''QFW_SITE_DIRSVC_ENDPOINTS'', py_str (pget (ql_directory q) ''endpoint''))] else []))))
         ((case ql_device_access q of Some p \<Rightarrow> [(''QFW_DEVICE_ACCESS_CFG'', p)] | None \<Rightarrow> []) @
          (if py_truth (pget service ''device-id'') then [(''QFW_QPU_DEVICE_ID'', py_str (pget service ''device-id''))] else []) @
          [(''QFW_SITE_CONFIG'', site_path)]))"

text \<open>Everything about a QPM that is read before its process is started.\<close>

definition resolve_qpm :: "plane_env \<Rightarrow> launcher_args \<Rightarrow> string \<Rightarrow> qpm_launch plane" where
  "resolve_qpm env args site_path =
     bindM (load_optional_site env (la_site_config args)) (\<lambda>site.
     bindM (qpm_directory env site site_path) (\<lambda>directory.
     bindM (if site \<noteq> [] then liftM (site_service_config (su env) site (Some site_path)) else retM []) (\<lambda>site_service.
     bindM (resolve_manifest_service env args site_service) (\<lambda>(service, config_path).
     bindM (liftM (case la_timeout args of
              Some t \<Rightarrow> Inr t | None \<Rightarrow> py_int (pgetd directory ''connect_timeout_seconds'' (PInt 40)))) (\<lambda>timeout.
     let module = or_text (la_module args) (if py_truth (pget service ''module'') then py_str (pget service ''module'') else []);
         endpoint = py_or (pget service ''dirsvc-endpoint'') (py_or (PStr (variable_of (su env) ''QFW_LOCAL_DIRSVC_ENDPOINT''))
           (pgetd directory ''endpoint'' (PStr [])));
         name = py_str (py_or (pget service ''dirsvc-name'') (py_or (PStr (variable_of (su env) ''QFW_LOCAL_DIRSVC_NAME''))
           (pgetd directory ''name'' (PStr ''qfw-site-dirsvc''))))
     in if module = [] then raiseM (SystemExit ''qfw-qpm-svc requires --module or a manifest entry'')
        else
          bindM (liftM (split_any_endpoint endpoint)) (\<lambda>(dirsvc_host, dirsvc_port).
          bindM (liftM (allocation_context_from_env env (environ (su env)))) (\<lambda>allocation.
          bindM (liftM (qpm_target env service allocation)) (\<lambda>target.
          bindM (liftM (py_int (pgetd service ''listen-port'' (PInt (case la_listen_port args of Some p \<Rightarrow> p | None \<Rightarrow> 8290))))) (\<lambda>port.
          bindM (liftM (qpm_assigned_hosts env service allocation)) (\<lambda>hosts.
          bindM (liftM (device_access_path env site_service)) (\<lambda>device_access.
            retM \<lparr>ql_service = service, ql_config_path = config_path, ql_directory = directory, ql_module = module, ql_timeout = timeout,
              ql_host = py_str (pgetd service ''bind-host'' (pgetd service ''host'' (PStr (or_text target ''127.0.0.1'')))), ql_port = port,
              ql_dirsvc_endpoint = endpoint, ql_dirsvc_host = dirsvc_host, ql_dirsvc_port = dirsvc_port, ql_dirsvc_name = name,
              ql_target = target, ql_assigned_hosts = hosts, ql_device_access = device_access\<rparr>)))))))))))"

text \<open>The run directory, what is read, and the check of the credentials.\<close>

definition prepare_qpm :: "plane_env \<Rightarrow> access_env \<Rightarrow> launcher_args \<Rightarrow> (qpm_launch \<times> string) plane" where
  "prepare_qpm env ae args =
     (let run_dir = service_run_dir (su env) (la_run_dir args) (la_service_id args) in
      seqM (on_disk (seqM (make_dir run_dir) (make_dir (join_path run_dir ''logs''))))
      (seqM (unlink_file (join_path run_dir ''service-ready.json''))
      (bindM (liftM (resolve_site_config (su env) (la_site_config args))) (\<lambda>p.
       let site_path = (case p of Some t \<Rightarrow> t | None \<Rightarrow> ''None'') in
       bindM (resolve_qpm env args site_path) (\<lambda>q.
         seqM (liftM (check_credentials ae (ql_service q) (ql_device_access q))) (retM (q, site_path)))))))"

definition launch_qpm :: "plane_env \<Rightarrow> access_env \<Rightarrow> launcher_args \<Rightarrow> int plane" where
  "launch_qpm env ae args =
     bindM (prepare_qpm env ae args) (\<lambda>(q, site_path).
       let service_id = la_service_id args; run_dir = service_run_dir (su env) (la_run_dir args) service_id;
           service_ready = join_path run_dir ''service-ready.json''
       in start_defw_owned_process env service_id (qpm_process_environment env args q run_dir site_path)
            (or_text (la_pid_file args) (join_path run_dir ''pid'')) (or_text (la_ready_file args) (join_path run_dir ''ready.json''))
            (ql_timeout q) (la_background args) (la_dry_run args)
            [(''role'', PStr ''service''), (''service_id'', PStr service_id), (''module'', PStr (ql_module q)),
             (''endpoint'', PStr (ql_host q @ '':'' @ int_text (ql_port q))), (''dirsvc_name'', PStr (ql_dirsvc_name q)),
             (''dirsvc_endpoint'', ql_dirsvc_endpoint q), (''startup_timeout'', PInt (ql_timeout q)),
             (''register_with_dirsvc'', PBool True), (''service_ready_file'', PStr service_ready)]
            (ready_file_ready env service_ready))"

definition launch_role :: "plane_env \<Rightarrow> access_env \<Rightarrow> string \<Rightarrow> launcher_args \<Rightarrow> int plane" where
  "launch_role env ae role args = (if role = ''directory'' then launch_directory env args else launch_qpm env ae args)"

definition launcher_main :: "plane_env \<Rightarrow> access_env \<Rightarrow> string \<Rightarrow> launcher_args \<Rightarrow> int plane" where
  "launcher_main env ae role args =
     (if role \<notin> {''directory'', ''qpm''} then retM 2 else command_exit (launch_role env ae role args))"

section \<open>A launch that fails\<close>

lemma first_call:
  assumes "\<And>x. keeps (grown (pl_calls s @ [c])) (f x)"
  shows "grown (pl_calls s @ [c]) (snd (bindM (call_plane env c) f s))"
proof -
  let ?u = "s\<lparr>pl_calls := pl_calls s @ [c], pl_disk := meanwhile env (pl_calls s @ [c]) (pl_disk s)\<rparr>"
  have "grown (pl_calls s @ [c]) ?u" by (simp add: grown_def)
  then show ?thesis using assms by (cases "plane_answer env (pl_calls s) c") (auto simp: bindM_def call_plane_def keeps_def)
qed

lemma bind_after: "grown h (snd (m s)) \<Longrightarrow> (\<And>x. keeps (grown h) (f x)) \<Longrightarrow> grown h (snd (bindM m f s))"
  by (auto simp: bindM_def keeps_def split: prod.splits sum.splits)

lemma grown_send [keeps_rules]: "keeps (grown h) (send_or_gone env pid sig)"
  unfolding send_or_gone_def by (intro keeps_rules)

lemma grown_await_gone [keeps_rules]: "keeps (grown h) (await_gone env pid deadline n)"
  by (induction n) (auto intro!: keeps_rules)

lemma grown_terminate_process [keeps_rules]: "keeps (grown h) (terminate_process env pid)"
  unfolding terminate_process_def by (intro keeps_rules)

lemma grown_unlink [keeps_rules]: "keeps (grown h) (unlink_file p)"
  unfolding unlink_file_def by (intro keeps_rules)

lemma grown_wait_ready [keeps_rules]: "keeps (grown h) probe \<Longrightarrow> keeps (grown h) (wait_process_ready env pid name timeout deadline probe detail n)"
  by (induction n arbitrary: detail) (auto intro!: keeps_rules)

lemma grown_write_opened [keeps_rules]: "keeps (grown h) (write_opened env path c)"
  unfolding write_opened_def by (intro keeps_rules)

lemma grown_write_ready [keeps_rules]: "keeps (grown h) (write_ready env path payload)"
  unfolding write_ready_def by (intro keeps_rules)

lemma grown_foreground [keeps_rules]: "keeps (grown h) (wait_foreground env pid pid_file ready_path)"
  unfolding wait_foreground_def by (intro keeps_rules)

lemma terminate_signals_first: "grown (pl_calls s @ [Kill_group pid ''SIGTERM'']) (snd (terminate_process env pid s))"
  unfolding terminate_process_def send_or_gone_def [of env pid "''SIGTERM''"]
  by (rule bind_after [OF first_call]) (intro keeps_rules)+

text \<open>A launch that raises has sent the signal that ends its process.\<close>

lemma failed_launch_signals:
  assumes fails: "supervise env pid name pid_file ready_path timeout background payload probe s = (Inl e, t)" and e: "e \<noteq> NoReturn"
    and probe: "\<And>h. keeps (grown h) probe"
  shows "\<exists>before after. pl_calls t = pl_calls s @ before @ Kill_group pid ''SIGTERM'' # after"
proof -
  let ?wait = "bindM (call_plane env Monotonic) (\<lambda>t. bindM (liftM (py_int t)) (\<lambda>now.
      seqM (wait_process_ready env pid name timeout (now + max 0 timeout) probe [] (poll_rounds env))
        (seqM (write_ready env ready_path payload) (if background then retM 0 else wait_foreground env pid pid_file ready_path))))"
    and ?handler = "\<lambda>x. seqM (terminate_process env pid) (seqM (unlink_file pid_file) (seqM (unlink_file ready_path) (raiseM x))) :: int plane"
  obtain r u where u: "?wait s = (r, u)" by (cases "?wait s")
  have "keeps (grown (pl_calls s)) ?wait" by (intro keeps_rules probe)
  then have su: "grown (pl_calls s) u" unfolding keeps_def using u by (metis grown_refl snd_conv)
  from fails e u obtain x where t: "?handler x u = (Inl e, t)"
    by (cases r) (auto simp: supervise_def catchM_def tryM_def raiseM_def split: if_splits)
  have "grown (pl_calls u @ [Kill_group pid ''SIGTERM'']) (snd (?handler x u))"
    unfolding seqM_def [of "terminate_process env pid"] by (rule bind_after [OF terminate_signals_first]) (intro keeps_rules)
  with t su show ?thesis unfolding grown_def by (metis append.assoc append_Cons append_Nil snd_conv)
qed

section \<open>A launch that returns\<close>

text \<open>A process that becomes ready had not exited when it was last asked for, and the probe said so.\<close>

lemma wait_ready_returns:
  "wait_process_ready env pid name timeout deadline probe detail n s = (Inr (), t) \<Longrightarrow>
   \<exists>u v. call_plane env (Poll_process pid) u = (Inr PNone, v) \<and> probe v = (Inr True, t)"
proof (induction n arbitrary: s detail)
  case 0
  then show ?case by (simp add: raiseM_def)
next
  case (Suc n)
  from Suc.prems obtain code v there detail' w where poll: "call_plane env (Poll_process pid) s = (Inr code, v)" and code: "code = PNone"
    and probed: "catchM (bindM probe (\<lambda>b. retM (b, detail))) (\<lambda>e. retM (False, '': '' @ exc_text e)) v = (Inr (there, detail'), w)"
    and rest: "(if there then retM () else bindM (call_plane env Monotonic) (\<lambda>t. bindM (liftM (py_int t)) (\<lambda>now.
        if now \<ge> deadline then raiseM (OSError (name @ '' readiness timed out after '' @ int_text timeout @ '' seconds'' @ detail'))
        else wait_process_ready env pid name timeout deadline probe detail' n))) w = (Inr (), t)"
    by (auto simp: bindM_returns [of "call_plane env (Poll_process pid)"] bindM_returns [of "catchM a b" for a b] raiseM_def split: if_splits)
  show ?case
  proof (cases there)
    case True
    with probed have "probe v = (Inr True, w)" by (auto simp: catchM_returns bindM_returns retM_returns)
    with poll code rest True show ?thesis by (auto simp: retM_def)
  next
    case False
    with rest Suc.IH show ?thesis by (auto simp: bindM_returns raiseM_def split: if_splits)
  qed
qed

lemma background_launch_ready:
  assumes "supervise env pid name pid_file ready_path timeout True payload probe s = (Inr code, t)"
  obtains u v w d where "call_plane env (Poll_process pid) u = (Inr PNone, v)" "probe v = (Inr True, w)"
    "map_of (file_system (pl_disk t)) ready_path = Some (Json_file (PDict d))" "pget d ''ready'' = PBool True"
proof -
  from assms obtain n deadline v w where waited: "wait_process_ready env pid name timeout deadline probe [] n v = (Inr (), w)"
    and wrote: "write_ready env ready_path payload w = (Inr (), t)"
    by (auto simp: supervise_def catchM_returns bindM_returns seqM_returns retM_returns raiseM_def)
  from wrote obtain d where "map_of (file_system (pl_disk t)) ready_path = Some (Json_file (PDict d))" "pget d ''ready'' = PBool True"
    by (auto simp: write_ready_def write_opened_def bindM_returns on_disk_def write_file_def modM_def)
  with wait_ready_returns [OF waited] that show thesis by blast
qed

section \<open>Credentials before processes\<close>

text \<open>What is read before a process is started calls nothing.\<close>

lemma silent_disk [keeps_rules]: "keeps (\<lambda>s. pl_calls s = h) (on_disk m)"
  by (auto simp: keeps_def on_disk_def split: prod.split)

lemma silent_site [keeps_rules]: "keeps (\<lambda>s. pl_calls s = h) (load_optional_site env site_config)"
  unfolding load_optional_site_def Let_def by (intro keeps_rules)

lemma silent_directory [keeps_rules]: "keeps (\<lambda>s. pl_calls s = h) (qpm_directory env site site_path)"
  unfolding qpm_directory_def Let_def by (intro keeps_rules)

lemma silent_service [keeps_rules]: "keeps (\<lambda>s. pl_calls s = h) (resolve_manifest_service env args site_service)"
  unfolding resolve_manifest_service_def Let_def by (intro keeps_rules)

lemma silent_resolve [keeps_rules]: "keeps (\<lambda>s. pl_calls s = h) (resolve_qpm env args site_path)"
  unfolding resolve_qpm_def Let_def by (intro keeps_rules)

lemma silent_unlink [keeps_rules]: "keeps (\<lambda>s. pl_calls s = h) (unlink_file p)"
  unfolding unlink_file_def by (intro keeps_rules)

lemma silent_result: "m s = (r, t) \<Longrightarrow> keeps (\<lambda>u. pl_calls u = pl_calls s) m \<Longrightarrow> pl_calls t = pl_calls s"
  unfolding keeps_def by (metis snd_conv)

text \<open>A QPM that needs credentials is started only when its device has them.\<close>

lemma silent_prepare_qpm [keeps_rules]: "keeps (\<lambda>s. pl_calls s = h) (prepare_qpm env ae args)"
  unfolding prepare_qpm_def Let_def by (intro keeps_rules)

lemma silent_prepare_directory [keeps_rules]: "keeps (\<lambda>s. pl_calls s = h) (prepare_directory env args)"
  unfolding prepare_directory_def directory_settings_def Let_def by (intro keeps_rules)

lemma launched_with_credentials:
  assumes run: "launch_qpm env ae args s = (r, t)" and calls: "pl_calls t \<noteq> pl_calls s"
  obtains q site_path u where "prepare_qpm env ae args s = (Inr (q, site_path), u)"
    "check_credentials ae (ql_service q) (ql_device_access q) = Inr ()"
proof -
  obtain x u where u: "prepare_qpm env ae args s = (x, u)" by (cases "prepare_qpm env ae args s")
  have quiet: "pl_calls u = pl_calls s" by (rule silent_result [OF u silent_prepare_qpm])
  show thesis
  proof (cases x)
    case (Inl e)
    with run u quiet calls show thesis by (simp add: launch_qpm_def bindM_def)
  next
    case (Inr y)
    with u that show thesis
      by (cases y) (auto simp: prepare_qpm_def Let_def seqM_returns bindM_returns liftM_returns retM_returns)
  qed
qed

lemma checked_credentials:
  assumes "check_credentials ae service site_path = Inr ()" "credential_mode_of service = ''required''"
  shows "\<exists>path device. site_path = Some path \<and> bindE (sub service ''device-id'') (validate_credential_configuration ae path) = Inr device"
  using assms by (auto simp: check_credentials_def split: option.splits sum.splits)

text \<open>
  The manifest and the service read the mode without regard to case, the launcher does not: a service in
  mode \<^verbatim>\<open>Required\<close> is accepted and started unchecked.
\<close>

lemma capital_mode_unchecked:
  "\<not> isl (manifest_entry ''m'' 0 (PDict [(''name'', PStr ''q''), (''credential-mode'', PStr ''Required''), (''device-id'', PInt 1)]))"
  "check_credentials ae [(''name'', PStr ''q''), (''credential-mode'', PStr ''Required''), (''device-id'', PInt 1)] None = Inr ()"
proof -
  show "\<not> isl (manifest_entry ''m'' 0 (PDict [(''name'', PStr ''q''), (''credential-mode'', PStr ''Required''), (''device-id'', PInt 1)]))"
    by code_simp
  have "credential_mode_of [(''name'', PStr ''q''), (''credential-mode'', PStr ''Required''), (''device-id'', PInt 1)] \<noteq> ''required''"
    by code_simp
  then show "check_credentials ae [(''name'', PStr ''q''), (''credential-mode'', PStr ''Required''), (''device-id'', PInt 1)] None = Inr ()"
    by (simp add: check_credentials_def)
qed

section \<open>The process of a launch that fails\<close>

text \<open>Calls that start no process.\<close>

definition unspawned :: "plane_call list \<Rightarrow> plane_state \<Rightarrow> bool" where
  "unspawned h s \<longleftrightarrow> (\<exists>later. pl_calls s = h @ later \<and> (\<forall>argv e. Spawn argv e \<notin> set later))"

lemma unspawned_refl [simp]: "unspawned (pl_calls s) s"
  by (simp add: unspawned_def)

lemma unspawned_call [keeps_rules]: "(\<And>argv e. c \<noteq> Spawn argv e) \<Longrightarrow> keeps (unspawned h) (call_plane env c)"
  by (fastforce simp: keeps_def unspawned_def call_plane_def)

lemma unspawned_disk [keeps_rules]: "keeps (unspawned h) (on_disk m)"
  by (auto simp: keeps_def unspawned_def on_disk_def split: prod.split)

lemma unspawned_unlink [keeps_rules]: "keeps (unspawned h) (unlink_file p)"
  unfolding unlink_file_def by (intro keeps_rules)

lemma unspawned_send [keeps_rules]: "keeps (unspawned h) (send_or_gone env pid sig)"
  unfolding send_or_gone_def by (intro keeps_rules) simp_all

lemma unspawned_await_gone [keeps_rules]: "keeps (unspawned h) (await_gone env pid deadline n)"
  by (induction n) (auto intro!: keeps_rules)

lemma unspawned_terminate [keeps_rules]: "keeps (unspawned h) (terminate_process env pid)"
  unfolding terminate_process_def by (intro keeps_rules) simp_all

lemma unspawned_wait [keeps_rules]:
  "keeps (unspawned h) probe \<Longrightarrow> keeps (unspawned h) (wait_process_ready env pid name timeout deadline probe detail n)"
  by (induction n arbitrary: detail) (auto intro!: keeps_rules)

lemma unspawned_opened [keeps_rules]: "keeps (unspawned h) (write_opened env path c)"
  unfolding write_opened_def by (intro keeps_rules) simp_all

lemma unspawned_write [keeps_rules]: "keeps (unspawned h) (write_ready env path payload)"
  unfolding write_ready_def by (intro keeps_rules) simp_all

lemma unspawned_foreground [keeps_rules]: "keeps (unspawned h) (wait_foreground env pid pid_file ready_path)"
  unfolding wait_foreground_def by (intro keeps_rules) simp_all

lemma unspawned_ports [keeps_rules]: "keeps (unspawned h) (require_free_defw_ports env name e)"
  unfolding require_free_defw_ports_def require_free_port_def by (intro keeps_rules) simp_all

lemma unspawned_command [keeps_rules]: "keeps (unspawned h) (qfw_command_path env name e)"
  unfolding qfw_command_path_def Let_def by (intro keeps_rules) simp_all

lemma unspawned_log [keeps_rules]: "keeps (unspawned h) (open_process_log env e name stream_name)"
  unfolding open_process_log_def Let_def by (intro keeps_rules) simp_all

lemma unspawned_ready_to_start: "keeps (unspawned h) (ready_to_start env name e)"
  unfolding ready_to_start_def by (intro keeps_rules)

lemma unspawned_after: "m s = (r, t) \<Longrightarrow> keeps (unspawned (pl_calls s)) m \<Longrightarrow> unspawned (pl_calls s) t"
  unfolding keeps_def by (metis snd_conv unspawned_refl)

lemma unspawned_supervise [keeps_rules]:
  "keeps (unspawned h) probe \<Longrightarrow>
   keeps (unspawned h) (supervise env pid name pid_file ready_path timeout background payload probe)"
  unfolding supervise_def by (intro keeps_rules) simp_all

lemma only_spawn:
  assumes "p @ a @ Spawn x y # l = h @ Spawn argv e # rest" "length p \<le> length h"
    and "Spawn argv e \<notin> set a" "Spawn argv e \<notin> set l"
  shows "h = p @ a \<and> rest = l \<and> argv = x \<and> e = y"
  using assms by (auto simp: append_eq_append_conv2 append_eq_Cons_conv Cons_eq_append_conv)

lemma no_spawn:
  assumes "p @ a = h @ Spawn argv e # rest" "length p \<le> length h"
  shows "Spawn argv e \<in> set a"
  using assms by (auto simp: append_eq_append_conv2 append_eq_Cons_conv Cons_eq_append_conv)

text \<open>A process that was started and whose PID file could be written has been told to end when its start fails.\<close>

lemma failed_supervision_ends:
  assumes "seqM (write_opened env pid_file c) (supervise env pid name pid_file ready_path timeout background payload probe) s = (Inl x, t)"
    and "\<not> isl (plane_answer env (pl_calls s) (Open_write pid_file))"
    and "x \<noteq> NoReturn" "\<And>h. keeps (grown h) probe" "\<And>h. keeps (unspawned h) probe"
  shows "\<exists>l. pl_calls t = pl_calls s @ l \<and> (\<forall>argv v. Spawn argv v \<notin> set l) \<and> Kill_group pid ''SIGTERM'' \<in> set l"
proof -
  let ?run = "supervise env pid name pid_file ready_path timeout background payload probe"
  obtain y w where "write_opened env pid_file c s = (Inr y, w)" "pl_calls w = pl_calls s @ [Open_write pid_file]"
    using assms(2) by (cases "plane_answer env (pl_calls s) (Open_write pid_file)")
      (simp_all add: write_opened_def bindM_def call_plane_def on_disk_def write_file_def modM_def)
  with assms(1) have w: "pl_calls w = pl_calls s @ [Open_write pid_file]" "?run w = (Inl x, t)" by (simp_all add: seqM_def bindM_def)
  obtain before after where l: "pl_calls t = pl_calls w @ before @ Kill_group pid ''SIGTERM'' # after"
    using failed_launch_signals [OF w(2) assms(3,4)] by blast
  have "unspawned (pl_calls w) t" by (rule unspawned_after [OF w(2) unspawned_supervise [OF assms(5)]])
  with l w(1) show ?thesis by (auto simp: unspawned_def)
qed

lemma failed_process_ends:
  assumes fails: "start_defw_owned_process env name e pid_file ready_path timeout background dry_run payload probe s = (Inl x, t)" "x \<noteq> NoReturn"
    and probe: "\<And>h. keeps (grown h) probe" "\<And>h. keeps (unspawned h) probe"
    and calls: "pl_calls t = h @ Spawn argv v # rest" "length (pl_calls s) \<le> length h"
    and pid: "plane_answer env h (Spawn argv v) = Inr (PInt pid)"
    and opened: "\<And>path. \<not> isl (plane_answer env (h @ [Spawn argv v]) (Open_write path))"
  shows "Kill_group pid ''SIGTERM'' \<in> set rest"
proof -
  let ?dry = "seqM (write_opened env pid_file (Text_file (int_text (own_pid env) @ [CHR 0x0A])))
     (seqM (write_ready env ready_path payload) (retM (0 :: int)))"
  have spawned: "\<not> unspawned (pl_calls s) t"
  proof
    assume "unspawned (pl_calls s) t"
    then obtain l where "pl_calls t = pl_calls s @ l" "\<forall>argv e. Spawn argv e \<notin> set l" by (auto simp: unspawned_def)
    with no_spawn [of "pl_calls s" l h argv v rest] calls show False by simp
  qed
  have "keeps (unspawned (pl_calls s)) ?dry" by (intro keeps_rules)
  with spawned have "?dry s \<noteq> (Inl x, t)" by (blast dest: unspawned_after)
  with fails(1) have run: "bindM (ready_to_start env name e) (\<lambda>defw_python.
      bindM (call_plane env (Spawn [defw_python, ''-d'', ''-x''] e)) (\<lambda>v. bindM (liftM (py_int v)) (\<lambda>pid.
        seqM (write_opened env pid_file (Text_file (int_text pid @ [CHR 0x0A])))
          (supervise env pid name pid_file ready_path timeout background payload probe)))) s = (Inl x, t)"
    unfolding start_defw_owned_process_def by (auto split: if_splits)
  obtain r u where u: "ready_to_start env name e s = (r, u)" by (cases "ready_to_start env name e s")
  have "unspawned (pl_calls s) u" by (rule unspawned_after [OF u unspawned_ready_to_start])
  then obtain a where a: "pl_calls u = pl_calls s @ a" "\<And>argv e. Spawn argv e \<notin> set a" by (auto simp: unspawned_def)
  from run u spawned \<open>unspawned (pl_calls s) u\<close> obtain d where d: "r = Inr d" by (cases r) (auto simp: bindM_def)
  let ?c = "Spawn [d, ''-d'', ''-x''] e"
  let ?w = "u\<lparr>pl_calls := pl_calls u @ [?c], pl_disk := meanwhile env (pl_calls u @ [?c]) (pl_disk u)\<rparr>"
  have here: "h = pl_calls u \<and> rest = l \<and> argv = [d, ''-d'', ''-x''] \<and> v = e"
    if "pl_calls t = pl_calls ?w @ l" "\<forall>argv v. Spawn argv v \<notin> set l" for l
    using only_spawn [of "pl_calls s" a "[d, ''-d'', ''-x'']" e l h argv v rest] that calls a by simp
  show ?thesis
  proof (cases "plane_answer env (pl_calls u) ?c")
    case (Inl y)
    with run u d have "t = ?w" by (simp add: bindM_def call_plane_def)
    with here [of "[]"] Inl pid show ?thesis by simp
  next
    case (Inr y)
    show ?thesis
    proof (cases "py_int y")
      case (Inl z)
      with run u d Inr have "t = ?w" by (simp add: bindM_def call_plane_def liftM_def)
      with here [of "[]"] Inr Inl pid show ?thesis by (simp add: py_int_def)
    next
      case (Inr p)
      let ?go = "seqM (write_opened env pid_file (Text_file (int_text p @ [CHR 0x0A])))
          (supervise env p name pid_file ready_path timeout background payload probe)"
      from Inr run u d \<open>plane_answer env (pl_calls u) ?c = Inr y\<close> have run: "?go ?w = (Inl x, t)"
        by (simp add: bindM_def call_plane_def liftM_def)
      have "unspawned (pl_calls ?w) t" by (rule unspawned_after [where m = ?go and s = ?w, OF run]) (intro keeps_rules probe)
      then have "h = pl_calls u \<and> argv = [d, ''-d'', ''-x''] \<and> v = e" using here by (auto simp: unspawned_def)
      with opened have "\<not> isl (plane_answer env (pl_calls ?w) (Open_write pid_file))" by simp
      from failed_supervision_ends [OF run this fails(2) probe] obtain l where
        l: "pl_calls t = pl_calls ?w @ l" "\<forall>argv v. Spawn argv v \<notin> set l" "Kill_group p ''SIGTERM'' \<in> set l" by blast
      from here [OF l(1,2)] pid \<open>plane_answer env (pl_calls u) ?c = Inr y\<close> Inr have "p = pid" by (simp add: py_int_def)
      with l(3) here [OF l(1,2)] show ?thesis by simp
    qed
  qed
qed

lemma grown_ready_file [keeps_rules]: "keeps (grown h) (ready_file_ready env path)"
  unfolding ready_file_ready_def ready_file_def by (intro keeps_rules)

lemma unspawned_ready_file [keeps_rules]: "keeps (unspawned h) (ready_file_ready env path)"
  unfolding ready_file_ready_def ready_file_def by (intro keeps_rules)

lemma grown_endpoint [keeps_rules]: "keeps (grown h) (tcp_endpoint_ready env endpoint)"
  unfolding tcp_endpoint_ready_def by (intro keeps_rules)

lemma unspawned_endpoint [keeps_rules]: "keeps (unspawned h) (tcp_endpoint_ready env endpoint)"
  unfolding tcp_endpoint_ready_def by (intro keeps_rules) simp_all

lemma failed_launch_ends:
  assumes fails: "launch_role env ae role args s = (Inl x, t)" "x \<noteq> NoReturn"
    and calls: "pl_calls t = h @ Spawn argv v # rest" "length (pl_calls s) \<le> length h"
    and pid: "plane_answer env h (Spawn argv v) = Inr (PInt pid)"
    and opened: "\<And>path. \<not> isl (plane_answer env (h @ [Spawn argv v]) (Open_write path))"
  shows "Kill_group pid ''SIGTERM'' \<in> set rest"
proof -
  have none: "pl_calls t \<noteq> pl_calls s"
    using no_spawn [of "pl_calls s" "[]" h argv v rest] calls by (metis append_Nil2 empty_iff list.set(1))
  show ?thesis
  proof (cases "role = ''directory''")
    case True
    obtain r u where u: "prepare_directory env args s = (r, u)" by (cases "prepare_directory env args s")
    have "pl_calls u = pl_calls s" by (rule silent_result [OF u silent_prepare_directory])
    with True fails u none calls pid opened show ?thesis
      by (cases r) (auto simp: launch_role_def launch_directory_def bindM_def Let_def intro: failed_process_ends [OF _ fails(2)] keeps_rules)
  next
    case False
    obtain r u where u: "prepare_qpm env ae args s = (r, u)" by (cases "prepare_qpm env ae args s")
    have "pl_calls u = pl_calls s" by (rule silent_result [OF u silent_prepare_qpm])
    with False fails u none calls pid opened show ?thesis
      by (cases r) (auto simp: launch_role_def launch_qpm_def bindM_def Let_def intro: failed_process_ends [OF _ fails(2)] keeps_rules)
  qed
qed

text \<open>
  The PID file is written after the process was started and before the part that is guarded: when it cannot be
  written the launch raises, and the process is left to itself.
\<close>

lemma unwritten_pid_file_leaks:
  assumes "ready_to_start env name e s = (Inr d, u)" "\<not> dry_run" "map_of e ''QFW_STARTUP_DRY_RUN'' \<noteq> Some ''1''"
    and "plane_answer env (pl_calls u) (Spawn [d, ''-d'', ''-x''] e) = Inr (PInt pid)"
    and "plane_answer env (pl_calls u @ [Spawn [d, ''-d'', ''-x''] e]) (Open_write pid_file) = Inl (OSError m)"
  obtains t where "start_defw_owned_process env name e pid_file ready_path timeout background dry_run payload probe s = (Inl (OSError m), t)"
    "pl_calls t = pl_calls u @ [Spawn [d, ''-d'', ''-x''] e, Open_write pid_file]"
  using assms by (simp add: start_defw_owned_process_def write_opened_def seqM_def bindM_def call_plane_def liftM_def py_int_def)

section \<open>A launch on a machine where the process exits\<close>

definition launch_answer :: "plane_call list \<Rightarrow> plane_call \<Rightarrow> exc + pyval" where
  "launch_answer h c =
     (case c of Spawn argv e \<Rightarrow> Inr (PInt 7) | Poll_process pid \<Rightarrow> Inr (PInt 1) | Monotonic \<Rightarrow> Inr (PInt 0)
      | Find_executable name p \<Rightarrow> Inr (PStr ''/bin/defw-python'') | Kill_group pid sig \<Rightarrow> Inr (PStr ''no-process'') | _ \<Rightarrow> Inr PNone)"

definition launch_machine :: plane_env where "launch_machine = (plane_machine launch_answer)\<lparr>poll_rounds := 1\<rparr>"

definition plain_launch :: launcher_args where
  "plain_launch = \<lparr>la_site_config = PNone, la_run_dir = ''/run'', la_name = [], la_host = [], la_listen_port = Some 0, la_telnet_port = 0,
     la_timeout = Some 4, la_pid_file = [], la_ready_file = [], la_background = True, la_dry_run = False, la_service_id = ''q'',
     la_manifest_service_name = [], la_module = ''svc_q'', la_load_modules = [], la_operation_mode = ''long-running''\<rparr>"

definition bare_run :: plane_state where
  "bare_run = \<lparr>pl_disk = \<lparr>file_system = [], directories = [], ports_asked = 0\<rparr>, pl_calls = [], pl_state = []\<rparr>"

definition made_run :: plane_state where
  "made_run = bare_run\<lparr>pl_disk := (pl_disk bare_run)\<lparr>directories := directories (pl_disk (snd
     (on_disk (seqM (make_dir ''/run/services/q'') (make_dir ''/run/services/q/logs'')) bare_run)))\<rparr>\<rparr>"

lemma made_dirs: "service_run_dir (su launch_machine) (la_run_dir plain_launch) (la_service_id plain_launch) = ''/run/services/q''"
  "on_disk (seqM (make_dir ''/run/services/q'') (make_dir (join_path ''/run/services/q'' ''logs''))) bare_run = (Inr (), made_run)"
  "unlink_file (join_path ''/run/services/q'' ''service-ready.json'') made_run = (Inr (), made_run)"
  by code_simp+

definition default_site :: string where "default_site = ''/opt/qfw/share/qfw/config/site.yaml''"

lemma read_nothing: "resolve_site_config (su launch_machine) (la_site_config plain_launch) = Inr (Some default_site)"
  "load_optional_site launch_machine (la_site_config plain_launch) made_run = (Inr [], made_run)"
  by code_simp+

lemma read_directory: "qpm_directory launch_machine [] default_site made_run = (Inr [], made_run)"
  by code_simp

definition plain_service :: pydict where
  "plain_service = [(''name'', PStr ''q''), (''module'', PStr ''svc_q''), (''load-modules'', PStr ''svc_q''),
     (''operation-mode'', PStr ''long-running'')]"

lemma read_service: "resolve_manifest_service launch_machine plain_launch [] made_run = (Inr (plain_service, None), made_run)"
  by code_simp

lemma read_endpoint: "split_any_endpoint (PStr []) = Inr (''127.0.0.1'', 0)"
  by code_simp

lemma read_allocation: "allocation_context_from_env launch_machine (environ (su launch_machine)) =
   Inr [(''mode'', PStr ''local''), (''group0'', PList [PStr ''here'']), (''group1'', PList [PStr ''here'']),
     (''group0_nodelist'', PStr ''here''), (''group1_nodelist'', PStr ''here''), (''groups'', PStr ''GROUP_0=here:GROUP_1=here'')]"
  by code_simp

lemma read_service_policy: "qpm_target launch_machine plain_service allocation = Inr []"
  "qpm_assigned_hosts launch_machine plain_service allocation = Inr []"
  "device_access_path launch_machine [] = Inr None" "check_credentials empty_access plain_service None = Inr ()"
  by code_simp+

lemma plain_lookups: "pget plain_service ''module'' = PStr ''svc_q''" "pget plain_service ''dirsvc-endpoint'' = PNone"
  "pget plain_service ''dirsvc-name'' = PNone" "pgetd plain_service ''listen-port'' d = d" "variable_of (su launch_machine) ''QFW_LOCAL_DIRSVC_ENDPOINT'' = []"
  "variable_of (su launch_machine) ''QFW_LOCAL_DIRSVC_NAME'' = []" "la_timeout plain_launch = Some 4" "la_listen_port plain_launch = Some 0"
  "pgetd [] key d = d" "pgetd plain_service ''bind-host'' d = d" "pgetd plain_service ''host'' d = d"
  "py_str (PStr t) = t" "la_module plain_launch = ''svc_q''"
  by (simp_all add: plain_service_def pget_def pgetd_def plain_launch_def launch_machine_def plane_machine_def plain_env_def variable_of_def py_str_def)

lemmas read_plain = read_nothing read_directory read_service read_endpoint read_allocation read_service_policy plain_lookups

definition plain_qpm :: qpm_launch where
  "plain_qpm = \<lparr>ql_service = plain_service, ql_config_path = None, ql_directory = [], ql_module = ''svc_q'', ql_timeout = 4,
     ql_host = ''127.0.0.1'', ql_port = 0, ql_dirsvc_endpoint = PStr [], ql_dirsvc_host = ''127.0.0.1'', ql_dirsvc_port = 0,
     ql_dirsvc_name = ''qfw-site-dirsvc'', ql_target = [], ql_assigned_hosts = [], ql_device_access = None\<rparr>"

lemma plain_qpm_fields: "ql_service plain_qpm = plain_service" "ql_device_access plain_qpm = None" "ql_timeout plain_qpm = 4"
  by (simp_all add: plain_qpm_def)

lemma resolved_plain: "resolve_qpm launch_machine plain_launch default_site made_run = (Inr plain_qpm, made_run)"
  by (simp add: resolve_qpm_def read_plain bindM_def liftM_def retM_def Let_def or_text_def py_or_def py_int_def plain_qpm_def)

lemma prepared_plain: "prepare_qpm launch_machine empty_access plain_launch bare_run = (Inr (plain_qpm, default_site), made_run)"
  by (simp add: prepare_qpm_def made_dirs made_dirs(2) [unfolded seqM_def bindM_def] read_plain resolved_plain plain_qpm_fields
      seqM_def bindM_def liftM_def retM_def Let_def)

definition plain_environment :: "(string \<times> string) list" where
  "plain_environment = qpm_process_environment launch_machine plain_launch plain_qpm ''/run/services/q'' default_site"

lemma plain_launch_fields: "la_dry_run plain_launch = False" "la_service_id plain_launch = ''q''"
  by (simp_all add: plain_launch_def)

definition opened_logs :: "plane_call list" where
  "opened_logs = [Open_write ''/run/services/q/logs/q.stdout.log'', Open_write ''/run/services/q/logs/q.stderr.log'']"

lemma plain_start: "map_of plain_environment ''QFW_STARTUP_DRY_RUN'' = None"
  "fst (ready_to_start launch_machine ''q'' plain_environment made_run) = Inr ''/bin/defw-python''"
  "pl_calls (snd (ready_to_start launch_machine ''q'' plain_environment made_run)) = Find_executable ''defw-python'' (Some ''/bin'') # opened_logs"
  by code_simp+

lemma exit_seen:
  "fst (supervise launch_machine 7 name pid_file ready_path timeout background payload probe s) =
     Inl (RuntimeError (name @ '' exited during startup with status '' @ py_str (PInt 1)))"
  "pl_calls (snd (supervise launch_machine 7 name pid_file ready_path timeout background payload probe s)) =
     pl_calls s @ [Monotonic, Poll_process 7, Kill_group 7 ''SIGTERM'']"
  by (simp_all add: supervise_def terminate_process_def send_or_gone_def unlink_file_def on_disk_def call_plane_def launch_machine_def
      plane_machine_def launch_answer_def py_int_def catchM_def tryM_def monad_defs split: prod.split)

text \<open>The process is asked for once, has exited, and is told to end.\<close>

lemma launch_exits:
  obtains x t where "launch_role launch_machine empty_access ''qpm'' plain_launch bare_run = (Inl (RuntimeError x), t)"
    "pl_calls t = (Find_executable ''defw-python'' (Some ''/bin'') # opened_logs) @ Spawn [''/bin/defw-python'', ''-d'', ''-x''] plain_environment #
       [Open_write ''/run/services/q/pid'', Monotonic, Poll_process 7, Kill_group 7 ''SIGTERM'']"
proof -
  obtain u where u: "ready_to_start launch_machine ''q'' plain_environment made_run = (Inr ''/bin/defw-python'', u)"
      "pl_calls u = Find_executable ''defw-python'' (Some ''/bin'') # opened_logs"
    using plain_start by (metis prod.collapse)
  have spawn: "plane_answer launch_machine h (Spawn argv e) = Inr (PInt 7)" for h argv e
    by (simp add: launch_machine_def plane_machine_def launch_answer_def)
  have opened: "plane_answer launch_machine h (Open_write path) = Inr PNone" for h path
    by (simp add: launch_machine_def plane_machine_def launch_answer_def)
  have pid_file: "or_text (la_pid_file plain_launch) (join_path ''/run/services/q'' ''pid'') = ''/run/services/q/pid''" by code_simp
  let ?run = "launch_role launch_machine empty_access ''qpm'' plain_launch bare_run"
  have "fst ?run = Inl (RuntimeError (''q exited during startup with status '' @ py_str (PInt 1)))"
    "pl_calls (snd ?run) = (Find_executable ''defw-python'' (Some ''/bin'') # opened_logs) @ Spawn [''/bin/defw-python'', ''-d'', ''-x'']
       plain_environment # [Open_write ''/run/services/q/pid'', Monotonic, Poll_process 7, Kill_group 7 ''SIGTERM'']"
    by (simp_all add: launch_role_def launch_qpm_def bindM_def [of "prepare_qpm env ae args" for env ae args] prepared_plain Let_def made_dirs made_dirs(1) [unfolded plain_launch_fields]
        plain_environment_def [symmetric] start_defw_owned_process_def plain_start plain_launch_fields u spawn opened pid_file exit_seen
        write_opened_def seqM_def bindM_def liftM_def call_plane_def on_disk_def write_file_def modM_def py_int_def)
  then show thesis by (metis prod.collapse that)
qed

end
