(* ===== verification/Spec2Isabelle.thy ===== *)
theory Spec2Isabelle
  imports QPM_Lifecycle QPM_Intake QPM_Sequence QPM_Hosts QPM_Drain QPM_Service_Inv QPM_Service_System QPM_Managed QPM_Launcher
begin

text \<open>
  A verification library for the quantum platform manager of QFw: the service that runs quantum
  circuits, the per-target controller that admits, schedules, dispatches and settles them, and the
  modules under it (\<^verbatim>\<open>src/services/util/qpm\<close>, \<^verbatim>\<open>src/services/util/circuit_payload.py\<close>,
  \<^verbatim>\<open>src/services/util/device_access.py\<close>), the two modules through which clients find and
  keep a service (\<^verbatim>\<open>src/backends/qfw_qiskit/qpm_resolver.py\<close>, \<^verbatim>\<open>src/service-apis/api_qpm_common\<close>), and
  the modules that prepare a run and start, watch and stop its services (\<^verbatim>\<open>config.py\<close>, \<^verbatim>\<open>service_plane.py\<close>,
  \<^verbatim>\<open>process_state.py\<close>, \<^verbatim>\<open>environment_modules.py\<close>, \<^verbatim>\<open>commands.py\<close>, \<^verbatim>\<open>_process_launcher.py\<close> of
  \<^verbatim>\<open>src/setup/qfw_runtime\<close>).

  \<^bold>\<open>How the program is put together.\<close> A QPM service (\<^verbatim>\<open>util_qpm.py\<close>) keeps the host slots of its
  allocation and the queue of circuits that wait for them, and hands every managed request to a
  \<^verbatim>\<open>QPMTargetController\<close> (\<^verbatim>\<open>controller.py\<close>). The controller registers a circuit as a task, asks
  admission to hold capacity for it (\<^verbatim>\<open>admission.py\<close>), submits it to the scheduler
  (\<^verbatim>\<open>scheduler.py\<close>), lets dispatching threads claim what the scheduler selects, tracks it in
  flight, settles its hold when it ends, and puts its completion into the queue of its
  reservation, which clients poll. A reservation is taken through the controller, which binds the
  credential the site grants its user (\<^verbatim>\<open>credentials.py\<close>, \<^verbatim>\<open>device_access.py\<close>); closing it cancels what
  is left of it. Requests are parsed by \<^verbatim>\<open>request.py\<close>, circuits by \<^verbatim>\<open>circuit_payload.py\<close>, reservation
  identifiers come from the sequence file of \<^verbatim>\<open>reservation_sequence.py\<close>. A run is prepared from the
  configuration of the site and the profile of the user (\<^verbatim>\<open>config.py\<close>): its directories, its state and
  its environment file. A service plane (\<^verbatim>\<open>service_plane.py\<close>) starts a directory, or a QPM with the DVM it
  needs, records the processes with their identities in its state file, and reports and stops them by it.
  The commands (\<^verbatim>\<open>commands.py\<close>) set a run up with a plane for each of its services, report it, start an
  application in it and tear it down; the launcher (\<^verbatim>\<open>_process_launcher.py\<close>) is what a plane starts on the node
  of a service, and it becomes the parent of the DEFw process of that service.

  \<^bold>\<open>The model.\<close> Python values are \<open>pyval\<close>, dictionaries are association lists in insertion order
  (\<open>QPM_Prelude\<close>). A method is a function of the state with a result or an exception,
  \<open>('s, 'a) pm\<close>, composed with \<open>bindM\<close>, \<open>seqM\<close>, \<open>tryM\<close> and \<open>collectM\<close>; an exception keeps the
  state reached so far, as in Python. What runs under the controller's lock is one such function.
  Services outside the process are the argument \<open>respond\<close> of \<open>qpm_env\<close>, a function of the whole
  history of calls, so nothing is assumed about them; the clock is an arbitrary sequence.
  YAML and JSON texts are read and written by functions of the environment. The state file of a run is the text its
  writer gives; of the state file of a plane and of readiness files the model keeps the value, so what is written there is what
  is read. In the launcher opening a file for writing may be refused; elsewhere writing a file succeeds.
  Two relations carry the proofs: \<open>keeps I m\<close>, the method keeps an invariant whether it returns or
  raises, and \<open>valid P m Q E\<close>, a triple with one postcondition for returning and one for raising.

  \<^bold>\<open>The theories.\<close>
  \<^item> \<open>QPM_Prelude\<close>: values, dictionaries, texts, exceptions, the state monad and its rules.
  \<^item> \<open>QPM_Interfaces\<close>: the locales the components share: machines with an invariant, a start and
    a rank, sources of identifiers, dictionaries and pools; each is interpreted where its provider is.
  \<^item> \<open>QPM_Metadata\<close>, \<open>QPM_Sequence\<close>, \<open>QPM_Request\<close>, \<open>QPM_Payload\<close>, \<open>QPM_Circuit\<close>: the pure modules.
  \<^item> \<open>QPM_World\<close>, \<open>QPM_Admission\<close>, \<open>QPM_Scheduler\<close>: the calls that leave the process and the two adapters.
  \<^item> \<open>QPM_Access\<close>, \<open>QPM_Credentials\<close>: the devices and users of a site, and the providers of credentials.
  \<^item> \<open>QPM_State\<close>, \<open>QPM_Status\<close>: the controller's tables, canonical identifiers and status answers.
  \<^item> \<open>QPM_Completion\<close> with \<open>QPM_Completion_Lemmas\<close> and \<open>QPM_Completion_Inv\<close>: the completion queues,
    their invariant \<open>queue_ok\<close>, and what polls and purges do.
  \<^item> \<open>QPM_Usage\<close>, \<open>QPM_Tasks\<close> with \<open>QPM_Tasks_Inv\<close> and \<open>QPM_Dispatch\<close>: accounting, the life of a
    task, the invariant \<open>tasks_ok\<close> of its tables, claims and dispatch limits; \<open>QPM_Lifecycle\<close> shows
    what registration, completion, cancellation and clean-up leave behind.
  \<^item> \<open>QPM_Reservations\<close> with \<open>QPM_Reservations_Inv\<close> and \<open>QPM_Intake\<close>: taking and validating reservations,
    binding their credentials, and what a bound or validated reservation is known to have.
  \<^item> \<open>QPM_Close\<close> with \<open>QPM_Close_Inv\<close>: closing reservations, retrying delayed tasks, and what
    closing leaves behind.
  \<^item> \<open>QPM_Config\<close> with \<open>QPM_Config_Inv\<close>, \<open>QPM_Telemetry\<close>, \<open>QPM_Reconcile\<close>: creation and configuration of
    controllers, scheduler controls, policies with versions and roll-back, reports, reconciliation.
  \<^item> \<open>QPM_System\<close>: all requests of a controller as a machine, and the invariant of every run.
  \<^item> \<open>QPM_Hosts\<close>, \<open>QPM_Drain\<close>: the host slots, and the protocol of the threads that drain the
    waiting circuits as a step relation.
  \<^item> \<open>QPM_Service\<close>, \<open>QPM_Run\<close>: the service around the controller, one definition per method of
    \<^verbatim>\<open>UTIL_QPM\<close>; \<open>QPM_Service_Inv\<close> follows the slots through a preparation and shows when waiting
    calls return, \<open>QPM_Service_System\<close> is the machine of all calls of the service.
  \<^item> \<open>QPM_Resolver\<close>, \<open>QPM_Binding\<close>, \<open>QPM_Managed\<close>: the client side: how a client chooses a service among
    the directories it sees, the binding it keeps to it as threads with a step relation, and both together.
  \<^item> \<open>QPM_Setup\<close>: the preparation of a run on a file system: what it inherits, the configuration it reads,
    the files it writes and how later commands find it; a reader for its environment file.
  \<^item> \<open>QPM_Process\<close>, \<open>QPM_Plan\<close>, \<open>QPM_Plane\<close>: the identity and the end of processes, the plan of a service
    plane, and its start, status, stop and manager; what a stop has established of every process, and what
    an answer that does not come means. The operating system is the argument \<open>plane_answer\<close>, a function of
    the history of calls, and \<open>meanwhile\<close> says what other processes do to the files in between.
  \<^item> \<open>QPM_Commands\<close>: \<^verbatim>\<open>qfw-setup\<close>, \<^verbatim>\<open>qfw-status\<close>, \<^verbatim>\<open>qfw-srun\<close> and \<^verbatim>\<open>qfw-teardown\<close> over the planes of a run: what
    a teardown has ended, what a run reported ready had, whose variables an application sees.
  \<^item> \<open>QPM_Launcher\<close>: the launch of a directory or a QPM: what is checked before a process is started, when
    it counts as ready, that it is told to end when its start fails, and that it is not when its PID file cannot be written.

  \<^bold>\<open>Loops and bounds.\<close> The trimming loops of the completion queues terminate by the number of records;
  the walk over reservation identifiers is \<open>partial_function (option)\<close>, and it is shown when it
  returns and when it does not. The drain of the waiting queue has the fuel \<open>drain_fuel\<close> of its
  environment and raises \<open>NoReturn\<close> when it is used up; results about the service hold for every
  fuel. The loops that wait for capacity or for the last task take the number of rounds as fuel and
  answer \<open>None\<close> without enough of it; the number that is enough follows from the clock and the
  deadline. The polls of a service plane, a command and the launcher for a file, an endpoint or the end of a process have the
  fuel \<open>poll_rounds\<close> and raise \<open>NoReturn\<close> without it, which no \<^verbatim>\<open>except\<close> catches; the results about stops
  and starts hold for every fuel, and the one about launches that fail excepts that error. The search for a port that differs from another is \<open>partial_function\<close>,
  and it returns as soon as the system gives such a port. Identifiers are integers with the unsigned 64-bit range checked where the code checks
  it; the FNV hash is related to 64-bit words.

  \<^bold>\<open>Not modelled.\<close> The drivers and vendor services, the other client backends and the remote stubs call packages
  outside the repository or only move data; of the runtime commands, argument parsing and printing are left out. The worker thread of the
  purge is modelled by its purge, its timer is not. Floating-point clock values are opaque objects,
  and logging and tracing are left out.
\<close>

section \<open>A concrete configuration\<close>

text \<open>
  The examples below run on a controller with the default retention and on services that answer
  every call with \<^verbatim>\<open>None\<close>.
\<close>

definition example_config :: qpm_controller_config where
  "example_config = \<lparr>target_id = ''qpu'', credential_mode = ''none'', admission_threading_mode = ''serialized'',
     scheduler_threading_mode = ''serialized'', serialization_mode = ''lock''\<rparr>"

definition example_env :: qpm_env where
  "example_env = \<lparr>respond = (\<lambda>_ _. Inr (EVal PNone)), clock = int, seconds_of = PInt,
     admission_context = Handlers, setter_accepts_options = True, has_config_loader = False,
     default_policy_paths = [], scheduler_context = Handlers, scheduler_state_names = [],
     is_empty_selection_error = (\<lambda>_. False), gunzip = (\<lambda>s. Some s),
     access = (\<lambda>_. empty_access)\<rparr>"

definition example_controller :: controller where
  "example_controller = new_controller example_config COMPLETION_RETENTION_DEFAULTS None"

definition example_record :: pydict where
  "example_record = [(''cid'', PStr ''c''), (''qtask_id'', PInt 1), (''reservation_id'', PInt 7),
     (''qpm_cq_enqueue_time_ns'', PInt 0), (''_qpm_record_size_bytes'', PInt 10)]"

definition example_task :: runtime_task where
  "example_task = (new_runtime ''c'' 1 (Some 7))\<lparr>rt_state := QPM_TASK_SELECTED\<rparr>"

lemma example_cq_ok: "cq_ok (ensure_completion_queue 7 example_controller)"
  by (rule cq_ok_ensure) (simp add: example_controller_def new_controller_def cq_ok_def)

lemma example_record_ok: "record_ok 7 example_record"
  by (simp add: record_ok_def example_record_def pget_def is_str_def is_int_def record_size_def)

lemma example_queue:
  "map_of (completion_queues (ensure_completion_queue 7 example_controller)) 7 = Some (new_completion_queue 7)"
  by (simp add: ensure_completion_queue_def example_controller_def new_controller_def)

section \<open>The controller\<close>

text \<open>
  C1. Whatever sequence of requests a controller serves, and whatever admission, the scheduler,
  the provider and the clock answer, its tables stay consistent: identifiers, task tables, holds,
  waiting entries, selections, completion queues, their indexes and their sizes agree.
\<close>

theorem controller_stays_consistent:
  "system_ok (fold (serve env) requests (new_controller conf retention sequence))"
  by (rule service.always)


text \<open>
  C6. A task another thread has claimed for dispatch, and which has not ended, is not handed to a
  second thread, and the claim is left as it is.
\<close>

theorem claim_is_respected:
  assumes "\<not> task_ended (task_for_qtask_id q s)" "q \<in> set (selected_qtask_ids s)"
    and "map_of (dispatching_qtask_ids s) q = Some h" "h \<noteq> me"
  shows "fst (select_qtask_for_dispatch env me s) \<noteq> Inr (Some q) \<and>
    map_of (dispatching_qtask_ids (snd (select_qtask_for_dispatch env me s))) q = Some h"
  using claim_is_exclusive [OF assms, of env "fst (select_qtask_for_dispatch env me s)"
      "snd (select_qtask_for_dispatch env me s)"] by simp

text \<open>C6 on a controller with one selected task that thread 5 holds and thread 6 asks for.\<close>

theorem claim_is_respected_witness:
  "fst (select_qtask_for_dispatch example_env 6 (example_controller
     \<lparr>runtime_by_qtask_id := [(1, example_task)], selected_qtask_ids := [1], dispatching_qtask_ids := [(1, 5)]\<rparr>))
   \<noteq> Inr (Some 1)"
  by (rule claim_is_respected [where h = 5, THEN conjunct1])
    (simp_all add: task_for_qtask_id_def task_ended_def example_task_def)

text \<open>
  C12. The tasks in flight and the one selected never exceed a positive dispatch limit: neither
  selecting a task nor starting the selected task breaks the bound.
\<close>

theorem dispatch_within_limit:
  "keeps flight_ok (select_qtask_for_dispatch env me) \<and>
   valid (\<lambda>s. flight_ok s \<and> (\<exists>q. info_qtask_id cid s = Inr q \<and> q \<in> set (selected_qtask_ids s)))
     (start_provider_submission env cid provider_handle) (\<lambda>_. flight_ok) (\<lambda>_. flight_ok)"
proof
  show "keeps flight_ok (select_qtask_for_dispatch env me)" by (rule select_keeps_flight)
  show "valid (\<lambda>s. flight_ok s \<and> (\<exists>q. info_qtask_id cid s = Inr q \<and> q \<in> set (selected_qtask_ids s)))
     (start_provider_submission env cid provider_handle) (\<lambda>_. flight_ok) (\<lambda>_. flight_ok)"
  proof (rule validI)
    fix s assume "flight_ok s \<and> (\<exists>q. info_qtask_id cid s = Inr q \<and> q \<in> set (selected_qtask_ids s))"
    then have "flight_ok (snd (start_provider_submission env cid provider_handle s))"
      using start_keeps_flight by blast
    then show "case start_provider_submission env cid provider_handle s of
        (Inl e, t) \<Rightarrow> flight_ok t | (Inr x, t) \<Rightarrow> flight_ok t"
      by (auto split: prod.splits sum.splits)
  qed
qed

section \<open>The life of a task\<close>

text \<open>
  C17. Registering a circuit makes its task reachable by circuit and by task identifier, in the
  created state and under the request's reservation, and leaves every other task as it was.
\<close>

theorem registration_round_trip:
  "valid tasks_ok (register_circuit env cid ctx payload) (registered cid ctx) (\<lambda>_ _. True) \<and>
   valid (\<lambda>s. tasks_ok s \<and> task_for_qtask_id q s = Some r) (register_circuit env cid ctx payload)
     (\<lambda>_ s. task_for_qtask_id q s = Some r) (\<lambda>_ _. True)"
  by (simp add: register_then_lookup register_keeps_others)

text \<open>
  C15. Completing a live task settles it: it is completed, holds no capacity, and is neither
  selected, claimed, in flight nor timed out; the answer is the task as the table now has it.
\<close>

theorem completion_settles:
  "valid (\<lambda>s. tasks_ok s \<and> live_task cid q s) (complete_scheduled_task env cid result)
     (\<lambda>x s. at_rest q QPM_TASK_COMPLETED s \<and> x = task_for_qtask_id q s) (\<lambda>_ _. True)"
  by (rule complete_rests)


text \<open>
  C16. Cancelling a task that has not ended and of which its provider has nothing leaves it cancelled and at rest: it
  holds no capacity and is neither selected, claimed, in flight nor timed out. A task that was completed or cancelled is
  left as it is, and no second completion is queued for it.
\<close>

theorem cancellation_settles:
  "valid (\<lambda>s. tasks_ok s \<and> off_provider q rid {st. \<not> terminal_state st} s)
     (cancel_task env PNone (PInt q) reason (opt_int rid) True) (\<lambda>_. at_rest q QPM_TASK_CANCELLED) (\<lambda>_ _. True) \<and>
   valid (\<lambda>s. task_for_qtask_id q s = Some r \<and> rt_reservation_id r = rid \<and> rt_state r \<in> {QPM_TASK_COMPLETED, QPM_TASK_CANCELLED} \<and>
       completion_queues s = queues)
     (cancel_task env PNone (PInt q) reason (opt_int rid) True)
     (\<lambda>_ s. task_for_qtask_id q s = Some r \<and> completion_queues s = queues) (\<lambda>_ _. True)"
proof
  have "off_provider q rid (- {QPM_TASK_COMPLETED, QPM_TASK_CANCELLED}) s" if "off_provider q rid {st. \<not> terminal_state st} s" for s
    using that by (auto simp: off_provider_def QPM_TASK_TERMINAL_STATES_def)
  then show "valid (\<lambda>s. tasks_ok s \<and> off_provider q rid {st. \<not> terminal_state st} s)
     (cancel_task env PNone (PInt q) reason (opt_int rid) True) (\<lambda>_. at_rest q QPM_TASK_CANCELLED) (\<lambda>_ _. True)"
    by (intro valid_pre [OF cancel_rests]) blast
qed (rule cancel_settled_alone)

section \<open>Completion queues\<close>

text \<open>
  C13. Adding a completion record always succeeds. The queue then holds a suffix of its unexpired
  records, the new one last, within the record and byte limits; no other queue changes.
\<close>

theorem enqueue_respects_limits:
  assumes "cq_ok s" "map_of (completion_queues s) rid = Some q" "record_ok rid r"
  shows "\<exists>t q' n. enqueue_completion_record env rid r s = (Inr (), t) \<and> cq_ok t \<and>
     map_of (completion_queues t) rid = Some q' \<and> within_limits (completion_retention s) q' \<and>
     cq_records q' = drop n (live_records (completion_retention s) (clock env (clock_reads s)) (cq_records q @ [r])) \<and>
     (\<forall>r'. r' \<noteq> rid \<longrightarrow> map_of (completion_queues t) r' = map_of (completion_queues s) r')"
  using assms by (rule enqueue_returns)

text \<open>C13 on an empty queue.\<close>

theorem enqueue_respects_limits_witness:
  "\<exists>t. enqueue_completion_record example_env 7 example_record (ensure_completion_queue 7 example_controller) = (Inr (), t) \<and> cq_ok t"
  using enqueue_respects_limits [OF example_cq_ok example_queue example_record_ok, of example_env] by blast

text \<open>
  C23. Consuming a record removes it: the answer is that record with its dequeue times, what is
  left in its queue is a subsequence of the other records, and no queue gains a record.
\<close>

theorem consume_removes_record:
  assumes "cq_ok s" "map_of (completion_queues s) rid = Some q" "r \<in> set (cq_records q)"
  shows "\<exists>t now seconds. consume_completion env rid r op s = (Inr (completion_public_record
        (dset ''qpm_cq_dequeue_time_ns'' (PInt now) (dset ''cq_dequeue_time'' seconds r)) op), t) \<and> cq_ok t \<and>
      shrinks s t \<and> (\<forall>q'. map_of (completion_queues t) rid = Some q' \<longrightarrow>
        subseq (cq_records q') (remove_record r (cq_records q)))"
  using assms by (rule consume_spec)

text \<open>C23 on a queue with one record.\<close>

theorem consume_removes_record_witness:
  "\<exists>x t. consume_completion example_env 7 example_record ''read_cq'' (example_controller
     \<lparr>completion_queues := [(7, add_record example_record (new_completion_queue 7))]\<rparr>) = (Inr x, t) \<and> cq_ok t"
proof -
  let ?s = "example_controller\<lparr>completion_queues := [(7, add_record example_record (new_completion_queue 7))]\<rparr>"
  have "queue_ok (add_record example_record (new_completion_queue 7))"
    by (rule queue_ok_add) (simp, simp add: example_record_ok new_completion_queue_def)
  then have "cq_ok ?s" by (simp add: cq_ok_def) (simp add: new_completion_queue_def)
  from consume_removes_record [OF this, where rid = 7 and r = example_record and q = "add_record example_record (new_completion_queue 7)"
      and env = example_env and op = "''read_cq''"]
  show ?thesis by auto
qed

text \<open>
  C24. A poll for a reservation answers with a ready record only when that record belongs to the
  reservation, and the answer shows no private field.
\<close>

theorem poll_is_isolated:
  "valid cq_ok (poll_completion env (Some rid) cid qtask_id consume op) (\<lambda>x _. answer_ok rid x) (\<lambda>_ _. True)"
  by (rule validI) (auto split: prod.splits sum.splits dest: poll_answer)

text \<open>C35. The purge of the completion queues always returns, and it keeps the queues consistent.\<close>

theorem purge_returns_always:
  "valid cq_ok (purge_completion_queues_locked now force) (\<lambda>_. cq_ok) (\<lambda>_ _. False)"
proof (rule validI)
  fix s assume ok: "cq_ok s"
  then obtain x t where "purge_completion_queues_locked now force s = (Inr x, t)" using purge_returns by blast
  moreover from this have "cq_ok t" using keepsD [OF keeps_purge ok, of now force] by simp
  ultimately show "case purge_completion_queues_locked now force s of (Inl e, t) \<Rightarrow> False | (Inr x, t) \<Rightarrow> cq_ok t" by simp
qed

section \<open>Identifiers\<close>

text \<open>
  C30. The persistent sequence always returns while one identifier of its range is free: it gives
  an identifier that is not active, inside the unsigned 64-bit range, and records it in the file.
\<close>

theorem sequence_allocates:
  assumes "seq_read f = Inr used" "1 \<le> t" "t \<le> UINT64_MAX" "t \<notin> set active"
  shows "\<exists>c. seq_allocate active f = Some (Inr c, seq_write c) \<and> c \<notin> set active \<and> 1 \<le> c \<and> c \<le> UINT64_MAX \<and>
    seq_read (seq_write c) = Inr c"
proof -
  from seq_read_range [OF assms(1)] have range: "0 \<le> used" "used \<le> UINT64_MAX" by auto
  have "used = 0 \<or> (1 \<le> used \<and> used \<le> UINT64_MAX \<and> steps_to used t \<le> steps_to used used)"
    using range steps_to_le_self assms(2,3) by auto
  from seq_search_free [OF range assms(2-4) this] obtain c where
    c: "seq_search active used used = Some (Inr c)" "c \<notin> set active" "1 \<le> c" "c \<le> UINT64_MAX" by blast
  with assms(1) seq_read_write [of c] show ?thesis by (auto simp: seq_allocate_def)
qed

text \<open>C30 on a file that says 3 while 4 is active.\<close>

theorem sequence_allocates_witness:
  "\<exists>c. seq_allocate [4] (seq_write 3) = Some (Inr c, seq_write c) \<and> c \<noteq> 4"
  using sequence_allocates [OF seq_read_write, of 3 5 "[4]"] by (simp add: UINT64_MAX_def) blast

section \<open>Requests and payloads\<close>

text \<open>
  C38. A circuit the client encodes as QPY is read back by the service byte for byte, when
  decompression inverts compression.
\<close>

theorem qpy_round_trip:
  assumes "encode_qiskit_circuit qpy dump gzip qasm properties = Inr info" "choose_circuit_format qpy properties = (fmt, version)"
    and "fmt \<in> set QPY_FORMATS" "dump version = Some raw" "raw \<noteq> []" "decompress (gzip raw) = Some raw" "gzip raw \<noteq> []"
  shows "circuit_payload decompress info = Inr (QPY, CBytes raw)"
proof -
  define bytes where "bytes = (if fmt = QPY_GZIP then gzip raw else raw)"
  have info: "info = [(''circuit'', PDict [(''format'', PStr fmt), (''data'', PStr (b64encode bytes))])]"
    using assms by (simp add: encode_qiskit_circuit_def dump_qpy_def bytes_def split: if_splits)
  have name: "format_name [(''format'', PStr fmt), (''data'', PStr (b64encode bytes))] = fmt"
    using assms(3) by (auto simp: QPY_FORMATS_def QPY_def QPY_GZIP_def; code_simp)
  have "b64encode bytes \<noteq> []" using assms b64encode_not_empty by (auto simp: bytes_def)
  then show ?thesis
    using info name assms(3,6) by (auto simp: circuit_payload_def pget_def b64_roundtrip bytes_def format_defs)
qed

text \<open>C38 on a device that takes compressed QPY, with a one-byte prefix as the compression.\<close>

theorem qpy_round_trip_witness:
  "circuit_payload (\<lambda>s. Some (tl s)) [(''circuit'', PDict [(''format'', PStr QPY_GZIP), (''data'', PStr (b64encode ''zabc''))])]
     = Inr (QPY, CBytes ''abc'')"
proof (rule qpy_round_trip)
  let ?properties = "[(''circuit_formats'', PList [PStr ''qpy+gzip'']), (''qpy_version'', PInt 13)]"
  show choice: "choose_circuit_format (Some (13, 10)) ?properties = (QPY_GZIP, Some 13)" by code_simp
  show "encode_qiskit_circuit (Some (13, 10)) (\<lambda>_. Some ''abc'') (\<lambda>s. CHR ''z'' # s) None ?properties =
      Inr [(''circuit'', PDict [(''format'', PStr QPY_GZIP), (''data'', PStr (b64encode ''zabc''))])]"
    by (simp add: encode_qiskit_circuit_def choice dump_qpy_def QPY_FORMATS_def)
qed (simp_all add: QPY_FORMATS_def)

section \<open>Usage, hosts and circuits\<close>

text \<open>
  C40. The numeric identifier of a target is the 64-bit hash of its name by the steps of FNV-1a from the start
  1469598103934665603, with zero replaced by one, and fits into 64 bits. It is not FNV-1a: that start lacks the last
  digit of its offset basis, and no name has the same hash under both.
\<close>

theorem target_id_is_word_hash:
  "target_numeric_id (Some name) =
     (let h = xor_multiply 1469598103934665603 name in if h = 0 then 1 else uint h) \<and>
   1 \<le> target_numeric_id target \<and> target_numeric_id target < 2 ^ 64 \<and> xor_multiply 1469598103934665603 name \<noteq> fnv1a name"
proof (intro conjI)
  have eq: "fnv_mask 1469598103934665603 n = uint (xor_multiply 1469598103934665603 n)" for n
    using fnv_mask_word [of 1469598103934665603 n] by simp
  show "target_numeric_id (Some name) =
     (let h = xor_multiply 1469598103934665603 name in if h = 0 then 1 else uint h)"
    by (simp add: target_numeric_id_def eq Let_def uint_0_iff)
  have "0 \<le> fnv_mask 1469598103934665603 n \<and> fnv_mask 1469598103934665603 n < 2 ^ 64" for n
    by (rule fnv_mask_range) simp_all
  then show "1 \<le> target_numeric_id target" "target_numeric_id target < 2 ^ 64"
    by (cases target; auto simp: target_numeric_id_def Let_def int_one_le_iff_zero_less less_le)+
  show "xor_multiply 1469598103934665603 name \<noteq> fnv1a name"
    by (simp add: fnv1a_def xor_multiply_inject)
qed



section \<open>Draining the waiting circuits\<close>

text \<open>C37. At most one thread drains at any moment, however the threads interleave, even when passes raise.\<close>

theorem one_drainer:
  "drain_reach raising s \<Longrightarrow> t \<in> holders s \<Longrightarrow> u \<in> holders s \<Longrightarrow> t = u"
  using reach_exclusive [of raising s] by (auto simp: exclusive_def split: if_splits)

text \<open>C37 on the thread that has taken the lock.\<close>

theorem one_drainer_witness:
  "\<exists>s. drain_reach True s \<and> holders s = {0}"
proof -
  let ?s = "fold drain_next [(False, 0), (False, 0), (False, 0)] drain_init"
  have reach: "drain_reach True ?s" by (rule drain_machine.always)
  have zero: "0 \<in> holders ?s" by (simp add: holders_def drain_next_def drain_init_def at_pc_def)
  have "t = 0" if "t \<in> holders ?s" for t by (rule one_drainer [OF reach that zero])
  with reach zero show ?thesis by blast
qed

text \<open>C36. When no pass raises and every thread has returned, every call has had a pass after it.\<close>

theorem no_call_is_lost:
  assumes "drain_reach False s" "\<And>t. pc s t = Idle"
  shows "\<not> unserved s"
  using assms by (rule quiescent_served)

text \<open>C36 on two threads, the second of which calls while the first is in its pass.\<close>

theorem no_call_is_lost_witness:
  "\<not> unserved (fold drain_next (map (\<lambda>t. (False, t)) [0, 0, 0, 0, 1, 1, 1, 0, 0, 0, 0, 0, 0, 0, 0, 0]) drain_init)"
  by (rule no_call_is_lost, rule quiet_run_reach) (simp_all add: drain_next_def drain_init_def at_pc_def)

section \<open>Reservations and credentials\<close>

text \<open>
  C3. When admission has accepted a reservation, binding its credential always comes to an end in one
  of two states: the reservation is accepted and has its metadata, its credential and a completion
  queue, or it is rejected and none of the three is left.
\<close>

theorem reservation_bound_or_forgotten:
  "\<exists>d t. accept_reservation env request decision s = (Inr d, t) \<and>
     (d = decision \<and> bound (record_reservation_id decision) t \<or>
      pget d ''status'' = PStr ''rejected'' \<and> pget d ''reason'' = PStr ''credential-binding-failed'' \<and>
      forgotten (record_reservation_id decision) t)"
  using valid_returns [OF accept_binds_or_forgets] by blast

text \<open>
  C14. A credential that gets bound was granted: without secret only in the mode that says so, from a file
  only the key of an enabled entry for the device under a user the request names, from an
  entitlement nothing that is a credential by name.
\<close>

theorem bound_key_is_entitled:
  assumes "bind_reservation_credential env binding mode s = (Inr (provider, response), t)"
  shows "\<exists>request. credential_request_from_binding binding = Inr request \<and>
    granted (access env (history s)) mode request provider response"
  using assms by (rule bound_credential)

text \<open>C14 on a user who holds a key for the device.\<close>

theorem bound_key_is_entitled_witness:
  "\<exists>request provider response t.
     bind_reservation_credential key_env key_binding ''required'' job_controller = (Inr (provider, response), t) \<and>
     pget request ''user'' = PStr ''ann'' \<and> granted key_access ''required'' request provider response"
proof -
  have "key_bound \<noteq> None" by code_simp
  then obtain provider response t where
    run: "bind_reservation_credential key_env key_binding ''required'' job_controller = (Inr (provider, response), t)"
    unfolding key_bound_def
    by (cases "bind_reservation_credential key_env key_binding ''required'' job_controller") (auto split: sum.splits)
  have "access key_env h = key_access" for h by (simp add: key_env_def)
  with bound_key_is_entitled [OF run] obtain request where
    "credential_request_from_binding key_binding = Inr request" "granted key_access ''required'' request provider response"
    by auto
  moreover from this(1) have "pget request ''user'' = PStr ''ann''"
    by (auto simp: credential_request_from_binding_def key_binding_def pget_def py_dict_or_empty_def py_dict_def py_or_def)
  ultimately show ?thesis using run by blast
qed

text \<open>
  C25. What the controller records of a request as its binding carries no value under a sensitive name at
  any depth, whatever the owner, the launcher, the analytics and the credential context of the
  request hold, as long as the identifiers themselves hold none.
\<close>

theorem binding_is_secret_free:
  assumes "admission_request (Some request) token s = (Inr sent, t)"
    and "request_parts_of request (target_id (config s)) = Inr p" and "plain_identifiers p"
  shows "secret_free (PDict (binding_of sent))"
  unfolding secret_free_dict using assms by (rule request_binding_free)

text \<open>C25 on a request whose owner carries a key.\<close>

theorem binding_is_secret_free_witness:
  "\<exists>sent t. admission_request (Some [(''owner'', PDict [(''api_key'', PStr ''k'')])]) False example_controller = (Inr sent, t) \<and>
     secret_free (PDict (binding_of sent))"
proof -
  let ?r = "[(''owner'', PDict [(''api_key'', PStr ''k'')])]"
  let ?run = "admission_request (Some ?r) False example_controller"
  have "well_formed ?r" by code_simp
  from request_returns [OF this] obtain sent t where run: "?run = (Inr sent, t)" by blast
  have "\<exists>p. request_parts_of ?r (target_id (config example_controller)) = Inr p"
    by (simp add: request_parts_of_def py_dict_def pgetd_def)
  then obtain p where p: "request_parts_of ?r (target_id (config example_controller)) = Inr p" by blast
  then have "plain_identifiers p"
    by (auto simp: plain_identifiers_def request_parts_of_def py_dict_def pgetd_def pget_def py_or_def owner_identifier_def
        example_controller_def example_config_def new_controller_def)
  from binding_is_secret_free [OF run p this] run show ?thesis by blast
qed

text \<open>
  C5. A request that passes validation runs under a reservation that is active, not closing and not
  expired, and names the same device, scope, job and session and a compatible operation wherever
  both sides name one: equal numbers, equal texts, or a text and the very number the controller has for that text.
\<close>

theorem validated_request_matches:
  assumes "ids_ok s" "validate_reservation_for_context env ctx operation s = (Inr reservation, t)"
  shows "\<exists>rid. rc_reservation_id ctx = Some rid \<and> 1 \<le> rid \<and> rid \<le> UINT64_MAX \<and>
    \<not> has_key (reservation_close_state s) rid \<and>
    belongs_to t (rc_metadata ctx) reservation (reservation_metadata reservation s) \<and>
    (py_truth (pget reservation ''expires_at_ns'') \<longrightarrow>
       (\<exists>e. py_number (pget reservation ''expires_at_ns'') = Inr e \<and> clock env (clock_reads s) < e))"
  using validated_context [OF assms] by metis

text \<open>C5 on the job a reservation was made for.\<close>

theorem validated_request_matches_witness:
  "\<exists>reservation t. validate_reservation_for_context job_env (job_context (PStr ''slurm-7'')) ''execution'' job_controller =
       (Inr reservation, t) \<and>
     belongs_to t [(''job_id'', PStr ''slurm-7'')] reservation (reservation_metadata reservation job_controller)"
proof -
  have "job_accepted (PStr ''slurm-7'')" by code_simp
  then obtain reservation t where
    run: "validate_reservation_for_context job_env (job_context (PStr ''slurm-7'')) ''execution'' job_controller = (Inr reservation, t)"
    unfolding job_accepted_def
    by (cases "validate_reservation_for_context job_env (job_context (PStr ''slurm-7'')) ''execution'' job_controller")
      (auto split: sum.splits)
  from validated_request_matches [OF job_ids_ok run] run show ?thesis by (auto simp: job_context_def)
qed

section \<open>The service\<close>

text \<open>
  C4. Preparing a circuit accounts for every slot of the hosts. When it returns the circuit, exactly the slots that are
  missing are recorded in that circuit. When it raises, every host has what it had; unless the error is the one of
  recording the failure itself, or the call did not come back: then the slots may be missing, and they are exactly those
  recorded in the circuit. No host may have more than \<open>max_ppn\<close> slots, and the hook of the concrete service must leave
  the record of the slots alone.
\<close>

theorem prepare_accounts_for_slots:
  assumes "hook_keeps_slots env" "dict_ok (sv_hosts s)" "\<And>h. slots (sv_hosts s) h \<le> own_max_ppn env"
    and "prepare_run_circuit env cid require_selected s = (r, t)"
  shows "(\<exists>e. r = Inl e) \<and> slots (sv_hosts t) = slots (sv_hosts s) \<or>
    (\<exists>c taken. (r = Inr c \<or> not_recorded env c r t) \<and> circuit_hosts c (sv_controller t) = Inr taken \<and>
      (\<forall>h. slots (sv_hosts s) h = slots (sv_hosts t) h + slots taken h))"
proof -
  have "\<exists>taken. circuit_hosts c (sv_controller t) = Inr taken \<and>
      (\<forall>h. slots (sv_hosts s) h = slots (sv_hosts t) h + slots taken h)" if "took_slots env c s t" for c
  proof -
    from that obtain np taken where "consume_resources (own_max_ppn env) np (sv_hosts s) = (Inr taken, sv_hosts t)"
      "slots_lent c taken (sv_hosts t) t" by (auto simp: took_slots_def)
    moreover from this(1) assms(2) have "consume_request (own_max_ppn env, np) (sv_hosts s) = (Inr taken, sv_hosts t)"
      by (simp add: consume_request_eq)
    ultimately show ?thesis using host_pool.taken recorded_hosts by (auto simp: slots_lent_def)
  qed
  with prepare_slots [OF assms] show ?thesis by blast
qed

text \<open>C4 on a service with two slots that prepares a circuit of one process.\<close>

theorem prepare_accounts_for_slots_witness:
  "\<exists>t taken. prepare_run_circuit (small_env deaf_scheduler Inr) ''c'' True small_service = (Inr ''c'', t) \<and>
     circuit_hosts ''c'' (sv_controller t) = Inr taken \<and> (\<forall>h. slots [(''n'', 2)] h = slots (sv_hosts t) h + slots taken h)"
proof -
  have "fst (prepare_run_circuit (small_env deaf_scheduler Inr) ''c'' True small_service) = Inr ''c''" by code_simp
  then obtain t where run: "prepare_run_circuit (small_env deaf_scheduler Inr) ''c'' True small_service = (Inr ''c'', t)"
    by (metis prod.collapse)
  have "hook_keeps_slots (small_env deaf_scheduler Inr)" by (simp add: hook_keeps_slots_def small_env_def)
  moreover have "dict_ok (sv_hosts small_service)" by (simp add: small_service_def dict_ok_def)
  moreover have "slots (sv_hosts small_service) h \<le> own_max_ppn (small_env deaf_scheduler Inr)" for h
    by (simp add: small_service_def small_env_def slots_Cons)
  ultimately show ?thesis using prepare_accounts_for_slots [OF _ _ _ run] run by (fastforce simp: small_service_def not_recorded_def)
qed

text \<open>C26. A service that drains, stops or has stopped refuses every run and is left exactly as it was.\<close>

theorem closed_service_starts_nothing:
  assumes "service_state (sv_controller s) \<noteq> ''running''"
  shows "(\<exists>e. async_run env info rid token timeout cancel s = (Inl e, s)) \<and>
    (\<exists>e. sync_run env fuel info rid token timeout cancel s = Some (Inl e, s))"
  by (simp add: not_running_refused [OF assms])

text \<open>C26 on a service that is draining.\<close>

theorem closed_service_starts_nothing_witness:
  "\<exists>e. async_run (small_env no_capacity Inr) [] (PInt 7) PNone PNone PNone
     (small_service\<lparr>sv_controller := example_controller\<lparr>service_state := ''draining''\<rparr>\<rparr>) =
     (Inl e, small_service\<lparr>sv_controller := example_controller\<lparr>service_state := ''draining''\<rparr>\<rparr>)"
  by (rule closed_service_starts_nothing [THEN conjunct1]) simp

text \<open>
  C29. The three walks over the waiting queue, which take every entry out and put back what stays, are
  the plain list operations: dropping ended tasks, removing one entry, finding the first unscheduled one.
\<close>

theorem queue_walks_refine_lists:
  "prune_oor_queue s = (let live = filter (\<lambda>cid. \<not> task_ended (task_for_cid cid (sv_controller s))) (oor_queue s)
     in (Inr live, s\<lparr>oor_queue := live\<rparr>)) \<and>
   remove_oor_cid (Some cid) s = (Inr (), s\<lparr>oor_queue := remove1 cid (oor_queue s)\<rparr>) \<and>
   next_oor_cid_without_scheduler_task s = (Inr (List.find (unscheduled (sv_controller s)) (oor_queue s)), s)"
  by (simp add: prune_oor_queue_def remove_oor_cid_def next_oor_cid_without_scheduler_task_def monad_defs
      prune_walk_filter remove_walk_remove1 next_walk_find Let_def)

section \<open>Configuration and reconciliation\<close>

text \<open>
  C22. Reconciliation spares the hold of a task in use: while the circuit of the task is listed, its hold
  and its entry stay when admission reports its reservation active, and when the provider that has the
  task does not confirm that it is over.
\<close>

theorem reconcile_spares_holds_in_use:
  assumes "admission_reports env (ch_reservation_id h) (PStr ''active'') \<or>
    (\<exists>ph. rt_provider_handle r = Some ph \<and> cancel_unconfirmed env ph)"
  shows "keeps (hold_in_use q h r) (reconcile_runtime_state env now)"
  using assms active_hold_stays unconfirmed_hold_stays by (intro reconcile_keeps_hold) blast

text \<open>C22 on an admission service that always answers that the reservation is active.\<close>

theorem reconcile_spares_holds_in_use_witness:
  "keeps (hold_in_use 1 \<lparr>ch_reservation_id = 7, ch_usage = [], ch_decision = []\<rparr> example_task)
     (reconcile_runtime_state (example_env\<lparr>respond := (\<lambda>_ _. Inr (EVal (PDict [(''state'', PStr ''active'')])))\<rparr>) None)"
  by (rule reconcile_spares_holds_in_use)
    (simp add: admission_reports_def example_env_def normalize_reservation_id_def reservation_dict_def pget_def UINT64_MAX_def
      py_int_def is_int_def)

text \<open>
  C27. A change of the admission policy is all or nothing: when it raises, profile, configuration and both
  versions are as before, and a caller whose expected version is not the current one is refused.
\<close>

theorem policy_change_all_or_nothing:
  assumes "map_of d ''expected_version'' = Some (PInt n)" "n \<noteq> int (admission_policy_version s)"
  shows "valid (\<lambda>s. policy_state s = c) (set_admission_policy env configuration wanted) (\<lambda>_ _. True) (\<lambda>_ s. policy_state s = c) \<and>
    (\<exists>e t. set_admission_policy env (PDict d) wanted s = (Inl e, t) \<and> policy_state t = policy_state s)"
  by (simp add: failed_policy_change stale_version_refused [OF assms])

text \<open>C27 on a new controller and a caller that expects version 3.\<close>

theorem policy_change_all_or_nothing_witness:
  "\<exists>e t. set_admission_policy example_env (PDict [(''expected_version'', PInt 3)]) PNone example_controller = (Inl e, t) \<and>
     policy_state t = policy_state example_controller"
  by (rule policy_change_all_or_nothing [where n = 3, THEN conjunct2]) (simp_all add: example_controller_def new_controller_def)

text \<open>
  C28. The admission configuration a controller stores is well formed: a known policy with exactly the
  capacity fields of that policy, all positive, the baseline estimator, and a complete baseline circuit of
  non-negative integers whose qubits, depth, shots and measurements are not zero.
\<close>

theorem stored_configuration_well_formed:
  "keeps stored_configuration_ok (set_admission_policy env configuration wanted)"
  by (rule keeps_stored_configuration)

section \<open>Clients\<close>

text \<open>
  C8. What a resolution returns is a candidate that matches the request and the configured scopes,
  satisfies the provider and the simulator policy, comes first in the configured order among all
  candidates that do, and is the only one of its rank.
\<close>

theorem resolution_is_sound:
  assumes "resolve env rv timeout fallback_given request = Inr c"
  shows "\<exists>cs r. r = effective_request env fallback_given request \<and> await_candidates env rv r 0 timeout = Inr cs \<and> c \<in> set cs \<and>
     candidate_allowed rv c \<and> matches_request c r = Inr True \<and>
     (request_requires_hardware r \<longrightarrow> candidate_is_simulator c \<longrightarrow> simulator_fallback_allowed r) \<and>
     (\<forall>p. rq_provider r = Some p \<longrightarrow> p \<noteq> [] \<longrightarrow> pget (rb_properties c) ''provider'' = PStr p) \<and>
     (\<forall>d. eligible r cs d \<longrightarrow> selection_sort_key rv c \<le> selection_sort_key rv d) \<and>
     (\<not> rv_allow_ambiguous rv \<longrightarrow> (\<forall>d. eligible r cs d \<longrightarrow> selection_rank rv d = selection_rank rv c \<longrightarrow> d = c))"
  using resolve_sound [OF assms] by (auto simp: eligible_def fitting_def given_def)

text \<open>C8 on a directory with one service.\<close>

theorem resolution_is_sound_witness:
  "\<exists>c. resolve sample_env sample_resolver 1 True sample_request = Inr c \<and> candidate_allowed sample_resolver c \<and>
     matches_request c sample_request = Inr True"
proof -
  have "\<not> isl (resolve sample_env sample_resolver 1 True sample_request)" by code_simp
  then obtain c where c: "resolve sample_env sample_resolver 1 True sample_request = Inr c" by (metis isl_def sum.exhaust)
  have "effective_request sample_env True sample_request = sample_request" by (simp add: effective_request_def)
  with resolution_is_sound [OF c] c show ?thesis by auto
qed

text \<open>
  C7. A client of a reservation reaches the runtime it was resolved to and no other: whatever events
  arrive, threads run and connections are lost or made in between, a call through its binding that
  gets a connection gets one that was made with a record of that runtime, to the API it was resolved
  for; a call that would reach another runtime raises.
\<close>

theorem managed_client_keeps_its_runtime:
  assumes "connect_reserved_managed env answer rv service_id timeout api_category binding_name = Inr (resolved, api, s0)"
    and "binding_steps answer (s0, None) x"
    and "binding_step answer (Got (ma_binding_name api) (ma_expected_runtime_id api) c) x y"
    and "rb_runtime_id resolved \<noteq> PNone"
  shows "py_eq (pget (qc_record c) ''runtime_id'') (rb_runtime_id resolved) \<and>
         py_eq (lb_runtime_id (fst y)) (rb_runtime_id resolved) \<and>
         pget (qc_binding c) ''binding_name'' = PStr (ma_binding_name api)"
  using managed_client_given [OF assms(1-3)] assms(1,4)
  by (auto simp: connect_reserved_managed_def bindR_Inr given_client_def belongs_def py_eq_def)

text \<open>C7 on a directory with one service: the first call connects.\<close>

theorem managed_client_keeps_its_runtime_witness:
  "\<exists>resolved api s0 c t. connect_reserved_managed sample_env sample_answer sample_resolver ''q'' 1 ''execution'' None =
       Inr (resolved, api, s0) \<and>
     client sample_answer ''execution'' (PStr ''r1'') s0 = (Inr c, t) \<and>
     py_eq (pget (qc_record c) ''runtime_id'') (PStr ''r1'') \<and> pget (qc_binding c) ''binding_name'' = PStr ''execution''"
proof -
  let ?run = "connect_reserved_managed sample_env sample_answer sample_resolver ''q'' 1 ''execution'' None"
  have "(case ?run of Inl e \<Rightarrow> False | Inr (resolved, api, s0) \<Rightarrow> rb_runtime_id resolved = PStr ''r1'' \<and>
      api = \<lparr>ma_binding_name = ''execution'', ma_expected_runtime_id = PStr ''r1''\<rparr> \<and>
      isl (fst (client sample_answer ''execution'' (PStr ''r1'') s0)) = False)" by code_simp
  then obtain resolved api s0 where run: "?run = Inr (resolved, api, s0)" and resolved: "rb_runtime_id resolved = PStr ''r1''"
    and api: "api = \<lparr>ma_binding_name = ''execution'', ma_expected_runtime_id = PStr ''r1''\<rparr>"
    and "\<not> isl (fst (client sample_answer ''execution'' (PStr ''r1'') s0))"
    by (auto split: sum.splits)
  then obtain c t where c: "client sample_answer ''execution'' (PStr ''r1'') s0 = (Inr c, t)"
    by (metis old.prod.exhaust fst_conv isl_def sum.exhaust)
  moreover have "binding_ok s0"
    using run by (auto simp: connect_reserved_managed_def bindR_Inr dest: managed_binding_ok)
  ultimately obtain x where "binding_steps sample_answer (s0, None) x"
    "binding_step sample_answer (Got ''execution'' (PStr ''r1'') c) x (t, None)" by (metis client_runs)
  with managed_client_keeps_its_runtime [OF run, of x c "(t, None)"] resolved api run c show ?thesis by auto
qed

section \<open>Runs and service planes\<close>



text \<open>
  C10. A process that cannot be asked for is never taken for one that is gone: a stop of its plane raises,
  and where the components are stopped the component stays on record with its process, as an error.
\<close>

theorem unanswered_probe_fails_the_stop:
  assumes "read_plane_state env run_dir True s = (Inr (Some state), u)" "\<not> component_stopped state"
    and "\<not> py_truth (pget state ''dry_run'')" "plane_components state = Inr cs" "(key, c) \<in> set cs" "unanswered env state c"
  shows "(\<exists>e t. stop_locked env run_dir s = (Inl e, t)) \<and>
    (\<forall>state' errors t. stop_components env state u = (Inr (state', errors), t) \<longrightarrow> errors \<noteq> [] \<and>
      (\<exists>cs' c'. plane_components state' = Inr cs' \<and> (key, c') \<in> set cs' \<and> pget c' ''state'' = PStr ''error'' \<and>
        pget c' ''pid'' = pget c ''pid'' \<and> pget c' ''process_identity'' = pget c ''process_identity'' \<and> pget c' ''node'' = pget c ''node''))"
  using unanswered_stop_raises [OF assms] unanswered_fails [OF assms(6,3,4,5)] by blast

text \<open>C10 on a machine that does not answer.\<close>

theorem unanswered_probe_fails_the_stop_witness:
  "\<exists>e t. stop_locked deaf_machine ''/r'' recorded_run = (Inl e, t)"
  by (rule unanswered_probe_fails_the_stop [OF recorded_read recorded_parts(2,4,1) _ deaf_unanswered, THEN conjunct1]) simp

text \<open>
  C11. A plane that may be running is not taken over: when a component that was not stopped is alive or
  cannot be asked for, another start in the same directory raises and writes no file.
\<close>

theorem live_plane_is_not_taken_over:
  assumes "read_plane_state env run_dir False s = (Inr (Some state), u)" "\<not> component_stopped state" "quiet env"
    and "plane_components state = Inr cs" "(key, c) \<in> set cs" "maybe_running env state c" "\<not> component_stopped c"
  shows "\<exists>e t. start_locked env args run_dir s = (Inl e, t) \<and> file_system (pl_disk t) = file_system (pl_disk s)"
  using assms by (rule live_plane_is_refused)

text \<open>C11 on a machine that does not answer.\<close>

theorem live_plane_is_not_taken_over_witness:
  "\<forall>args. \<exists>e t. start_locked deaf_machine args ''/r'' recorded_run = (Inl e, t) \<and>
     file_system (pl_disk t) = file_system (pl_disk recorded_run)"
  using live_plane_is_not_taken_over [OF recorded_read recorded_parts(2) deaf_quiet recorded_parts(1) _
      unanswered_maybe_running [OF deaf_unanswered] recorded_parts(3)] by simp

text \<open>
  C31. A plane that is reported ready has exactly the components its configuration asks for, and, unless it
  is a dry run, the process of each was seen alive with its recorded identity while the report was made.
\<close>

theorem ready_plane_was_seen_alive:
  assumes "status env run_dir s = (Inr state', t)" "pget state' ''state'' = PStr ''ready''"
  shows "\<exists>dir state u v cs expected. resolve_run_dir env run_dir = Inr dir \<and> grown (pl_calls s) u \<and>
    read_plane_state env dir True u = (Inr (Some state), v) \<and> plane_components state = Inr cs \<and>
    expected_component_keys state = Inr expected \<and> set (map fst cs) = set expected \<and>
    (py_truth (pget state ''dry_run'') \<or> list_all (\<lambda>kc. seen_alive env state (snd kc) v t) cs)"
  using assms by (rule status_accounts)

text \<open>C31 on a plane with one live QPM.\<close>

theorem ready_plane_was_seen_alive_witness:
  "\<exists>state' t u v state cs. status live_machine (PStr ''/r'') recorded_run = (Inr state', t) \<and> pget state' ''state'' = PStr ''ready'' \<and>
     read_plane_state live_machine ''/r'' True u = (Inr (Some state), v) \<and> plane_components state = Inr cs"
proof -
  obtain state' t where run: "status live_machine (PStr ''/r'') recorded_run = (Inr state', t)" "pget state' ''state'' = PStr ''ready''"
    using live_plane_ready by (cases "status live_machine (PStr ''/r'') recorded_run") (auto split: sum.split_asm)
  have "resolve_run_dir live_machine (PStr ''/r'') = Inr ''/r''" by code_simp
  with ready_plane_was_seen_alive [OF run] run show ?thesis by auto
qed





text \<open>
  C33. A shell that reads the environment file of a prepared run has exactly the variables the run recorded:
  every value comes back as it was, whatever characters it has, and no line does anything else.
\<close>

theorem environment_file_is_sourced:
  assumes "prepare_run_state env r s = (Inr state, t)"
  shows "\<exists>e content. map_of (file_system t) (join_path (snd (run_places env r)) ''qfw-runtime-env.sh'') = Some (Text_file content) \<and>
    pget state ''environment'' = text_dict e \<and> source_file content = Some (text_sort fst e)"
  using assms by (rule prepared_file_sourced)

text \<open>C33 on a run without a site.\<close>

theorem environment_file_is_sourced_witness:
  "\<exists>state t e content. prepare_run_state plain_env (plain_request []) empty_disk = (Inr state, t) \<and>
     pget state ''environment'' = text_dict e \<and> source_file content = Some (text_sort fst e)"
  using plain_run_prepared [of "[]"] environment_file_is_sourced by blast

section \<open>The commands and the launcher\<close>



text \<open>
  C21. In the environment assembled for an application every variable that describes a DEFw process or a run is
  the one its own run recorded, and is absent when the run recorded none, whatever the shell that starts it has.
\<close>

theorem application_environment_is_own:
  assumes "n \<in> set DEFW_PROCESS_VARIABLES \<union> set RUN_STATE_VARIABLES" "dict_ok runtime_env"
  shows "map_of (application_environment vars runtime_env) n = map_of runtime_env n"
  using assms by (rule application_own)

text \<open>C21 on a shell that is inside another run.\<close>

theorem application_environment_is_own_witness:
  "map_of (application_environment [(''DEFW_PARENT_PORT'', ''1'')] [(''QFW_RUN_ID'', ''x'')]) ''DEFW_PARENT_PORT'' = None"
  by (subst application_environment_is_own) (simp_all add: DEFW_PROCESS_VARIABLES_def dict_ok_def)



end
